(* ===== verification/T2_Prelude.thy ===== *)
theory T2_Prelude
  imports Main "HOL-Library.Word"
begin

text \<open>
  The prelude of the development: Python exceptions as values of a sum type, the two
  combinators every operation of the model is written with, and the rewriting that turns
  ``this operation returned normally'' into the conjunction of the guards it passed.
  It also holds the \<open>named_theorems\<close> collections and the list lemmas the components share.
\<close>

section \<open>Collections\<close>

named_theorems res_simps \<open>inversion of a computation that returned normally\<close>
named_theorems py_simps \<open>evaluation of Python values\<close>

section \<open>Exceptions\<close>

text \<open>
  The exception classes the modelled code raises. The classes of the standard library come
  first; the others are the classes the modules under \<^verbatim>\<open>src/src/\<close> declare.
\<close>

datatype exc_class =
    ValueError | TypeError | KeyError | IndexError | RuntimeError
  | TimeoutError | ConnectionError | EOFError | StructError
  | JournalError | EnrollmentJournalError | PersistenceJournalError | IdentityDeleteJournalError
  | IdentityRenameJournalError | EnrollmentOperationError | EnrollmentPreDispatchCancelled
  | ACMProtocolError | EnrollmentProtocolError | CatacombProtocolError | BioLockoutProtocolError
  | AKSStateError | FprintIdentityError | FprintSequenceError | FprintMatchSelectionError
  | FprintMatchGateError | IdentityInventoryError | IdentityDeleteError | IdentityDeleteBridgeError
  | IdentityDeleteOperationError | CatacombCodecError | AttributeError | AssertionError | OSError

text \<open>
  An exception is its class and a text that identifies the \<^verbatim>\<open>raise\<close> statement: the message of the
  source up to its first interpolated value.
\<close>

datatype exc = Exc (exc_class: exc_class) (exc_text: string)

type_synonym 'a res = "exc + 'a"

text \<open>\<^verbatim>\<open>issubclass\<close> on the classes above.\<close>

fun issubclass :: "exc_class \<Rightarrow> exc_class \<Rightarrow> bool" where
  "issubclass EnrollmentJournalError c = (c \<in> {EnrollmentJournalError, JournalError, RuntimeError})"
| "issubclass PersistenceJournalError c = (c \<in> {PersistenceJournalError, JournalError, RuntimeError})"
| "issubclass IdentityDeleteJournalError c = (c \<in> {IdentityDeleteJournalError, JournalError, RuntimeError})"
| "issubclass IdentityRenameJournalError c = (c \<in> {IdentityRenameJournalError, JournalError, RuntimeError})"
| "issubclass EnrollmentPreDispatchCancelled c =
     (c \<in> {EnrollmentPreDispatchCancelled, EnrollmentOperationError, RuntimeError})"
| "issubclass EnrollmentOperationError c = (c \<in> {EnrollmentOperationError, RuntimeError})"
| "issubclass JournalError c = (c \<in> {JournalError, RuntimeError})"
| "issubclass FprintSequenceError c = (c \<in> {FprintSequenceError, RuntimeError})"
| "issubclass ACMProtocolError c = (c \<in> {ACMProtocolError, ValueError})"
| "issubclass EnrollmentProtocolError c = (c \<in> {EnrollmentProtocolError, ValueError})"
| "issubclass CatacombProtocolError c = (c \<in> {CatacombProtocolError, ValueError})"
| "issubclass BioLockoutProtocolError c = (c \<in> {BioLockoutProtocolError, ValueError})"
| "issubclass AKSStateError c = (c \<in> {AKSStateError, ValueError})"
| "issubclass FprintIdentityError c = (c \<in> {FprintIdentityError, ValueError})"
| "issubclass FprintMatchSelectionError c = (c \<in> {FprintMatchSelectionError, ValueError})"
| "issubclass FprintMatchGateError c = (c \<in> {FprintMatchGateError, ValueError})"
| "issubclass CatacombCodecError c = (c \<in> {CatacombCodecError, ValueError})"
| "issubclass IdentityInventoryError c = (c \<in> {IdentityInventoryError, ValueError})"
| "issubclass IdentityDeleteError c = (c \<in> {IdentityDeleteError, ValueError})"
| "issubclass IdentityDeleteBridgeError c = (c \<in> {IdentityDeleteBridgeError, RuntimeError})"
| "issubclass IdentityDeleteOperationError c = (c \<in> {IdentityDeleteOperationError, RuntimeError})"
| "issubclass TimeoutError c = (c \<in> {TimeoutError, OSError})"
| "issubclass ConnectionError c = (c \<in> {ConnectionError, OSError})"
| "issubclass x c = (c = x)"

section \<open>Sequencing\<close>

text \<open>\<open>and_then r f\<close> runs \<open>f\<close> on the value of \<open>r\<close>; an exception of \<open>r\<close> propagates.\<close>

definition and_then :: "'a res \<Rightarrow> ('a \<Rightarrow> 'b res) \<Rightarrow> 'b res" where
  "and_then r f = (case r of Inl e \<Rightarrow> Inl e | Inr x \<Rightarrow> f x)"

text \<open>\<^verbatim>\<open>try: r except c as error: raise d(str(error)) from error\<close>\<close>

definition rewrap :: "exc_class \<Rightarrow> exc_class \<Rightarrow> 'a res \<Rightarrow> 'a res" where
  "rewrap c d r = (case r of
     Inl e \<Rightarrow> (if issubclass (exc_class e) c then Inl (Exc d (exc_text e)) else Inl e)
   | Inr x \<Rightarrow> Inr x)"

text \<open>\<^verbatim>\<open>try: r except c as error: raise e from error\<close>\<close>

definition replace_exc :: "exc_class \<Rightarrow> exc \<Rightarrow> 'a res \<Rightarrow> 'a res" where
  "replace_exc c e r = (case r of
     Inl e0 \<Rightarrow> (if issubclass (exc_class e0) c then Inl e else Inl e0)
   | Inr x \<Rightarrow> Inr x)"

text \<open>A \<^verbatim>\<open>for\<close> loop whose body may raise; the state is what the body updates.\<close>

fun fold_res :: "('x \<Rightarrow> 's \<Rightarrow> 's res) \<Rightarrow> 'x list \<Rightarrow> 's \<Rightarrow> 's res" where
  "fold_res f [] s = Inr s"
| "fold_res f (x # xs) s = and_then (f x s) (fold_res f xs)"

text \<open>A list of checks made one after the other.\<close>

fun all_ok :: "unit res list \<Rightarrow> unit res" where
  "all_ok [] = Inr ()"
| "all_ok (r # rs) = and_then r (\<lambda>_. all_ok rs)"

lemma and_then_simps [simp]:
  "and_then (Inl e) f = Inl e"
  "and_then (Inr x) f = f x"
  by (simp_all add: and_then_def)

lemma and_then_Inr_iff [res_simps]:
  "and_then r f = Inr y \<longleftrightarrow> (\<exists>x. r = Inr x \<and> f x = Inr y)"
  by (cases r) auto

lemma guard_Inr_iff [res_simps]:
  "(if c then Inl e else r) = Inr y \<longleftrightarrow> \<not> c \<and> r = Inr y"
  by simp

text \<open>Elimination of one branch of a chain of tests at a time; the failed tests are dropped.\<close>

lemma if_InrE: "(if c then x else y) = Inr z \<Longrightarrow> (c \<Longrightarrow> x = Inr z \<Longrightarrow> P) \<Longrightarrow> (y = Inr z \<Longrightarrow> P) \<Longrightarrow> P"
  by (cases c) auto

lemma guard_InrE: "(if c then Inl e else r) = Inr z \<Longrightarrow> (\<not> c \<Longrightarrow> r = Inr z \<Longrightarrow> P) \<Longrightarrow> P"
  by (cases c) auto

lemma and_then_InrE: "and_then r f = Inr z \<Longrightarrow> (\<And>x. r = Inr x \<Longrightarrow> f x = Inr z \<Longrightarrow> P) \<Longrightarrow> P"
  by (cases r) auto

lemma Inl_InrE: "Inl e = Inr z \<Longrightarrow> P"
  by simp

lemma rewrap_Inr_iff [res_simps]: "rewrap c d r = Inr y \<longleftrightarrow> r = Inr y"
  by (cases r) (auto simp: rewrap_def)

lemma replace_exc_Inr_iff [res_simps]: "replace_exc c e r = Inr y \<longleftrightarrow> r = Inr y"
  by (cases r) (auto simp: replace_exc_def)

lemma rewrap_Inr [simp]: "rewrap c d (Inr y) = Inr y"
  by (simp add: rewrap_def)

lemma replace_exc_Inr [simp]: "replace_exc c e (Inr y) = Inr y"
  by (simp add: replace_exc_def)

lemma all_ok_iff [res_simps]: "all_ok rs = Inr u \<longleftrightarrow> (\<forall>r\<in>set rs. r = Inr ())"
  by (induction rs) (auto simp: res_simps)

lemma and_then_cong [fundef_cong]:
  "r = r' \<Longrightarrow> (\<And>x. r' = Inr x \<Longrightarrow> f x = f' x) \<Longrightarrow> and_then r f = and_then r' f'"
  by (cases r') auto

lemma fold_res_append:
  "fold_res f (xs @ ys) s = and_then (fold_res f xs s) (fold_res f ys)"
proof (induction xs arbitrary: s)
  case Nil
  show ?case by simp
next
  case (Cons x xs)
  then show ?case by (cases "f x s") auto
qed

text \<open>An invariant that every iteration keeps holds after the loop.\<close>

lemma fold_res_invariant:
  assumes "fold_res f xs s = Inr t" and "P s"
    and "\<And>x s s'. x \<in> set xs \<Longrightarrow> P s \<Longrightarrow> f x s = Inr s' \<Longrightarrow> P s'"
  shows "P t"
  using assms
proof (induction xs arbitrary: s)
  case Nil
  then show ?case by simp
next
  case (Cons x xs)
  from Cons.prems(1) obtain s' where "f x s = Inr s'" and rest: "fold_res f xs s' = Inr t"
    by (auto simp: res_simps)
  with Cons.prems(2,3) have "P s'" by auto
  from rest this Cons.prems(3) show ?case by (rule Cons.IH) auto
qed

end
