(* ===== verification/Py_Value.thy ===== *)
theory Py_Value
  imports T2_Prelude "HOL-Library.List_Lexorder" "HOL-Library.Char_ord"
begin

text \<open>
  The Python values the journals are made of: what \<^verbatim>\<open>json.loads\<close> returns and what callers pass
  as evidence. The universe is \<^verbatim>\<open>None\<close>, \<^verbatim>\<open>bool\<close>, \<^verbatim>\<open>int\<close>, \<^verbatim>\<open>str\<close>, \<^verbatim>\<open>bytes\<close>, \<^verbatim>\<open>bytearray\<close>, \<^verbatim>\<open>list\<close>,
  \<^verbatim>\<open>tuple\<close> and \<^verbatim>\<open>dict\<close>; floating-point numbers are outside it. A \<^verbatim>\<open>str\<close> is a list of code
  points below 256. The theory models what the sources use of these types: \<^verbatim>\<open>==\<close> (with
  \<^verbatim>\<open>True == 1\<close>), hashing, \<^verbatim>\<open>dict.get\<close>, membership, and the text predicates behind UUID and
  digest checks.
\<close>

section \<open>Values\<close>

type_synonym byte = "8 word"
type_synonym bytes = "byte list"

datatype pykey = KInt int | KStr string

instantiation pykey :: linorder
begin

fun less_eq_pykey :: "pykey \<Rightarrow> pykey \<Rightarrow> bool" where
  "less_eq_pykey (KInt i) (KInt j) = (i \<le> j)"
| "less_eq_pykey (KInt i) (KStr t) = True"
| "less_eq_pykey (KStr s) (KInt j) = False"
| "less_eq_pykey (KStr s) (KStr t) = (s \<le> t)"

definition less_pykey :: "pykey \<Rightarrow> pykey \<Rightarrow> bool" where
  "less_pykey x y = (x \<le> y \<and> \<not> y \<le> x)"

instance
proof
  fix x y z :: pykey
  show "x < y \<longleftrightarrow> x \<le> y \<and> \<not> y \<le> x" by (simp add: less_pykey_def)
  show "x \<le> x" by (cases x) auto
  show "x \<le> y \<Longrightarrow> y \<le> z \<Longrightarrow> x \<le> z" by (cases x; cases y; cases z) auto
  show "x \<le> y \<Longrightarrow> y \<le> x \<Longrightarrow> x = y" by (cases x; cases y) auto
  show "x \<le> y \<or> y \<le> x" by (cases x; cases y) auto
qed

end

datatype pyval =
    PyNone
  | PyBool bool
  | PyInt int
  | PyStr string
  | PyBytes bytes
  | PyByteArray bytes
  | PyList "pyval list"
  | PyTuple "pyval list"
  | PyDict "(pykey \<times> pyval) list"

type_synonym pydict = "(pykey \<times> pyval) list"

section \<open>Types\<close>

text \<open>\<^verbatim>\<open>type(v) is int\<close>, \<^verbatim>\<open>isinstance(v, int)\<close> (a \<^verbatim>\<open>bool\<close> is an \<^verbatim>\<open>int\<close>), and the other tests.\<close>

definition type_is_int :: "pyval \<Rightarrow> bool" where
  "type_is_int v = (case v of PyInt _ \<Rightarrow> True | _ \<Rightarrow> False)"

definition type_is_bool :: "pyval \<Rightarrow> bool" where
  "type_is_bool v = (case v of PyBool _ \<Rightarrow> True | _ \<Rightarrow> False)"

definition isinstance_int :: "pyval \<Rightarrow> bool" where
  "isinstance_int v = (type_is_int v \<or> type_is_bool v)"

definition isinstance_str :: "pyval \<Rightarrow> bool" where
  "isinstance_str v = (case v of PyStr _ \<Rightarrow> True | _ \<Rightarrow> False)"

definition isinstance_list :: "pyval \<Rightarrow> bool" where
  "isinstance_list v = (case v of PyList _ \<Rightarrow> True | _ \<Rightarrow> False)"

definition isinstance_dict :: "pyval \<Rightarrow> bool" where
  "isinstance_dict v = (case v of PyDict _ \<Rightarrow> True | _ \<Rightarrow> False)"

text \<open>The contents of a value whose type has been tested.\<close>

definition int_of :: "pyval \<Rightarrow> int" where
  "int_of v = (case v of PyInt i \<Rightarrow> i | PyBool b \<Rightarrow> of_bool b | _ \<Rightarrow> 0)"

definition str_of :: "pyval \<Rightarrow> string" where
  "str_of v = (case v of PyStr s \<Rightarrow> s | _ \<Rightarrow> [])"

definition list_of :: "pyval \<Rightarrow> pyval list" where
  "list_of v = (case v of PyList xs \<Rightarrow> xs | _ \<Rightarrow> [])"

definition dict_of :: "pyval \<Rightarrow> pydict" where
  "dict_of v = (case v of PyDict kvs \<Rightarrow> kvs | _ \<Rightarrow> [])"

lemma py_of_simps [simp]:
  "int_of (PyInt i) = i" "int_of (PyBool b) = of_bool b" "str_of (PyStr s) = s"
  "list_of (PyList xs) = xs" "dict_of (PyDict kvs) = kvs"
  by (simp_all add: int_of_def str_of_def list_of_def dict_of_def)

lemma py_type_iff [py_simps]:
  "type_is_int v \<longleftrightarrow> (\<exists>i. v = PyInt i)"
  "type_is_bool v \<longleftrightarrow> (\<exists>b. v = PyBool b)"
  "isinstance_int v \<longleftrightarrow> (\<exists>i. v = PyInt i) \<or> (\<exists>b. v = PyBool b)"
  "isinstance_str v \<longleftrightarrow> (\<exists>s. v = PyStr s)"
  "isinstance_list v \<longleftrightarrow> (\<exists>xs. v = PyList xs)"
  "isinstance_dict v \<longleftrightarrow> (\<exists>kvs. v = PyDict kvs)"
  by (cases v; simp add: type_is_int_def type_is_bool_def isinstance_int_def isinstance_str_def
        isinstance_list_def isinstance_dict_def)+

section \<open>Equality and hashing\<close>

text \<open>
  Two values are \<^verbatim>\<open>==\<close> when their forms below coincide: a \<^verbatim>\<open>bool\<close> equals its integer, \<^verbatim>\<open>bytes\<close>
  equal a \<^verbatim>\<open>bytearray\<close> with the same contents, and a \<^verbatim>\<open>dict\<close> does not depend on the order of
  its items.
\<close>

fun eq_form :: "pyval \<Rightarrow> pyval" where
  "eq_form (PyBool b) = PyInt (of_bool b)"
| "eq_form (PyByteArray bs) = PyBytes bs"
| "eq_form (PyList xs) = PyList (map eq_form xs)"
| "eq_form (PyTuple xs) = PyTuple (map eq_form xs)"
| "eq_form (PyDict kvs) = PyDict (sort_key fst (map (\<lambda>(k, v). (k, eq_form v)) kvs))"
| "eq_form v = v"

definition py_eq :: "pyval \<Rightarrow> pyval \<Rightarrow> bool" where
  "py_eq v w = (eq_form v = eq_form w)"

lemma py_eq_refl [simp]: "py_eq v v"
  by (simp add: py_eq_def)

lemma py_eq_sym: "py_eq v w \<Longrightarrow> py_eq w v"
  by (simp add: py_eq_def)

lemma py_eq_trans: "py_eq u v \<Longrightarrow> py_eq v w \<Longrightarrow> py_eq u w"
  by (simp add: py_eq_def)

text \<open>Against a string or \<^verbatim>\<open>None\<close>, \<^verbatim>\<open>==\<close> is equality; against a number it is equality of numbers.\<close>

lemma py_eq_PyStr [simp]:
  "py_eq v (PyStr s) \<longleftrightarrow> v = PyStr s" "py_eq (PyStr s) v \<longleftrightarrow> v = PyStr s"
  by (cases v; auto simp: py_eq_def)+

lemma py_eq_PyNone [simp]:
  "py_eq v PyNone \<longleftrightarrow> v = PyNone" "py_eq PyNone v \<longleftrightarrow> v = PyNone"
  by (cases v; auto simp: py_eq_def)+

lemma py_eq_PyInt:
  "py_eq v (PyInt i) \<longleftrightarrow> v = PyInt i \<or> (\<exists>b. v = PyBool b \<and> of_bool b = i)"
  "py_eq (PyInt i) v \<longleftrightarrow> v = PyInt i \<or> (\<exists>b. v = PyBool b \<and> of_bool b = i)"
  by (cases v; auto simp: py_eq_def)+

lemma py_eq_PyInt_PyInt [simp]: "py_eq (PyInt i) (PyInt j) \<longleftrightarrow> i = j"
  by (simp add: py_eq_def)

lemma py_eq_PyBool_Int [simp]:
  "py_eq (PyBool b) (PyInt i) \<longleftrightarrow> of_bool b = i" "py_eq (PyInt i) (PyBool b) \<longleftrightarrow> i = of_bool b"
  by (simp_all add: py_eq_def)

lemma py_eq_PyInt_iff_int:
  "type_is_int v \<Longrightarrow> py_eq v (PyInt i) \<longleftrightarrow> v = PyInt i"
  by (auto simp: py_simps)

text \<open>\<^verbatim>\<open>list\<close>, \<^verbatim>\<open>dict\<close> and \<^verbatim>\<open>bytearray\<close> objects are not hashable; a \<^verbatim>\<open>tuple\<close> is if its items are.\<close>

fun hashable :: "pyval \<Rightarrow> bool" where
  "hashable (PyList _) = False"
| "hashable (PyDict _) = False"
| "hashable (PyByteArray _) = False"
| "hashable (PyTuple xs) = list_all hashable xs"
| "hashable _ = True"

text \<open>
  \<^verbatim>\<open>v in {s1, ..., sn}\<close> for a set of strings: the operand is hashed first, so an unhashable
  one raises \<^verbatim>\<open>TypeError\<close>.
\<close>

definition in_str_set :: "pyval \<Rightarrow> string list \<Rightarrow> bool res" where
  "in_str_set v ss =
     (if \<not> hashable v then Inl (Exc TypeError ''unhashable type'')
      else Inr (\<exists>s\<in>set ss. v = PyStr s))"

lemma in_str_set_Inr [res_simps]:
  "in_str_set v ss = Inr b \<longleftrightarrow> hashable v \<and> b = (\<exists>s\<in>set ss. v = PyStr s)"
  by (auto simp: in_str_set_def)

lemma in_str_set_PyStr [simp]: "in_str_set (PyStr s) ss = Inr (s \<in> set ss)"
  by (simp add: in_str_set_def)

text \<open>\<^verbatim>\<open>v in (i1, ..., in)\<close> for a tuple of integers compares with \<^verbatim>\<open>==\<close> and does not hash.\<close>

definition in_int_tuple :: "pyval \<Rightarrow> int list \<Rightarrow> bool" where
  "in_int_tuple v is = (\<exists>i\<in>set is. py_eq v (PyInt i))"

section \<open>Dictionaries\<close>

text \<open>\<^verbatim>\<open>d.get(k)\<close> is \<open>dict_get d k\<close>; \<^verbatim>\<open>d[k]\<close> is \<open>dict_item d k\<close>.\<close>

definition dict_get :: "pydict \<Rightarrow> string \<Rightarrow> pyval" where
  "dict_get d k = (case map_of d (KStr k) of None \<Rightarrow> PyNone | Some v \<Rightarrow> v)"

definition dict_has :: "pydict \<Rightarrow> string \<Rightarrow> bool" where
  "dict_has d k = (map_of d (KStr k) \<noteq> None)"

definition dict_item :: "pydict \<Rightarrow> string \<Rightarrow> pyval res" where
  "dict_item d k = (case map_of d (KStr k) of None \<Rightarrow> Inl (Exc KeyError k) | Some v \<Rightarrow> Inr v)"

text \<open>\<^verbatim>\<open>d[k] = v\<close>: an existing key keeps its place.\<close>

fun dict_put :: "pydict \<Rightarrow> pykey \<Rightarrow> pyval \<Rightarrow> pydict" where
  "dict_put [] k v = [(k, v)]"
| "dict_put ((k', v') # d) k v = (if k' = k then (k, v) # d else (k', v') # dict_put d k v)"

text \<open>\<^verbatim>\<open>d.pop(k, None)\<close>: the value and what is left.\<close>

definition dict_without :: "pydict \<Rightarrow> string \<Rightarrow> pydict" where
  "dict_without d k = filter (\<lambda>(k', _). k' \<noteq> KStr k) d"

text \<open>\<^verbatim>\<open>set(d) == {k1, ..., kn}\<close>\<close>

definition dict_keys_are :: "pydict \<Rightarrow> string list \<Rightarrow> bool" where
  "dict_keys_are d ks =
     (list_all (\<lambda>(k, _). \<exists>s\<in>set ks. k = KStr s) d \<and> list_all (dict_has d) ks)"

lemma dict_keys_are_iff: "dict_keys_are d ks \<longleftrightarrow> fst ` set d = KStr ` set ks"
proof -
  have "list_all (dict_has d) ks \<longleftrightarrow> KStr ` set ks \<subseteq> fst ` set d"
    by (auto simp: list_all_iff dict_has_def map_of_eq_None_iff image_iff subset_iff)
  moreover have "list_all (\<lambda>(k, _). \<exists>s\<in>set ks. k = KStr s) d \<longleftrightarrow> fst ` set d \<subseteq> KStr ` set ks"
    by (auto simp: list_all_iff)
  ultimately show ?thesis by (auto simp: dict_keys_are_def)
qed

lemma dict_keys_are_has: "dict_keys_are d ks \<Longrightarrow> k \<in> set ks \<Longrightarrow> dict_has d k"
  by (auto simp: dict_keys_are_def list_all_iff)

lemma dict_item_has: "dict_has d k \<Longrightarrow> dict_item d k = Inr (dict_get d k)"
  by (auto simp: dict_has_def dict_item_def dict_get_def)

lemma dict_item_Inr [res_simps]:
  "dict_item d k = Inr v \<longleftrightarrow> dict_has d k \<and> v = dict_get d k"
  by (auto simp: dict_has_def dict_item_def dict_get_def split: option.splits)

lemma dict_get_Nil [simp]: "dict_get [] k = PyNone"
  by (simp add: dict_get_def)

lemma dict_get_Cons [simp]:
  "dict_get ((k', v) # d) k = (if k' = KStr k then v else dict_get d k)"
  by (simp add: dict_get_def)

lemma dict_get_append:
  "dict_get (d @ e) k = (if dict_has d k then dict_get d k else dict_get e k)"
  by (auto simp: dict_get_def dict_has_def map_add_def split: option.splits)

lemma dict_get_without: "dict_get (dict_without d j) k = (if j = k then PyNone else dict_get d k)"
  by (induction d) (auto simp: dict_without_def)

lemma map_of_dict_put: "map_of (dict_put d k v) = (map_of d)(k \<mapsto> v)"
  by (induction d) auto

lemma dict_get_put: "dict_get (dict_put d (KStr j) v) k = (if j = k then v else dict_get d k)"
  by (simp add: dict_get_def map_of_dict_put)

text \<open>\<open>dict_is_true d k\<close> is \<^verbatim>\<open>d[k] is True\<close>.\<close>

definition dict_is_true :: "pydict \<Rightarrow> string \<Rightarrow> bool" where
  "dict_is_true d k = (dict_get d k = PyBool True)"

section \<open>Text\<close>

definition startswith :: "string \<Rightarrow> string \<Rightarrow> bool" where
  "startswith s p = (take (length p) s = p)"

definition endswith :: "string \<Rightarrow> string \<Rightarrow> bool" where
  "endswith s p = (length p \<le> length s \<and> drop (length s - length p) s = p)"

text \<open>\<^verbatim>\<open>p in s\<close>\<close>

fun contains :: "string \<Rightarrow> string \<Rightarrow> bool" where
  "contains [] p = (p = [])"
| "contains (c # s) p = (startswith (c # s) p \<or> contains s p)"

text \<open>\<^verbatim>\<open>s.lower()\<close> on code points below 256: A--Z, and the accented capitals except the times sign.\<close>

definition lower_char :: "char \<Rightarrow> char" where
  "lower_char c = (let n = (of_char c :: nat) in
     if 65 \<le> n \<and> n \<le> 90 \<or> 192 \<le> n \<and> n \<le> 222 \<and> n \<noteq> 215 then char_of (n + 32) else c)"

definition lower :: "string \<Rightarrow> string" where
  "lower s = map lower_char s"

definition isascii :: "string \<Rightarrow> bool" where
  "isascii s = list_all (\<lambda>c. (of_char c :: nat) < 128) s"

text \<open>\<^verbatim>\<open>s.isalnum()\<close> of an ASCII text (false for the empty text).\<close>

definition ascii_isalnum :: "string \<Rightarrow> bool" where
  "ascii_isalnum s = (s \<noteq> [] \<and> list_all (\<lambda>c. let n = (of_char c :: nat) in
     48 \<le> n \<and> n \<le> 57 \<or> 65 \<le> n \<and> n \<le> 90 \<or> 97 \<le> n \<and> n \<le> 122) s)"

definition is_hex_digit :: "char \<Rightarrow> bool" where
  "is_hex_digit c = (let n = (of_char c :: nat) in
     48 \<le> n \<and> n \<le> 57 \<or> 65 \<le> n \<and> n \<le> 70 \<or> 97 \<le> n \<and> n \<le> 102)"

text \<open>
  \<^verbatim>\<open>str(uuid.UUID(s)).lower() == s.lower()\<close> without an exception: \<open>s\<close> is in the form
  8-4-4-4-12 with hexadecimal digits of either case.
\<close>

definition canonical_uuid :: "string \<Rightarrow> bool" where
  "canonical_uuid s = (length s = 36 \<and>
     list_all (\<lambda>(i, c). if i \<in> {8, 13, 18, 23} then c = CHR ''-'' else is_hex_digit c)
       (zip [0..<36::nat] s))"

text \<open>\<^verbatim>\<open>bytes.fromhex(s)\<close> succeeds: pairs of hexadecimal digits, with ASCII white space allowed
  between (not inside) the pairs.\<close>

definition is_ascii_space :: "char \<Rightarrow> bool" where
  "is_ascii_space c = (of_char c \<in> {9, 10, 11, 12, 13, 32 :: nat})"

fun fromhex_ok :: "string \<Rightarrow> bool" where
  "fromhex_ok [] = True"
| "fromhex_ok [c] = is_ascii_space c"
| "fromhex_ok (c # d # s) =
     (if is_ascii_space c then fromhex_ok (d # s)
      else is_hex_digit c \<and> is_hex_digit d \<and> fromhex_ok s)"

text \<open>\<^verbatim>\<open>format(n, "x")\<close> and \<^verbatim>\<open>format(n, "08x")\<close> for a natural number.\<close>

definition hex_char :: "nat \<Rightarrow> char" where
  "hex_char n = char_of (if n < 10 then 48 + n else 87 + n)"

fun hex_text :: "nat \<Rightarrow> string" where
  "hex_text n = (if n < 16 then [hex_char n] else hex_text (n div 16) @ [hex_char (n mod 16)])"

declare hex_text.simps [simp del]

definition hex08 :: "nat \<Rightarrow> string" where
  "hex08 n = replicate (8 - length (hex_text n)) CHR ''0'' @ hex_text n"


section \<open>Evaluation\<close>

text \<open>Equations for the kernel's evaluation that compare characters instead of their numbers.\<close>

lemma is_hex_digit_code [code]:
  "is_hex_digit c = (CHR ''0'' \<le> c \<and> c \<le> CHR ''9'' \<or> CHR ''A'' \<le> c \<and> c \<le> CHR ''F''
     \<or> CHR ''a'' \<le> c \<and> c \<le> CHR ''f'')"
  by (simp add: is_hex_digit_def less_eq_char_def Let_def)

lemma isascii_code [code]: "isascii s = list_all (\<lambda>c. c < CHR 0x80) s"
  by (simp add: isascii_def less_char_def)

lemma ascii_isalnum_code [code]:
  "ascii_isalnum s = (s \<noteq> [] \<and> list_all (\<lambda>c. CHR ''0'' \<le> c \<and> c \<le> CHR ''9''
     \<or> CHR ''A'' \<le> c \<and> c \<le> CHR ''Z'' \<or> CHR ''a'' \<le> c \<and> c \<le> CHR ''z'') s)"
  by (simp add: ascii_isalnum_def less_eq_char_def Let_def)

lemma lower_char_code [code]:
  "lower_char c = (if CHR ''A'' \<le> c \<and> c \<le> CHR ''Z'' \<or> CHR 0xC0 \<le> c \<and> c \<le> CHR 0xDE \<and> c \<noteq> CHR 0xD7
     then char_of (of_char c + 32 :: nat) else c)"
proof -
  have "c = CHR 0xD7 \<longleftrightarrow> of_char c = (215 :: nat)"
    using of_char_eq_iff [of c "CHR 0xD7", where 'a = nat] by simp
  then show ?thesis by (simp add: lower_char_def less_eq_char_def Let_def)
qed


lemma is_ascii_space_code [code]: "is_ascii_space c = (CHR 0x09 \<le> c \<and> c \<le> CHR 0x0D \<or> c = CHR '' '')"
proof -
  have "c = CHR '' '' \<longleftrightarrow> of_char c = (32 :: nat)"
    using of_char_eq_iff [of c "CHR '' ''", where 'a = nat] by simp
  then show ?thesis by (auto simp: is_ascii_space_def less_eq_char_def)
qed

text \<open>Where the hyphens of a UUID stand.\<close>

definition uuid_hyphens :: "bool list" where
  "uuid_hyphens = map (\<lambda>i. i \<in> {8, 13, 18, 23}) [0..<36::nat]"

lemma uuid_hyphens_code [code]:
  "uuid_hyphens = replicate 8 False @ True # replicate 4 False @ True # replicate 4 False @ True
     # replicate 4 False @ True # replicate 12 False"
  by (simp add: uuid_hyphens_def upt_rec numeral_eq_Suc)

lemma canonical_uuid_code [code]:
  "canonical_uuid s = (length s = 36 \<and>
     list_all (\<lambda>(hyphen, c). if hyphen then c = CHR ''-'' else is_hex_digit c) (zip uuid_hyphens s))"
  by (simp add: canonical_uuid_def uuid_hyphens_def zip_map1 list_all_iff case_prod_unfold)

end
