(* ===== verification/Json_Codec.thy ===== *)
theory Json_Codec
  imports Py_Value
begin

text \<open>
  The JSON text the journals are written in: \<^verbatim>\<open>json.dumps(v, sort_keys=True,
  separators=(",", ":"), ensure_ascii=True)\<close> and \<^verbatim>\<open>json.loads\<close>, as far as the journal module
  uses them, and the round trip between the two. Number texts with a fraction or an exponent
  denote floats, which the value universe leaves out: \<open>loads\<close> gives \<open>None\<close> on them, as it
  does on malformed text and on code points above 255.
\<close>

section \<open>Writing\<close>

definition digit_char :: "nat \<Rightarrow> char" where
  "digit_char n = char_of (48 + n)"

fun dec_text :: "nat \<Rightarrow> string" where
  "dec_text n = (if n < 10 then [digit_char n] else dec_text (n div 10) @ [digit_char (n mod 10)])"

declare dec_text.simps [simp del]

definition int_text :: "int \<Rightarrow> string" where
  "int_text i = (if i < 0 then CHR ''-'' # dec_text (nat (- i)) else dec_text (nat i))"

definition quote :: char where "quote = char_of (34 :: nat)"
definition backslash :: char where "backslash = char_of (92 :: nat)"

text \<open>One character of a string literal, with \<^verbatim>\<open>ensure_ascii\<close>.\<close>

definition escape_char :: "char \<Rightarrow> string" where
  "escape_char c = (let n = (of_char c :: nat) in
     if n = 34 then [backslash, quote]
     else if n = 92 then [backslash, backslash]
     else if n = 8 then [backslash, CHR ''b'']
     else if n = 12 then [backslash, CHR ''f'']
     else if n = 10 then [backslash, CHR ''n'']
     else if n = 13 then [backslash, CHR ''r'']
     else if n = 9 then [backslash, CHR ''t'']
     else if 32 \<le> n \<and> n \<le> 126 then [c]
     else [backslash, CHR ''u'', CHR ''0'', CHR ''0'', hex_char (n div 16), hex_char (n mod 16)])"

definition str_text :: "string \<Rightarrow> string" where
  "str_text s = quote # concat (map escape_char s) @ [quote]"

fun key_text :: "pykey \<Rightarrow> string" where
  "key_text (KInt i) = str_text (int_text i)"
| "key_text (KStr s) = str_text s"

fun join_comma :: "string list \<Rightarrow> string" where
  "join_comma [] = []"
| "join_comma [t] = t"
| "join_comma (t # ts) = t @ CHR '','' # join_comma ts"

text \<open>\<^verbatim>\<open>sort_keys\<close> compares the keys of a \<^verbatim>\<open>dict\<close>: a mixture of \<^verbatim>\<open>int\<close> and \<^verbatim>\<open>str\<close> keys is a
  \<^verbatim>\<open>TypeError\<close>, as are \<^verbatim>\<open>bytes\<close> and \<^verbatim>\<open>bytearray\<close> values.\<close>

fun is_KInt :: "pykey \<Rightarrow> bool" where
  "is_KInt (KInt _) = True"
| "is_KInt (KStr _) = False"

definition comparable_keys :: "pykey list \<Rightarrow> bool" where
  "comparable_keys ks = (list_all is_KInt ks \<or> list_all (\<lambda>k. \<not> is_KInt k) ks)"

fun serializable :: "pyval \<Rightarrow> bool" where
  "serializable (PyBytes _) = False"
| "serializable (PyByteArray _) = False"
| "serializable (PyList xs) = list_all serializable xs"
| "serializable (PyTuple xs) = list_all serializable xs"
| "serializable (PyDict kvs) =
     (comparable_keys (map fst kvs) \<and> list_all (\<lambda>(k, v). serializable v) kvs)"
| "serializable _ = True"

fun json_text :: "pyval \<Rightarrow> string" where
  "json_text PyNone = ''null''"
| "json_text (PyBool b) = (if b then ''true'' else ''false'')"
| "json_text (PyInt i) = int_text i"
| "json_text (PyStr s) = str_text s"
| "json_text (PyList xs) = CHR ''['' # join_comma (map json_text xs) @ '']''"
| "json_text (PyTuple xs) = CHR ''['' # join_comma (map json_text xs) @ '']''"
| "json_text (PyDict kvs) =
     CHR ''{'' # join_comma (map snd (sort_key fst
        (map (\<lambda>(k, v). (k, key_text k @ CHR '':'' # json_text v)) kvs))) @ ''}''"
| "json_text _ = []"

definition json_dumps :: "pyval \<Rightarrow> string option" where
  "json_dumps v = (if serializable v then Some (json_text v) else None)"

section \<open>Reading\<close>

definition is_ws :: "char \<Rightarrow> bool" where
  "is_ws c = (of_char c \<in> {9, 10, 13, 32 :: nat})"

definition skip_ws :: "string \<Rightarrow> string" where
  "skip_ws s = dropWhile is_ws s"

definition is_digit :: "char \<Rightarrow> bool" where
  "is_digit c = (48 \<le> (of_char c :: nat) \<and> (of_char c :: nat) \<le> 57)"

definition digits_value :: "string \<Rightarrow> nat" where
  "digits_value ds = foldl (\<lambda>n c. 10 * n + (of_char c - 48)) 0 ds"

text \<open>\<^verbatim>\<open>0|[1-9][0-9]*\<close>\<close>

definition read_nat :: "string \<Rightarrow> (nat \<times> string) option" where
  "read_nat s = (case s of
     [] \<Rightarrow> None
   | c # cs \<Rightarrow>
       if c = CHR ''0'' then Some (0, cs)
       else if is_digit c then Some (digits_value (takeWhile is_digit s), dropWhile is_digit s)
       else None)"

text \<open>A fraction or an exponent follows: the number is a float.\<close>

definition starts_float :: "string \<Rightarrow> bool" where
  "starts_float s = (case s of [] \<Rightarrow> False | c # _ \<Rightarrow> c \<in> set ''.eE'')"

definition read_number :: "string \<Rightarrow> (pyval \<times> string) option" where
  "read_number s =
     (let neg = startswith s ''-'' in
      case read_nat (if neg then tl s else s) of
        None \<Rightarrow> None
      | Some (n, rest) \<Rightarrow>
          if starts_float rest then None
          else Some (PyInt (if neg then - int n else int n), rest))"

definition hex_digit_value :: "char \<Rightarrow> nat" where
  "hex_digit_value c = (let n = (of_char c :: nat) in
     if n \<le> 57 then n - 48 else if n \<le> 70 then n - 55 else n - 87)"

definition simple_escape :: "char \<Rightarrow> char option" where
  "simple_escape c =
     (if c = quote \<or> c = backslash \<or> c = CHR ''/'' then Some c
      else if c = CHR ''b'' then Some (char_of (8 :: nat))
      else if c = CHR ''f'' then Some (char_of (12 :: nat))
      else if c = CHR ''n'' then Some (char_of (10 :: nat))
      else if c = CHR ''r'' then Some (char_of (13 :: nat))
      else if c = CHR ''t'' then Some (char_of (9 :: nat))
      else None)"

text \<open>The characters of a string literal after its opening quote.\<close>

fun read_chars :: "string \<Rightarrow> (string \<times> string) option" where
  "read_chars [] = None"
| "read_chars (c # s) =
     (if c = quote then Some ([], s)
      else if c = backslash then
        (case s of
           [] \<Rightarrow> None
         | e # t \<Rightarrow>
             if e = CHR ''u'' then
               (case t of
                  h1 # h2 # h3 # h4 # r \<Rightarrow>
                    if list_all is_hex_digit [h1, h2, h3, h4]
                       \<and> hex_digit_value h1 = 0 \<and> hex_digit_value h2 = 0
                    then map_option (apfst (Cons (char_of
                           (16 * hex_digit_value h3 + hex_digit_value h4)))) (read_chars r)
                    else None
                | _ \<Rightarrow> None)
             else (case simple_escape e of
                     None \<Rightarrow> None
                   | Some x \<Rightarrow> map_option (apfst (Cons x)) (read_chars t)))
      else if (of_char c :: nat) < 32 then None
      else map_option (apfst (Cons c)) (read_chars s))"

text \<open>
  Recursive descent. The tests on lengths always hold (every reader consumes text); they make the
  termination argument local.
\<close>

function (sequential)
      read_value :: "string \<Rightarrow> (pyval \<times> string) option"
  and read_items :: "string \<Rightarrow> (pyval list \<times> string) option"
  and read_members :: "pydict \<Rightarrow> string \<Rightarrow> (pydict \<times> string) option"
where
  "read_value s =
     (if s = [] then None
      else if hd s = quote then
        map_option (\<lambda>(t, r). (PyStr t, r)) (read_chars (tl s))
      else if hd s = CHR ''['' then
        (let t = skip_ws (tl s) in
         if startswith t '']'' then Some (PyList [], tl t)
         else if length t < length s then map_option (\<lambda>(xs, r). (PyList xs, r)) (read_items t)
         else None)
      else if hd s = CHR ''{'' then
        (let t = skip_ws (tl s) in
         if startswith t ''}'' then Some (PyDict [], tl t)
         else if length t < length s
           then map_option (\<lambda>(kvs, r). (PyDict kvs, r)) (read_members [] t)
         else None)
      else if startswith s ''null'' then Some (PyNone, drop 4 s)
      else if startswith s ''true'' then Some (PyBool True, drop 4 s)
      else if startswith s ''false'' then Some (PyBool False, drop 5 s)
      else read_number s)"
| "read_items s =
     (case read_value s of
        None \<Rightarrow> None
      | Some (v, r) \<Rightarrow>
          (let t = skip_ws r in
           if startswith t '']'' then Some ([v], tl t)
           else if startswith t '','' then
             (let u = skip_ws (tl t) in
              if length u < length s
              then map_option (\<lambda>(vs, r'). (v # vs, r')) (read_items u)
              else None)
           else None))"
| "read_members d s =
     (if \<not> (s \<noteq> [] \<and> hd s = quote) then None
      else case read_chars (tl s) of
        None \<Rightarrow> None
      | Some (k, r) \<Rightarrow>
          (let t = skip_ws r in
           if \<not> startswith t '':'' then None
           else (let u = skip_ws (tl t) in
             if \<not> length u < length s then None
             else case read_value u of
               None \<Rightarrow> None
             | Some (v, r') \<Rightarrow>
                 (let w = skip_ws r'; d' = dict_put d (KStr k) v in
                  if startswith w ''}'' then Some (d', tl w)
                  else if startswith w '','' then
                    (let x = skip_ws (tl w) in
                     if length x < length s then read_members d' x else None)
                  else None))))"
  by pat_completeness auto
termination
  by (relation "measure (\<lambda>x. case x of
        Inl s \<Rightarrow> 2 * length s
      | Inr (Inl s) \<Rightarrow> 2 * length s + 1
      | Inr (Inr (d, s)) \<Rightarrow> 2 * length s + 1)") auto

declare read_value.simps [simp del] read_items.simps [simp del] read_members.simps [simp del]

text \<open>\<^verbatim>\<open>bytes.decode("utf-8")\<close>, for code points below 256.\<close>

fun utf8_decode :: "string \<Rightarrow> string option" where
  "utf8_decode [] = Some []"
| "utf8_decode (c # s) =
     (if (of_char c :: nat) < 128 then map_option (Cons c) (utf8_decode s)
      else case s of
        [] \<Rightarrow> None
      | d # t \<Rightarrow>
          if of_char c \<in> {194, 195 :: nat} \<and> 128 \<le> (of_char d :: nat) \<and> (of_char d :: nat) \<le> 191
          then map_option (Cons (char_of ((of_char c - 192) * 64 + (of_char d - 128 :: nat))))
                 (utf8_decode t)
          else None)"

definition json_loads :: "string \<Rightarrow> pyval option" where
  "json_loads b = (case utf8_decode b of
     None \<Rightarrow> None
   | Some s \<Rightarrow>
       (case read_value (skip_ws s) of
          None \<Rightarrow> None
        | Some (v, r) \<Rightarrow> if skip_ws r = [] then Some v else None))"

section \<open>Evaluation\<close>

lemma quote_code [code]: "quote = CHR 0x22" and backslash_code [code]: "backslash = CHR 0x5C"
  by code_simp+

lemma escape_char_code [code]:
  "escape_char c =
     (if CHR '' '' \<le> c \<and> c \<le> CHR ''~'' \<and> c \<noteq> quote \<and> c \<noteq> backslash then [c]
      else let n = (of_char c :: nat) in
       if n = 34 then [backslash, quote]
       else if n = 92 then [backslash, backslash]
       else if n = 8 then [backslash, CHR ''b'']
       else if n = 12 then [backslash, CHR ''f'']
       else if n = 10 then [backslash, CHR ''n'']
       else if n = 13 then [backslash, CHR ''r'']
       else if n = 9 then [backslash, CHR ''t'']
       else if 32 \<le> n \<and> n \<le> 126 then [c]
       else [backslash, CHR ''u'', CHR ''0'', CHR ''0'', hex_char (n div 16), hex_char (n mod 16)])"
proof -
  have "of_char c = (34 :: nat) \<Longrightarrow> c = quote" "of_char c = (92 :: nat) \<Longrightarrow> c = backslash"
    using char_of_char [of c, where 'a = nat] by (simp_all add: quote_def backslash_def)
  then show ?thesis by (auto simp: escape_char_def less_eq_char_def Let_def)
qed

lemma is_digit_code [code]: "is_digit c = (CHR ''0'' \<le> c \<and> c \<le> CHR ''9'')"
  by (simp add: is_digit_def less_eq_char_def)

lemma of_char_less_code [code_unfold]:
  "(of_char c :: nat) < 32 \<longleftrightarrow> c < CHR '' ''" "(of_char c :: nat) < 128 \<longleftrightarrow> c < CHR 0x80"
  by (simp_all add: less_char_def)

section \<open>Round trip\<close>

subsection \<open>Literals\<close>

lemma of_char_hex_char:
  "k < 16 \<Longrightarrow> of_char (hex_char k) = (if k < 10 then 48 + k else 87 + k)"
  by (simp add: hex_char_def of_char_of)

lemma hex_char_read [simp]:
  "k < 16 \<Longrightarrow> is_hex_digit (hex_char k)" "k < 16 \<Longrightarrow> hex_digit_value (hex_char k) = k"
  by (auto simp: is_hex_digit_def hex_digit_value_def of_char_hex_char Let_def)

lemma zero_digit_read [simp]: "is_hex_digit CHR ''0''" "hex_digit_value CHR ''0'' = 0"
  by (simp_all add: is_hex_digit_def hex_digit_value_def)

lemma char_div_mod_16: "char_of (16 * (of_char c div 16) + of_char c mod 16 :: nat) = c"
  by simp

lemma escape_markers [simp]:
  "quote \<noteq> backslash" "backslash \<noteq> quote" "of_char quote = (34 :: nat)" "of_char backslash = (92 :: nat)"
  by (simp_all add: quote_def backslash_def)

lemma eq_quote_iff: "c = quote \<longleftrightarrow> of_char c = (34 :: nat)"
  by (metis char_of_char escape_markers(3))

lemma eq_backslash_iff: "c = backslash \<longleftrightarrow> of_char c = (92 :: nat)"
  by (metis char_of_char escape_markers(4))

lemma escape_markers_not_u [simp]: "quote \<noteq> CHR ''u''" "backslash \<noteq> CHR ''u''"
proof -
  have "CHR ''u'' \<noteq> quote" "CHR ''u'' \<noteq> backslash"
    by (simp_all add: eq_quote_iff eq_backslash_iff)
  then show "quote \<noteq> CHR ''u''" "backslash \<noteq> CHR ''u''" by metis+
qed

lemma simple_escape_simps [simp]:
  "simple_escape quote = Some quote" "simple_escape backslash = Some backslash"
  "simple_escape CHR ''b'' = Some (char_of (8 :: nat))"
  "simple_escape CHR ''f'' = Some (char_of (12 :: nat))"
  "simple_escape CHR ''n'' = Some (char_of (10 :: nat))"
  "simple_escape CHR ''r'' = Some (char_of (13 :: nat))"
  "simple_escape CHR ''t'' = Some (char_of (9 :: nat))"
  by (simp_all add: simple_escape_def eq_quote_iff eq_backslash_iff)

lemma char_of_of_char_eq: "of_char c = (n :: nat) \<Longrightarrow> char_of n = c"
  by auto

lemma read_chars_plain:
  "32 \<le> (of_char c :: nat) \<Longrightarrow> of_char c \<noteq> (34 :: nat) \<Longrightarrow> of_char c \<noteq> (92 :: nat)
    \<Longrightarrow> read_chars (c # s) = map_option (apfst (Cons c)) (read_chars s)"
  by (simp add: eq_quote_iff eq_backslash_iff)

lemma read_chars_simple_escape:
  "e \<noteq> CHR ''u'' \<Longrightarrow> simple_escape e = Some x
    \<Longrightarrow> read_chars (backslash # e # s) = map_option (apfst (Cons x)) (read_chars s)"
  by simp

lemma read_chars_u_escape:
  "a < 16 \<Longrightarrow> b < 16 \<Longrightarrow>
   read_chars (backslash # CHR ''u'' # CHR ''0'' # CHR ''0'' # hex_char a # hex_char b # s)
   = map_option (apfst (Cons (char_of (16 * a + b)))) (read_chars s)"
  by simp

lemma read_chars_escape:
  "read_chars (escape_char c @ s) = map_option (apfst (Cons c)) (read_chars s)"
proof -
  define n where "n = (of_char c :: nat)"
  have n: "n < 256" "c = char_of n" by (simp_all add: n_def)
  consider "n \<in> {34, 92, 8, 12, 10, 13, 9}" | "n \<notin> {34, 92, 8, 12, 10, 13, 9}" "32 \<le> n" "n \<le> 126"
    | "n \<notin> {34, 92, 8, 12, 10, 13, 9}" "\<not> (32 \<le> n \<and> n \<le> 126)" by blast
  then show ?thesis
  proof cases
    case 1
    then show ?thesis
      by (auto simp: escape_char_def n_def [symmetric] n(2) quote_def [symmetric]
            backslash_def [symmetric] read_chars_simple_escape simp del: read_chars.simps)
  next
    case 2
    then have "escape_char c = [c]"
      by (auto simp: escape_char_def n_def [symmetric] Let_def)
    with 2 show ?thesis
      using read_chars_plain [of c s] by (simp add: n_def [symmetric] del: read_chars.simps)
  next
    case 3
    then have "escape_char c
      = [backslash, CHR ''u'', CHR ''0'', CHR ''0'', hex_char (n div 16), hex_char (n mod 16)]"
      by (auto simp: escape_char_def n_def [symmetric] Let_def)
    moreover have "n div 16 < 16" "n mod 16 < 16" using n(1) by auto
    ultimately show ?thesis
      by (simp add: read_chars_u_escape n(2) del: read_chars.simps)
  qed
qed

lemma read_chars_str: "read_chars (concat (map escape_char s) @ quote # r) = Some (s, r)"
  by (induction s) (simp_all add: read_chars_escape del: read_chars.simps,
      simp add: read_chars.simps)

subsection \<open>Numbers\<close>

lemma of_char_digit_char: "k < 10 \<Longrightarrow> of_char (digit_char k) = 48 + k"
  by (simp add: digit_char_def of_char_of)

lemma is_digit_digit_char [simp]: "k < 10 \<Longrightarrow> is_digit (digit_char k)"
  by (simp add: is_digit_def of_char_digit_char)

lemma dec_text_digits: "list_all is_digit (dec_text n)"
proof (induction n rule: dec_text.induct)
  case (1 n)
  then show ?case by (subst dec_text.simps) auto
qed

lemma dec_text_nonempty [simp]: "dec_text n \<noteq> []"
  by (subst dec_text.simps) simp

lemma digits_value_snoc: "digits_value (ds @ [c]) = 10 * digits_value ds + (of_char c - 48)"
  by (simp add: digits_value_def)

lemma digits_value_dec_text: "digits_value (dec_text n) = n"
proof (induction n rule: dec_text.induct)
  case (1 n)
  show ?case
  proof (cases "n < 10")
    case True
    then show ?thesis
      by (subst dec_text.simps) (simp add: digits_value_def of_char_digit_char)
  next
    case False
    then have "digits_value (dec_text n) = 10 * digits_value (dec_text (n div 10)) + n mod 10"
      by (subst dec_text.simps) (simp add: digits_value_snoc of_char_digit_char)
    with 1 False show ?thesis by simp
  qed
qed

lemma dec_text_hd: "0 < n \<Longrightarrow> of_char (hd (dec_text n)) \<noteq> (48 :: nat)"
proof (induction n rule: dec_text.induct)
  case (1 n)
  show ?case
  proof (cases "n < 10")
    case True
    with 1 show ?thesis by (subst dec_text.simps) (simp add: of_char_digit_char)
  next
    case False
    with 1 show ?thesis by (subst dec_text.simps) simp
  qed
qed

text \<open>What may follow a number: nothing that would extend it.\<close>

definition stops :: "string \<Rightarrow> bool" where
  "stops r = (r = [] \<or> \<not> is_digit (hd r) \<and> hd r \<notin> set ''.eE'')"

lemma stops_not_float: "stops r \<Longrightarrow> \<not> starts_float r"
  by (cases r) (auto simp: stops_def starts_float_def)

lemma takeWhile_digits:
  "stops r \<Longrightarrow> takeWhile is_digit (dec_text n @ r) = dec_text n"
  "stops r \<Longrightarrow> dropWhile is_digit (dec_text n @ r) = r"
proof -
  assume "stops r"
  then have "takeWhile is_digit r = []" "dropWhile is_digit r = r"
    by (cases r; simp add: stops_def)+
  moreover have "\<And>c. c \<in> set (dec_text n) \<Longrightarrow> is_digit c"
    using dec_text_digits [of n] by (simp add: list_all_iff)
  ultimately show "takeWhile is_digit (dec_text n @ r) = dec_text n"
    "dropWhile is_digit (dec_text n @ r) = r"
    by (simp_all add: takeWhile_append dropWhile_append)
qed

lemma read_nat_dec_text: "stops r \<Longrightarrow> read_nat (dec_text n @ r) = Some (n, r)"
proof (cases "n = 0")
  case True
  have "dec_text 0 = [digit_char 0]" by (subst dec_text.simps) simp
  moreover have "digit_char 0 = CHR ''0''"
    unfolding digit_char_def by (rule char_of_of_char_eq) simp
  ultimately show ?thesis using True by (simp add: read_nat_def)
next
  case False
  assume r: "stops r"
  obtain c cs where c: "dec_text n = c # cs" by (cases "dec_text n") auto
  then have "c \<noteq> CHR ''0''" using dec_text_hd [of n] False by auto
  moreover have "is_digit c" using dec_text_digits [of n] c by simp
  moreover have "takeWhile is_digit (c # cs @ r) = dec_text n" "dropWhile is_digit (c # cs @ r) = r"
    using takeWhile_digits [OF r, of n] c by simp_all
  ultimately show ?thesis
    using c digits_value_dec_text [of n]
    by (simp add: read_nat_def del: takeWhile.simps dropWhile.simps)
qed

lemma digit_not_minus: "is_digit c \<Longrightarrow> c \<noteq> CHR ''-''"
  by (auto simp: is_digit_def)

lemma read_number_int_text: "stops r \<Longrightarrow> read_number (int_text i @ r) = Some (PyInt i, r)"
proof -
  assume r: "stops r"
  have "hd (dec_text n) \<noteq> CHR ''-''" for n
    using dec_text_digits [of n] by (cases "dec_text n") (auto dest: digit_not_minus)
  then have "\<not> startswith (dec_text n @ r) ''-''" for n
    using dec_text_nonempty [of n] by (cases "dec_text n") (auto simp: startswith_def, metis list.sel(1))
  with r show ?thesis
    by (simp add: read_number_def int_text_def read_nat_dec_text stops_not_float startswith_def Let_def)
qed

subsection \<open>Values\<close>

text \<open>The values a journal record is made of, and the order \<^verbatim>\<open>sort_keys\<close> leaves them in.\<close>

fun plain :: "pyval \<Rightarrow> bool" where
  "plain (PyBytes _) = False"
| "plain (PyByteArray _) = False"
| "plain (PyTuple _) = False"
| "plain (PyList xs) = list_all plain xs"
| "plain (PyDict kvs) =
     (list_all (\<lambda>(k, v). \<not> is_KInt k \<and> plain v) kvs \<and> distinct (map fst kvs))"
| "plain _ = True"

fun sort_dicts :: "pyval \<Rightarrow> pyval" where
  "sort_dicts (PyList xs) = PyList (map sort_dicts xs)"
| "sort_dicts (PyDict kvs) = PyDict (sort_key fst (map (\<lambda>(k, v). (k, sort_dicts v)) kvs))"
| "sort_dicts v = v"

lemma insort_key_map: "insort_key f (g x) (map g xs) = map g (insort_key (\<lambda>y. f (g y)) x xs)"
  by (induction xs) auto

lemma sort_key_map: "sort_key f (map g xs) = map g (sort_key (\<lambda>y. f (g y)) xs)"
  by (induction xs) (auto simp: insort_key_map)

lemma sort_key_pair_map:
  "sort_key fst (map (\<lambda>(k, v). (k, h k v)) kvs) = map (\<lambda>(k, v). (k, h k v)) (sort_key fst kvs)"
proof -
  have "(\<lambda>y. fst (case y of (k, v) \<Rightarrow> (k, h k v))) = fst"
    by (auto simp: fun_eq_iff)
  then show ?thesis by (simp add: sort_key_map)
qed

definition member_text :: "pykey \<times> pyval \<Rightarrow> string" where
  "member_text = (\<lambda>(k, v). key_text k @ CHR '':'' # json_text v)"

lemma json_text_dict:
  "json_text (PyDict kvs) = CHR ''{'' # join_comma (map member_text (sort_key fst kvs)) @ ''}''"
  unfolding json_text.simps sort_key_pair_map map_map
  by (simp add: member_text_def comp_def case_prod_unfold)

lemma sort_dicts_dict:
  "sort_dicts (PyDict kvs) = PyDict (map (\<lambda>(k, v). (k, sort_dicts v)) (sort_key fst kvs))"
  by (simp add: sort_key_pair_map)

text \<open>A text starts neither with white space nor with a closing bracket.\<close>

definition opens :: "string \<Rightarrow> bool" where
  "opens t = (t \<noteq> [] \<and> \<not> is_ws (hd t) \<and> hd t \<notin> set '']}'')"

lemma is_digit_opens: "is_digit c \<Longrightarrow> \<not> is_ws c \<and> c \<notin> set '']}''"
  by (auto simp: is_digit_def is_ws_def)

lemma int_text_opens: "opens (int_text i)"
  using dec_text_digits [of "nat i"] dec_text_nonempty [of "nat i"]
  by (cases "dec_text (nat i)")
    (auto simp: opens_def int_text_def is_ws_def dest: is_digit_opens)

lemma quote_opens: "\<not> is_ws quote" "quote \<noteq> CHR ''}''" "quote \<noteq> CHR '']''"
proof -
  show "\<not> is_ws quote" by (simp add: is_ws_def)
  have "CHR ''}'' \<noteq> quote" "CHR '']'' \<noteq> quote" by (simp_all add: eq_quote_iff)
  then show "quote \<noteq> CHR ''}''" "quote \<noteq> CHR '']''" by metis+
qed

lemma json_text_opens: "plain v \<Longrightarrow> opens (json_text v)"
  using int_text_opens quote_opens by (cases v) (auto simp: opens_def is_ws_def str_text_def)

lemma member_text_opens: "\<not> is_KInt k \<Longrightarrow> opens (member_text (k, v))"
  using quote_opens by (cases k) (auto simp: opens_def member_text_def str_text_def)

lemma skip_ws_opens: "opens t \<Longrightarrow> skip_ws (t @ r) = t @ r"
  by (cases t) (auto simp: opens_def skip_ws_def)

lemma not_startswith_opens:
  "opens t \<Longrightarrow> \<not> startswith (t @ r) '']''" "opens t \<Longrightarrow> \<not> startswith (t @ r) ''}''"
  by (cases t; auto simp: opens_def startswith_def)+

lemma startswith_Cons [simp]: "startswith (c # s) [d] \<longleftrightarrow> c = d"
  by (auto simp: startswith_def)

lemma stops_delimiter: "c \<in> set '',]}'' \<Longrightarrow> stops (c # r)"
  by (auto simp: stops_def is_digit_def)

lemma skip_ws_delimiter: "c \<in> set '',]}:'' \<Longrightarrow> skip_ws (c # r) = c # r"
  by (auto simp: skip_ws_def is_ws_def)

lemma join_comma_Cons: "ts \<noteq> [] \<Longrightarrow> join_comma (t # ts) = t @ CHR '','' # join_comma ts"
  by (cases ts) auto

lemma join_comma_opens: "opens t \<Longrightarrow> opens (join_comma (t # ts))"
  by (cases t; cases ts) (auto simp: opens_def)

lemma opens_length: "opens t \<Longrightarrow> 0 < length t"
  by (auto simp: opens_def)

lemma read_items_join:
  assumes "xs \<noteq> []"
    and "\<And>x r. x \<in> set xs \<Longrightarrow> stops r \<Longrightarrow> read_value (json_text x @ r) = Some (sort_dicts x, r)"
    and "\<And>x. x \<in> set xs \<Longrightarrow> plain x"
  shows "read_items (join_comma (map json_text xs) @ CHR '']'' # r) = Some (map sort_dicts xs, r)"
  using assms
proof (induction xs)
  case Nil
  then show ?case by simp
next
  case (Cons x xs)
  show ?case
  proof (cases "xs = []")
    case True
    with Cons.prems(2) [of x "CHR '']'' # r"] show ?thesis
      by (simp add: stops_delimiter skip_ws_delimiter read_items.simps Let_def)
  next
    case False
    then obtain y ys where xs: "xs = y # ys" by (cases xs) auto
    define u where "u = join_comma (map json_text xs) @ CHR '']'' # r"
    have eq: "join_comma (map json_text (x # xs)) @ CHR '']'' # r = json_text x @ CHR '','' # u"
      using False by (simp add: join_comma_Cons u_def)
    have "opens (json_text y)" using Cons.prems(3) xs by (simp add: json_text_opens)
    then have skip: "skip_ws u = u"
      unfolding u_def xs by (simp add: skip_ws_opens [OF join_comma_opens] del: join_comma.simps)
    have "read_items u = Some (map sort_dicts xs, r)"
      unfolding u_def using False Cons.prems(2,3) by (intro Cons.IH) auto
    moreover have "read_value (json_text x @ CHR '','' # u) = Some (sort_dicts x, CHR '','' # u)"
      using Cons.prems(2) by (simp add: stops_delimiter)
    ultimately show ?thesis
      unfolding eq by (simp add: read_items.simps skip_ws_delimiter skip Let_def)
  qed
qed

lemma dict_put_fresh: "k \<notin> fst ` set d \<Longrightarrow> dict_put d k v = d @ [(k, v)]"
  by (induction d) auto

lemma read_members_step:
  assumes "stops t" and "t \<noteq> []" and "skip_ws t = t"
    and "read_value (json_text v @ t) = Some (v', t)" and "opens (json_text v)"
  shows "read_members d (member_text (KStr k, v) @ t) =
    (if startswith t ''}'' then Some (dict_put d (KStr k) v', tl t)
     else if startswith t '','' then
       (if length (skip_ws (tl t)) < length (member_text (KStr k, v) @ t)
        then read_members (dict_put d (KStr k) v') (skip_ws (tl t)) else None)
     else None)"
  using assms
  by (subst read_members.simps)
    (simp add: member_text_def str_text_def read_chars_str skip_ws_delimiter skip_ws_opens Let_def)

lemma read_members_join:
  assumes "kvs \<noteq> []"
    and "\<And>k v r. (k, v) \<in> set kvs \<Longrightarrow> stops r \<Longrightarrow> read_value (json_text v @ r) = Some (sort_dicts v, r)"
    and "list_all (\<lambda>(k, v). \<not> is_KInt k \<and> plain v) kvs"
    and "distinct (map fst kvs)" and "fst ` set kvs \<inter> fst ` set d = {}"
  shows "read_members d (join_comma (map member_text kvs) @ CHR ''}'' # r)
    = Some (d @ map (\<lambda>(k, v). (k, sort_dicts v)) kvs, r)"
  using assms
proof (induction kvs arbitrary: d)
  case Nil
  then show ?case by simp
next
  case (Cons kv kvs)
  obtain key v where kv: "kv = (key, v)" by (cases kv)
  have "\<not> is_KInt key" using Cons.prems(3) kv by simp
  then obtain k where key: "key = KStr k" by (cases key) auto
  have v: "plain v" "opens (json_text v)" using Cons.prems(3) kv by (auto intro: json_text_opens)
  have fresh: "dict_put d (KStr k) w = d @ [(KStr k, w)]" for w
    using Cons.prems(5) kv key by (intro dict_put_fresh) auto
  have rv: "stops r' \<Longrightarrow> read_value (json_text v @ r') = Some (sort_dicts v, r')" for r'
    using Cons.prems(2) kv by auto
  show ?case
  proof (cases "kvs = []")
    case True
    with v show ?thesis
      by (simp add: kv key fresh read_members_step [OF _ _ _ rv] stops_delimiter skip_ws_delimiter)
  next
    case False
    then obtain k2 w kvs' where kvs: "kvs = (k2, w) # kvs'" by (cases kvs) auto
    define u where "u = join_comma (map member_text kvs) @ CHR ''}'' # r"
    have eq: "join_comma (map member_text (kv # kvs)) @ CHR ''}'' # r
        = member_text (KStr k, v) @ CHR '','' # u"
      using False by (simp add: join_comma_Cons u_def kv key)
    have "opens (member_text (k2, w))" using Cons.prems(3) kvs by (simp add: member_text_opens)
    then have skip: "skip_ws u = u"
      unfolding u_def kvs by (simp add: skip_ws_opens [OF join_comma_opens] del: join_comma.simps)
    have "read_members (d @ [(KStr k, sort_dicts v)]) u
        = Some ((d @ [(KStr k, sort_dicts v)]) @ map (\<lambda>(k, v). (k, sort_dicts v)) kvs, r)"
      unfolding u_def using False Cons.prems kv key by (intro Cons.IH) auto
    with v show ?thesis
      unfolding eq
      by (simp add: kv key fresh skip read_members_step [OF _ _ _ rv] stops_delimiter skip_ws_delimiter)
  qed
qed

lemma read_value_bracket:
  assumes "opens t"
  shows "read_value (CHR ''['' # t @ r) = map_option (\<lambda>(xs, r). (PyList xs, r)) (read_items (t @ r))"
    and "read_value (CHR ''{'' # t @ r) = map_option (\<lambda>(kvs, r). (PyDict kvs, r)) (read_members [] (t @ r))"
proof -
  have "CHR ''['' \<noteq> quote" "CHR ''{'' \<noteq> quote" by (simp_all add: eq_quote_iff)
  with assms show
    "read_value (CHR ''['' # t @ r) = map_option (\<lambda>(xs, r). (PyList xs, r)) (read_items (t @ r))"
    "read_value (CHR ''{'' # t @ r) = map_option (\<lambda>(kvs, r). (PyDict kvs, r)) (read_members [] (t @ r))"
    by (simp_all add: read_value.simps skip_ws_opens not_startswith_opens Let_def)
qed

lemma read_value_empty:
  "read_value (CHR ''['' # CHR '']'' # r) = Some (PyList [], r)"
  "read_value (CHR ''{'' # CHR ''}'' # r) = Some (PyDict [], r)"
proof -
  have "CHR ''['' \<noteq> quote" "CHR ''{'' \<noteq> quote" by (simp_all add: eq_quote_iff)
  then show "read_value (CHR ''['' # CHR '']'' # r) = Some (PyList [], r)"
    "read_value (CHR ''{'' # CHR ''}'' # r) = Some (PyDict [], r)"
    by (simp_all add: read_value.simps skip_ws_delimiter Let_def)
qed

lemma read_value_str: "read_value (str_text s @ r) = Some (PyStr s, r)"
  by (simp add: read_value.simps str_text_def read_chars_str)

lemma read_value_number:
  assumes "stops r"
  shows "read_value (int_text i @ r) = Some (PyInt i, r)"
proof -
  obtain c cs where c: "int_text i = c # cs" and "c = CHR ''-'' \<or> is_digit c"
  proof (cases "i < 0")
    case False
    then show ?thesis
      using that dec_text_digits [of "nat i"] dec_text_nonempty [of "nat i"]
      by (cases "dec_text (nat i)") (auto simp: int_text_def)
  qed (use that in \<open>simp add: int_text_def\<close>)
  then have "c \<noteq> quote" "c \<notin> set ''[{ntf''"
    by (auto simp: eq_quote_iff is_digit_def)
  then have "read_value (int_text i @ r) = read_number (int_text i @ r)"
    by (simp add: read_value.simps c startswith_def)
  with assms show ?thesis by (simp add: read_number_int_text)
qed

lemma read_value_keyword:
  "read_value (''null'' @ r) = Some (PyNone, r)"
  "read_value (''true'' @ r) = Some (PyBool True, r)"
  "read_value (''false'' @ r) = Some (PyBool False, r)"
proof -
  have "CHR ''n'' \<noteq> quote" "CHR ''t'' \<noteq> quote" "CHR ''f'' \<noteq> quote"
    by (simp_all add: eq_quote_iff)
  then show "read_value (''null'' @ r) = Some (PyNone, r)"
    "read_value (''true'' @ r) = Some (PyBool True, r)"
    "read_value (''false'' @ r) = Some (PyBool False, r)"
    by (simp_all add: read_value.simps startswith_def)
qed

lemma read_value_dict:
  assumes "plain (PyDict kvs)"
    and "\<And>k v r. (k, v) \<in> set kvs \<Longrightarrow> stops r \<Longrightarrow> read_value (json_text v @ r) = Some (sort_dicts v, r)"
  shows "read_value (json_text (PyDict kvs) @ r) = Some (sort_dicts (PyDict kvs), r)"
proof (cases "kvs = []")
  case True
  then show ?thesis by (simp add: read_value_empty)
next
  case False
  define ps where "ps = sort_key fst kvs"
  have ps: "set ps = set kvs" "distinct (map fst ps)" "ps \<noteq> []"
    using assms(1) False unfolding ps_def
    by (auto simp: distinct_map inj_on_def dest: arg_cong [where f = set])
  have plain_ps: "list_all (\<lambda>(k, v). \<not> is_KInt k \<and> plain v) ps"
    using assms(1) ps(1) by (simp add: list_all_iff)
  obtain k v ps' where p: "ps = (k, v) # ps'" using ps(3) by (cases ps) auto
  have "opens (join_comma (map member_text ps))"
    unfolding p using plain_ps p by (simp add: join_comma_opens member_text_opens del: join_comma.simps)
  then show ?thesis
    using read_members_join [of ps "[]" r] ps assms(2) plain_ps
    by (simp add: json_text_dict sort_dicts_dict ps_def [symmetric] read_value_bracket del: json_text.simps sort_dicts.simps)
qed

lemma read_value_json_text:
  "plain v \<Longrightarrow> stops r \<Longrightarrow> read_value (json_text v @ r) = Some (sort_dicts v, r)"
proof (induction v arbitrary: r)
  case (PyList xs)
  show ?case
  proof (cases xs)
    case Nil
    then show ?thesis by (simp add: read_value_empty)
  next
    case (Cons y ys)
    have pl: "plain x" if "x \<in> set xs" for x using PyList.prems(1) that by (simp add: list_all_iff)
    then have "opens (join_comma (map json_text xs))"
      using Cons by (simp add: join_comma_opens json_text_opens del: join_comma.simps)
    moreover have "read_items (join_comma (map json_text xs) @ CHR '']'' # r) = Some (map sort_dicts xs, r)"
      using Cons PyList.IH pl by (intro read_items_join) auto
    ultimately show ?thesis by (simp add: read_value_bracket)
  qed
next
  case (PyDict kvs)
  have "read_value (json_text v @ r') = Some (sort_dicts v, r')"
    if "(k, v) \<in> set kvs" "stops r'" for k v r'
    using PyDict.IH [of "(k, v)" v] PyDict.prems(1) that by (auto simp: list_all_iff)
  with PyDict.prems(1) show ?case by (rule read_value_dict)
qed (simp_all add: read_value_keyword [simplified] read_value_str read_value_number)

text \<open>The bytes \<^verbatim>\<open>json.dumps\<close> produces are ASCII without a newline, so one record is one line.\<close>

lemma escape_char_ascii: "c \<in> set (escape_char d) \<Longrightarrow> 32 \<le> (of_char c :: nat) \<and> (of_char c :: nat) < 127"
proof -
  define n where "n = (of_char d :: nat)"
  have "n < 256" by (simp add: n_def)
  then have "n div 16 < 16" "n mod 16 < 16" by auto
  then show "c \<in> set (escape_char d) \<Longrightarrow> 32 \<le> (of_char c :: nat) \<and> (of_char c :: nat) < 127"
    by (auto simp: escape_char_def n_def [symmetric] Let_def of_char_hex_char split: if_splits)
qed

definition printable :: "string \<Rightarrow> bool" where
  "printable s = list_all (\<lambda>c. 32 \<le> (of_char c :: nat) \<and> (of_char c :: nat) < 127) s"

lemma printable_append [simp]: "printable (s @ t) \<longleftrightarrow> printable s \<and> printable t"
  by (simp add: printable_def)

lemma printable_Cons [simp]:
  "printable (c # s) \<longleftrightarrow> 32 \<le> (of_char c :: nat) \<and> (of_char c :: nat) < 127 \<and> printable s"
  by (simp add: printable_def)

lemma printable_Nil [simp]: "printable []"
  by (simp add: printable_def)

lemma printable_str_text: "printable (str_text s)"
  by (auto simp: str_text_def printable_def list_all_iff dest: escape_char_ascii)

lemma printable_dec_text: "printable (dec_text n)"
proof -
  have "32 \<le> (of_char c :: nat) \<and> (of_char c :: nat) < 127" if "is_digit c" for c
    using that by (simp add: is_digit_def)
  with dec_text_digits [of n] show ?thesis by (auto simp: printable_def list_all_iff)
qed

lemma printable_int_text: "printable (int_text i)"
  by (simp add: int_text_def printable_dec_text)

lemma printable_join_comma: "list_all printable ts \<Longrightarrow> printable (join_comma ts)"
  by (induction ts rule: join_comma.induct) auto

lemma printable_json_text: "printable (json_text v)"
proof (induction v)
  case (PyDict kvs)
  have "printable (key_text k)" for k by (cases k) (simp_all add: printable_str_text)
  with PyDict.IH have "printable (member_text p)" if "p \<in> set kvs" for p
    using that by (cases p) (auto simp: member_text_def)
  then have "list_all printable (map member_text (sort_key fst kvs))"
    by (simp add: list_all_iff)
  then show ?case by (simp add: json_text_dict printable_join_comma del: json_text.simps)
qed (simp_all add: printable_str_text printable_int_text printable_join_comma list_all_iff)

lemma utf8_decode_ascii: "isascii s \<Longrightarrow> utf8_decode s = Some s"
  by (induction s) (auto simp: isascii_def)

lemma printable_isascii: "printable s \<Longrightarrow> isascii s"
  by (auto simp: printable_def isascii_def list_all_iff)

theorem loads_dumps:
  assumes "plain v"
  shows "json_loads (json_text v @ [CHR 0x0A]) = Some (sort_dicts v)"
proof -
  have "isascii (json_text v @ [CHR 0x0A])"
    using printable_isascii [OF printable_json_text [of v]] by (simp add: isascii_def)
  moreover have "skip_ws (json_text v @ [CHR 0x0A]) = json_text v @ [CHR 0x0A]"
    using json_text_opens [OF assms] by (rule skip_ws_opens)
  moreover have "read_value (json_text v @ [CHR 0x0A]) = Some (sort_dicts v, [CHR 0x0A])"
    using assms by (rule read_value_json_text) (simp add: stops_def is_digit_def)
  ultimately show ?thesis
    by (simp add: json_loads_def utf8_decode_ascii skip_ws_def is_ws_def)
qed

section \<open>What reading returns\<close>

lemma fst_dict_put: "fst ` set (dict_put d k v) = insert k (fst ` set d)"
  by (induction d k v rule: dict_put.induct) (auto split: if_splits)

lemma plain_dict_put:
  "plain (PyDict d) \<Longrightarrow> plain v \<Longrightarrow> plain (PyDict (dict_put d (KStr k) v))"
  by (induction d) (auto simp: fst_dict_put split: if_splits)

lemma read_number_plain: "read_number s = Some (v, r) \<Longrightarrow> plain v"
  by (auto simp: read_number_def Let_def split: option.splits if_splits)

lemma read_plain:
  shows "read_value s = Some (v, r) \<Longrightarrow> plain v"
    and "read_items s = Some (vs, r) \<Longrightarrow> list_all plain vs"
    and "read_members d s = Some (d', r) \<Longrightarrow> plain (PyDict d) \<Longrightarrow> plain (PyDict d')"
proof (induction s and s and d s arbitrary: v r and vs r and d' r
    rule: read_value_read_items_read_members.induct)
  case (1 s)
  from "1.prems" show ?case
    by (subst (asm) read_value.simps)
      (auto simp: Let_def read_number_plain dest: "1.IH"
        split: if_splits option.splits)
next
  case (2 s)
  from "2.prems" obtain v r1 where v: "read_value s = Some (v, r1)"
    by (subst (asm) read_items.simps) (auto split: option.splits)
  note body = "2.prems" [unfolded read_items.simps [of s] v option.case prod.case Let_def]
  have pv: "plain v" using "2.IH"(1) v by blast
  show ?case
  proof (cases "startswith (skip_ws r1) '']''")
    case True
    with body pv show ?thesis by auto
  next
    case False
    with body obtain ws where "read_items (skip_ws (tl (skip_ws r1))) = Some (ws, r)" "vs = v # ws"
      and g: "startswith (skip_ws r1) '',''" "length (skip_ws (tl (skip_ws r1))) < length s"
      by (auto split: if_splits)
    moreover from this(1) have "list_all plain ws"
      by (rule "2.IH"(2) [OF v refl refl False g(1) refl g(2)])
    ultimately show ?thesis using pv by simp
  qed
next
  case (3 d s)
  from "3.prems"(1) obtain k r1 where k: "\<not> \<not> (s \<noteq> [] \<and> hd s = quote)" "read_chars (tl s) = Some (k, r1)"
    by (subst (asm) read_members.simps) (auto split: option.splits if_splits)
  define u where "u = skip_ws (tl (skip_ws r1))"
  note b1 = "3.prems"(1) [unfolded read_members.simps [of d s] if_not_P [OF k(1)] k(2) option.case prod.case Let_def
      u_def [symmetric]]
  from b1 obtain v r2 where g: "\<not> \<not> startswith (skip_ws r1) '':''" "\<not> \<not> length u < length s"
    and v: "read_value u = Some (v, r2)"
    by (auto split: option.splits if_splits)
  note b2 = b1 [unfolded if_not_P [OF g(1)] if_not_P [OF g(2)] v option.case prod.case]
  have "plain v" by (rule "3.IH"(1) [OF k(1) k(2) refl refl g(1) u_def g(2) v])
  then have pd: "plain (PyDict (dict_put d (KStr k) v))" using "3.prems"(2) by (intro plain_dict_put)
  show ?case
  proof (cases "startswith (skip_ws r2) ''}''")
    case True
    with b2 pd show ?thesis by (auto simp del: plain.simps)
  next
    case False
    with b2 have h: "startswith (skip_ws r2) '',''" "length (skip_ws (tl (skip_ws r2))) < length s"
      and m: "read_members (dict_put d (KStr k) v) (skip_ws (tl (skip_ws r2))) = Some (d', r)"
      by (auto split: if_splits)
    show ?thesis
      by (rule "3.IH"(2) [OF k(1) k(2) refl refl g(1) u_def g(2) v refl refl refl False h(1) refl h(2) m pd])
  qed
qed

lemma json_loads_plain: "json_loads t = Some v \<Longrightarrow> plain v"
  by (auto simp: json_loads_def dest: read_plain(1) split: option.splits if_splits)

declare json_text.simps(7) [simp del] sort_dicts.simps(2) [simp del]

end
