(* ===== verification/Mutation_Journal.thy ===== *)
theory Mutation_Journal
  imports Json_Codec
begin

text \<open>
  The append-only mutation journal, \<^verbatim>\<open>src/src/t2_mutation_journal.py\<close>: every biometric mutation
  records its intent and its observations as hash-chained JSON lines in one private file. The
  theory models the record checks, the baseline schema, the torn-tail repair and the file
  operations \<^verbatim>\<open>append\<close>, \<^verbatim>\<open>create\<close> and \<^verbatim>\<open>read\<close>. SHA-256 is the parameter \<open>H\<close> (the hexadecimal
  digest of a text); the results of the successive \<^verbatim>\<open>os.write\<close> calls are a parameter as well,
  so an interrupted append is a run of the model. A journal file's bytes are a \<open>string\<close>.
\<close>

section \<open>Constants and small checks\<close>

definition FORMAT_VERSION :: int where "FORMAT_VERSION = 1"

definition REPAIR_MILESTONE :: string where "REPAIR_MILESTONE = ''TORN_TAIL_TRUNCATED''"

definition ALLOWED_KINDS :: "string list" where
  "ALLOWED_KINDS = [''enroll'', ''rename'', ''delete-one'', ''delete-batch'', ''recovery'',
     ''native-state-restore'', ''sync-user-catacomb'', ''reconcile-external-delete'']"

definition FORBIDDEN_KEY_PARTS :: "string list" where
  "FORBIDDEN_KEY_PARTS = [''password'', ''passcode'', ''credential'', ''secret'', ''auth_token'']"

definition SAFE_SECURITY_METADATA_SUFFIXES :: "string list" where
  "SAFE_SECURITY_METADATA_SUFFIXES = [''_verified'', ''_digest'', ''_hash'', ''_present'']"

definition BASELINE_KEYS :: "string list" where
  "BASELINE_KEYS = [''baseline_version'', ''caller_linux_uid'', ''target_linux_uid'', ''apple_uid'',
     ''account_uuid'', ''bag_uuid'', ''linux_boot_uuid'', ''connection_generation'',
     ''bridge_boot_uuid'', ''protocol_version'', ''policy_decision'', ''identity_records'',
     ''capacity'', ''sep_catacomb'', ''host_components'', ''master_enrollment_count'',
     ''mapping_generation'', ''backup_references'', ''double_collection_equal'',
     ''password_fallback_verified'']"

abbreviation journal_error :: "string \<Rightarrow> exc" where
  "journal_error \<equiv> Exc JournalError"

definition is_repair_milestone :: "pyval \<Rightarrow> bool" where
  "is_repair_milestone milestone = py_eq milestone (PyStr REPAIR_MILESTONE)"

definition valid_repair_record :: "pydict \<Rightarrow> bool" where
  "valid_repair_record record =
     (let evidence = dict_get record ''evidence'' in
      dict_keys_are record [''format_version'', ''operation_id'', ''sequence'', ''previous_hash'',
        ''milestone'', ''evidence'']
      \<and> \<not> py_eq (dict_get record ''sequence'') (PyInt 0)
      \<and> isinstance_dict evidence
      \<and> dict_keys_are (dict_of evidence) [''truncated_bytes'']
      \<and> type_is_int (dict_get (dict_of evidence) ''truncated_bytes'')
      \<and> int_of (dict_get (dict_of evidence) ''truncated_bytes'') > 0)"

section \<open>Lines\<close>

definition LF :: char where "LF = CHR 0x0A"
definition CR :: char where "CR = CHR 0x0D"

text \<open>\<^verbatim>\<open>bytes.splitlines(keepends=True)\<close>\<close>

fun splitlines :: "string \<Rightarrow> string list" where
  "splitlines [] = []"
| "splitlines (c # s) =
     (if c = LF then [c] # splitlines s
      else if c = CR \<and> \<not> startswith s [LF] then [c] # splitlines s
      else (case splitlines s of [] \<Rightarrow> [[c]] | l # ls \<Rightarrow> (c # l) # ls))"

text \<open>\<^verbatim>\<open>payload.rfind(b"\n")\<close>, \<open>None\<close> for \<open>-1\<close>.\<close>

fun rfind_LF :: "string \<Rightarrow> nat option" where
  "rfind_LF [] = None"
| "rfind_LF (c # s) =
     (case rfind_LF s of Some i \<Rightarrow> Some (Suc i) | None \<Rightarrow> if c = LF then Some 0 else None)"

definition split_complete_lines :: "string \<Rightarrow> string list \<times> string" where
  "split_complete_lines payload =
     (if payload = [] then ([], [])
      else if last payload = LF then (splitlines payload, [])
      else (case rfind_LF payload of
              None \<Rightarrow> ([], payload)
            | Some index \<Rightarrow> (splitlines (take (index + 1) payload), drop (index + 1) payload)))"

section \<open>Values\<close>

definition canonical :: "pyval \<Rightarrow> string res" where
  "canonical value = (case json_dumps value of
     None \<Rightarrow> Inl (journal_error ''journal value is not canonical JSON: '')
   | Some t \<Rightarrow> Inr t)"

text \<open>\<^verbatim>\<open>key.lower().replace("-", "_")\<close>\<close>

definition normalize_key :: "string \<Rightarrow> string" where
  "normalize_key key = map (\<lambda>c. if c = CHR ''-'' then CHR ''_'' else c) (lower key)"

definition forbidden_key :: "string \<Rightarrow> bool" where
  "forbidden_key key =
     (let normalized = normalize_key key in
      list_ex (contains normalized) FORBIDDEN_KEY_PARTS
      \<and> \<not> list_ex (endswith normalized) SAFE_SECURITY_METADATA_SUFFIXES)"

fun reject_key :: "pykey \<Rightarrow> unit res" where
  "reject_key (KInt _) = Inl (journal_error ''contains a non-string key'')"
| "reject_key (KStr key) =
     (if forbidden_key key then Inl (journal_error ''may contain secret material'') else Inr ())"

fun reject_secrets :: "pyval \<Rightarrow> unit res" where
  "reject_secrets (PyDict kvs) =
     all_ok (map (\<lambda>(key, child). and_then (reject_key key) (\<lambda>_. reject_secrets child)) kvs)"
| "reject_secrets (PyList xs) = all_ok (map reject_secrets xs)"
| "reject_secrets (PyBytes _) = Inl (journal_error ''contains raw bytes'')"
| "reject_secrets (PyByteArray _) = Inl (journal_error ''contains raw bytes'')"
| "reject_secrets _ = Inr ()"

definition record_hash :: "(string \<Rightarrow> string) \<Rightarrow> pydict \<Rightarrow> string res" where
  "record_hash H record_without_hash =
     and_then (canonical (PyDict record_without_hash)) (\<lambda>t. Inr (H t))"

definition require_uuid :: "pyval \<Rightarrow> string \<Rightarrow> unit res" where
  "require_uuid value field =
     (if isinstance_str value \<and> canonical_uuid (str_of value) then Inr ()
      else Inl (journal_error (field @ '' is not a canonical UUID'')))"

definition require_sha256 :: "pyval \<Rightarrow> string \<Rightarrow> unit res" where
  "require_sha256 value field =
     (if \<not> isinstance_str value \<or> length (str_of value) \<noteq> 64
      then Inl (journal_error (field @ '' is not a SHA-256 digest''))
      else if \<not> fromhex_ok (str_of value)
      then Inl (journal_error (field @ '' is not a SHA-256 digest''))
      else Inr ())"

definition require_nonnegative_int :: "pyval \<Rightarrow> string \<Rightarrow> unit res" where
  "require_nonnegative_int value field =
     (if \<not> isinstance_int value \<or> type_is_bool value \<or> int_of value < 0
      then Inl (journal_error (field @ '' is not a non-negative integer''))
      else Inr ())"

section \<open>Baseline\<close>

text \<open>\<^verbatim>\<open>validate_baseline\<close>, split at the blank lines of the source.\<close>

definition validate_baseline_fields :: "pydict \<Rightarrow> unit res" where
  "validate_baseline_fields baseline =
     (let baseline_version = dict_get baseline ''baseline_version'' in
      if \<not> type_is_int baseline_version \<or> \<not> in_int_tuple baseline_version [1, 2]
      then Inl (journal_error ''unsupported baseline version'')
      else and_then (all_ok (map (\<lambda>field. require_nonnegative_int (dict_get baseline field) field)
             [''caller_linux_uid'', ''target_linux_uid'', ''apple_uid'', ''protocol_version'',
              ''master_enrollment_count''])) (\<lambda>_.
      and_then (all_ok (map (\<lambda>field. require_uuid (dict_get baseline field) field)
             [''account_uuid'', ''bag_uuid'', ''linux_boot_uuid'', ''connection_generation''])) (\<lambda>_.
      and_then (if dict_get baseline ''bridge_boot_uuid'' = PyNone then Inr ()
                else require_uuid (dict_get baseline ''bridge_boot_uuid'') ''bridge_boot_uuid'') (\<lambda>_.
      if \<not> py_eq (dict_get baseline ''policy_decision'') (PyStr ''authorized'')
      then Inl (journal_error ''baseline policy decision is not authorized'')
      else if \<not> dict_is_true baseline ''double_collection_equal''
      then Inl (journal_error ''baseline was not reproduced by a second collection'')
      else if \<not> type_is_bool (dict_get baseline ''password_fallback_verified'')
      then Inl (journal_error ''password fallback attestation is not Boolean'')
      else require_sha256 (dict_get baseline ''mapping_generation'') ''mapping_generation''))))"

fun validate_identity_records ::
    "pyval \<Rightarrow> (int \<times> string) list \<Rightarrow> pyval list \<Rightarrow> unit res" where
  "validate_identity_records apple_uid seen_identities [] = Inr ()"
| "validate_identity_records apple_uid seen_identities (v # rest) =
     (if \<not> isinstance_dict v \<or> \<not> dict_keys_are (dict_of v) [''user_id'', ''uuid'', ''entity'']
      then Inl (journal_error ''identity_records has an invalid schema'')
      else let identity = dict_of v in
      and_then (require_nonnegative_int (dict_get identity ''user_id'') ''identity_records.user_id'') (\<lambda>_.
      and_then (require_nonnegative_int (dict_get identity ''entity'') ''identity_records.entity'') (\<lambda>_.
      and_then (require_uuid (dict_get identity ''uuid'') ''identity_records.uuid'') (\<lambda>_.
      let key = (int_of (dict_get identity ''user_id''), lower (str_of (dict_get identity ''uuid''))) in
      if key \<in> set seen_identities
      then Inl (journal_error ''identity_records contains a duplicate'')
      else if \<not> py_eq (dict_get identity ''user_id'') apple_uid
      then Inl (journal_error ''identity record belongs to another Apple UID'')
      else validate_identity_records apple_uid (key # seen_identities) rest))))"

definition validate_capacity :: "pyval \<Rightarrow> nat \<Rightarrow> unit res" where
  "validate_capacity v identity_count =
     (if \<not> isinstance_dict v \<or> \<not> dict_keys_are (dict_of v) [''used'', ''maximum'']
      then Inl (journal_error ''capacity has an invalid schema'')
      else let capacity = dict_of v in
      and_then (require_nonnegative_int (dict_get capacity ''used'') ''capacity.used'') (\<lambda>_.
      and_then (require_nonnegative_int (dict_get capacity ''maximum'') ''capacity.maximum'') (\<lambda>_.
      if int_of (dict_get capacity ''used'') \<noteq> int identity_count
         \<or> int_of (dict_get capacity ''used'') > int_of (dict_get capacity ''maximum'')
      then Inl (journal_error ''capacity does not agree with identity inventory'')
      else Inr ())))"

definition validate_sep_catacomb :: "pyval \<Rightarrow> int \<Rightarrow> unit res" where
  "validate_sep_catacomb v baseline_version =
     (if \<not> isinstance_dict v \<or> \<not> dict_keys_are (dict_of v) [''present'', ''uuid'', ''hash'']
      then Inl (journal_error ''sep_catacomb has an invalid schema'')
      else let sep = dict_of v in
      if dict_get sep ''present'' = PyBool True
      then and_then (require_uuid (dict_get sep ''uuid'') ''sep_catacomb.uuid'') (\<lambda>_.
           require_sha256 (dict_get sep ''hash'') ''sep_catacomb.hash'')
      else if dict_get sep ''present'' = PyBool False
      then (if baseline_version = 1
            then (if dict_get sep ''uuid'' \<noteq> PyNone \<or> dict_get sep ''hash'' \<noteq> PyNone
                  then Inl (journal_error ''absent SEP Catacomb has UUID/hash data'') else Inr ())
            else and_then (require_uuid (dict_get sep ''uuid'') ''sep_catacomb.uuid'') (\<lambda>_.
                 if dict_get sep ''hash'' \<noteq> PyNone
                 then Inl (journal_error ''empty Linux-native Catacomb namespace is invalid'')
                 else Inr ()))
      else Inl (journal_error ''sep_catacomb.present is not boolean''))"

text \<open>\<^verbatim>\<open>f'user_{apple_uid:08x}.cat'\<close>\<close>

definition user_cat_name :: "int \<Rightarrow> string" where
  "user_cat_name apple_uid = ''user_'' @ hex08 (nat apple_uid) @ ''.cat''"

fun validate_host_components :: "int \<Rightarrow> string list \<Rightarrow> pyval list \<Rightarrow> unit res" where
  "validate_host_components apple_uid component_names [] = Inr ()"
| "validate_host_components apple_uid component_names (v # rest) =
     (if \<not> isinstance_dict v
         \<or> \<not> dict_keys_are (dict_of v) [''name'', ''sha256'', ''mode'', ''uid'', ''gid'']
      then Inl (journal_error ''host_components has an invalid schema'')
      else let component = dict_of v; name = dict_get component ''name'' in
      and_then (in_str_set name [''master.cat'', ''biolockout.cat'', user_cat_name apple_uid]) (\<lambda>known.
      if \<not> known then Inl (journal_error ''host_components has an unexpected name'')
      else if str_of name \<in> set component_names
      then Inl (journal_error ''host_components contains a duplicate'')
      else and_then (require_sha256 (dict_get component ''sha256'') ''host_components.sha256'') (\<lambda>_.
      and_then (all_ok (map (\<lambda>field. require_nonnegative_int (dict_get component field) field)
                 [''mode'', ''uid'', ''gid''])) (\<lambda>_.
      validate_host_components apple_uid (str_of name # component_names) rest))))"

fun validate_backups :: "pyval list \<Rightarrow> unit res" where
  "validate_backups [] = Inr ()"
| "validate_backups (v # rest) =
     (if \<not> isinstance_dict v \<or> \<not> dict_keys_are (dict_of v) [''reference'', ''sha256'']
      then Inl (journal_error ''backup_references has an invalid schema'')
      else let backup = dict_of v in
      if \<not> isinstance_str (dict_get backup ''reference'') \<or> dict_get backup ''reference'' = PyStr []
      then Inl (journal_error ''backup_references.reference is invalid'')
      else and_then (require_sha256 (dict_get backup ''sha256'') ''backup_references.sha256'') (\<lambda>_.
      validate_backups rest))"

definition validate_baseline :: "pyval \<Rightarrow> unit res" where
  "validate_baseline v =
     (if \<not> isinstance_dict v \<or> \<not> dict_keys_are (dict_of v) BASELINE_KEYS
      then Inl (journal_error ''baseline fields do not match schema'')
      else let baseline = dict_of v;
               identities = dict_get baseline ''identity_records'';
               components = dict_get baseline ''host_components'';
               backups = dict_get baseline ''backup_references'' in
      and_then (validate_baseline_fields baseline) (\<lambda>_.
      let baseline_version = int_of (dict_get baseline ''baseline_version'');
          apple_uid = int_of (dict_get baseline ''apple_uid'') in
      if \<not> isinstance_list identities then Inl (journal_error ''identity_records is not a list'')
      else and_then (validate_identity_records (dict_get baseline ''apple_uid'') [] (list_of identities)) (\<lambda>_.
      and_then (validate_capacity (dict_get baseline ''capacity'') (length (list_of identities))) (\<lambda>_.
      and_then (validate_sep_catacomb (dict_get baseline ''sep_catacomb'') baseline_version) (\<lambda>_.
      if \<not> isinstance_list components then Inl (journal_error ''host_components is not a list'')
      else and_then (validate_host_components apple_uid [] (list_of components)) (\<lambda>_.
      if \<not> isinstance_list backups \<or> baseline_version = 1 \<and> list_of backups = []
      then Inl (journal_error ''baseline has no verified backup references'')
      else and_then (validate_backups (list_of backups)) (\<lambda>_.
      if baseline_version = 2 \<and>
         (list_of identities \<noteq> []
          \<or> int_of (dict_get (dict_of (dict_get baseline ''capacity'')) ''used'') \<noteq> 0
          \<or> dict_get (dict_of (dict_get baseline ''sep_catacomb'')) ''present'' \<noteq> PyBool False
          \<or> list_of components \<noteq> []
          \<or> int_of (dict_get baseline ''master_enrollment_count'') \<noteq> 0
          \<or> list_of backups \<noteq> [])
      then Inl (journal_error ''Linux-native empty baseline contains durable Catacomb state'')
      else Inr ())))))))"

section \<open>Records\<close>

text \<open>The loop of \<^verbatim>\<open>validate_records\<close>: what it carries from line to line.\<close>

record chain_state =
  chain_records :: "pydict list"
  chain_previous_hash :: pyval
  chain_operation_id :: pyval

definition validate_record_line ::
    "(string \<Rightarrow> string) \<Rightarrow> string \<Rightarrow> chain_state \<Rightarrow> chain_state res" where
  "validate_record_line H line st =
     (let sequence = int (length (chain_records st)) in
      case json_loads line of
        None \<Rightarrow> Inl (journal_error ''invalid journal JSON at sequence '')
      | Some value \<Rightarrow>
      if \<not> isinstance_dict value then Inl (journal_error ''journal record is not an object'')
      else let supplied_hash = dict_get (dict_of value) ''record_hash'';
               record = dict_without (dict_of value) ''record_hash'' in
      if \<not> py_eq (dict_get record ''format_version'') (PyInt FORMAT_VERSION)
      then Inl (journal_error ''unsupported journal format at sequence '')
      else if \<not> py_eq (dict_get record ''sequence'') (PyInt sequence)
      then Inl (journal_error ''non-contiguous journal sequence at '')
      else if \<not> py_eq (dict_get record ''previous_hash'') (chain_previous_hash st)
      then Inl (journal_error ''broken journal hash chain at sequence '')
      else and_then (record_hash H record) (\<lambda>expected.
      if supplied_hash \<noteq> PyStr expected
      then Inl (journal_error ''invalid journal hash at sequence '')
      else let operation_id = (if chain_operation_id st = PyNone
                               then dict_get record ''operation_id'' else chain_operation_id st) in
      if \<not> py_eq (dict_get record ''operation_id'') operation_id
      then Inl (journal_error ''operation ID changed at sequence '')
      else if is_repair_milestone (dict_get record ''milestone'') \<and> \<not> valid_repair_record record
      then Inl (journal_error ''invalid torn-tail repair record at sequence '')
      else Inr \<lparr>chain_records = chain_records st @ [record @ [(KStr ''record_hash'', supplied_hash)]],
                chain_previous_hash = supplied_hash,
                chain_operation_id = operation_id\<rparr>))"

definition validate_records :: "(string \<Rightarrow> string) \<Rightarrow> string list \<Rightarrow> pydict list res" where
  "validate_records H lines =
     and_then (fold_res (validate_record_line H) lines
        \<lparr>chain_records = [], chain_previous_hash = PyNone, chain_operation_id = PyNone\<rparr>)
       (\<lambda>st. Inr (chain_records st))"

definition unsigned_fields :: "pyval \<Rightarrow> nat \<Rightarrow> pyval \<Rightarrow> string \<Rightarrow> pydict \<Rightarrow> pydict" where
  "unsigned_fields operation_id sequence previous_hash milestone evidence =
     [(KStr ''format_version'', PyInt FORMAT_VERSION),
      (KStr ''operation_id'', operation_id),
      (KStr ''sequence'', PyInt (int sequence)),
      (KStr ''previous_hash'', previous_hash),
      (KStr ''milestone'', PyStr milestone),
      (KStr ''evidence'', PyDict evidence)]"

definition unsigned_record ::
    "(string \<Rightarrow> string) \<Rightarrow> pyval \<Rightarrow> nat \<Rightarrow> pyval \<Rightarrow> string \<Rightarrow> pydict \<Rightarrow> pydict res" where
  "unsigned_record H operation_id sequence previous_hash milestone evidence =
     (let unsigned = unsigned_fields operation_id sequence previous_hash milestone evidence in
      and_then (record_hash H unsigned) (\<lambda>h. Inr (unsigned @ [(KStr ''record_hash'', PyStr h)])))"

section \<open>File contents\<close>

text \<open>
  An operation on an open journal returns its result and the file's bytes afterwards, also when
  it raises. \<open>ws\<close> holds the results of the coming \<^verbatim>\<open>os.write\<close> calls: a positive number of bytes
  accepted, \<open>0\<close>, or a negative number for an \<^verbatim>\<open>OSError\<close>; once it is used up, writes are complete.
\<close>

fun write_all :: "int list \<Rightarrow> string \<Rightarrow> string \<Rightarrow> unit res \<times> string" where
  "write_all [] payload data = (Inr (), data @ payload)"
| "write_all (count # ws) payload data =
     (if payload = [] then (Inr (), data)
      else if count < 0 then (Inl (Exc OSError ''write''), data)
      else if count = 0 then (Inl (journal_error ''journal append made no forward progress''), data)
      else write_all ws (drop (nat count) payload) (data @ take (nat count) payload))"

definition append_record :: "int list \<Rightarrow> pydict \<Rightarrow> string \<Rightarrow> unit res \<times> string" where
  "append_record ws record data =
     (case canonical (PyDict record) of
        Inl e \<Rightarrow> (Inl e, data)
      | Inr t \<Rightarrow> write_all ws (t @ [LF]) data)"

definition MAX_JOURNAL_BYTES :: int where "MAX_JOURNAL_BYTES = 8 * 1024 * 1024"

definition payload_from_fd :: "string \<Rightarrow> string res" where
  "payload_from_fd data =
     (if int (length data) > MAX_JOURNAL_BYTES
      then Inl (journal_error ''mutation journal ownership, mode, or size is unsafe'')
      else Inr data)"

text \<open>\<^verbatim>\<open>_repair_torn_tail\<close>: truncate to the complete lines, then append the repair record. A record
  without an \<^verbatim>\<open>operation_id\<close> makes the subscript raise \<^verbatim>\<open>KeyError\<close> after the truncation.\<close>

definition repair_torn_tail ::
    "(string \<Rightarrow> string) \<Rightarrow> int list \<Rightarrow> string list \<Rightarrow> string \<Rightarrow> string \<Rightarrow> pydict list res \<times> string" where
  "repair_torn_tail H ws lines torn_tail data =
     (case validate_records H lines of
        Inl e \<Rightarrow> (Inl e, data)
      | Inr records \<Rightarrow>
          if records = [] \<or> torn_tail = []
          then (Inl (journal_error ''invalid journal JSON at sequence 0''), data)
          else
            let complete = take (length (concat lines)) data in
            case and_then (dict_item (hd records) ''operation_id'') (\<lambda>operation_id.
                   unsigned_record H operation_id (length records)
                     (dict_get (last records) ''record_hash'') REPAIR_MILESTONE
                     [(KStr ''truncated_bytes'', PyInt (int (length torn_tail)))]) of
              Inl e \<Rightarrow> (Inl e, complete)
            | Inr record \<Rightarrow>
                (case append_record ws record complete of
                   (Inl e, data') \<Rightarrow> (Inl e, data')
                 | (Inr _, data') \<Rightarrow> (Inr (records @ [record]), data')))"

definition load_records ::
    "(string \<Rightarrow> string) \<Rightarrow> int list \<Rightarrow> bool \<Rightarrow> string \<Rightarrow> pydict list res \<times> string" where
  "load_records H ws repair data =
     (case payload_from_fd data of
        Inl e \<Rightarrow> (Inl e, data)
      | Inr payload \<Rightarrow>
          (case split_complete_lines payload of (lines, torn_tail) \<Rightarrow>
             if torn_tail = [] then (validate_records H lines, data)
             else if \<not> repair then (Inl (journal_error ''invalid journal JSON at sequence ''), data)
             else repair_torn_tail H ws lines torn_tail data))"

section \<open>Files\<close>

text \<open>
  What the module asks the file system about one journal path: the parent directory and the file
  with its kind, whether the caller owns it, its link count and whether group and others have no
  permission on it. \<^verbatim>\<open>flock\<close> serialises the operations, so each is one atomic step.
\<close>

datatype parent_state = NoParent | ParentDir (parent_owned: bool) (parent_private: bool) | ParentNotDir

datatype file_kind = RegularFile | SymbolicLink (target_exists: bool) | OtherFile

record journal_file =
  jf_kind :: file_kind
  jf_owned :: bool
  jf_nlink :: int
  jf_private :: bool
  jf_data :: string

record journal_fs =
  fs_parent :: parent_state
  fs_file :: "journal_file option"

text \<open>\<^verbatim>\<open>path.parent.mkdir(mode=0o700, parents=True, exist_ok=True)\<close>\<close>

definition mkdir_parent :: "journal_fs \<Rightarrow> journal_fs" where
  "mkdir_parent fs = (if fs_parent fs = NoParent then fs\<lparr>fs_parent := ParentDir True True\<rparr> else fs)"

text \<open>\<^verbatim>\<open>uuid.UUID(s)\<close> accepts \<open>s\<close>: 32 characters are left once \<^verbatim>\<open>urn:\<close>, \<^verbatim>\<open>uuid:\<close>, outer braces and
  hyphens are removed, and \<^verbatim>\<open>int(_, 16)\<close> accepts them and gives a natural number.\<close>

function remove_all :: "string \<Rightarrow> string \<Rightarrow> string" where
  "remove_all p s = (if s = [] then [] else if p \<noteq> [] \<and> startswith s p then remove_all p (drop (length p) s)
     else hd s # remove_all p (tl s))"
  by pat_completeness auto
termination
  by (relation "measure (\<lambda>(p, s). length s)") auto

declare remove_all.simps [simp del]

definition strip_chars :: "(char \<Rightarrow> bool) \<Rightarrow> string \<Rightarrow> string" where
  "strip_chars P s = rev (dropWhile P (rev (dropWhile P s)))"

definition is_py_space :: "char \<Rightarrow> bool" where
  "is_py_space c = (of_char c \<in> {9, 10, 11, 12, 13, 28, 29, 30, 31, 32, 133, 160 :: nat})"

text \<open>Hexadecimal digits, with single underscores between digits.\<close>

fun hex_digits_text :: "string \<Rightarrow> bool" where
  "hex_digits_text [] = False"
| "hex_digits_text [c] = is_hex_digit c"
| "hex_digits_text (c # d # s) =
     (is_hex_digit c \<and> hex_digits_text (if d = CHR ''_'' then s else d # s))"

definition int16_accepts :: "string \<Rightarrow> bool" where
  "int16_accepts text =
     (let s = strip_chars is_py_space text;
          neg = startswith s ''-'';
          unsigned = (if neg \<or> startswith s ''+'' then tl s else s);
          prefixed = startswith (lower unsigned) ''0x'';
          body = (if prefixed then drop 2 unsigned else unsigned);
          digits = (if prefixed \<and> startswith body ''_'' then tl body else body) in
      hex_digits_text digits
      \<and> (neg \<longrightarrow> list_all (\<lambda>c. c = CHR ''0'' \<or> c = CHR ''_'') digits))"

definition uuid_accepts :: "string \<Rightarrow> bool" where
  "uuid_accepts s =
     (let hex = remove_all ''-'' (strip_chars (\<lambda>c. c \<in> set ''{}'')
                  (remove_all ''uuid:'' (remove_all ''urn:'' s))) in
      length hex = 32 \<and> int16_accepts hex)"

definition valid_milestone_name :: "string \<Rightarrow> bool" where
  "valid_milestone_name milestone =
     (milestone \<noteq> [] \<and> isascii milestone
      \<and> ascii_isalnum (filter (\<lambda>c. c \<noteq> CHR ''_'') milestone))"

text \<open>The part of \<^verbatim>\<open>append\<close> that runs on the locked, open file.\<close>

definition append_to_data ::
    "(string \<Rightarrow> string) \<Rightarrow> int list \<Rightarrow> int list \<Rightarrow> string \<Rightarrow> string \<Rightarrow> pydict \<Rightarrow>
     int option \<Rightarrow> string option \<Rightarrow> string \<Rightarrow> pydict res \<times> string" where
  "append_to_data H ws ws' operation_id milestone evidence
       expected_record_count expected_previous_hash data =
     (case load_records H ws True data of
        (Inl e, data1) \<Rightarrow> (Inl e, data1)
      | (Inr records, data1) \<Rightarrow>
          let actual_previous_hash =
                (if records = [] then PyNone else dict_get (last records) ''record_hash'') in
          if expected_record_count \<noteq> None \<and> int (length records) \<noteq> the expected_record_count
          then (Inl (journal_error ''journal changed before the guarded append''), data1)
          else if expected_record_count \<noteq> None
             \<and> \<not> py_eq actual_previous_hash
                 (case expected_previous_hash of None \<Rightarrow> PyNone | Some h \<Rightarrow> PyStr h)
          then (Inl (journal_error ''journal head changed before the guarded append''), data1)
          else
            case (if records = [] then Inr (PyStr operation_id)
                  else dict_item (hd records) ''operation_id'') of
              Inl e \<Rightarrow> (Inl e, data1)
            | Inr first_id \<Rightarrow>
          if \<not> py_eq first_id (PyStr operation_id)
          then (Inl (journal_error ''journal belongs to another operation''), data1)
          else
            case unsigned_record H (PyStr operation_id) (length records) actual_previous_hash
                   milestone evidence of
              Inl e \<Rightarrow> (Inl e, data1)
            | Inr record \<Rightarrow>
                (case append_record ws' record data1 of
                   (Inl e, data2) \<Rightarrow> (Inl e, data2)
                 | (Inr _, data2) \<Rightarrow> (Inr record, data2)))"

definition append_checks ::
    "string \<Rightarrow> string \<Rightarrow> pydict \<Rightarrow> int option \<Rightarrow> string option \<Rightarrow> unit res" where
  "append_checks operation_id milestone evidence expected_record_count expected_previous_hash =
     (if expected_record_count = None \<and> expected_previous_hash \<noteq> None
      then Inl (journal_error ''guarded append hash requires an expected record count'')
      else if expected_record_count \<noteq> None \<and> the expected_record_count < 0
      then Inl (journal_error ''expected record count is invalid'')
      else if \<not> uuid_accepts operation_id
      then Inl (journal_error ''invalid operation UUID'')
      else if \<not> valid_milestone_name milestone
      then Inl (journal_error ''invalid milestone name'')
      else if is_repair_milestone (PyStr milestone)
      then Inl (journal_error ''torn-tail repair records are written only by journal repair'')
      else reject_secrets (PyDict evidence))"

text \<open>\<^verbatim>\<open>os.open(path, O_RDWR | O_APPEND | O_CREAT | O_NOFOLLOW [| O_EXCL], 0o600)\<close>\<close>

definition open_for_append :: "bool \<Rightarrow> journal_fs \<Rightarrow> journal_file res" where
  "open_for_append exclusive fs =
     (case fs_file fs of
        None \<Rightarrow> Inr \<lparr>jf_kind = RegularFile, jf_owned = True, jf_nlink = 1, jf_private = True, jf_data = []\<rparr>
      | Some f \<Rightarrow>
          if exclusive then Inl (Exc OSError ''File exists'')
          else (case jf_kind f of
                  SymbolicLink _ \<Rightarrow> Inl (Exc OSError ''Too many levels of symbolic links'')
                | _ \<Rightarrow> Inr f))"

definition journal_append ::
    "(string \<Rightarrow> string) \<Rightarrow> int list \<Rightarrow> int list \<Rightarrow> string \<Rightarrow> string \<Rightarrow> pydict \<Rightarrow> bool \<Rightarrow>
     int option \<Rightarrow> string option \<Rightarrow> journal_fs \<Rightarrow> pydict res \<times> journal_fs" where
  "journal_append H ws ws' operation_id milestone evidence exclusive
       expected_record_count expected_previous_hash fs =
     (case append_checks operation_id milestone evidence expected_record_count expected_previous_hash of
        Inl e \<Rightarrow> (Inl e, fs)
      | Inr _ \<Rightarrow>
          if fs_parent fs = ParentNotDir then (Inl (Exc OSError ''File exists''), fs)
          else let fs1 = mkdir_parent fs in
          if \<not> parent_owned (fs_parent fs1) \<or> \<not> parent_private (fs_parent fs1)
          then (Inl (journal_error ''journal directory is not private and caller-owned''), fs1)
          else (case open_for_append exclusive fs1 of
                  Inl e \<Rightarrow> (Inl e, fs1)
                | Inr f \<Rightarrow>
                    if jf_kind f \<noteq> RegularFile \<or> \<not> jf_owned f \<or> jf_nlink f \<noteq> 1
                    then (Inl (journal_error ''journal is not a private caller-owned regular file''),
                          fs1\<lparr>fs_file := Some f\<rparr>)
                    else (case append_to_data H ws ws' operation_id milestone evidence
                             expected_record_count expected_previous_hash (jf_data f) of
                            (r, data) \<Rightarrow>
                              (r, fs1\<lparr>fs_file := Some (f\<lparr>jf_private := True, jf_data := data\<rparr>)\<rparr>))))"

definition path_exists :: "journal_fs \<Rightarrow> bool" where
  "path_exists fs = (case fs_file fs of
     None \<Rightarrow> False
   | Some f \<Rightarrow> (case jf_kind f of SymbolicLink t \<Rightarrow> t | _ \<Rightarrow> True))"

text \<open>\<open>fresh\<close> is the text of \<^verbatim>\<open>uuid.uuid4()\<close>.\<close>

definition journal_create ::
    "(string \<Rightarrow> string) \<Rightarrow> int list \<Rightarrow> int list \<Rightarrow> string \<Rightarrow> string \<Rightarrow> pyval \<Rightarrow> string option \<Rightarrow>
     journal_fs \<Rightarrow> (string \<times> pydict) res \<times> journal_fs" where
  "journal_create H ws ws' fresh kind baseline operation_id fs =
     (if kind \<notin> set ALLOWED_KINDS then (Inl (journal_error ''unsupported mutation kind''), fs)
      else if path_exists fs
      then (Inl (journal_error ''refusing to replace an existing journal''), fs)
      else case validate_baseline baseline of
        Inl e \<Rightarrow> (Inl e, fs)
      | Inr _ \<Rightarrow>
      if kind = ''enroll'' \<and> \<not> dict_is_true (dict_of baseline) ''password_fallback_verified''
      then (Inl (journal_error ''enrollment password fallback is not verified''), fs)
      else
        let oid = (case operation_id of Some i \<Rightarrow> if i = [] then fresh else i | None \<Rightarrow> fresh) in
        case journal_append H ws ws' oid ''BASELINE_RECONCILED''
               [(KStr ''operation_kind'', PyStr kind), (KStr ''baseline'', baseline)]
               True None None fs of
          (Inl e, fs') \<Rightarrow> (Inl e, fs')
        | (Inr record, fs') \<Rightarrow> (Inr (oid, record), fs'))"

definition secure_regular_file :: "journal_fs \<Rightarrow> bool" where
  "secure_regular_file fs = (case fs_file fs of
     None \<Rightarrow> False
   | Some f \<Rightarrow> jf_kind f = RegularFile \<and> jf_owned f \<and> jf_nlink f = 1 \<and> jf_private f)"

text \<open>\<^verbatim>\<open>os.open\<close> without \<^verbatim>\<open>O_CREAT\<close>, and the checks on \<^verbatim>\<open>os.fstat\<close> that follow it.\<close>

definition open_private :: "journal_fs \<Rightarrow> journal_file res" where
  "open_private fs = (case fs_file fs of
     None \<Rightarrow> Inl (journal_error ''cannot safely open mutation journal'')
   | Some f \<Rightarrow>
       if is_SymbolicLink (jf_kind f)
       then Inl (journal_error ''cannot safely open mutation journal'')
       else if jf_kind f \<noteq> RegularFile \<or> \<not> jf_owned f \<or> jf_nlink f \<noteq> 1 \<or> \<not> jf_private f
         \<or> int (length (jf_data f)) > MAX_JOURNAL_BYTES
       then Inl (journal_error ''mutation journal ownership, mode, or size is unsafe'')
       else Inr f)"

definition repair_journal ::
    "(string \<Rightarrow> string) \<Rightarrow> int list \<Rightarrow> journal_fs \<Rightarrow> pydict list res \<times> journal_fs" where
  "repair_journal H ws fs =
     (case open_private fs of
        Inl e \<Rightarrow> (Inl e, fs)
      | Inr f \<Rightarrow>
          (case load_records H ws True (jf_data f) of
             (Inl e, data) \<Rightarrow> (Inl e, fs\<lparr>fs_file := Some (f\<lparr>jf_data := data\<rparr>)\<rparr>)
           | (Inr records, data) \<Rightarrow>
               (if int (length records) > 4096
                then Inl (journal_error ''mutation journal has too many records'')
                else Inr records,
                fs\<lparr>fs_file := Some (f\<lparr>jf_data := data\<rparr>)\<rparr>)))"

definition read_journal ::
    "(string \<Rightarrow> string) \<Rightarrow> int list \<Rightarrow> journal_fs \<Rightarrow> pydict list res \<times> journal_fs" where
  "read_journal H ws fs =
     (case open_private fs of
        Inl e \<Rightarrow> (Inl e, fs)
      | Inr f \<Rightarrow>
          (case payload_from_fd (jf_data f) of
             Inl e \<Rightarrow> (Inl e, fs)
           | Inr payload \<Rightarrow>
               (case split_complete_lines payload of (lines, torn_tail) \<Rightarrow>
                  if int (length lines) + (if torn_tail \<noteq> [] then 1 else 0) > 4096
                  then (Inl (journal_error ''mutation journal has too many records''), fs)
                  else if torn_tail = [] then (validate_records H lines, fs)
                  else repair_journal H ws fs)))"

end
