(* ===== verification/Persistence_Journal.thy ===== *)
theory Persistence_Journal
  imports Mutation_Journal "HOL-Library.AList"
begin

text \<open>
  The Catacomb persistence tracker, \<^verbatim>\<open>src/src/t2_enrollment_persistence_journal.py\<close>: a state machine
  that replays the milestones of one multi-batch save (plan, then prepare, complete, capture, stage
  and confirm every component, commit every batch, attest) and accepts each only in its place and
  with evidence about the current component. A method that mutates \<^verbatim>\<open>self\<close> returns the new tracker.
  After an exception the source's callers drop the tracker, so an exception carries no state.
\<close>

section \<open>State\<close>

datatype persistence_phase =
    P_NOT_STARTED | P_COMPONENT_READY | P_PREPARE_INTENT | P_PREPARED | P_COMPLETE_INTENT
  | P_SECURE_BLOB_CAPTURED | P_HOST_STAGED | P_CONFIRM_INTENT | P_BATCH_COMMIT_INTENT
  | P_BATCH_COMMITTED | P_FINAL_CONFIRM_INTENT | P_ATTESTATION_READY | P_COMPLETE | P_OUTCOME_UNKNOWN

text \<open>A component is its file name and its descriptor digest.\<close>

type_synonym component = "string \<times> string"

record persistence_history =
  ph_phase :: persistence_phase
  ph_batches :: "component list list"
  ph_batch_index :: "nat option"
  ph_component_index :: "nat option"
  ph_staged_files :: "(string \<times> string) list"
  ph_reconciliation_snapshot_sha256 :: "string option"
  ph_sep_host_generation_equal :: bool
  ph_independent_archive_readback :: bool
  ph_outcome_unknown_stage :: "string option"
  ph_outcome_unknown_host_commit_possible :: "bool option"

record tracker =
  pt_baseline :: pydict
  pt_plan_kind :: string
  pt_connection_generation :: pyval
  pt_phase :: persistence_phase
  pt_batches :: "component list list"
  pt_batch_index :: "nat option"
  pt_component_index :: "nat option"
  pt_captured_blob_sha256 :: "string option"
  pt_expected_blob_length :: "int option"
  pt_staged :: "(string \<times> string) list"
  pt_reconciliation_snapshot_sha256 :: "string option"
  pt_sep_host_generation_equal :: bool
  pt_independent_archive_readback :: bool
  pt_outcome_unknown_stage :: "string option"
  pt_outcome_unknown_host_commit_possible :: "bool option"

abbreviation persistence_error :: "string \<Rightarrow> exc" where
  "persistence_error \<equiv> Exc PersistenceJournalError"

section \<open>Field checks\<close>

definition p_exact :: "pyval \<Rightarrow> string list \<Rightarrow> pydict res" where
  "p_exact value keys =
     (if \<not> isinstance_dict value \<or> \<not> dict_keys_are (dict_of value) keys
      then Inl (persistence_error ''evidence does not match its schema'')
      else Inr (dict_of value))"

definition p_uint :: "pyval \<Rightarrow> string \<Rightarrow> int \<Rightarrow> int res" where
  "p_uint value field maximum =
     (if \<not> isinstance_int value \<or> type_is_bool value \<or> \<not> (0 \<le> int_of value \<and> int_of value \<le> maximum)
      then Inl (persistence_error (field @ '' is not a bounded unsigned integer''))
      else Inr (int_of value))"

abbreviation uint32_max :: int where "uint32_max \<equiv> 0xFFFFFFFF"

definition p_sha256 :: "pyval \<Rightarrow> string \<Rightarrow> unit res" where
  "p_sha256 value field = rewrap JournalError PersistenceJournalError (require_sha256 value field)"

definition p_status_zero :: "pyval \<Rightarrow> string \<Rightarrow> unit res" where
  "p_status_zero value field =
     (if \<not> isinstance_int value \<or> type_is_bool value \<or> int_of value \<noteq> 0
      then Inl (persistence_error (field @ '' is not successful''))
      else Inr ())"

definition allowed_names :: "int \<Rightarrow> string list" where
  "allowed_names apple_uid = [''master.cat'', ''biolockout.cat'', user_cat_name apple_uid]"

section \<open>Methods\<close>

definition tracker_init :: "pydict \<Rightarrow> string \<Rightarrow> tracker res" where
  "tracker_init baseline plan_kind =
     (if plan_kind \<notin> set [''enrollment'', ''identity-metadata'', ''identity-delete'',
           ''identity-delete-master-recovery'']
      then Inl (persistence_error ''unsupported Catacomb persistence plan kind'')
      else and_then (dict_item baseline ''connection_generation'') (\<lambda>connection_generation.
      Inr \<lparr>pt_baseline = baseline, pt_plan_kind = plan_kind,
           pt_connection_generation = connection_generation, pt_phase = P_NOT_STARTED,
           pt_batches = [], pt_batch_index = None, pt_component_index = None,
           pt_captured_blob_sha256 = None, pt_expected_blob_length = None, pt_staged = [],
           pt_reconciliation_snapshot_sha256 = None, pt_sep_host_generation_equal = False,
           pt_independent_archive_readback = False, pt_outcome_unknown_stage = None,
           pt_outcome_unknown_host_commit_possible = None\<rparr>))"

text \<open>The names of a dict differ, so sorting its items is sorting by name.\<close>

definition tracker_snapshot :: "tracker \<Rightarrow> persistence_history" where
  "tracker_snapshot t =
     \<lparr>ph_phase = pt_phase t, ph_batches = pt_batches t, ph_batch_index = pt_batch_index t,
      ph_component_index = pt_component_index t, ph_staged_files = sort_key fst (pt_staged t),
      ph_reconciliation_snapshot_sha256 = pt_reconciliation_snapshot_sha256 t,
      ph_sep_host_generation_equal = pt_sep_host_generation_equal t,
      ph_independent_archive_readback = pt_independent_archive_readback t,
      ph_outcome_unknown_stage = pt_outcome_unknown_stage t,
      ph_outcome_unknown_host_commit_possible = pt_outcome_unknown_host_commit_possible t\<rparr>"

definition same_generation :: "tracker \<Rightarrow> pydict \<Rightarrow> unit res" where
  "same_generation t evidence =
     (if \<not> py_eq (dict_get evidence ''connection_generation'') (pt_connection_generation t)
      then Inl (persistence_error ''Catacomb persistence connection generation changed'')
      else Inr ())"

definition use_recovery_generation :: "pyval \<Rightarrow> tracker \<Rightarrow> tracker res" where
  "use_recovery_generation connection_generation t =
     (if pt_phase t \<noteq> P_NOT_STARTED
      then Inl (persistence_error ''Catacomb persistence generation changed after planning'')
      else and_then (rewrap JournalError PersistenceJournalError
             (require_uuid connection_generation ''recovery connection generation'')) (\<lambda>_.
      and_then (dict_item (pt_baseline t) ''connection_generation'') (\<lambda>original.
      if py_eq connection_generation original
      then Inl (persistence_error ''Catacomb recovery did not use a fresh connection generation'')
      else Inr (t\<lparr>pt_connection_generation := connection_generation\<rparr>))))"

text \<open>\<^verbatim>\<open>self.batches[self.batch_index]\<close> and \<^verbatim>\<open>_current\<close>; a subscript out of range raises.\<close>

definition current_batch :: "tracker \<Rightarrow> component list res" where
  "current_batch t = (case pt_batch_index t of
     None \<Rightarrow> Inl (Exc TypeError ''tuple indices must be integers'')
   | Some b \<Rightarrow> if b < length (pt_batches t) then Inr (pt_batches t ! b)
               else Inl (Exc IndexError ''tuple index out of range''))"

definition current_component :: "tracker \<Rightarrow> component res" where
  "current_component t = (case (pt_batch_index t, pt_component_index t) of
     (Some _, Some c) \<Rightarrow>
       and_then (current_batch t) (\<lambda>batch.
       if c < length batch then Inr (batch ! c)
       else Inl (Exc IndexError ''tuple index out of range''))
   | _ \<Rightarrow> Inl (persistence_error ''Catacomb persistence has no component''))"

definition component_evidence :: "tracker \<Rightarrow> pyval \<Rightarrow> string list \<Rightarrow> pydict res" where
  "component_evidence t value extra =
     and_then (p_exact value ([''connection_generation'', ''batch_index'', ''component_index'', ''name'',
         ''descriptor_sha256''] @ extra)) (\<lambda>evidence.
     and_then (same_generation t evidence) (\<lambda>_.
     and_then (p_uint (dict_get evidence ''batch_index'') ''batch index'' uint32_max) (\<lambda>batch_index.
     and_then (p_uint (dict_get evidence ''component_index'') ''component index'' uint32_max) (\<lambda>component_index.
     and_then (current_component t) (\<lambda>(name, descriptor_sha256).
     if Some batch_index \<noteq> map_option int (pt_batch_index t)
        \<or> Some component_index \<noteq> map_option int (pt_component_index t)
        \<or> \<not> py_eq (dict_get evidence ''name'') (PyStr name)
        \<or> \<not> py_eq (dict_get evidence ''descriptor_sha256'') (PyStr descriptor_sha256)
     then Inl (persistence_error ''Catacomb persistence milestone targets another component'')
     else Inr evidence)))))"

text \<open>The list whose digest stands for the staged files of a batch; \<^verbatim>\<open>self._staged[name]\<close> may raise.\<close>

fun staged_list :: "(string \<times> string) list \<Rightarrow> component list \<Rightarrow> pyval list res" where
  "staged_list staged [] = Inr []"
| "staged_list staged ((name, _) # batch) =
     (case map_of staged name of
        None \<Rightarrow> Inl (Exc KeyError name)
      | Some digest \<Rightarrow>
          and_then (staged_list staged batch) (\<lambda>rest.
          Inr (PyDict [(KStr ''name'', PyStr name), (KStr ''final_file_sha256'', PyStr digest)] # rest)))"

definition batch_evidence :: "(string \<Rightarrow> string) \<Rightarrow> tracker \<Rightarrow> pyval \<Rightarrow> pydict res" where
  "batch_evidence H t value =
     and_then (p_exact value [''connection_generation'', ''batch_index'', ''staged_snapshot_sha256'']) (\<lambda>evidence.
     and_then (same_generation t evidence) (\<lambda>_.
     and_then (p_uint (dict_get evidence ''batch_index'') ''batch index'' uint32_max) (\<lambda>batch_index.
     if Some batch_index \<noteq> map_option int (pt_batch_index t)
     then Inl (persistence_error ''Catacomb batch index changed'')
     else and_then (p_sha256 (dict_get evidence ''staged_snapshot_sha256'') ''staged snapshot SHA-256'') (\<lambda>_.
     and_then (current_batch t) (\<lambda>batch.
     and_then (staged_list (pt_staged t) batch) (\<lambda>snapshot.
     and_then (canonical (PyList snapshot)) (\<lambda>text.
     if \<not> py_eq (dict_get evidence ''staged_snapshot_sha256'') (PyStr (H text))
     then Inl (persistence_error ''staged Catacomb snapshot digest differs'')
     else Inr evidence)))))))"

section \<open>The plan\<close>

text \<open>The inner loop over the components of a batch: \<^verbatim>\<open>seen\<close>, \<^verbatim>\<open>seen_descriptors\<close>, \<^verbatim>\<open>normalized_batch\<close>.\<close>

definition plan_component ::
    "string list \<Rightarrow> pyval \<Rightarrow> string list \<times> string list \<times> component list
      \<Rightarrow> (string list \<times> string list \<times> component list) res" where
  "plan_component allowed value = (\<lambda>(seen, seen_descriptors, normalized_batch).
     and_then (p_exact value [''name'', ''descriptor_sha256'']) (\<lambda>component.
     and_then (in_str_set (dict_get component ''name'') allowed) (\<lambda>known.
     if \<not> known \<or> str_of (dict_get component ''name'') \<in> set seen
     then Inl (persistence_error ''Catacomb persistence component is invalid or duplicated'')
     else and_then (p_sha256 (dict_get component ''descriptor_sha256'') ''component descriptor SHA-256'') (\<lambda>_.
     let name = str_of (dict_get component ''name'');
         descriptor = str_of (dict_get component ''descriptor_sha256'') in
     if descriptor \<in> set seen_descriptors
     then Inl (persistence_error ''Catacomb component descriptor digest is duplicated'')
     else Inr (name # seen, descriptor # seen_descriptors, normalized_batch @ [(name, descriptor)])))))"

text \<open>The outer loop over the batches: \<^verbatim>\<open>seen\<close>, \<^verbatim>\<open>seen_descriptors\<close>, \<^verbatim>\<open>normalized\<close>.\<close>

definition plan_batch ::
    "string list \<Rightarrow> pyval \<Rightarrow> string list \<times> string list \<times> component list list
      \<Rightarrow> (string list \<times> string list \<times> component list list) res" where
  "plan_batch allowed batch = (\<lambda>(seen, seen_descriptors, normalized).
     if \<not> isinstance_list batch \<or> list_of batch = []
     then Inl (persistence_error ''Catacomb persistence batch is empty'')
     else and_then (fold_res (plan_component allowed) (list_of batch) (seen, seen_descriptors, []))
       (\<lambda>(seen, seen_descriptors, normalized_batch).
     if list_ex (\<lambda>(name, _). name = ''master.cat'') normalized_batch
        \<and> fst (last normalized_batch) \<noteq> ''master.cat''
     then Inl (persistence_error ''master Catacomb must be last in its batch'')
     else Inr (seen, seen_descriptors, normalized @ [normalized_batch])))"

text \<open>The rules on names per kind of plan.\<close>

definition plan_names_ok :: "string \<Rightarrow> bool \<Rightarrow> string \<Rightarrow> string list \<Rightarrow> component list list \<Rightarrow> unit res" where
  "plan_names_ok plan_kind allow_biolockout_only user_name seen normalized =
     (if plan_kind = ''identity-metadata'' then
        (if allow_biolockout_only \<or> length normalized \<noteq> 1 \<or> map fst (hd normalized) \<noteq> [user_name]
         then Inl (persistence_error ''identity metadata persistence must contain only its user Catacomb'')
         else Inr ())
      else if plan_kind = ''identity-delete'' then
        (if length normalized \<noteq> 1
            \<or> map fst (concat normalized) \<notin> {[user_name], [user_name, ''master.cat'']}
         then Inl (persistence_error ''identity deletion persistence must contain user then optional master Catacomb'')
         else Inr ())
      else if plan_kind = ''identity-delete-master-recovery'' then
        (if length normalized \<noteq> 1 \<or> map fst (concat normalized) \<noteq> [''master.cat'']
         then Inl (persistence_error ''identity deletion master recovery must contain only master Catacomb'')
         else Inr ())
      else if allow_biolockout_only then
        (if length normalized \<noteq> 1 \<or> map fst (hd normalized) \<noteq> [''biolockout.cat'']
         then Inl (persistence_error ''failure persistence must contain only bio-lockout Catacomb'')
         else Inr ())
      else if \<not> {''master.cat'', user_name} \<subseteq> set seen
      then Inl (persistence_error ''enrollment persistence omits the user or master Catacomb'')
      else Inr ())"

definition plan_enrollment_ok :: "string \<Rightarrow> bool \<Rightarrow> string \<Rightarrow> component list list \<Rightarrow> unit res" where
  "plan_enrollment_ok plan_kind allow_biolockout_only user_name normalized =
     (if plan_kind = ''enrollment'' \<and> \<not> allow_biolockout_only
         \<and> map fst (hd normalized) \<noteq> [user_name, ''master.cat'']
      then Inl (persistence_error ''primary enrollment batch must contain user then master Catacomb'')
      else if plan_kind = ''enrollment'' \<and> \<not> allow_biolockout_only
         \<and> (length normalized \<noteq> 2 \<or> map fst (normalized ! 1) \<noteq> [''biolockout.cat''])
      then Inl (persistence_error ''secondary enrollment batch must contain only bio-lockout Catacomb'')
      else Inr ())"

definition tracker_plan :: "bool \<Rightarrow> pyval \<Rightarrow> tracker \<Rightarrow> tracker res" where
  "tracker_plan allow_biolockout_only value t =
     (if pt_phase t \<noteq> P_NOT_STARTED
      then Inl (persistence_error ''Catacomb persistence plan is out of order'')
      else and_then (p_exact value [''connection_generation'', ''batches'']) (\<lambda>evidence.
      and_then (same_generation t evidence) (\<lambda>_.
      let batches = dict_get evidence ''batches'';
          apple_uid = int_of (dict_get (pt_baseline t) ''apple_uid'');
          user_name = user_cat_name apple_uid in
      if \<not> isinstance_list batches \<or> \<not> (1 \<le> length (list_of batches) \<and> length (list_of batches) \<le> 2)
      then Inl (persistence_error ''Catacomb persistence batches are invalid'')
      else and_then (fold_res (plan_batch (allowed_names apple_uid)) (list_of batches) ([], [], []))
        (\<lambda>(seen, _, normalized).
      and_then (plan_names_ok (pt_plan_kind t) allow_biolockout_only user_name seen normalized) (\<lambda>_.
      and_then (plan_enrollment_ok (pt_plan_kind t) allow_biolockout_only user_name normalized) (\<lambda>_.
      Inr (t\<lparr>pt_batches := normalized, pt_batch_index := Some 0, pt_component_index := Some 0,
             pt_phase := P_COMPONENT_READY\<rparr>)))))))"

section \<open>Milestones\<close>

text \<open>The branches of \<^verbatim>\<open>consume\<close>, in the order of the source.\<close>

definition on_early_confirm_recovered :: "pyval \<Rightarrow> tracker \<Rightarrow> tracker res" where
  "on_early_confirm_recovered value t =
     (if pt_phase t \<noteq> P_OUTCOME_UNKNOWN \<or> pt_outcome_unknown_stage t \<noteq> Some ''early-confirm''
         \<or> pt_outcome_unknown_host_commit_possible t \<noteq> Some False
      then Inl (persistence_error ''early Catacomb confirm recovery is out of order'')
      else and_then (p_exact value [''connection_generation'', ''batch_index'', ''component_index'', ''name'',
             ''descriptor_sha256'', ''sep_component_clean'', ''staged_file_sha256'']) (\<lambda>evidence.
      let connection_generation = dict_get evidence ''connection_generation'' in
      and_then (rewrap JournalError PersistenceJournalError
             (require_uuid connection_generation ''recovery connection generation'')) (\<lambda>_.
      if py_eq connection_generation (pt_connection_generation t)
      then Inl (persistence_error ''early confirm recovery reused the ambiguous connection'')
      else and_then (p_uint (dict_get evidence ''batch_index'') ''batch index'' uint32_max) (\<lambda>batch_index.
      and_then (p_uint (dict_get evidence ''component_index'') ''component index'' uint32_max) (\<lambda>component_index.
      and_then (current_component t) (\<lambda>(name, descriptor_sha256).
      if Some batch_index \<noteq> map_option int (pt_batch_index t)
         \<or> Some component_index \<noteq> map_option int (pt_component_index t)
         \<or> \<not> py_eq (dict_get evidence ''name'') (PyStr name)
         \<or> \<not> py_eq (dict_get evidence ''descriptor_sha256'') (PyStr descriptor_sha256)
         \<or> \<not> dict_is_true evidence ''sep_component_clean''
         \<or> \<not> py_eq (dict_get evidence ''staged_file_sha256'')
              (case map_of (pt_staged t) name of None \<Rightarrow> PyNone | Some d \<Rightarrow> PyStr d)
      then Inl (persistence_error ''early confirm recovery evidence differs from the journal'')
      else and_then (current_batch t) (\<lambda>batch.
      let next_index = the (pt_component_index t) + 1 in
      if next_index \<ge> length batch
      then Inl (persistence_error ''early confirm recovery has no following component'')
      else Inr (t\<lparr>pt_connection_generation := connection_generation,
             pt_component_index := Some next_index, pt_captured_blob_sha256 := None,
             pt_expected_blob_length := None, pt_outcome_unknown_stage := None,
             pt_outcome_unknown_host_commit_possible := None, pt_phase := P_COMPONENT_READY\<rparr>))))))))"

definition FAILURE_STAGES :: "string list" where
  "FAILURE_STAGES = [''prepare'', ''complete'', ''encode'', ''host-stage'', ''early-confirm'', ''host-commit'',
     ''final-confirm'', ''readback'']"

definition FAILURE_REASONS :: "string list" where
  "FAILURE_REASONS = [''transport-error'', ''journal-error'', ''codec-error'', ''host-store-error'',
     ''readback-error'']"

definition on_persistence_outcome_unknown :: "pyval \<Rightarrow> tracker \<Rightarrow> tracker res" where
  "on_persistence_outcome_unknown value t =
     (if pt_phase t \<in> {P_COMPONENT_READY, P_COMPLETE, P_OUTCOME_UNKNOWN}
      then Inl (persistence_error ''persistence outcome-unknown marker is out of order'')
      else and_then (component_evidence t value [''stage'', ''reason'', ''sep_mutation_possible'',
             ''host_commit_possible'']) (\<lambda>evidence.
      and_then (in_str_set (dict_get evidence ''stage'') FAILURE_STAGES) (\<lambda>stage_ok.
      if \<not> stage_ok then Inl (persistence_error ''persistence failure stage is invalid'')
      else and_then (in_str_set (dict_get evidence ''reason'') FAILURE_REASONS) (\<lambda>reason_ok.
      if \<not> reason_ok then Inl (persistence_error ''persistence failure reason is invalid'')
      else if \<not> dict_is_true evidence ''sep_mutation_possible''
         \<or> \<not> type_is_bool (dict_get evidence ''host_commit_possible'')
      then Inl (persistence_error ''persistence ambiguity flags are invalid'')
      else Inr (t\<lparr>pt_outcome_unknown_stage := Some (str_of (dict_get evidence ''stage'')),
             pt_outcome_unknown_host_commit_possible :=
               Some (dict_is_true evidence ''host_commit_possible''),
             pt_phase := P_OUTCOME_UNKNOWN\<rparr>)))))"

definition on_prepare_intent :: "pyval \<Rightarrow> tracker \<Rightarrow> tracker res" where
  "on_prepare_intent value t =
     (if pt_phase t \<noteq> P_COMPONENT_READY
      then Inl (persistence_error ''Catacomb prepare intent is out of order'')
      else and_then (component_evidence t value []) (\<lambda>_. Inr (t\<lparr>pt_phase := P_PREPARE_INTENT\<rparr>)))"

definition on_prepared :: "pyval \<Rightarrow> tracker \<Rightarrow> tracker res" where
  "on_prepared value t =
     (if pt_phase t \<noteq> P_PREPARE_INTENT
      then Inl (persistence_error ''Catacomb prepare observation is out of order'')
      else and_then (component_evidence t value [''status'', ''expected_blob_length'']) (\<lambda>evidence.
      and_then (p_status_zero (dict_get evidence ''status'') ''Catacomb prepare status'') (\<lambda>_.
      and_then (p_uint (dict_get evidence ''expected_blob_length'') ''expected secure blob length''
             (1024 * 1024)) (\<lambda>expected_blob_length.
      if expected_blob_length = 0 then Inl (persistence_error ''expected secure blob is empty'')
      else Inr (t\<lparr>pt_expected_blob_length := Some expected_blob_length, pt_phase := P_PREPARED\<rparr>)))))"

definition on_complete_intent :: "pyval \<Rightarrow> tracker \<Rightarrow> tracker res" where
  "on_complete_intent value t =
     (if pt_phase t \<noteq> P_PREPARED
      then Inl (persistence_error ''Catacomb complete intent is out of order'')
      else and_then (component_evidence t value []) (\<lambda>_. Inr (t\<lparr>pt_phase := P_COMPLETE_INTENT\<rparr>)))"

text \<open>\<^verbatim>\<open>length_valid\<close>; comparing an integer with \<^verbatim>\<open>None\<close> by \<^verbatim>\<open><=\<close> raises.\<close>

definition blob_length_valid :: "string \<Rightarrow> int \<Rightarrow> int option \<Rightarrow> bool res" where
  "blob_length_valid name blob_length expected =
     (case expected of
        None \<Rightarrow> (if name = ''biolockout.cat'' \<and> 16 \<le> blob_length
                 then Inl (Exc TypeError ''comparison with None'') else Inr False)
      | Some n \<Rightarrow> Inr (if name = ''biolockout.cat'' then 16 \<le> blob_length \<and> blob_length \<le> n
                       else blob_length = n))"

definition on_secure_blob_captured :: "pyval \<Rightarrow> tracker \<Rightarrow> tracker res" where
  "on_secure_blob_captured value t =
     (if pt_phase t \<noteq> P_COMPLETE_INTENT
      then Inl (persistence_error ''secure blob observation is out of order'')
      else and_then (component_evidence t value [''status'', ''blob_length'', ''secure_blob_sha256'']) (\<lambda>evidence.
      and_then (p_status_zero (dict_get evidence ''status'') ''Catacomb complete status'') (\<lambda>_.
      and_then (p_uint (dict_get evidence ''blob_length'') ''secure blob length'' (1024 * 1024)) (\<lambda>blob_length.
      and_then (current_component t) (\<lambda>(name, _).
      and_then (blob_length_valid name blob_length (pt_expected_blob_length t)) (\<lambda>length_valid.
      if \<not> length_valid
      then Inl (persistence_error ''secure blob length differs from prepare response'')
      else and_then (p_sha256 (dict_get evidence ''secure_blob_sha256'') ''secure blob SHA-256'') (\<lambda>_.
      Inr (t\<lparr>pt_captured_blob_sha256 := Some (str_of (dict_get evidence ''secure_blob_sha256'')),
             pt_phase := P_SECURE_BLOB_CAPTURED\<rparr>))))))))"

definition on_host_staged :: "pyval \<Rightarrow> tracker \<Rightarrow> tracker res" where
  "on_host_staged value t =
     (if pt_phase t \<noteq> P_SECURE_BLOB_CAPTURED
      then Inl (persistence_error ''host staging observation is out of order'')
      else and_then (component_evidence t value [''secure_blob_sha256'', ''final_file_sha256'']) (\<lambda>evidence.
      and_then (p_sha256 (dict_get evidence ''secure_blob_sha256'') ''secure blob SHA-256'') (\<lambda>_.
      and_then (p_sha256 (dict_get evidence ''final_file_sha256'') ''final file SHA-256'') (\<lambda>_.
      if Some (str_of (dict_get evidence ''secure_blob_sha256'')) \<noteq> pt_captured_blob_sha256 t
      then Inl (persistence_error ''staged host file uses another secure blob'')
      else and_then (current_component t) (\<lambda>(name, _).
      Inr (t\<lparr>pt_staged := AList.update name (str_of (dict_get evidence ''final_file_sha256'')) (pt_staged t),
             pt_phase := P_HOST_STAGED\<rparr>))))))"

text \<open>\<^verbatim>\<open>final_component\<close>\<close>

definition is_final_component :: "tracker \<Rightarrow> bool res" where
  "is_final_component t =
     and_then (current_batch t) (\<lambda>batch.
     Inr (map_option int (pt_component_index t) = Some (int (length batch) - 1)))"

definition on_confirm_intent :: "bool \<Rightarrow> pyval \<Rightarrow> tracker \<Rightarrow> tracker res" where
  "on_confirm_intent final_component value t =
     (if pt_phase t \<noteq> P_HOST_STAGED \<or> final_component
      then Inl (persistence_error ''early Catacomb confirm intent is out of order'')
      else and_then (component_evidence t value []) (\<lambda>_. Inr (t\<lparr>pt_phase := P_CONFIRM_INTENT\<rparr>)))"

definition on_confirmed :: "pyval \<Rightarrow> tracker \<Rightarrow> tracker res" where
  "on_confirmed value t =
     (if pt_phase t \<noteq> P_CONFIRM_INTENT
      then Inl (persistence_error ''early Catacomb confirm is out of order'')
      else and_then (component_evidence t value [''status'']) (\<lambda>evidence.
      and_then (p_status_zero (dict_get evidence ''status'') ''Catacomb confirm status'') (\<lambda>_.
      Inr (t\<lparr>pt_component_index := map_option Suc (pt_component_index t),
             pt_captured_blob_sha256 := None, pt_expected_blob_length := None,
             pt_phase := P_COMPONENT_READY\<rparr>))))"

definition on_batch_commit_intent :: "(string \<Rightarrow> string) \<Rightarrow> bool \<Rightarrow> pyval \<Rightarrow> tracker \<Rightarrow> tracker res" where
  "on_batch_commit_intent H final_component value t =
     (if pt_phase t \<noteq> P_HOST_STAGED \<or> \<not> final_component
      then Inl (persistence_error ''host batch commit intent is out of order'')
      else and_then (batch_evidence H t value) (\<lambda>_. Inr (t\<lparr>pt_phase := P_BATCH_COMMIT_INTENT\<rparr>)))"

definition on_batch_committed :: "(string \<Rightarrow> string) \<Rightarrow> pyval \<Rightarrow> tracker \<Rightarrow> tracker res" where
  "on_batch_committed H value t =
     (if pt_phase t \<noteq> P_BATCH_COMMIT_INTENT
      then Inl (persistence_error ''host batch commit is out of order'')
      else and_then (batch_evidence H t value) (\<lambda>_. Inr (t\<lparr>pt_phase := P_BATCH_COMMITTED\<rparr>)))"

definition on_final_confirm_intent :: "pyval \<Rightarrow> tracker \<Rightarrow> tracker res" where
  "on_final_confirm_intent value t =
     (if pt_phase t \<noteq> P_BATCH_COMMITTED
      then Inl (persistence_error ''final Catacomb confirm intent is out of order'')
      else and_then (component_evidence t value []) (\<lambda>_. Inr (t\<lparr>pt_phase := P_FINAL_CONFIRM_INTENT\<rparr>)))"

definition on_final_confirmed :: "pyval \<Rightarrow> tracker \<Rightarrow> tracker res" where
  "on_final_confirmed value t =
     (if pt_phase t \<noteq> P_FINAL_CONFIRM_INTENT
      then Inl (persistence_error ''final Catacomb confirm is out of order'')
      else and_then (component_evidence t value [''status'']) (\<lambda>evidence.
      and_then (p_status_zero (dict_get evidence ''status'') ''final Catacomb confirm status'') (\<lambda>_.
      let t1 = t\<lparr>pt_captured_blob_sha256 := None, pt_expected_blob_length := None\<rparr> in
      case pt_batch_index t of
        None \<Rightarrow> Inl (Exc TypeError ''unsupported operand types'')
      | Some b \<Rightarrow>
          if b + 1 < length (pt_batches t)
          then Inr (t1\<lparr>pt_batch_index := Some (b + 1), pt_component_index := Some 0, pt_staged := [],
                  pt_phase := P_COMPONENT_READY\<rparr>)
          else Inr (t1\<lparr>pt_phase := P_ATTESTATION_READY\<rparr>))))"

definition on_persistence_attested :: "pyval \<Rightarrow> tracker \<Rightarrow> tracker res" where
  "on_persistence_attested value t =
     (if pt_phase t \<noteq> P_ATTESTATION_READY
      then Inl (persistence_error ''persistence attestation is out of order'')
      else and_then (p_exact value [''connection_generation'', ''batch_count'',
             ''reconciliation_snapshot_sha256'', ''sep_host_generation_equal'',
             ''independent_archive_readback'']) (\<lambda>evidence.
      and_then (same_generation t evidence) (\<lambda>_.
      and_then (p_uint (dict_get evidence ''batch_count'') ''batch count'' uint32_max) (\<lambda>batch_count.
      if batch_count \<noteq> int (length (pt_batches t))
      then Inl (persistence_error ''persistence batch count changed'')
      else and_then (p_sha256 (dict_get evidence ''reconciliation_snapshot_sha256'')
             ''reconciliation snapshot SHA-256'') (\<lambda>_.
      if \<not> dict_is_true evidence ''sep_host_generation_equal''
         \<or> \<not> dict_is_true evidence ''independent_archive_readback''
      then Inl (persistence_error ''persistence attestation is incomplete'')
      else Inr (t\<lparr>pt_reconciliation_snapshot_sha256 :=
               Some (str_of (dict_get evidence ''reconciliation_snapshot_sha256'')),
             pt_sep_host_generation_equal := True, pt_independent_archive_readback := True,
             pt_phase := P_COMPLETE\<rparr>))))))"

text \<open>The branches for a milestone that begins with \<^verbatim>\<open>CATACOMB_\<close>.\<close>

definition catacomb_milestone ::
    "(string \<Rightarrow> string) \<Rightarrow> bool \<Rightarrow> string \<Rightarrow> pyval \<Rightarrow> tracker \<Rightarrow> tracker res" where
  "catacomb_milestone H allow_biolockout_only milestone value t =
     (if milestone = ''CATACOMB_EARLY_CONFIRM_RECOVERED'' then on_early_confirm_recovered value t
      else if milestone = ''CATACOMB_PERSISTENCE_PLAN'' then tracker_plan allow_biolockout_only value t
      else if pt_phase t = P_NOT_STARTED
      then Inl (persistence_error ''Catacomb persistence has no immutable plan'')
      else if milestone = ''CATACOMB_PERSISTENCE_OUTCOME_UNKNOWN'' then on_persistence_outcome_unknown value t
      else if milestone = ''CATACOMB_PREPARE_INTENT'' then on_prepare_intent value t
      else if milestone = ''CATACOMB_PREPARED'' then on_prepared value t
      else if milestone = ''CATACOMB_COMPLETE_INTENT'' then on_complete_intent value t
      else if milestone = ''CATACOMB_SECURE_BLOB_CAPTURED'' then on_secure_blob_captured value t
      else if milestone = ''CATACOMB_HOST_STAGED'' then on_host_staged value t
      else and_then (is_final_component t) (\<lambda>final_component.
      if milestone = ''CATACOMB_CONFIRM_INTENT'' then on_confirm_intent final_component value t
      else if milestone = ''CATACOMB_CONFIRMED'' then on_confirmed value t
      else if milestone = ''CATACOMB_HOST_BATCH_COMMIT_INTENT''
      then on_batch_commit_intent H final_component value t
      else if milestone = ''CATACOMB_HOST_BATCH_COMMITTED'' then on_batch_committed H value t
      else if milestone = ''CATACOMB_FINAL_CONFIRM_INTENT'' then on_final_confirm_intent value t
      else if milestone = ''CATACOMB_FINAL_CONFIRMED'' then on_final_confirmed value t
      else if milestone = ''CATACOMB_PERSISTENCE_ATTESTED'' then on_persistence_attested value t
      else Inl (persistence_error ''unsupported Catacomb persistence milestone'')))"

text \<open>The Boolean says whether the milestone was one of this tracker's.\<close>

definition consume ::
    "(string \<Rightarrow> string) \<Rightarrow> bool \<Rightarrow> pyval \<Rightarrow> pyval \<Rightarrow> tracker \<Rightarrow> (bool \<times> tracker) res" where
  "consume H allow_biolockout_only milestone value t =
     (if \<not> isinstance_str milestone \<or> \<not> startswith (str_of milestone) ''CATACOMB_''
      then Inr (False, t)
      else and_then (catacomb_milestone H allow_biolockout_only (str_of milestone) value t) (\<lambda>t'.
      Inr (True, t')))"

end
