(* ===== verification/Persistence_Facts.thy ===== *)
theory Persistence_Facts
  imports Persistence_Journal
begin

text \<open>
  The persistence tracker against an abstract save procedure. \<open>save_step\<close> is the procedure: which
  milestone may follow in which phase, at which batch and component. \<open>consume\<close> implements it
  (a simulation), keeps the tracker's invariant, and hence accepts an undisturbed save only as the
  exact script of its plan.
\<close>

section \<open>The save procedure\<close>

type_synonym save_position = "persistence_phase \<times> nat \<times> nat"

text \<open>\<open>ls\<close> are the sizes of the batches; a position is a phase, a batch index and a component index.\<close>

inductive save_step :: "nat list \<Rightarrow> save_position \<Rightarrow> string \<Rightarrow> save_position \<Rightarrow> bool" for ls where
  prepare_intent: "save_step ls (P_COMPONENT_READY, b, c) ''CATACOMB_PREPARE_INTENT'' (P_PREPARE_INTENT, b, c)"
| prepared: "save_step ls (P_PREPARE_INTENT, b, c) ''CATACOMB_PREPARED'' (P_PREPARED, b, c)"
| complete_intent: "save_step ls (P_PREPARED, b, c) ''CATACOMB_COMPLETE_INTENT'' (P_COMPLETE_INTENT, b, c)"
| captured: "save_step ls (P_COMPLETE_INTENT, b, c) ''CATACOMB_SECURE_BLOB_CAPTURED'' (P_SECURE_BLOB_CAPTURED, b, c)"
| staged: "save_step ls (P_SECURE_BLOB_CAPTURED, b, c) ''CATACOMB_HOST_STAGED'' (P_HOST_STAGED, b, c)"
| confirm_intent: "Suc c < ls ! b \<Longrightarrow>
    save_step ls (P_HOST_STAGED, b, c) ''CATACOMB_CONFIRM_INTENT'' (P_CONFIRM_INTENT, b, c)"
| confirmed: "save_step ls (P_CONFIRM_INTENT, b, c) ''CATACOMB_CONFIRMED'' (P_COMPONENT_READY, b, Suc c)"
| commit_intent: "Suc c = ls ! b \<Longrightarrow>
    save_step ls (P_HOST_STAGED, b, c) ''CATACOMB_HOST_BATCH_COMMIT_INTENT'' (P_BATCH_COMMIT_INTENT, b, c)"
| committed: "save_step ls (P_BATCH_COMMIT_INTENT, b, c) ''CATACOMB_HOST_BATCH_COMMITTED'' (P_BATCH_COMMITTED, b, c)"
| final_intent: "save_step ls (P_BATCH_COMMITTED, b, c) ''CATACOMB_FINAL_CONFIRM_INTENT'' (P_FINAL_CONFIRM_INTENT, b, c)"
| next_batch: "Suc b < length ls \<Longrightarrow>
    save_step ls (P_FINAL_CONFIRM_INTENT, b, c) ''CATACOMB_FINAL_CONFIRMED'' (P_COMPONENT_READY, Suc b, 0)"
| last_batch: "Suc b = length ls \<Longrightarrow>
    save_step ls (P_FINAL_CONFIRM_INTENT, b, c) ''CATACOMB_FINAL_CONFIRMED'' (P_ATTESTATION_READY, b, c)"
| attested: "save_step ls (P_ATTESTATION_READY, b, c) ''CATACOMB_PERSISTENCE_ATTESTED'' (P_COMPLETE, b, c)"
| outcome_unknown: "p \<notin> {P_COMPONENT_READY, P_COMPLETE, P_OUTCOME_UNKNOWN} \<Longrightarrow>
    save_step ls (p, b, c) ''CATACOMB_PERSISTENCE_OUTCOME_UNKNOWN'' (P_OUTCOME_UNKNOWN, b, c)"
| recovered: "Suc c < ls ! b \<Longrightarrow>
    save_step ls (P_OUTCOME_UNKNOWN, b, c) ''CATACOMB_EARLY_CONFIRM_RECOVERED'' (P_COMPONENT_READY, b, Suc c)"

inductive_cases save_stepE: "save_step ls p m q"

definition tracker_position :: "tracker \<Rightarrow> save_position" where
  "tracker_position t = (pt_phase t, the (pt_batch_index t), the (pt_component_index t))"

section \<open>Invariant\<close>

text \<open>The shape of an accepted plan: at most two non-empty batches without a name or digest twice.\<close>

definition plan_ok :: "component list list \<Rightarrow> bool" where
  "plan_ok batches = (batches \<noteq> [] \<and> length batches \<le> 2 \<and> [] \<notin> set batches
     \<and> distinct (map fst (concat batches)) \<and> distinct (map snd (concat batches)))"

text \<open>Where the indices may point in a phase.\<close>

fun position_ok :: "nat list \<Rightarrow> save_position \<Rightarrow> bool" where
  "position_ok ls (p, b, c) =
     (b < length ls \<and> c < ls ! b
      \<and> (p = P_CONFIRM_INTENT \<longrightarrow> Suc c < ls ! b)
      \<and> (p \<in> {P_BATCH_COMMIT_INTENT, P_BATCH_COMMITTED, P_FINAL_CONFIRM_INTENT, P_ATTESTATION_READY, P_COMPLETE}
           \<longrightarrow> Suc c = ls ! b)
      \<and> (p \<in> {P_ATTESTATION_READY, P_COMPLETE} \<longrightarrow> Suc b = length ls))"

text \<open>Every component of the current batch has a staged file.\<close>

definition all_staged :: "tracker \<Rightarrow> bool" where
  "all_staged t = (\<forall>name \<in> fst ` set (pt_batches t ! the (pt_batch_index t)). map_of (pt_staged t) name \<noteq> None)"

lemma all_staged_updates [simp]:
  "all_staged (t\<lparr>pt_phase := p\<rparr>) = all_staged t"
  "all_staged (t\<lparr>pt_captured_blob_sha256 := x\<rparr>) = all_staged t"
  "all_staged (t\<lparr>pt_expected_blob_length := y\<rparr>) = all_staged t"
  "all_staged (t\<lparr>pt_reconciliation_snapshot_sha256 := h\<rparr>) = all_staged t"
  "all_staged (t\<lparr>pt_sep_host_generation_equal := e\<rparr>) = all_staged t"
  "all_staged (t\<lparr>pt_independent_archive_readback := e\<rparr>) = all_staged t"
  by (simp_all add: all_staged_def)

text \<open>What a phase needs of the remembered observations.\<close>

definition memory_ok :: "tracker \<Rightarrow> bool" where
  "memory_ok t =
     ((pt_phase t \<in> {P_PREPARED, P_COMPLETE_INTENT, P_SECURE_BLOB_CAPTURED} \<longrightarrow> pt_expected_blob_length t \<noteq> None)
      \<and> (pt_phase t = P_SECURE_BLOB_CAPTURED \<longrightarrow> pt_captured_blob_sha256 t \<noteq> None)
      \<and> (pt_phase t = P_OUTCOME_UNKNOWN \<longrightarrow> pt_outcome_unknown_stage t \<noteq> None
           \<and> pt_outcome_unknown_host_commit_possible t \<noteq> None)
      \<and> (pt_phase t \<in> {P_BATCH_COMMIT_INTENT, P_BATCH_COMMITTED, P_FINAL_CONFIRM_INTENT, P_ATTESTATION_READY, P_COMPLETE}
           \<longrightarrow> all_staged t))"

definition started_ok :: "tracker \<Rightarrow> bool" where
  "started_ok t =
     (plan_ok (pt_batches t) \<and> pt_batch_index t \<noteq> None \<and> pt_component_index t \<noteq> None
      \<and> position_ok (map length (pt_batches t)) (tracker_position t) \<and> memory_ok t)"

definition tracker_ok :: "tracker \<Rightarrow> bool" where
  "tracker_ok t =
     (if pt_phase t = P_NOT_STARTED
      then pt_batches t = [] \<and> pt_batch_index t = None \<and> pt_component_index t = None \<and> pt_staged t = []
      else started_ok t)"

lemma tracker_init_ok: "tracker_init b k = Inr t \<Longrightarrow> tracker_ok t \<and> pt_phase t = P_NOT_STARTED"
  by (auto simp: tracker_init_def res_simps tracker_ok_def)

section \<open>Inversions\<close>

lemma current_batch_ok: "current_batch t = Inr batch \<Longrightarrow>
  \<exists>b. pt_batch_index t = Some b \<and> b < length (pt_batches t) \<and> batch = pt_batches t ! b"
  by (auto simp: current_batch_def split: option.splits if_splits)

lemma current_component_ok: "current_component t = Inr nd \<Longrightarrow>
  \<exists>b c. pt_batch_index t = Some b \<and> pt_component_index t = Some c \<and> b < length (pt_batches t)
     \<and> c < length (pt_batches t ! b) \<and> pt_batches t ! b ! c = nd"
  by (auto simp: current_component_def res_simps split: option.splits if_splits dest!: current_batch_ok)

lemma component_evidence_ok: "component_evidence t v ex = Inr e \<Longrightarrow>
  \<exists>b c. pt_batch_index t = Some b \<and> pt_component_index t = Some c \<and> b < length (pt_batches t)
     \<and> c < length (pt_batches t ! b) \<and> dict_get e ''name'' = PyStr (fst (pt_batches t ! b ! c))
     \<and> dict_get e ''batch_index'' = PyInt (int b) \<and> dict_get e ''component_index'' = PyInt (int c)
     \<and> dict_get e ''descriptor_sha256'' = PyStr (snd (pt_batches t ! b ! c))
     \<and> py_eq (dict_get e ''connection_generation'') (pt_connection_generation t)"
  by (auto simp: component_evidence_def res_simps p_uint_def same_generation_def py_simps case_prod_unfold
      dest!: current_component_ok)

lemma staged_list_ok: "staged_list st batch = Inr vs \<Longrightarrow> \<forall>name \<in> fst ` set batch. map_of st name \<noteq> None"
  by (induction st batch arbitrary: vs rule: staged_list.induct) (auto simp: res_simps split: option.splits)

lemma batch_evidence_ok: "batch_evidence H t v = Inr e \<Longrightarrow> all_staged t"
  by (fastforce simp: batch_evidence_def res_simps all_staged_def dest!: current_batch_ok staged_list_ok)

lemma is_final_component_ok: "is_final_component t = Inr f \<Longrightarrow>
  f \<longleftrightarrow> (\<exists>b c. pt_batch_index t = Some b \<and> pt_component_index t = Some c \<and> Suc c = length (pt_batches t ! b))"
  by (auto simp: is_final_component_def res_simps dest!: current_batch_ok)


text \<open>What the two loops of \<^verbatim>\<open>_plan\<close> keep: names and digests seen are those normalized, each once.\<close>

lemma plan_component_keeps:
  assumes "plan_component allowed v (s, d, nb) = Inr (s', d', nb')"
  shows "\<exists>n g. s' = n # s \<and> d' = g # d \<and> nb' = nb @ [(n, g)] \<and> n \<notin> set s \<and> g \<notin> set d \<and> n \<in> set allowed"
  using assms by (auto simp: plan_component_def res_simps Let_def)

lemma plan_components_keep:
  "fold_res (plan_component allowed) vs (s, d, nb) = Inr (s', d', nb') \<Longrightarrow>
   \<exists>new. nb' = nb @ new \<and> length new = length vs \<and> s' = rev (map fst new) @ s \<and> d' = rev (map snd new) @ d
     \<and> (distinct s \<longrightarrow> distinct s') \<and> (distinct d \<longrightarrow> distinct d') \<and> fst ` set new \<subseteq> set allowed"
proof (induction vs arbitrary: s d nb)
  case (Cons v vs)
  obtain s1 d1 nb1 where step: "plan_component allowed v (s, d, nb) = Inr (s1, d1, nb1)"
    and rest: "fold_res (plan_component allowed) vs (s1, d1, nb1) = Inr (s', d', nb')"
    using Cons.prems by (auto simp: res_simps)
  from plan_component_keeps [OF step] obtain n g where
    ng: "s1 = n # s" "d1 = g # d" "nb1 = nb @ [(n, g)]" "n \<notin> set s" "g \<notin> set d" "n \<in> set allowed" by auto
  from Cons.IH [OF rest] ng obtain new where "nb' = nb1 @ new" "length new = length vs" "s' = rev (map fst new) @ s1"
    "d' = rev (map snd new) @ d1" "distinct s1 \<longrightarrow> distinct s'" "distinct d1 \<longrightarrow> distinct d'"
    "fst ` set new \<subseteq> set allowed" by auto
  with ng show ?case by (intro exI [of _ "(n, g) # new"]) auto
qed simp

definition plan_acc_ok :: "string list \<Rightarrow> nat \<Rightarrow> string list \<times> string list \<times> component list list \<Rightarrow> bool" where
  "plan_acc_ok allowed k = (\<lambda>(s, d, nz). s = rev (map fst (concat nz)) \<and> d = rev (map snd (concat nz))
     \<and> distinct s \<and> distinct d \<and> [] \<notin> set nz \<and> length nz = k \<and> set s \<subseteq> set allowed)"

lemma plan_batch_keeps:
  assumes "plan_batch allowed v acc = Inr acc'" and "plan_acc_ok allowed k acc"
  shows "plan_acc_ok allowed (Suc k) acc'"
proof -
  obtain s d nz where acc: "acc = (s, d, nz)" by (cases acc)
  with assms(1) obtain s' d' nb where f: "fold_res (plan_component allowed) (list_of v) (s, d, []) = Inr (s', d', nb)"
    and acc': "acc' = (s', d', nz @ [nb])" and ne: "list_of v \<noteq> []"
    by (auto simp: plan_batch_def res_simps case_prod_unfold)
  have old: "s = rev (map fst (concat nz))" "d = rev (map snd (concat nz))" "[] \<notin> set nz"
    "length nz = k" "set s \<subseteq> set allowed" "distinct s" "distinct d"
    using assms(2) unfolding acc plan_acc_ok_def prod.case by blast+
  from plan_components_keep [OF f] old(6,7) have
    keep: "s' = rev (map fst nb) @ s" "d' = rev (map snd nb) @ d" "distinct s'" "distinct d'"
      "fst ` set nb \<subseteq> set allowed" "length nb = length (list_of v)"
    unfolding append_Nil by blast+
  have "set s' \<subseteq> set allowed" using keep(1,5) old(5) by auto
  moreover have "s' = rev (map fst (concat (nz @ [nb])))" "d' = rev (map snd (concat (nz @ [nb])))"
    using keep(1,2) old(1,2) by simp_all
  moreover have "nb \<noteq> []" using ne keep(6) by auto
  ultimately show ?thesis using keep(3,4) old(3,4) acc' by (simp only: plan_acc_ok_def prod.case) simp
qed

lemma plan_batches_keep:
  "fold_res (plan_batch allowed) vs acc = Inr acc' \<Longrightarrow> plan_acc_ok allowed k acc
   \<Longrightarrow> plan_acc_ok allowed (k + length vs) acc'"
proof (induction vs arbitrary: acc k)
  case (Cons v vs)
  then obtain acc1 where "plan_batch allowed v acc = Inr acc1" "fold_res (plan_batch allowed) vs acc1 = Inr acc'"
    by (auto simp: res_simps)
  with Cons.IH [of acc1 "Suc k"] plan_batch_keeps [of allowed v acc acc1 k] Cons.prems show ?case by simp
qed simp

lemma tracker_plan_ok:
  assumes "tracker_plan bio v t = Inr t'"
  obtains bs where "t' = t\<lparr>pt_batches := bs, pt_batch_index := Some 0, pt_component_index := Some 0,
      pt_phase := P_COMPONENT_READY\<rparr>" "pt_phase t = P_NOT_STARTED" "plan_ok bs"
    "plan_names_ok (pt_plan_kind t) bio (user_cat_name (int_of (dict_get (pt_baseline t) ''apple_uid'')))
       (rev (map fst (concat bs))) bs = Inr ()"
    "plan_enrollment_ok (pt_plan_kind t) bio (user_cat_name (int_of (dict_get (pt_baseline t) ''apple_uid''))) bs = Inr ()"
    "fst ` set (concat bs) \<subseteq> set (allowed_names (int_of (dict_get (pt_baseline t) ''apple_uid'')))"
proof -
  let ?a = "allowed_names (int_of (dict_get (pt_baseline t) ''apple_uid''))"
  from assms obtain vs s d bs where f: "fold_res (plan_batch ?a) vs ([], [], []) = Inr (s, d, bs)"
    and len: "1 \<le> length vs" "length vs \<le> 2"
    and t': "t' = t\<lparr>pt_batches := bs, pt_batch_index := Some 0, pt_component_index := Some 0,
      pt_phase := P_COMPONENT_READY\<rparr>" "pt_phase t = P_NOT_STARTED"
    and n: "plan_names_ok (pt_plan_kind t) bio (user_cat_name (int_of (dict_get (pt_baseline t) ''apple_uid''))) s bs = Inr ()"
    "plan_enrollment_ok (pt_plan_kind t) bio (user_cat_name (int_of (dict_get (pt_baseline t) ''apple_uid''))) bs = Inr ()"
    by (auto simp: tracker_plan_def res_simps Let_def case_prod_unfold)
  have "plan_acc_ok ?a 0 ([], [], [])" by (simp add: plan_acc_ok_def)
  from plan_batches_keep [OF f this] have acc: "plan_acc_ok ?a (length vs) (s, d, bs)" by (simp only: add_0)
  then have a: "s = rev (map fst (concat bs))" "d = rev (map snd (concat bs))" "distinct s" "distinct d"
    "[] \<notin> set bs" "length bs = length vs" "set s \<subseteq> set ?a"
    unfolding plan_acc_ok_def prod.case by blast+
  have "distinct (map fst (concat bs))" "distinct (map snd (concat bs))"
    using a(3,4) unfolding a(1,2) by (simp_all only: distinct_rev)
  moreover have "bs \<noteq> []" "length bs \<le> 2" using len a(6) by auto
  ultimately have "plan_ok bs" using a(5) by (simp add: plan_ok_def)
  moreover have "fst ` set (concat bs) \<subseteq> set ?a" using a(7) unfolding a(1) by (simp only: set_rev set_map)
  ultimately show ?thesis using t' n a(1) by (intro that [of bs]) simp_all
qed


section \<open>Simulation\<close>

text \<open>Every branch, seen from its result: the fields it changes and the guards it passed.\<close>

lemma on_prepare_intent_ok: "on_prepare_intent v t = Inr t' \<Longrightarrow>
  t' = t\<lparr>pt_phase := P_PREPARE_INTENT\<rparr> \<and> pt_phase t = P_COMPONENT_READY"
  by (auto simp: on_prepare_intent_def res_simps)

lemma on_prepared_ok: "on_prepared v t = Inr t' \<Longrightarrow>
  \<exists>n. t' = t\<lparr>pt_expected_blob_length := Some n, pt_phase := P_PREPARED\<rparr> \<and> 0 < n \<and> n \<le> 1024 * 1024
    \<and> pt_phase t = P_PREPARE_INTENT"
  by (auto simp: on_prepared_def res_simps p_uint_def)

lemma on_complete_intent_ok: "on_complete_intent v t = Inr t' \<Longrightarrow>
  t' = t\<lparr>pt_phase := P_COMPLETE_INTENT\<rparr> \<and> pt_phase t = P_PREPARED"
  by (auto simp: on_complete_intent_def res_simps)

lemma on_secure_blob_captured_ok: "on_secure_blob_captured v t = Inr t' \<Longrightarrow>
  \<exists>h. t' = t\<lparr>pt_captured_blob_sha256 := Some h, pt_phase := P_SECURE_BLOB_CAPTURED\<rparr> \<and> pt_phase t = P_COMPLETE_INTENT"
  by (auto simp: on_secure_blob_captured_def res_simps case_prod_unfold)

lemma on_host_staged_ok: "on_host_staged v t = Inr t' \<Longrightarrow>
  \<exists>n h. t' = t\<lparr>pt_staged := AList.update n h (pt_staged t), pt_phase := P_HOST_STAGED\<rparr>
    \<and> pt_phase t = P_SECURE_BLOB_CAPTURED"
  by (auto simp: on_host_staged_def res_simps case_prod_unfold)

lemma on_confirm_intent_ok: "on_confirm_intent f v t = Inr t' \<Longrightarrow>
  t' = t\<lparr>pt_phase := P_CONFIRM_INTENT\<rparr> \<and> pt_phase t = P_HOST_STAGED \<and> \<not> f"
  by (auto simp: on_confirm_intent_def res_simps)

lemma on_confirmed_ok: "on_confirmed v t = Inr t' \<Longrightarrow>
  t' = t\<lparr>pt_component_index := map_option Suc (pt_component_index t), pt_captured_blob_sha256 := None,
    pt_expected_blob_length := None, pt_phase := P_COMPONENT_READY\<rparr> \<and> pt_phase t = P_CONFIRM_INTENT"
  by (auto simp: on_confirmed_def res_simps)

lemma on_batch_commit_intent_ok: "on_batch_commit_intent H f v t = Inr t' \<Longrightarrow>
  t' = t\<lparr>pt_phase := P_BATCH_COMMIT_INTENT\<rparr> \<and> pt_phase t = P_HOST_STAGED \<and> f \<and> all_staged t"
  by (auto simp: on_batch_commit_intent_def res_simps dest: batch_evidence_ok)

lemma on_batch_committed_ok: "on_batch_committed H v t = Inr t' \<Longrightarrow>
  t' = t\<lparr>pt_phase := P_BATCH_COMMITTED\<rparr> \<and> pt_phase t = P_BATCH_COMMIT_INTENT"
  by (auto simp: on_batch_committed_def res_simps)

lemma on_final_confirm_intent_ok: "on_final_confirm_intent v t = Inr t' \<Longrightarrow>
  t' = t\<lparr>pt_phase := P_FINAL_CONFIRM_INTENT\<rparr> \<and> pt_phase t = P_BATCH_COMMITTED"
  by (auto simp: on_final_confirm_intent_def res_simps)

lemma on_final_confirmed_ok: "on_final_confirmed v t = Inr t' \<Longrightarrow>
  \<exists>b. pt_batch_index t = Some b \<and> pt_phase t = P_FINAL_CONFIRM_INTENT \<and>
    (Suc b < length (pt_batches t) \<and>
       t' = t\<lparr>pt_captured_blob_sha256 := None, pt_expected_blob_length := None, pt_batch_index := Some (Suc b),
             pt_component_index := Some 0, pt_staged := [], pt_phase := P_COMPONENT_READY\<rparr>
     \<or> \<not> Suc b < length (pt_batches t) \<and>
       t' = t\<lparr>pt_captured_blob_sha256 := None, pt_expected_blob_length := None, pt_phase := P_ATTESTATION_READY\<rparr>)"
  by (auto simp: on_final_confirmed_def res_simps Let_def split: option.splits if_splits)

lemma on_persistence_attested_ok: "on_persistence_attested v t = Inr t' \<Longrightarrow>
  \<exists>h. t' = t\<lparr>pt_reconciliation_snapshot_sha256 := Some h, pt_sep_host_generation_equal := True,
    pt_independent_archive_readback := True, pt_phase := P_COMPLETE\<rparr> \<and> pt_phase t = P_ATTESTATION_READY"
  by (auto simp: on_persistence_attested_def res_simps)

lemma on_persistence_outcome_unknown_ok: "on_persistence_outcome_unknown v t = Inr t' \<Longrightarrow>
  \<exists>s h. t' = t\<lparr>pt_outcome_unknown_stage := Some s, pt_outcome_unknown_host_commit_possible := Some h,
    pt_phase := P_OUTCOME_UNKNOWN\<rparr> \<and> pt_phase t \<notin> {P_COMPONENT_READY, P_COMPLETE, P_OUTCOME_UNKNOWN}"
  by (auto simp: on_persistence_outcome_unknown_def res_simps)

lemma on_early_confirm_recovered_ok: "on_early_confirm_recovered v t = Inr t' \<Longrightarrow>
  \<exists>g b c. t' = t\<lparr>pt_connection_generation := g, pt_component_index := Some (Suc c),
      pt_captured_blob_sha256 := None, pt_expected_blob_length := None, pt_outcome_unknown_stage := None,
      pt_outcome_unknown_host_commit_possible := None, pt_phase := P_COMPONENT_READY\<rparr>
    \<and> pt_phase t = P_OUTCOME_UNKNOWN \<and> pt_batch_index t = Some b \<and> pt_component_index t = Some c
    \<and> Suc c < length (pt_batches t ! b) \<and> \<not> py_eq g (pt_connection_generation t)"
  by (auto simp: on_early_confirm_recovered_def res_simps Let_def case_prod_unfold not_le
      dest!: current_component_ok current_batch_ok)

lemmas milestone_ok = on_prepare_intent_ok on_prepared_ok on_complete_intent_ok on_secure_blob_captured_ok
  on_host_staged_ok on_confirm_intent_ok on_confirmed_ok on_batch_commit_intent_ok on_batch_committed_ok
  on_final_confirm_intent_ok on_final_confirmed_ok on_persistence_attested_ok on_persistence_outcome_unknown_ok
  on_early_confirm_recovered_ok


lemma catacomb_milestone_cases:
  assumes "catacomb_milestone H bio m v t = Inr t'"
  obtains
    (recovered) "m = ''CATACOMB_EARLY_CONFIRM_RECOVERED''" "on_early_confirm_recovered v t = Inr t'"
  | (plan) "m = ''CATACOMB_PERSISTENCE_PLAN''" "tracker_plan bio v t = Inr t'"
  | (unknown) "m = ''CATACOMB_PERSISTENCE_OUTCOME_UNKNOWN''" "on_persistence_outcome_unknown v t = Inr t'"
  | (prepare_intent) "m = ''CATACOMB_PREPARE_INTENT''" "on_prepare_intent v t = Inr t'"
  | (prepared) "m = ''CATACOMB_PREPARED''" "on_prepared v t = Inr t'"
  | (complete_intent) "m = ''CATACOMB_COMPLETE_INTENT''" "on_complete_intent v t = Inr t'"
  | (captured) "m = ''CATACOMB_SECURE_BLOB_CAPTURED''" "on_secure_blob_captured v t = Inr t'"
  | (staged) "m = ''CATACOMB_HOST_STAGED''" "on_host_staged v t = Inr t'"
  | (confirm_intent) f where "m = ''CATACOMB_CONFIRM_INTENT''" "is_final_component t = Inr f"
      "on_confirm_intent f v t = Inr t'"
  | (confirmed) "m = ''CATACOMB_CONFIRMED''" "on_confirmed v t = Inr t'"
  | (commit_intent) f where "m = ''CATACOMB_HOST_BATCH_COMMIT_INTENT''" "is_final_component t = Inr f"
      "on_batch_commit_intent H f v t = Inr t'"
  | (committed) "m = ''CATACOMB_HOST_BATCH_COMMITTED''" "on_batch_committed H v t = Inr t'"
  | (final_intent) "m = ''CATACOMB_FINAL_CONFIRM_INTENT''" "on_final_confirm_intent v t = Inr t'"
  | (final_confirmed) "m = ''CATACOMB_FINAL_CONFIRMED''" "on_final_confirmed v t = Inr t'"
  | (attested) "m = ''CATACOMB_PERSISTENCE_ATTESTED''" "on_persistence_attested v t = Inr t'"
  using assms unfolding catacomb_milestone_def
  by (elim if_InrE and_then_InrE Inl_InrE) (rule that; assumption)+


lemma started_okD:
  assumes "started_ok t"
  obtains b c where "pt_batch_index t = Some b" "pt_component_index t = Some c" "b < length (pt_batches t)"
    "c < length (pt_batches t ! b)" "plan_ok (pt_batches t)"
    "tracker_position t = (pt_phase t, b, c)" "position_ok (map length (pt_batches t)) (pt_phase t, b, c)"
proof -
  obtain b c where bc: "pt_batch_index t = Some b" "pt_component_index t = Some c"
    using assms unfolding started_ok_def by blast
  then have pos: "tracker_position t = (pt_phase t, b, c)" by (simp add: tracker_position_def)
  have p: "plan_ok (pt_batches t)" "position_ok (map length (pt_batches t)) (pt_phase t, b, c)"
    using assms unfolding started_ok_def pos by blast+
  then have "b < length (pt_batches t)" "c < length (pt_batches t ! b)" by auto
  then show ?thesis using bc pos p that by blast
qed

lemma plan_ok_first: "plan_ok bs \<Longrightarrow> b < length bs \<Longrightarrow> bs ! b \<noteq> []"
  by (auto simp: plan_ok_def in_set_conv_nth)

text \<open>\<^verbatim>\<open>consume\<close> after the plan takes a step of the save procedure.\<close>

lemma milestone_step:
  assumes "catacomb_milestone H bio m v t = Inr t'" and "started_ok t" and "pt_phase t \<noteq> P_NOT_STARTED"
  shows "save_step (map length (pt_batches t)) (tracker_position t) m (tracker_position t')"
proof -
  obtain b c where bc: "pt_batch_index t = Some b" "pt_component_index t = Some c" "b < length (pt_batches t)"
    "c < length (pt_batches t ! b)" "plan_ok (pt_batches t)" "tracker_position t = (pt_phase t, b, c)"
    "position_ok (map length (pt_batches t)) (pt_phase t, b, c)" using started_okD [OF assms(2)] .
  from assms(1) have "save_step (map length (pt_batches t)) (pt_phase t, b, c) m
      (pt_phase t', the (pt_batch_index t'), the (pt_component_index t'))" (is ?step)
  proof (cases rule: catacomb_milestone_cases)
    case plan
    then show ?step using assms(3) by (auto elim!: tracker_plan_ok)
  next
    case (confirm_intent f)
    then show ?step using bc is_final_component_ok [OF confirm_intent(2)]
      by (auto dest!: on_confirm_intent_ok intro!: save_step.intros)
  next
    case (commit_intent f)
    note fin = on_batch_commit_intent_ok [OF commit_intent(3)]
    then have "Suc c = map length (pt_batches t) ! b"
      using is_final_component_ok [OF commit_intent(2)] bc(1-3) by simp
    then show ?step using fin bc(1,2) commit_intent(1) by (simp add: save_step.commit_intent)
  next
    case final_confirmed
    from on_final_confirmed_ok [OF this(2)] bc(1-3) final_confirmed(1) show ?step
      by (auto simp: save_step.next_batch save_step.last_batch)
  next
    case recovered
    from on_early_confirm_recovered_ok [OF this(2)] bc(1-3) recovered(1) show ?step
      by (auto simp: save_step.recovered)
  next
    case unknown
    from on_persistence_outcome_unknown_ok [OF this(2)] bc(1,2) unknown(1) show ?step
      by (auto intro: save_step.outcome_unknown)
  qed (use bc(1,2) in \<open>auto dest!: milestone_ok intro: save_step.intros\<close>)
  then show ?thesis by (simp add: bc(1,2) tracker_position_def)
qed

lemma save_step_position:
  "save_step ls p m q \<Longrightarrow> position_ok ls p \<Longrightarrow> list_all (\<lambda>n. 0 < n) ls \<Longrightarrow> position_ok ls q"
  by (induction rule: save_step.induct) (auto simp: list_all_length)

text \<open>It keeps the plan and the invariant.\<close>

lemma milestone_keeps_plan:
  assumes "catacomb_milestone H bio m v t = Inr t'" and "pt_phase t \<noteq> P_NOT_STARTED"
  shows "pt_batches t' = pt_batches t \<and> pt_phase t' \<noteq> P_NOT_STARTED \<and> pt_plan_kind t' = pt_plan_kind t
    \<and> pt_baseline t' = pt_baseline t"
  using assms(1)
proof (cases rule: catacomb_milestone_cases)
  case plan
  then show ?thesis using assms(2) by (auto elim!: tracker_plan_ok)
qed (auto dest!: milestone_ok)

lemma milestone_keeps_indices:
  assumes "catacomb_milestone H bio m v t = Inr t'" and "started_ok t" and "pt_phase t \<noteq> P_NOT_STARTED"
  shows "pt_batch_index t' \<noteq> None \<and> pt_component_index t' \<noteq> None"
proof -
  obtain b c where bc: "pt_batch_index t = Some b" "pt_component_index t = Some c" using started_okD [OF assms(2)] .
  from assms(1) show ?thesis
  proof (cases rule: catacomb_milestone_cases)
    case plan
    then show ?thesis using assms(3) by (auto elim!: tracker_plan_ok)
  qed (use bc in \<open>auto dest!: milestone_ok\<close>)
qed

lemma milestone_keeps_memory:
  assumes "catacomb_milestone H bio m v t = Inr t'" and "memory_ok t"
  shows "memory_ok t'"
  using assms(1)
proof (cases rule: catacomb_milestone_cases)
  case plan
  then show ?thesis by (auto simp: memory_ok_def elim!: tracker_plan_ok)
next
  case final_confirmed
  from on_final_confirmed_ok [OF this(2)] obtain b where ph: "pt_phase t = P_FINAL_CONFIRM_INTENT" and
    "t' = t\<lparr>pt_captured_blob_sha256 := None, pt_expected_blob_length := None, pt_batch_index := Some (Suc b),
       pt_component_index := Some 0, pt_staged := [], pt_phase := P_COMPONENT_READY\<rparr>
     \<or> t' = t\<lparr>pt_captured_blob_sha256 := None, pt_expected_blob_length := None, pt_phase := P_ATTESTATION_READY\<rparr>"
    by blast
  then show ?thesis using assms(2) by (elim disjE) (simp_all add: memory_ok_def)
next
  case (commit_intent f)
  then show ?thesis using on_batch_commit_intent_ok [OF commit_intent(3)] by (simp add: memory_ok_def)
next
  case recovered
  from on_early_confirm_recovered_ok [OF this(2)] show ?thesis by (auto simp: memory_ok_def)
next
  case unknown
  from on_persistence_outcome_unknown_ok [OF this(2)] show ?thesis by (auto simp: memory_ok_def)
next
  case prepared
  from on_prepared_ok [OF this(2)] show ?thesis by (auto simp: memory_ok_def)
next
  case attested
  from on_persistence_attested_ok [OF this(2)] assms(2) show ?thesis by (auto simp: memory_ok_def)
next
  case staged
  from on_host_staged_ok [OF this(2)] show ?thesis by (auto simp: memory_ok_def)
next
  case captured
  from on_secure_blob_captured_ok [OF this(2)] assms(2) show ?thesis by (auto simp: memory_ok_def)
next
  case committed
  from on_batch_committed_ok [OF this(2)] assms(2) show ?thesis by (simp add: memory_ok_def)
next
  case final_intent
  from on_final_confirm_intent_ok [OF this(2)] assms(2) show ?thesis by (simp add: memory_ok_def)
next
  case complete_intent
  from on_complete_intent_ok [OF this(2)] assms(2) show ?thesis by (simp add: memory_ok_def)
next
  case prepare_intent
  from on_prepare_intent_ok [OF this(2)] show ?thesis by (simp add: memory_ok_def)
next
  case (confirm_intent f)
  from on_confirm_intent_ok [OF this(3)] show ?thesis by (simp add: memory_ok_def)
next
  case confirmed
  from on_confirmed_ok [OF this(2)] show ?thesis by (simp add: memory_ok_def)
qed

lemma milestone_keeps_ok:
  assumes "catacomb_milestone H bio m v t = Inr t'" and "started_ok t" and "pt_phase t \<noteq> P_NOT_STARTED"
  shows "started_ok t'"
proof -
  have ok: "plan_ok (pt_batches t)" "position_ok (map length (pt_batches t)) (tracker_position t)" "memory_ok t"
    using assms(2) by (simp_all only: started_ok_def)
  then have "list_all (\<lambda>n. 0 < n) (map length (pt_batches t))"
    by (auto simp: plan_ok_def list_all_iff)
  from save_step_position [OF milestone_step [OF assms] ok(2) this] show ?thesis
    using milestone_keeps_plan [OF assms(1,3)] milestone_keeps_indices [OF assms] milestone_keeps_memory [OF assms(1) ok(3)] ok(1)
    by (simp add: started_ok_def)
qed


section \<open>The script of a save\<close>

definition component_script :: "bool \<Rightarrow> string list" where
  "component_script final =
     [''CATACOMB_PREPARE_INTENT'', ''CATACOMB_PREPARED'', ''CATACOMB_COMPLETE_INTENT'',
      ''CATACOMB_SECURE_BLOB_CAPTURED'', ''CATACOMB_HOST_STAGED''] @
     (if final
      then [''CATACOMB_HOST_BATCH_COMMIT_INTENT'', ''CATACOMB_HOST_BATCH_COMMITTED'',
            ''CATACOMB_FINAL_CONFIRM_INTENT'', ''CATACOMB_FINAL_CONFIRMED'']
      else [''CATACOMB_CONFIRM_INTENT'', ''CATACOMB_CONFIRMED''])"

text \<open>The first \<open>c\<close> components of a batch of size \<open>n\<close>.\<close>

definition components_script :: "nat \<Rightarrow> nat \<Rightarrow> string list" where
  "components_script n c = concat (map (\<lambda>i. component_script (Suc i = n)) [0..<c])"

definition save_script :: "nat list \<Rightarrow> string list" where
  "save_script ls = ''CATACOMB_PERSISTENCE_PLAN'' # concat (map (\<lambda>n. components_script n n) ls)
     @ [''CATACOMB_PERSISTENCE_ATTESTED'']"

text \<open>How much of the current component's script a phase stands for.\<close>

fun phase_steps :: "persistence_phase \<Rightarrow> nat" where
  "phase_steps P_PREPARE_INTENT = 1"
| "phase_steps P_PREPARED = 2"
| "phase_steps P_COMPLETE_INTENT = 3"
| "phase_steps P_SECURE_BLOB_CAPTURED = 4"
| "phase_steps P_HOST_STAGED = 5"
| "phase_steps P_CONFIRM_INTENT = 6"
| "phase_steps P_BATCH_COMMIT_INTENT = 6"
| "phase_steps P_BATCH_COMMITTED = 7"
| "phase_steps P_FINAL_CONFIRM_INTENT = 8"
| "phase_steps _ = 0"

text \<open>The milestones that lead to a position when nothing goes wrong.\<close>

fun script_so_far :: "nat list \<Rightarrow> save_position \<Rightarrow> string list" where
  "script_so_far ls (p, b, c) =
     (if p = P_NOT_STARTED then []
      else if p = P_COMPLETE then save_script ls
      else if p = P_ATTESTATION_READY then butlast (save_script ls)
      else ''CATACOMB_PERSISTENCE_PLAN'' # concat (map (\<lambda>n. components_script n n) (take b ls))
        @ components_script (ls ! b) c @ take (phase_steps p) (component_script (Suc c = ls ! b)))"

lemma components_script_Suc:
  "components_script n (Suc c) = components_script n c @ component_script (Suc c = n)"
  by (simp add: components_script_def)

lemma components_script_0 [simp]: "components_script n 0 = []"
  by (simp add: components_script_def)

lemma script_finished_batch:
  assumes "b < length ls" and "Suc c = ls ! b"
  shows "concat (map (\<lambda>n. components_script n n) (take (Suc b) ls)) =
    concat (map (\<lambda>n. components_script n n) (take b ls)) @ components_script (ls ! b) c @ component_script True"
  using assms components_script_Suc [of "ls ! b" c] by (simp add: take_Suc_conv_app_nth)

text \<open>A step other than into or out of the unknown outcome extends the script by its milestone.\<close>

lemma save_step_script:
  assumes "save_step ls p m q" and "position_ok ls p" and "fst p \<noteq> P_OUTCOME_UNKNOWN" and "fst q \<noteq> P_OUTCOME_UNKNOWN"
  shows "script_so_far ls q = script_so_far ls p @ [m]"
  using assms
proof (cases rule: save_step.cases)
  case (next_batch b c)
  with assms(2) script_finished_batch [of b ls c] show ?thesis by (simp add: component_script_def)
next
  case (last_batch b c)
  with assms(2) script_finished_batch [of b ls c] show ?thesis
    by (simp add: component_script_def save_script_def butlast_append)
next
  case (confirmed b c)
  with assms(2) show ?thesis by (simp add: components_script_Suc component_script_def)
next
  case (attested b c)
  then show ?thesis by (simp add: save_script_def butlast_append)
qed (use assms in \<open>auto simp: component_script_def\<close>)


section \<open>Runs\<close>

text \<open>A journal's milestones fed to the tracker one after the other.\<close>

definition consume_one :: "(string \<Rightarrow> string) \<Rightarrow> bool \<Rightarrow> pyval \<times> pyval \<Rightarrow> tracker \<Rightarrow> tracker res" where
  "consume_one H bio mv t = and_then (consume H bio (fst mv) (snd mv) t) (\<lambda>(_, t'). Inr t')"

definition consume_all :: "(string \<Rightarrow> string) \<Rightarrow> bool \<Rightarrow> (pyval \<times> pyval) list \<Rightarrow> tracker \<Rightarrow> tracker res" where
  "consume_all H bio = fold_res (consume_one H bio)"

definition is_catacomb :: "pyval \<Rightarrow> bool" where
  "is_catacomb m = (isinstance_str m \<and> startswith (str_of m) ''CATACOMB_'')"

lemma consume_one_cases:
  assumes "consume_one H bio mv t = Inr t'"
  obtains (other) "\<not> is_catacomb (fst mv)" "t' = t"
  | (milestone) m where "is_catacomb (fst mv)" "fst mv = PyStr m" "catacomb_milestone H bio m (snd mv) t = Inr t'"
  using assms by (auto simp: consume_one_def consume_def is_catacomb_def res_simps py_simps split: if_splits)

lemma first_milestone:
  assumes "catacomb_milestone H bio m v t = Inr t'" and "tracker_ok t" and "pt_phase t = P_NOT_STARTED"
  shows "m = ''CATACOMB_PERSISTENCE_PLAN'' \<and> tracker_plan bio v t = Inr t'"
  using assms(1)
proof (cases rule: catacomb_milestone_cases)
  case recovered
  then show ?thesis using on_early_confirm_recovered_ok assms(3) by fastforce
qed (use assms in \<open>auto simp: catacomb_milestone_def\<close>)

lemma tracker_plan_started: "tracker_plan bio v t = Inr t' \<Longrightarrow> started_ok t' \<and> pt_phase t' = P_COMPONENT_READY
    \<and> tracker_position t' = (P_COMPONENT_READY, 0, 0)"
proof (erule tracker_plan_ok)
  fix bs
  assume t': "t' = t\<lparr>pt_batches := bs, pt_batch_index := Some 0, pt_component_index := Some 0,
      pt_phase := P_COMPONENT_READY\<rparr>" and "plan_ok bs"
  moreover from \<open>plan_ok bs\<close> have "bs \<noteq> []" "bs ! 0 \<noteq> []" using plan_ok_first [of bs 0] by (auto simp: plan_ok_def)
  ultimately show ?thesis by (simp add: started_ok_def tracker_position_def memory_ok_def)
qed

lemma consume_one_keeps_ok:
  assumes "consume_one H bio mv t = Inr t'" and "tracker_ok t"
  shows "tracker_ok t'"
  using assms(1)
proof (cases rule: consume_one_cases)
  case (milestone m)
  show ?thesis
  proof (cases "pt_phase t = P_NOT_STARTED")
    case True
    then show ?thesis using first_milestone [OF milestone(3) assms(2)] tracker_plan_started
      by (auto simp: tracker_ok_def)
  next
    case False
    then have "started_ok t" using assms(2) by (simp add: tracker_ok_def)
    then show ?thesis
      using milestone_keeps_ok [OF milestone(3) _ False] milestone_keeps_plan [OF milestone(3) False]
      by (simp add: tracker_ok_def)
  qed
qed (use assms(2) in simp)

text \<open>The history of a run: the script up to the tracker's position, as long as no outcome is unknown.\<close>

definition on_script :: "tracker \<Rightarrow> pyval list \<Rightarrow> bool" where
  "on_script t ms = (tracker_ok t \<and> pt_phase t \<noteq> P_OUTCOME_UNKNOWN
     \<and> ms = map PyStr (script_so_far (map length (pt_batches t)) (tracker_position t)))"

lemma consume_one_script:
  assumes "consume_one H bio mv t = Inr t'" and "on_script t ms"
    and "fst mv \<noteq> PyStr ''CATACOMB_PERSISTENCE_OUTCOME_UNKNOWN''"
  shows "on_script t' (ms @ filter is_catacomb [fst mv])"
  using assms(1)
proof (cases rule: consume_one_cases)
  case (milestone m)
  have ok: "tracker_ok t" "tracker_ok t'"
    using assms consume_one_keeps_ok by (auto simp: on_script_def)
  show ?thesis
  proof (cases "pt_phase t = P_NOT_STARTED")
    case True
    then show ?thesis
      using first_milestone [OF milestone(3) ok(1)] tracker_plan_started milestone ok assms(2)
      by (auto simp: on_script_def tracker_position_def)
  next
    case False
    then have st: "started_ok t" using ok(1) by (simp add: tracker_ok_def)
    note step = milestone_step [OF milestone(3) st False] and keep = milestone_keeps_plan [OF milestone(3) False]
    have "pt_phase t' \<noteq> P_OUTCOME_UNKNOWN"
    proof
      assume "pt_phase t' = P_OUTCOME_UNKNOWN"
      then have "m = ''CATACOMB_PERSISTENCE_OUTCOME_UNKNOWN''"
        using step by (auto simp: tracker_position_def elim: save_stepE)
      with assms(3) milestone(2) show False by simp
    qed
    moreover from this have "script_so_far (map length (pt_batches t)) (tracker_position t') =
        script_so_far (map length (pt_batches t)) (tracker_position t) @ [m]"
    proof (intro save_step_script [OF step])
      show "position_ok (map length (pt_batches t)) (tracker_position t)"
        using st unfolding started_ok_def by blast
    qed (use assms(2) in \<open>simp_all add: on_script_def tracker_position_def\<close>)
    ultimately show ?thesis using assms(2) keep ok milestone(1,2) by (simp add: on_script_def del: script_so_far.simps)
  qed
qed (use assms(2) in simp)

lemma consume_all_script:
  assumes "consume_all H bio ms t = Inr t'" and "on_script t h"
    and "PyStr ''CATACOMB_PERSISTENCE_OUTCOME_UNKNOWN'' \<notin> fst ` set ms"
  shows "on_script t' (h @ filter is_catacomb (map fst ms))"
  using assms unfolding consume_all_def
proof (induction ms arbitrary: t h)
  case (Cons mv ms)
  then obtain t1 where t1: "consume_one H bio mv t = Inr t1" "fold_res (consume_one H bio) ms t1 = Inr t'"
    by (auto simp: res_simps)
  have "on_script t1 (h @ filter is_catacomb [fst mv])"
    using consume_one_script [OF t1(1) Cons.prems(2)] Cons.prems(3) by auto
  from Cons.IH [OF t1(2) this] Cons.prems(3) show ?case by (simp split: if_splits)
qed simp


section \<open>What the tracker remembers\<close>

text \<open>The evidence names component \<open>c\<close> of the current batch \<open>b\<close>.\<close>

definition about :: "tracker \<Rightarrow> nat \<Rightarrow> nat \<Rightarrow> pyval \<Rightarrow> bool" where
  "about t b c v =
     (pt_batch_index t = Some b \<and> dict_get (dict_of v) ''batch_index'' = PyInt (int b)
      \<and> dict_get (dict_of v) ''component_index'' = PyInt (int c)
      \<and> dict_get (dict_of v) ''name'' = PyStr (fst (pt_batches t ! b ! c))
      \<and> dict_get (dict_of v) ''descriptor_sha256'' = PyStr (snd (pt_batches t ! b ! c)))"

text \<open>
  The expected length and the captured digest come from milestones about the current component, never about an earlier
  one. A staged digest of the current batch comes from a milestone about the component of that name, and that milestone named
  the blob that was captured for the same component.
\<close>

definition remembers :: "(pyval \<times> pyval) list \<Rightarrow> tracker \<Rightarrow> bool" where
  "remembers ms t =
     ((\<forall>n. pt_expected_blob_length t = Some n \<longrightarrow> (\<exists>b c v. pt_component_index t = Some c
         \<and> (PyStr ''CATACOMB_PREPARED'', v) \<in> set ms \<and> about t b c v
         \<and> dict_get (dict_of v) ''expected_blob_length'' = PyInt n))
      \<and> (\<forall>d. pt_captured_blob_sha256 t = Some d \<longrightarrow> (\<exists>b c v. pt_component_index t = Some c
         \<and> (PyStr ''CATACOMB_SECURE_BLOB_CAPTURED'', v) \<in> set ms \<and> about t b c v
         \<and> dict_get (dict_of v) ''secure_blob_sha256'' = PyStr d))
      \<and> (\<forall>name d. map_of (pt_staged t) name = Some d \<longrightarrow> (\<exists>b c v w. name = fst (pt_batches t ! b ! c)
         \<and> (PyStr ''CATACOMB_SECURE_BLOB_CAPTURED'', v) \<in> set ms \<and> about t b c v
         \<and> (PyStr ''CATACOMB_HOST_STAGED'', w) \<in> set ms \<and> about t b c w
         \<and> dict_get (dict_of w) ''final_file_sha256'' = PyStr d
         \<and> dict_get (dict_of w) ''secure_blob_sha256'' = dict_get (dict_of v) ''secure_blob_sha256'')))"

lemma remembers_more: "remembers ms t \<Longrightarrow> remembers (ms @ ns) t"
  unfolding remembers_def set_append by blast

text \<open>A step that changes none of what is remembered.\<close>

lemma remembers_cong:
  assumes "pt_batches t' = pt_batches t" and "pt_batch_index t' = pt_batch_index t" and "pt_component_index t' = pt_component_index t"
    and "pt_expected_blob_length t' = pt_expected_blob_length t" and "pt_captured_blob_sha256 t' = pt_captured_blob_sha256 t"
    and "pt_staged t' = pt_staged t"
  shows "remembers ms t' = remembers ms t"
  by (simp add: remembers_def about_def assms)

text \<open>Forgetting the current component.\<close>

lemma remembers_staged_only:
  assumes "remembers ms t" and "pt_batches t' = pt_batches t" and "pt_batch_index t' = pt_batch_index t"
    and "pt_expected_blob_length t' = None" and "pt_captured_blob_sha256 t' = None" and "pt_staged t' = pt_staged t"
  shows "remembers ms t'"
proof -
  have "about t' = about t" by (simp add: fun_eq_iff about_def assms)
  then show ?thesis using assms(1) by (simp add: remembers_def assms)
qed

lemma component_evidence_about:
  "component_evidence t v ex = Inr e \<Longrightarrow> e = dict_of v \<and> (\<exists>b c. pt_component_index t = Some c \<and> about t b c v)"
  using component_evidence_ok [of t v ex e]
  by (auto simp: component_evidence_def p_exact_def res_simps about_def case_prod_unfold)

lemma p_sha256_str: "p_sha256 v f = Inr u \<Longrightarrow> v = PyStr (str_of v)"
  by (auto simp: p_sha256_def require_sha256_def res_simps py_simps)

lemma on_prepared_about: "on_prepared v t = Inr t' \<Longrightarrow> \<exists>b c n. pt_component_index t = Some c \<and> about t b c v
    \<and> dict_get (dict_of v) ''expected_blob_length'' = PyInt n
    \<and> t' = t\<lparr>pt_expected_blob_length := Some n, pt_phase := P_PREPARED\<rparr>"
  by (auto simp: on_prepared_def res_simps p_uint_def py_simps dest!: component_evidence_about)

lemma on_secure_blob_captured_about: "on_secure_blob_captured v t = Inr t' \<Longrightarrow> \<exists>b c d. pt_component_index t = Some c
    \<and> about t b c v \<and> dict_get (dict_of v) ''secure_blob_sha256'' = PyStr d
    \<and> t' = t\<lparr>pt_captured_blob_sha256 := Some d, pt_phase := P_SECURE_BLOB_CAPTURED\<rparr>"
  by (auto simp: on_secure_blob_captured_def res_simps case_prod_unfold dest!: component_evidence_about p_sha256_str)

lemma on_host_staged_about: "on_host_staged v t = Inr t' \<Longrightarrow> \<exists>b c d x. pt_component_index t = Some c \<and> about t b c v
    \<and> dict_get (dict_of v) ''final_file_sha256'' = PyStr d \<and> pt_captured_blob_sha256 t = Some x
    \<and> dict_get (dict_of v) ''secure_blob_sha256'' = PyStr x
    \<and> t' = t\<lparr>pt_staged := AList.update (fst (pt_batches t ! b ! c)) d (pt_staged t), pt_phase := P_HOST_STAGED\<rparr>"
proof -
  assume s: "on_host_staged v t = Inr t'"
  then obtain e n g where e: "component_evidence t v [''secure_blob_sha256'', ''final_file_sha256''] = Inr e"
    and p: "p_sha256 (dict_get e ''secure_blob_sha256'') ''secure blob SHA-256'' = Inr ()"
      "p_sha256 (dict_get e ''final_file_sha256'') ''final file SHA-256'' = Inr ()"
      "Some (str_of (dict_get e ''secure_blob_sha256'')) = pt_captured_blob_sha256 t" "current_component t = Inr (n, g)"
      "t' = t\<lparr>pt_staged := AList.update n (str_of (dict_get e ''final_file_sha256'')) (pt_staged t), pt_phase := P_HOST_STAGED\<rparr>"
    by (auto simp: on_host_staged_def res_simps)
  from component_evidence_about [OF e] obtain b c where b: "e = dict_of v" "pt_component_index t = Some c" "about t b c v" by blast
  from current_component_ok [OF p(4)] b have "n = fst (pt_batches t ! b ! c)" by (auto simp: about_def)
  with b p p_sha256_str [OF p(1)] p_sha256_str [OF p(2)] show ?thesis
    by (intro exI [of _ b] exI [of _ c] exI [of _ "str_of (dict_get e ''final_file_sha256'')"]
        exI [of _ "str_of (dict_get e ''secure_blob_sha256'')"]) simp
qed

lemma milestone_remembers:
  assumes "catacomb_milestone H bio m v t = Inr t'" and "tracker_ok t" and r: "remembers ms t"
  shows "remembers (ms @ [(PyStr m, v)]) t'"
proof -
  note more = remembers_more [OF r, of "[(PyStr m, v)]"]
  note same = more [THEN remembers_cong [THEN iffD2, rotated 6]]
  from assms(1) show ?thesis
  proof (cases rule: catacomb_milestone_cases)
    case plan
    then have "pt_phase t = P_NOT_STARTED" by (auto elim!: tracker_plan_ok)
    then have "pt_batch_index t = None" "pt_staged t = []" using assms(2) by (simp_all add: tracker_ok_def)
    then have "pt_expected_blob_length t = None" "pt_captured_blob_sha256 t = None" "pt_staged t = []"
      using r unfolding remembers_def about_def by (metis not_None_eq option.distinct(1))+
    moreover obtain bs where "t' = t\<lparr>pt_batches := bs, pt_batch_index := Some 0, pt_component_index := Some 0,
        pt_phase := P_COMPONENT_READY\<rparr>" using plan(2) by (auto elim!: tracker_plan_ok)
    ultimately show ?thesis by (simp add: remembers_def)
  next
    case prepared
    from on_prepared_about [OF this(2)] obtain b c n where p: "pt_component_index t = Some c" "about t b c v"
      "dict_get (dict_of v) ''expected_blob_length'' = PyInt n" "t' = t\<lparr>pt_expected_blob_length := Some n, pt_phase := P_PREPARED\<rparr>"
      by blast
    have ab: "about t' = about t" by (simp add: fun_eq_iff about_def p(4))
    show ?thesis using more p prepared(1) unfolding remembers_def ab by auto
  next
    case captured
    from on_secure_blob_captured_about [OF this(2)] obtain b c d where p: "pt_component_index t = Some c" "about t b c v"
      "dict_get (dict_of v) ''secure_blob_sha256'' = PyStr d"
      "t' = t\<lparr>pt_captured_blob_sha256 := Some d, pt_phase := P_SECURE_BLOB_CAPTURED\<rparr>" by blast
    have ab: "about t' = about t" by (simp add: fun_eq_iff about_def p(4))
    show ?thesis using more p captured(1) unfolding remembers_def ab by auto
  next
    case staged
    from on_host_staged_about [OF this(2)] obtain b c d x where p: "pt_component_index t = Some c" "about t b c v"
      "dict_get (dict_of v) ''final_file_sha256'' = PyStr d" "pt_captured_blob_sha256 t = Some x"
      "dict_get (dict_of v) ''secure_blob_sha256'' = PyStr x"
      "t' = t\<lparr>pt_staged := AList.update (fst (pt_batches t ! b ! c)) d (pt_staged t), pt_phase := P_HOST_STAGED\<rparr>" by blast
    have ab: "about t' = about t" by (simp add: fun_eq_iff about_def p(6))
    obtain b' c' v' where "pt_component_index t = Some c'" "(PyStr ''CATACOMB_SECURE_BLOB_CAPTURED'', v') \<in> set ms"
      "about t b' c' v'" "dict_get (dict_of v') ''secure_blob_sha256'' = PyStr x"
      using r p(4) unfolding remembers_def by blast
    with p(1,2) have q: "(PyStr ''CATACOMB_SECURE_BLOB_CAPTURED'', v') \<in> set ms" "about t b c v'"
      "dict_get (dict_of v') ''secure_blob_sha256'' = PyStr x" by (auto simp: about_def)
    have "\<exists>b c v w. name = fst (pt_batches t ! b ! c)
         \<and> (PyStr ''CATACOMB_SECURE_BLOB_CAPTURED'', v) \<in> set (ms @ [(PyStr m, v0)]) \<and> about t b c v
         \<and> (PyStr ''CATACOMB_HOST_STAGED'', w) \<in> set (ms @ [(PyStr m, v0)]) \<and> about t b c w
         \<and> dict_get (dict_of w) ''final_file_sha256'' = PyStr d'
         \<and> dict_get (dict_of w) ''secure_blob_sha256'' = dict_get (dict_of v) ''secure_blob_sha256''"
      if "map_of (pt_staged t') name = Some d'" "v0 = v" for name d' v0
    proof (cases "name = fst (pt_batches t ! b ! c)")
      case True
      with that p(6) have "d' = d" by (simp add: update_Some_unfold)
      with True p(2,3,5) q staged(1) that(2) show ?thesis
        by (intro exI [of _ b] exI [of _ c] exI [of _ v'] exI [of _ v]) simp
    next
      case False
      with that p(6) have "map_of (pt_staged t) name = Some d'" by (simp add: update_conv')
      with r show ?thesis unfolding remembers_def set_append by blast
    qed
    moreover have "pt_batches t' = pt_batches t" "pt_component_index t' = pt_component_index t"
      "pt_expected_blob_length t' = pt_expected_blob_length t" "pt_captured_blob_sha256 t' = pt_captured_blob_sha256 t"
      by (simp_all add: p(6))
    ultimately show ?thesis using more unfolding remembers_def ab by simp
  next
    case confirmed
    from on_confirmed_ok [OF this(2)] show ?thesis by (intro remembers_staged_only [OF more]) simp_all
  next
    case recovered
    from on_early_confirm_recovered_ok [OF this(2)] show ?thesis by (intro remembers_staged_only [OF more]) auto
  next
    case final_confirmed
    from on_final_confirmed_ok [OF this(2)] consider
      (next_batch) "pt_expected_blob_length t' = None" "pt_captured_blob_sha256 t' = None" "pt_staged t' = []"
    | (last_batch) "t' = t\<lparr>pt_captured_blob_sha256 := None, pt_expected_blob_length := None, pt_phase := P_ATTESTATION_READY\<rparr>"
      by auto
    then show ?thesis
    proof cases
      case next_batch
      then show ?thesis by (simp add: remembers_def)
    next
      case last_batch
      then show ?thesis by (intro remembers_staged_only [OF more]) simp_all
    qed
  next
    case unknown
    from on_persistence_outcome_unknown_ok [OF this(2)] show ?thesis by (elim exE conjE) (rule same; simp)
  next
    case prepare_intent
    from on_prepare_intent_ok [OF this(2)] show ?thesis by (intro same) simp_all
  next
    case complete_intent
    from on_complete_intent_ok [OF this(2)] show ?thesis by (intro same) simp_all
  next
    case (confirm_intent f)
    from on_confirm_intent_ok [OF this(3)] show ?thesis by (intro same) simp_all
  next
    case (commit_intent f)
    from on_batch_commit_intent_ok [OF this(3)] show ?thesis by (intro same) simp_all
  next
    case committed
    from on_batch_committed_ok [OF this(2)] show ?thesis by (intro same) simp_all
  next
    case final_intent
    from on_final_confirm_intent_ok [OF this(2)] show ?thesis by (intro same) simp_all
  next
    case attested
    from on_persistence_attested_ok [OF this(2)] show ?thesis by (elim exE conjE) (rule same; simp)
  qed
qed

section \<open>Properties\<close>

text \<open>
  C24: an undisturbed save is recorded in exactly one order. A run of the tracker from its initial
  state to \<^verbatim>\<open>COMPLETE\<close> without an unknown outcome consumed precisely the script of its plan: the plan,
  then for every batch and every component the intents and observations of prepare, complete,
  capture and host staging, the confirmation of each but the last component, commit and final
  confirmation of the batch, and at the end the attestation.
\<close>

theorem complete_save_follows_script:
  assumes "tracker_init baseline kind = Inr t" and "consume_all H bio ms t = Inr t'"
    and "pt_phase t' = P_COMPLETE"
    and "PyStr ''CATACOMB_PERSISTENCE_OUTCOME_UNKNOWN'' \<notin> fst ` set ms"
  shows "filter is_catacomb (map fst ms) = map PyStr (save_script (map length (pt_batches t')))"
proof -
  have "on_script t []"
    using tracker_init_ok [OF assms(1)] by (simp add: on_script_def tracker_position_def)
  from consume_all_script [OF assms(2) this assms(4)] assms(3) show ?thesis
    by (simp add: on_script_def tracker_position_def)
qed

text \<open>
  C25: the tracker's invariant. Whatever milestones a tracker has accepted, its indices point into its
  plan, no component occurs twice in the plan, and from the commit intent of a batch on every
  component of that batch has a staged file. What it remembers was observed: the expected length and the captured digest in
  a milestone about the current component, and each staged digest in a milestone about the component of that name in
  the current batch, for the very blob that was captured for it.
\<close>

theorem tracker_invariant:
  assumes "tracker_init baseline kind = Inr t" and "consume_all H bio ms t = Inr t'"
  shows "tracker_ok t' \<and> remembers ms t'"
  using assms(2)
proof (induction ms arbitrary: t' rule: rev_induct)
  case Nil
  then show ?case using tracker_init_ok [OF assms(1)] assms(1)
    by (auto simp: consume_all_def tracker_init_def remembers_def res_simps)
next
  case (snoc mv ms)
  then obtain s where s: "consume_all H bio ms t = Inr s" "consume_one H bio mv s = Inr t'"
    by (auto simp: consume_all_def fold_res_append res_simps)
  note ok = snoc.IH [OF s(1)]
  from s(2) have "remembers (ms @ [mv]) t'"
  proof (cases rule: consume_one_cases)
    case other
    then show ?thesis using ok remembers_more by blast
  next
    case (milestone m)
    then have "mv = (PyStr m, snd mv)" by (cases mv) simp
    with milestone_remembers [OF milestone(3)] ok show ?thesis by metis
  qed
  with consume_one_keeps_ok [OF s(2)] ok show ?case by blast
qed

lemma plan_kept:
  assumes "consume_all H bio ms t = Inr t'" and "tracker_ok t" and "pt_phase t = P_NOT_STARTED" and "pt_phase t' \<noteq> P_NOT_STARTED"
  shows "plan_names_ok (pt_plan_kind t) bio (user_cat_name (int_of (dict_get (pt_baseline t) ''apple_uid'')))
       (rev (map fst (concat (pt_batches t')))) (pt_batches t') = Inr ()
    \<and> plan_enrollment_ok (pt_plan_kind t) bio (user_cat_name (int_of (dict_get (pt_baseline t) ''apple_uid'')))
       (pt_batches t') = Inr ()" (is "?ok (pt_batches t')")
proof -
  have "tracker_ok t' \<and> pt_plan_kind t' = pt_plan_kind t \<and> pt_baseline t' = pt_baseline t
      \<and> (pt_phase t' = P_NOT_STARTED \<or> ?ok (pt_batches t'))"
    using assms(1) unfolding consume_all_def
  proof (rule fold_res_invariant)
    fix mv s s'
    assume s: "tracker_ok s \<and> pt_plan_kind s = pt_plan_kind t \<and> pt_baseline s = pt_baseline t
      \<and> (pt_phase s = P_NOT_STARTED \<or> ?ok (pt_batches s))" and step: "consume_one H bio mv s = Inr s'"
    from step have "tracker_ok s'" using s consume_one_keeps_ok by blast
    moreover from step have "pt_plan_kind s' = pt_plan_kind t \<and> pt_baseline s' = pt_baseline t
      \<and> (pt_phase s' = P_NOT_STARTED \<or> ?ok (pt_batches s'))"
    proof (cases rule: consume_one_cases)
      case (milestone m)
      show ?thesis
      proof (cases "pt_phase s = P_NOT_STARTED")
        case True
        from first_milestone [OF milestone(3) _ True] s have "tracker_plan bio (snd mv) s = Inr s'" by blast
        then show ?thesis by (rule tracker_plan_ok) (use s in simp)
      next
        case False
        from milestone_keeps_plan [OF milestone(3) False] s False show ?thesis by simp
      qed
    qed (use s in simp)
    ultimately show "tracker_ok s' \<and> pt_plan_kind s' = pt_plan_kind t \<and> pt_baseline s' = pt_baseline t
      \<and> (pt_phase s' = P_NOT_STARTED \<or> ?ok (pt_batches s'))" by blast
  qed (use assms in simp)
  with assms(4) show ?thesis by blast
qed

text \<open>
  What an enrollment saves. Once an enrollment's plan is accepted, the save consists of the user
  Catacomb followed by the master Catacomb as one batch and the bio-lockout Catacomb as the second.
\<close>

theorem enrollment_plan_fixed:
  assumes "tracker_init baseline ''enrollment'' = Inr t" and "consume_all H False ms t = Inr t'"
    and "pt_phase t' \<noteq> P_NOT_STARTED"
  shows "map (map fst) (pt_batches t') =
    [[user_cat_name (int_of (dict_get baseline ''apple_uid'')), ''master.cat''], [''biolockout.cat'']]"
proof -
  have t: "tracker_ok t" "pt_phase t = P_NOT_STARTED" "pt_plan_kind t = ''enrollment''" "pt_baseline t = baseline"
    using tracker_init_ok [OF assms(1)] assms(1) by (auto simp: tracker_init_def res_simps)
  from plan_kept [OF assms(2) t(1,2) assms(3)] t(3,4) show ?thesis
    by (cases "pt_batches t'"; cases "tl (pt_batches t')") (auto simp: plan_enrollment_ok_def split: if_splits)
qed


section \<open>Witnesses\<close>

text \<open>A whole enrollment save of Apple UID 501.\<close>

definition save_digest :: "char \<Rightarrow> string" where
  "save_digest c = replicate 64 c"

definition save_hash :: "string \<Rightarrow> string" where
  "save_hash t = save_digest CHR ''f''"

definition save_baseline :: pydict where
  "save_baseline = [(KStr ''connection_generation'', PyStr ''g''), (KStr ''apple_uid'', PyInt 501)]"

definition save_component :: "string \<Rightarrow> char \<Rightarrow> pyval" where
  "save_component name c = PyDict [(KStr ''name'', PyStr name), (KStr ''descriptor_sha256'', PyStr (save_digest c))]"

definition save_evidence :: "int \<Rightarrow> int \<Rightarrow> string \<Rightarrow> char \<Rightarrow> pydict \<Rightarrow> pyval" where
  "save_evidence b i name c extra = PyDict ([(KStr ''connection_generation'', PyStr ''g''),
     (KStr ''batch_index'', PyInt b), (KStr ''component_index'', PyInt i), (KStr ''name'', PyStr name),
     (KStr ''descriptor_sha256'', PyStr (save_digest c))] @ extra)"

definition save_batch_evidence :: "int \<Rightarrow> pyval" where
  "save_batch_evidence b = PyDict [(KStr ''connection_generation'', PyStr ''g''), (KStr ''batch_index'', PyInt b),
     (KStr ''staged_snapshot_sha256'', PyStr (save_digest CHR ''f''))]"

definition save_component_run :: "int \<Rightarrow> int \<Rightarrow> string \<Rightarrow> char \<Rightarrow> bool \<Rightarrow> (pyval \<times> pyval) list" where
  "save_component_run b i name c final =
     (let ev = save_evidence b i name c; ok = [(KStr ''status'', PyInt 0)];
          blob = [(KStr ''secure_blob_sha256'', PyStr (save_digest c))] in
      [(PyStr ''CATACOMB_PREPARE_INTENT'', ev []),
       (PyStr ''CATACOMB_PREPARED'', ev (ok @ [(KStr ''expected_blob_length'', PyInt 64)])),
       (PyStr ''CATACOMB_COMPLETE_INTENT'', ev []),
       (PyStr ''CATACOMB_SECURE_BLOB_CAPTURED'', ev (ok @ [(KStr ''blob_length'', PyInt 64)] @ blob)),
       (PyStr ''CATACOMB_HOST_STAGED'', ev (blob @ [(KStr ''final_file_sha256'', PyStr (save_digest c))]))] @
      (if final
       then [(PyStr ''CATACOMB_HOST_BATCH_COMMIT_INTENT'', save_batch_evidence b),
             (PyStr ''CATACOMB_HOST_BATCH_COMMITTED'', save_batch_evidence b),
             (PyStr ''CATACOMB_FINAL_CONFIRM_INTENT'', ev []),
             (PyStr ''CATACOMB_FINAL_CONFIRMED'', ev ok)]
       else [(PyStr ''CATACOMB_CONFIRM_INTENT'', ev []), (PyStr ''CATACOMB_CONFIRMED'', ev ok)]))"

definition save_run :: "(pyval \<times> pyval) list" where
  "save_run =
     [(PyStr ''CATACOMB_PERSISTENCE_PLAN'', PyDict [(KStr ''connection_generation'', PyStr ''g''),
        (KStr ''batches'', PyList [PyList [save_component ''user_000001f5.cat'' CHR ''1'',
           save_component ''master.cat'' CHR ''2''], PyList [save_component ''biolockout.cat'' CHR ''3'']])])] @
     save_component_run 0 0 ''user_000001f5.cat'' CHR ''1'' False @
     save_component_run 0 1 ''master.cat'' CHR ''2'' True @
     save_component_run 1 0 ''biolockout.cat'' CHR ''3'' True @
     [(PyStr ''CATACOMB_PERSISTENCE_ATTESTED'', PyDict [(KStr ''connection_generation'', PyStr ''g''),
        (KStr ''batch_count'', PyInt 2), (KStr ''reconciliation_snapshot_sha256'', PyStr (save_digest CHR ''e'')),
        (KStr ''sep_host_generation_equal'', PyBool True), (KStr ''independent_archive_readback'', PyBool True)])]"

definition save_start :: tracker where
  "save_start = projr (tracker_init save_baseline ''enrollment'')"

definition save_end :: tracker where
  "save_end = projr (consume_all save_hash False save_run save_start)"

lemma save_start_eq: "tracker_init save_baseline ''enrollment'' = Inr save_start"
  by code_simp

lemma save_run_ok:
  "case consume_all save_hash False save_run save_start of
     Inl _ \<Rightarrow> False | Inr t \<Rightarrow> pt_phase t = P_COMPLETE"
  by code_simp

lemma save_end_eq: "consume_all save_hash False save_run save_start = Inr save_end" "pt_phase save_end = P_COMPLETE"
  using save_run_ok by (auto simp: save_end_def split: sum.splits)

theorem complete_save_follows_script_witness:
  "filter is_catacomb (map fst save_run) = map PyStr (save_script (map length (pt_batches save_end)))"
proof (rule complete_save_follows_script [OF save_start_eq save_end_eq])
  show "PyStr ''CATACOMB_PERSISTENCE_OUTCOME_UNKNOWN'' \<notin> fst ` set save_run" by code_simp
qed

text \<open>The run up to the capture of the second component's blob, so that digests of both components are remembered.\<close>

definition save_captured :: tracker where
  "save_captured = projr (consume_all save_hash False (take 12 save_run) save_start)"

lemma save_captured_eq: "consume_all save_hash False (take 12 save_run) save_start = Inr save_captured"
  and save_captured_blob: "pt_captured_blob_sha256 save_captured = Some (save_digest CHR ''2'')"
    "pt_staged save_captured = [(''user_000001f5.cat'', save_digest CHR ''1'')]"
proof -
  have c: "case consume_all save_hash False (take 12 save_run) save_start of Inl _ \<Rightarrow> False
    | Inr t \<Rightarrow> pt_captured_blob_sha256 t = Some (save_digest CHR ''2'')
        \<and> pt_staged t = [(''user_000001f5.cat'', save_digest CHR ''1'')]" by code_simp
  then show "consume_all save_hash False (take 12 save_run) save_start = Inr save_captured"
    by (auto simp: save_captured_def split: sum.splits)
  with c show "pt_captured_blob_sha256 save_captured = Some (save_digest CHR ''2'')"
    "pt_staged save_captured = [(''user_000001f5.cat'', save_digest CHR ''1'')]" by auto
qed

theorem tracker_invariant_witness:
  "tracker_ok save_captured \<and> remembers (take 12 save_run) save_captured
     \<and> pt_captured_blob_sha256 save_captured = Some (save_digest CHR ''2'')"
  using tracker_invariant [OF save_start_eq save_captured_eq] save_captured_blob(1) by simp

theorem enrollment_plan_fixed_witness:
  "map (map fst) (pt_batches save_end) =
    [[user_cat_name (int_of (dict_get save_baseline ''apple_uid'')), ''master.cat''], [''biolockout.cat'']]"
  by (rule enrollment_plan_fixed [OF save_start_eq save_end_eq(1)]) (simp add: save_end_eq(2))

end
