(* ===== verification/Line_Codec.thy ===== *)
theory Line_Codec
  imports Mutation_Journal
begin

text \<open>
  The contract between the journal and the text format of its lines, as a locale: what the
  hash chain and the torn-tail repair rely on is that a value is written on one line, that
  reading the line gives the value back up to a normal form, and that the normal form is
  written alike. The JSON codec is the instance the journal uses.
\<close>

section \<open>Lines of a byte string\<close>

definition closed_lines :: "string \<Rightarrow> bool" where
  "closed_lines d = (d = [] \<or> last d = LF)"

definition one_line :: "string \<Rightarrow> bool" where
  "one_line t = (LF \<notin> set t \<and> CR \<notin> set t)"

lemma concat_splitlines: "concat (splitlines d) = d"
  by (induction d rule: splitlines.induct) (auto split: list.splits)

lemma splitlines_append:
  "closed_lines d \<Longrightarrow> splitlines (d @ u) = splitlines d @ splitlines u"
proof (induction d rule: splitlines.induct)
  case 1
  then show ?case by simp
next
  case (2 c s)
  show ?case
  proof (cases "s = []")
    case True
    with "2.prems" show ?thesis by (simp add: closed_lines_def)
  next
    case False
    then have "startswith (s @ u) [LF] = startswith s [LF]"
      by (cases s) (auto simp: startswith_def)
    moreover from False "2.prems" have "closed_lines s" by (simp add: closed_lines_def)
    moreover have "splitlines s \<noteq> []" using False concat_splitlines [of s] by auto
    ultimately show ?thesis using 2 by (auto split: list.splits)
  qed
qed

lemma splitlines_line: "one_line t \<Longrightarrow> splitlines (t @ [LF]) = [t @ [LF]]"
proof (induction t)
  case Nil
  show ?case by simp
next
  case (Cons c t)
  then have "splitlines (t @ [LF]) = [t @ [LF]]" by (simp add: one_line_def)
  with Cons.prems show ?case by (auto simp: one_line_def)
qed

lemma rfind_LF_None: "rfind_LF t = None \<longleftrightarrow> LF \<notin> set t"
  by (induction t) (auto split: option.splits)

lemma rfind_LF_append:
  "LF \<notin> set t \<Longrightarrow> d \<noteq> [] \<Longrightarrow> last d = LF \<Longrightarrow> rfind_LF (d @ t) = Some (length d - 1)"
proof (induction d)
  case Nil
  then show ?case by simp
next
  case (Cons c d)
  show ?case
  proof (cases d)
    case Nil
    with Cons.prems show ?thesis by (simp add: rfind_LF_None [THEN iffD2])
  next
    case (Cons c' d')
    with Cons.IH Cons.prems show ?thesis by (simp split: if_splits)
  qed
qed

text \<open>A file of complete lines followed by an unterminated rest is split where the rest starts.\<close>

lemma split_complete_lines_torn:
  assumes "closed_lines d" and "LF \<notin> set t" and "t \<noteq> []"
  shows "split_complete_lines (d @ t) = (splitlines d, t)"
proof -
  have "last (d @ t) \<noteq> LF" using assms(2,3) by (metis last_appendR last_in_set)
  then show ?thesis
  proof (cases "d = []")
    case True
    with assms \<open>last (d @ t) \<noteq> LF\<close> show ?thesis
      by (simp add: split_complete_lines_def rfind_LF_None [THEN iffD2])
  next
    case False
    with assms have "rfind_LF (d @ t) = Some (length d - 1)"
      by (intro rfind_LF_append) (auto simp: closed_lines_def)
    with False assms(3) \<open>last (d @ t) \<noteq> LF\<close> show ?thesis
      by (simp add: split_complete_lines_def)
  qed
qed

lemma split_complete_lines_closed: "closed_lines d \<Longrightarrow> split_complete_lines d = (splitlines d, [])"
  by (auto simp: closed_lines_def split_complete_lines_def)

text \<open>Every byte string is complete lines followed by a rest without a newline.\<close>

lemma rfind_LF_Some:
  "rfind_LF p = Some i \<Longrightarrow> i < length p \<and> p ! i = LF \<and> LF \<notin> set (drop (Suc i) p)"
  by (induction p arbitrary: i)
    (auto split: option.splits if_splits simp: rfind_LF_None nth_Cons')

lemma last_take_Suc: "i < length p \<Longrightarrow> last (take (Suc i) p) = p ! i"
  by (simp add: take_Suc_conv_app_nth)

lemma split_complete_lines_cases:
  obtains d t where "p = d @ t" "closed_lines d" "LF \<notin> set t" "split_complete_lines p = (splitlines d, t)"
proof (cases "rfind_LF p")
  case None
  show ?thesis
  proof (rule that [of "[]" p])
    show "split_complete_lines p = (splitlines [], p)"
      using None rfind_LF_None [of p] by (cases "p = []") (auto simp: split_complete_lines_def dest: last_in_set)
  qed (use None in \<open>auto simp: rfind_LF_None closed_lines_def\<close>)
next
  case (Some i)
  note i = rfind_LF_Some [OF Some]
  have closed: "closed_lines (take (Suc i) p)"
    using i by (simp add: closed_lines_def last_take_Suc)
  have eq: "p = take (Suc i) p @ drop (Suc i) p" by simp
  have "split_complete_lines p = (splitlines (take (Suc i) p), drop (Suc i) p)"
  proof (cases "drop (Suc i) p = []")
    case True
    then have "take (Suc i) p = p" by simp
    with True closed show ?thesis by (simp add: split_complete_lines_closed)
  next
    case False
    with split_complete_lines_torn [OF closed _ False] i eq show ?thesis by simp
  qed
  with closed i eq show ?thesis by (intro that [of "take (Suc i) p" "drop (Suc i) p"]) auto
qed

section \<open>The contract\<close>

locale line_codec =
  fixes enc :: "'v \<Rightarrow> string"
    and dec :: "string \<Rightarrow> 'v option"
    and norm :: "'v \<Rightarrow> 'v"
    and ok :: "'v \<Rightarrow> bool"
  assumes dec_enc: "ok v \<Longrightarrow> dec (enc v @ [LF]) = Some (norm v)"
    and enc_norm: "enc (norm v) = enc v"
    and enc_one_line: "one_line (enc v)"
begin

definition lines_of :: "'v list \<Rightarrow> string" where
  "lines_of vs = concat (map (\<lambda>v. enc v @ [LF]) vs)"

lemma closed_lines_of: "closed_lines (lines_of vs)"
  by (cases vs rule: rev_cases) (auto simp: lines_of_def closed_lines_def)

lemma splitlines_lines_of: "splitlines (lines_of vs) = map (\<lambda>v. enc v @ [LF]) vs"
proof (induction vs)
  case Nil
  show ?case by (simp add: lines_of_def)
next
  case (Cons v vs)
  have "closed_lines (enc v @ [LF])" by (simp add: closed_lines_def)
  then have "splitlines (lines_of (v # vs)) = splitlines (enc v @ [LF]) @ splitlines (lines_of vs)"
    by (simp add: lines_of_def splitlines_append [symmetric])
  with Cons enc_one_line [of v] show ?case by (simp add: splitlines_line)
qed

lemma enc_inj: "ok v \<Longrightarrow> ok w \<Longrightarrow> enc v = enc w \<Longrightarrow> norm v = norm w"
  using dec_enc [of v] dec_enc [of w] by simp

lemma enc_eq_iff: "ok v \<Longrightarrow> ok w \<Longrightarrow> enc v = enc w \<longleftrightarrow> norm v = norm w"
  using enc_inj [of v w] enc_norm [of v] enc_norm [of w] by auto

text \<open>A strict prefix of a written line is a torn tail: it has no newline.\<close>

lemma torn_line: "n < length (enc v @ [LF]) \<Longrightarrow> LF \<notin> set (take n (enc v @ [LF]))"
  using enc_one_line [of v] by (auto simp: one_line_def dest: in_set_takeD)

end

section \<open>The JSON instance\<close>

lemma json_text_sort_dicts [simp]: "json_text (sort_dicts v) = json_text v"
proof (induction v)
  case (PyDict kvs)
  have "map member_text (map (\<lambda>(k, v). (k, sort_dicts v)) (sort_key fst kvs))
      = map member_text (sort_key fst kvs)"
    using PyDict.IH by (auto simp: member_text_def)
  moreover have "sort_key fst (map (\<lambda>(k, v). (k, sort_dicts v)) (sort_key fst kvs))
      = map (\<lambda>(k, v). (k, sort_dicts v)) (sort_key fst kvs)"
    by (subst sort_key_pair_map) (simp add: sort_key_id_if_sorted)
  ultimately show ?case
    unfolding sort_dicts_dict json_text_dict by (simp only:)
qed (simp_all cong: map_cong)

lemma printable_one_line: "printable t \<Longrightarrow> one_line t"
  by (auto simp: printable_def one_line_def list_all_iff LF_def CR_def)

interpretation json: line_codec json_text json_loads sort_dicts plain
proof
  fix v :: pyval
  show "plain v \<Longrightarrow> json_loads (json_text v @ [LF]) = Some (sort_dicts v)"
    unfolding LF_def by (rule loads_dumps)
  show "json_text (sort_dicts v) = json_text v" by simp
  show "one_line (json_text v)" by (intro printable_one_line printable_json_text)
qed

end
