(* ===== verification/Journal_Facts.thy ===== *)
theory Journal_Facts
  imports Line_Codec
begin

text \<open>
  What the mutation journal guarantees: the hash chain of an accepted journal, that its head hash
  determines all of it, that a record that was appended is read back, that an interrupted append
  leaves a file the next reader repairs, and what the baseline and secret checks establish.
\<close>

section \<open>Sorted dictionaries\<close>

lemma map_of_map_snd: "map_of (map (\<lambda>(k, v). (k, f v)) d) k = map_option f (map_of d k)"
  by (induction d) auto

lemma map_of_sort_key: "distinct (map fst d) \<Longrightarrow> map_of (sort_key fst d) = map_of d"
proof -
  assume d: "distinct (map fst d)"
  then have "distinct (map fst (sort_key fst d))"
    by (simp add: distinct_map)
  then show ?thesis using d by (intro map_of_inject_set [THEN iffD2]) auto
qed

text \<open>The items of \<^verbatim>\<open>json.loads(json.dumps(d))\<close>.\<close>

definition sorted_items :: "pydict \<Rightarrow> pydict" where
  "sorted_items d = sort_key fst (map (\<lambda>(k, v). (k, sort_dicts v)) d)"

lemma sort_dicts_PyDict: "sort_dicts (PyDict d) = PyDict (sorted_items d)"
  by (simp add: sorted_items_def sort_dicts.simps(2))

lemma map_of_sorted_items:
  "distinct (map fst d) \<Longrightarrow> map_of (sorted_items d) k = map_option sort_dicts (map_of d k)"
proof -
  assume "distinct (map fst d)"
  then have "distinct (map fst (map (\<lambda>(k, v). (k, sort_dicts v)) d))"
    by (simp add: comp_def case_prod_unfold)
  then show ?thesis by (simp add: sorted_items_def map_of_sort_key map_of_map_snd)
qed

lemma dict_get_sorted_items:
  "distinct (map fst d) \<Longrightarrow> dict_get (sorted_items d) k = sort_dicts (dict_get d k)"
  by (auto simp: dict_get_def map_of_sorted_items split: option.splits)

lemma dict_has_sorted_items:
  "distinct (map fst d) \<Longrightarrow> dict_has (sorted_items d) k = dict_has d k"
  by (auto simp: dict_has_def map_of_sorted_items)

lemma fst_sorted_items: "fst ` set (sorted_items d) = fst ` set d"
  by (force simp: sorted_items_def image_iff)

lemma dict_keys_are_sorted_items: "dict_keys_are (sorted_items d) ks = dict_keys_are d ks"
  by (simp add: dict_keys_are_iff fst_sorted_items)

lemma dict_without_sorted_items: "dict_without (sorted_items d) k = sorted_items (dict_without d k)"
  by (simp add: sorted_items_def dict_without_def filter_sort filter_map comp_def case_prod_unfold)

lemma json_text_sorted_items: "json_text (PyDict (sorted_items d)) = json_text (PyDict d)"
  using json_text_sort_dicts [of "PyDict d"] by (simp only: sort_dicts_PyDict)

text \<open>\<open>eq_form\<close> ignores the order of items, so sorting does not change a value up to \<^verbatim>\<open>==\<close>.\<close>

lemma sort_dicts_idem_key: "sort_key fst (sort_key fst d) = sort_key fst d"
  by (rule sort_key_id_if_sorted) simp

lemma eq_form_sort_dicts [simp]: "eq_form (sort_dicts v) = eq_form v"
proof (induction v)
  case (PyDict kvs)
  let ?s = "sort_key fst kvs"
  have "map (\<lambda>(k, v). (k, eq_form v)) (map (\<lambda>(k, v). (k, sort_dicts v)) ?s)
      = map (\<lambda>(k, v). (k, eq_form v)) ?s"
    using PyDict.IH by auto
  moreover have "sort_key fst (map (\<lambda>(k, v). (k, eq_form v)) ?s) = map (\<lambda>(k, v). (k, eq_form v)) ?s"
    by (simp only: sort_key_pair_map sort_dicts_idem_key)
  ultimately show ?case
    by (simp only: sort_dicts_dict eq_form.simps sort_key_pair_map)
qed (simp_all cong: map_cong)

lemma py_eq_sorted_items: "py_eq (PyDict (sorted_items d)) (PyDict d)"
  using eq_form_sort_dicts [of "PyDict d"] by (simp only: sort_dicts_PyDict py_eq_def)

section \<open>Writes\<close>

lemma write_all_prefix:
  "write_all ws p d = (r, d') \<Longrightarrow>
   (r = Inr () \<and> d' = d @ p) \<or> ((\<exists>e. r = Inl e) \<and> (\<exists>n < length p. d' = d @ take n p))"
proof (induction ws p d rule: write_all.induct)
  case (1 p d)
  then show ?case by simp
next
  case (2 c ws p d)
  consider "p = []" | "p \<noteq> []" "c < 0" | "p \<noteq> []" "c = 0" | "p \<noteq> []" "0 < c" by fastforce
  then show ?case
  proof cases
    case 4
    with "2.prems" have "write_all ws (drop (nat c) p) (d @ take (nat c) p) = (r, d')" by simp
    from "2.IH" [OF _ _ _ this] 4 consider
        "r = Inr ()" "d' = d @ p"
      | e n where "r = Inl e" "n < length (drop (nat c) p)"
          "d' = d @ take (nat c) p @ take n (drop (nat c) p)"
      by fastforce
    then show ?thesis
    proof cases
      case 2
      then have "d' = d @ take (nat c + n) p" "nat c + n < length p" by (simp_all add: take_add)
      with 2 show ?thesis by blast
    qed simp
  qed (use "2.prems" in \<open>auto intro!: exI [of _ 0]\<close>)
qed

lemma write_all_complete: "write_all [] p d = (Inr (), d @ p)"
  by simp

text \<open>The bytes of one record on disk.\<close>

definition record_line :: "pydict \<Rightarrow> string" where
  "record_line record = json_text (PyDict record) @ [LF]"

lemma append_record_eq:
  "append_record ws record d =
     (if serializable (PyDict record) then write_all ws (record_line record) d
      else (Inl (journal_error ''journal value is not canonical JSON: ''), d))"
  by (simp add: append_record_def canonical_def json_dumps_def record_line_def)

lemma append_record_cases:
  "append_record ws record d = (r, d') \<Longrightarrow>
   (r = Inr () \<and> d' = d @ record_line record)
   \<or> ((\<exists>e. r = Inl e) \<and> (\<exists>n < length (record_line record). d' = d @ take n (record_line record)))"
  using write_all_prefix [of ws "record_line record" d r d']
  by (auto simp: append_record_eq record_line_def split: if_splits intro!: exI [of _ 0])

lemma closed_record_line: "closed_lines (d @ record_line record)"
  by (simp add: closed_lines_def record_line_def)

lemma splitlines_record_line:
  "closed_lines d \<Longrightarrow> splitlines (d @ record_line record) = splitlines d @ [record_line record]"
  by (simp add: splitlines_append record_line_def splitlines_line json.enc_one_line)

lemma torn_record_line: "n < length (record_line record) \<Longrightarrow> LF \<notin> set (take n (record_line record))"
  unfolding record_line_def by (rule json.torn_line)

section \<open>The hash chain\<close>

definition head_hash :: "pydict list \<Rightarrow> pyval" where
  "head_hash rs = (if rs = [] then PyNone else dict_get (last rs) ''record_hash'')"

text \<open>The text whose digest a record carries.\<close>

definition record_text :: "pydict \<Rightarrow> string" where
  "record_text r = json_text (PyDict (dict_without r ''record_hash''))"

definition chained_record :: "(string \<Rightarrow> string) \<Rightarrow> nat \<Rightarrow> pyval \<Rightarrow> pydict \<Rightarrow> bool" where
  "chained_record H i previous r =
     (py_eq (dict_get r ''format_version'') (PyInt FORMAT_VERSION)
      \<and> py_eq (dict_get r ''sequence'') (PyInt (int i))
      \<and> dict_get r ''previous_hash'' = previous
      \<and> dict_get r ''record_hash'' = PyStr (H (record_text r)))"

definition chain_ok :: "(string \<Rightarrow> string) \<Rightarrow> pydict list \<Rightarrow> bool" where
  "chain_ok H rs = (\<forall>i < length rs. chained_record H i (head_hash (take i rs)) (rs ! i))"

lemma chain_ok_Nil [simp]: "chain_ok H []"
  by (simp add: chain_ok_def)

lemma chain_ok_snoc:
  "chain_ok H (rs @ [r]) \<longleftrightarrow> chain_ok H rs \<and> chained_record H (length rs) (head_hash rs) r"
  by (auto simp: chain_ok_def less_Suc_eq nth_append)

lemma dict_without_snoc:
  "dict_without (dict_without d k @ [(KStr k, v)]) k = dict_without d k"
  by (simp add: dict_without_def)

lemma dict_get_without_snoc:
  "dict_get (dict_without d k @ [(KStr k, v)]) j = (if j = k then v else dict_get d j)"
proof -
  have "\<not> dict_has (dict_without d k) k"
    by (induction d) (auto simp: dict_without_def dict_has_def)
  moreover have "\<not> dict_has e j \<Longrightarrow> dict_get e j = PyNone" for e
    by (auto simp: dict_has_def dict_get_def)
  ultimately show ?thesis
    using dict_get_without [of d k j] by (cases "j = k") (auto simp: dict_get_append)
qed

lemma plain_filter_snoc:
  "plain (PyDict d) \<Longrightarrow> plain (PyDict (dict_without d k @ [(KStr k, PyStr h)]))"
  by (induction d) (auto simp: dict_without_def)

text \<open>What the loop body has established when it accepts a line.\<close>

definition chain_inv :: "(string \<Rightarrow> string) \<Rightarrow> chain_state \<Rightarrow> bool" where
  "chain_inv H st =
     (chain_ok H (chain_records st)
      \<and> list_all (\<lambda>r. plain (PyDict r)) (chain_records st)
      \<and> chain_previous_hash st = head_hash (chain_records st)
      \<and> (chain_records st = [] \<longrightarrow> chain_operation_id st = PyNone)
      \<and> (\<forall>r rs. chain_records st = r # rs \<longrightarrow> dict_get r ''operation_id'' \<noteq> PyNone
           \<longrightarrow> chain_operation_id st = dict_get r ''operation_id''))"

lemma head_hash_str: "chain_ok H rs \<Longrightarrow> rs = [] \<and> head_hash rs = PyNone \<or> (\<exists>h. head_hash rs = PyStr h)"
  by (cases rs rule: rev_cases) (auto simp: head_hash_def chain_ok_snoc chained_record_def)

lemma validate_record_line_inv:
  assumes "validate_record_line H l st = Inr st'" and "chain_inv H st"
  shows "chain_inv H st'"
proof -
  from assms(1) obtain v where v: "json_loads l = Some v"
    by (auto simp: validate_record_line_def Let_def split: option.splits)
  note acc = assms(1) [unfolded validate_record_line_def v option.case Let_def res_simps record_hash_def
      canonical_def json_dumps_def]
  from acc obtain d where d: "v = PyDict d" by (auto simp: py_simps)
  let ?r = "dict_without d ''record_hash''"
  let ?rec = "?r @ [(KStr ''record_hash'', PyStr (H (json_text (PyDict ?r))))]"
  have inv: "chain_ok H (chain_records st)" "list_all (\<lambda>r. plain (PyDict r)) (chain_records st)"
    "chain_previous_hash st = head_hash (chain_records st)"
    using assms(2) by (simp_all add: chain_inv_def)
  from acc d have st': "chain_records st' = chain_records st @ [?rec]"
    "chain_previous_hash st' = PyStr (H (json_text (PyDict ?r)))"
    "chain_operation_id st' = (if chain_operation_id st = PyNone
       then dict_get d ''operation_id'' else chain_operation_id st)"
    by (auto simp: res_simps dict_get_without split: option.splits if_splits)
  have "chained_record H (length (chain_records st)) (head_hash (chain_records st)) ?rec"
    using acc d head_hash_str [OF inv(1)] inv(3)
    by (auto simp: chained_record_def record_text_def dict_without_snoc dict_get_without_snoc dict_get_without)
  with inv(1) st'(1) have "chain_ok H (chain_records st')" by (simp add: chain_ok_snoc)
  moreover have "list_all (\<lambda>r. plain (PyDict r)) (chain_records st')"
    using json_loads_plain [OF v] d inv(2) st'(1)
    by (simp add: plain_filter_snoc del: plain.simps)
  moreover have "chain_previous_hash st' = head_hash (chain_records st')"
    using st' by (simp add: head_hash_def dict_get_without_snoc)
  moreover have "\<forall>r rs. chain_records st' = r # rs \<longrightarrow> dict_get r ''operation_id'' \<noteq> PyNone
      \<longrightarrow> chain_operation_id st' = dict_get r ''operation_id''"
    using assms(2) st'
    by (cases "chain_records st") (auto simp: chain_inv_def dict_get_without_snoc)
  ultimately show ?thesis using st'(1) by (simp add: chain_inv_def)
qed

abbreviation chain_start :: chain_state where
  "chain_start \<equiv> \<lparr>chain_records = [], chain_previous_hash = PyNone, chain_operation_id = PyNone\<rparr>"

lemma validate_lines_inv:
  assumes "fold_res (validate_record_line H) ls chain_start = Inr st"
  shows "chain_inv H st"
proof (rule fold_res_invariant [OF assms])
  show "chain_inv H chain_start" by (simp add: chain_inv_def head_hash_def)
qed (blast intro: validate_record_line_inv)

lemma validate_records_inv:
  "validate_records H ls = Inr rs \<Longrightarrow> chain_ok H rs \<and> list_all (\<lambda>r. plain (PyDict r)) rs"
  by (auto simp: validate_records_def res_simps chain_inv_def dest!: validate_lines_inv)

lemma validate_records_snoc:
  "validate_records H (ls @ [l]) =
     and_then (fold_res (validate_record_line H) ls chain_start) (\<lambda>st.
     and_then (validate_record_line H l st) (\<lambda>st'. Inr (chain_records st')))"
proof (cases "fold_res (validate_record_line H) ls chain_start")
  case (Inr st)
  then show ?thesis
    by (cases "validate_record_line H l st") (simp_all add: validate_records_def fold_res_append)
qed (simp add: validate_records_def fold_res_append)

lemma validate_record_line_length:
  "validate_record_line H l st = Inr st' \<Longrightarrow> length (chain_records st') = Suc (length (chain_records st))"
  by (auto simp: validate_record_line_def Let_def res_simps split: option.splits if_splits)

section \<open>A written record is accepted\<close>

lemma plain_serializable: "plain v \<Longrightarrow> serializable v"
proof (induction v)
  case (PyDict kvs)
  then have "list_all (\<lambda>(k, v). serializable v) kvs"
    by (auto simp: list_all_iff)
  moreover have "comparable_keys (map fst kvs)"
    using PyDict.prems by (auto simp: comparable_keys_def list_all_iff)
  ultimately show ?case by simp
qed (auto simp: list_all_iff)

lemma plain_sort_dicts: "plain v \<Longrightarrow> plain (sort_dicts v)"
proof (induction v)
  case (PyDict kvs)
  then show ?case
    by (auto simp: sort_dicts_dict list_all_iff distinct_map inj_on_def comp_def case_prod_unfold)
qed (auto simp: list_all_iff)

text \<open>The record \<open>unsigned_record\<close> builds, and the form in which it is read back.\<close>

definition signed :: "(string \<Rightarrow> string) \<Rightarrow> pydict \<Rightarrow> pydict" where
  "signed H u = u @ [(KStr ''record_hash'', PyStr (H (json_text (PyDict u))))]"

definition read_back :: "(string \<Rightarrow> string) \<Rightarrow> pydict \<Rightarrow> pydict" where
  "read_back H u = sorted_items u @ [(KStr ''record_hash'', PyStr (H (json_text (PyDict u))))]"

lemma record_hash_plain: "plain (PyDict u) \<Longrightarrow> record_hash H u = Inr (H (json_text (PyDict u)))"
  using plain_serializable [of "PyDict u"]
  by (simp add: record_hash_def canonical_def json_dumps_def del: plain.simps serializable.simps)

lemma unsigned_record_eq:
  "plain (PyDict (unsigned_fields i n h m e)) \<Longrightarrow>
   unsigned_record H i n h m e = Inr (signed H (unsigned_fields i n h m e))"
  by (simp add: unsigned_record_def record_hash_plain signed_def Let_def del: plain.simps)

lemma unsigned_fields_plain:
  "plain i \<Longrightarrow> plain h \<Longrightarrow> plain (PyDict e) \<Longrightarrow> plain (PyDict (unsigned_fields i n h m e))"
  by (simp add: unsigned_fields_def)

lemma unsigned_fields_get:
  "dict_get (unsigned_fields i n h m e) ''format_version'' = PyInt FORMAT_VERSION"
  "dict_get (unsigned_fields i n h m e) ''operation_id'' = i"
  "dict_get (unsigned_fields i n h m e) ''sequence'' = PyInt (int n)"
  "dict_get (unsigned_fields i n h m e) ''previous_hash'' = h"
  "dict_get (unsigned_fields i n h m e) ''milestone'' = PyStr m"
  "dict_get (unsigned_fields i n h m e) ''evidence'' = PyDict e"
  "distinct (map fst (unsigned_fields i n h m e))"
  "dict_without (unsigned_fields i n h m e) ''record_hash'' = unsigned_fields i n h m e"
  by (simp_all add: unsigned_fields_def dict_without_def)

lemma plain_signed:
  "plain (PyDict u) \<Longrightarrow> dict_without u ''record_hash'' = u \<Longrightarrow> plain (PyDict (signed H u))"
  using plain_filter_snoc [of u "''record_hash''"] by (simp add: signed_def del: plain.simps)

lemma valid_repair_sorted:
  "plain (PyDict u) \<Longrightarrow> valid_repair_record u \<Longrightarrow> valid_repair_record (sorted_items u)"
proof -
  assume p: "plain (PyDict u)" and v: "valid_repair_record u"
  then obtain e n where e: "dict_get u ''evidence'' = PyDict e" "dict_keys_are e [''truncated_bytes'']"
      "dict_get e ''truncated_bytes'' = PyInt n" "0 < n"
    by (auto simp: valid_repair_record_def Let_def py_simps)
  have d: "distinct (map fst u)" using p by simp
  have "(KStr ''evidence'', PyDict e) \<in> set u"
    using e(1) by (auto simp: dict_get_def split: option.splits dest: map_of_SomeD)
  then have de: "distinct (map fst e)" using p by (auto simp: list_all_iff)
  have "py_eq (sort_dicts w) (PyInt 0) = py_eq w (PyInt 0)" for w by (simp add: py_eq_def)
  with v e show ?thesis
    by (simp add: valid_repair_record_def Let_def dict_keys_are_sorted_items dict_get_sorted_items [OF d]
        dict_get_sorted_items [OF de] sort_dicts_PyDict py_simps)
qed

lemma py_eq_sort_dicts [simp]: "py_eq (sort_dicts v) w = py_eq v w"
  by (simp add: py_eq_def)

lemma accept_record_line:
  assumes inv: "chain_inv H st" and pe: "plain (PyDict e)"
    and oid: "chain_operation_id st \<in> {PyNone, PyStr i}"
    and u: "u = unsigned_fields (PyStr i) (length (chain_records st)) (head_hash (chain_records st)) m e"
    and rep: "is_repair_milestone (PyStr m) \<longrightarrow> valid_repair_record u"
  shows "validate_record_line H (record_line (signed H u)) st =
    Inr \<lparr>chain_records = chain_records st @ [read_back H u],
         chain_previous_hash = PyStr (H (json_text (PyDict u))), chain_operation_id = PyStr i\<rparr>"
proof -
  have hh: "chain_previous_hash st = head_hash (chain_records st)" "plain (head_hash (chain_records st))"
    using inv head_hash_str [of H "chain_records st"] by (auto simp: chain_inv_def)
  note get = unsigned_fields_get [of "PyStr i" "length (chain_records st)" "head_hash (chain_records st)" m e, folded u]
  have pu: "plain (PyDict u)"
    unfolding u by (rule unsigned_fields_plain) (use hh pe in simp_all)
  have ps: "plain (PyDict (signed H u))" using pu get(8) by (rule plain_signed)
  have loads: "json_loads (record_line (signed H u)) = Some (PyDict (sorted_items (signed H u)))"
    using json.dec_enc [OF ps] by (simp add: record_line_def sort_dicts_PyDict)
  have ds: "distinct (map fst (signed H u))" using ps by simp
  have strip: "dict_without (sorted_items (signed H u)) ''record_hash'' = sorted_items u"
  proof -
    have "dict_without (signed H u) ''record_hash'' = u"
      using get(8) by (simp add: signed_def dict_without_def)
    then show ?thesis by (simp add: dict_without_sorted_items)
  qed
  have supplied: "dict_get (sorted_items (signed H u)) ''record_hash'' = PyStr (H (json_text (PyDict u)))"
    using dict_get_without_snoc [of u "''record_hash''" _ "''record_hash''"] get(8)
    by (subst dict_get_sorted_items [OF ds]) (simp add: signed_def)
  have hash: "record_hash H (sorted_items u) = Inr (H (json_text (PyDict u)))"
    using record_hash_plain [of "sorted_items u" H] plain_sort_dicts [OF pu]
    by (simp add: sort_dicts_PyDict json_text_sorted_items del: plain.simps)
  have mil: "dict_get (sorted_items u) ''milestone'' = PyStr m"
    using get by (simp add: dict_get_sorted_items)
  have "is_repair_milestone (PyStr m) \<longrightarrow> valid_repair_record (sorted_items u)"
    using rep valid_repair_sorted [OF pu] by blast
  with oid show ?thesis
    by (auto simp: validate_record_line_def loads strip supplied hash mil get dict_get_sorted_items
        isinstance_dict_def Let_def hh(1) read_back_def)
qed


section \<open>Appending and reading back\<close>

text \<open>The bytes of a journal without a torn tail, and the records they hold.\<close>

definition holds :: "(string \<Rightarrow> string) \<Rightarrow> string \<Rightarrow> pydict list \<Rightarrow> bool" where
  "holds H d rs = (closed_lines d \<and> validate_records H (splitlines d) = Inr rs)"

lemma sort_key_unique:
  assumes "set xs = set ys" and "distinct (map fst xs)" and "distinct (map fst ys)"
  shows "sort_key fst xs = sort_key fst ys"
proof (rule map_sorted_distinct_set_unique [where f = fst])
  show "inj_on fst (set (sort_key fst xs) \<union> set (sort_key fst ys))"
    using assms by (simp add: distinct_map)
qed (use assms in \<open>simp_all add: distinct_map\<close>)

lemma sort_key_snoc_sorted:
  "distinct (map fst (xs @ [x])) \<Longrightarrow> sort_key fst (sort_key fst xs @ [x]) = sort_key fst (xs @ [x])"
  by (rule sort_key_unique) (auto simp: distinct_map)

lemma map_eq_form_sorted_items:
  "map (\<lambda>(k, v). (k, eq_form v)) (sorted_items u) = sort_key fst (map (\<lambda>(k, v). (k, eq_form v)) u)"
proof -
  have "sorted_items u = map (\<lambda>(k, v). (k, sort_dicts v)) (sort_key fst u)"
    by (simp only: sorted_items_def sort_key_pair_map)
  then have "map (\<lambda>(k, v). (k, eq_form v)) (sorted_items u) = map (\<lambda>(k, v). (k, eq_form v)) (sort_key fst u)"
    by auto
  then show ?thesis by (simp only: sort_key_pair_map)
qed

lemma py_eq_read_back:
  assumes "plain (PyDict (signed H u))"
  shows "py_eq (PyDict (read_back H u)) (PyDict (signed H u))"
proof -
  let ?g = "\<lambda>(k, v). (k, eq_form v)" and ?h = "(KStr ''record_hash'', PyStr (H (json_text (PyDict u))))"
  have fg: "map fst (map ?g d) = map fst d" for d :: pydict by (simp add: comp_def case_prod_unfold)
  have d: "distinct (map fst (map ?g u @ [?g ?h]))"
    using assms unfolding signed_def by (simp only: map_append fg plain.simps list.map prod.case fst_conv)
  have "sort_key fst (sort_key fst (map ?g u) @ [?g ?h]) = sort_key fst (map ?g u @ [?g ?h])"
    using d by (rule sort_key_snoc_sorted)
  then show ?thesis
    by (simp only: py_eq_def read_back_def signed_def eq_form.simps map_append map_eq_form_sorted_items list.map)
qed

lemma holds_state:
  assumes "holds H d rs"
  obtains st where "fold_res (validate_record_line H) (splitlines d) chain_start = Inr st"
    "chain_records st = rs" "chain_inv H st"
  using assms validate_lines_inv [of H "splitlines d"]
  by (auto simp: holds_def validate_records_def res_simps)

lemma holds_snoc:
  assumes "holds H d rs" and pe: "plain (PyDict e)"
    and oid: "rs \<noteq> [] \<longrightarrow> dict_get (hd rs) ''operation_id'' = PyStr i"
    and u: "u = unsigned_fields (PyStr i) (length rs) (head_hash rs) m e"
    and rep: "is_repair_milestone (PyStr m) \<longrightarrow> valid_repair_record u"
  shows "holds H (d @ record_line (signed H u)) (rs @ [read_back H u])"
    and "py_eq (PyDict (read_back H u)) (PyDict (signed H u))"
proof -
  obtain st where st: "fold_res (validate_record_line H) (splitlines d) chain_start = Inr st"
      "chain_records st = rs" "chain_inv H st"
    using holds_state [OF assms(1)] .
  have "chain_operation_id st \<in> {PyNone, PyStr i}"
    using st oid by (cases rs) (auto simp: chain_inv_def)
  from accept_record_line [OF st(3) pe this, of u m] u rep st(2)
  have acc: "validate_record_line H (record_line (signed H u)) st =
    Inr \<lparr>chain_records = rs @ [read_back H u],
         chain_previous_hash = PyStr (H (json_text (PyDict u))), chain_operation_id = PyStr i\<rparr>"
    by simp
  have "closed_lines d" using assms(1) by (simp add: holds_def)
  then have "splitlines (d @ record_line (signed H u)) = splitlines d @ [record_line (signed H u)]"
    by (rule splitlines_record_line)
  then show "holds H (d @ record_line (signed H u)) (rs @ [read_back H u])"
    using acc st(1) by (simp add: holds_def closed_record_line validate_records_snoc)
  have hh: "plain (head_hash rs)"
    using st head_hash_str [of H rs] by (auto simp: chain_inv_def)
  have "plain (PyDict u)"
    unfolding u by (rule unsigned_fields_plain) (use hh pe in simp_all)
  then have "plain (PyDict (signed H u))"
    by (rule plain_signed) (simp add: u unsigned_fields_get)
  then show "py_eq (PyDict (read_back H u)) (PyDict (signed H u))" by (rule py_eq_read_back)
qed

lemma load_records_holds:
  "holds H d rs \<Longrightarrow> int (length d) \<le> MAX_JOURNAL_BYTES \<Longrightarrow> load_records H ws b d = (Inr rs, d)"
  by (simp add: holds_def load_records_def payload_from_fd_def split_complete_lines_closed)

lemma append_to_data_cases:
  assumes "holds H d rs" and "int (length d) \<le> MAX_JOURNAL_BYTES"
    and "append_to_data H ws ws' i m e en eh d = (res, d')"
  shows "(\<exists>u. u = unsigned_fields (PyStr i) (length rs) (head_hash rs) m e
        \<and> res = Inr (signed H u) \<and> d' = d @ record_line (signed H u)
        \<and> (rs \<noteq> [] \<longrightarrow> dict_get (hd rs) ''operation_id'' = PyStr i)
        \<and> (\<forall>n. en = Some n \<longrightarrow> n = int (length rs)))
    \<or> (\<exists>x t. res = Inl x \<and> d' = d @ t \<and> LF \<notin> set t)"
proof -
  define u where "u = unsigned_fields (PyStr i) (length rs) (head_hash rs) m e"
  have un: "unsigned_record H (PyStr i) (length rs) (head_hash rs) m e =
      (if serializable (PyDict u) then Inr (signed H u)
       else Inl (journal_error ''journal value is not canonical JSON: ''))"
    by (simp add: unsigned_record_def record_hash_def canonical_def json_dumps_def u_def signed_def Let_def
        del: serializable.simps)
  have rec: "append_record ws' (signed H u) d = (r, d'') \<Longrightarrow>
      r = Inr () \<and> d'' = d @ record_line (signed H u) \<or> (\<exists>x t. r = Inl x \<and> d'' = d @ t \<and> LF \<notin> set t)" for r d''
    using append_record_cases [of ws' "signed H u" d r d''] torn_record_line by blast
  have first: "dict_item (hd rs) ''operation_id'' = Inr v \<Longrightarrow> py_eq v (PyStr i) \<Longrightarrow>
      dict_get (hd rs) ''operation_id'' = PyStr i" for v
    by (auto simp: dict_item_def dict_get_def split: option.splits)
  note run = assms(3) [unfolded append_to_data_def load_records_holds [OF assms(1,2), of ws True] Let_def
      prod.case sum.case head_hash_def [symmetric] un]
  show ?thesis
  proof (cases "en \<noteq> None \<and> int (length rs) \<noteq> the en \<or> en \<noteq> None \<and> \<not> py_eq (head_hash rs)
      (case eh of None \<Rightarrow> PyNone | Some h \<Rightarrow> PyStr h)")
    case True
    with run have "(\<exists>x. res = Inl x) \<and> d' = d" by (auto split: if_splits)
    then show ?thesis by auto
  next
    case False
    show ?thesis
    proof (cases "if rs = [] then Inr (PyStr i) else dict_item (hd rs) ''operation_id''")
      case (Inl x)
      with run False have "res = Inl x \<and> d' = d" by auto
      then show ?thesis by auto
    next
      case (Inr v)
      show ?thesis
      proof (cases "py_eq v (PyStr i) \<and> serializable (PyDict u)")
        case True
        obtain r d'' where ar: "append_record ws' (signed H u) d = (r, d'')" by fastforce
        with run False Inr True have "res = map_sum id (\<lambda>_. signed H u) r" "d' = d''"
          by (auto simp del: serializable.simps split: sum.splits)
        with rec [OF ar] first [OF _ conjunct1 [OF True]] Inr False show ?thesis
          by (auto simp: u_def split: if_splits)
      next
        case False
        with run \<open>\<not> (_ \<or> _)\<close> Inr have "(\<exists>x. res = Inl x) \<and> d' = d"
          by (auto simp del: serializable.simps split: if_splits)
        then show ?thesis by auto
      qed
    qed
  qed
qed


lemma append_to_data_ok:
  assumes "holds H d rs" and "int (length d) \<le> MAX_JOURNAL_BYTES" and "plain (PyDict e)"
    and "\<not> is_repair_milestone (PyStr m)"
    and "append_to_data H ws ws' i m e en eh d = (Inr r, d')"
  obtains r' where "holds H d' (rs @ [r'])" "py_eq (PyDict r') (PyDict r)"
    "dict_get r' ''operation_id'' = PyStr i" "\<forall>n. en = Some n \<longrightarrow> n = int (length rs)"
    "d' = d @ record_line r" "dict_get r' ''milestone'' = PyStr m" "dict_get r' ''evidence'' = sort_dicts (PyDict e)"
proof -
  from append_to_data_cases [OF assms(1,2,5)] obtain u where
    u: "u = unsigned_fields (PyStr i) (length rs) (head_hash rs) m e"
    and r: "r = signed H u" "d' = d @ record_line (signed H u)"
    and oid: "rs \<noteq> [] \<longrightarrow> dict_get (hd rs) ''operation_id'' = PyStr i" "\<forall>n. en = Some n \<longrightarrow> n = int (length rs)"
    by auto
  note get = unsigned_fields_get [of "PyStr i" "length rs" "head_hash rs" m e, folded u]
  have rb: "dict_get (read_back H u) k = sort_dicts (dict_get u k)" if "dict_has u k" for k
    using get(7) that by (simp add: read_back_def dict_get_append dict_get_sorted_items dict_has_sorted_items)
  have "dict_has u ''operation_id''" "dict_has u ''milestone''" "dict_has u ''evidence''"
    by (simp_all add: u unsigned_fields_def dict_has_def)
  then have "dict_get (read_back H u) ''operation_id'' = PyStr i" "dict_get (read_back H u) ''milestone'' = PyStr m"
    "dict_get (read_back H u) ''evidence'' = sort_dicts (PyDict e)"
    using rb get by simp_all
  with holds_snoc [OF assms(1,3) oid(1) u] assms(4) r oid(2) show ?thesis
    by (intro that [of "read_back H u"]) auto
qed

section \<open>Torn tails\<close>

lemma repair_evidence_valid:
  "0 < n \<Longrightarrow> 0 < k \<Longrightarrow>
   valid_repair_record (unsigned_fields i k h m [(KStr ''truncated_bytes'', PyInt (int n))])"
  by (simp add: valid_repair_record_def unsigned_fields_def Let_def py_simps dict_keys_are_iff)

text \<open>Whatever unterminated rest follows the complete lines, a repairing read keeps the records.\<close>

lemma load_records_torn:
  assumes "holds H d rs" and "rs \<noteq> []" and "dict_get (hd rs) ''operation_id'' = PyStr i"
    and "LF \<notin> set t" and "t \<noteq> []" and "int (length (d @ t)) \<le> MAX_JOURNAL_BYTES"
  obtains r r' d'' where "load_records H [] True (d @ t) = (Inr (rs @ [r]), d'')"
    "holds H d'' (rs @ [r'])" "py_eq (PyDict r') (PyDict r)" "d'' = d @ record_line r"
    "dict_get r ''milestone'' = PyStr REPAIR_MILESTONE"
    "dict_get r ''evidence'' = PyDict [(KStr ''truncated_bytes'', PyInt (int (length t)))]"
proof -
  let ?e = "[(KStr ''truncated_bytes'', PyInt (int (length t)))]"
  define u where "u = unsigned_fields (PyStr i) (length rs) (head_hash rs) REPAIR_MILESTONE ?e"
  have d: "closed_lines d" "validate_records H (splitlines d) = Inr rs"
    using assms(1) by (simp_all add: holds_def)
  have pe: "plain (PyDict ?e)" by simp
  obtain st where "chain_records st = rs" "chain_inv H st" using holds_state [OF assms(1)] .
  then have hh: "plain (head_hash rs)"
    using head_hash_str [of H rs] by (auto simp: chain_inv_def)
  have pu: "plain (PyDict u)" unfolding u_def by (rule unsigned_fields_plain) (use hh in simp_all)
  have un: "unsigned_record H (PyStr i) (length rs) (dict_get (last rs) ''record_hash'') REPAIR_MILESTONE ?e =
      Inr (signed H u)"
    using unsigned_record_eq pu assms(2) by (auto simp: u_def head_hash_def)
  have "plain (PyDict (signed H u))"
    using pu by (rule plain_signed) (simp add: u_def unsigned_fields_get)
  then have ser: "serializable (PyDict (signed H u))" by (rule plain_serializable)
  have item: "dict_item (hd rs) ''operation_id'' = Inr (PyStr i)"
    using assms(3) by (auto simp: dict_item_def dict_get_def split: option.splits)
  have cut: "take (length (concat (splitlines d))) (d @ t) = d" by (simp add: concat_splitlines)
  have run: "load_records H [] True (d @ t) = (Inr (rs @ [signed H u]), d @ record_line (signed H u))"
    using split_complete_lines_torn [OF d(1) assms(4,5)] assms(2,5,6) d(2) un item cut ser
    by (simp add: load_records_def payload_from_fd_def repair_torn_tail_def append_record_eq Let_def
        del: serializable.simps)
  have rep: "is_repair_milestone (PyStr REPAIR_MILESTONE) \<longrightarrow> valid_repair_record u"
    unfolding u_def using assms(2,5) by (intro impI repair_evidence_valid) simp_all
  note snoc = holds_snoc [OF assms(1) pe _ u_def rep]
  show ?thesis
    by (rule that [OF run snoc(1) snoc(2) refl])
      (use assms(3) in \<open>simp_all add: signed_def u_def unsigned_fields_def\<close>)
qed


section \<open>What the head hash determines\<close>

lemma record_text_eq:
  assumes "plain (PyDict r)" and "plain (PyDict s)" and "record_text r = record_text s"
  shows "sorted_items (dict_without r ''record_hash'') = sorted_items (dict_without s ''record_hash'')"
proof -
  have p: "plain (PyDict (dict_without r k))" if "plain (PyDict r)" for r k
    using that by (induction r) (auto simp: dict_without_def)
  have "json_text (PyDict (dict_without r ''record_hash'')) = json_text (PyDict (dict_without s ''record_hash''))"
    using assms(3) by (simp add: record_text_def)
  from json.enc_inj [OF p [OF assms(1)] p [OF assms(2)] this]
  show ?thesis by (simp add: sort_dicts_PyDict)
qed

lemma distinct_dict_without: "distinct (map fst d) \<Longrightarrow> distinct (map fst (dict_without d k))"
  by (simp add: dict_without_def distinct_map inj_on_def)

lemma record_text_fields:
  assumes "plain (PyDict r)" and "plain (PyDict s)" and "record_text r = record_text s" and "k \<noteq> ''record_hash''"
  shows "eq_form (dict_get r k) = eq_form (dict_get s k)"
proof -
  have "distinct (map fst (dict_without d k'))" if "plain (PyDict d)" for d k'
    using that by (intro distinct_dict_without) simp
  note d = this [OF assms(1), of "''record_hash''"] this [OF assms(2), of "''record_hash''"]
  have "sort_dicts (dict_get r k) = sort_dicts (dict_get s k)"
    using arg_cong [where f = "\<lambda>d. dict_get d k", OF record_text_eq [OF assms(1,2,3)]] assms(4)
    by (simp add: dict_get_sorted_items d dict_get_without)
  from arg_cong [where f = eq_form, OF this] show ?thesis by simp
qed

text \<open>Two records that hash alike through an injective \<open>H\<close> agree on everything else.\<close>

lemma chained_record_same:
  assumes c: "chained_record H i p r" "chained_record H j q s" and pl: "plain (PyDict r)" "plain (PyDict s)"
    and h: "dict_get r ''record_hash'' = dict_get s ''record_hash''" and inj: "inj_on H T"
    and T: "record_text r \<in> T" "record_text s \<in> T"
    and str: "p = PyNone \<or> (\<exists>h. p = PyStr h)" "q = PyNone \<or> (\<exists>h. q = PyStr h)"
  shows "i = j" and "p = q" and "sorted_items r = sorted_items s"
proof -
  have te: "record_text r = record_text s"
    using c h inj T by (auto simp: chained_record_def dest: inj_onD)
  note f = record_text_fields [OF pl te]
  show "i = j"
    using f [of "''sequence''"] c by (simp add: chained_record_def py_eq_def)
  show "p = q"
    using f [of "''previous_hash''"] c str by (auto simp: chained_record_def)
  have d: "distinct (map fst r)" "distinct (map fst s)" using pl by simp_all
  have "map_of (sorted_items r) x = map_of (sorted_items s) x" for x
  proof (cases "x = KStr ''record_hash''")
    case True
    have "map_of r x = Some (dict_get r ''record_hash'')" "map_of s x = Some (dict_get s ''record_hash'')"
      using c True by (auto simp: chained_record_def dict_get_def split: option.splits)
    with h show ?thesis by (simp add: map_of_sorted_items d)
  next
    case False
    have w: "map_of (dict_without u ''record_hash'') x = map_of u x" for u
      using False by (induction u) (auto simp: dict_without_def)
    show ?thesis
      using arg_cong [where f = "\<lambda>d. map_of d x", OF record_text_eq [OF pl te]]
      by (simp add: map_of_sorted_items d distinct_dict_without w)
  qed
  then have m: "map_of (sorted_items r) = map_of (sorted_items s)" by blast
  have ds: "distinct (map fst (sorted_items u))" if "distinct (map fst u)" for u
    using that by (simp add: sorted_items_def distinct_map inj_on_def case_prod_unfold) metis
  have "set (sorted_items r) = set (sorted_items s)"
    using m map_of_inject_set [OF ds [OF d(1)] ds [OF d(2)]] by simp
  then have "sort_key fst (sorted_items r) = sort_key fst (sorted_items s)"
    by (intro sort_key_unique ds d)
  then show "sorted_items r = sorted_items s" by (simp add: sorted_items_def sort_dicts_idem_key)
qed

lemma head_hash_determines:
  assumes "chain_ok H rs" "chain_ok H ss" "list_all (\<lambda>r. plain (PyDict r)) (rs @ ss)"
    and "head_hash rs = head_hash ss" and "inj_on H (record_text ` set (rs @ ss))"
  shows "map sorted_items rs = map sorted_items ss"
  using assms
proof (induction rs arbitrary: ss rule: rev_induct)
  case Nil
  then show ?case using head_hash_str [of H ss] by (auto simp: head_hash_def)
next
  case (snoc r rs)
  obtain s ss' where ss: "ss = ss' @ [s]"
    using snoc.prems by (cases ss rule: rev_cases) (auto simp: head_hash_def chain_ok_snoc chained_record_def)
  have c: "chained_record H (length rs) (head_hash rs) r" "chained_record H (length ss') (head_hash ss') s"
    "chain_ok H rs" "chain_ok H ss'" using snoc.prems ss by (simp_all add: chain_ok_snoc)
  have str: "head_hash xs = PyNone \<or> (\<exists>h. head_hash xs = PyStr h)" if "chain_ok H xs" for xs
    using head_hash_str [OF that] by auto
  have "dict_get r ''record_hash'' = dict_get s ''record_hash''"
    using snoc.prems(4) ss by (simp add: head_hash_def)
  note same = chained_record_same [OF c(1,2) _ _ this snoc.prems(5) _ _ str [OF c(3)] str [OF c(4)]]
  have "head_hash rs = head_hash ss'" "sorted_items r = sorted_items s"
    using same snoc.prems(3) ss by (auto simp: list_all_iff)
  moreover have "inj_on H (record_text ` set (rs @ ss'))"
    using snoc.prems(5) ss by (rule_tac inj_on_subset) auto
  ultimately show ?case using snoc.IH [of ss'] c snoc.prems(3) ss by simp
qed

end
