(* ===== verification/Journal_Theorems.thy ===== *)
theory Journal_Theorems
  imports Journal_Facts
begin

text \<open>
  The guarantees of the mutation journal at the level of its file: reading returns what was
  appended, an interrupted append loses no accepted record, guarded appends cannot both win,
  accepted journals are hash chains whose head fixes their whole content, evidence is free of
  secret-bearing keys, and an accepted baseline is internally consistent.
\<close>

section \<open>Lemmas on the file operations\<close>

definition file_data :: "journal_fs \<Rightarrow> string" where
  "file_data fs = (case fs_file fs of None \<Rightarrow> [] | Some f \<Rightarrow> jf_data f)"

lemma holds_Nil: "holds H [] []"
  by (simp add: holds_def closed_lines_def validate_records_def)

lemma fold_lines_length:
  "fold_res (validate_record_line H) ls st = Inr st' \<Longrightarrow>
   length (chain_records st') = length (chain_records st) + length ls"
proof (induction ls arbitrary: st)
  case (Cons l ls)
  then show ?case
    by (cases "validate_record_line H l st") (auto dest: validate_record_line_length)
qed simp

lemma holds_length: "holds H d rs \<Longrightarrow> length (splitlines d) = length rs"
  by (auto simp: holds_def validate_records_def res_simps dest!: fold_lines_length)

lemma read_journal_holds:
  assumes "open_private fs = Inr f" and "holds H (jf_data f) rs" and "length rs \<le> 4096"
  shows "read_journal H ws fs = (Inr rs, fs)"
proof -
  have "int (length (jf_data f)) \<le> MAX_JOURNAL_BYTES"
    using assms(1) by (auto simp: open_private_def split: option.splits if_splits)
  then show ?thesis
    using assms holds_length [OF assms(2)]
    by (auto simp: read_journal_def payload_from_fd_def holds_def split_complete_lines_closed)
qed

text \<open>What a call of \<^verbatim>\<open>append\<close> amounts to: it fails before it touches the bytes, or it runs on them.\<close>

lemma journal_append_cases:
  assumes "journal_append H ws ws' i m e x en eh fs = (res, fs')"
  obtains (refused) y where "res = Inl y" "file_data fs' = file_data fs"
      "\<And>f. fs_file fs = Some f \<Longrightarrow> fs_file fs' = Some f"
  | (ran) f where "append_checks i m e en eh = Inr ()"
      "append_to_data H ws ws' i m e en eh (file_data fs) = (res, file_data fs')"
      "fs_file fs' = Some f" "jf_kind f = RegularFile" "jf_owned f" "jf_nlink f = 1" "jf_private f"
      "jf_data f = file_data fs'" "fs_parent fs' = ParentDir True True"
proof -
  consider y where "append_checks i m e en eh = Inl y" | "append_checks i m e en eh = Inr ()"
    by (cases "append_checks i m e en eh") auto
  then show ?thesis
  proof cases
    case 1
    with assms show ?thesis by (intro refused [of y]) (auto simp: journal_append_def)
  next
    case 2
    let ?fs1 = "mkdir_parent fs"
    have fd: "file_data ?fs1 = file_data fs" "fs_file ?fs1 = fs_file fs"
      by (simp_all add: mkdir_parent_def file_data_def)
    show ?thesis
    proof (cases "fs_parent fs = ParentNotDir \<or> \<not> parent_owned (fs_parent ?fs1) \<or> \<not> parent_private (fs_parent ?fs1)")
      case True
      with assms 2 obtain y where "res = Inl y" "fs' = fs \<or> fs' = ?fs1"
        by (auto simp: journal_append_def Let_def split: if_splits)
      with fd show ?thesis by (intro refused [of y]) auto
    next
      case False
      then have par: "fs_parent ?fs1 = ParentDir True True"
        by (cases "fs_parent fs") (auto simp: mkdir_parent_def)
      show ?thesis
      proof (cases "open_for_append x ?fs1")
        case (Inl y)
        with assms 2 False fd show ?thesis by (intro refused [of y]) (auto simp: journal_append_def Let_def)
      next
        case (Inr f)
        have f: "jf_data f = file_data fs" "\<And>g. fs_file fs = Some g \<Longrightarrow> f = g"
          using Inr fd(2) by (auto simp: open_for_append_def file_data_def split: option.splits if_splits file_kind.splits)
        show ?thesis
        proof (cases "jf_kind f \<noteq> RegularFile \<or> \<not> jf_owned f \<or> jf_nlink f \<noteq> 1")
          case True
          with assms 2 False Inr obtain y where "res = Inl y" "fs' = ?fs1\<lparr>fs_file := Some f\<rparr>"
            by (auto simp: journal_append_def Let_def)
          with f show ?thesis by (intro refused [of y]) (auto simp: file_data_def)
        next
          case unsafe: False
          obtain r d where run: "append_to_data H ws ws' i m e en eh (jf_data f) = (r, d)" by fastforce
          with assms 2 False Inr unsafe have "res = r" "fs' = ?fs1\<lparr>fs_file := Some (f\<lparr>jf_private := True, jf_data := d\<rparr>)\<rparr>"
            by (simp_all add: journal_append_def Let_def)
          with 2 run f unsafe par show ?thesis
            by (intro ran [of "f\<lparr>jf_private := True, jf_data := d\<rparr>"]) (simp_all add: file_data_def)
        qed
      qed
    qed
  qed
qed


lemma open_private_after_append:
  assumes "fs_file fs = Some f" "jf_kind f = RegularFile" "jf_owned f" "jf_nlink f = 1" "jf_private f"
    and "int (length (jf_data f)) \<le> MAX_JOURNAL_BYTES"
  shows "open_private fs = Inr f"
  using assms by (simp add: open_private_def)

lemma append_checks_not_repair:
  "append_checks i m e en eh = Inr () \<Longrightarrow> \<not> is_repair_milestone (PyStr m)"
  by (auto simp: append_checks_def split: if_splits)

lemma append_after:
  assumes "holds H (file_data fs) rs" and "int (length (file_data fs)) \<le> MAX_JOURNAL_BYTES" and "plain (PyDict e)"
    and "journal_append H ws ws' i m e x en eh fs = (Inr r, fs')"
  obtains r' f where "holds H (file_data fs') (rs @ [r'])" "py_eq (PyDict r') (PyDict r)"
    "\<forall>n. en = Some n \<longrightarrow> n = int (length rs)" "fs_file fs' = Some f" "jf_kind f = RegularFile"
    "jf_owned f" "jf_nlink f = 1" "jf_private f" "jf_data f = file_data fs'"
    "fs_parent fs' = ParentDir True True" "dict_get r' ''operation_id'' = PyStr i"
    "dict_get r' ''milestone'' = PyStr m" "dict_get r' ''evidence'' = sort_dicts (PyDict e)"
  using assms(4)
proof (cases rule: journal_append_cases)
  case (ran f)
  from append_to_data_ok [OF assms(1-3) append_checks_not_repair [OF ran(1)] ran(2)]
  obtain r' where "holds H (file_data fs') (rs @ [r'])" "py_eq (PyDict r') (PyDict r)"
    "dict_get r' ''operation_id'' = PyStr i" "\<forall>n. en = Some n \<longrightarrow> n = int (length rs)"
    "dict_get r' ''milestone'' = PyStr m" "dict_get r' ''evidence'' = sort_dicts (PyDict e)" .
  with ran that [of r' f] show ?thesis by simp
qed simp

text \<open>An append that passes its checks, finds its guard and is not interrupted succeeds.\<close>

lemma append_to_data_succeeds:
  assumes "holds H d rs" and "int (length d) \<le> MAX_JOURNAL_BYTES" and "plain (PyDict e)"
    and "rs \<noteq> [] \<longrightarrow> dict_get (hd rs) ''operation_id'' = PyStr i"
    and "en = None \<or> en = Some (int (length rs)) \<and> head_hash rs = (case eh of None \<Rightarrow> PyNone | Some h \<Rightarrow> PyStr h)"
    and u: "u = unsigned_fields (PyStr i) (length rs) (head_hash rs) m e"
  shows "append_to_data H ws [] i m e en eh d = (Inr (signed H u), d @ record_line (signed H u))"
proof -
  obtain st where "chain_records st = rs" "chain_inv H st" using holds_state [OF assms(1)] .
  then have hh: "plain (head_hash rs)" using head_hash_str [of H rs] by (auto simp: chain_inv_def)
  have pu: "plain (PyDict u)" unfolding u by (rule unsigned_fields_plain) (use hh assms(3) in simp_all)
  then have un: "unsigned_record H (PyStr i) (length rs) (head_hash rs) m e = Inr (signed H u)"
    unfolding u by (rule unsigned_record_eq)
  have "plain (PyDict (signed H u))" using pu by (rule plain_signed) (simp add: u unsigned_fields_get)
  then have ser: "serializable (PyDict (signed H u))" by (rule plain_serializable)
  have first: "rs \<noteq> [] \<longrightarrow> dict_item (hd rs) ''operation_id'' = Inr (PyStr i)"
    using assms(4) by (auto simp: dict_item_def dict_get_def split: option.splits)
  show ?thesis
    using load_records_holds [OF assms(1,2), of ws True] assms(5) un ser first
    by (auto simp: append_to_data_def Let_def head_hash_def [symmetric] append_record_eq simp del: serializable.simps)
qed

lemma journal_append_succeeds:
  assumes "open_private fs = Inr f" and "fs_parent fs = ParentDir True True" and "holds H (jf_data f) rs"
    and "append_checks i m e en eh = Inr ()" and "plain (PyDict e)"
    and "rs \<noteq> [] \<longrightarrow> dict_get (hd rs) ''operation_id'' = PyStr i"
    and "en = None \<or> en = Some (int (length rs)) \<and> head_hash rs = (case eh of None \<Rightarrow> PyNone | Some h \<Rightarrow> PyStr h)"
    and "u = unsigned_fields (PyStr i) (length rs) (head_hash rs) m e"
  shows "journal_append H ws [] i m e False en eh fs =
    (Inr (signed H u), fs\<lparr>fs_file := Some (f\<lparr>jf_data := jf_data f @ record_line (signed H u)\<rparr>)\<rparr>)"
proof -
  have f: "fs_file fs = Some f" "jf_kind f = RegularFile" "jf_owned f" "jf_nlink f = 1" "jf_private f"
    "int (length (jf_data f)) \<le> MAX_JOURNAL_BYTES"
    using assms(1) by (auto simp: open_private_def split: option.splits if_splits)
  have same: "f\<lparr>jf_private := True, jf_data := x\<rparr> = f\<lparr>jf_data := x\<rparr>" for x using f(5) by (cases f) simp
  show ?thesis
    using append_to_data_succeeds [OF assms(3) f(6) assms(5-8), of ws] f assms(2,4)
    by (simp add: journal_append_def mkdir_parent_def open_for_append_def Let_def same)
qed

section \<open>Properties\<close>


text \<open>
  C2: an interrupted append to a journal that holds a record loses nothing. (A torn first record is not repaired: there the
  code stays closed.) Whatever a failed \<^verbatim>\<open>append\<close> left in the file (any prefix
  of the new line, through any sequence of short and failing \<^verbatim>\<open>os.write\<close> calls), the next \<^verbatim>\<open>read\<close>
  returns every earlier record, followed at most by one repair record, and leaves a file without
  a torn tail that holds them.
\<close>

theorem interrupted_append_recovers:
  assumes "open_private fs = Inr f" and "holds H (jf_data f) rs" and "rs \<noteq> []" and "length rs < 4096"
    and "dict_get (hd rs) ''operation_id'' = PyStr j"
    and "journal_append H ws ws' i m e x en eh fs = (Inl y, fs')"
    and "int (length (file_data fs')) \<le> MAX_JOURNAL_BYTES"
  shows "\<exists>tail tail' fs''. read_journal H [] fs' = (Inr (rs @ tail), fs'')
    \<and> holds H (file_data fs'') (rs @ tail') \<and> length tail \<le> 1
    \<and> list_all2 (\<lambda>r r'. py_eq (PyDict r') (PyDict r)) tail tail'
    \<and> (\<forall>r \<in> set tail. dict_get r ''milestone'' = PyStr REPAIR_MILESTONE)"
proof -
  have fs: "fs_file fs = Some f" "jf_kind f = RegularFile" "jf_owned f" "jf_nlink f = 1" "jf_private f"
    "int (length (jf_data f)) \<le> MAX_JOURNAL_BYTES" "file_data fs = jf_data f"
    using assms(1) by (auto simp: open_private_def file_data_def split: option.splits if_splits)
  from assms(6) obtain t g where t: "file_data fs' = jf_data f @ t" "LF \<notin> set t"
    and g: "open_private fs' = Inr g" "jf_data g = file_data fs'" "fs_file fs' = Some g"
  proof (cases rule: journal_append_cases)
    case (refused z)
    have "open_private fs' = Inr f" using fs refused by (intro open_private_after_append) simp_all
    then show ?thesis using fs refused by (intro that [of "[]" f]) simp_all
  next
    case (ran g)
    obtain t where "file_data fs' = jf_data f @ t" "LF \<notin> set t"
      using append_to_data_cases [of H "jf_data f" rs] assms(2) fs ran(2) by fastforce
    moreover have "open_private fs' = Inr g" using ran assms(7) by (intro open_private_after_append) simp_all
    ultimately show ?thesis using ran by (intro that) simp_all
  qed
  show ?thesis
  proof (cases "t = []")
    case True
    with t g assms(2) have "holds H (jf_data g) rs" by simp
    then show ?thesis
      using read_journal_holds [OF g(1)] assms(4) g(2)
      by (intro exI [of _ "[]"] exI [of _ fs']) auto
  next
    case False
    from load_records_torn [OF assms(2,3,5) t(2) False] assms(7) t(1)
    obtain r r' d where ld: "load_records H [] True (jf_data g) = (Inr (rs @ [r]), d)"
      "holds H d (rs @ [r'])" "py_eq (PyDict r') (PyDict r)" "dict_get r ''milestone'' = PyStr REPAIR_MILESTONE"
      using g(2) by metis
    have cl: "closed_lines (jf_data f)" using assms(2) by (simp add: holds_def)
    let ?fs = "fs'\<lparr>fs_file := Some (g\<lparr>jf_data := d\<rparr>)\<rparr>"
    have "split_complete_lines (jf_data g) = (splitlines (jf_data f), t)"
      using split_complete_lines_torn [OF cl t(2) False] t(1) g(2) by simp
    then have "read_journal H [] fs' = (Inr (rs @ [r]), ?fs)"
      using g ld(1) assms(4,7) False holds_length [OF assms(2)]
      by (simp add: read_journal_def payload_from_fd_def repair_journal_def)
    with ld show ?thesis
      by (intro exI [of _ "[r]"] exI [of _ "[r']"] exI [of _ ?fs]) (simp add: file_data_def)
  qed
qed


lemma chain_ok_signed:
  assumes "chain_ok H rs"
  shows "chain_ok H (rs @ [signed H (unsigned_fields i (length rs) (head_hash rs) m e)])"
proof -
  let ?u = "unsigned_fields i (length rs) (head_hash rs) m e"
  have "dict_without (signed H ?u) ''record_hash'' = ?u"
    using unsigned_fields_get(8) [of i "length rs" "head_hash rs" m e]
    by (simp add: signed_def dict_without_def)
  then show ?thesis
    using assms by (simp add: chain_ok_snoc chained_record_def record_text_def)
      (simp add: signed_def unsigned_fields_def)
qed

lemma repair_chain_ok:
  assumes "repair_torn_tail H ws ls t d = (Inr rs, d')"
  shows "chain_ok H rs"
proof -
  from assms obtain rs0 r where rs0: "validate_records H ls = Inr rs0" "rs0 \<noteq> []" "rs = rs0 @ [r]"
    and r: "\<exists>i. unsigned_record H i (length rs0) (dict_get (last rs0) ''record_hash'') REPAIR_MILESTONE
        [(KStr ''truncated_bytes'', PyInt (int (length t)))] = Inr r"
    by (auto simp: repair_torn_tail_def Let_def res_simps split: sum.splits if_splits prod.splits)
  have "\<exists>i. r = signed H (unsigned_fields i (length rs0) (head_hash rs0) REPAIR_MILESTONE
        [(KStr ''truncated_bytes'', PyInt (int (length t)))])"
    using r rs0(2)
    by (auto simp: unsigned_record_def Let_def res_simps record_hash_def canonical_def json_dumps_def
        signed_def head_hash_def split: if_splits)
  with rs0 validate_records_inv [OF rs0(1)] show ?thesis by (auto intro: chain_ok_signed)
qed

text \<open>
  C3: whatever \<^verbatim>\<open>read\<close> returns is a hash chain: record \<open>i\<close> has sequence number \<open>i\<close>, the supported format,
  the digest of its own remaining fields as its hash and the hash of record \<open>i - 1\<close> as its previous
  hash, also when \<^verbatim>\<open>read\<close> had to repair a torn tail.
\<close>

theorem read_is_hash_chain:
  assumes "read_journal H ws fs = (Inr rs, fs')"
  shows "chain_ok H rs"
  using assms validate_records_inv
  by (auto simp: read_journal_def repair_journal_def load_records_def
      split: sum.splits prod.splits if_splits intro: repair_chain_ok)

text \<open>
  C16: the head fixes the history. Two sets of lines that are both accepted and end with the same
  record hash hold the same records (up to the order of members in a JSON object), provided the
  digest does not collide on the records involved.
\<close>

theorem head_hash_fixes_history:
  assumes "validate_records H ls = Inr rs" and "validate_records H ms = Inr ss"
    and "head_hash rs = head_hash ss" and "inj_on H (record_text ` set (rs @ ss))"
  shows "map sorted_items rs = map sorted_items ss"
  using assms validate_records_inv [OF assms(1)] validate_records_inv [OF assms(2)]
  by (intro head_hash_determines [of H]) auto

text \<open>
  Of several writers that observed the same record count, one wins. After a guarded \<^verbatim>\<open>append\<close>
  succeeded, every other \<^verbatim>\<open>append\<close> guarded by the same count fails and leaves the file as it is.
\<close>

theorem guarded_append_wins_once:
  assumes "holds H (file_data fs) rs" and "plain (PyDict e)"
    and "journal_append H ws ws' i m e x (Some n) eh fs = (Inr r, fs')"
    and "int (length (file_data fs)) \<le> MAX_JOURNAL_BYTES" and "int (length (file_data fs')) \<le> MAX_JOURNAL_BYTES"
  shows "\<exists>y. journal_append H vs vs' j m' e' x' (Some n) eh' fs' = (Inl y, fs')"
proof -
  from append_after [OF assms(1,4,2,3)] obtain r' f where
    h: "holds H (file_data fs') (rs @ [r'])" and n: "n = int (length rs)" and
    f: "fs_file fs' = Some f" "jf_kind f = RegularFile" "jf_private f" "jf_data f = file_data fs'"
      "fs_parent fs' = ParentDir True True"
    by blast
  have "f\<lparr>jf_private := True\<rparr> = f" using f(3) by (cases f) simp
  then have same: "fs'\<lparr>fs_file := Some (f\<lparr>jf_private := True, jf_data := file_data fs'\<rparr>)\<rparr> = fs'"
    "fs'\<lparr>fs_file := Some f\<rparr> = fs'"
    using f by (cases f; cases fs'; simp)+
  have "\<exists>y. append_to_data H vs vs' j m' e' (Some n) eh' (file_data fs') = (Inl y, file_data fs')"
    using load_records_holds [OF h assms(5), of vs True] n by (simp add: append_to_data_def Let_def)
  with same f show ?thesis
    by (cases "append_checks j m' e' (Some n) eh'")
      (auto simp: journal_append_def mkdir_parent_def open_for_append_def Let_def split: sum.splits)
qed

section \<open>Evidence\<close>

text \<open>\<open>inside v w\<close>: the value \<open>w\<close> is reached from \<open>v\<close> through members of dicts and items of lists.\<close>

inductive inside :: "pyval \<Rightarrow> pyval \<Rightarrow> bool" where
  inside_refl: "inside v v"
| inside_dict: "(k, c) \<in> set kvs \<Longrightarrow> inside c w \<Longrightarrow> inside (PyDict kvs) w"
| inside_list: "c \<in> set xs \<Longrightarrow> inside c w \<Longrightarrow> inside (PyList xs) w"

inductive_simps inside_simps:
  "inside (PyDict kvs) w" "inside (PyList xs) w" "inside PyNone w" "inside (PyBool b) w"
  "inside (PyInt n) w" "inside (PyStr t) w" "inside (PyBytes bs) w" "inside (PyByteArray bs) w"
  "inside (PyTuple ts) w"

text \<open>What the check demands of one reached value.\<close>

fun free_of_secrets :: "pyval \<Rightarrow> bool" where
  "free_of_secrets (PyDict kvs) = list_all (\<lambda>(k, c). \<exists>s. k = KStr s \<and> \<not> forbidden_key s) kvs"
| "free_of_secrets (PyBytes _) = False"
| "free_of_secrets (PyByteArray _) = False"
| "free_of_secrets _ = True"

lemma reject_key_iff: "reject_key k = Inr () \<longleftrightarrow> (\<exists>s. k = KStr s \<and> \<not> forbidden_key s)"
  by (cases k) auto

text \<open>
  C17: evidence is accepted exactly when no dict that is reached through dicts and lists has a key
  that is not a string or that may name secret material, and no raw bytes are reached.
\<close>

theorem reject_secrets_complete:
  "reject_secrets v = Inr () \<longleftrightarrow> (\<forall>w. inside v w \<longrightarrow> free_of_secrets w)"
proof (induction v)
  case (PyDict kvs)
  have "(\<forall>w. inside (PyDict kvs) w \<longrightarrow> free_of_secrets w) \<longleftrightarrow>
      free_of_secrets (PyDict kvs) \<and> (\<forall>(k, c) \<in> set kvs. \<forall>w. inside c w \<longrightarrow> free_of_secrets w)"
    by (simp only: inside_simps) blast
  also have "\<dots> \<longleftrightarrow> (\<forall>(k, c) \<in> set kvs. reject_key k = Inr () \<and> reject_secrets c = Inr ())"
    using PyDict.IH by (fastforce simp: list_all_iff reject_key_iff)
  also have "\<dots> \<longleftrightarrow> reject_secrets (PyDict kvs) = Inr ()"
    by (auto simp: all_ok_iff res_simps)
  finally show ?case ..
next
  case (PyList xs)
  then show ?case by (auto simp: inside_simps all_ok_iff)
qed (auto simp: inside_simps)


section \<open>Baseline\<close>

definition identity_key :: "pyval \<Rightarrow> int \<times> string" where
  "identity_key v = (int_of (dict_get (dict_of v) ''user_id''), lower (str_of (dict_get (dict_of v) ''uuid'')))"

lemma validate_identity_records_ok:
  "validate_identity_records a seen vs = Inr () \<Longrightarrow>
   distinct (map identity_key vs) \<and> identity_key ` set vs \<inter> set seen = {}
   \<and> list_all (\<lambda>v. py_eq (dict_get (dict_of v) ''user_id'') a
       \<and> canonical_uuid (str_of (dict_get (dict_of v) ''uuid''))) vs"
proof (induction vs arbitrary: seen)
  case (Cons v vs)
  let ?k = "identity_key v"
  from Cons.prems have step: "validate_identity_records a (?k # seen) vs = Inr ()" "?k \<notin> set seen"
    "py_eq (dict_get (dict_of v) ''user_id'') a" "canonical_uuid (str_of (dict_get (dict_of v) ''uuid''))"
    by (auto simp: Let_def res_simps identity_key_def require_uuid_def split: if_splits)
  from Cons.IH [OF step(1)] step(2-) show ?case by auto
qed simp

definition component_name :: "pyval \<Rightarrow> string" where
  "component_name v = str_of (dict_get (dict_of v) ''name'')"

lemma validate_host_components_ok:
  "validate_host_components uid seen vs = Inr () \<Longrightarrow>
   distinct (map component_name vs) \<and> component_name ` set vs \<inter> set seen = {}
   \<and> component_name ` set vs \<subseteq> {''master.cat'', ''biolockout.cat'', user_cat_name uid}"
proof (induction vs arbitrary: seen)
  case (Cons v vs)
  let ?n = "component_name v"
  from Cons.prems have step: "validate_host_components uid (?n # seen) vs = Inr ()" "?n \<notin> set seen"
    "?n \<in> {''master.cat'', ''biolockout.cat'', user_cat_name uid}"
    by (auto simp: Let_def res_simps component_name_def in_str_set_def py_simps split: if_splits)
  from Cons.IH [OF step(1)] step(2-) show ?case by auto
qed simp

text \<open>
  An accepted baseline is consistent. Its identities are pairwise different and belong to its
  Apple UID, the used capacity is their number and does not exceed the maximum, every host component
  is one of the three known files and named once, and the version 2 (Linux-native) baseline is empty.
\<close>

theorem baseline_consistent:
  assumes "validate_baseline v = Inr ()"
  defines "b \<equiv> dict_of v"
  defines "ids \<equiv> list_of (dict_get b ''identity_records'')"
    and "cap \<equiv> dict_of (dict_get b ''capacity'')"
    and "comps \<equiv> list_of (dict_get b ''host_components'')"
  shows "distinct (map identity_key ids)
    \<and> list_all (\<lambda>r. py_eq (dict_get (dict_of r) ''user_id'') (dict_get b ''apple_uid'')) ids
    \<and> int_of (dict_get cap ''used'') = int (length ids)
    \<and> int (length ids) \<le> int_of (dict_get cap ''maximum'')
    \<and> distinct (map component_name comps) \<and> length comps \<le> 3
    \<and> (dict_get b ''baseline_version'' = PyInt 2 \<longrightarrow> ids = [] \<and> comps = [])"
proof -
  note acc = assms(1) [unfolded validate_baseline_def Let_def res_simps]
  have "validate_identity_records (dict_get b ''apple_uid'') [] ids = Inr ()"
    "validate_capacity (dict_get b ''capacity'') (length ids) = Inr ()"
    "validate_host_components (int_of (dict_get b ''apple_uid'')) [] comps = Inr ()"
    "dict_get b ''baseline_version'' = PyInt 2 \<longrightarrow> ids = [] \<and> comps = []"
    using acc by (auto simp: b_def ids_def comps_def)
  note parts = this
  note comp = validate_host_components_ok [OF parts(3)]
  have "length comps = card (component_name ` set comps)"
    using comp by (metis distinct_card length_map set_map)
  also have "\<dots> \<le> card {''master.cat'', ''biolockout.cat'', user_cat_name (int_of (dict_get b ''apple_uid''))}"
    using comp by (intro card_mono) auto
  also have "\<dots> \<le> 3" by (simp add: card_insert_if)
  finally have "length comps \<le> 3" .
  moreover have "int_of (dict_get cap ''used'') = int (length ids)" "int (length ids) \<le> int_of (dict_get cap ''maximum'')"
    using parts(2) by (auto simp: validate_capacity_def Let_def res_simps cap_def split: if_splits)
  ultimately show ?thesis
    using validate_identity_records_ok [OF parts(1)] comp parts(4) by (auto simp: list_all_iff)
qed


section \<open>Witnesses\<close>

text \<open>A new journal, one appended record, and an append that is cut off after five bytes.\<close>

definition sample_hash :: "string \<Rightarrow> string" where
  "sample_hash t = take 6 (drop 2 t)"

definition sample_id :: string where
  "sample_id = ''11111111-2222-3333-4444-555555555555''"

definition no_journal :: journal_fs where
  "no_journal = \<lparr>fs_parent = NoParent, fs_file = None\<rparr>"

definition first_append :: "pydict res \<times> journal_fs" where
  "first_append = journal_append sample_hash [] [] sample_id ''STARTED'' [(KStr ''n'', PyInt 1)]
     False (Some 0) None no_journal"

definition first_record :: pydict where
  "first_record = projr (fst first_append)"

definition one_record :: journal_fs where
  "one_record = snd first_append"

definition one_read :: "pydict list" where
  "one_read = projr (validate_records sample_hash (splitlines (file_data one_record)))"

definition torn_append :: "pydict res \<times> journal_fs" where
  "torn_append = journal_append sample_hash [] [5, -1] sample_id ''STEP'' [] False None None one_record"

lemma isr_eq: "\<not> isl r \<Longrightarrow> r = Inr (projr r)"
  by (cases r) auto

lemma first_append_eq: "first_append = (Inr first_record, one_record)"
proof -
  have "\<not> isl (fst first_append)" by code_simp
  from isr_eq [OF this] show ?thesis by (simp add: first_record_def one_record_def prod_eq_iff)
qed

lemma no_journal_holds: "holds sample_hash (file_data no_journal) []"
  by (simp add: file_data_def no_journal_def holds_Nil)

lemma sample_sizes:
  "int (length (file_data no_journal)) \<le> MAX_JOURNAL_BYTES"
  "int (length (file_data one_record)) \<le> MAX_JOURNAL_BYTES"
  by code_simp+

lemma torn_append_run:
  "case torn_append of (r, fs) \<Rightarrow> isl r \<and> int (length (file_data fs)) \<le> MAX_JOURNAL_BYTES"
  by code_simp

lemma one_record_read:
  "holds sample_hash (file_data one_record) one_read" "length one_read = 1"
  "dict_get (hd one_read) ''operation_id'' = PyStr sample_id"
proof -
  obtain r where r: "holds sample_hash (file_data one_record) [r]" "dict_get r ''operation_id'' = PyStr sample_id"
    using append_after [OF no_journal_holds sample_sizes(1) _ first_append_eq [unfolded first_append_def]]
    by auto
  then have one: "one_read = [r]" by (simp add: one_read_def holds_def)
  show "holds sample_hash (file_data one_record) one_read" "length one_read = 1"
    "dict_get (hd one_read) ''operation_id'' = PyStr sample_id" unfolding one using r by simp_all
qed

lemma one_record_open:
  "open_private one_record = Inr (the (fs_file one_record))"
  "jf_data (the (fs_file one_record)) = file_data one_record"
  by code_simp+


theorem interrupted_append_recovers_witness:
  "\<exists>tail tail' fs''. read_journal sample_hash [] (snd torn_append) = (Inr (one_read @ tail), fs'')
    \<and> holds sample_hash (file_data fs'') (one_read @ tail') \<and> length tail \<le> 1
    \<and> list_all2 (\<lambda>r r'. py_eq (PyDict r') (PyDict r)) tail tail'
    \<and> (\<forall>r \<in> set tail. dict_get r ''milestone'' = PyStr REPAIR_MILESTONE)"
proof (rule interrupted_append_recovers)
  show "open_private one_record = Inr (the (fs_file one_record))" by (rule one_record_open)
  show "holds sample_hash (jf_data (the (fs_file one_record))) one_read"
    by (simp add: one_record_open one_record_read)
  show "one_read \<noteq> []" "length one_read < 4096" using one_record_read(2) by auto
  show "dict_get (hd one_read) ''operation_id'' = PyStr sample_id" by (rule one_record_read)
  have "isl (fst torn_append)" using torn_append_run by (simp add: case_prod_unfold)
  then show "journal_append sample_hash [] [5, -1] sample_id ''STEP'' [] False None None one_record =
      (Inl (projl (fst torn_append)), snd torn_append)"
    by (simp add: torn_append_def prod_eq_iff)
  show "int (length (file_data (snd torn_append))) \<le> MAX_JOURNAL_BYTES"
    using torn_append_run by (simp add: case_prod_unfold)
qed

theorem read_is_hash_chain_witness: "chain_ok sample_hash one_read"
proof (rule read_is_hash_chain)
  show "read_journal sample_hash [] one_record = (Inr one_read, one_record)"
    using read_journal_holds [OF one_record_open(1)] one_record_read by (simp add: one_record_open(2))
qed

text \<open>The same record written by another program: its members in the opposite order.\<close>

definition reversed_line :: string where
  "reversed_line = CHR ''{'' # join_comma (rev (map member_text (sort_key fst first_record))) @ ''}''"

definition reversed_read :: "pydict list" where
  "reversed_read = projr (validate_records sample_hash [reversed_line])"

lemma reversed_accepted: "\<not> isl (validate_records sample_hash [reversed_line])"
  by code_simp

lemma reversed_differs:
  "reversed_read \<noteq> one_read" "head_hash one_read = head_hash reversed_read" "map record_text one_read = map record_text reversed_read"
  by code_simp+

theorem head_hash_fixes_history_witness:
  "\<exists>rs ss. validate_records sample_hash (splitlines (file_data one_record)) = Inr rs
     \<and> validate_records sample_hash [reversed_line] = Inr ss \<and> rs \<noteq> ss \<and> map sorted_items rs = map sorted_items ss"
proof -
  have rs: "validate_records sample_hash (splitlines (file_data one_record)) = Inr one_read"
    using one_record_read(1) by (simp add: holds_def)
  have ss: "validate_records sample_hash [reversed_line] = Inr reversed_read"
    unfolding reversed_read_def by (rule isr_eq [OF reversed_accepted])
  obtain r where one: "one_read = [r]" using one_record_read(2) by (auto simp: length_Suc_conv)
  have "map record_text reversed_read = map record_text [r]" using reversed_differs(3) [symmetric] unfolding one .
  from arg_cong [OF this, of set] have "record_text ` set reversed_read = {record_text r}" by simp
  then have "record_text ` set (one_read @ reversed_read) = {record_text r}" unfolding one by (simp add: image_Un)
  then have "inj_on sample_hash (record_text ` set (one_read @ reversed_read))" by simp
  from head_hash_fixes_history [OF rs ss reversed_differs(2) this] rs ss reversed_differs(1) show ?thesis by auto
qed

theorem guarded_append_wins_once_witness:
  "\<exists>y. journal_append sample_hash [] [] sample_id ''OTHER'' [] False (Some 0) None one_record
     = (Inl y, one_record)"
  using guarded_append_wins_once [OF no_journal_holds _ first_append_eq [unfolded first_append_def] sample_sizes(1,2)]
  by simp

theorem reject_secrets_complete_witness:
  "reject_secrets (PyDict [(KStr ''steps'', PyList [PyDict [(KStr ''Admin-Password'', PyNone)]])]) \<noteq> Inr ()
   \<and> (\<exists>w. inside (PyDict [(KStr ''steps'', PyList [PyDict [(KStr ''Admin-Password'', PyNone)]])]) w
        \<and> \<not> free_of_secrets w)"
proof -
  have "reject_secrets (PyDict [(KStr ''steps'', PyList [PyDict [(KStr ''Admin-Password'', PyNone)]])]) \<noteq> Inr ()"
    by code_simp
  with reject_secrets_complete [of "PyDict [(KStr ''steps'', PyList [PyDict [(KStr ''Admin-Password'', PyNone)]])]"]
  show ?thesis by blast
qed

definition sample_uuid :: "char \<Rightarrow> pyval" where
  "sample_uuid c = PyStr (replicate 8 c @ ''-'' @ replicate 4 c @ ''-'' @ replicate 4 c @ ''-''
     @ replicate 4 c @ ''-'' @ replicate 12 c)"

definition sample_digest :: "char \<Rightarrow> pyval" where
  "sample_digest c = PyStr (replicate 64 c)"

definition sample_baseline :: pyval where
  "sample_baseline = PyDict [(KStr ''baseline_version'', PyInt 1), (KStr ''caller_linux_uid'', PyInt 1000),
     (KStr ''target_linux_uid'', PyInt 1000), (KStr ''apple_uid'', PyInt 501),
     (KStr ''account_uuid'', sample_uuid CHR ''a''), (KStr ''bag_uuid'', sample_uuid CHR ''b''),
     (KStr ''linux_boot_uuid'', sample_uuid CHR ''c''), (KStr ''connection_generation'', sample_uuid CHR ''d''),
     (KStr ''bridge_boot_uuid'', PyNone), (KStr ''protocol_version'', PyInt 2),
     (KStr ''policy_decision'', PyStr ''authorized''),
     (KStr ''identity_records'', PyList [PyDict [(KStr ''user_id'', PyInt 501),
        (KStr ''uuid'', sample_uuid CHR ''1''), (KStr ''entity'', PyInt 0)]]),
     (KStr ''capacity'', PyDict [(KStr ''used'', PyInt 1), (KStr ''maximum'', PyInt 5)]),
     (KStr ''sep_catacomb'', PyDict [(KStr ''present'', PyBool True), (KStr ''uuid'', sample_uuid CHR ''e''),
        (KStr ''hash'', sample_digest CHR ''0'')]),
     (KStr ''host_components'', PyList [PyDict [(KStr ''name'', PyStr ''master.cat''),
        (KStr ''sha256'', sample_digest CHR ''1''), (KStr ''mode'', PyInt 384), (KStr ''uid'', PyInt 0),
        (KStr ''gid'', PyInt 0)]]),
     (KStr ''master_enrollment_count'', PyInt 1), (KStr ''mapping_generation'', sample_digest CHR ''2''),
     (KStr ''backup_references'', PyList [PyDict [(KStr ''reference'', PyStr ''b''),
        (KStr ''sha256'', sample_digest CHR ''3'')]]),
     (KStr ''double_collection_equal'', PyBool True), (KStr ''password_fallback_verified'', PyBool True)]"

lemma sample_baseline_ok: "validate_baseline sample_baseline = Inr ()"
  by code_simp

theorem baseline_consistent_witness:
  "length (list_of (dict_get (dict_of sample_baseline) ''identity_records'')) = 1
   \<and> int_of (dict_get (dict_of (dict_get (dict_of sample_baseline) ''capacity'')) ''used'') = 1"
proof -
  have "length (list_of (dict_get (dict_of sample_baseline) ''identity_records'')) = 1" by code_simp
  with baseline_consistent [OF sample_baseline_ok] show ?thesis by simp
qed

end
