(* ===== verification/Typed_Journal.thy ===== *)
theory Typed_Journal
  imports Persistence_Facts Journal_Theorems
begin

text \<open>
  What the typed journals above the mutation journal share: they validate a first record, fold the
  other records into a state and skip the records that a torn-tail repair wrote. The locale states
  that contract and proves its consequences once; the enrollment, deletion and rename journals are
  its instances.
\<close>

section \<open>Shared notation of the readers\<close>

text \<open>A Python variable that holds a string or \<^verbatim>\<open>None\<close>.\<close>

definition opt_str :: "string option \<Rightarrow> pyval" where
  "opt_str x = (case x of None \<Rightarrow> PyNone | Some s \<Rightarrow> PyStr s)"

text \<open>\<^verbatim>\<open>for field in names: if evidence[field] is not True: raise\<close>\<close>

definition all_true :: "exc \<Rightarrow> pydict \<Rightarrow> string list \<Rightarrow> unit res" where
  "all_true e evidence names =
     all_ok (map (\<lambda>field. if dict_is_true evidence field then Inr () else Inl e) names)"

lemma all_true_iff [res_simps]: "all_true e ev fs = Inr u \<longleftrightarrow> list_all (dict_is_true ev) fs"
  by (auto simp: all_true_def all_ok_iff list_all_iff)

definition is_repair_record :: "pydict \<Rightarrow> bool" where
  "is_repair_record record = is_repair_milestone (dict_get record ''milestone'')"

section \<open>The contract\<close>

locale typed_journal =
  fixes start :: "pydict \<Rightarrow> 's res"
    and step :: "pydict \<Rightarrow> 's \<Rightarrow> 's res"
    and inv :: "'s \<Rightarrow> bool"
  assumes step_repair: "is_repair_record r \<Longrightarrow> step r s = Inr s"
    and start_inv: "start r = Inr s \<Longrightarrow> inv s"
    and step_inv: "step r s = Inr s' \<Longrightarrow> inv s \<Longrightarrow> inv s'"
begin

definition run :: "pydict list \<Rightarrow> 's res" where
  "run rs = (case rs of
     [] \<Rightarrow> Inl (journal_error ''journal is empty'')
   | r # rest \<Rightarrow> and_then (start r) (fold_res step rest))"

lemma run_snoc: "rs \<noteq> [] \<Longrightarrow> run (rs @ [r]) = and_then (run rs) (step r)"
proof (cases rs)
  case (Cons r0 rest)
  have one: "fold_res step [r] = step r"
  proof
    fix s
    show "fold_res step [r] s = step r s" by (cases "step r s") auto
  qed
  show ?thesis
    using Cons by (cases "start r0") (simp_all add: run_def fold_res_append one)
qed simp

text \<open>Every non-empty prefix of an accepted journal is accepted.\<close>

lemma run_prefix: "run (rs @ qs) = Inr s \<Longrightarrow> rs \<noteq> [] \<Longrightarrow> \<exists>s0. run rs = Inr s0 \<and> fold_res step qs s0 = Inr s"
  by (cases rs) (auto simp: run_def fold_res_append res_simps)

lemma run_inv: "run rs = Inr s \<Longrightarrow> inv s"
proof (cases rs)
  case (Cons r rest)
  assume "run rs = Inr s"
  with Cons obtain s0 where s0: "start r = Inr s0" "fold_res step rest s0 = Inr s"
    by (auto simp: run_def res_simps)
  show ?thesis
    by (rule fold_res_invariant [OF s0(2)]) (use start_inv [OF s0(1)] step_inv in blast)+
qed (simp add: run_def)

text \<open>Induction over an accepted journal, record by record, with the reached state at hand.\<close>

lemma run_induct [consumes 1, case_names start step]:
  assumes "run rs = Inr s"
    and "\<And>r s. start r = Inr s \<Longrightarrow> J [r] s"
    and "\<And>rs r s s'. run rs = Inr s \<Longrightarrow> inv s \<Longrightarrow> J rs s \<Longrightarrow> step r s = Inr s' \<Longrightarrow> J (rs @ [r]) s'"
  shows "J rs s"
  using assms(1)
proof (induction rs arbitrary: s rule: rev_induct)
  case Nil
  then show ?case by (simp add: run_def)
next
  case (snoc r rs)
  show ?case
  proof (cases "rs = []")
    case True
    with snoc.prems show ?thesis by (auto simp: run_def res_simps intro: assms(2))
  next
    case False
    with snoc.prems obtain s1 where s1: "run rs = Inr s1" "step r s1 = Inr s" by (auto simp: run_snoc res_simps)
    from assms(3) [OF s1(1) run_inv [OF s1(1)] snoc.IH [OF s1(1)] s1(2)] show ?thesis .
  qed
qed

text \<open>Repair records have no effect wherever they stand.\<close>

lemma fold_skips_repairs: "fold_res step rs s = fold_res step (filter (\<lambda>r. \<not> is_repair_record r) rs) s"
proof (induction rs arbitrary: s)
  case (Cons r rs)
  then show ?case by (cases "is_repair_record r"; cases "step r s") (auto simp: step_repair)
qed simp

lemma run_skips_repairs: "run (r # rs) = run (r # filter (\<lambda>q. \<not> is_repair_record q) rs)"
  by (cases "start r") (simp_all add: run_def fold_skips_repairs [of rs])

text \<open>A state that only certain records produce, and that was reached, has such a record behind it.\<close>

lemma produced_by:
  assumes "fold_res step rs s0 = Inr s" and "P s" and "\<not> P s0"
    and "\<And>r s s'. step r s = Inr s' \<Longrightarrow> P s' \<Longrightarrow> is_repair_record r \<or> Q r"
  shows "\<exists>as r bs. rs = as @ r # bs \<and> Q r \<and> \<not> is_repair_record r \<and> list_all is_repair_record bs"
  using assms(1,2)
proof (induction rs arbitrary: s rule: rev_induct)
  case Nil
  with assms(3) show ?case by simp
next
  case (snoc r rs)
  have one: "fold_res step [r] = step r"
  proof
    fix s
    show "fold_res step [r] s = step r s" by (cases "step r s") auto
  qed
  obtain s1 where s1: "fold_res step rs s0 = Inr s1" "step r s1 = Inr s"
    using snoc.prems(1) by (auto simp: fold_res_append res_simps one)
  show ?case
  proof (cases "is_repair_record r")
    case True
    with s1 snoc.prems(2) step_repair have "P s1" by simp
    from snoc.IH [OF s1(1) this] obtain as q bs where
      "rs = as @ q # bs" "Q q" "\<not> is_repair_record q" "list_all is_repair_record bs" by blast
    with True show ?thesis by (intro exI [of _ as] exI [of _ q] exI [of _ "bs @ [r]"]) simp
  next
    case False
    with assms(4) [OF s1(2) snoc.prems(2)] show ?thesis
      by (intro exI [of _ rs] exI [of _ r] exI [of _ "[]"]) simp
  qed
qed

text \<open>
  A record that is only accepted in certain states directly follows, but for repair records, a record
  of the kind that alone produces these states.
\<close>

lemma directly_after:
  assumes "run (qs @ r # bs) = Inr s" and "\<And>s0. start r \<noteq> Inr s0"
    and "\<And>s s'. step r s = Inr s' \<Longrightarrow> P s"
    and "\<And>r0 s0. start r0 = Inr s0 \<Longrightarrow> \<not> P s0"
    and "\<And>r s s'. step r s = Inr s' \<Longrightarrow> P s' \<Longrightarrow> is_repair_record r \<or> Q r"
  shows "\<exists>as q rs. qs = as @ q # rs \<and> Q q \<and> list_all is_repair_record rs"
proof (cases qs)
  case Nil
  with assms(1,2) show ?thesis by (auto simp: run_def res_simps)
next
  case (Cons q0 qs')
  with assms(1) obtain s0 s1 s2 where s0: "start q0 = Inr s0" and s1: "fold_res step qs' s0 = Inr s1"
    and s2: "step r s1 = Inr s2"
    by (auto simp: run_def res_simps fold_res_append)
  obtain as q rs where "qs' = as @ q # rs" "Q q" "list_all is_repair_record rs"
    using produced_by [where P = P and Q = Q, OF s1 assms(3) [OF s2] assms(4) [OF s0]] assms(5) by blast
  with Cons show ?thesis by (intro exI [of _ "q0 # as"] exI [of _ q] exI [of _ rs]) simp
qed

end


section \<open>Checked appends\<close>

text \<open>The record that is tried before it is written; its hash is a placeholder.\<close>

definition candidate_record :: "string \<Rightarrow> string \<Rightarrow> pydict \<Rightarrow> pydict" where
  "candidate_record operation_id milestone evidence =
     [(KStr ''operation_id'', PyStr operation_id), (KStr ''milestone'', PyStr milestone),
      (KStr ''evidence'', PyDict evidence), (KStr ''record_hash'', PyStr (replicate 64 CHR ''0''))]"

text \<open>
  The contract of \<^verbatim>\<open>append_checked\<close>: read, validate, compare the operation, validate the journal with
  the candidate, append guarded by the validated count and head, read and validate again.
\<close>

locale checked_append =
  fixes H :: "string \<Rightarrow> string"
    and validate :: "pydict list \<Rightarrow> 'h res"
    and operation_of :: "'h \<Rightarrow> string"
    and count_of :: "'h \<Rightarrow> int"
    and head_of :: "'h \<Rightarrow> string"
    and mismatch :: exc
    and append_checked :: "int list \<Rightarrow> int list \<Rightarrow> int list \<Rightarrow> int list \<Rightarrow> string \<Rightarrow> string \<Rightarrow> pydict \<Rightarrow>
      journal_fs \<Rightarrow> 'h res \<times> journal_fs"
  assumes append_checked_eq: "append_checked ws ws1 ws2 ws3 i m e fs =
     (case read_journal H ws fs of
        (Inl x, fs1) \<Rightarrow> (Inl x, fs1)
      | (Inr records, fs1) \<Rightarrow>
          case validate records of
            Inl x \<Rightarrow> (Inl x, fs1)
          | Inr current \<Rightarrow>
              if i \<noteq> operation_of current then (Inl mismatch, fs1)
              else case validate (records @ [candidate_record i m e]) of
                Inl x \<Rightarrow> (Inl x, fs1)
              | Inr _ \<Rightarrow>
                  (case journal_append H ws1 ws2 i m e False (Some (count_of current)) (Some (head_of current)) fs1 of
                     (Inl x, fs2) \<Rightarrow> (Inl x, fs2)
                   | (Inr _, fs2) \<Rightarrow>
                       (case read_journal H ws3 fs2 of (r, fs3) \<Rightarrow> (and_then r validate, fs3))))"
begin

text \<open>A milestone that does not validate is not written.\<close>

lemma rejected_not_written:
  assumes "open_private fs = Inr f" and "holds H (jf_data f) rs" and "length rs \<le> 4096"
    and "validate (rs @ [candidate_record i m e]) = Inl x"
  shows "\<exists>y. append_checked ws ws1 ws2 ws3 i m e fs = (Inl y, fs)"
proof (cases "validate rs")
  case (Inr current)
  then show ?thesis
    using read_journal_holds [OF assms(1-3), of ws] assms(4)
    by (cases "i = operation_of current") (simp_all add: append_checked_eq)
qed (use read_journal_holds [OF assms(1-3), of ws] in \<open>simp add: append_checked_eq\<close>)

text \<open>A success extends the journal by exactly the milestone and returns the history of the result.\<close>

lemma success_extends:
  assumes "open_private fs = Inr f" and "holds H (jf_data f) rs" and "length rs < 4096" and "plain (PyDict e)"
    and "append_checked ws ws1 ws2 ws3 i m e fs = (Inr h, fs')"
  shows "\<exists>r'. holds H (file_data fs') (rs @ [r']) \<and> dict_get r' ''milestone'' = PyStr m
    \<and> dict_get r' ''evidence'' = sort_dicts (PyDict e) \<and> validate (rs @ [r']) = Inr h
    \<and> (\<exists>h0. validate (rs @ [candidate_record i m e]) = Inr h0)"
proof -
  have f: "file_data fs = jf_data f" "int (length (jf_data f)) \<le> MAX_JOURNAL_BYTES"
    using assms(1) by (auto simp: open_private_def file_data_def split: option.splits if_splits)
  have rd: "read_journal H ws fs = (Inr rs, fs)" using assms(1-3) by (intro read_journal_holds) simp_all
  obtain current h0 r fs2 where c: "validate rs = Inr current" "validate (rs @ [candidate_record i m e]) = Inr h0"
    "journal_append H ws1 ws2 i m e False (Some (count_of current)) (Some (head_of current)) fs = (Inr r, fs2)"
    and fin: "(case read_journal H ws3 fs2 of (r, fs3) \<Rightarrow> (and_then r validate, fs3)) = (Inr h, fs')"
    using assms(5) unfolding append_checked_eq rd
    by (auto split: sum.splits if_splits prod.splits)
  have size: "int (length (file_data fs)) \<le> MAX_JOURNAL_BYTES" "holds H (file_data fs) rs" using f assms(2) by simp_all
  from append_after [OF size(2,1) assms(4) c(3)] obtain r' g where
    r': "holds H (file_data fs2) (rs @ [r'])" "dict_get r' ''milestone'' = PyStr m"
      "dict_get r' ''evidence'' = sort_dicts (PyDict e)"
    and g: "fs_file fs2 = Some g" "jf_kind g = RegularFile" "jf_owned g" "jf_nlink g = 1" "jf_private g"
      "jf_data g = file_data fs2" .
  have open2: "open_private fs2 = Inr g"
  proof (rule open_private_after_append [OF g(1-5)], rule ccontr)
    assume "\<not> int (length (jf_data g)) \<le> MAX_JOURNAL_BYTES"
    with g have "\<exists>x. open_private fs2 = Inl x" by (simp add: open_private_def)
    then have "\<exists>x. read_journal H ws3 fs2 = (Inl x, fs2)" by (auto simp: read_journal_def)
    with fin show False by auto
  qed
  have "read_journal H ws3 fs2 = (Inr (rs @ [r']), fs2)"
    using read_journal_holds [OF open2] r'(1) g(6) assms(3) by simp
  with fin have "fs' = fs2" "validate (rs @ [r']) = Inr h" by simp_all
  with r' c(2) show ?thesis by blast
qed

end

end
