(* ===== verification/Rename_Journal.thy ===== *)
theory Rename_Journal
  imports Typed_Journal
begin

text \<open>
  The journal of one identity rename, \<^verbatim>\<open>src/src/t2_identity_rename_journal.py\<close>: the new label is saved as one
  Catacomb transaction, reconciled and proved after a reboot; a recovery intent and its readback cover
  an interruption. The loop variables of \<^verbatim>\<open>validate_history\<close> are the record \<open>rename_state\<close>; a
  variable that holds an evidence value or \<^verbatim>\<open>None\<close> is a \<open>pyval\<close>.
\<close>

section \<open>State\<close>

datatype rename_phase =
    R_BASELINE | R_INTENT | R_ABORTED | R_PERSISTING | R_PERSISTENCE_READY | R_RECONCILED
  | R_POST_REBOOT_VERIFIED | R_OUTCOME_UNKNOWN

record rename_history =
  rh_operation_id :: string
  rh_phase :: rename_phase
  rh_baseline :: pydict
  rh_target_identity_uuid :: pyval
  rh_target_entity :: pyval
  rh_previous_name_sha256 :: pyval
  rh_new_name_sha256 :: pyval
  rh_persistence :: persistence_history
  rh_reconciled_snapshot_sha256 :: pyval
  rh_recovery_action :: pyval
  rh_record_count :: int
  rh_head_hash :: string

record rename_state =
  rs_operation_id :: string
  rs_baseline :: pydict
  rs_phase :: rename_phase
  rs_target_uuid :: pyval
  rs_target_entity :: pyval
  rs_old_name_hash :: pyval
  rs_new_name_hash :: pyval
  rs_reconciled_hash :: pyval
  rs_recovery_action :: pyval
  rs_persistence :: tracker

abbreviation rename_error :: "string \<Rightarrow> exc" where
  "rename_error \<equiv> Exc IdentityRenameJournalError"

section \<open>Field checks\<close>

definition r_exact :: "pyval \<Rightarrow> string list \<Rightarrow> pydict res" where
  "r_exact value keys =
     (if \<not> isinstance_dict value \<or> \<not> dict_keys_are (dict_of value) keys
      then Inl (rename_error ''evidence does not match its schema'')
      else Inr (dict_of value))"

definition r_sha256 :: "pyval \<Rightarrow> string \<Rightarrow> unit res" where
  "r_sha256 value field = rewrap JournalError IdentityRenameJournalError (require_sha256 value field)"

definition r_uuid :: "pyval \<Rightarrow> string \<Rightarrow> unit res" where
  "r_uuid value field = rewrap JournalError IdentityRenameJournalError (require_uuid value field)"

text \<open>\<^verbatim>\<open>for field in (...): _uuid(evidence[field], field)\<close>, and the same for digests.\<close>

definition r_uuids :: "pydict \<Rightarrow> string list \<Rightarrow> unit res" where
  "r_uuids evidence names = all_ok (map (\<lambda>field. r_uuid (dict_get evidence field) field) names)"

definition r_sha256s :: "pydict \<Rightarrow> string list \<Rightarrow> unit res" where
  "r_sha256s evidence names = all_ok (map (\<lambda>field. r_sha256 (dict_get evidence field) field) names)"

text \<open>\<^verbatim>\<open>evidence[k] == baseline[k]\<close>, and \<^verbatim>\<open>evidence["identity_count"] == len(baseline["identity_records"])\<close>\<close>

definition r_same :: "rename_state \<Rightarrow> pydict \<Rightarrow> string \<Rightarrow> bool" where
  "r_same s evidence k = py_eq (dict_get evidence k) (dict_get (rs_baseline s) k)"

definition r_count_same :: "rename_state \<Rightarrow> pydict \<Rightarrow> bool" where
  "r_count_same s evidence =
     py_eq (dict_get evidence ''identity_count'')
       (PyInt (int (length (list_of (dict_get (rs_baseline s) ''identity_records'')))))"

section \<open>Intent and abort\<close>

text \<open>\<^verbatim>\<open>matches\<close>: the baseline records with the identity and the entity of the evidence.\<close>

definition r_matches :: "pydict \<Rightarrow> pydict \<Rightarrow> pyval list" where
  "r_matches baseline evidence =
     filter (\<lambda>identity. py_eq (dict_get (dict_of identity) ''uuid'') (dict_get evidence ''identity_uuid'')
              \<and> py_eq (dict_get (dict_of identity) ''entity'') (dict_get evidence ''entity''))
       (list_of (dict_get baseline ''identity_records''))"

definition r_intent :: "pyval \<Rightarrow> rename_state \<Rightarrow> rename_state res" where
  "r_intent value s =
     (if rs_phase s \<noteq> R_BASELINE then Inl (rename_error ''rename intent is out of order'')
      else and_then (r_exact value [''connection_generation'', ''user_id'', ''identity_uuid'', ''entity'',
             ''previous_name_sha256'', ''new_name_sha256'', ''mapping_generation'']) (\<lambda>evidence.
      and_then (r_uuid (dict_get evidence ''identity_uuid'') ''identity UUID'') (\<lambda>_.
      and_then (r_sha256 (dict_get evidence ''previous_name_sha256'') ''previous name SHA-256'') (\<lambda>_.
      and_then (r_sha256 (dict_get evidence ''new_name_sha256'') ''new name SHA-256'') (\<lambda>_.
      and_then (r_sha256 (dict_get evidence ''mapping_generation'') ''mapping generation'') (\<lambda>_.
      let entity = dict_get evidence ''entity'' in
      if \<not> r_same s evidence ''connection_generation''
         \<or> \<not> py_eq (dict_get evidence ''user_id'') (dict_get (rs_baseline s) ''apple_uid'')
         \<or> \<not> r_same s evidence ''mapping_generation''
         \<or> \<not> isinstance_int entity \<or> type_is_bool entity \<or> int_of entity < 0
         \<or> py_eq (dict_get evidence ''previous_name_sha256'') (dict_get evidence ''new_name_sha256'')
      then Inl (rename_error ''rename intent binding is invalid'')
      else if length (r_matches (rs_baseline s) evidence) \<noteq> 1
      then Inl (rename_error ''rename target is not in the baseline'')
      else Inr (s\<lparr>rs_target_uuid := dict_get evidence ''identity_uuid'', rs_target_entity := entity,
             rs_old_name_hash := dict_get evidence ''previous_name_sha256'',
             rs_new_name_hash := dict_get evidence ''new_name_sha256'', rs_phase := R_INTENT\<rparr>)))))))"

definition r_aborted :: "pyval \<Rightarrow> rename_state \<Rightarrow> rename_state res" where
  "r_aborted value s =
     (if rs_phase s \<noteq> R_PERSISTING \<or> pt_phase (rs_persistence s) \<noteq> P_COMPONENT_READY
      then Inl (rename_error ''rename abort is out of order'')
      else and_then (r_exact value [''reason'', ''mutation_possible'']) (\<lambda>evidence.
      if \<not> py_eq (dict_get evidence ''reason'') (PyStr ''host-store-unavailable'')
         \<or> dict_get evidence ''mutation_possible'' \<noteq> PyBool False
      then Inl (rename_error ''rename abort evidence is invalid'')
      else Inr (s\<lparr>rs_phase := R_ABORTED\<rparr>)))"

section \<open>Persistence and reconciliation\<close>

definition r_catacomb :: "(string \<Rightarrow> string) \<Rightarrow> pyval \<Rightarrow> pyval \<Rightarrow> rename_state \<Rightarrow> rename_state res" where
  "r_catacomb H milestone value s =
     (if rs_phase s \<notin> {R_INTENT, R_PERSISTING}
      then Inl (rename_error ''rename persistence is out of order'')
      else and_then (rewrap PersistenceJournalError IdentityRenameJournalError
             (consume H False milestone value (rs_persistence s))) (\<lambda>(_, persistence).
      Inr (s\<lparr>rs_persistence := persistence, rs_phase :=
             (if pt_phase persistence = P_COMPLETE then R_PERSISTENCE_READY
              else if pt_phase persistence = P_OUTCOME_UNKNOWN then R_OUTCOME_UNKNOWN
              else R_PERSISTING)\<rparr>)))"

definition r_reconciled :: "pyval \<Rightarrow> rename_state \<Rightarrow> rename_state res" where
  "r_reconciled value s =
     (if rs_phase s \<noteq> R_PERSISTENCE_READY then Inl (rename_error ''rename reconciliation is out of order'')
      else and_then (r_exact value [''connection_generation'', ''identity_uuid'', ''new_name_sha256'',
             ''snapshot_sha256'', ''mapping_generation'', ''identity_count'', ''identity_set_unchanged'',
             ''label_updated'', ''local_live_equal'']) (\<lambda>evidence.
      and_then (r_uuid (dict_get evidence ''identity_uuid'') ''identity UUID'') (\<lambda>_.
      and_then (r_sha256s evidence [''new_name_sha256'', ''snapshot_sha256'', ''mapping_generation'']) (\<lambda>_.
      if \<not> r_same s evidence ''connection_generation''
         \<or> \<not> py_eq (dict_get evidence ''identity_uuid'') (rs_target_uuid s)
         \<or> \<not> py_eq (dict_get evidence ''new_name_sha256'') (rs_new_name_hash s)
         \<or> \<not> r_same s evidence ''mapping_generation''
         \<or> \<not> r_count_same s evidence
         \<or> \<not> list_all (dict_is_true evidence) [''identity_set_unchanged'', ''label_updated'', ''local_live_equal'']
      then Inl (rename_error ''rename reconciliation is invalid'')
      else Inr (s\<lparr>rs_reconciled_hash := dict_get evidence ''snapshot_sha256'', rs_phase := R_RECONCILED\<rparr>)))))"

section \<open>Recovery and proof\<close>

definition r_recovery_intent :: "pyval \<Rightarrow> rename_state \<Rightarrow> rename_state res" where
  "r_recovery_intent value s =
     (if rs_phase s \<notin> {R_INTENT, R_PERSISTING, R_PERSISTENCE_READY, R_OUTCOME_UNKNOWN}
         \<or> rs_recovery_action s \<noteq> PyNone
      then Inl (rename_error ''rename recovery intent is out of order'')
      else and_then (r_exact value [''action'', ''mapping_generation'', ''host_commit_possible'',
             ''mutation_possible'']) (\<lambda>evidence.
      let action = dict_get evidence ''action'' in
      and_then (in_str_set action [''prepare-discarded'', ''commit-rolled-forward'', ''no-local-transaction'']) (\<lambda>known.
      if \<not> known then Inl (rename_error ''rename recovery action is invalid'')
      else and_then (r_sha256 (dict_get evidence ''mapping_generation'') ''mapping generation'') (\<lambda>_.
      if \<not> r_same s evidence ''mapping_generation''
         \<or> \<not> dict_is_true evidence ''mutation_possible''
         \<or> \<not> py_eq (dict_get evidence ''host_commit_possible'') (PyBool (action \<noteq> PyStr ''prepare-discarded''))
      then Inl (rename_error ''rename recovery binding is invalid'')
      else Inr (s\<lparr>rs_recovery_action := action, rs_phase := R_OUTCOME_UNKNOWN\<rparr>)))))"

definition r_recovery_reconciled :: "bool \<Rightarrow> pyval \<Rightarrow> rename_state \<Rightarrow> rename_state res" where
  "r_recovery_reconciled committed value s =
     (if rs_phase s \<noteq> R_OUTCOME_UNKNOWN \<or> rs_recovery_action s = PyNone \<or> rs_target_uuid s = PyNone
      then Inl (rename_error ''rename recovery reconciliation is out of order'')
      else and_then (r_exact value [''connection_generation'', ''identity_uuid'', ''name_sha256'',
             ''snapshot_sha256'', ''mapping_generation'', ''identity_count'', ''identity_set_unchanged'',
             ''local_live_equal'', ''sep_clean'', ''host_reconciled'', ''recovery_action'']) (\<lambda>evidence.
      and_then (r_uuids evidence [''connection_generation'', ''identity_uuid'']) (\<lambda>_.
      and_then (r_sha256s evidence [''name_sha256'', ''snapshot_sha256'', ''mapping_generation'']) (\<lambda>_.
      let expected_name = (if committed then rs_new_name_hash s else rs_old_name_hash s) in
      if r_same s evidence ''connection_generation''
         \<or> \<not> py_eq (dict_get evidence ''identity_uuid'') (rs_target_uuid s)
         \<or> \<not> py_eq (dict_get evidence ''name_sha256'') expected_name
         \<or> \<not> r_same s evidence ''mapping_generation''
         \<or> \<not> r_count_same s evidence
         \<or> \<not> list_all (dict_is_true evidence) [''identity_set_unchanged'', ''local_live_equal'', ''sep_clean'',
              ''host_reconciled'']
         \<or> \<not> py_eq (dict_get evidence ''recovery_action'') (rs_recovery_action s)
      then Inl (rename_error ''rename recovery reconciliation is invalid'')
      else if \<not> committed \<and> rs_recovery_action s = PyStr ''commit-rolled-forward''
      then Inl (rename_error ''rolled-forward rename cannot reconcile as unchanged'')
      else Inr (s\<lparr>rs_reconciled_hash := dict_get evidence ''snapshot_sha256'',
             rs_phase := (if committed then R_RECONCILED else R_ABORTED)\<rparr>)))))"

definition r_post_reboot :: "pyval \<Rightarrow> rename_state \<Rightarrow> rename_state res" where
  "r_post_reboot value s =
     (if rs_phase s \<noteq> R_RECONCILED then Inl (rename_error ''rename post-reboot proof is out of order'')
      else and_then (r_exact value [''linux_boot_uuid'', ''connection_generation'', ''identity_uuid'',
             ''new_name_sha256'', ''snapshot_sha256'', ''mapping_generation'', ''identity_set_unchanged'',
             ''label_preserved'', ''local_live_equal'']) (\<lambda>evidence.
      and_then (r_uuids evidence [''linux_boot_uuid'', ''connection_generation'', ''identity_uuid'']) (\<lambda>_.
      and_then (r_sha256s evidence [''new_name_sha256'', ''snapshot_sha256'', ''mapping_generation'']) (\<lambda>_.
      if r_same s evidence ''linux_boot_uuid''
         \<or> r_same s evidence ''connection_generation''
         \<or> \<not> py_eq (dict_get evidence ''identity_uuid'') (rs_target_uuid s)
         \<or> \<not> py_eq (dict_get evidence ''new_name_sha256'') (rs_new_name_hash s)
         \<or> \<not> py_eq (dict_get evidence ''snapshot_sha256'') (rs_reconciled_hash s)
         \<or> \<not> r_same s evidence ''mapping_generation''
         \<or> \<not> list_all (dict_is_true evidence) [''identity_set_unchanged'', ''label_preserved'', ''local_live_equal'']
      then Inl (rename_error ''rename post-reboot proof is invalid'')
      else Inr (s\<lparr>rs_phase := R_POST_REBOOT_VERIFIED\<rparr>)))))"

section \<open>The loop\<close>

definition rename_milestone :: "(string \<Rightarrow> string) \<Rightarrow> pyval \<Rightarrow> pyval \<Rightarrow> rename_state \<Rightarrow> rename_state res" where
  "rename_milestone H milestone evidence s =
     (if milestone = PyStr ''RENAME_INTENT'' then r_intent evidence s
      else if milestone = PyStr ''RENAME_ABORTED_BEFORE_PERSISTENCE'' then r_aborted evidence s
      else if isinstance_str milestone \<and> startswith (str_of milestone) ''CATACOMB_''
      then r_catacomb H milestone evidence s
      else if milestone = PyStr ''RENAME_RECONCILED'' then r_reconciled evidence s
      else if milestone = PyStr ''RENAME_RECOVERY_INTENT'' then r_recovery_intent evidence s
      else and_then (in_str_set milestone [''RENAME_RECOVERY_RECONCILED_NO_CHANGE'',
             ''RENAME_RECOVERY_RECONCILED_COMMITTED'']) (\<lambda>recovery.
      if recovery then r_recovery_reconciled (endswith (str_of milestone) ''COMMITTED'') evidence s
      else if milestone = PyStr ''RENAME_POST_REBOOT_VERIFIED'' then r_post_reboot evidence s
      else Inl (rename_error ''unsupported rename milestone '')))"

definition rename_step :: "(string \<Rightarrow> string) \<Rightarrow> pydict \<Rightarrow> rename_state \<Rightarrow> rename_state res" where
  "rename_step H record s =
     (if is_repair_milestone (dict_get record ''milestone'') then Inr s
      else if \<not> py_eq (dict_get record ''operation_id'') (PyStr (rs_operation_id s))
      then Inl (rename_error ''operation ID changed inside rename journal'')
      else rename_milestone H (dict_get record ''milestone'') (dict_get record ''evidence'') s)"

definition rename_start :: "pydict \<Rightarrow> rename_state res" where
  "rename_start first =
     (if \<not> py_eq (dict_get first ''milestone'') (PyStr ''BASELINE_RECONCILED'')
      then Inl (rename_error ''rename journal has no baseline'')
      else and_then (r_exact (dict_get first ''evidence'') [''operation_kind'', ''baseline'']) (\<lambda>initial.
      if \<not> py_eq (dict_get initial ''operation_kind'') (PyStr ''rename'')
      then Inl (rename_error ''journal is not an identity rename'')
      else and_then (rewrap JournalError IdentityRenameJournalError
             (validate_baseline (dict_get initial ''baseline''))) (\<lambda>_.
      let baseline = dict_of (dict_get initial ''baseline'') in
      and_then (r_uuid (dict_get first ''operation_id'') ''operation ID'') (\<lambda>_.
      and_then (tracker_init baseline ''identity-metadata'') (\<lambda>persistence.
      Inr \<lparr>rs_operation_id = str_of (dict_get first ''operation_id''), rs_baseline = baseline,
           rs_phase = R_BASELINE, rs_target_uuid = PyNone, rs_target_entity = PyNone,
           rs_old_name_hash = PyNone, rs_new_name_hash = PyNone, rs_reconciled_hash = PyNone,
           rs_recovery_action = PyNone, rs_persistence = persistence\<rparr>)))))"

definition rename_validate_history :: "(string \<Rightarrow> string) \<Rightarrow> pydict list \<Rightarrow> rename_history res" where
  "rename_validate_history H records =
     (case records of
        [] \<Rightarrow> Inl (rename_error ''rename journal is empty'')
      | first # rest \<Rightarrow>
          and_then (rename_start first) (\<lambda>s0.
          and_then (fold_res (rename_step H) rest s0) (\<lambda>s.
          let head_hash = dict_get (last records) ''record_hash'' in
          and_then (r_sha256 head_hash ''journal head hash'') (\<lambda>_.
          Inr \<lparr>rh_operation_id = rs_operation_id s, rh_phase = rs_phase s, rh_baseline = rs_baseline s,
               rh_target_identity_uuid = rs_target_uuid s, rh_target_entity = rs_target_entity s,
               rh_previous_name_sha256 = rs_old_name_hash s, rh_new_name_sha256 = rs_new_name_hash s,
               rh_persistence = tracker_snapshot (rs_persistence s),
               rh_reconciled_snapshot_sha256 = rs_reconciled_hash s, rh_recovery_action = rs_recovery_action s,
               rh_record_count = int (length records), rh_head_hash = str_of head_hash\<rparr>))))"

section \<open>Files\<close>

definition rename_read ::
    "(string \<Rightarrow> string) \<Rightarrow> int list \<Rightarrow> journal_fs \<Rightarrow> rename_history res \<times> journal_fs" where
  "rename_read H ws fs =
     (case read_journal H ws fs of (r, fs') \<Rightarrow> (and_then r (rename_validate_history H), fs'))"

definition rename_append_checked ::
    "(string \<Rightarrow> string) \<Rightarrow> int list \<Rightarrow> int list \<Rightarrow> int list \<Rightarrow> int list \<Rightarrow> string \<Rightarrow> string \<Rightarrow> pydict \<Rightarrow>
     journal_fs \<Rightarrow> rename_history res \<times> journal_fs" where
  "rename_append_checked H ws ws1 ws2 ws3 operation_id milestone evidence fs =
     (case read_journal H ws fs of
        (Inl e, fs1) \<Rightarrow> (Inl e, fs1)
      | (Inr records, fs1) \<Rightarrow>
          case rename_validate_history H records of
            Inl e \<Rightarrow> (Inl e, fs1)
          | Inr current \<Rightarrow>
              if operation_id \<noteq> rh_operation_id current
              then (Inl (rename_error ''operation ID does not match rename journal''), fs1)
              else case rename_validate_history H
                          (records @ [candidate_record operation_id milestone evidence]) of
                Inl e \<Rightarrow> (Inl e, fs1)
              | Inr _ \<Rightarrow>
                  (case journal_append H ws1 ws2 operation_id milestone evidence False
                          (Some (rh_record_count current)) (Some (rh_head_hash current)) fs1 of
                     (Inl e, fs2) \<Rightarrow> (Inl e, fs2)
                   | (Inr _, fs2) \<Rightarrow> rename_read H ws3 fs2))"

end
