(* ===== verification/Delete_Journal.thy ===== *)
theory Delete_Journal
  imports Typed_Journal
begin

text \<open>
  The journal of one identity deletion, \<^verbatim>\<open>src/src/t2_identity_delete_journal.py\<close>: the SEP deletes the
  identity first, then the survivors are saved and reconciled; recovery intents and readbacks cover
  interruptions. The loop variables of \<^verbatim>\<open>validate_history\<close> are the record \<open>delete_state\<close>; a variable
  that holds an evidence value or \<^verbatim>\<open>None\<close> is a \<open>pyval\<close>. Each milestone's branch is one definition.
\<close>

section \<open>State\<close>

datatype delete_phase =
    D_BASELINE | D_INTENT | D_DISPATCH_INTENT | D_COMMAND_OBSERVED | D_SEP_DELETED | D_ABORTED
  | D_PERSISTING | D_PERSISTENCE_READY | D_RECONCILED | D_POST_REBOOT_VERIFIED | D_OUTCOME_UNKNOWN

record delete_history =
  dh_operation_id :: string
  dh_phase :: delete_phase
  dh_baseline :: pydict
  dh_target_identity_uuid :: pyval
  dh_target_entity :: pyval
  dh_target_name_sha256 :: pyval
  dh_request_sha256 :: pyval
  dh_survivor_snapshot_sha256 :: pyval
  dh_command_status :: "int option"
  dh_persistence :: persistence_history
  dh_reconciled_snapshot_sha256 :: pyval
  dh_reconciled_connection_generation :: pyval
  dh_reconciled_linux_boot_uuid :: pyval
  dh_outcome_unknown_stage :: pyval
  dh_recovery_action :: pyval
  dh_recovery_linux_boot_uuid :: pyval
  dh_recovery_user_file_sha256 :: pyval
  dh_persistence_connection_generation :: pyval
  dh_record_count :: int
  dh_head_hash :: string

record delete_state =
  ds_operation_id :: string
  ds_baseline :: pydict
  ds_phase :: delete_phase
  ds_target_uuid :: pyval
  ds_target_entity :: pyval
  ds_target_name_hash :: pyval
  ds_request_hash :: pyval
  ds_survivor_hash :: pyval
  ds_command_status :: "int option"
  ds_reconciled_hash :: pyval
  ds_reconciled_generation :: pyval
  ds_reconciled_boot_uuid :: pyval
  ds_outcome_stage :: pyval
  ds_recovery_action :: pyval
  ds_recovery_boot_uuid :: pyval
  ds_recovery_user_file_sha256 :: pyval
  ds_persistence_connection_generation :: pyval
  ds_persistence :: tracker

abbreviation delete_error :: "string \<Rightarrow> exc" where
  "delete_error \<equiv> Exc IdentityDeleteJournalError"

section \<open>Field checks\<close>

definition d_exact :: "pyval \<Rightarrow> string list \<Rightarrow> pydict res" where
  "d_exact value keys =
     (if \<not> isinstance_dict value \<or> \<not> dict_keys_are (dict_of value) keys
      then Inl (delete_error ''evidence does not match its schema'')
      else Inr (dict_of value))"

definition d_sha256 :: "pyval \<Rightarrow> string \<Rightarrow> unit res" where
  "d_sha256 value field = rewrap JournalError IdentityDeleteJournalError (require_sha256 value field)"

definition d_uuid :: "pyval \<Rightarrow> string \<Rightarrow> unit res" where
  "d_uuid value field = rewrap JournalError IdentityDeleteJournalError (require_uuid value field)"

text \<open>\<^verbatim>\<open>for field in (...): _uuid(evidence[field], field)\<close>, and the same for digests.\<close>

definition d_uuids :: "pydict \<Rightarrow> string list \<Rightarrow> unit res" where
  "d_uuids evidence names = all_ok (map (\<lambda>field. d_uuid (dict_get evidence field) field) names)"

definition d_sha256s :: "pydict \<Rightarrow> string list \<Rightarrow> unit res" where
  "d_sha256s evidence names = all_ok (map (\<lambda>field. d_sha256 (dict_get evidence field) field) names)"

text \<open>\<^verbatim>\<open>evidence[k] == baseline[k]\<close>, and \<^verbatim>\<open>len(baseline["identity_records"])\<close>\<close>

definition d_same :: "delete_state \<Rightarrow> pydict \<Rightarrow> string \<Rightarrow> bool" where
  "d_same s evidence k = py_eq (dict_get evidence k) (dict_get (ds_baseline s) k)"

definition identity_count :: "delete_state \<Rightarrow> int" where
  "identity_count s = int (length (list_of (dict_get (ds_baseline s) ''identity_records'')))"

definition d_user_name :: "delete_state \<Rightarrow> string" where
  "d_user_name s = user_cat_name (int_of (dict_get (ds_baseline s) ''apple_uid''))"

section \<open>Intent, dispatch and observation\<close>

definition matching_identities :: "delete_state \<Rightarrow> pydict \<Rightarrow> pyval list" where
  "matching_identities s evidence =
     filter (\<lambda>identity. py_eq (dict_get (dict_of identity) ''uuid'') (dict_get evidence ''identity_uuid'')
              \<and> py_eq (dict_get (dict_of identity) ''entity'') (dict_get evidence ''entity''))
       (list_of (dict_get (ds_baseline s) ''identity_records''))"

definition d_intent :: "pyval \<Rightarrow> delete_state \<Rightarrow> delete_state res" where
  "d_intent value s =
     (if ds_phase s \<noteq> D_BASELINE then Inl (delete_error ''delete intent is out of order'')
      else and_then (d_exact value [''connection_generation'', ''user_id'', ''identity_uuid'', ''entity'',
             ''target_name_sha256'', ''request_sha256'', ''request_length'', ''survivor_snapshot_sha256'',
             ''survivor_count'', ''mapping_generation'']) (\<lambda>evidence.
      and_then (d_uuid (dict_get evidence ''identity_uuid'') ''identity UUID'') (\<lambda>_.
      and_then (d_sha256s evidence [''target_name_sha256'', ''request_sha256'', ''survivor_snapshot_sha256'',
             ''mapping_generation'']) (\<lambda>_.
      if identity_count s < 1 \<or> length (matching_identities s evidence) \<noteq> 1
         \<or> \<not> d_same s evidence ''connection_generation''
         \<or> \<not> py_eq (dict_get evidence ''user_id'') (dict_get (ds_baseline s) ''apple_uid'')
         \<or> \<not> py_eq (dict_get evidence ''request_length'') (PyInt 20)
         \<or> \<not> py_eq (dict_get evidence ''survivor_count'') (PyInt (identity_count s - 1))
         \<or> \<not> d_same s evidence ''mapping_generation''
      then Inl (delete_error ''delete intent binding is invalid'')
      else Inr (s\<lparr>ds_target_uuid := dict_get evidence ''identity_uuid'',
             ds_target_entity := dict_get evidence ''entity'',
             ds_target_name_hash := dict_get evidence ''target_name_sha256'',
             ds_request_hash := dict_get evidence ''request_sha256'',
             ds_survivor_hash := dict_get evidence ''survivor_snapshot_sha256'',
             ds_phase := D_INTENT\<rparr>)))))"

definition d_dispatch_intent :: "pyval \<Rightarrow> delete_state \<Rightarrow> delete_state res" where
  "d_dispatch_intent value s =
     (if ds_phase s \<noteq> D_INTENT then Inl (delete_error ''delete dispatch intent is out of order'')
      else and_then (d_exact value [''connection_generation'', ''identity_uuid'', ''request_sha256'', ''command'',
             ''protocol_version'']) (\<lambda>evidence.
      if \<not> d_same s evidence ''connection_generation''
         \<or> \<not> py_eq (dict_get evidence ''identity_uuid'') (ds_target_uuid s)
         \<or> \<not> py_eq (dict_get evidence ''request_sha256'') (ds_request_hash s)
         \<or> \<not> py_eq (dict_get evidence ''command'') (PyInt 0x0D)
         \<or> \<not> in_int_tuple (dict_get evidence ''protocol_version'') [0, 1]
      then Inl (delete_error ''delete dispatch binding is invalid'')
      else Inr (s\<lparr>ds_phase := D_DISPATCH_INTENT\<rparr>)))"

definition d_command_observed :: "pyval \<Rightarrow> delete_state \<Rightarrow> delete_state res" where
  "d_command_observed value s =
     (if ds_phase s \<noteq> D_DISPATCH_INTENT then Inl (delete_error ''delete command result is out of order'')
      else and_then (d_exact value [''connection_generation'', ''identity_uuid'', ''status'', ''output_length'',
             ''service_event_count'']) (\<lambda>evidence.
      let status = dict_get evidence ''status'' in
      if \<not> d_same s evidence ''connection_generation''
         \<or> \<not> py_eq (dict_get evidence ''identity_uuid'') (ds_target_uuid s)
         \<or> \<not> type_is_int status
         \<or> \<not> (- (2 ^ 31) \<le> int_of status \<and> int_of status < 2 ^ 32)
         \<or> \<not> py_eq (dict_get evidence ''output_length'') (PyInt 0)
         \<or> \<not> py_eq (dict_get evidence ''service_event_count'') (PyInt 0)
      then Inl (delete_error ''delete command result is invalid'')
      else Inr (s\<lparr>ds_command_status := Some (int_of status), ds_phase := D_COMMAND_OBSERVED\<rparr>)))"

definition d_sep_absence :: "pyval \<Rightarrow> delete_state \<Rightarrow> delete_state res" where
  "d_sep_absence value s =
     (if ds_phase s \<noteq> D_COMMAND_OBSERVED then Inl (delete_error ''SEP deletion evidence is out of order'')
      else and_then (d_exact value [''connection_generation'', ''identity_uuid'', ''survivor_snapshot_sha256'',
             ''survivor_count'', ''stable_double_read'', ''per_user_global_equal'', ''target_absent'']) (\<lambda>evidence.
      and_then (d_sha256 (dict_get evidence ''survivor_snapshot_sha256'') ''survivor snapshot'') (\<lambda>_.
      if \<not> d_same s evidence ''connection_generation''
         \<or> \<not> py_eq (dict_get evidence ''identity_uuid'') (ds_target_uuid s)
         \<or> \<not> py_eq (dict_get evidence ''survivor_snapshot_sha256'') (ds_survivor_hash s)
         \<or> \<not> py_eq (dict_get evidence ''survivor_count'') (PyInt (identity_count s - 1))
         \<or> \<not> list_all (dict_is_true evidence) [''stable_double_read'', ''per_user_global_equal'', ''target_absent'']
      then Inl (delete_error ''SEP deletion evidence is invalid'')
      else Inr (s\<lparr>ds_phase := D_SEP_DELETED\<rparr>))))"

definition d_not_performed :: "pyval \<Rightarrow> delete_state \<Rightarrow> delete_state res" where
  "d_not_performed value s =
     (if ds_phase s \<noteq> D_COMMAND_OBSERVED then Inl (delete_error ''delete abort evidence is out of order'')
      else and_then (d_exact value [''connection_generation'', ''identity_uuid'', ''command_failed'',
             ''target_present'', ''baseline_identity_set_equal'', ''sep_catacomb_unchanged'',
             ''stable_double_read'']) (\<lambda>evidence.
      if ds_command_status s = Some 0
         \<or> \<not> d_same s evidence ''connection_generation''
         \<or> \<not> py_eq (dict_get evidence ''identity_uuid'') (ds_target_uuid s)
         \<or> \<not> list_all (dict_is_true evidence) [''command_failed'', ''target_present'',
              ''baseline_identity_set_equal'', ''sep_catacomb_unchanged'', ''stable_double_read'']
      then Inl (delete_error ''delete abort evidence is invalid'')
      else Inr (s\<lparr>ds_phase := D_ABORTED\<rparr>)))"

section \<open>Ambiguity and recovery\<close>

text \<open>
  A disjunction that tests membership in a set of strings: the operands are evaluated from left to
  right, so an unhashable value raises \<^verbatim>\<open>TypeError\<close> only when the tests before it are false.
\<close>

definition d_outcome_unknown :: "pyval \<Rightarrow> delete_state \<Rightarrow> delete_state res" where
  "d_outcome_unknown value s =
     (if ds_phase s \<notin> {D_DISPATCH_INTENT, D_COMMAND_OBSERVED, D_SEP_DELETED, D_PERSISTING, D_PERSISTENCE_READY}
      then Inl (delete_error ''delete ambiguity is out of order'')
      else and_then (d_exact value [''connection_generation'', ''stage'', ''reason'', ''mutation_possible'']) (\<lambda>evidence.
      let invalid = delete_error ''delete ambiguity evidence is invalid'' in
      if \<not> py_eq (dict_get evidence ''connection_generation'') (ds_persistence_connection_generation s)
      then Inl invalid
      else and_then (in_str_set (dict_get evidence ''stage'')
             [''dispatch'', ''readback'', ''persistence'', ''reconciliation'']) (\<lambda>stage_ok.
      if \<not> stage_ok then Inl invalid
      else and_then (in_str_set (dict_get evidence ''reason'')
             [''transport-error'', ''protocol-error'', ''inventory-error'', ''host-store-error'',
              ''readback-error'', ''process-interrupted'']) (\<lambda>reason_ok.
      if \<not> reason_ok \<or> \<not> dict_is_true evidence ''mutation_possible'' then Inl invalid
      else Inr (s\<lparr>ds_outcome_stage := dict_get evidence ''stage'', ds_phase := D_OUTCOME_UNKNOWN\<rparr>)))))"

definition first_recovery :: "delete_state \<Rightarrow> bool" where
  "first_recovery s =
     (ds_recovery_action s = PyNone
      \<and> ds_phase s \<in> {D_INTENT, D_DISPATCH_INTENT, D_COMMAND_OBSERVED, D_SEP_DELETED, D_PERSISTING,
           D_PERSISTENCE_READY, D_OUTCOME_UNKNOWN})"

definition forward_retry :: "delete_state \<Rightarrow> bool" where
  "forward_retry s =
     (ds_recovery_action s \<noteq> PyNone \<and> ds_phase s = D_OUTCOME_UNKNOWN
      \<and> \<not> py_eq (ds_persistence_connection_generation s) (dict_get (ds_baseline s) ''connection_generation''))"

definition d_recovery_intent :: "pyval \<Rightarrow> delete_state \<Rightarrow> delete_state res" where
  "d_recovery_intent value s =
     (if \<not> (first_recovery s \<or> forward_retry s)
      then Inl (delete_error ''delete recovery intent is out of order'')
      else and_then (d_exact value [''action'', ''linux_boot_uuid'', ''mapping_generation'',
             ''host_commit_possible'', ''mutation_possible'']) (\<lambda>evidence.
      let action = dict_get evidence ''action'' in
      and_then (in_str_set action [''prepare-discarded'', ''commit-rolled-forward'', ''no-local-transaction'']) (\<lambda>known.
      if \<not> known then Inl (delete_error ''delete recovery action is invalid'')
      else and_then (d_sha256 (dict_get evidence ''mapping_generation'') ''mapping generation'') (\<lambda>_.
      and_then (d_uuid (dict_get evidence ''linux_boot_uuid'') ''recovery Linux boot UUID'') (\<lambda>_.
      if \<not> d_same s evidence ''mapping_generation''
         \<or> \<not> dict_is_true evidence ''mutation_possible''
         \<or> \<not> py_eq (dict_get evidence ''host_commit_possible'') (PyBool (action \<noteq> PyStr ''prepare-discarded''))
      then Inl (delete_error ''delete recovery binding is invalid'')
      else Inr (s\<lparr>ds_recovery_action := action, ds_recovery_boot_uuid := dict_get evidence ''linux_boot_uuid'',
             ds_phase := D_OUTCOME_UNKNOWN\<rparr>))))))"

text \<open>The names of the staged files, \<^verbatim>\<open>set(dict(persistence.snapshot().staged_files))\<close>.\<close>

definition staged_names :: "delete_state \<Rightarrow> string set" where
  "staged_names s = fst ` set (ph_staged_files (tracker_snapshot (ds_persistence s)))"

definition recovery_ready :: "delete_state \<Rightarrow> bool" where
  "recovery_ready s =
     (ds_phase s = D_OUTCOME_UNKNOWN \<and> ds_recovery_action s \<noteq> PyNone \<and> ds_target_uuid s \<noteq> PyNone)"

text \<open>A fresh tracker bound to the recovery connection, and the state that continues with it.\<close>

definition restart_persistence :: "string \<Rightarrow> pyval \<Rightarrow> delete_state \<Rightarrow> delete_state res" where
  "restart_persistence plan_kind connection_generation s =
     and_then (tracker_init (ds_baseline s) plan_kind) (\<lambda>tracker.
     and_then (rewrap PersistenceJournalError IdentityDeleteJournalError
       (use_recovery_generation connection_generation tracker)) (\<lambda>persistence.
     Inr (s\<lparr>ds_persistence := persistence, ds_persistence_connection_generation := connection_generation,
            ds_outcome_stage := PyNone, ds_phase := D_SEP_DELETED\<rparr>)))"

definition forward_persistence :: "delete_state \<Rightarrow> bool" where
  "forward_persistence s =
     (\<not> py_eq (ds_persistence_connection_generation s) (dict_get (ds_baseline s) ''connection_generation'')
      \<and> staged_names s = {d_user_name s})"

definition d_recovery_sep_absence :: "pyval \<Rightarrow> delete_state \<Rightarrow> delete_state res" where
  "d_recovery_sep_absence value s =
     (if \<not> recovery_ready s then Inl (delete_error ''delete forward recovery is out of order'')
      else and_then (d_exact value [''connection_generation'', ''identity_uuid'', ''survivor_snapshot_sha256'',
             ''survivor_count'', ''mapping_generation'', ''target_absent'', ''local_archive_state'',
             ''host_archive_state'', ''sep_user_needs_save'', ''sep_master_needs_save'', ''stable_double_read'',
             ''recovery_action'']) (\<lambda>evidence.
      and_then (d_uuids evidence [''connection_generation'', ''identity_uuid'']) (\<lambda>_.
      and_then (d_sha256s evidence [''survivor_snapshot_sha256'', ''mapping_generation'']) (\<lambda>_.
      let archive_state = dict_get evidence ''local_archive_state'';
          invalid = delete_error ''delete forward recovery evidence is invalid'' in
      if d_same s evidence ''connection_generation''
         \<or> \<not> py_eq (dict_get evidence ''identity_uuid'') (ds_target_uuid s)
         \<or> \<not> py_eq (dict_get evidence ''survivor_snapshot_sha256'') (ds_survivor_hash s)
         \<or> \<not> py_eq (dict_get evidence ''survivor_count'') (PyInt (identity_count s - 1))
         \<or> \<not> d_same s evidence ''mapping_generation''
         \<or> \<not> py_eq (dict_get evidence ''recovery_action'') (ds_recovery_action s)
      then Inl invalid
      else and_then (in_str_set archive_state [''baseline'', ''survivors'']) (\<lambda>known.
      if \<not> known
         \<or> \<not> py_eq (dict_get evidence ''host_archive_state'') archive_state
         \<or> archive_state = PyStr ''baseline'' \<and> ds_recovery_action s = PyStr ''commit-rolled-forward''
         \<or> archive_state = PyStr ''survivors''
           \<and> (ds_recovery_action s = PyStr ''prepare-discarded'' \<and> \<not> forward_persistence s
              \<or> staged_names s \<noteq> {d_user_name s})
         \<or> \<not> list_all (dict_is_true evidence) [''target_absent'', ''sep_user_needs_save'',
              ''sep_master_needs_save'', ''stable_double_read'']
      then Inl invalid
      else restart_persistence ''identity-delete'' (dict_get evidence ''connection_generation'') s)))))"

definition d_recovery_master_save :: "pyval \<Rightarrow> delete_state \<Rightarrow> delete_state res" where
  "d_recovery_master_save value s =
     (if \<not> recovery_ready s then Inl (delete_error ''delete master recovery is out of order'')
      else and_then (d_exact value [''connection_generation'', ''identity_uuid'', ''survivor_snapshot_sha256'',
             ''survivor_count'', ''mapping_generation'', ''committed_user_sha256'', ''target_absent'',
             ''local_live_equal'', ''sep_user_clean'', ''sep_master_needs_save'', ''stable_double_read'',
             ''recovery_action'']) (\<lambda>evidence.
      and_then (d_uuids evidence [''connection_generation'', ''identity_uuid'']) (\<lambda>_.
      and_then (d_sha256s evidence [''survivor_snapshot_sha256'', ''mapping_generation'', ''committed_user_sha256'']) (\<lambda>_.
      if d_same s evidence ''connection_generation''
         \<or> \<not> py_eq (dict_get evidence ''identity_uuid'') (ds_target_uuid s)
         \<or> \<not> py_eq (dict_get evidence ''survivor_snapshot_sha256'') (ds_survivor_hash s)
         \<or> \<not> py_eq (dict_get evidence ''survivor_count'') (PyInt (identity_count s - 1))
         \<or> \<not> d_same s evidence ''mapping_generation''
         \<or> ph_staged_files (tracker_snapshot (ds_persistence s))
             \<noteq> [(d_user_name s, str_of (dict_get evidence ''committed_user_sha256''))]
         \<or> \<not> py_eq (dict_get evidence ''recovery_action'') (ds_recovery_action s)
         \<or> \<not> list_all (dict_is_true evidence) [''target_absent'', ''local_live_equal'', ''sep_user_clean'',
              ''sep_master_needs_save'', ''stable_double_read'']
      then Inl (delete_error ''delete master recovery evidence is invalid'')
      else restart_persistence ''identity-delete-master-recovery'' (dict_get evidence ''connection_generation'')
             (s\<lparr>ds_recovery_user_file_sha256 := dict_get evidence ''committed_user_sha256''\<rparr>)))))"

definition d_recovery_reconciled :: "bool \<Rightarrow> pyval \<Rightarrow> delete_state \<Rightarrow> delete_state res" where
  "d_recovery_reconciled committed value s =
     (if \<not> recovery_ready s then Inl (delete_error ''delete recovery reconciliation is out of order'')
      else and_then (d_exact value [''connection_generation'', ''identity_uuid'', ''snapshot_sha256'',
             ''mapping_generation'', ''identity_count'', ''target_absent'', ''local_live_equal'',
             ''host_reconciled'', ''sep_clean'', ''recovery_action'']) (\<lambda>evidence.
      and_then (d_uuids evidence [''connection_generation'', ''identity_uuid'']) (\<lambda>_.
      and_then (d_sha256s evidence [''snapshot_sha256'', ''mapping_generation'']) (\<lambda>_.
      if d_same s evidence ''connection_generation''
         \<or> \<not> py_eq (dict_get evidence ''identity_uuid'') (ds_target_uuid s)
         \<or> \<not> d_same s evidence ''mapping_generation''
         \<or> \<not> py_eq (dict_get evidence ''identity_count'') (PyInt (identity_count s - of_bool committed))
         \<or> dict_get evidence ''target_absent'' \<noteq> PyBool committed
         \<or> \<not> list_all (dict_is_true evidence) [''local_live_equal'', ''host_reconciled'', ''sep_clean'']
         \<or> \<not> py_eq (dict_get evidence ''recovery_action'') (ds_recovery_action s)
         \<or> committed \<and> staged_names s \<noteq> {d_user_name s, ''master.cat''}
      then Inl (delete_error ''delete recovery reconciliation is invalid'')
      else if \<not> committed \<and> ds_recovery_action s = PyStr ''commit-rolled-forward''
      then Inl (delete_error ''rolled-forward delete cannot reconcile as unchanged'')
      else Inr (s\<lparr>ds_reconciled_hash := (if committed then dict_get evidence ''snapshot_sha256'' else PyNone),
             ds_reconciled_generation :=
               (if committed then dict_get evidence ''connection_generation'' else PyNone),
             ds_reconciled_boot_uuid := (if committed then ds_recovery_boot_uuid s else PyNone),
             ds_phase := (if committed then D_RECONCILED else D_ABORTED)\<rparr>)))))"

section \<open>Persistence, reconciliation and proof\<close>

definition d_catacomb :: "(string \<Rightarrow> string) \<Rightarrow> pyval \<Rightarrow> pyval \<Rightarrow> delete_state \<Rightarrow> delete_state res" where
  "d_catacomb H milestone value s =
     (if ds_phase s \<notin> {D_SEP_DELETED, D_PERSISTING}
      then Inl (delete_error ''delete persistence is out of order'')
      else and_then (rewrap PersistenceJournalError IdentityDeleteJournalError
             (consume H False milestone value (ds_persistence s))) (\<lambda>(_, persistence).
      if pt_phase persistence = P_COMPLETE
      then Inr (s\<lparr>ds_persistence := persistence, ds_phase := D_PERSISTENCE_READY\<rparr>)
      else if pt_phase persistence = P_OUTCOME_UNKNOWN
      then Inr (s\<lparr>ds_persistence := persistence,
             ds_outcome_stage := opt_str (ph_outcome_unknown_stage (tracker_snapshot persistence)),
             ds_phase := D_OUTCOME_UNKNOWN\<rparr>)
      else Inr (s\<lparr>ds_persistence := persistence, ds_phase := D_PERSISTING\<rparr>)))"

definition d_reconciled :: "pyval \<Rightarrow> delete_state \<Rightarrow> delete_state res" where
  "d_reconciled value s =
     (if ds_phase s \<noteq> D_PERSISTENCE_READY then Inl (delete_error ''delete reconciliation is out of order'')
      else and_then (d_exact value [''connection_generation'', ''identity_uuid'', ''survivor_snapshot_sha256'',
             ''snapshot_sha256'', ''mapping_generation'', ''identity_count'', ''target_absent'',
             ''local_live_equal'', ''host_reconciled'', ''sep_clean'']) (\<lambda>evidence.
      and_then (d_uuid (dict_get evidence ''identity_uuid'') ''identity UUID'') (\<lambda>_.
      and_then (d_sha256s evidence [''survivor_snapshot_sha256'', ''snapshot_sha256'', ''mapping_generation'']) (\<lambda>_.
      if \<not> py_eq (dict_get evidence ''connection_generation'') (ds_persistence_connection_generation s)
         \<or> \<not> py_eq (dict_get evidence ''identity_uuid'') (ds_target_uuid s)
         \<or> \<not> py_eq (dict_get evidence ''survivor_snapshot_sha256'') (ds_survivor_hash s)
         \<or> \<not> d_same s evidence ''mapping_generation''
         \<or> \<not> py_eq (dict_get evidence ''identity_count'') (PyInt (identity_count s - 1))
         \<or> \<not> list_all (dict_is_true evidence) [''target_absent'', ''local_live_equal'', ''host_reconciled'', ''sep_clean'']
      then Inl (delete_error ''delete reconciliation is invalid'')
      else Inr (s\<lparr>ds_reconciled_hash := dict_get evidence ''snapshot_sha256'',
             ds_reconciled_generation := dict_get evidence ''connection_generation'',
             ds_reconciled_boot_uuid :=
               (if ds_recovery_boot_uuid s = PyNone \<or> ds_recovery_boot_uuid s = PyStr []
                then dict_get (ds_baseline s) ''linux_boot_uuid'' else ds_recovery_boot_uuid s),
             ds_phase := D_RECONCILED\<rparr>)))))"

definition d_post_reboot :: "pyval \<Rightarrow> delete_state \<Rightarrow> delete_state res" where
  "d_post_reboot value s =
     (if ds_phase s \<noteq> D_RECONCILED then Inl (delete_error ''delete post-reboot proof is out of order'')
      else and_then (d_exact value [''linux_boot_uuid'', ''connection_generation'', ''identity_uuid'',
             ''survivor_snapshot_sha256'', ''snapshot_sha256'', ''mapping_generation'', ''target_absent'',
             ''local_live_equal'', ''sep_clean'']) (\<lambda>evidence.
      and_then (d_uuids evidence [''linux_boot_uuid'', ''connection_generation'', ''identity_uuid'']) (\<lambda>_.
      and_then (d_sha256s evidence [''survivor_snapshot_sha256'', ''snapshot_sha256'', ''mapping_generation'']) (\<lambda>_.
      if py_eq (dict_get evidence ''linux_boot_uuid'') (ds_reconciled_boot_uuid s)
         \<or> py_eq (dict_get evidence ''connection_generation'') (ds_reconciled_generation s)
         \<or> \<not> py_eq (dict_get evidence ''identity_uuid'') (ds_target_uuid s)
         \<or> \<not> py_eq (dict_get evidence ''survivor_snapshot_sha256'') (ds_survivor_hash s)
         \<or> \<not> py_eq (dict_get evidence ''snapshot_sha256'') (ds_reconciled_hash s)
         \<or> \<not> d_same s evidence ''mapping_generation''
         \<or> \<not> list_all (dict_is_true evidence) [''target_absent'', ''local_live_equal'', ''sep_clean'']
      then Inl (delete_error ''delete post-reboot proof is invalid'')
      else Inr (s\<lparr>ds_phase := D_POST_REBOOT_VERIFIED\<rparr>)))))"

section \<open>The loop\<close>

definition delete_milestone :: "(string \<Rightarrow> string) \<Rightarrow> pyval \<Rightarrow> pyval \<Rightarrow> delete_state \<Rightarrow> delete_state res" where
  "delete_milestone H milestone evidence s =
     (if milestone = PyStr ''DELETE_INTENT'' then d_intent evidence s
      else if milestone = PyStr ''DELETE_DISPATCH_INTENT'' then d_dispatch_intent evidence s
      else if milestone = PyStr ''DELETE_COMMAND_OBSERVED'' then d_command_observed evidence s
      else if milestone = PyStr ''DELETE_SEP_ABSENCE_OBSERVED'' then d_sep_absence evidence s
      else if milestone = PyStr ''DELETE_NOT_PERFORMED'' then d_not_performed evidence s
      else if milestone = PyStr ''DELETE_OUTCOME_UNKNOWN'' then d_outcome_unknown evidence s
      else if milestone = PyStr ''DELETE_RECOVERY_INTENT'' then d_recovery_intent evidence s
      else if milestone = PyStr ''DELETE_RECOVERY_SEP_ABSENCE_OBSERVED'' then d_recovery_sep_absence evidence s
      else if milestone = PyStr ''DELETE_RECOVERY_MASTER_SAVE_REQUIRED'' then d_recovery_master_save evidence s
      else and_then (in_str_set milestone [''DELETE_RECOVERY_RECONCILED_NO_CHANGE'',
             ''DELETE_RECOVERY_RECONCILED_COMMITTED'']) (\<lambda>recovery.
      if recovery then d_recovery_reconciled (endswith (str_of milestone) ''COMMITTED'') evidence s
      else if isinstance_str milestone \<and> startswith (str_of milestone) ''CATACOMB_''
      then d_catacomb H milestone evidence s
      else if milestone = PyStr ''DELETE_RECONCILED'' then d_reconciled evidence s
      else if milestone = PyStr ''DELETE_POST_REBOOT_VERIFIED'' then d_post_reboot evidence s
      else Inl (delete_error ''unsupported delete milestone'')))"

definition delete_step :: "(string \<Rightarrow> string) \<Rightarrow> pydict \<Rightarrow> delete_state \<Rightarrow> delete_state res" where
  "delete_step H record s =
     (if is_repair_milestone (dict_get record ''milestone'') then Inr s
      else if \<not> py_eq (dict_get record ''operation_id'') (PyStr (ds_operation_id s))
      then Inl (delete_error ''operation ID changed inside delete journal'')
      else delete_milestone H (dict_get record ''milestone'') (dict_get record ''evidence'') s)"

definition delete_start :: "pydict \<Rightarrow> delete_state res" where
  "delete_start first =
     (if \<not> py_eq (dict_get first ''milestone'') (PyStr ''BASELINE_RECONCILED'')
      then Inl (delete_error ''delete journal has no baseline'')
      else and_then (d_exact (dict_get first ''evidence'') [''operation_kind'', ''baseline'']) (\<lambda>initial.
      if \<not> py_eq (dict_get initial ''operation_kind'') (PyStr ''delete-one'')
      then Inl (delete_error ''journal is not a single identity deletion'')
      else and_then (rewrap JournalError IdentityDeleteJournalError
             (validate_baseline (dict_get initial ''baseline''))) (\<lambda>_.
      let baseline = dict_of (dict_get initial ''baseline'') in
      and_then (d_uuid (dict_get first ''operation_id'') ''operation ID'') (\<lambda>_.
      and_then (tracker_init baseline ''identity-delete'') (\<lambda>persistence.
      Inr \<lparr>ds_operation_id = str_of (dict_get first ''operation_id''), ds_baseline = baseline,
           ds_phase = D_BASELINE, ds_target_uuid = PyNone, ds_target_entity = PyNone,
           ds_target_name_hash = PyNone, ds_request_hash = PyNone, ds_survivor_hash = PyNone,
           ds_command_status = None, ds_reconciled_hash = PyNone, ds_reconciled_generation = PyNone,
           ds_reconciled_boot_uuid = PyNone, ds_outcome_stage = PyNone, ds_recovery_action = PyNone,
           ds_recovery_boot_uuid = PyNone, ds_recovery_user_file_sha256 = PyNone,
           ds_persistence_connection_generation = dict_get baseline ''connection_generation'',
           ds_persistence = persistence\<rparr>)))))"

definition delete_validate_history :: "(string \<Rightarrow> string) \<Rightarrow> pydict list \<Rightarrow> delete_history res" where
  "delete_validate_history H records =
     (case records of
        [] \<Rightarrow> Inl (delete_error ''delete journal is empty'')
      | first # rest \<Rightarrow>
          and_then (delete_start first) (\<lambda>s0.
          and_then (fold_res (delete_step H) rest s0) (\<lambda>s.
          let head_hash = dict_get (last records) ''record_hash'' in
          and_then (d_sha256 head_hash ''journal head hash'') (\<lambda>_.
          Inr \<lparr>dh_operation_id = ds_operation_id s, dh_phase = ds_phase s, dh_baseline = ds_baseline s,
               dh_target_identity_uuid = ds_target_uuid s, dh_target_entity = ds_target_entity s,
               dh_target_name_sha256 = ds_target_name_hash s, dh_request_sha256 = ds_request_hash s,
               dh_survivor_snapshot_sha256 = ds_survivor_hash s, dh_command_status = ds_command_status s,
               dh_persistence = tracker_snapshot (ds_persistence s),
               dh_reconciled_snapshot_sha256 = ds_reconciled_hash s,
               dh_reconciled_connection_generation = ds_reconciled_generation s,
               dh_reconciled_linux_boot_uuid = ds_reconciled_boot_uuid s,
               dh_outcome_unknown_stage = ds_outcome_stage s, dh_recovery_action = ds_recovery_action s,
               dh_recovery_linux_boot_uuid = ds_recovery_boot_uuid s,
               dh_recovery_user_file_sha256 = ds_recovery_user_file_sha256 s,
               dh_persistence_connection_generation = ds_persistence_connection_generation s,
               dh_record_count = int (length records), dh_head_hash = str_of head_hash\<rparr>))))"

section \<open>Files\<close>

definition delete_read ::
    "(string \<Rightarrow> string) \<Rightarrow> int list \<Rightarrow> journal_fs \<Rightarrow> delete_history res \<times> journal_fs" where
  "delete_read H ws fs =
     (case read_journal H ws fs of (r, fs') \<Rightarrow> (and_then r (delete_validate_history H), fs'))"

definition delete_append_checked ::
    "(string \<Rightarrow> string) \<Rightarrow> int list \<Rightarrow> int list \<Rightarrow> int list \<Rightarrow> int list \<Rightarrow> string \<Rightarrow> string \<Rightarrow> pydict \<Rightarrow>
     journal_fs \<Rightarrow> delete_history res \<times> journal_fs" where
  "delete_append_checked H ws ws1 ws2 ws3 operation_id milestone evidence fs =
     (case read_journal H ws fs of
        (Inl e, fs1) \<Rightarrow> (Inl e, fs1)
      | (Inr records, fs1) \<Rightarrow>
          case delete_validate_history H records of
            Inl e \<Rightarrow> (Inl e, fs1)
          | Inr current \<Rightarrow>
              if operation_id \<noteq> dh_operation_id current
              then (Inl (delete_error ''operation ID does not match delete journal''), fs1)
              else case delete_validate_history H
                          (records @ [candidate_record operation_id milestone evidence]) of
                Inl e \<Rightarrow> (Inl e, fs1)
              | Inr _ \<Rightarrow>
                  (case journal_append H ws1 ws2 operation_id milestone evidence False
                          (Some (dh_record_count current)) (Some (dh_head_hash current)) fs1 of
                     (Inl e, fs2) \<Rightarrow> (Inl e, fs2)
                   | (Inr _, fs2) \<Rightarrow> delete_read H ws3 fs2))"

end
