(* ===== verification/Enrollment_Journal.thy ===== *)
theory Enrollment_Journal
  imports Typed_Journal
begin

text \<open>
  The enrollment journal, \<^verbatim>\<open>src/src/t2_enrollment_journal.py\<close>: \<^verbatim>\<open>validate_history\<close> replays the typed
  milestones of one enrollment and rejects every record that is out of order or whose evidence
  does not fit. The local variables of the loop are the record \<open>enroll_state\<close>; each milestone's
  branch is one definition, in the order of the source.
\<close>

section \<open>State\<close>

definition SERVICE_STATUS :: int where "SERVICE_STATUS = 0xE3FF8001"
definition SERVICE_ENROLLMENT_RESULT :: int where "SERVICE_ENROLLMENT_RESULT = 0xE3FF8003"

datatype enrollment_phase =
    E_BASELINE | E_ABORTED_BEFORE_START | E_START_INTENT | E_ACTIVE | E_CONTINUE_INTENT
  | E_CANCEL_INTENT | E_CANCEL_REQUESTED | E_TERMINAL_WITNESS | E_TERMINAL_IDENTITY
  | E_TERMINAL_FAILURE | E_PERSISTING | E_PERSISTENCE_READY | E_RECONCILED | E_ADDITION_VERIFIED
  | E_ADDITION_ROLLED_BACK | E_POST_REBOOT_VERIFIED | E_OUTCOME_UNKNOWN

record enrollment_history =
  eh_operation_id :: string
  eh_phase :: enrollment_phase
  eh_baseline :: pydict
  eh_last_event_sequence :: "int option"
  eh_pending_event_sequence :: "int option"
  eh_record_count :: int
  eh_head_hash :: string
  eh_terminal_identity_uuid :: "string option"
  eh_terminal_status :: "int option"
  eh_persistence :: persistence_history
  eh_reconciled_snapshot_sha256 :: "string option"
  eh_post_reboot_linux_boot_uuid :: "string option"
  eh_outcome_unknown_stage :: "string option"
  eh_persistence_connection_generation :: pyval

record enroll_state =
  es_operation_id :: string
  es_baseline :: pydict
  es_phase :: enrollment_phase
  es_last_event :: "int option"
  es_pending_event :: "int option"
  es_terminal_identity_uuid :: "string option"
  es_terminal_status :: "int option"
  es_persistence :: tracker
  es_reconciled_snapshot_sha256 :: "string option"
  es_post_reboot_linux_boot_uuid :: "string option"
  es_outcome_unknown_stage :: "string option"
  es_persistence_connection_generation :: pyval

abbreviation enrollment_error :: "string \<Rightarrow> exc" where
  "enrollment_error \<equiv> Exc EnrollmentJournalError"

section \<open>Field checks\<close>

definition e_exact :: "pyval \<Rightarrow> string list \<Rightarrow> pydict res" where
  "e_exact value keys =
     (if \<not> isinstance_dict value \<or> \<not> dict_keys_are (dict_of value) keys
      then Inl (enrollment_error ''evidence does not match its schema'')
      else Inr (dict_of value))"

definition e_uint :: "pyval \<Rightarrow> string \<Rightarrow> int \<Rightarrow> int res" where
  "e_uint value field maximum =
     (if \<not> isinstance_int value \<or> type_is_bool value \<or> \<not> (0 \<le> int_of value \<and> int_of value \<le> maximum)
      then Inl (enrollment_error (field @ '' is not a bounded unsigned integer''))
      else Inr (int_of value))"

abbreviation uint64_max :: int where "uint64_max \<equiv> 0xFFFFFFFFFFFFFFFF"

definition e_status :: "pyval \<Rightarrow> string \<Rightarrow> int res" where
  "e_status value field =
     (if \<not> isinstance_int value \<or> type_is_bool value \<or> \<not> (- (2 ^ 31) \<le> int_of value \<and> int_of value < 2 ^ 32)
      then Inl (enrollment_error (field @ '' is not a bounded status value''))
      else Inr (int_of value))"

definition e_uuid :: "pyval \<Rightarrow> string \<Rightarrow> unit res" where
  "e_uuid value field = rewrap JournalError EnrollmentJournalError (require_uuid value field)"

definition e_sha256 :: "pyval \<Rightarrow> string \<Rightarrow> unit res" where
  "e_sha256 value field = rewrap JournalError EnrollmentJournalError (require_sha256 value field)"

definition e_same_generation :: "pydict \<Rightarrow> pydict \<Rightarrow> unit res" where
  "e_same_generation evidence baseline =
     (if \<not> py_eq (dict_get evidence ''connection_generation'') (dict_get baseline ''connection_generation'')
      then Inl (enrollment_error ''enrollment connection generation changed'')
      else Inr ())"

text \<open>\<^verbatim>\<open>baseline["capacity"][k]\<close>\<close>

definition capacity_field :: "pydict \<Rightarrow> string \<Rightarrow> int" where
  "capacity_field baseline k = int_of (dict_get (dict_of (dict_get baseline ''capacity'')) k)"

section \<open>Start, continue and cancel\<close>

definition e_aborted_before_start :: "pyval \<Rightarrow> enroll_state \<Rightarrow> enroll_state res" where
  "e_aborted_before_start value s =
     (if es_phase s \<noteq> E_BASELINE
      then Inl (enrollment_error ''pre-dispatch enrollment abort is out of order'')
      else and_then (e_exact value [''connection_generation'', ''reason'', ''mutation_possible'']) (\<lambda>evidence.
      and_then (e_same_generation evidence (es_baseline s)) (\<lambda>_.
      if \<not> py_eq (dict_get evidence ''reason'') (PyStr ''safety-guard-unavailable'')
         \<or> dict_get evidence ''mutation_possible'' \<noteq> PyBool False
      then Inl (enrollment_error ''pre-dispatch enrollment abort evidence is invalid'')
      else Inr (s\<lparr>es_phase := E_ABORTED_BEFORE_START\<rparr>))))"

definition e_start_intent :: "pyval \<Rightarrow> enroll_state \<Rightarrow> enroll_state res" where
  "e_start_intent value s =
     (if es_phase s \<noteq> E_BASELINE
      then Inl (enrollment_error ''enrollment start intent is out of order'')
      else and_then (e_exact value [''apple_uid'', ''protocol_version'', ''connection_generation'',
             ''request_length'', ''request_sha256'']) (\<lambda>evidence.
      if \<not> py_eq (dict_get evidence ''apple_uid'') (dict_get (es_baseline s) ''apple_uid'')
         \<or> \<not> py_eq (dict_get evidence ''protocol_version'') (dict_get (es_baseline s) ''protocol_version'')
         \<or> \<not> py_eq (dict_get evidence ''request_length'')
              (PyInt (if py_eq (dict_get (es_baseline s) ''protocol_version'') (PyInt 1) then 48 else 68))
      then Inl (enrollment_error ''start intent disagrees with baseline'')
      else and_then (e_same_generation evidence (es_baseline s)) (\<lambda>_.
      and_then (e_sha256 (dict_get evidence ''request_sha256'') ''request_sha256'') (\<lambda>_.
      Inr (s\<lparr>es_phase := E_START_INTENT\<rparr>)))))"

definition e_start_observed :: "pyval \<Rightarrow> enroll_state \<Rightarrow> enroll_state res" where
  "e_start_observed value s =
     (if es_phase s \<noteq> E_START_INTENT
      then Inl (enrollment_error ''enrollment start observation is out of order'')
      else and_then (e_exact value [''status'']) (\<lambda>evidence.
      and_then (e_status (dict_get evidence ''status'') ''start status'') (\<lambda>status.
      if status \<noteq> 0 then Inl (enrollment_error ''accepted enrollment start status is not zero'')
      else Inr (s\<lparr>es_phase := E_ACTIVE\<rparr>))))"

definition e_start_rejected :: "pyval \<Rightarrow> enroll_state \<Rightarrow> enroll_state res" where
  "e_start_rejected value s =
     (if es_phase s \<noteq> E_START_INTENT
      then Inl (enrollment_error ''enrollment start rejection is out of order'')
      else and_then (e_exact value [''status'']) (\<lambda>evidence.
      and_then (e_status (dict_get evidence ''status'') ''start status'') (\<lambda>status.
      if status = 0 then Inl (enrollment_error ''rejected enrollment start has status zero'')
      else Inr (s\<lparr>es_terminal_status := Some status, es_phase := E_TERMINAL_FAILURE\<rparr>))))"

text \<open>\<^verbatim>\<open>last_event is not None and sequence <= last_event\<close>\<close>

definition not_increasing :: "enroll_state \<Rightarrow> int \<Rightarrow> bool" where
  "not_increasing s sequence = (case es_last_event s of None \<Rightarrow> False | Some n \<Rightarrow> sequence \<le> n)"

definition e_continue_intent :: "pyval \<Rightarrow> enroll_state \<Rightarrow> enroll_state res" where
  "e_continue_intent value s =
     (if es_phase s \<noteq> E_ACTIVE
      then Inl (enrollment_error ''enrollment continue intent is out of order'')
      else and_then (e_exact value [''connection_generation'', ''event_sequence'', ''event_ordinal'',
             ''event_sha256'']) (\<lambda>evidence.
      and_then (e_same_generation evidence (es_baseline s)) (\<lambda>_.
      and_then (e_uint (dict_get evidence ''event_sequence'') ''event sequence'' uint64_max) (\<lambda>sequence.
      and_then (e_uint (dict_get evidence ''event_ordinal'') ''event ordinal'' uint64_max) (\<lambda>ordinal.
      if ordinal \<noteq> 70 \<and> \<not> (100 \<le> ordinal \<and> ordinal \<le> 355)
      then Inl (enrollment_error ''continue intent does not follow a continue event'')
      else if not_increasing s sequence
      then Inl (enrollment_error ''continue event sequence is not increasing'')
      else and_then (e_sha256 (dict_get evidence ''event_sha256'') ''event_sha256'') (\<lambda>_.
      Inr (s\<lparr>es_pending_event := Some sequence, es_phase := E_CONTINUE_INTENT\<rparr>)))))))"

definition e_continue_observed :: "pyval \<Rightarrow> enroll_state \<Rightarrow> enroll_state res" where
  "e_continue_observed value s =
     (if es_phase s \<noteq> E_CONTINUE_INTENT
      then Inl (enrollment_error ''enrollment continue observation is out of order'')
      else
        let legacy = (isinstance_dict value \<and> dict_keys_are (dict_of value) [''event_sequence'', ''status'']) in
      and_then (if legacy then Inr (dict_of value)
                else e_exact value [''event_sequence'', ''status'', ''return_status_authoritative'']) (\<lambda>evidence.
      and_then (e_uint (dict_get evidence ''event_sequence'') ''event sequence'' uint64_max) (\<lambda>sequence.
      and_then (e_status (dict_get evidence ''status'') ''continue status'') (\<lambda>status.
      if Some sequence \<noteq> es_pending_event s
      then Inl (enrollment_error ''continue observation disagrees with its intent'')
      else if legacy \<and> status \<noteq> 0
      then Inl (enrollment_error ''legacy continue observation has nonzero status'')
      else if \<not> legacy \<and> dict_get evidence ''return_status_authoritative'' \<noteq> PyBool False
      then Inl (enrollment_error ''continue return status was incorrectly treated as authoritative'')
      else Inr (s\<lparr>es_last_event := es_pending_event s, es_pending_event := None, es_phase := E_ACTIVE\<rparr>)))))"

definition e_cancel_intent :: "pyval \<Rightarrow> enroll_state \<Rightarrow> enroll_state res" where
  "e_cancel_intent value s =
     (if es_phase s \<noteq> E_ACTIVE
      then Inl (enrollment_error ''enrollment cancel intent is out of order'')
      else and_then (e_exact value [''connection_generation'', ''reason'']) (\<lambda>evidence.
      and_then (e_same_generation evidence (es_baseline s)) (\<lambda>_.
      and_then (in_str_set (dict_get evidence ''reason'') [''caller-requested'', ''primary-failure'']) (\<lambda>known.
      if \<not> known then Inl (enrollment_error ''unsupported enrollment cancel reason'')
      else Inr (s\<lparr>es_phase := E_CANCEL_INTENT\<rparr>)))))"

definition e_cancel_dispatch_observed :: "pyval \<Rightarrow> enroll_state \<Rightarrow> enroll_state res" where
  "e_cancel_dispatch_observed value s =
     (if es_phase s \<noteq> E_CANCEL_INTENT
      then Inl (enrollment_error ''cancel dispatch observation is out of order'')
      else and_then (e_exact value [''status'']) (\<lambda>evidence.
      and_then (e_status (dict_get evidence ''status'') ''cancel status'') (\<lambda>status.
      if status \<noteq> 0 then Inl (enrollment_error ''accepted cancel dispatch status is not zero'')
      else Inr (s\<lparr>es_phase := E_CANCEL_REQUESTED\<rparr>))))"

section \<open>Terminal events\<close>

definition e_terminal_identity :: "pyval \<Rightarrow> enroll_state \<Rightarrow> enroll_state res" where
  "e_terminal_identity value s =
     (if es_phase s \<notin> {E_ACTIVE, E_CANCEL_REQUESTED}
      then Inl (enrollment_error ''terminal identity is out of order'')
      else and_then (e_exact value [''connection_generation'', ''event_sequence'', ''envelope_type'',
             ''event_version'', ''user_id'', ''identity_uuid'']) (\<lambda>evidence.
      and_then (e_same_generation evidence (es_baseline s)) (\<lambda>_.
      and_then (e_uint (dict_get evidence ''event_sequence'') ''event sequence'' uint64_max) (\<lambda>sequence.
      if not_increasing s sequence
      then Inl (enrollment_error ''terminal event sequence is not increasing'')
      else if \<not> py_eq (dict_get evidence ''envelope_type'') (PyInt SERVICE_ENROLLMENT_RESULT)
         \<or> \<not> in_int_tuple (dict_get evidence ''event_version'') [1, 2]
         \<or> \<not> py_eq (dict_get evidence ''user_id'') (dict_get (es_baseline s) ''apple_uid'')
      then Inl (enrollment_error ''terminal identity framing is invalid'')
      else and_then (e_uuid (dict_get evidence ''identity_uuid'') ''identity_uuid'') (\<lambda>_.
      Inr (s\<lparr>es_terminal_identity_uuid := Some (str_of (dict_get evidence ''identity_uuid'')),
             es_last_event := Some sequence, es_phase := E_TERMINAL_IDENTITY\<rparr>))))))"

definition e_terminal_witness :: "pyval \<Rightarrow> enroll_state \<Rightarrow> enroll_state res" where
  "e_terminal_witness value s =
     (if es_phase s \<notin> {E_ACTIVE, E_CANCEL_REQUESTED}
      then Inl (enrollment_error ''terminal result witness is out of order'')
      else and_then (e_exact value [''connection_generation'', ''event_sequence'', ''envelope_type'',
             ''event_version'', ''payload_length'', ''event_sha256'', ''embedded_user_matches'']) (\<lambda>evidence.
      and_then (e_same_generation evidence (es_baseline s)) (\<lambda>_.
      and_then (e_uint (dict_get evidence ''event_sequence'') ''event sequence'' uint64_max) (\<lambda>sequence.
      if not_increasing s sequence
      then Inl (enrollment_error ''terminal event sequence is not increasing'')
      else and_then (e_uint (dict_get evidence ''event_version'') ''event version'' 2) (\<lambda>version.
      and_then (e_uint (dict_get evidence ''payload_length'') ''payload length'' (1024 * 1024)) (\<lambda>payload_length.
      let length_valid = (if version = 1 then payload_length \<ge> 20 else version = 2 \<and> payload_length \<ge> 40) in
      if \<not> py_eq (dict_get evidence ''envelope_type'') (PyInt SERVICE_ENROLLMENT_RESULT)
         \<or> version \<notin> {1, 2} \<or> \<not> length_valid
         \<or> \<not> type_is_bool (dict_get evidence ''embedded_user_matches'')
      then Inl (enrollment_error ''terminal result witness framing is invalid'')
      else and_then (e_sha256 (dict_get evidence ''event_sha256'') ''event_sha256'') (\<lambda>_.
      Inr (s\<lparr>es_last_event := Some sequence, es_phase := E_TERMINAL_WITNESS\<rparr>))))))))"

definition READBACK_KEYS :: "string list" where
  "READBACK_KEYS = [''connection_generation'', ''user_id'', ''identity_uuid'', ''source'',
     ''single_identity_added'', ''host_unchanged'', ''sep_catacomb_advanced'', ''per_user_global_equal'',
     ''mapping_generation'']"

definition READBACK_FLAGS :: "string list" where
  "READBACK_FLAGS = [''single_identity_added'', ''host_unchanged'', ''sep_catacomb_advanced'',
     ''per_user_global_equal'']"

definition e_witness_readback :: "pyval \<Rightarrow> enroll_state \<Rightarrow> enroll_state res" where
  "e_witness_readback value s =
     (if es_phase s \<noteq> E_TERMINAL_WITNESS
      then Inl (enrollment_error ''witness identity read-back is out of order'')
      else and_then (e_exact value READBACK_KEYS) (\<lambda>evidence.
      and_then (e_uuid (dict_get evidence ''connection_generation'') ''witness read-back connection generation'') (\<lambda>_.
      and_then (e_uuid (dict_get evidence ''identity_uuid'') ''identity_uuid'') (\<lambda>_.
      and_then (e_sha256 (dict_get evidence ''mapping_generation'') ''mapping_generation'') (\<lambda>_.
      if \<not> py_eq (dict_get evidence ''user_id'') (dict_get (es_baseline s) ''apple_uid'')
         \<or> \<not> py_eq (dict_get evidence ''source'') (PyStr ''stable-readback'')
         \<or> \<not> py_eq (dict_get evidence ''mapping_generation'') (dict_get (es_baseline s) ''mapping_generation'')
      then Inl (enrollment_error ''witness identity read-back binding is invalid'')
      else and_then (all_true (enrollment_error ''witness identity read-back field '') evidence READBACK_FLAGS) (\<lambda>_.
      let s1 = s\<lparr>es_terminal_identity_uuid := Some (str_of (dict_get evidence ''identity_uuid''))\<rparr>;
          generation = dict_get evidence ''connection_generation'' in
      if \<not> py_eq generation (dict_get (es_baseline s) ''connection_generation'')
      then and_then (use_recovery_generation generation (es_persistence s)) (\<lambda>persistence.
           Inr (s1\<lparr>es_persistence_connection_generation := generation, es_persistence := persistence,
                   es_phase := E_TERMINAL_IDENTITY\<rparr>))
      else Inr (s1\<lparr>es_phase := E_TERMINAL_IDENTITY\<rparr>)))))))"

definition e_terminal_failure :: "pyval \<Rightarrow> enroll_state \<Rightarrow> enroll_state res" where
  "e_terminal_failure value s =
     (if es_phase s \<notin> {E_ACTIVE, E_CANCEL_REQUESTED}
      then Inl (enrollment_error ''terminal failure is out of order'')
      else and_then (e_exact value [''connection_generation'', ''event_sequence'', ''envelope_type'',
             ''status'']) (\<lambda>evidence.
      and_then (e_same_generation evidence (es_baseline s)) (\<lambda>_.
      and_then (e_uint (dict_get evidence ''event_sequence'') ''event sequence'' uint64_max) (\<lambda>sequence.
      if not_increasing s sequence
      then Inl (enrollment_error ''terminal event sequence is not increasing'')
      else if \<not> py_eq (dict_get evidence ''envelope_type'') (PyInt SERVICE_STATUS)
         \<or> \<not> in_int_tuple (dict_get evidence ''status'') [66, 67, 68]
      then Inl (enrollment_error ''terminal failure status is invalid'')
      else Inr (s\<lparr>es_last_event := Some sequence, es_terminal_status := Some (int_of (dict_get evidence ''status'')),
             es_phase := E_TERMINAL_FAILURE\<rparr>)))))"

definition e_failure_readback :: "pyval \<Rightarrow> enroll_state \<Rightarrow> enroll_state res" where
  "e_failure_readback value s =
     (if es_phase s \<noteq> E_TERMINAL_FAILURE
      then Inl (enrollment_error ''post-failure identity read-back is out of order'')
      else and_then (e_exact value [''connection_generation'', ''user_id'', ''identity_uuid'', ''source'']) (\<lambda>evidence.
      and_then (e_same_generation evidence (es_baseline s)) (\<lambda>_.
      if \<not> py_eq (dict_get evidence ''user_id'') (dict_get (es_baseline s) ''apple_uid'')
         \<or> \<not> py_eq (dict_get evidence ''source'') (PyStr ''stable-readback'')
      then Inl (enrollment_error ''post-failure identity read-back is invalid'')
      else and_then (e_uuid (dict_get evidence ''identity_uuid'') ''identity_uuid'') (\<lambda>_.
      Inr (s\<lparr>es_terminal_identity_uuid := Some (str_of (dict_get evidence ''identity_uuid'')),
             es_phase := E_TERMINAL_IDENTITY\<rparr>)))))"

definition e_recovery_readback :: "pyval \<Rightarrow> enroll_state \<Rightarrow> enroll_state res" where
  "e_recovery_readback value s =
     (if es_phase s \<noteq> E_OUTCOME_UNKNOWN \<or> es_outcome_unknown_stage s \<noteq> Some ''terminal''
      then Inl (enrollment_error ''terminal identity recovery is out of order'')
      else and_then (e_exact value READBACK_KEYS) (\<lambda>evidence.
      and_then (e_uuid (dict_get evidence ''connection_generation'') ''recovery connection generation'') (\<lambda>_.
      and_then (e_uuid (dict_get evidence ''identity_uuid'') ''identity_uuid'') (\<lambda>_.
      and_then (e_sha256 (dict_get evidence ''mapping_generation'') ''mapping_generation'') (\<lambda>_.
      if py_eq (dict_get evidence ''connection_generation'') (dict_get (es_baseline s) ''connection_generation'')
         \<or> \<not> py_eq (dict_get evidence ''user_id'') (dict_get (es_baseline s) ''apple_uid'')
         \<or> \<not> py_eq (dict_get evidence ''source'') (PyStr ''stable-readback'')
         \<or> \<not> py_eq (dict_get evidence ''mapping_generation'') (dict_get (es_baseline s) ''mapping_generation'')
      then Inl (enrollment_error ''terminal identity recovery binding is invalid'')
      else and_then (all_true (enrollment_error ''terminal identity recovery field '') evidence READBACK_FLAGS) (\<lambda>_.
      let generation = dict_get evidence ''connection_generation'' in
      and_then (use_recovery_generation generation (es_persistence s)) (\<lambda>persistence.
      Inr (s\<lparr>es_terminal_identity_uuid := Some (str_of (dict_get evidence ''identity_uuid'')),
             es_persistence_connection_generation := generation, es_persistence := persistence,
             es_phase := E_TERMINAL_IDENTITY\<rparr>))))))))"

section \<open>Persistence and reconciliation\<close>

definition e_catacomb :: "(string \<Rightarrow> string) \<Rightarrow> pyval \<Rightarrow> pyval \<Rightarrow> enroll_state \<Rightarrow> enroll_state res" where
  "e_catacomb H milestone value s =
     (let identity_persistence = (es_terminal_identity_uuid s \<noteq> None);
          failure_biolockout_persistence =
            (es_terminal_identity_uuid s = None \<and> es_terminal_status s \<noteq> None);
          early_confirm_recovery =
            (py_eq milestone (PyStr ''CATACOMB_EARLY_CONFIRM_RECOVERED'')
             \<and> es_phase s = E_OUTCOME_UNKNOWN \<and> identity_persistence) in
      if \<not> identity_persistence \<and> \<not> failure_biolockout_persistence
         \<or> \<not> early_confirm_recovery
           \<and> es_phase s \<notin> {E_TERMINAL_IDENTITY, E_TERMINAL_FAILURE, E_PERSISTING}
      then Inl (enrollment_error ''Catacomb persistence has no terminal identity or failure'')
      else and_then (rewrap PersistenceJournalError EnrollmentJournalError
             (consume H failure_biolockout_persistence milestone value (es_persistence s))) (\<lambda>(_, persistence).
      Inr (s\<lparr>es_persistence := persistence,
             es_persistence_connection_generation :=
               (if early_confirm_recovery then dict_get (dict_of value) ''connection_generation''
                else es_persistence_connection_generation s),
             es_phase :=
               (if pt_phase persistence = P_COMPLETE then E_PERSISTENCE_READY
                else if pt_phase persistence = P_OUTCOME_UNKNOWN then E_OUTCOME_UNKNOWN
                else if early_confirm_recovery then E_TERMINAL_IDENTITY else E_PERSISTING)\<rparr>)))"

definition RECONCILIATION_KEYS :: "string list" where
  "RECONCILIATION_KEYS = [''connection_generation'', ''snapshot_sha256'', ''identity_uuid'',
     ''identity_present'', ''host_sep_identity_equal'', ''catacomb_reconciled'', ''bindings_preserved'',
     ''mapping_generation'', ''capacity_used'', ''capacity_maximum'', ''master_enrollment_count'']"

definition RECONCILIATION_FLAGS :: "string list" where
  "RECONCILIATION_FLAGS = [''host_sep_identity_equal'', ''catacomb_reconciled'', ''bindings_preserved'']"

definition e_reconciled :: "pyval \<Rightarrow> enroll_state \<Rightarrow> enroll_state res" where
  "e_reconciled value s =
     (if es_phase s \<notin> {E_PERSISTENCE_READY, E_TERMINAL_FAILURE}
      then Inl (enrollment_error ''E3 reconciliation is out of order'')
      else and_then (e_exact value RECONCILIATION_KEYS) (\<lambda>evidence.
      if \<not> py_eq (dict_get evidence ''connection_generation'') (es_persistence_connection_generation s)
      then Inl (enrollment_error ''E3 used another persistence connection generation'')
      else and_then (e_sha256 (dict_get evidence ''snapshot_sha256'') ''snapshot_sha256'') (\<lambda>_.
      and_then (e_sha256 (dict_get evidence ''mapping_generation'') ''mapping_generation'') (\<lambda>_.
      if \<not> py_eq (dict_get evidence ''mapping_generation'') (dict_get (es_baseline s) ''mapping_generation'')
      then Inl (enrollment_error ''mapping changed before E3'')
      else and_then (all_true (enrollment_error ''E3 field '') evidence RECONCILIATION_FLAGS) (\<lambda>_.
      and_then (e_uint (dict_get evidence ''capacity_used'') ''capacity used'' uint32_max) (\<lambda>used.
      and_then (e_uint (dict_get evidence ''capacity_maximum'') ''capacity maximum'' uint32_max) (\<lambda>maximum.
      and_then (e_uint (dict_get evidence ''master_enrollment_count'') ''master enrollment count'' uint32_max) (\<lambda>_.
      if used > maximum \<or> maximum \<noteq> capacity_field (es_baseline s) ''maximum''
      then Inl (enrollment_error ''E3 capacity is inconsistent'')
      else let reconciled = s\<lparr>es_reconciled_snapshot_sha256 := Some (str_of (dict_get evidence ''snapshot_sha256'')),
             es_phase := E_RECONCILED\<rparr> in
      if es_phase s = E_PERSISTENCE_READY \<and> es_terminal_identity_uuid s \<noteq> None
      then and_then (e_uuid (dict_get evidence ''identity_uuid'') ''identity_uuid'') (\<lambda>_.
           if \<not> py_eq (dict_get evidence ''identity_uuid'') (opt_str (es_terminal_identity_uuid s))
              \<or> \<not> dict_is_true evidence ''identity_present''
              \<or> used \<noteq> capacity_field (es_baseline s) ''used'' + 1
           then Inl (enrollment_error ''E3 identity or capacity does not match E2'')
           else Inr reconciled)
      else if dict_get evidence ''identity_uuid'' \<noteq> PyNone
         \<or> dict_get evidence ''identity_present'' \<noteq> PyBool False
         \<or> used \<noteq> capacity_field (es_baseline s) ''used''
      then Inl (enrollment_error ''failure reconciliation observed an unexpected identity'')
      else Inr reconciled))))))))"

text \<open>The two recovery milestones share their branch; \<open>readback\<close> says which one it is.\<close>

definition readback_recovery_differs :: "pydict \<Rightarrow> int \<Rightarrow> int \<Rightarrow> enroll_state \<Rightarrow> bool" where
  "readback_recovery_differs evidence used maximum s =
     (pt_phase (es_persistence s) \<noteq> P_OUTCOME_UNKNOWN
      \<or> pt_outcome_unknown_stage (es_persistence s) \<noteq> Some ''readback''
      \<or> pt_outcome_unknown_host_commit_possible (es_persistence s) \<noteq> Some True
      \<or> es_terminal_identity_uuid s = None
      \<or> \<not> py_eq (dict_get evidence ''identity_uuid'') (opt_str (es_terminal_identity_uuid s))
      \<or> \<not> dict_is_true evidence ''identity_present''
      \<or> used \<noteq> (if dict_get (dict_of (dict_get (es_baseline s) ''sep_catacomb'')) ''present'' = PyBool False
                  then capacity_field (es_baseline s) ''used''
                  else capacity_field (es_baseline s) ''used'' + 1)
      \<or> maximum \<noteq> capacity_field (es_baseline s) ''maximum'')"

definition e_recovery_reconciled :: "bool \<Rightarrow> pyval \<Rightarrow> enroll_state \<Rightarrow> enroll_state res" where
  "e_recovery_reconciled readback value s =
     (if es_phase s \<noteq> E_OUTCOME_UNKNOWN
      then Inl (enrollment_error ''outcome-unknown recovery reconciliation is out of order'')
      else and_then (e_exact value RECONCILIATION_KEYS) (\<lambda>evidence.
      and_then (e_uuid (dict_get evidence ''connection_generation'') ''recovery connection generation'') (\<lambda>_.
      if py_eq (dict_get evidence ''connection_generation'') (dict_get (es_baseline s) ''connection_generation'')
      then Inl (enrollment_error ''outcome-unknown recovery did not use a fresh Bridge generation'')
      else and_then (e_sha256 (dict_get evidence ''snapshot_sha256'') ''snapshot_sha256'') (\<lambda>_.
      and_then (e_sha256 (dict_get evidence ''mapping_generation'') ''mapping_generation'') (\<lambda>_.
      if \<not> py_eq (dict_get evidence ''mapping_generation'') (dict_get (es_baseline s) ''mapping_generation'')
      then Inl (enrollment_error ''mapping changed before recovery reconciliation'')
      else and_then (all_true (enrollment_error ''recovery reconciliation field '') evidence RECONCILIATION_FLAGS) (\<lambda>_.
      and_then (e_uint (dict_get evidence ''capacity_used'') ''capacity used'' uint32_max) (\<lambda>used.
      and_then (e_uint (dict_get evidence ''capacity_maximum'') ''capacity maximum'' uint32_max) (\<lambda>maximum.
      and_then (e_uint (dict_get evidence ''master_enrollment_count'') ''master enrollment count'' uint32_max) (\<lambda>_.
      if readback \<and> readback_recovery_differs evidence used maximum s
      then Inl (enrollment_error ''persistence readback recovery evidence is inconsistent'')
      else if \<not> readback \<and>
         (dict_get evidence ''identity_uuid'' \<noteq> PyNone
          \<or> dict_get evidence ''identity_present'' \<noteq> PyBool False
          \<or> used \<noteq> capacity_field (es_baseline s) ''used''
          \<or> maximum \<noteq> capacity_field (es_baseline s) ''maximum'')
      then Inl (enrollment_error ''outcome-unknown recovery observed a persistent identity delta'')
      else Inr (s\<lparr>es_reconciled_snapshot_sha256 := Some (str_of (dict_get evidence ''snapshot_sha256'')),
             es_phase := E_RECONCILED\<rparr>))))))))))"

section \<open>Verification and rollback\<close>

definition e_verified :: "bool \<Rightarrow> pyval \<Rightarrow> enroll_state \<Rightarrow> enroll_state res" where
  "e_verified post_reboot value s =
     (if es_phase s \<noteq> E_RECONCILED \<or> es_terminal_identity_uuid s = None
      then Inl (enrollment_error ''E4 verification is out of order'')
      else and_then (e_exact value [''linux_boot_uuid'', ''connection_generation'', ''bridge_boot_uuid'',
             ''protocol_version'', ''mapping_generation'', ''account_uuid'', ''bag_uuid'', ''identity_uuid'',
             ''snapshot_sha256'', ''double_collection_equal'', ''host_sep_identity_equal'',
             ''bindings_preserved'', ''keybag_runtime_revalidated'']) (\<lambda>evidence.
      and_then (all_ok (map (\<lambda>field. e_uuid (dict_get evidence field) field)
             [''linux_boot_uuid'', ''connection_generation'', ''account_uuid'', ''bag_uuid'', ''identity_uuid''])) (\<lambda>_.
      and_then (if dict_get evidence ''bridge_boot_uuid'' = PyNone then Inr ()
                else e_uuid (dict_get evidence ''bridge_boot_uuid'') ''bridge_boot_uuid'') (\<lambda>_.
      and_then (e_sha256 (dict_get evidence ''mapping_generation'') ''mapping_generation'') (\<lambda>_.
      and_then (e_sha256 (dict_get evidence ''snapshot_sha256'') ''snapshot_sha256'') (\<lambda>_.
      let same = (\<lambda>k. py_eq (dict_get evidence k) (dict_get (es_baseline s) k)) in
      if same ''connection_generation''
      then Inl (enrollment_error ''E4 did not cross a connection boundary'')
      else if post_reboot \<and> same ''linux_boot_uuid''
      then Inl (enrollment_error ''post-reboot E4 did not cross a boot boundary'')
      else if \<not> same ''protocol_version'' \<or> \<not> same ''mapping_generation'' \<or> \<not> same ''account_uuid''
         \<or> \<not> same ''bag_uuid''
         \<or> \<not> py_eq (dict_get evidence ''identity_uuid'') (opt_str (es_terminal_identity_uuid s))
         \<or> \<not> py_eq (dict_get evidence ''snapshot_sha256'') (opt_str (es_reconciled_snapshot_sha256 s))
      then Inl (enrollment_error ''E4 state differs from reconciled E3'')
      else and_then (all_true (enrollment_error ''E4 field '') evidence
             [''double_collection_equal'', ''host_sep_identity_equal'', ''bindings_preserved'',
              ''keybag_runtime_revalidated'']) (\<lambda>_.
      Inr (s\<lparr>es_post_reboot_linux_boot_uuid := Some (str_of (dict_get evidence ''linux_boot_uuid'')),
             es_phase := E_POST_REBOOT_VERIFIED\<rparr>))))))))"

definition e_rolled_back :: "pyval \<Rightarrow> enroll_state \<Rightarrow> enroll_state res" where
  "e_rolled_back value s =
     (if es_phase s \<noteq> E_RECONCILED \<or> es_terminal_identity_uuid s = None
         \<or> \<not> py_eq (dict_get (es_baseline s) ''baseline_version'') (PyInt 1)
      then Inl (enrollment_error ''additional-identity rollback is out of order'')
      else and_then (e_exact value [''linux_boot_uuid'', ''identity_uuid'', ''delete_operation_id'',
             ''delete_journal_head_sha256'', ''baseline_identity_count'', ''identity_count'', ''target_absent'',
             ''local_live_equal'', ''account_bindings_preserved'']) (\<lambda>evidence.
      and_then (all_ok (map (\<lambda>field. e_uuid (dict_get evidence field) field)
             [''linux_boot_uuid'', ''identity_uuid'', ''delete_operation_id''])) (\<lambda>_.
      and_then (e_sha256 (dict_get evidence ''delete_journal_head_sha256'') ''delete journal head'') (\<lambda>_.
      let baseline_count = int (length (list_of (dict_get (es_baseline s) ''identity_records''))) in
      if \<not> py_eq (dict_get evidence ''identity_uuid'') (opt_str (es_terminal_identity_uuid s))
         \<or> \<not> py_eq (dict_get evidence ''baseline_identity_count'') (PyInt baseline_count)
         \<or> \<not> py_eq (dict_get evidence ''identity_count'') (PyInt baseline_count)
         \<or> \<not> dict_is_true evidence ''target_absent'' \<or> \<not> dict_is_true evidence ''local_live_equal''
         \<or> \<not> dict_is_true evidence ''account_bindings_preserved''
      then Inl (enrollment_error ''additional-identity rollback evidence changed'')
      else Inr (s\<lparr>es_phase := E_ADDITION_ROLLED_BACK\<rparr>)))))"

definition e_match_verified :: "pyval \<Rightarrow> enroll_state \<Rightarrow> enroll_state res" where
  "e_match_verified value s =
     (if es_phase s \<noteq> E_RECONCILED \<or> es_terminal_identity_uuid s = None
         \<or> \<not> py_eq (dict_get (es_baseline s) ''baseline_version'') (PyInt 1)
      then Inl (enrollment_error ''additional-identity verification is out of order'')
      else and_then (e_exact value [''linux_boot_uuid'', ''public_result_sha256'', ''private_events_sha256'',
             ''host_accepted_result'', ''matches_required_identity'', ''configured_identity_records_reconciled'',
             ''match_cleanup_valid'', ''bridge_os_transaction_released_after_match'',
             ''global_identity_record_count'', ''template_sync_identity_count'', ''biolockout_generation'']) (\<lambda>evidence.
      and_then (e_uuid (dict_get evidence ''linux_boot_uuid'') ''linux_boot_uuid'') (\<lambda>_.
      and_then (e_sha256 (dict_get evidence ''public_result_sha256'') ''public_result_sha256'') (\<lambda>_.
      and_then (e_sha256 (dict_get evidence ''private_events_sha256'') ''private_events_sha256'') (\<lambda>_.
      if \<not> py_eq (dict_get evidence ''linux_boot_uuid'') (dict_get (es_baseline s) ''linux_boot_uuid'')
      then Inl (enrollment_error ''additional-identity verification crossed a boot boundary'')
      else and_then (all_true (enrollment_error ''additional-identity verification field '') evidence
             [''host_accepted_result'', ''matches_required_identity'', ''configured_identity_records_reconciled'',
              ''match_cleanup_valid'', ''bridge_os_transaction_released_after_match'']) (\<lambda>_.
      let expected_count = capacity_field (es_baseline s) ''used'' + 1 in
      and_then (e_uint (dict_get evidence ''global_identity_record_count'') ''global identity record count''
             uint32_max) (\<lambda>global_count.
      and_then (e_uint (dict_get evidence ''template_sync_identity_count'') ''template sync identity count''
             uint32_max) (\<lambda>template_count.
      and_then (e_uint (dict_get evidence ''biolockout_generation'') ''BioLockout generation'' uint32_max) (\<lambda>_.
      if global_count \<noteq> expected_count \<or> template_count \<noteq> expected_count
      then Inl (enrollment_error ''additional-identity verification inventory count changed'')
      else Inr (s\<lparr>es_phase := E_ADDITION_VERIFIED\<rparr>))))))))))"

definition e_outcome_unknown :: "pyval \<Rightarrow> enroll_state \<Rightarrow> enroll_state res" where
  "e_outcome_unknown value s =
     (if es_phase s \<notin> {E_START_INTENT, E_ACTIVE, E_CONTINUE_INTENT, E_CANCEL_INTENT, E_CANCEL_REQUESTED,
           E_TERMINAL_WITNESS, E_PERSISTING}
      then Inl (enrollment_error ''outcome-unknown marker is out of order'')
      else and_then (e_exact value [''connection_generation'', ''stage'', ''reason'', ''mutation_possible'']) (\<lambda>evidence.
      and_then (e_same_generation evidence (es_baseline s)) (\<lambda>_.
      let persistence_interruption = (es_phase s = E_PERSISTING);
          stage_options = (if persistence_interruption
            then [''local-prepare-discarded'', ''local-commit-rolled-forward'']
            else [''start'', ''active'', ''continue'', ''cancel'', ''terminal'']);
          reason_options = (if persistence_interruption then [''process-interrupted'']
            else [''transport-error'', ''connection-lost'', ''journal-error'', ''protocol-error'']);
          member = (\<lambda>k options. isinstance_str (dict_get evidence k)
                     \<and> str_of (dict_get evidence k) \<in> set options) in
      if \<not> member ''stage'' stage_options \<or> \<not> member ''reason'' reason_options
         \<or> \<not> dict_is_true evidence ''mutation_possible''
      then Inl (enrollment_error ''outcome-unknown evidence is invalid'')
      else Inr (s\<lparr>es_outcome_unknown_stage := Some (str_of (dict_get evidence ''stage'')),
             es_phase := E_OUTCOME_UNKNOWN\<rparr>))))"


section \<open>The loop\<close>

text \<open>Against a string, \<^verbatim>\<open>==\<close> is equality (\<open>py_eq_PyStr\<close>), so the tests on the milestone are equations.\<close>

definition enroll_milestone :: "(string \<Rightarrow> string) \<Rightarrow> pyval \<Rightarrow> pyval \<Rightarrow> enroll_state \<Rightarrow> enroll_state res" where
  "enroll_milestone H milestone evidence s =
     (if milestone = PyStr ''ENROLL_ABORTED_BEFORE_START'' then e_aborted_before_start evidence s
      else if milestone = PyStr ''ENROLL_START_INTENT'' then e_start_intent evidence s
      else if milestone = PyStr ''ENROLL_START_OBSERVED'' then e_start_observed evidence s
      else if milestone = PyStr ''ENROLL_START_REJECTED'' then e_start_rejected evidence s
      else if milestone = PyStr ''ENROLL_CONTINUE_INTENT'' then e_continue_intent evidence s
      else if milestone = PyStr ''ENROLL_CONTINUE_OBSERVED'' then e_continue_observed evidence s
      else if milestone = PyStr ''ENROLL_CANCEL_INTENT'' then e_cancel_intent evidence s
      else if milestone = PyStr ''ENROLL_CANCEL_DISPATCH_OBSERVED'' then e_cancel_dispatch_observed evidence s
      else if milestone = PyStr ''E2_TERMINAL_IDENTITY_OBSERVED'' then e_terminal_identity evidence s
      else if milestone = PyStr ''E2_TERMINAL_RESULT_WITNESSED'' then e_terminal_witness evidence s
      else if milestone = PyStr ''E2_WITNESS_IDENTITY_READBACK_OBSERVED'' then e_witness_readback evidence s
      else if milestone = PyStr ''ENROLL_TERMINAL_FAILURE_OBSERVED'' then e_terminal_failure evidence s
      else if milestone = PyStr ''E2_IDENTITY_READBACK_OBSERVED'' then e_failure_readback evidence s
      else if milestone = PyStr ''E2_RECOVERY_IDENTITY_READBACK_OBSERVED'' then e_recovery_readback evidence s
      else if isinstance_str milestone \<and> startswith (str_of milestone) ''CATACOMB_''
      then e_catacomb H milestone evidence s
      else if milestone = PyStr ''E3_RECONCILED'' then e_reconciled evidence s
      else and_then (in_str_set milestone [''E3_RECOVERY_NO_CHANGE_RECONCILED'',
             ''E3_PERSISTENCE_READBACK_RECOVERED'']) (\<lambda>recovery.
      if recovery
      then e_recovery_reconciled (milestone = PyStr ''E3_PERSISTENCE_READBACK_RECOVERED'') evidence s
      else and_then (in_str_set milestone [''E4_RUNTIME_VERIFIED'', ''E4_POST_REBOOT_VERIFIED'']) (\<lambda>verified.
      if verified then e_verified (milestone = PyStr ''E4_POST_REBOOT_VERIFIED'') evidence s
      else if milestone = PyStr ''ADDITION_ROLLED_BACK'' then e_rolled_back evidence s
      else if milestone = PyStr ''ADDITION_MATCH_VERIFIED'' then e_match_verified evidence s
      else if milestone = PyStr ''ENROLL_OUTCOME_UNKNOWN'' then e_outcome_unknown evidence s
      else Inl (enrollment_error ''unsupported enrollment milestone''))))"

definition enroll_step :: "(string \<Rightarrow> string) \<Rightarrow> pydict \<Rightarrow> enroll_state \<Rightarrow> enroll_state res" where
  "enroll_step H record s =
     (if is_repair_milestone (dict_get record ''milestone'') then Inr s
      else if \<not> py_eq (dict_get record ''operation_id'') (PyStr (es_operation_id s))
      then Inl (enrollment_error ''operation ID changed inside enrollment journal'')
      else enroll_milestone H (dict_get record ''milestone'') (dict_get record ''evidence'') s)"

definition enroll_start :: "pydict \<Rightarrow> enroll_state res" where
  "enroll_start first =
     (if \<not> py_eq (dict_get first ''milestone'') (PyStr ''BASELINE_RECONCILED'')
      then Inl (enrollment_error ''enrollment journal has no reconciled baseline'')
      else and_then (e_exact (dict_get first ''evidence'') [''operation_kind'', ''baseline'']) (\<lambda>initial.
      if \<not> py_eq (dict_get initial ''operation_kind'') (PyStr ''enroll'')
      then Inl (enrollment_error ''journal is not an enrollment operation'')
      else and_then (rewrap JournalError EnrollmentJournalError
             (validate_baseline (dict_get initial ''baseline''))) (\<lambda>_.
      let baseline = dict_of (dict_get initial ''baseline'') in
      if \<not> dict_is_true baseline ''password_fallback_verified''
      then Inl (enrollment_error ''enrollment password fallback is not verified'')
      else and_then (e_uuid (dict_get first ''operation_id'') ''operation_id'') (\<lambda>_.
      and_then (tracker_init baseline ''enrollment'') (\<lambda>persistence.
      Inr \<lparr>es_operation_id = str_of (dict_get first ''operation_id''), es_baseline = baseline,
           es_phase = E_BASELINE, es_last_event = None, es_pending_event = None,
           es_terminal_identity_uuid = None, es_terminal_status = None, es_persistence = persistence,
           es_reconciled_snapshot_sha256 = None, es_post_reboot_linux_boot_uuid = None,
           es_outcome_unknown_stage = None,
           es_persistence_connection_generation = dict_get baseline ''connection_generation''\<rparr>)))))"

definition enrollment_validate_history :: "(string \<Rightarrow> string) \<Rightarrow> pydict list \<Rightarrow> enrollment_history res" where
  "enrollment_validate_history H records =
     (case records of
        [] \<Rightarrow> Inl (enrollment_error ''enrollment journal is empty'')
      | first # rest \<Rightarrow>
          and_then (enroll_start first) (\<lambda>s0.
          and_then (fold_res (enroll_step H) rest s0) (\<lambda>s.
          let head_hash = dict_get (last records) ''record_hash'' in
          and_then (e_sha256 head_hash ''journal head hash'') (\<lambda>_.
          Inr \<lparr>eh_operation_id = es_operation_id s, eh_phase = es_phase s, eh_baseline = es_baseline s,
               eh_last_event_sequence = es_last_event s, eh_pending_event_sequence = es_pending_event s,
               eh_record_count = int (length records), eh_head_hash = str_of head_hash,
               eh_terminal_identity_uuid = es_terminal_identity_uuid s,
               eh_terminal_status = es_terminal_status s,
               eh_persistence = tracker_snapshot (es_persistence s),
               eh_reconciled_snapshot_sha256 = es_reconciled_snapshot_sha256 s,
               eh_post_reboot_linux_boot_uuid = es_post_reboot_linux_boot_uuid s,
               eh_outcome_unknown_stage = es_outcome_unknown_stage s,
               eh_persistence_connection_generation = es_persistence_connection_generation s\<rparr>))))"

section \<open>Files\<close>

definition enrollment_read ::
    "(string \<Rightarrow> string) \<Rightarrow> int list \<Rightarrow> journal_fs \<Rightarrow> enrollment_history res \<times> journal_fs" where
  "enrollment_read H ws fs =
     (case read_journal H ws fs of (r, fs') \<Rightarrow> (and_then r (enrollment_validate_history H), fs'))"

definition require_start_ready ::
    "enrollment_history \<Rightarrow> string \<Rightarrow> string \<Rightarrow> string \<Rightarrow> int \<Rightarrow> int \<Rightarrow> int \<Rightarrow> unit res" where
  "require_start_ready history linux_boot_uuid connection_generation mapping_generation
       caller_linux_uid target_linux_uid protocol_version =
     (let baseline = eh_baseline history in
      if eh_phase history \<noteq> E_BASELINE
      then Inl (enrollment_error ''journal is not at the E0 baseline'')
      else if \<not> py_eq (dict_get baseline ''linux_boot_uuid'') (PyStr linux_boot_uuid)
      then Inl (enrollment_error ''baseline belongs to another Linux boot'')
      else if \<not> py_eq (dict_get baseline ''connection_generation'') (PyStr connection_generation)
      then Inl (enrollment_error ''baseline was not collected on the enrollment connection'')
      else if \<not> py_eq (dict_get baseline ''mapping_generation'') (PyStr mapping_generation)
      then Inl (enrollment_error ''protected mapping changed after baseline'')
      else if \<not> py_eq (dict_get baseline ''caller_linux_uid'') (PyInt caller_linux_uid)
         \<or> \<not> py_eq (dict_get baseline ''target_linux_uid'') (PyInt target_linux_uid)
      then Inl (enrollment_error ''Linux caller or target differs from baseline'')
      else if \<not> py_eq (dict_get baseline ''protocol_version'') (PyInt protocol_version)
         \<or> protocol_version \<notin> {1, 2}
      then Inl (enrollment_error ''biometric protocol differs from baseline'')
      else if capacity_field baseline ''used'' \<ge> capacity_field baseline ''maximum''
      then Inl (enrollment_error ''enrollment capacity is exhausted'')
      else Inr ())"

definition enrollment_append_checked ::
    "(string \<Rightarrow> string) \<Rightarrow> int list \<Rightarrow> int list \<Rightarrow> int list \<Rightarrow> int list \<Rightarrow> string \<Rightarrow> string \<Rightarrow> pydict \<Rightarrow>
     journal_fs \<Rightarrow> enrollment_history res \<times> journal_fs" where
  "enrollment_append_checked H ws ws1 ws2 ws3 operation_id milestone evidence fs =
     (case read_journal H ws fs of
        (Inl e, fs1) \<Rightarrow> (Inl e, fs1)
      | (Inr records, fs1) \<Rightarrow>
          case enrollment_validate_history H records of
            Inl e \<Rightarrow> (Inl e, fs1)
          | Inr current \<Rightarrow>
              if operation_id \<noteq> eh_operation_id current
              then (Inl (enrollment_error ''operation ID does not match enrollment journal''), fs1)
              else case enrollment_validate_history H
                          (records @ [candidate_record operation_id milestone evidence]) of
                Inl e \<Rightarrow> (Inl e, fs1)
              | Inr _ \<Rightarrow>
                  (case journal_append H ws1 ws2 operation_id milestone evidence False
                          (Some (eh_record_count current)) (Some (eh_head_hash current)) fs1 of
                     (Inl e, fs2) \<Rightarrow> (Inl e, fs2)
                   | (Inr _, fs2) \<Rightarrow> enrollment_read H ws3 fs2))"

end
