(* ===== verification/Journal_Recovery.thy ===== *)
theory Journal_Recovery
  imports Typed_Journal
begin

text \<open>
  Journals under repeated failures. A file keeps given records when it begins with them and goes on with complete
  records and an unterminated rest. Reads and checked appends, whatever their \<^verbatim>\<open>os.write\<close> calls do, keep all records, and
  a checked append that succeeds leaves a file without a rest whose last record is the milestone.
\<close>

section \<open>Recoverable files\<close>

definition private_file :: "journal_file \<Rightarrow> bool" where
  "private_file f = (jf_kind f = RegularFile \<and> jf_owned f \<and> jf_nlink f = 1 \<and> jf_private f)"

definition kept :: "(string \<Rightarrow> string) \<Rightarrow> pydict list \<Rightarrow> journal_fs \<Rightarrow> bool" where
  "kept H base fs = (\<exists>f d t qs. fs_file fs = Some f \<and> private_file f \<and> jf_data f = d @ t \<and> LF \<notin> set t
     \<and> holds H d (base @ qs))"

definition recoverable :: "(string \<Rightarrow> string) \<Rightarrow> pydict \<Rightarrow> journal_fs \<Rightarrow> bool" where
  "recoverable H first fs = kept H [first] fs"

definition clean :: "(string \<Rightarrow> string) \<Rightarrow> pydict list \<Rightarrow> journal_fs \<Rightarrow> bool" where
  "clean H rs fs = (\<exists>f. fs_file fs = Some f \<and> private_file f \<and> holds H (jf_data f) rs)"

lemma kept_torn:
  "fs_file fs = Some f \<Longrightarrow> private_file f \<Longrightarrow> jf_data f = d @ t \<Longrightarrow> LF \<notin> set t \<Longrightarrow> holds H d base \<Longrightarrow> kept H base fs"
  unfolding kept_def by (metis append.right_neutral)

lemma clean_kept: "clean H (base @ qs) fs \<Longrightarrow> kept H base fs"
  unfolding clean_def kept_def by (metis append.right_neutral empty_iff empty_set)

lemma clean_kept_all: "clean H rs fs \<Longrightarrow> kept H rs fs"
  using clean_kept [of H rs "[]"] by simp

lemma kept_prefix: "kept H (base @ qs) fs \<Longrightarrow> kept H base fs"
  unfolding kept_def append_assoc by blast

lemma clean_recoverable: "clean H (first # rs) fs \<Longrightarrow> recoverable H first fs"
  unfolding recoverable_def by (rule clean_kept [of H "[first]" rs]) simp

lemma clean_open: "clean H rs fs \<Longrightarrow> open_private fs = Inr f \<Longrightarrow> holds H (jf_data f) rs"
  by (auto simp: clean_def open_private_def split: if_splits)

lemma open_clean: "open_private fs = Inr f \<Longrightarrow> holds H (jf_data f) rs \<Longrightarrow> clean H rs fs"
  by (auto simp: clean_def open_private_def private_file_def split: option.splits if_splits)

lemma open_private_Inr: "open_private fs = Inr f \<longleftrightarrow>
    fs_file fs = Some f \<and> private_file f \<and> int (length (jf_data f)) \<le> MAX_JOURNAL_BYTES"
  by (auto simp: open_private_def private_file_def split: option.splits if_splits)

section \<open>Reading\<close>

text \<open>A repairing read of a torn file cuts the rest off and appends a repair record, or a torn part of it.\<close>

lemma load_records_torn_any:
  assumes "holds H d rs" and "rs \<noteq> []" and "dict_get (hd rs) ''operation_id'' = PyStr i"
    and "LF \<notin> set t" and "t \<noteq> []" and "load_records H ws True (d @ t) = (res, d')"
  shows "(\<exists>x t'. res = Inl x \<and> d' = d @ t' \<and> LF \<notin> set t') \<or> (\<exists>r r'. res = Inr (rs @ [r]) \<and> holds H d' (rs @ [r']))"
proof (cases "int (length (d @ t)) \<le> MAX_JOURNAL_BYTES")
  case False
  with assms(4,6) show ?thesis by (auto simp: load_records_def payload_from_fd_def)
next
  case True
  let ?e = "[(KStr ''truncated_bytes'', PyInt (int (length t)))]"
  define u where "u = unsigned_fields (PyStr i) (length rs) (head_hash rs) REPAIR_MILESTONE ?e"
  have d: "closed_lines d" "validate_records H (splitlines d) = Inr rs"
    using assms(1) by (simp_all add: holds_def)
  obtain st where "chain_records st = rs" "chain_inv H st" using holds_state [OF assms(1)] .
  then have "plain (head_hash rs)" using head_hash_str [of H rs] by (auto simp: chain_inv_def)
  then have "plain (PyDict u)" unfolding u_def by (intro unsigned_fields_plain) simp_all
  then have un: "unsigned_record H (PyStr i) (length rs) (dict_get (last rs) ''record_hash'') REPAIR_MILESTONE ?e =
      Inr (signed H u)"
    using unsigned_record_eq assms(2) by (auto simp: u_def head_hash_def)
  have item: "dict_item (hd rs) ''operation_id'' = Inr (PyStr i)"
    using assms(3) by (auto simp: dict_item_def dict_get_def split: option.splits)
  have cut: "take (length (concat (splitlines d))) (d @ t) = d" by (simp add: concat_splitlines)
  obtain r1 d1 where ar: "append_record ws (signed H u) d = (r1, d1)" by fastforce
  have run: "res = map_sum id (\<lambda>_. rs @ [signed H u]) r1" "d' = d1"
    using split_complete_lines_torn [OF d(1) assms(4,5)] assms(2,5,6) True d(2) un item cut ar
    by (auto simp: load_records_def payload_from_fd_def repair_torn_tail_def Let_def split: sum.splits)
  have rep: "is_repair_milestone (PyStr REPAIR_MILESTONE) \<longrightarrow> valid_repair_record u"
    unfolding u_def using assms(2,5) by (intro impI repair_evidence_valid) simp_all
  have pe: "plain (PyDict ?e)" by simp
  note snoc = holds_snoc(1) [OF assms(1) pe _ u_def rep]
  from append_record_cases [OF ar] torn_record_line snoc assms(3) run show ?thesis by fastforce
qed

text \<open>Reading keeps the records; a read that returns leaves a clean file, and what it returns begins with them.\<close>

lemma read_kept:
  assumes "kept H base fs" and "base \<noteq> []" and "dict_get (hd base) ''operation_id'' = PyStr i"
    and "read_journal H ws fs = (res, fs')"
  shows "kept H base fs'" and "res = Inr rs \<Longrightarrow> \<exists>qs. clean H (base @ qs) fs'" and "res = Inr rs \<Longrightarrow> \<exists>qs. rs = base @ qs"
proof -
  obtain f d t qs0 where f: "fs_file fs = Some f" "private_file f" "jf_data f = d @ t" "LF \<notin> set t"
    "holds H d (base @ qs0)" using assms(1) by (auto simp: kept_def)
  have cl: "closed_lines d" "validate_records H (splitlines d) = Inr (base @ qs0)" using f(5) by (simp_all add: holds_def)
  have "kept H base fs' \<and> (\<forall>rs. res = Inr rs \<longrightarrow> (\<exists>qs. clean H (base @ qs) fs') \<and> (\<exists>qs. rs = base @ qs))"
  proof (cases "t = [] \<or> fs' = fs \<and> isl res")
    case True
    then show ?thesis
    proof
      assume t: "t = []"
      then have "clean H (base @ qs0) fs" using f by (auto simp: clean_def)
      moreover have "fs' = fs" "\<forall>rs. res = Inr rs \<longrightarrow> rs = base @ qs0"
        using assms(4) f(1,3) t split_complete_lines_closed [OF cl(1)] cl(2)
        by (auto simp: read_journal_def payload_from_fd_def open_private_Inr split: sum.splits if_splits prod.splits)
      ultimately show ?thesis using clean_kept by blast
    qed (use assms(1) in \<open>auto simp: isl_def\<close>)
  next
    case False
    then have t: "t \<noteq> []" by simp
    note sp = split_complete_lines_torn [OF cl(1) f(4) t]
    obtain r1 d1 where ld: "load_records H ws True (d @ t) = (r1, d1)" by fastforce
    have run: "fs' = fs\<lparr>fs_file := Some (f\<lparr>jf_data := d1\<rparr>)\<rparr>" "res = Inr rs \<Longrightarrow> r1 = Inr rs" for rs
      using assms(4) f(1,3) t sp False ld
      by (auto simp: read_journal_def repair_journal_def payload_from_fd_def open_private_Inr
          split: sum.splits if_splits prod.splits)
    have pf: "private_file (f\<lparr>jf_data := d1\<rparr>)" using f(2) by (simp add: private_file_def)
    have hd: "hd (base @ qs0) = hd base" using assms(2) by simp
    from load_records_torn_any [OF f(5) _ _ f(4) t ld] assms(2,3) hd
    consider x t' where "r1 = Inl x" "d1 = d @ t'" "LF \<notin> set t'"
      | r r' where "r1 = Inr ((base @ qs0) @ [r])" "holds H d1 ((base @ qs0) @ [r'])" by auto
    then show ?thesis
    proof cases
      case 1
      with run pf f(5) show ?thesis by (fastforce simp: kept_def)
    next
      case 2
      then have "clean H (base @ qs0 @ [r']) fs'" using run(1) pf by (auto simp: clean_def)
      with 2(1) run(2) show ?thesis using clean_kept by (metis append_assoc sum.inject(2))
    qed
  qed
  then show "kept H base fs'" "res = Inr rs \<Longrightarrow> \<exists>qs. clean H (base @ qs) fs'" "res = Inr rs \<Longrightarrow> \<exists>qs. rs = base @ qs"
    by auto
qed

lemma read_clean:
  assumes "clean H rs fs" and "read_journal H ws fs = (res, fs')"
  shows "fs' = fs \<and> (\<forall>rs'. res = Inr rs' \<longrightarrow> rs' = rs)"
proof -
  obtain f where f: "fs_file fs = Some f" "holds H (jf_data f) rs" using assms(1) by (auto simp: clean_def)
  then have cl: "split_complete_lines (jf_data f) = (splitlines (jf_data f), [])"
    "validate_records H (splitlines (jf_data f)) = Inr rs"
    by (simp_all add: holds_def split_complete_lines_closed)
  then show ?thesis
    using assms(2) f(1)
    by (auto simp: read_journal_def payload_from_fd_def open_private_Inr split: sum.splits if_splits prod.splits)
qed

section \<open>Appending\<close>

lemma append_clean:
  assumes "clean H rs fs" and "plain (PyDict e)"
    and "journal_append H ws ws' i m e False en eh fs = (res, fs')"
  shows "kept H rs fs'"
    and "res = Inr r \<Longrightarrow> \<exists>r'. clean H (rs @ [r']) fs' \<and> dict_get r' ''milestone'' = PyStr m
      \<and> dict_get r' ''evidence'' = sort_dicts (PyDict e)"
proof -
  obtain f where f: "fs_file fs = Some f" "private_file f" "holds H (jf_data f) rs"
    using assms(1) by (auto simp: clean_def)
  have fd: "file_data fs = jf_data f" using f(1) by (simp add: file_data_def)
  have "kept H rs fs' \<and> (\<forall>r. res = Inr r \<longrightarrow> (\<exists>r'. clean H (rs @ [r']) fs'
      \<and> dict_get r' ''milestone'' = PyStr m \<and> dict_get r' ''evidence'' = sort_dicts (PyDict e)))"
    using assms(3)
  proof (cases rule: journal_append_cases)
    case (refused y)
    then have "clean H rs fs'" using assms(1) f by (auto simp: clean_def)
    with refused show ?thesis using clean_kept_all by blast
  next
    case (ran g)
    have pg: "private_file g" using ran by (simp add: private_file_def)
    note run = ran(2) [unfolded fd]
    show ?thesis
    proof (cases "int (length (jf_data f)) \<le> MAX_JOURNAL_BYTES")
      case False
      with run have "file_data fs' = jf_data f" "isl res"
        by (auto simp: append_to_data_def load_records_def payload_from_fd_def split: sum.splits)
      with ran pg f(3) have "clean H rs fs'" by (auto simp: clean_def)
      then show ?thesis using clean_kept_all \<open>isl res\<close> by (auto simp: isl_def)
    next
      case True
      show ?thesis
      proof (cases res)
        case (Inl x)
        from append_to_data_cases [OF f(3) True run] Inl obtain t where "file_data fs' = jf_data f @ t" "LF \<notin> set t"
          by auto
        with ran pg f(3) have "kept H rs fs'" using kept_torn [of fs' g "jf_data f" t H rs] by simp
        then show ?thesis by (simp add: Inl)
      next
        case (Inr r)
        from append_to_data_ok [OF f(3) True assms(2) append_checks_not_repair [OF ran(1)] run [unfolded Inr]]
        obtain r' where r': "holds H (file_data fs') (rs @ [r'])" "dict_get r' ''milestone'' = PyStr m"
          "dict_get r' ''evidence'' = sort_dicts (PyDict e)" .
        with ran pg have "clean H (rs @ [r']) fs'" by (auto simp: clean_def)
        with r' show ?thesis using clean_kept by blast
      qed
    qed
  qed
  then show "kept H rs fs'" and "res = Inr r \<Longrightarrow> \<exists>r'. clean H (rs @ [r']) fs'
      \<and> dict_get r' ''milestone'' = PyStr m \<and> dict_get r' ''evidence'' = sort_dicts (PyDict e)" by auto
qed

context checked_append
begin

lemma append_kept:
  assumes "kept H base fs" and "base \<noteq> []" and "dict_get (hd base) ''operation_id'' = PyStr j" and "plain (PyDict e)"
    and "append_checked ws ws1 ws2 ws3 i m e fs = (res, fs')"
  shows "kept H base fs'"
    and "res = Inr h \<Longrightarrow> \<exists>qs r'. clean H (base @ qs @ [r']) fs' \<and> validate (base @ qs @ [r']) = Inr h
      \<and> dict_get r' ''milestone'' = PyStr m \<and> dict_get r' ''evidence'' = sort_dicts (PyDict e)"
proof -
  obtain r1 fs1 where rd: "read_journal H ws fs = (r1, fs1)" by fastforce
  note rd1 = read_kept [OF assms(1-3) rd]
  have "kept H base fs' \<and> (\<forall>h. res = Inr h \<longrightarrow> (\<exists>qs r'. clean H (base @ qs @ [r']) fs'
      \<and> validate (base @ qs @ [r']) = Inr h
      \<and> dict_get r' ''milestone'' = PyStr m \<and> dict_get r' ''evidence'' = sort_dicts (PyDict e)))"
  proof (cases "fs' = fs1 \<and> isl res")
    case True
    with rd1(1) show ?thesis by (auto simp: isl_def)
  next
    case False
    from assms(5) rd False obtain records current r2 fs2 where c: "r1 = Inr records"
      and ap: "journal_append H ws1 ws2 i m e False (Some (count_of current)) (Some (head_of current)) fs1 = (r2, fs2)"
      and fin: "isl r2 \<and> fs' = fs2 \<and> isl res \<or> (\<exists>r. r2 = Inr r) \<and>
        (case read_journal H ws3 fs2 of (r, fs3) \<Rightarrow> (and_then r validate, fs3)) = (res, fs')"
      unfolding append_checked_eq by (auto simp: isl_def split: sum.splits if_splits prod.splits dest!: sym [of "Inl _"])
    from rd1(2) c obtain qs where cl: "clean H (base @ qs) fs1" by blast
    note ap1 = append_clean [OF cl assms(4) ap]
    from fin show ?thesis
    proof
      assume "isl r2 \<and> fs' = fs2 \<and> isl res"
      with kept_prefix [OF ap1(1)] show ?thesis by (auto simp: isl_def)
    next
      assume a: "(\<exists>r. r2 = Inr r) \<and> (case read_journal H ws3 fs2 of (r, fs3) \<Rightarrow> (and_then r validate, fs3)) = (res, fs')"
      then obtain r where r: "r2 = Inr r" by blast
      obtain r3 fs3 where rd3: "read_journal H ws3 fs2 = (r3, fs3)" by fastforce
      from ap1(2) [OF r] obtain r' where r': "clean H (base @ qs @ [r']) fs2" "dict_get r' ''milestone'' = PyStr m"
        "dict_get r' ''evidence'' = sort_dicts (PyDict e)" by auto
      from read_clean [OF r'(1) rd3] a rd3 r' kept_prefix [OF ap1(1)] show ?thesis
        by (cases r3) (auto intro: clean_kept)
    qed
  qed
  then show "kept H base fs'" and "res = Inr h \<Longrightarrow> \<exists>qs r'. clean H (base @ qs @ [r']) fs'
      \<and> validate (base @ qs @ [r']) = Inr h
      \<and> dict_get r' ''milestone'' = PyStr m \<and> dict_get r' ''evidence'' = sort_dicts (PyDict e)" by auto
qed

lemma append_recoverable:
  assumes "recoverable H first fs" and "dict_get first ''operation_id'' = PyStr j" and "plain (PyDict e)"
    and "append_checked ws ws1 ws2 ws3 i m e fs = (res, fs')"
  shows "recoverable H first fs'"
    and "res = Inr h \<Longrightarrow> \<exists>rs r'. clean H (first # rs @ [r']) fs' \<and> validate (first # rs @ [r']) = Inr h
      \<and> dict_get r' ''milestone'' = PyStr m \<and> dict_get r' ''evidence'' = sort_dicts (PyDict e)"
  using append_kept [of "[first]", OF _ _ _ assms(3,4)] assms(1,2) by (simp_all add: recoverable_def)

text \<open>On a clean file, success means that the file holds one record more.\<close>

lemma append_to_clean:
  assumes "clean H rs fs" and "plain (PyDict e)"
    and "append_checked ws ws1 ws2 ws3 i m e fs = (Inr h, fs')"
  shows "\<exists>r'. clean H (rs @ [r']) fs' \<and> validate (rs @ [r']) = Inr h
      \<and> dict_get r' ''milestone'' = PyStr m \<and> dict_get r' ''evidence'' = sort_dicts (PyDict e)"
proof -
  obtain records fs1 current r fs2 where rd: "read_journal H ws fs = (Inr records, fs1)"
    and ap: "journal_append H ws1 ws2 i m e False (Some (count_of current)) (Some (head_of current)) fs1 = (Inr r, fs2)"
    and fin: "(case read_journal H ws3 fs2 of (r, fs3) \<Rightarrow> (and_then r validate, fs3)) = (Inr h, fs')"
    using assms(3) unfolding append_checked_eq by (auto split: sum.splits if_splits prod.splits)
  have "fs1 = fs" using read_clean [OF assms(1) rd] by simp
  from append_clean(2) [OF assms(1,2) ap [unfolded this] refl] obtain r' where
    r': "clean H (rs @ [r']) fs2" "dict_get r' ''milestone'' = PyStr m"
      "dict_get r' ''evidence'' = sort_dicts (PyDict e)" by blast
  obtain r3 fs3 where rd3: "read_journal H ws3 fs2 = (r3, fs3)" by fastforce
  from read_clean [OF r'(1) rd3] rd3 fin r' show ?thesis by (cases r3) auto
qed

text \<open>An append whose milestone the journal accepts, and whose writes are complete, succeeds.\<close>

lemma append_succeeds:
  assumes f: "open_private fs = Inr f" "fs_parent fs = ParentDir True True"
    and rs: "holds H (jf_data f) rs" "rs \<noteq> []" "length rs < 4096" "dict_get (hd rs) ''operation_id'' = PyStr i"
    and h: "validate rs = Inr h" "operation_of h = i" "count_of h = int (length rs)" "head_hash rs = PyStr (head_of h)"
    and e: "plain (PyDict e)" "append_checks i m e (Some (int (length rs))) (Some (head_of h)) = Inr ()"
    and v: "validate (rs @ [candidate_record i m e]) = Inr h1" "validate (rs @ [read_back H u]) = Inr h2"
    and u: "u = unsigned_fields (PyStr i) (length rs) (head_hash rs) m e"
    and size: "int (length (jf_data f)) + int (length (record_line (signed H u))) \<le> MAX_JOURNAL_BYTES"
    and fs': "f' = f\<lparr>jf_data := jf_data f @ record_line (signed H u)\<rparr>" "fs' = fs\<lparr>fs_file := Some f'\<rparr>"
  shows "append_checked [] [] [] [] i m e fs = (Inr h2, fs')"
    and "open_private fs' = Inr f'" and "holds H (jf_data f') (rs @ [read_back H u])"
proof -
  have priv: "jf_kind f = RegularFile" "jf_owned f" "jf_nlink f = 1" "jf_private f"
    using f(1) by (auto simp: open_private_def split: option.splits if_splits)
  show open': "open_private fs' = Inr f'" using priv size by (intro open_private_after_append) (simp_all add: fs')
  show holds': "holds H (jf_data f') (rs @ [read_back H u])"
    using holds_snoc(1) [OF rs(1) e(1) _ u] rs(4) append_checks_not_repair [OF e(2)] by (simp add: fs'(1))
  have "journal_append H [] [] i m e False (Some (int (length rs))) (Some (head_of h)) fs = (Inr (signed H u), fs')"
    using journal_append_succeeds [OF f(1,2) rs(1) e(2,1) _ _ u] rs(4) h(4) by (simp add: fs')
  moreover have "read_journal H [] fs = (Inr rs, fs)" using rs(3) by (intro read_journal_holds [OF f(1) rs(1)]) simp
  moreover have "read_journal H [] fs' = (Inr (rs @ [read_back H u]), fs')"
    using rs(3) by (intro read_journal_holds [OF open' holds']) simp
  ultimately show "append_checked [] [] [] [] i m e fs = (Inr h2, fs')"
    using v h by (simp add: append_checked_eq)
qed

end

end
