(* ===== verification/Enrollment_Facts.thy ===== *)
theory Enrollment_Facts
  imports Enrollment_Journal Journal_Recovery
begin

text \<open>
  What an accepted enrollment journal establishes: the invariant of the replayed state, the order of
  intents and observations, increasing event numbers, what a save of an enrolled identity consists
  of, and that final phases accept nothing more. The enrollment journal is an instance of the
  contract of typed journals.
\<close>

section \<open>The branches, seen from their results\<close>

lemma e_aborted_before_start_ok: "e_aborted_before_start v s = Inr s' \<Longrightarrow>
  s' = s\<lparr>es_phase := E_ABORTED_BEFORE_START\<rparr> \<and> es_phase s = E_BASELINE"
  by (auto simp: e_aborted_before_start_def res_simps)

lemma e_start_intent_ok: "e_start_intent v s = Inr s' \<Longrightarrow>
  s' = s\<lparr>es_phase := E_START_INTENT\<rparr> \<and> es_phase s = E_BASELINE"
  by (auto simp: e_start_intent_def res_simps)

lemma e_start_observed_ok: "e_start_observed v s = Inr s' \<Longrightarrow>
  s' = s\<lparr>es_phase := E_ACTIVE\<rparr> \<and> es_phase s = E_START_INTENT"
  by (auto simp: e_start_observed_def res_simps)

lemma e_start_rejected_ok: "e_start_rejected v s = Inr s' \<Longrightarrow>
  \<exists>n. s' = s\<lparr>es_terminal_status := Some n, es_phase := E_TERMINAL_FAILURE\<rparr> \<and> n \<noteq> 0 \<and> es_phase s = E_START_INTENT"
  by (auto simp: e_start_rejected_def res_simps)

lemma e_continue_intent_ok: "e_continue_intent v s = Inr s' \<Longrightarrow>
  \<exists>n. s' = s\<lparr>es_pending_event := Some n, es_phase := E_CONTINUE_INTENT\<rparr> \<and> es_phase s = E_ACTIVE
    \<and> \<not> not_increasing s n \<and> dict_get (dict_of v) ''event_sequence'' = PyInt n"
  by (auto simp: e_continue_intent_def res_simps e_exact_def e_uint_def py_simps)

lemma e_continue_observed_ok: "e_continue_observed v s = Inr s' \<Longrightarrow>
  s' = s\<lparr>es_last_event := es_pending_event s, es_pending_event := None, es_phase := E_ACTIVE\<rparr>
  \<and> es_phase s = E_CONTINUE_INTENT
  \<and> (\<exists>n. dict_get (dict_of v) ''event_sequence'' = PyInt n \<and> es_pending_event s = Some n)"
  by (auto simp: e_continue_observed_def res_simps Let_def e_uint_def e_exact_def py_simps split: if_splits)

lemma e_cancel_intent_ok: "e_cancel_intent v s = Inr s' \<Longrightarrow>
  s' = s\<lparr>es_phase := E_CANCEL_INTENT\<rparr> \<and> es_phase s = E_ACTIVE"
  by (auto simp: e_cancel_intent_def res_simps)

lemma e_cancel_dispatch_observed_ok: "e_cancel_dispatch_observed v s = Inr s' \<Longrightarrow>
  s' = s\<lparr>es_phase := E_CANCEL_REQUESTED\<rparr> \<and> es_phase s = E_CANCEL_INTENT"
  by (auto simp: e_cancel_dispatch_observed_def res_simps)

lemma e_terminal_identity_ok: "e_terminal_identity v s = Inr s' \<Longrightarrow>
  \<exists>u n. s' = s\<lparr>es_terminal_identity_uuid := Some u, es_last_event := Some n, es_phase := E_TERMINAL_IDENTITY\<rparr>
    \<and> es_phase s \<in> {E_ACTIVE, E_CANCEL_REQUESTED} \<and> \<not> not_increasing s n
    \<and> dict_get (dict_of v) ''event_sequence'' = PyInt n"
  by (auto simp: e_terminal_identity_def res_simps e_exact_def e_uint_def py_simps)

lemma e_terminal_witness_ok: "e_terminal_witness v s = Inr s' \<Longrightarrow>
  \<exists>n. s' = s\<lparr>es_last_event := Some n, es_phase := E_TERMINAL_WITNESS\<rparr>
    \<and> es_phase s \<in> {E_ACTIVE, E_CANCEL_REQUESTED} \<and> \<not> not_increasing s n
    \<and> dict_get (dict_of v) ''event_sequence'' = PyInt n"
  by (auto simp: e_terminal_witness_def res_simps Let_def e_exact_def e_uint_def py_simps)

lemma use_recovery_generation_ok: "use_recovery_generation g t = Inr t' \<Longrightarrow>
  t' = t\<lparr>pt_connection_generation := g\<rparr> \<and> pt_phase t = P_NOT_STARTED"
  by (auto simp: use_recovery_generation_def res_simps)

lemma e_witness_readback_ok: "e_witness_readback v s = Inr s' \<Longrightarrow>
  (\<exists>u. s' = s\<lparr>es_terminal_identity_uuid := Some u, es_phase := E_TERMINAL_IDENTITY\<rparr>
     \<or> (\<exists>g. s' = s\<lparr>es_terminal_identity_uuid := Some u, es_persistence_connection_generation := g,
      es_persistence := (es_persistence s)\<lparr>pt_connection_generation := g\<rparr>, es_phase := E_TERMINAL_IDENTITY\<rparr>))
  \<and> es_phase s = E_TERMINAL_WITNESS"
  by (auto simp: e_witness_readback_def res_simps Let_def split: if_splits dest!: use_recovery_generation_ok)

lemma e_terminal_failure_ok: "e_terminal_failure v s = Inr s' \<Longrightarrow>
  \<exists>n st. s' = s\<lparr>es_last_event := Some n, es_terminal_status := Some st, es_phase := E_TERMINAL_FAILURE\<rparr>
    \<and> es_phase s \<in> {E_ACTIVE, E_CANCEL_REQUESTED} \<and> \<not> not_increasing s n
    \<and> dict_get (dict_of v) ''event_sequence'' = PyInt n"
  by (auto simp: e_terminal_failure_def res_simps e_exact_def e_uint_def py_simps)

lemma e_failure_readback_ok: "e_failure_readback v s = Inr s' \<Longrightarrow>
  \<exists>u. s' = s\<lparr>es_terminal_identity_uuid := Some u, es_phase := E_TERMINAL_IDENTITY\<rparr>
    \<and> es_phase s = E_TERMINAL_FAILURE"
  by (auto simp: e_failure_readback_def res_simps)

lemma e_recovery_readback_ok: "e_recovery_readback v s = Inr s' \<Longrightarrow>
  \<exists>u g. s' = s\<lparr>es_terminal_identity_uuid := Some u, es_persistence_connection_generation := g,
      es_persistence := (es_persistence s)\<lparr>pt_connection_generation := g\<rparr>, es_phase := E_TERMINAL_IDENTITY\<rparr>
    \<and> es_phase s = E_OUTCOME_UNKNOWN \<and> pt_phase (es_persistence s) = P_NOT_STARTED"
  by (auto simp: e_recovery_readback_def res_simps Let_def dest!: use_recovery_generation_ok)

lemma e_reconciled_ok: "e_reconciled v s = Inr s' \<Longrightarrow>
  \<exists>h. s' = s\<lparr>es_reconciled_snapshot_sha256 := Some h, es_phase := E_RECONCILED\<rparr>
    \<and> es_phase s \<in> {E_PERSISTENCE_READY, E_TERMINAL_FAILURE}"
  by (auto simp: e_reconciled_def res_simps Let_def split: if_splits)

lemma e_recovery_reconciled_ok: "e_recovery_reconciled rb v s = Inr s' \<Longrightarrow>
  \<exists>h. s' = s\<lparr>es_reconciled_snapshot_sha256 := Some h, es_phase := E_RECONCILED\<rparr> \<and> es_phase s = E_OUTCOME_UNKNOWN"
  by (auto simp: e_recovery_reconciled_def res_simps)

lemma e_verified_ok: "e_verified pr v s = Inr s' \<Longrightarrow>
  \<exists>b. s' = s\<lparr>es_post_reboot_linux_boot_uuid := Some b, es_phase := E_POST_REBOOT_VERIFIED\<rparr>
    \<and> es_phase s = E_RECONCILED \<and> es_terminal_identity_uuid s \<noteq> None"
  by (auto simp: e_verified_def res_simps Let_def)

lemma e_rolled_back_ok: "e_rolled_back v s = Inr s' \<Longrightarrow>
  s' = s\<lparr>es_phase := E_ADDITION_ROLLED_BACK\<rparr> \<and> es_phase s = E_RECONCILED \<and> es_terminal_identity_uuid s \<noteq> None"
  by (auto simp: e_rolled_back_def res_simps Let_def)

lemma e_match_verified_ok: "e_match_verified v s = Inr s' \<Longrightarrow>
  s' = s\<lparr>es_phase := E_ADDITION_VERIFIED\<rparr> \<and> es_phase s = E_RECONCILED \<and> es_terminal_identity_uuid s \<noteq> None"
  by (auto simp: e_match_verified_def res_simps Let_def)

lemma e_outcome_unknown_ok: "e_outcome_unknown v s = Inr s' \<Longrightarrow>
  \<exists>st. s' = s\<lparr>es_outcome_unknown_stage := Some st, es_phase := E_OUTCOME_UNKNOWN\<rparr>
    \<and> es_phase s \<in> {E_START_INTENT, E_ACTIVE, E_CONTINUE_INTENT, E_CANCEL_INTENT, E_CANCEL_REQUESTED,
           E_TERMINAL_WITNESS, E_PERSISTING}"
  by (auto simp: e_outcome_unknown_def res_simps Let_def)

lemma e_catacomb_ok: "e_catacomb H m v s = Inr s' \<Longrightarrow>
  \<exists>t g. consume_one H (es_terminal_identity_uuid s = None) (m, v) (es_persistence s) = Inr t
    \<and> s' = s\<lparr>es_persistence := t, es_persistence_connection_generation := g, es_phase :=
        (if pt_phase t = P_COMPLETE then E_PERSISTENCE_READY
         else if pt_phase t = P_OUTCOME_UNKNOWN then E_OUTCOME_UNKNOWN
         else if m = PyStr ''CATACOMB_EARLY_CONFIRM_RECOVERED'' \<and> es_phase s = E_OUTCOME_UNKNOWN
         then E_TERMINAL_IDENTITY else E_PERSISTING)\<rparr>
    \<and> es_phase s \<in> {E_TERMINAL_IDENTITY, E_TERMINAL_FAILURE, E_PERSISTING, E_OUTCOME_UNKNOWN}
    \<and> (es_terminal_identity_uuid s \<noteq> None \<or> es_terminal_status s \<noteq> None)
    \<and> (es_phase s = E_OUTCOME_UNKNOWN \<longrightarrow> es_terminal_identity_uuid s \<noteq> None)"
proof -
  assume run: "e_catacomb H m v s = Inr s'"
  define early where "early = (m = PyStr ''CATACOMB_EARLY_CONFIRM_RECOVERED'' \<and> es_phase s = E_OUTCOME_UNKNOWN
    \<and> es_terminal_identity_uuid s \<noteq> None)"
  define bio where "bio = (es_terminal_identity_uuid s = None \<and> es_terminal_status s \<noteq> None)"
  note run = run [unfolded e_catacomb_def Let_def py_eq_PyStr, folded early_def bio_def,
      unfolded guard_Inr_iff and_then_Inr_iff rewrap_Inr_iff]
  then have g: "es_terminal_identity_uuid s \<noteq> None \<or> es_terminal_status s \<noteq> None"
    "early \<or> es_phase s \<in> {E_TERMINAL_IDENTITY, E_TERMINAL_FAILURE, E_PERSISTING}"
    by (auto simp: bio_def)
  then have bio: "bio = (es_terminal_identity_uuid s = None)" by (auto simp: bio_def)
  from run obtain b t where t: "consume H bio m v (es_persistence s) = Inr (b, t)" and
    s': "s' = s\<lparr>es_persistence := t, es_persistence_connection_generation :=
          (if early then dict_get (dict_of v) ''connection_generation'' else es_persistence_connection_generation s),
        es_phase := (if pt_phase t = P_COMPLETE then E_PERSISTENCE_READY
         else if pt_phase t = P_OUTCOME_UNKNOWN then E_OUTCOME_UNKNOWN
         else if early then E_TERMINAL_IDENTITY else E_PERSISTING)\<rparr>" by auto
  have ph: "es_phase s = E_OUTCOME_UNKNOWN \<longrightarrow> es_terminal_identity_uuid s \<noteq> None"
    "es_phase s \<in> {E_TERMINAL_IDENTITY, E_TERMINAL_FAILURE, E_PERSISTING, E_OUTCOME_UNKNOWN}"
    using g(2) by (auto simp: early_def)
  then have early: "early = (m = PyStr ''CATACOMB_EARLY_CONFIRM_RECOVERED'' \<and> es_phase s = E_OUTCOME_UNKNOWN)"
    by (auto simp: early_def)
  have "consume_one H (es_terminal_identity_uuid s = None) (m, v) (es_persistence s) = Inr t"
    using t bio by (simp add: consume_one_def)
  then show ?thesis using s' [unfolded early] g(1) ph by (intro exI conjI)
qed

lemma enroll_milestone_cases:
  assumes "enroll_milestone H m v s = Inr s'"
  obtains
    (aborted) "m = PyStr ''ENROLL_ABORTED_BEFORE_START''" "e_aborted_before_start v s = Inr s'"
  | (start_intent) "m = PyStr ''ENROLL_START_INTENT''" "e_start_intent v s = Inr s'"
  | (start_observed) "m = PyStr ''ENROLL_START_OBSERVED''" "e_start_observed v s = Inr s'"
  | (start_rejected) "m = PyStr ''ENROLL_START_REJECTED''" "e_start_rejected v s = Inr s'"
  | (continue_intent) "m = PyStr ''ENROLL_CONTINUE_INTENT''" "e_continue_intent v s = Inr s'"
  | (continue_observed) "m = PyStr ''ENROLL_CONTINUE_OBSERVED''" "e_continue_observed v s = Inr s'"
  | (cancel_intent) "m = PyStr ''ENROLL_CANCEL_INTENT''" "e_cancel_intent v s = Inr s'"
  | (cancel_observed) "m = PyStr ''ENROLL_CANCEL_DISPATCH_OBSERVED''" "e_cancel_dispatch_observed v s = Inr s'"
  | (terminal_identity) "m = PyStr ''E2_TERMINAL_IDENTITY_OBSERVED''" "e_terminal_identity v s = Inr s'"
  | (terminal_witness) "m = PyStr ''E2_TERMINAL_RESULT_WITNESSED''" "e_terminal_witness v s = Inr s'"
  | (witness_readback) "m = PyStr ''E2_WITNESS_IDENTITY_READBACK_OBSERVED''" "e_witness_readback v s = Inr s'"
  | (terminal_failure) "m = PyStr ''ENROLL_TERMINAL_FAILURE_OBSERVED''" "e_terminal_failure v s = Inr s'"
  | (failure_readback) "m = PyStr ''E2_IDENTITY_READBACK_OBSERVED''" "e_failure_readback v s = Inr s'"
  | (recovery_readback) "m = PyStr ''E2_RECOVERY_IDENTITY_READBACK_OBSERVED''" "e_recovery_readback v s = Inr s'"
  | (reconciled) "m = PyStr ''E3_RECONCILED''" "e_reconciled v s = Inr s'"
  | (rolled_back) "m = PyStr ''ADDITION_ROLLED_BACK''" "e_rolled_back v s = Inr s'"
  | (match_verified) "m = PyStr ''ADDITION_MATCH_VERIFIED''" "e_match_verified v s = Inr s'"
  | (outcome_unknown) "m = PyStr ''ENROLL_OUTCOME_UNKNOWN''" "e_outcome_unknown v s = Inr s'"
  | (catacomb) "is_catacomb m" "e_catacomb H m v s = Inr s'"
  | (recovery_reconciled) rb where "m = PyStr ''E3_RECOVERY_NO_CHANGE_RECONCILED'' \<or> m = PyStr ''E3_PERSISTENCE_READBACK_RECOVERED''"
      "e_recovery_reconciled rb v s = Inr s'"
  | (verified) pr where "m = PyStr ''E4_RUNTIME_VERIFIED'' \<or> m = PyStr ''E4_POST_REBOOT_VERIFIED''"
      "e_verified pr v s = Inr s'"
proof -
  have sets: "in_str_set m [a, b] = Inr x \<Longrightarrow> x \<Longrightarrow> m = PyStr a \<or> m = PyStr b" for a b x
    by (auto simp: in_str_set_Inr)
  show ?thesis
    using assms unfolding enroll_milestone_def is_catacomb_def [symmetric]
    by (elim if_InrE and_then_InrE Inl_InrE) (rule that; (assumption | rule sets; assumption))+
qed

lemmas enroll_ok = e_aborted_before_start_ok e_start_intent_ok e_start_observed_ok e_start_rejected_ok
  e_continue_intent_ok e_continue_observed_ok e_cancel_intent_ok e_cancel_dispatch_observed_ok
  e_terminal_identity_ok e_terminal_witness_ok e_witness_readback_ok e_terminal_failure_ok
  e_failure_readback_ok e_recovery_readback_ok e_reconciled_ok e_recovery_reconciled_ok e_verified_ok
  e_rolled_back_ok e_match_verified_ok e_outcome_unknown_ok

lemma e_catacomb_phase:
  assumes "e_catacomb H m v s = Inr s'"
  shows "es_phase s' \<in> {E_PERSISTENCE_READY, E_OUTCOME_UNKNOWN, E_TERMINAL_IDENTITY, E_PERSISTING}"
    and "es_phase s \<in> {E_TERMINAL_IDENTITY, E_TERMINAL_FAILURE, E_PERSISTING, E_OUTCOME_UNKNOWN}"
    and "es_last_event s' = es_last_event s"
proof -
  from e_catacomb_ok [OF assms] obtain t g ph where
    "s' = s\<lparr>es_persistence := t, es_persistence_connection_generation := g, es_phase := ph\<rparr>"
    "ph = (if pt_phase t = P_COMPLETE then E_PERSISTENCE_READY
         else if pt_phase t = P_OUTCOME_UNKNOWN then E_OUTCOME_UNKNOWN
         else if m = PyStr ''CATACOMB_EARLY_CONFIRM_RECOVERED'' \<and> es_phase s = E_OUTCOME_UNKNOWN
         then E_TERMINAL_IDENTITY else E_PERSISTING)"
    "es_phase s \<in> {E_TERMINAL_IDENTITY, E_TERMINAL_FAILURE, E_PERSISTING, E_OUTCOME_UNKNOWN}" by blast
  then show "es_phase s' \<in> {E_PERSISTENCE_READY, E_OUTCOME_UNKNOWN, E_TERMINAL_IDENTITY, E_PERSISTING}"
    "es_phase s \<in> {E_TERMINAL_IDENTITY, E_TERMINAL_FAILURE, E_PERSISTING, E_OUTCOME_UNKNOWN}"
    "es_last_event s' = es_last_event s" by simp_all
qed

section \<open>Invariant\<close>

text \<open>The Catacomb files of an enrolled identity: user and master as one batch, then bio-lockout.\<close>

definition identity_plan :: "pydict \<Rightarrow> component list list \<Rightarrow> bool" where
  "identity_plan baseline bs = (map (map fst) bs =
     [[user_cat_name (int_of (dict_get baseline ''apple_uid'')), ''master.cat''], [''biolockout.cat'']])"

definition before_result :: "enrollment_phase set" where
  "before_result = {E_BASELINE, E_ABORTED_BEFORE_START, E_START_INTENT, E_ACTIVE, E_CONTINUE_INTENT,
     E_CANCEL_INTENT, E_CANCEL_REQUESTED, E_TERMINAL_WITNESS}"

definition enroll_inv :: "enroll_state \<Rightarrow> bool" where
  "enroll_inv s =
     (tracker_ok (es_persistence s) \<and> pt_plan_kind (es_persistence s) = ''enrollment''
      \<and> pt_baseline (es_persistence s) = es_baseline s
      \<and> (es_phase s \<in> before_result \<longrightarrow> pt_phase (es_persistence s) = P_NOT_STARTED
           \<and> es_terminal_identity_uuid s = None \<and> es_terminal_status s = None)
      \<and> (es_phase s = E_TERMINAL_FAILURE \<longrightarrow> pt_phase (es_persistence s) = P_NOT_STARTED
           \<and> es_terminal_identity_uuid s = None \<and> es_terminal_status s \<noteq> None)
      \<and> (es_phase s \<in> {E_TERMINAL_IDENTITY, E_ADDITION_VERIFIED, E_ADDITION_ROLLED_BACK, E_POST_REBOOT_VERIFIED}
           \<longrightarrow> es_terminal_identity_uuid s \<noteq> None)
      \<and> (es_phase s \<in> {E_RECONCILED, E_ADDITION_VERIFIED, E_ADDITION_ROLLED_BACK, E_POST_REBOOT_VERIFIED}
           \<longrightarrow> es_reconciled_snapshot_sha256 s \<noteq> None)
      \<and> (es_phase s = E_PERSISTENCE_READY \<longrightarrow> pt_phase (es_persistence s) = P_COMPLETE)
      \<and> (pt_phase (es_persistence s) \<noteq> P_NOT_STARTED \<and> es_terminal_identity_uuid s \<noteq> None
           \<longrightarrow> identity_plan (es_baseline s) (pt_batches (es_persistence s)))
      \<and> (es_phase s = E_CONTINUE_INTENT \<longrightarrow> (\<exists>n. es_pending_event s = Some n \<and> \<not> not_increasing s n)))"


lemma consume_one_keeps:
  assumes "consume_one H bio mv t = Inr t'" and "tracker_ok t"
  shows "tracker_ok t'" and "pt_plan_kind t' = pt_plan_kind t" and "pt_baseline t' = pt_baseline t"
    and "pt_phase t \<noteq> P_NOT_STARTED \<longrightarrow> pt_batches t' = pt_batches t \<and> pt_phase t' \<noteq> P_NOT_STARTED"
    and "pt_phase t = P_NOT_STARTED \<and> pt_phase t' \<noteq> P_NOT_STARTED \<and> pt_plan_kind t = ''enrollment'' \<and> \<not> bio
      \<longrightarrow> identity_plan (pt_baseline t) (pt_batches t')"
proof -
  have c1: "consume_all H bio [mv] t = Inr t'" using assms(1) by (simp add: consume_all_def)
  show "tracker_ok t'" by (rule consume_one_keeps_ok [OF assms])
  have "pt_plan_kind t' = pt_plan_kind t \<and> pt_baseline t' = pt_baseline t
     \<and> (pt_phase t \<noteq> P_NOT_STARTED \<longrightarrow> pt_batches t' = pt_batches t \<and> pt_phase t' \<noteq> P_NOT_STARTED)"
    using assms(1)
  proof (cases rule: consume_one_cases)
    case (milestone m)
    show ?thesis
    proof (cases "pt_phase t = P_NOT_STARTED")
      case True
      from first_milestone [OF milestone(3) assms(2) True] show ?thesis
        using True by (auto elim!: tracker_plan_ok)
    qed (use milestone_keeps_plan [OF milestone(3)] in simp)
  qed simp
  then show "pt_plan_kind t' = pt_plan_kind t" "pt_baseline t' = pt_baseline t"
    "pt_phase t \<noteq> P_NOT_STARTED \<longrightarrow> pt_batches t' = pt_batches t \<and> pt_phase t' \<noteq> P_NOT_STARTED" by blast+
  show "pt_phase t = P_NOT_STARTED \<and> pt_phase t' \<noteq> P_NOT_STARTED \<and> pt_plan_kind t = ''enrollment'' \<and> \<not> bio
      \<longrightarrow> identity_plan (pt_baseline t) (pt_batches t')"
  proof
    assume a: "pt_phase t = P_NOT_STARTED \<and> pt_phase t' \<noteq> P_NOT_STARTED \<and> pt_plan_kind t = ''enrollment'' \<and> \<not> bio"
    then have "plan_enrollment_ok ''enrollment'' False (user_cat_name (int_of (dict_get (pt_baseline t) ''apple_uid'')))
       (pt_batches t') = Inr ()"
      using plan_kept [OF c1 assms(2)] by auto
    then show "identity_plan (pt_baseline t) (pt_batches t')"
      by (cases "pt_batches t'"; cases "tl (pt_batches t')")
        (auto simp: plan_enrollment_ok_def identity_plan_def split: if_splits)
  qed
qed

lemma not_increasing_cong [simp]:
  "not_increasing (s\<lparr>es_phase := p\<rparr>) n = not_increasing s n"
  "not_increasing (s\<lparr>es_pending_event := q\<rparr>) n = not_increasing s n"
  by (simp_all add: not_increasing_def)

lemma tracker_ok_generation:
  "pt_phase t = P_NOT_STARTED \<Longrightarrow> tracker_ok (t\<lparr>pt_connection_generation := g\<rparr>) = tracker_ok t"
  by (simp add: tracker_ok_def)

lemmas inv_simps = enroll_inv_def before_result_def tracker_ok_generation

lemma enroll_milestone_inv:
  assumes "enroll_milestone H m v s = Inr s'" and "enroll_inv s"
  shows "enroll_inv s'"
  using assms(1)
proof (cases rule: enroll_milestone_cases)
  case catacomb
  from e_catacomb_ok [OF this(2)] obtain t g where
    t: "consume_one H (es_terminal_identity_uuid s = None) (m, v) (es_persistence s) = Inr t" and
    s': "s' = s\<lparr>es_persistence := t, es_persistence_connection_generation := g, es_phase :=
        (if pt_phase t = P_COMPLETE then E_PERSISTENCE_READY
         else if pt_phase t = P_OUTCOME_UNKNOWN then E_OUTCOME_UNKNOWN
         else if m = PyStr ''CATACOMB_EARLY_CONFIRM_RECOVERED'' \<and> es_phase s = E_OUTCOME_UNKNOWN
         then E_TERMINAL_IDENTITY else E_PERSISTING)\<rparr>" and
    ph: "es_phase s = E_OUTCOME_UNKNOWN \<longrightarrow> es_terminal_identity_uuid s \<noteq> None" by blast
  have ok: "tracker_ok (es_persistence s)" using assms(2) by (simp add: enroll_inv_def)
  note keep = consume_one_keeps [OF t ok]
  have inv: "pt_plan_kind (es_persistence s) = ''enrollment''" "pt_baseline (es_persistence s) = es_baseline s"
    "pt_phase (es_persistence s) \<noteq> P_NOT_STARTED \<and> es_terminal_identity_uuid s \<noteq> None
       \<longrightarrow> identity_plan (es_baseline s) (pt_batches (es_persistence s))"
    using assms(2) by (simp_all add: enroll_inv_def)
  have "pt_phase t \<noteq> P_NOT_STARTED \<and> es_terminal_identity_uuid s \<noteq> None
      \<longrightarrow> identity_plan (es_baseline s) (pt_batches t)"
    using keep(4,5) inv by (cases "pt_phase (es_persistence s) = P_NOT_STARTED") auto
  with keep(1-3) inv(1,2) ph show ?thesis
    unfolding s' enroll_inv_def by (simp add: before_result_def)
next
  case aborted
  from e_aborted_before_start_ok [OF this(2)] assms(2) show ?thesis by (elim exE conjE disjE insertE emptyE) (simp_all add: inv_simps)
next
  case start_intent
  from e_start_intent_ok [OF this(2)] assms(2) show ?thesis by (elim exE conjE disjE insertE emptyE) (simp_all add: inv_simps)
next
  case start_observed
  from e_start_observed_ok [OF this(2)] assms(2) show ?thesis by (elim exE conjE disjE insertE emptyE) (simp_all add: inv_simps)
next
  case start_rejected
  from e_start_rejected_ok [OF this(2)] assms(2) show ?thesis by (elim exE conjE disjE insertE emptyE) (simp_all add: inv_simps)
next
  case continue_intent
  from e_continue_intent_ok [OF this(2)] assms(2) show ?thesis by (elim exE conjE disjE insertE emptyE) (simp_all add: inv_simps)
next
  case continue_observed
  from e_continue_observed_ok [OF this(2)] assms(2) show ?thesis by (elim exE conjE disjE insertE emptyE) (simp_all add: inv_simps)
next
  case cancel_intent
  from e_cancel_intent_ok [OF this(2)] assms(2) show ?thesis by (elim exE conjE disjE insertE emptyE) (simp_all add: inv_simps)
next
  case cancel_observed
  from e_cancel_dispatch_observed_ok [OF this(2)] assms(2) show ?thesis by (elim exE conjE disjE insertE emptyE) (simp_all add: inv_simps)
next
  case terminal_identity
  from e_terminal_identity_ok [OF this(2)] assms(2) show ?thesis by (elim exE conjE disjE insertE emptyE) (simp_all add: inv_simps)
next
  case terminal_witness
  from e_terminal_witness_ok [OF this(2)] assms(2) show ?thesis by (elim exE conjE disjE insertE emptyE) (simp_all add: inv_simps)
next
  case witness_readback
  from e_witness_readback_ok [OF this(2)] assms(2) show ?thesis by (elim exE conjE disjE insertE emptyE) (simp_all add: inv_simps)
next
  case terminal_failure
  from e_terminal_failure_ok [OF this(2)] assms(2) show ?thesis by (elim exE conjE disjE insertE emptyE) (simp_all add: inv_simps)
next
  case failure_readback
  from e_failure_readback_ok [OF this(2)] assms(2) show ?thesis by (elim exE conjE disjE insertE emptyE) (simp_all add: inv_simps)
next
  case recovery_readback
  from e_recovery_readback_ok [OF this(2)] assms(2) show ?thesis by (elim exE conjE disjE insertE emptyE) (simp_all add: inv_simps)
next
  case reconciled
  from e_reconciled_ok [OF this(2)] assms(2) show ?thesis by (elim exE conjE disjE insertE emptyE) (simp_all add: inv_simps)
next
  case rolled_back
  from e_rolled_back_ok [OF this(2)] assms(2) show ?thesis by (elim exE conjE disjE insertE emptyE) (simp_all add: inv_simps)
next
  case match_verified
  from e_match_verified_ok [OF this(2)] assms(2) show ?thesis by (elim exE conjE disjE insertE emptyE) (simp_all add: inv_simps)
next
  case outcome_unknown
  from e_outcome_unknown_ok [OF this(2)] assms(2) show ?thesis by (elim exE conjE disjE insertE emptyE) (simp_all add: inv_simps)
next
  case (recovery_reconciled rb)
  from e_recovery_reconciled_ok [OF this(2)] assms(2) show ?thesis by (elim exE conjE disjE insertE emptyE) (simp_all add: inv_simps)
next
  case (verified pr)
  from e_verified_ok [OF this(2)] assms(2) show ?thesis by (elim exE conjE disjE insertE emptyE) (simp_all add: inv_simps)
qed


lemma enroll_step_cases:
  assumes "enroll_step H r s = Inr s'"
  obtains (repair) "is_repair_record r" "s' = s"
  | (milestone) "\<not> is_repair_record r" "dict_get r ''operation_id'' = PyStr (es_operation_id s)"
      "enroll_milestone H (dict_get r ''milestone'') (dict_get r ''evidence'') s = Inr s'"
  using assms by (auto simp: enroll_step_def is_repair_record_def split: if_splits)

lemma enroll_start_ok:
  assumes "enroll_start r = Inr s"
  shows "enroll_inv s \<and> es_phase s = E_BASELINE \<and> es_last_event s = None"
  using assms by (auto simp: enroll_start_def res_simps Let_def enroll_inv_def before_result_def tracker_init_def tracker_ok_def)

interpretation enrollment: typed_journal enroll_start "enroll_step H" enroll_inv for H :: "string \<Rightarrow> string"
proof
  fix r s s'
  show "enroll_step H r s = Inr s" if "is_repair_record r"
    using that by (simp add: enroll_step_def is_repair_record_def)
  show "enroll_inv s" if "enroll_start r = Inr s"
    using enroll_start_ok [OF that] by simp
  show "enroll_inv s'" if "enroll_step H r s = Inr s'" "enroll_inv s"
    using that(1) by (cases rule: enroll_step_cases) (use that(2) enroll_milestone_inv in auto)
qed

lemma enrollment_history_run:
  assumes "enrollment_validate_history H rs = Inr h"
  obtains s where "enrollment.run H rs = Inr s" "eh_phase h = es_phase s" "eh_baseline h = es_baseline s"
    "eh_terminal_identity_uuid h = es_terminal_identity_uuid s"
    "eh_reconciled_snapshot_sha256 h = es_reconciled_snapshot_sha256 s"
    "eh_persistence h = tracker_snapshot (es_persistence s)" "eh_last_event_sequence h = es_last_event s"
    "eh_record_count h = int (length rs)" "eh_operation_id h = es_operation_id s" "rs \<noteq> []"
    "dict_get (last rs) ''record_hash'' = PyStr (eh_head_hash h)"
  using assms
  by (cases rs) (auto simp: enrollment_validate_history_def enrollment.run_def res_simps Let_def e_sha256_def
      require_sha256_def py_simps)

text \<open>The end of \<^verbatim>\<open>validate_history\<close>, after the loop.\<close>

definition enroll_history_of :: "pydict list \<Rightarrow> enroll_state \<Rightarrow> enrollment_history res" where
  "enroll_history_of records s =
     (let head_hash = dict_get (last records) ''record_hash'' in
      and_then (e_sha256 head_hash ''journal head hash'') (\<lambda>_.
      Inr \<lparr>eh_operation_id = es_operation_id s, eh_phase = es_phase s, eh_baseline = es_baseline s,
           eh_last_event_sequence = es_last_event s, eh_pending_event_sequence = es_pending_event s,
           eh_record_count = int (length records), eh_head_hash = str_of head_hash,
           eh_terminal_identity_uuid = es_terminal_identity_uuid s,
           eh_terminal_status = es_terminal_status s,
           eh_persistence = tracker_snapshot (es_persistence s),
           eh_reconciled_snapshot_sha256 = es_reconciled_snapshot_sha256 s,
           eh_post_reboot_linux_boot_uuid = es_post_reboot_linux_boot_uuid s,
           eh_outcome_unknown_stage = es_outcome_unknown_stage s,
           eh_persistence_connection_generation = es_persistence_connection_generation s\<rparr>))"

lemma enrollment_validate_from:
  "enroll_start r = Inr s0 \<Longrightarrow> enrollment_validate_history H (r # rest) =
     and_then (fold_res (enroll_step H) rest s0) (enroll_history_of (r # rest))"
  unfolding enrollment_validate_history_def enroll_history_of_def by simp

section \<open>Properties\<close>

text \<open>
  C26: what the phase of an accepted enrollment history stands for. A verified, rolled back or reconciled
  enrollment has its reconciled snapshot, a verified or rolled back one its identity; ``persistence
  ready'' means that the whole save was attested; and as soon as an enrolled identity is being saved,
  the save consists of its user Catacomb, the master Catacomb and the bio-lockout Catacomb.
\<close>

theorem enrollment_history_sound:
  assumes "enrollment_validate_history H rs = Inr h"
  shows "(eh_phase h \<in> {E_RECONCILED, E_ADDITION_VERIFIED, E_ADDITION_ROLLED_BACK, E_POST_REBOOT_VERIFIED}
      \<longrightarrow> eh_reconciled_snapshot_sha256 h \<noteq> None)
    \<and> (eh_phase h \<in> {E_TERMINAL_IDENTITY, E_ADDITION_VERIFIED, E_ADDITION_ROLLED_BACK, E_POST_REBOOT_VERIFIED}
      \<longrightarrow> eh_terminal_identity_uuid h \<noteq> None)
    \<and> (eh_phase h = E_PERSISTENCE_READY \<longrightarrow> ph_phase (eh_persistence h) = P_COMPLETE)
    \<and> (ph_phase (eh_persistence h) \<noteq> P_NOT_STARTED \<and> eh_terminal_identity_uuid h \<noteq> None
      \<longrightarrow> identity_plan (eh_baseline h) (ph_batches (eh_persistence h)))"
proof -
  from assms obtain s where s: "enrollment.run H rs = Inr s" "eh_phase h = es_phase s" "eh_baseline h = es_baseline s"
    "eh_terminal_identity_uuid h = es_terminal_identity_uuid s"
    "eh_reconciled_snapshot_sha256 h = es_reconciled_snapshot_sha256 s"
    "eh_persistence h = tracker_snapshot (es_persistence s)" by (rule enrollment_history_run)
  from enrollment.run_inv [OF s(1)] show ?thesis
    unfolding s(2-) enroll_inv_def by (simp add: tracker_snapshot_def)
qed

text \<open>The phases that only an intent produces, and the observations that need them.\<close>

definition write_ahead_pairs :: "(string \<times> string \<times> enrollment_phase) list" where
  "write_ahead_pairs =
     [(''ENROLL_START_OBSERVED'', ''ENROLL_START_INTENT'', E_START_INTENT),
      (''ENROLL_START_REJECTED'', ''ENROLL_START_INTENT'', E_START_INTENT),
      (''ENROLL_CONTINUE_OBSERVED'', ''ENROLL_CONTINUE_INTENT'', E_CONTINUE_INTENT),
      (''ENROLL_CANCEL_DISPATCH_OBSERVED'', ''ENROLL_CANCEL_INTENT'', E_CANCEL_INTENT)]"

lemma intent_phase_produced:
  assumes "enroll_step H r s = Inr s'" and "es_phase s' = p" and "(ob, i, p) \<in> set write_ahead_pairs"
  shows "is_repair_record r \<or> dict_get r ''milestone'' = PyStr i"
  using assms(1)
proof (cases rule: enroll_step_cases)
  case milestone
  have pi: "p = E_START_INTENT \<and> i = ''ENROLL_START_INTENT'' \<or> p = E_CONTINUE_INTENT \<and> i = ''ENROLL_CONTINUE_INTENT''
      \<or> p = E_CANCEL_INTENT \<and> i = ''ENROLL_CANCEL_INTENT''"
    using assms(3) by (auto simp: write_ahead_pairs_def)
  from milestone(3) have "es_phase s' \<notin> {E_START_INTENT, E_CONTINUE_INTENT, E_CANCEL_INTENT}
      \<or> es_phase s' = E_START_INTENT \<and> dict_get r ''milestone'' = PyStr ''ENROLL_START_INTENT''
      \<or> es_phase s' = E_CONTINUE_INTENT \<and> dict_get r ''milestone'' = PyStr ''ENROLL_CONTINUE_INTENT''
      \<or> es_phase s' = E_CANCEL_INTENT \<and> dict_get r ''milestone'' = PyStr ''ENROLL_CANCEL_INTENT''"
  proof (cases rule: enroll_milestone_cases)
    case catacomb
    from e_catacomb_phase [OF this(2)] show ?thesis by auto
  qed (auto dest!: enroll_ok)
  with pi assms(2) show ?thesis by auto
qed simp

lemma observation_needs_intent:
  assumes "enroll_step H r s = Inr s'" and "dict_get r ''milestone'' = PyStr ob" and "(ob, i, p) \<in> set write_ahead_pairs"
  shows "es_phase s = p"
proof -
  have nr: "\<not> is_repair_record r"
    using assms(2,3) by (auto simp: is_repair_record_def is_repair_milestone_def REPAIR_MILESTONE_def write_ahead_pairs_def)
  have "enroll_milestone H (PyStr ob) (dict_get r ''evidence'') s = Inr s'"
    using assms(1) by (cases rule: enroll_step_cases) (use nr assms(2) in auto)
  then show ?thesis
    using assms(3) unfolding enroll_milestone_def write_ahead_pairs_def
    by (auto dest!: e_start_observed_ok e_start_rejected_ok e_continue_observed_ok e_cancel_dispatch_observed_ok)
qed

text \<open>
  C27: write-ahead. In an accepted enrollment journal every observation of a start, continue or cancel
  command directly follows the intent record of that command; only repair records can stand between.
\<close>

theorem observations_follow_intents:
  assumes "enrollment_validate_history H (qs @ r # bs) = Inr h"
    and "dict_get r ''milestone'' = PyStr ob" and "(ob, i, p) \<in> set write_ahead_pairs"
  shows "\<exists>as q rs. qs = as @ q # rs \<and> dict_get q ''milestone'' = PyStr i \<and> list_all is_repair_record rs"
proof -
  obtain s where s: "enrollment.run H (qs @ r # bs) = Inr s" using assms(1) by (rule enrollment_history_run)
  show ?thesis
  proof (rule enrollment.directly_after [OF s, of "\<lambda>s. es_phase s = p"])
    show "enroll_start r \<noteq> Inr s0" for s0
      using assms(2,3) by (auto simp: enroll_start_def write_ahead_pairs_def res_simps)
    show "es_phase s0 \<noteq> p" if "enroll_start r0 = Inr s0" for r0 s0
      using enroll_start_ok [OF that] assms(3) by (auto simp: write_ahead_pairs_def)
  qed (fact observation_needs_intent [OF _ assms(2,3)] intent_phase_produced [OF _ _ assms(3)])+
qed


text \<open>The device events an enrollment journal accounts for, by their sequence numbers.\<close>

definition is_event_record :: "pydict \<Rightarrow> bool" where
  "is_event_record r = (dict_get r ''milestone'' \<in> PyStr ` {''ENROLL_CONTINUE_OBSERVED'',
     ''E2_TERMINAL_IDENTITY_OBSERVED'', ''E2_TERMINAL_RESULT_WITNESSED'', ''ENROLL_TERMINAL_FAILURE_OBSERVED''})"

definition event_number :: "pydict \<Rightarrow> int" where
  "event_number r = int_of (dict_get (dict_of (dict_get r ''evidence'')) ''event_sequence'')"

definition event_numbers :: "pydict list \<Rightarrow> int list" where
  "event_numbers rs = map event_number (filter is_event_record rs)"

lemma enroll_step_events:
  assumes "enroll_step H r s = Inr s'" and "enroll_inv s"
  shows "if is_event_record r then es_last_event s' = Some (event_number r) \<and> \<not> not_increasing s (event_number r)
    else es_last_event s' = es_last_event s"
  using assms(1)
proof (cases rule: enroll_step_cases)
  case repair
  then show ?thesis by (auto simp: is_event_record_def is_repair_record_def is_repair_milestone_def REPAIR_MILESTONE_def)
next
  case milestone
  from milestone(3) show ?thesis
  proof (cases rule: enroll_milestone_cases)
    case catacomb
    then have "\<not> is_event_record r" by (auto simp: is_event_record_def is_catacomb_def startswith_def)
    with e_catacomb_phase(3) [OF catacomb(2)] show ?thesis by simp
  next
    case continue_observed
    from e_continue_observed_ok [OF this(2)] assms(2) continue_observed(1) show ?thesis
      by (auto simp: is_event_record_def event_number_def enroll_inv_def)
  next
    case terminal_identity
    from e_terminal_identity_ok [OF this(2)] terminal_identity(1) show ?thesis
      by (auto simp: is_event_record_def event_number_def)
  next
    case terminal_witness
    from e_terminal_witness_ok [OF this(2)] terminal_witness(1) show ?thesis
      by (auto simp: is_event_record_def event_number_def)
  next
    case terminal_failure
    from e_terminal_failure_ok [OF this(2)] terminal_failure(1) show ?thesis
      by (auto simp: is_event_record_def event_number_def)
  qed (auto simp: is_event_record_def dest!: enroll_ok)
qed

lemma enrollment_events:
  assumes "enrollment.run H rs = Inr s"
  shows "sorted_wrt (<) (event_numbers rs)
    \<and> (\<forall>n \<in> set (event_numbers rs). case es_last_event s of None \<Rightarrow> False | Some m \<Rightarrow> n \<le> m)"
  using assms
proof (induction rs arbitrary: s rule: rev_induct)
  case Nil
  then show ?case by (simp add: enrollment.run_def)
next
  case (snoc r rs)
  show ?case
  proof (cases "rs = []")
    case True
    with snoc.prems have "enroll_start r = Inr s" by (auto simp: enrollment.run_def res_simps)
    then have "dict_get r ''milestone'' = PyStr ''BASELINE_RECONCILED''" by (auto simp: enroll_start_def res_simps)
    with True show ?thesis by (simp add: event_numbers_def is_event_record_def)
  next
    case False
    with snoc.prems obtain s1 where s1: "enrollment.run H rs = Inr s1" "enroll_step H r s1 = Inr s"
      by (auto simp: enrollment.run_snoc res_simps)
    note ih = snoc.IH [OF s1(1)] and ev = enroll_step_events [OF s1(2) enrollment.run_inv [OF s1(1)]]
    show ?thesis
    proof (cases "is_event_record r")
      case True
      with ih ev show ?thesis
        by (fastforce simp: event_numbers_def sorted_wrt_append not_increasing_def split: option.splits)
    qed (use ih ev in \<open>simp add: event_numbers_def\<close>)
  qed
qed

text \<open>
  C28: device events are accounted for once and in order. The sequence numbers of the continue and
  terminal events in an accepted enrollment journal strictly increase.
\<close>

theorem enrollment_events_increase:
  assumes "enrollment_validate_history H rs = Inr h"
  shows "sorted_wrt (<) (event_numbers rs)"
  using assms by (rule enrollment_history_run) (use enrollment_events in blast)

text \<open>
  A finished enrollment is final. After an abort before the start, a verification or a rollback,
  only repair records can follow.
\<close>

theorem finished_enrollment_is_final:
  assumes "enrollment_validate_history H rs = Inr h"
    and "eh_phase h \<in> {E_ABORTED_BEFORE_START, E_ADDITION_VERIFIED, E_ADDITION_ROLLED_BACK, E_POST_REBOOT_VERIFIED}"
    and "enrollment_validate_history H (rs @ [r]) = Inr h'"
  shows "is_repair_record r"
proof -
  obtain s where s: "enrollment.run H rs = Inr s" "eh_phase h = es_phase s" "rs \<noteq> []"
    using assms(1) by (rule enrollment_history_run)
  obtain s' where "enrollment.run H (rs @ [r]) = Inr s'" using assms(3) by (rule enrollment_history_run)
  with s have step: "enroll_step H r s = Inr s'" by (simp add: enrollment.run_snoc)
  show ?thesis
  proof (rule ccontr)
    assume "\<not> is_repair_record r"
    with step have "enroll_milestone H (dict_get r ''milestone'') (dict_get r ''evidence'') s = Inr s'"
      by (cases rule: enroll_step_cases) auto
    then show False
    proof (cases rule: enroll_milestone_cases)
      case catacomb
      from e_catacomb_phase(2) [OF this(2)] s(2) assms(2) show False by auto
    qed (use s(2) assms(2) in \<open>auto dest!: enroll_ok\<close>)
  qed
qed


interpretation enrollment_append: checked_append H "enrollment_validate_history H" eh_operation_id eh_record_count
    eh_head_hash "enrollment_error ''operation ID does not match enrollment journal''" "enrollment_append_checked H"
  for H :: "string \<Rightarrow> string"
  by unfold_locales (unfold enrollment_append_checked_def enrollment_read_def, rule refl)

text \<open>
  A checked append of an enrollment milestone that succeeds extends the journal by one record with
  that milestone and that evidence, returns the history of the extended journal, and had validated
  the milestone before writing it.
\<close>

theorem enrollment_append_extends:
  assumes "open_private fs = Inr f" and "holds H (jf_data f) rs" and "length rs < 4096" and "plain (PyDict e)"
    and "enrollment_append_checked H ws ws1 ws2 ws3 i m e fs = (Inr h, fs')"
  shows "\<exists>r'. holds H (file_data fs') (rs @ [r']) \<and> dict_get r' ''milestone'' = PyStr m
    \<and> dict_get r' ''evidence'' = sort_dicts (PyDict e) \<and> enrollment_validate_history H (rs @ [r']) = Inr h
    \<and> (\<exists>h0. enrollment_validate_history H (rs @ [candidate_record i m e]) = Inr h0)"
  by (rule enrollment_append.success_extends [OF assms])

text \<open>
  An enrollment milestone that the current history does not allow is never written: the checked
  append fails and the file stays as it was.
\<close>

theorem enrollment_append_rejects:
  assumes "open_private fs = Inr f" and "holds H (jf_data f) rs" and "length rs \<le> 4096"
    and "enrollment_validate_history H (rs @ [candidate_record i m e]) = Inl x"
  shows "\<exists>y. enrollment_append_checked H ws ws1 ws2 ws3 i m e fs = (Inl y, fs)"
  by (rule enrollment_append.rejected_not_written [OF assms])

section \<open>Witnesses\<close>

definition enroll_base :: pydict where
  "enroll_base = candidate_record sample_id ''BASELINE_RECONCILED''
     [(KStr ''operation_kind'', PyStr ''enroll''), (KStr ''baseline'', sample_baseline)]"

definition enroll_abort_evidence :: pydict where
  "enroll_abort_evidence = [(KStr ''connection_generation'', sample_uuid CHR ''d''),
     (KStr ''reason'', PyStr ''safety-guard-unavailable''), (KStr ''mutation_possible'', PyBool False)]"

definition enroll_run :: "pydict list" where
  "enroll_run =
     [enroll_base,
      candidate_record sample_id ''ENROLL_START_INTENT'' [(KStr ''apple_uid'', PyInt 501),
        (KStr ''protocol_version'', PyInt 2), (KStr ''connection_generation'', sample_uuid CHR ''d''),
        (KStr ''request_length'', PyInt 68), (KStr ''request_sha256'', sample_digest CHR ''a'')],
      candidate_record sample_id ''ENROLL_START_OBSERVED'' [(KStr ''status'', PyInt 0)],
      candidate_record sample_id ''ENROLL_CONTINUE_INTENT'' [(KStr ''connection_generation'', sample_uuid CHR ''d''),
        (KStr ''event_sequence'', PyInt 7), (KStr ''event_ordinal'', PyInt 70),
        (KStr ''event_sha256'', sample_digest CHR ''b'')],
      candidate_record sample_id REPAIR_MILESTONE [(KStr ''truncated_bytes'', PyInt 5)],
      candidate_record sample_id ''ENROLL_CONTINUE_OBSERVED'' [(KStr ''event_sequence'', PyInt 7),
        (KStr ''status'', PyInt 0)],
      candidate_record sample_id ''E2_TERMINAL_IDENTITY_OBSERVED'' [(KStr ''connection_generation'', sample_uuid CHR ''d''),
        (KStr ''event_sequence'', PyInt 9), (KStr ''envelope_type'', PyInt SERVICE_ENROLLMENT_RESULT),
        (KStr ''event_version'', PyInt 2), (KStr ''user_id'', PyInt 501), (KStr ''identity_uuid'', sample_uuid CHR ''f'')]]"

text \<open>The state after the baseline record, written out, so that the evaluations below do not check the baseline again.\<close>

definition enroll_ready :: "pydict \<Rightarrow> enroll_state" where
  "enroll_ready baseline =
     \<lparr>es_operation_id = sample_id, es_baseline = baseline,
      es_phase = E_BASELINE, es_last_event = None, es_pending_event = None,
      es_terminal_identity_uuid = None, es_terminal_status = None,
      es_persistence = projr (tracker_init baseline ''enrollment''),
      es_reconciled_snapshot_sha256 = None, es_post_reboot_linux_boot_uuid = None,
      es_outcome_unknown_stage = None,
      es_persistence_connection_generation = dict_get baseline ''connection_generation''\<rparr>"

lemma enroll_base_start: "enroll_start enroll_base = Inr (enroll_ready (dict_of sample_baseline))"
  by code_simp

lemmas enroll_base_eval = enrollment_validate_from [OF enroll_base_start, of save_hash]

definition enroll_history :: enrollment_history where
  "enroll_history = projr (enrollment_validate_history save_hash enroll_run)"

lemma enroll_run_ends: "enrollment_validate_history save_hash enroll_run = Inr enroll_history"
  "eh_phase enroll_history = E_TERMINAL_IDENTITY"
proof -
  have run: "enroll_run = enroll_base # tl enroll_run" by (simp add: enroll_run_def)
  have "case and_then (fold_res (enroll_step save_hash) (tl enroll_run) (enroll_ready (dict_of sample_baseline)))
      (enroll_history_of enroll_run) of Inl _ \<Rightarrow> False | Inr h \<Rightarrow> eh_phase h = E_TERMINAL_IDENTITY" by code_simp
  then have "case enrollment_validate_history save_hash enroll_run of Inl _ \<Rightarrow> False
      | Inr h \<Rightarrow> eh_phase h = E_TERMINAL_IDENTITY"
    using enroll_base_eval [of "tl enroll_run", folded run] by simp
  then show "enrollment_validate_history save_hash enroll_run = Inr enroll_history"
    "eh_phase enroll_history = E_TERMINAL_IDENTITY" by (auto simp: enroll_history_def split: sum.splits)
qed

theorem enrollment_history_sound_witness:
  "eh_phase enroll_history = E_TERMINAL_IDENTITY \<and> eh_terminal_identity_uuid enroll_history \<noteq> None"
  using enrollment_history_sound [OF enroll_run_ends(1)] enroll_run_ends(2) by simp

theorem observations_follow_intents_witness:
  "\<exists>as q rs. take 5 enroll_run = as @ q # rs \<and> dict_get q ''milestone'' = PyStr ''ENROLL_CONTINUE_INTENT''
     \<and> list_all is_repair_record rs"
proof (rule observations_follow_intents)
  show "enrollment_validate_history save_hash (take 5 enroll_run @ enroll_run ! 5 # drop 6 enroll_run) = Inr enroll_history"
    using enroll_run_ends(1) by (simp add: enroll_run_def)
  show "dict_get (enroll_run ! 5) ''milestone'' = PyStr ''ENROLL_CONTINUE_OBSERVED''" by code_simp
  show "(''ENROLL_CONTINUE_OBSERVED'', ''ENROLL_CONTINUE_INTENT'', E_CONTINUE_INTENT) \<in> set write_ahead_pairs"
    by (simp add: write_ahead_pairs_def)
qed

theorem enrollment_events_increase_witness: "sorted_wrt (<) (event_numbers enroll_run)"
  by (rule enrollment_events_increase [OF enroll_run_ends(1)])

definition aborted_run :: "pydict list" where
  "aborted_run = [enroll_base, candidate_record sample_id ''ENROLL_ABORTED_BEFORE_START'' enroll_abort_evidence]"

definition abort_repair :: pydict where
  "abort_repair = candidate_record sample_id REPAIR_MILESTONE [(KStr ''truncated_bytes'', PyInt 5)]"

lemma aborted_run_ends:
  "case enrollment_validate_history save_hash aborted_run of Inl _ \<Rightarrow> False | Inr h \<Rightarrow> eh_phase h = E_ABORTED_BEFORE_START"
  "\<not> isl (enrollment_validate_history save_hash (aborted_run @ [abort_repair]))"
proof -
  have "case and_then (fold_res (enroll_step save_hash) (tl aborted_run) (enroll_ready (dict_of sample_baseline)))
      (enroll_history_of aborted_run) of Inl _ \<Rightarrow> False | Inr h \<Rightarrow> eh_phase h = E_ABORTED_BEFORE_START" by code_simp
  then show "case enrollment_validate_history save_hash aborted_run of Inl _ \<Rightarrow> False | Inr h \<Rightarrow> eh_phase h = E_ABORTED_BEFORE_START"
    using enroll_base_eval [of "tl aborted_run"] by (simp add: aborted_run_def)
  have "\<not> isl (and_then (fold_res (enroll_step save_hash) (tl aborted_run @ [abort_repair]) (enroll_ready (dict_of sample_baseline)))
      (enroll_history_of (aborted_run @ [abort_repair])))" by code_simp
  then show "\<not> isl (enrollment_validate_history save_hash (aborted_run @ [abort_repair]))"
    using enroll_base_eval [of "tl aborted_run @ [abort_repair]"] by (simp add: aborted_run_def)
qed

theorem finished_enrollment_is_final_witness: "is_repair_record abort_repair"
proof (rule finished_enrollment_is_final)
  show "enrollment_validate_history save_hash aborted_run = Inr (projr (enrollment_validate_history save_hash aborted_run))"
    "eh_phase (projr (enrollment_validate_history save_hash aborted_run)) \<in>
       {E_ABORTED_BEFORE_START, E_ADDITION_VERIFIED, E_ADDITION_ROLLED_BACK, E_POST_REBOOT_VERIFIED}"
    using aborted_run_ends(1) by (auto split: sum.splits)
  show "enrollment_validate_history save_hash (aborted_run @ [abort_repair]) =
      Inr (projr (enrollment_validate_history save_hash (aborted_run @ [abort_repair])))"
    using aborted_run_ends(2) by (rule isr_eq)
qed


text \<open>A journal file that holds the baseline, and the abort appended to it.\<close>

definition base_fields :: pydict where
  "base_fields = unsigned_fields (PyStr sample_id) 0 PyNone ''BASELINE_RECONCILED''
     [(KStr ''operation_kind'', PyStr ''enroll''), (KStr ''baseline'', sample_baseline)]"

definition base_read :: pydict where
  "base_read = read_back save_hash base_fields"

text \<open>The sample digest ignores the text, so the text need not be evaluated.\<close>

lemma read_back_save_hash [code_unfold]:
  "read_back save_hash u = sorted_items u @ [(KStr ''record_hash'', PyStr (save_digest CHR ''f''))]"
  by (simp add: read_back_def save_hash_def)

lemma base_read_code [code]:
  "base_read = sorted_items base_fields @ [(KStr ''record_hash'', PyStr (save_digest CHR ''f''))]"
  by (simp add: base_read_def read_back_save_hash)

definition base_file :: journal_file where
  "base_file = \<lparr>jf_kind = RegularFile, jf_owned = True, jf_nlink = 1, jf_private = True,
     jf_data = record_line (signed save_hash base_fields)\<rparr>"

definition base_fs :: journal_fs where
  "base_fs = \<lparr>fs_parent = ParentDir True True, fs_file = Some base_file\<rparr>"

lemma base_holds: "holds save_hash (jf_data base_file) [base_read]"
proof -
  have "holds save_hash ([] @ record_line (signed save_hash base_fields)) ([] @ [read_back save_hash base_fields])"
  proof (rule holds_snoc(1) [OF holds_Nil])
    show "plain (PyDict [(KStr ''operation_kind'', PyStr ''enroll''), (KStr ''baseline'', sample_baseline)])" by code_simp
    show "base_fields = unsigned_fields (PyStr sample_id) (length ([] :: pydict list)) (head_hash []) ''BASELINE_RECONCILED''
      [(KStr ''operation_kind'', PyStr ''enroll''), (KStr ''baseline'', sample_baseline)]"
      by (simp add: base_fields_def head_hash_def)
    show "is_repair_milestone (PyStr ''BASELINE_RECONCILED'') \<longrightarrow> valid_repair_record base_fields"
      by (simp add: is_repair_milestone_def REPAIR_MILESTONE_def)
  qed simp
  then show ?thesis by (simp add: base_file_def base_read_def)
qed

lemma base_size: "int (length (jf_data base_file)) \<le> 8000"
  by code_simp

lemma base_open: "open_private base_fs = Inr base_file"
proof -
  have "int (length (jf_data base_file)) \<le> MAX_JOURNAL_BYTES" using base_size by (simp add: MAX_JOURNAL_BYTES_def)
  then show ?thesis by (intro open_private_after_append) (simp_all add: base_fs_def base_file_def)
qed

lemma base_start: "enroll_start base_read = Inr (enroll_ready (dict_of (sort_dicts sample_baseline)))"
  by code_simp

lemmas base_eval = enrollment_validate_from [OF base_start, of save_hash]

theorem enrollment_append_rejects_witness:
  "\<exists>y. enrollment_append_checked save_hash [] [] [] [] sample_id ''ENROLL_START_OBSERVED''
     [(KStr ''status'', PyInt 0)] base_fs = (Inl y, base_fs)"
proof (rule enrollment_append_rejects [OF base_open base_holds])
  have "isl (fold_res (enroll_step save_hash)
      [candidate_record sample_id ''ENROLL_START_OBSERVED'' [(KStr ''status'', PyInt 0)]]
      (enroll_ready (dict_of (sort_dicts sample_baseline))))" by code_simp
  then have "isl (enrollment_validate_history save_hash ([base_read] @
    [candidate_record sample_id ''ENROLL_START_OBSERVED'' [(KStr ''status'', PyInt 0)]]))"
    unfolding append_Cons append_Nil base_eval by (auto simp: isl_def and_then_def)
  then show "enrollment_validate_history save_hash ([base_read] @
      [candidate_record sample_id ''ENROLL_START_OBSERVED'' [(KStr ''status'', PyInt 0)]]) =
    Inl (projl (enrollment_validate_history save_hash ([base_read] @
      [candidate_record sample_id ''ENROLL_START_OBSERVED'' [(KStr ''status'', PyInt 0)]])))" by simp
qed simp

definition abort_fields :: pydict where
  "abort_fields = unsigned_fields (PyStr sample_id) 1 (PyStr (save_digest CHR ''f'')) ''ENROLL_ABORTED_BEFORE_START''
     enroll_abort_evidence"

definition abort_file :: journal_file where
  "abort_file = base_file\<lparr>jf_data := jf_data base_file @ record_line (signed save_hash abort_fields)\<rparr>"

lemma abort_head: "head_hash [base_read] = PyStr (save_digest CHR ''f'')"
  "dict_get base_read ''operation_id'' = PyStr sample_id" "plain (PyDict enroll_abort_evidence)"
  "append_checks sample_id ''ENROLL_ABORTED_BEFORE_START'' enroll_abort_evidence (Some 1) (Some (save_digest CHR ''f'')) = Inr ()"
  by code_simp+

lemma abort_holds:
  "holds save_hash (jf_data abort_file) ([base_read] @ [read_back save_hash abort_fields])"
proof -
  have "abort_fields = unsigned_fields (PyStr sample_id) (length [base_read]) (head_hash [base_read])
    ''ENROLL_ABORTED_BEFORE_START'' enroll_abort_evidence" by (simp add: abort_fields_def abort_head(1))
  from holds_snoc(1) [OF base_holds abort_head(3) _ this] show ?thesis
    by (simp add: abort_file_def abort_head(2) is_repair_milestone_def REPAIR_MILESTONE_def)
qed

lemma abort_histories:
  "case enrollment_validate_history save_hash [base_read] of Inl _ \<Rightarrow> False
   | Inr h \<Rightarrow> eh_operation_id h = sample_id \<and> eh_record_count h = 1 \<and> eh_head_hash h = save_digest CHR ''f''"
  "\<not> isl (enrollment_validate_history save_hash
     ([base_read] @ [candidate_record sample_id ''ENROLL_ABORTED_BEFORE_START'' enroll_abort_evidence]))"
  "\<not> isl (enrollment_validate_history save_hash ([base_read] @ [read_back save_hash abort_fields]))"
  unfolding append_Cons append_Nil base_eval by code_simp+

lemma abort_open: "open_private (base_fs\<lparr>fs_file := Some abort_file\<rparr>) = Inr abort_file"
proof -
  have "int (length (record_line (signed save_hash abort_fields))) \<le> 8000" by code_simp
  with base_size have "int (length (jf_data abort_file)) \<le> MAX_JOURNAL_BYTES"
    by (simp add: abort_file_def MAX_JOURNAL_BYTES_def)
  then show ?thesis by (intro open_private_after_append) (simp_all add: abort_file_def base_file_def)
qed

lemma abort_append:
  "enrollment_append_checked save_hash [] [] [] [] sample_id ''ENROLL_ABORTED_BEFORE_START'' enroll_abort_evidence base_fs =
   (Inr (projr (enrollment_validate_history save_hash ([base_read] @ [read_back save_hash abort_fields]))),
    base_fs\<lparr>fs_file := Some abort_file\<rparr>)"
proof -
  obtain h where h: "enrollment_validate_history save_hash [base_read] = Inr h" "eh_operation_id h = sample_id"
    "eh_record_count h = 1" "eh_head_hash h = save_digest CHR ''f''"
    using abort_histories(1) by (auto split: sum.splits)
  have "journal_append save_hash [] [] sample_id ''ENROLL_ABORTED_BEFORE_START'' enroll_abort_evidence False (Some 1)
      (Some (save_digest CHR ''f'')) base_fs =
    (Inr (signed save_hash abort_fields), base_fs\<lparr>fs_file := Some abort_file\<rparr>)"
    unfolding abort_file_def
    by (rule journal_append_succeeds [OF base_open _ base_holds abort_head(4,3)])
      (simp_all add: abort_head(1,2) abort_fields_def base_fs_def)
  moreover have "read_journal save_hash [] base_fs = (Inr [base_read], base_fs)"
    by (rule read_journal_holds [OF base_open base_holds]) simp
  moreover have "read_journal save_hash [] (base_fs\<lparr>fs_file := Some abort_file\<rparr>) =
      (Inr ([base_read] @ [read_back save_hash abort_fields]), base_fs\<lparr>fs_file := Some abort_file\<rparr>)"
    by (rule read_journal_holds [OF abort_open abort_holds]) simp
  moreover obtain h1 h2 where
    "enrollment_validate_history save_hash
       ([base_read] @ [candidate_record sample_id ''ENROLL_ABORTED_BEFORE_START'' enroll_abort_evidence]) = Inr h1"
    "enrollment_validate_history save_hash ([base_read] @ [read_back save_hash abort_fields]) = Inr h2"
    using isr_eq [OF abort_histories(2)] isr_eq [OF abort_histories(3)] by blast
  ultimately show ?thesis
    using h by (simp add: enrollment_append_checked_def enrollment_read_def)
qed

theorem enrollment_append_extends_witness:
  "\<exists>r'. holds save_hash (file_data (base_fs\<lparr>fs_file := Some abort_file\<rparr>)) ([base_read] @ [r'])
    \<and> dict_get r' ''milestone'' = PyStr ''ENROLL_ABORTED_BEFORE_START''"
  using enrollment_append_extends [OF base_open base_holds _ abort_head(3) abort_append] by auto

end
