(* ===== verification/Delete_Facts.thy ===== *)
theory Delete_Facts
  imports Delete_Journal Enrollment_Facts
begin

text \<open>
  What an accepted deletion journal establishes: the SEP lost the identity before anything was saved,
  the command's result follows its dispatch intent, an interrupted deletion can always be recovered,
  and a finished deletion is final. The deletion journal is the second instance of the contract of
  typed journals.
\<close>

section \<open>The branches, seen from their results\<close>

lemma d_sha256_Inr [res_simps]:
  "d_sha256 v f = Inr u \<longleftrightarrow> (\<exists>s. v = PyStr s \<and> length s = 64 \<and> fromhex_ok s)"
  by (auto simp: d_sha256_def require_sha256_def res_simps py_simps)

lemma d_uuid_Inr [res_simps]: "d_uuid v f = Inr u \<longleftrightarrow> (\<exists>s. v = PyStr s \<and> canonical_uuid s)"
  by (auto simp: d_uuid_def require_uuid_def res_simps py_simps)

lemma d_intent_ok: "d_intent v s = Inr s' \<Longrightarrow>
  \<exists>u e n r h. s' = s\<lparr>ds_target_uuid := PyStr u, ds_target_entity := e, ds_target_name_hash := n,
     ds_request_hash := r, ds_survivor_hash := h, ds_phase := D_INTENT\<rparr> \<and> ds_phase s = D_BASELINE"
  by (auto simp: d_intent_def res_simps; intro exI; rule refl)

lemma d_dispatch_intent_ok: "d_dispatch_intent v s = Inr s' \<Longrightarrow>
  s' = s\<lparr>ds_phase := D_DISPATCH_INTENT\<rparr> \<and> ds_phase s = D_INTENT"
  by (auto simp: d_dispatch_intent_def res_simps)

lemma d_command_observed_ok: "d_command_observed v s = Inr s' \<Longrightarrow>
  \<exists>n. s' = s\<lparr>ds_command_status := Some n, ds_phase := D_COMMAND_OBSERVED\<rparr> \<and> ds_phase s = D_DISPATCH_INTENT
    \<and> - (2 ^ 31) \<le> n \<and> n < 2 ^ 32"
  by (auto simp: d_command_observed_def res_simps Let_def)

lemma d_sep_absence_ok: "d_sep_absence v s = Inr s' \<Longrightarrow>
  s' = s\<lparr>ds_phase := D_SEP_DELETED\<rparr> \<and> ds_phase s = D_COMMAND_OBSERVED
    \<and> dict_is_true (dict_of v) ''target_absent''"
  by (auto simp: d_sep_absence_def d_exact_def res_simps)

lemma d_not_performed_ok: "d_not_performed v s = Inr s' \<Longrightarrow>
  s' = s\<lparr>ds_phase := D_ABORTED\<rparr> \<and> ds_phase s = D_COMMAND_OBSERVED \<and> ds_command_status s \<noteq> Some 0"
  by (auto simp: d_not_performed_def res_simps)

lemma d_outcome_unknown_ok: "d_outcome_unknown v s = Inr s' \<Longrightarrow>
  \<exists>st. s' = s\<lparr>ds_outcome_stage := st, ds_phase := D_OUTCOME_UNKNOWN\<rparr>
    \<and> ds_phase s \<in> {D_DISPATCH_INTENT, D_COMMAND_OBSERVED, D_SEP_DELETED, D_PERSISTING, D_PERSISTENCE_READY}"
  by (auto simp: d_outcome_unknown_def res_simps Let_def)

lemma d_recovery_intent_ok: "d_recovery_intent v s = Inr s' \<Longrightarrow>
  \<exists>a b. s' = s\<lparr>ds_recovery_action := PyStr a, ds_recovery_boot_uuid := b, ds_phase := D_OUTCOME_UNKNOWN\<rparr>
    \<and> ds_phase s \<in> {D_INTENT, D_DISPATCH_INTENT, D_COMMAND_OBSERVED, D_SEP_DELETED, D_PERSISTING,
        D_PERSISTENCE_READY, D_OUTCOME_UNKNOWN}"
proof -
  assume "d_recovery_intent v s = Inr s'"
  then obtain e where c: "first_recovery s \<or> forward_retry s"
    "\<exists>known. in_str_set (dict_get e ''action'') [''prepare-discarded'', ''commit-rolled-forward'', ''no-local-transaction'']
       = Inr known \<and> known"
    "s' = s\<lparr>ds_recovery_action := dict_get e ''action'', ds_recovery_boot_uuid := dict_get e ''linux_boot_uuid'',
        ds_phase := D_OUTCOME_UNKNOWN\<rparr>"
    unfolding d_recovery_intent_def Let_def by (elim guard_InrE and_then_InrE) (rule that; blast)
  from c(1) have "ds_phase s \<in> {D_INTENT, D_DISPATCH_INTENT, D_COMMAND_OBSERVED, D_SEP_DELETED, D_PERSISTING,
        D_PERSISTENCE_READY, D_OUTCOME_UNKNOWN}"
    unfolding first_recovery_def forward_retry_def by blast
  moreover from c(2) obtain a where "dict_get e ''action'' = PyStr a" by (auto simp: in_str_set_Inr)
  ultimately show ?thesis using c(3) by (intro exI conjI) simp_all
qed

lemma tracker_init_eq: "tracker_init b k = Inr t \<Longrightarrow>
  pt_phase t = P_NOT_STARTED \<and> pt_plan_kind t = k \<and> pt_baseline t = b \<and> tracker_ok t"
  by (auto simp: tracker_init_def tracker_ok_def res_simps Let_def)

lemma restart_persistence_ok: "restart_persistence k g s = Inr s' \<Longrightarrow>
  \<exists>t. s' = s\<lparr>ds_persistence := t, ds_persistence_connection_generation := g, ds_outcome_stage := PyNone,
     ds_phase := D_SEP_DELETED\<rparr> \<and> tracker_ok t \<and> pt_phase t = P_NOT_STARTED \<and> pt_plan_kind t = k
    \<and> pt_baseline t = ds_baseline s"
proof -
  assume "restart_persistence k g s = Inr s'"
  then obtain t0 t where t: "tracker_init (ds_baseline s) k = Inr t0" "use_recovery_generation g t0 = Inr t"
    and s': "s' = s\<lparr>ds_persistence := t, ds_persistence_connection_generation := g, ds_outcome_stage := PyNone,
     ds_phase := D_SEP_DELETED\<rparr>"
    unfolding restart_persistence_def and_then_Inr_iff rewrap_Inr_iff by blast
  show ?thesis
    using tracker_init_eq [OF t(1)] use_recovery_generation_ok [OF t(2)]
    by (intro exI [of _ t]) (simp add: s' tracker_ok_generation)
qed

lemma d_recovery_sep_absence_ok: "d_recovery_sep_absence v s = Inr s' \<Longrightarrow>
  restart_persistence ''identity-delete'' (dict_get (dict_of v) ''connection_generation'') s = Inr s'
    \<and> ds_phase s = D_OUTCOME_UNKNOWN \<and> ds_target_uuid s \<noteq> PyNone \<and> dict_is_true (dict_of v) ''target_absent''"
  by (auto simp: d_recovery_sep_absence_def d_exact_def recovery_ready_def res_simps Let_def)

lemma d_recovery_master_save_ok: "d_recovery_master_save v s = Inr s' \<Longrightarrow>
  (\<exists>h. restart_persistence ''identity-delete-master-recovery'' (dict_get (dict_of v) ''connection_generation'')
     (s\<lparr>ds_recovery_user_file_sha256 := h\<rparr>) = Inr s')
    \<and> ds_phase s = D_OUTCOME_UNKNOWN \<and> ds_target_uuid s \<noteq> PyNone \<and> dict_is_true (dict_of v) ''target_absent''"
  by (auto simp: d_recovery_master_save_def d_exact_def recovery_ready_def res_simps)

lemma d_recovery_reconciled_ok: "d_recovery_reconciled c v s = Inr s' \<Longrightarrow>
  (if c then \<exists>h g. s' = s\<lparr>ds_reconciled_hash := PyStr h, ds_reconciled_generation := PyStr g,
        ds_reconciled_boot_uuid := ds_recovery_boot_uuid s, ds_phase := D_RECONCILED\<rparr>
      \<and> dict_is_true (dict_of v) ''target_absent''
   else s' = s\<lparr>ds_reconciled_hash := PyNone, ds_reconciled_generation := PyNone,
        ds_reconciled_boot_uuid := PyNone, ds_phase := D_ABORTED\<rparr>
      \<and> ds_recovery_action s \<noteq> PyStr ''commit-rolled-forward'')
  \<and> ds_phase s = D_OUTCOME_UNKNOWN \<and> ds_target_uuid s \<noteq> PyNone \<and> ds_recovery_action s \<noteq> PyNone"
proof -
  assume "d_recovery_reconciled c v s = Inr s'"
  then obtain e where e: "recovery_ready s" "d_exact v [''connection_generation'', ''identity_uuid'', ''snapshot_sha256'',
             ''mapping_generation'', ''identity_count'', ''target_absent'', ''local_live_equal'',
             ''host_reconciled'', ''sep_clean'', ''recovery_action''] = Inr e"
    "d_uuids e [''connection_generation'', ''identity_uuid''] = Inr ()"
    "d_sha256s e [''snapshot_sha256'', ''mapping_generation''] = Inr ()"
    "dict_get e ''target_absent'' = PyBool c" "\<not> (\<not> c \<and> ds_recovery_action s = PyStr ''commit-rolled-forward'')"
    and s': "s' = s\<lparr>ds_reconciled_hash := (if c then dict_get e ''snapshot_sha256'' else PyNone),
             ds_reconciled_generation := (if c then dict_get e ''connection_generation'' else PyNone),
             ds_reconciled_boot_uuid := (if c then ds_recovery_boot_uuid s else PyNone),
             ds_phase := (if c then D_RECONCILED else D_ABORTED)\<rparr>"
    unfolding d_recovery_reconciled_def by (elim guard_InrE and_then_InrE Inr_inject [elim_format]) (rule that; (assumption | (rule sym, assumption) | auto))
  from e(3,4) obtain g h where "dict_get e ''connection_generation'' = PyStr g" "dict_get e ''snapshot_sha256'' = PyStr h"
    by (auto simp: d_uuids_def d_sha256s_def res_simps)
  moreover from e(2) have "e = dict_of v" by (auto simp: d_exact_def res_simps)
  ultimately show ?thesis
    using e(1,5,6) s' by (cases c) (auto simp: recovery_ready_def dict_is_true_def)
qed

lemma d_catacomb_ok: "d_catacomb H m v s = Inr s' \<Longrightarrow>
  \<exists>t st. consume_one H False (m, v) (ds_persistence s) = Inr t
    \<and> s' = s\<lparr>ds_persistence := t, ds_outcome_stage := st, ds_phase := (if pt_phase t = P_COMPLETE then D_PERSISTENCE_READY
         else if pt_phase t = P_OUTCOME_UNKNOWN then D_OUTCOME_UNKNOWN else D_PERSISTING)\<rparr>
    \<and> ds_phase s \<in> {D_SEP_DELETED, D_PERSISTING}"
proof -
  assume "d_catacomb H m v s = Inr s'"
  then obtain b t where t: "consume H False m v (ds_persistence s) = Inr (b, t)"
    and s': "s' = (if pt_phase t = P_COMPLETE then s\<lparr>ds_persistence := t, ds_phase := D_PERSISTENCE_READY\<rparr>
      else if pt_phase t = P_OUTCOME_UNKNOWN
      then s\<lparr>ds_persistence := t, ds_outcome_stage := opt_str (ph_outcome_unknown_stage (tracker_snapshot t)),
             ds_phase := D_OUTCOME_UNKNOWN\<rparr>
      else s\<lparr>ds_persistence := t, ds_phase := D_PERSISTING\<rparr>)"
    and ph: "ds_phase s \<in> {D_SEP_DELETED, D_PERSISTING}"
    unfolding d_catacomb_def by (auto simp: res_simps split: if_splits)
  have t': "consume_one H False (m, v) (ds_persistence s) = Inr t" using t by (simp add: consume_one_def)
  show ?thesis
  proof (cases "pt_phase t = P_OUTCOME_UNKNOWN")
    case True
    with t' s' ph show ?thesis
      by (intro exI [of _ t] exI [of _ "opt_str (ph_outcome_unknown_stage (tracker_snapshot t))"]) simp
  next
    case False
    with t' s' ph show ?thesis
      by (intro exI [of _ t] exI [of _ "ds_outcome_stage s"]) simp
  qed
qed

lemma d_reconciled_ok: "d_reconciled v s = Inr s' \<Longrightarrow>
  \<exists>h g b. s' = s\<lparr>ds_reconciled_hash := PyStr h, ds_reconciled_generation := g, ds_reconciled_boot_uuid := b,
     ds_phase := D_RECONCILED\<rparr> \<and> ds_phase s = D_PERSISTENCE_READY \<and> dict_is_true (dict_of v) ''target_absent''"
proof -
  assume "d_reconciled v s = Inr s'"
  then obtain e b where e: "ds_phase s = D_PERSISTENCE_READY" "d_exact v [''connection_generation'', ''identity_uuid'',
             ''survivor_snapshot_sha256'', ''snapshot_sha256'', ''mapping_generation'', ''identity_count'', ''target_absent'',
             ''local_live_equal'', ''host_reconciled'', ''sep_clean''] = Inr e"
    "d_sha256s e [''survivor_snapshot_sha256'', ''snapshot_sha256'', ''mapping_generation''] = Inr ()"
    "list_all (dict_is_true e) [''target_absent'', ''local_live_equal'', ''host_reconciled'', ''sep_clean'']"
    and s': "s' = s\<lparr>ds_reconciled_hash := dict_get e ''snapshot_sha256'',
             ds_reconciled_generation := dict_get e ''connection_generation'', ds_reconciled_boot_uuid := b,
             ds_phase := D_RECONCILED\<rparr>"
    unfolding d_reconciled_def by (elim guard_InrE and_then_InrE Inr_inject [elim_format]) (rule that; (assumption | (rule sym, assumption) | auto))
  from e(3) obtain h where "dict_get e ''snapshot_sha256'' = PyStr h" by (auto simp: d_sha256s_def res_simps)
  moreover from e(2) have "e = dict_of v" by (auto simp: d_exact_def res_simps)
  ultimately show ?thesis using e(1,4) s' by (intro exI conjI) simp_all
qed

text \<open>
  Evidence of a proof against the evidence of the reconciliation and the boot in which that was made.
\<close>

definition reboot_proof :: "pydict \<Rightarrow> pydict \<Rightarrow> pyval \<Rightarrow> bool" where
  "reboot_proof evidence reconciliation boot =
     (\<not> py_eq (dict_get evidence ''linux_boot_uuid'') boot
      \<and> \<not> py_eq (dict_get evidence ''connection_generation'') (dict_get reconciliation ''connection_generation'')
      \<and> py_eq (dict_get evidence ''identity_uuid'') (dict_get reconciliation ''identity_uuid'')
      \<and> py_eq (dict_get evidence ''snapshot_sha256'') (dict_get reconciliation ''snapshot_sha256'')
      \<and> dict_is_true evidence ''target_absent'')"

lemma d_post_reboot_ok: "d_post_reboot v s = Inr s' \<Longrightarrow>
  s' = s\<lparr>ds_phase := D_POST_REBOOT_VERIFIED\<rparr> \<and> ds_phase s = D_RECONCILED
    \<and> \<not> py_eq (dict_get (dict_of v) ''linux_boot_uuid'') (ds_reconciled_boot_uuid s)
    \<and> \<not> py_eq (dict_get (dict_of v) ''connection_generation'') (ds_reconciled_generation s)
    \<and> py_eq (dict_get (dict_of v) ''identity_uuid'') (ds_target_uuid s)
    \<and> py_eq (dict_get (dict_of v) ''snapshot_sha256'') (ds_reconciled_hash s)
    \<and> dict_is_true (dict_of v) ''target_absent''"
  unfolding d_post_reboot_def by (auto simp: res_simps d_exact_def)

lemma delete_milestone_cases:
  assumes "delete_milestone H m v s = Inr s'"
  obtains
    (intent) "m = PyStr ''DELETE_INTENT''" "d_intent v s = Inr s'"
  | (dispatch_intent) "m = PyStr ''DELETE_DISPATCH_INTENT''" "d_dispatch_intent v s = Inr s'"
  | (command_observed) "m = PyStr ''DELETE_COMMAND_OBSERVED''" "d_command_observed v s = Inr s'"
  | (sep_absence) "m = PyStr ''DELETE_SEP_ABSENCE_OBSERVED''" "d_sep_absence v s = Inr s'"
  | (not_performed) "m = PyStr ''DELETE_NOT_PERFORMED''" "d_not_performed v s = Inr s'"
  | (outcome_unknown) "m = PyStr ''DELETE_OUTCOME_UNKNOWN''" "d_outcome_unknown v s = Inr s'"
  | (recovery_intent) "m = PyStr ''DELETE_RECOVERY_INTENT''" "d_recovery_intent v s = Inr s'"
  | (recovery_sep_absence) "m = PyStr ''DELETE_RECOVERY_SEP_ABSENCE_OBSERVED''" "d_recovery_sep_absence v s = Inr s'"
  | (recovery_master_save) "m = PyStr ''DELETE_RECOVERY_MASTER_SAVE_REQUIRED''" "d_recovery_master_save v s = Inr s'"
  | (recovery_unchanged) "m = PyStr ''DELETE_RECOVERY_RECONCILED_NO_CHANGE''" "d_recovery_reconciled False v s = Inr s'"
  | (recovery_committed) "m = PyStr ''DELETE_RECOVERY_RECONCILED_COMMITTED''" "d_recovery_reconciled True v s = Inr s'"
  | (catacomb) "is_catacomb m" "d_catacomb H m v s = Inr s'"
  | (reconciled) "m = PyStr ''DELETE_RECONCILED''" "d_reconciled v s = Inr s'"
  | (post_reboot) "m = PyStr ''DELETE_POST_REBOOT_VERIFIED''" "d_post_reboot v s = Inr s'"
proof -
  have rec: thesis if "in_str_set m [''DELETE_RECOVERY_RECONCILED_NO_CHANGE'',
             ''DELETE_RECOVERY_RECONCILED_COMMITTED''] = Inr x" "x"
      "d_recovery_reconciled (endswith (str_of m) ''COMMITTED'') v s = Inr s'" for x
  proof -
    from that(1,2) consider "m = PyStr ''DELETE_RECOVERY_RECONCILED_NO_CHANGE''"
      | "m = PyStr ''DELETE_RECOVERY_RECONCILED_COMMITTED''" by (auto simp: in_str_set_Inr)
    then show thesis
    proof cases
      case 1
      then have "endswith (str_of m) ''COMMITTED'' = False" by (simp add: endswith_def)
      with 1 that(3) show thesis by (intro recovery_unchanged) simp_all
    next
      case 2
      then have "endswith (str_of m) ''COMMITTED'' = True" by (simp add: endswith_def)
      with 2 that(3) show thesis by (intro recovery_committed) simp_all
    qed
  qed
  show thesis
    using assms unfolding delete_milestone_def is_catacomb_def [symmetric]
    by (elim if_InrE and_then_InrE Inl_InrE) ((rule rec; assumption) | (rule that; assumption))+
qed


lemma fromhex_zeros: "fromhex_ok (replicate 64 CHR ''0'')"
  by code_simp

section \<open>Invariant\<close>

text \<open>The Catacomb files a deletion saves: the user's and then perhaps master, or master alone in recovery.\<close>

definition deletion_plan :: "pydict \<Rightarrow> component list list \<Rightarrow> bool" where
  "deletion_plan baseline bs =
     (let user_name = user_cat_name (int_of (dict_get baseline ''apple_uid'')) in
      length bs = 1 \<and> map fst (concat bs) \<in> {[user_name], [user_name, ''master.cat''], [''master.cat'']})"

definition delete_inv :: "delete_state \<Rightarrow> bool" where
  "delete_inv s =
     (tracker_ok (ds_persistence s)
      \<and> pt_plan_kind (ds_persistence s) \<in> {''identity-delete'', ''identity-delete-master-recovery''}
      \<and> pt_baseline (ds_persistence s) = ds_baseline s
      \<and> (pt_phase (ds_persistence s) \<noteq> P_NOT_STARTED \<longrightarrow> deletion_plan (ds_baseline s) (pt_batches (ds_persistence s)))
      \<and> d_sha256 (dict_get (ds_baseline s) ''mapping_generation'') ''mapping generation'' = Inr ()
      \<and> (ds_phase s \<noteq> D_BASELINE \<longrightarrow> ds_target_uuid s \<noteq> PyNone)
      \<and> (ds_phase s = D_COMMAND_OBSERVED \<longrightarrow> ds_command_status s \<noteq> None)
      \<and> (ds_phase s = D_ABORTED \<longrightarrow> ds_command_status s \<notin> {None, Some 0}
           \<or> ds_recovery_action s \<notin> {PyNone, PyStr ''commit-rolled-forward''})
      \<and> (ds_phase s = D_PERSISTENCE_READY \<longrightarrow> pt_phase (ds_persistence s) = P_COMPLETE)
      \<and> (ds_phase s \<in> {D_RECONCILED, D_POST_REBOOT_VERIFIED} \<longrightarrow> ds_reconciled_hash s \<noteq> PyNone)
      \<and> (\<forall>n. ds_command_status s = Some n \<longrightarrow> - (2 ^ 31) \<le> n \<and> n < 2 ^ 32))"

lemma consume_one_deletion:
  assumes "consume_one H False mv t = Inr t'" and "tracker_ok t"
    and "pt_plan_kind t \<in> {''identity-delete'', ''identity-delete-master-recovery''}"
    and "pt_phase t \<noteq> P_NOT_STARTED \<longrightarrow> deletion_plan (pt_baseline t) (pt_batches t)"
    and "pt_phase t' \<noteq> P_NOT_STARTED"
  shows "deletion_plan (pt_baseline t) (pt_batches t')"
proof (cases "pt_phase t = P_NOT_STARTED")
  case True
  have "consume_all H False [mv] t = Inr t'" using assms(1) by (simp add: consume_all_def)
  from plan_kept [OF this assms(2) True assms(5)] have
    "plan_names_ok (pt_plan_kind t) False (user_cat_name (int_of (dict_get (pt_baseline t) ''apple_uid'')))
       (rev (map fst (concat (pt_batches t')))) (pt_batches t') = Inr ()" by blast
  with assms(3) show ?thesis by (auto simp: plan_names_ok_def deletion_plan_def Let_def split: if_splits)
qed (use consume_one_keeps(4) [OF assms(1,2)] assms(4) in simp)

lemma deletion_restart_inv:
  assumes "restart_persistence k g s = Inr s'" and "delete_inv s" and "ds_target_uuid s \<noteq> PyNone"
    and "k \<in> {''identity-delete'', ''identity-delete-master-recovery''}"
  shows "delete_inv s'"
  using restart_persistence_ok [OF assms(1)] assms(2-4) by (elim exE conjE) (simp add: delete_inv_def)

lemma delete_milestone_inv:
  assumes "delete_milestone H m v s = Inr s'" and "delete_inv s"
  shows "delete_inv s'"
  using assms(1)
proof (cases rule: delete_milestone_cases)
  case catacomb
  from d_catacomb_ok [OF this(2)] obtain t st where
    t: "consume_one H False (m, v) (ds_persistence s) = Inr t" and
    s': "s' = s\<lparr>ds_persistence := t, ds_outcome_stage := st, ds_phase :=
       (if pt_phase t = P_COMPLETE then D_PERSISTENCE_READY
         else if pt_phase t = P_OUTCOME_UNKNOWN then D_OUTCOME_UNKNOWN else D_PERSISTING)\<rparr>" and
    ph: "ds_phase s \<in> {D_SEP_DELETED, D_PERSISTING}" by blast
  have ok: "tracker_ok (ds_persistence s)" "pt_baseline (ds_persistence s) = ds_baseline s"
    "pt_plan_kind (ds_persistence s) \<in> {''identity-delete'', ''identity-delete-master-recovery''}"
    "pt_phase (ds_persistence s) \<noteq> P_NOT_STARTED \<longrightarrow> deletion_plan (ds_baseline s) (pt_batches (ds_persistence s))"
    using assms(2) by (simp_all add: delete_inv_def)
  have "ds_phase s \<noteq> D_BASELINE" using ph by auto
  with assms(2) have target: "ds_target_uuid s \<noteq> PyNone" by (simp add: delete_inv_def)
  note keep = consume_one_keeps [OF t ok(1)]
  have "pt_phase t \<noteq> P_NOT_STARTED \<longrightarrow> deletion_plan (ds_baseline s) (pt_batches t)"
    using consume_one_deletion [OF t ok(1,3)] ok(2,4) by simp
  with keep(1-3) ok target assms(2) show ?thesis
    unfolding s' delete_inv_def by (simp split del: if_split) simp
next
  case intent
  from d_intent_ok [OF this(2)] assms(2) show ?thesis by (elim exE conjE) (simp add: delete_inv_def)
next
  case dispatch_intent
  from d_dispatch_intent_ok [OF this(2)] assms(2) show ?thesis by (elim exE conjE) (simp add: delete_inv_def)
next
  case command_observed
  from d_command_observed_ok [OF this(2)] assms(2) show ?thesis by (elim exE conjE) (simp add: delete_inv_def)
next
  case sep_absence
  from d_sep_absence_ok [OF this(2)] assms(2) show ?thesis by (elim exE conjE) (simp add: delete_inv_def)
next
  case not_performed
  from d_not_performed_ok [OF this(2)] assms(2) show ?thesis by (elim exE conjE) (simp add: delete_inv_def)
next
  case outcome_unknown
  from d_outcome_unknown_ok [OF this(2)] assms(2) show ?thesis
    by (elim exE conjE insertE emptyE) (simp_all add: delete_inv_def)
next
  case recovery_intent
  from d_recovery_intent_ok [OF this(2)] assms(2) show ?thesis
    by (elim exE conjE insertE emptyE) (simp_all add: delete_inv_def)
next
  case recovery_sep_absence
  from d_recovery_sep_absence_ok [OF this(2)] assms(2) show ?thesis
    by (elim conjE) (rule deletion_restart_inv, assumption+, simp)
next
  case recovery_master_save
  from d_recovery_master_save_ok [OF this(2)] obtain h where
    "restart_persistence ''identity-delete-master-recovery'' (dict_get (dict_of v) ''connection_generation'')
       (s\<lparr>ds_recovery_user_file_sha256 := h\<rparr>) = Inr s'" "ds_target_uuid s \<noteq> PyNone" by blast
  then show ?thesis
    by (elim deletion_restart_inv) (use assms(2) in \<open>simp_all add: delete_inv_def\<close>)
next
  case recovery_unchanged
  from d_recovery_reconciled_ok [OF this(2)] assms(2) show ?thesis by (simp add: delete_inv_def)
next
  case recovery_committed
  from d_recovery_reconciled_ok [OF this(2)] have "\<exists>h g b. s' = s\<lparr>ds_reconciled_hash := PyStr h,
        ds_reconciled_generation := PyStr g, ds_reconciled_boot_uuid := b, ds_phase := D_RECONCILED\<rparr>"
      "ds_target_uuid s \<noteq> PyNone" by auto
  with assms(2) show ?thesis by (elim exE) (simp add: delete_inv_def)
next
  case reconciled
  from d_reconciled_ok [OF this(2)] assms(2) show ?thesis by (elim exE conjE) (simp add: delete_inv_def)
next
  case post_reboot
  from d_post_reboot_ok [OF this(2)] assms(2) show ?thesis by (elim exE conjE) (simp add: delete_inv_def)
qed

lemma delete_step_cases:
  assumes "delete_step H r s = Inr s'"
  obtains (repair) "is_repair_record r" "s' = s"
  | (milestone) "\<not> is_repair_record r" "dict_get r ''operation_id'' = PyStr (ds_operation_id s)"
      "delete_milestone H (dict_get r ''milestone'') (dict_get r ''evidence'') s = Inr s'"
  using assms by (auto simp: delete_step_def is_repair_record_def split: if_splits)

lemma validate_baseline_mapping:
  assumes "validate_baseline v = Inr ()"
  shows "require_sha256 (dict_get (dict_of v) ''mapping_generation'') ''mapping_generation'' = Inr ()"
proof -
  have "validate_baseline_fields (dict_of v) = Inr ()"
    using assms unfolding validate_baseline_def Let_def by (elim guard_InrE and_then_InrE) simp
  then show ?thesis unfolding validate_baseline_fields_def Let_def by (elim guard_InrE and_then_InrE) simp
qed

lemma delete_start_ok:
  assumes "delete_start r = Inr s"
  shows "delete_inv s \<and> ds_phase s = D_BASELINE \<and> dict_get r ''milestone'' = PyStr ''BASELINE_RECONCILED''"
proof -
  from assms obtain i t where i: "dict_get r ''milestone'' = PyStr ''BASELINE_RECONCILED''"
    "validate_baseline (dict_get i ''baseline'') = Inr ()"
    "tracker_init (dict_of (dict_get i ''baseline'')) ''identity-delete'' = Inr t"
    "ds_persistence s = t" "ds_baseline s = dict_of (dict_get i ''baseline'')" "ds_phase s = D_BASELINE"
    "ds_command_status s = None"
    by (auto simp: delete_start_def res_simps Let_def)
  from validate_baseline_mapping [OF i(2)] have
    "d_sha256 (dict_get (ds_baseline s) ''mapping_generation'') ''mapping generation'' = Inr ()"
    unfolding i(5) by (auto simp: res_simps require_sha256_def py_simps)
  with i tracker_init_eq [OF i(3)] show ?thesis by (simp add: delete_inv_def)
qed

interpretation deletion: typed_journal delete_start "delete_step H" delete_inv for H :: "string \<Rightarrow> string"
proof
  fix r s s'
  show "delete_step H r s = Inr s" if "is_repair_record r"
    using that by (simp add: delete_step_def is_repair_record_def)
  show "delete_inv s" if "delete_start r = Inr s"
    using delete_start_ok [OF that] by simp
  show "delete_inv s'" if "delete_step H r s = Inr s'" "delete_inv s"
    using that(1) by (cases rule: delete_step_cases) (use that(2) delete_milestone_inv in auto)
qed


lemma delete_history_run:
  assumes "delete_validate_history H rs = Inr h"
  obtains s where "deletion.run H rs = Inr s" "dh_phase h = ds_phase s" "dh_baseline h = ds_baseline s"
    "dh_target_identity_uuid h = ds_target_uuid s" "dh_command_status h = ds_command_status s"
    "dh_persistence h = tracker_snapshot (ds_persistence s)"
    "dh_reconciled_snapshot_sha256 h = ds_reconciled_hash s"
    "dh_reconciled_connection_generation h = ds_reconciled_generation s"
    "dh_reconciled_linux_boot_uuid h = ds_reconciled_boot_uuid s" "dh_recovery_action h = ds_recovery_action s"
    "dh_operation_id h = ds_operation_id s" "rs \<noteq> []"
  using assms
  by (cases rs) (auto simp: delete_validate_history_def deletion.run_def res_simps Let_def)

lemma delete_history_snoc:
  assumes "delete_validate_history H rs = Inr h" and "deletion.run H (rs @ [r]) = Inr s'"
    and "d_sha256 (dict_get r ''record_hash'') ''journal head hash'' = Inr ()"
  shows "\<exists>h'. delete_validate_history H (rs @ [r]) = Inr h' \<and> dh_phase h' = ds_phase s'"
  using assms by (cases rs) (auto simp: delete_validate_history_def deletion.run_def res_simps Let_def)

text \<open>The end of \<^verbatim>\<open>validate_history\<close>, after the loop.\<close>

definition delete_history_of :: "pydict list \<Rightarrow> delete_state \<Rightarrow> delete_history res" where
  "delete_history_of records s =
     (let head_hash = dict_get (last records) ''record_hash'' in
      and_then (d_sha256 head_hash ''journal head hash'') (\<lambda>_.
      Inr \<lparr>dh_operation_id = ds_operation_id s, dh_phase = ds_phase s, dh_baseline = ds_baseline s,
           dh_target_identity_uuid = ds_target_uuid s, dh_target_entity = ds_target_entity s,
           dh_target_name_sha256 = ds_target_name_hash s, dh_request_sha256 = ds_request_hash s,
           dh_survivor_snapshot_sha256 = ds_survivor_hash s, dh_command_status = ds_command_status s,
           dh_persistence = tracker_snapshot (ds_persistence s),
           dh_reconciled_snapshot_sha256 = ds_reconciled_hash s,
           dh_reconciled_connection_generation = ds_reconciled_generation s,
           dh_reconciled_linux_boot_uuid = ds_reconciled_boot_uuid s,
           dh_outcome_unknown_stage = ds_outcome_stage s, dh_recovery_action = ds_recovery_action s,
           dh_recovery_linux_boot_uuid = ds_recovery_boot_uuid s,
           dh_recovery_user_file_sha256 = ds_recovery_user_file_sha256 s,
           dh_persistence_connection_generation = ds_persistence_connection_generation s,
           dh_record_count = int (length records), dh_head_hash = str_of head_hash\<rparr>))"

lemma delete_validate_from:
  "delete_start r = Inr s0 \<Longrightarrow> delete_validate_history H (r # rest) =
     and_then (fold_res (delete_step H) rest s0) (delete_history_of (r # rest))"
  unfolding delete_validate_history_def delete_history_of_def by simp

section \<open>Properties\<close>

text \<open>
  What the phase of an accepted deletion history stands for. A reconciled or verified deletion has
  the snapshot it reconciled with; an aborted one was refused by the device with a non-zero status or
  was recovered without a host commit; ``persistence ready'' means that the whole save was attested;
  and a save under way is of the user's Catacomb and perhaps master, or of master alone.
\<close>

theorem delete_history_sound:
  assumes "delete_validate_history H rs = Inr h"
  shows "(dh_phase h \<in> {D_RECONCILED, D_POST_REBOOT_VERIFIED} \<longrightarrow> dh_reconciled_snapshot_sha256 h \<noteq> PyNone)
    \<and> (dh_phase h = D_ABORTED \<longrightarrow> dh_command_status h \<notin> {None, Some 0}
         \<or> dh_recovery_action h \<notin> {PyNone, PyStr ''commit-rolled-forward''})
    \<and> (dh_phase h = D_PERSISTENCE_READY \<longrightarrow> ph_phase (dh_persistence h) = P_COMPLETE)
    \<and> (ph_phase (dh_persistence h) \<noteq> P_NOT_STARTED \<longrightarrow> deletion_plan (dh_baseline h) (ph_batches (dh_persistence h)))"
proof -
  from assms obtain s where s: "deletion.run H rs = Inr s" "dh_phase h = ds_phase s" "dh_baseline h = ds_baseline s"
    "dh_command_status h = ds_command_status s" "dh_persistence h = tracker_snapshot (ds_persistence s)"
    "dh_reconciled_snapshot_sha256 h = ds_reconciled_hash s" "dh_recovery_action h = ds_recovery_action s"
    by (rule delete_history_run)
  from deletion.run_inv [OF s(1)] show ?thesis
    unfolding s(2-) delete_inv_def by (simp add: tracker_snapshot_def)
qed

text \<open>A record that observed the identity to be gone from the SEP.\<close>

definition absence_record :: "pydict \<Rightarrow> bool" where
  "absence_record r =
     (dict_get r ''milestone'' \<in> PyStr ` {''DELETE_SEP_ABSENCE_OBSERVED'', ''DELETE_RECOVERY_SEP_ABSENCE_OBSERVED'',
        ''DELETE_RECOVERY_MASTER_SAVE_REQUIRED'', ''DELETE_RECOVERY_RECONCILED_COMMITTED''}
      \<and> dict_is_true (dict_of (dict_get r ''evidence'')) ''target_absent'')"

definition saving_phases :: "delete_phase set" where
  "saving_phases = {D_SEP_DELETED, D_PERSISTING, D_PERSISTENCE_READY, D_RECONCILED, D_POST_REBOOT_VERIFIED}"

lemma delete_step_absence:
  assumes "delete_step H r s = Inr s'" and "ds_phase s' \<in> saving_phases"
  shows "absence_record r \<or> ds_phase s \<in> saving_phases"
  using assms(1)
proof (cases rule: delete_step_cases)
  case milestone
  from milestone(3) show ?thesis
  proof (cases rule: delete_milestone_cases)
    case catacomb
    from d_catacomb_ok [OF this(2)] show ?thesis by (auto simp: saving_phases_def)
  next
    case sep_absence
    with d_sep_absence_ok [OF this(2)] show ?thesis by (simp add: absence_record_def)
  next
    case recovery_sep_absence
    with d_recovery_sep_absence_ok [OF this(2)] show ?thesis by (simp add: absence_record_def)
  next
    case recovery_master_save
    with d_recovery_master_save_ok [OF this(2)] show ?thesis by (simp add: absence_record_def)
  next
    case recovery_unchanged
    from d_recovery_reconciled_ok [OF this(2)] assms(2) show ?thesis by (auto simp: saving_phases_def)
  next
    case recovery_committed
    with d_recovery_reconciled_ok [OF this(2)] show ?thesis by (auto simp: absence_record_def)
  next
    case reconciled
    from d_reconciled_ok [OF this(2)] show ?thesis by (auto simp: saving_phases_def)
  next
    case post_reboot
    from d_post_reboot_ok [OF this(2)] show ?thesis by (auto simp: saving_phases_def)
  next
    case intent
    from d_intent_ok [OF this(2)] assms(2) show ?thesis by (auto simp: saving_phases_def)
  next
    case dispatch_intent
    from d_dispatch_intent_ok [OF this(2)] assms(2) show ?thesis by (auto simp: saving_phases_def)
  next
    case command_observed
    from d_command_observed_ok [OF this(2)] assms(2) show ?thesis by (auto simp: saving_phases_def)
  next
    case not_performed
    from d_not_performed_ok [OF this(2)] assms(2) show ?thesis by (auto simp: saving_phases_def)
  next
    case outcome_unknown
    from d_outcome_unknown_ok [OF this(2)] assms(2) show ?thesis
      by (elim exE conjE) (simp add: saving_phases_def)
  next
    case recovery_intent
    from d_recovery_intent_ok [OF this(2)] assms(2) show ?thesis
      by (elim exE conjE) (simp add: saving_phases_def)
  qed
qed (use assms(2) in simp)

lemma deletion_absence:
  assumes "deletion.run H rs = Inr s"
  shows "ds_phase s \<in> saving_phases \<longrightarrow> (\<exists>r \<in> set rs. absence_record r)"
  using assms
proof (induction rule: deletion.run_induct)
  case (start r s)
  from delete_start_ok [OF this] show ?case by (simp add: saving_phases_def)
next
  case (step rs r s s')
  then show ?case using delete_step_absence [OF step.hyps(3)] by auto
qed

text \<open>
  C29: the SEP first. In an accepted deletion journal, before every Catacomb save milestone, before the
  reconciliation and before the proof after a reboot, some record observed that the identity is
  absent from the SEP: the host's copy is never rewritten while the device may still hold the identity.
\<close>

theorem delete_absence_before_save:
  assumes "delete_validate_history H (qs @ r # bs) = Inr h"
    and "is_catacomb (dict_get r ''milestone'')
      \<or> dict_get r ''milestone'' \<in> PyStr ` {''DELETE_RECONCILED'', ''DELETE_POST_REBOOT_VERIFIED''}"
  shows "\<exists>q \<in> set qs. absence_record q"
proof -
  obtain s where s: "deletion.run H (qs @ r # bs) = Inr s" using assms(1) by (rule delete_history_run)
  have nr: "\<not> is_repair_record r" "dict_get r ''milestone'' \<noteq> PyStr ''BASELINE_RECONCILED''"
    using assms(2) by (auto simp: is_repair_record_def is_repair_milestone_def REPAIR_MILESTONE_def is_catacomb_def startswith_def)
  have ne: "qs \<noteq> []"
  proof
    assume "qs = []"
    with s obtain s0 where "delete_start r = Inr s0" by (auto simp: deletion.run_def res_simps)
    with delete_start_ok nr(2) show False by blast
  qed
  from deletion.run_prefix [OF s ne] obtain s1 s2 where s1: "deletion.run H qs = Inr s1" "delete_step H r s1 = Inr s2"
    by (auto simp: res_simps)
  from s1(2) nr(1) have "delete_milestone H (dict_get r ''milestone'') (dict_get r ''evidence'') s1 = Inr s2"
    by (cases rule: delete_step_cases) auto
  then have "ds_phase s1 \<in> saving_phases"
  proof (cases rule: delete_milestone_cases)
    case catacomb
    from d_catacomb_ok [OF this(2)] show ?thesis by (auto simp: saving_phases_def)
  next
    case reconciled
    from d_reconciled_ok [OF this(2)] show ?thesis by (auto simp: saving_phases_def)
  next
    case post_reboot
    from d_post_reboot_ok [OF this(2)] show ?thesis by (auto simp: saving_phases_def)
  qed (use assms(2) in \<open>auto simp: is_catacomb_def startswith_def\<close>)
  with deletion_absence [OF s1(1)] show ?thesis by blast
qed


text \<open>The command pairs of a deletion: the observation or dispatch, what it follows, and the phase between.\<close>

definition delete_ahead_pairs :: "(string \<times> string \<times> delete_phase) list" where
  "delete_ahead_pairs =
     [(''DELETE_DISPATCH_INTENT'', ''DELETE_INTENT'', D_INTENT),
      (''DELETE_COMMAND_OBSERVED'', ''DELETE_DISPATCH_INTENT'', D_DISPATCH_INTENT),
      (''DELETE_SEP_ABSENCE_OBSERVED'', ''DELETE_COMMAND_OBSERVED'', D_COMMAND_OBSERVED),
      (''DELETE_NOT_PERFORMED'', ''DELETE_COMMAND_OBSERVED'', D_COMMAND_OBSERVED)]"

lemma delete_phase_after:
  assumes "delete_milestone H m v s = Inr s'"
    and "ds_phase s' \<in> {D_INTENT, D_DISPATCH_INTENT, D_COMMAND_OBSERVED}"
  shows "ds_phase s' = D_INTENT \<and> m = PyStr ''DELETE_INTENT''
    \<or> ds_phase s' = D_DISPATCH_INTENT \<and> m = PyStr ''DELETE_DISPATCH_INTENT''
    \<or> ds_phase s' = D_COMMAND_OBSERVED \<and> m = PyStr ''DELETE_COMMAND_OBSERVED''"
  using assms(1)
proof (cases rule: delete_milestone_cases)
  case intent
  with d_intent_ok [OF this(2)] show ?thesis by auto
next
  case dispatch_intent
  with d_dispatch_intent_ok [OF this(2)] show ?thesis by auto
next
  case command_observed
  with d_command_observed_ok [OF this(2)] show ?thesis by auto
next
  case catacomb
  from d_catacomb_ok [OF this(2)] assms(2) show ?thesis by (elim exE conjE) (simp split: if_splits)
next
  case recovery_sep_absence
  from d_recovery_sep_absence_ok [OF this(2)] assms(2) show ?thesis by (auto dest!: restart_persistence_ok)
next
  case recovery_master_save
  from d_recovery_master_save_ok [OF this(2)] assms(2) show ?thesis by (auto dest!: restart_persistence_ok)
next
  case recovery_unchanged
  from d_recovery_reconciled_ok [OF this(2)] assms(2) show ?thesis by auto
next
  case recovery_committed
  from d_recovery_reconciled_ok [OF this(2)] assms(2) show ?thesis by auto
next
  case outcome_unknown
  from d_outcome_unknown_ok [OF this(2)] assms(2) show ?thesis by (elim exE conjE) simp
next
  case recovery_intent
  from d_recovery_intent_ok [OF this(2)] assms(2) show ?thesis by (elim exE conjE) simp
next
  case reconciled
  from d_reconciled_ok [OF this(2)] assms(2) show ?thesis by auto
next
  case post_reboot
  from d_post_reboot_ok [OF this(2)] assms(2) show ?thesis by auto
next
  case sep_absence
  from d_sep_absence_ok [OF this(2)] assms(2) show ?thesis by auto
next
  case not_performed
  from d_not_performed_ok [OF this(2)] assms(2) show ?thesis by auto
qed

text \<open>
  C31: the order of a deletion's first four steps. The dispatch intent directly follows the delete
  intent, the command's result directly follows the dispatch intent, and the observation that the
  identity is gone, or that nothing was deleted, directly follows the command's result; only repair
  records can stand between.
\<close>

theorem delete_steps_in_order:
  assumes "delete_validate_history H (qs @ r # bs) = Inr h"
    and "dict_get r ''milestone'' = PyStr ob" and "(ob, i, p) \<in> set delete_ahead_pairs"
  shows "\<exists>as q rs. qs = as @ q # rs \<and> dict_get q ''milestone'' = PyStr i \<and> list_all is_repair_record rs"
proof -
  obtain s where s: "deletion.run H (qs @ r # bs) = Inr s" using assms(1) by (rule delete_history_run)
  have nr: "\<not> is_repair_record r" "ob \<noteq> ''BASELINE_RECONCILED''"
    using assms(2,3)
    by (auto simp: is_repair_record_def is_repair_milestone_def REPAIR_MILESTONE_def delete_ahead_pairs_def)
  show ?thesis
  proof (rule deletion.directly_after [OF s, of "\<lambda>s. ds_phase s = p"])
    show "delete_start r \<noteq> Inr s0" for s0 using delete_start_ok [of r s0] assms(2) nr(2) by auto
    show "ds_phase s0 \<noteq> p" if "delete_start r0 = Inr s0" for r0 s0
      using delete_start_ok [OF that] assms(3) by (auto simp: delete_ahead_pairs_def)
    show "ds_phase s1 = p" if "delete_step H r s1 = Inr s2" for s1 s2
    proof -
      have "delete_milestone H (PyStr ob) (dict_get r ''evidence'') s1 = Inr s2"
        using that by (cases rule: delete_step_cases) (use nr(1) assms(2) in auto)
      then show ?thesis
        using assms(3) unfolding delete_milestone_def delete_ahead_pairs_def
        by (auto dest!: d_dispatch_intent_ok d_command_observed_ok d_sep_absence_ok d_not_performed_ok)
    qed
    show "is_repair_record q \<or> dict_get q ''milestone'' = PyStr i"
      if "delete_step H q s1 = Inr s2" "ds_phase s2 = p" for q s1 s2
      using that(1)
    proof (cases rule: delete_step_cases)
      case milestone
      from assms(3) delete_phase_after [OF milestone(3)] that(2) show ?thesis
        by (auto simp: delete_ahead_pairs_def)
    qed simp
  qed
qed

text \<open>
  C30: an interrupted deletion is never stuck. While a deletion is neither at its baseline nor finished
  and no recovery was begun, the recovery intent for its operation is accepted, whatever happened so
  far, and leads to the phase from which recovery continues.
\<close>

theorem delete_recovery_available:
  assumes "delete_validate_history H rs = Inr h"
    and "dh_phase h \<notin> {D_BASELINE, D_ABORTED, D_RECONCILED, D_POST_REBOOT_VERIFIED}"
    and "dh_recovery_action h = PyNone" and "canonical_uuid boot"
    and "r = candidate_record (dh_operation_id h) ''DELETE_RECOVERY_INTENT''
      [(KStr ''action'', PyStr ''no-local-transaction''), (KStr ''linux_boot_uuid'', PyStr boot),
       (KStr ''mapping_generation'', dict_get (dh_baseline h) ''mapping_generation''),
       (KStr ''host_commit_possible'', PyBool True), (KStr ''mutation_possible'', PyBool True)]"
  shows "\<exists>h'. delete_validate_history H (rs @ [r]) = Inr h' \<and> dh_phase h' = D_OUTCOME_UNKNOWN"
proof -
  obtain s where s: "deletion.run H rs = Inr s" "dh_phase h = ds_phase s" "dh_baseline h = ds_baseline s"
    "dh_recovery_action h = ds_recovery_action s" "dh_operation_id h = ds_operation_id s" "rs \<noteq> []"
    using assms(1) by (rule delete_history_run)
  have gen: "d_sha256 (dict_get (ds_baseline s) ''mapping_generation'') ''mapping generation'' = Inr ()"
    using deletion.run_inv [OF s(1)] by (simp add: delete_inv_def)
  have first: "first_recovery s"
    using assms(2,3) unfolding s(2,4) first_recovery_def by (cases "ds_phase s") simp_all
  have "d_recovery_intent (PyDict [(KStr ''action'', PyStr ''no-local-transaction''), (KStr ''linux_boot_uuid'', PyStr boot),
       (KStr ''mapping_generation'', dict_get (ds_baseline s) ''mapping_generation''),
       (KStr ''host_commit_possible'', PyBool True), (KStr ''mutation_possible'', PyBool True)]) s =
    Inr (s\<lparr>ds_recovery_action := PyStr ''no-local-transaction'', ds_recovery_boot_uuid := PyStr boot,
      ds_phase := D_OUTCOME_UNKNOWN\<rparr>)"
    using first gen assms(4)
    by (simp add: d_recovery_intent_def d_exact_def dict_keys_are_iff d_uuid_def require_uuid_def d_same_def
        dict_is_true_def Let_def py_simps)
  then have "delete_step H r s = Inr (s\<lparr>ds_recovery_action := PyStr ''no-local-transaction'', ds_recovery_boot_uuid := PyStr boot,
      ds_phase := D_OUTCOME_UNKNOWN\<rparr>)"
    unfolding assms(5) s(3,5)
    by (simp add: delete_step_def delete_milestone_def candidate_record_def is_repair_milestone_def REPAIR_MILESTONE_def)
  then have "deletion.run H (rs @ [r]) = Inr (s\<lparr>ds_recovery_action := PyStr ''no-local-transaction'',
      ds_recovery_boot_uuid := PyStr boot, ds_phase := D_OUTCOME_UNKNOWN\<rparr>)"
    using s(1,6) by (simp add: deletion.run_snoc)
  from delete_history_snoc [OF assms(1) this] show ?thesis
    by (simp add: assms(5) candidate_record_def d_sha256_def require_sha256_def fromhex_zeros py_simps)
qed


text \<open>
  A finished deletion is final. After an abort or the proof after a reboot only repair records can
  follow.
\<close>

theorem finished_delete_is_final:
  assumes "delete_validate_history H rs = Inr h" and "dh_phase h \<in> {D_ABORTED, D_POST_REBOOT_VERIFIED}"
    and "delete_validate_history H (rs @ [r]) = Inr h'"
  shows "is_repair_record r"
proof -
  obtain s where s: "deletion.run H rs = Inr s" "dh_phase h = ds_phase s" "rs \<noteq> []"
    using assms(1) by (rule delete_history_run)
  obtain s' where "deletion.run H (rs @ [r]) = Inr s'" using assms(3) by (rule delete_history_run)
  with s have step: "delete_step H r s = Inr s'" by (simp add: deletion.run_snoc)
  have ph: "ds_phase s \<in> {D_ABORTED, D_POST_REBOOT_VERIFIED}" using s(2) assms(2) by simp
  show ?thesis
    using step
  proof (cases rule: delete_step_cases)
    case milestone
    from milestone(3) have False
    proof (cases rule: delete_milestone_cases)
      case catacomb
      from d_catacomb_ok [OF this(2)] ph show False by auto
    next
      case outcome_unknown
      from d_outcome_unknown_ok [OF this(2)] ph show False by auto
    next
      case recovery_intent
      from d_recovery_intent_ok [OF this(2)] ph show False by auto
    next
      case recovery_unchanged
      from d_recovery_reconciled_ok [OF this(2)] ph show False by auto
    next
      case recovery_committed
      from d_recovery_reconciled_ok [OF this(2)] ph show False by auto
    qed (use ph in \<open>auto dest!: d_intent_ok d_dispatch_intent_ok d_command_observed_ok d_sep_absence_ok
        d_not_performed_ok d_recovery_sep_absence_ok d_recovery_master_save_ok d_reconciled_ok d_post_reboot_ok\<close>)
    then show ?thesis ..
  qed simp
qed

section \<open>The reconciliation behind a proof\<close>

text \<open>The boot that the last recovery intent names, and the boot in which a reconciliation after these records is made.\<close>

definition recovery_boot :: "pydict list \<Rightarrow> pyval" where
  "recovery_boot rs =
     (case rev (filter (\<lambda>r. dict_get r ''milestone'' = PyStr ''DELETE_RECOVERY_INTENT'') rs) of
        [] \<Rightarrow> PyNone | q # _ \<Rightarrow> dict_get (dict_of (dict_get q ''evidence'')) ''linux_boot_uuid'')"

definition reconciling_boot :: "pydict \<Rightarrow> pydict list \<Rightarrow> pyval" where
  "reconciling_boot baseline rs =
     (if recovery_boot rs = PyNone then dict_get baseline ''linux_boot_uuid'' else recovery_boot rs)"

lemma recovery_boot_snoc:
  "recovery_boot (rs @ [r]) = (if dict_get r ''milestone'' = PyStr ''DELETE_RECOVERY_INTENT''
     then dict_get (dict_of (dict_get r ''evidence'')) ''linux_boot_uuid'' else recovery_boot rs)"
  by (simp add: recovery_boot_def)

definition reconciliation_record :: "pydict \<Rightarrow> bool" where
  "reconciliation_record r =
     (dict_get r ''milestone'' \<in> {PyStr ''DELETE_RECONCILED'', PyStr ''DELETE_RECOVERY_RECONCILED_COMMITTED''})"

text \<open>The reconciled values of a state are those of the last record, repairs aside, and of the boot in which it was made.\<close>

definition reconciled_by :: "pydict list \<Rightarrow> delete_state \<Rightarrow> bool" where
  "reconciled_by rs s =
     (\<exists>as q bs. rs = as @ q # bs \<and> list_all is_repair_record bs \<and> reconciliation_record q
        \<and> (let f = dict_of (dict_get q ''evidence'') in
             ds_reconciled_hash s = dict_get f ''snapshot_sha256''
             \<and> ds_reconciled_generation s = dict_get f ''connection_generation''
             \<and> ds_reconciled_boot_uuid s = reconciling_boot (ds_baseline s) as
             \<and> ds_target_uuid s = dict_get f ''identity_uuid''))"

lemma d_recovery_intent_boot: "d_recovery_intent v s = Inr s' \<Longrightarrow>
  \<exists>a b. s' = s\<lparr>ds_recovery_action := PyStr a, ds_recovery_boot_uuid := PyStr b, ds_phase := D_OUTCOME_UNKNOWN\<rparr>
    \<and> dict_get (dict_of v) ''linux_boot_uuid'' = PyStr b \<and> b \<noteq> []"
proof -
  assume r: "d_recovery_intent v s = Inr s'"
  then obtain e where e: "e = dict_of v" "d_uuid (dict_get e ''linux_boot_uuid'') ''recovery Linux boot UUID'' = Inr ()"
    "s' = s\<lparr>ds_recovery_action := dict_get e ''action'', ds_recovery_boot_uuid := dict_get e ''linux_boot_uuid'',
        ds_phase := D_OUTCOME_UNKNOWN\<rparr>"
    unfolding d_recovery_intent_def Let_def d_exact_def by (elim guard_InrE and_then_InrE) (rule that; auto)
  moreover obtain a where "ds_recovery_action s' = PyStr a" using d_recovery_intent_ok [OF r] by auto
  moreover have "canonical_uuid b \<Longrightarrow> b \<noteq> []" for b by (auto simp: canonical_uuid_def)
  ultimately show ?thesis by (auto simp: res_simps)
qed

lemma d_recovery_reconciled_bound: "d_recovery_reconciled True v s = Inr s' \<Longrightarrow>
  s' = s\<lparr>ds_reconciled_hash := dict_get (dict_of v) ''snapshot_sha256'',
         ds_reconciled_generation := dict_get (dict_of v) ''connection_generation'',
         ds_reconciled_boot_uuid := ds_recovery_boot_uuid s, ds_phase := D_RECONCILED\<rparr>
    \<and> ds_recovery_action s \<noteq> PyNone \<and> ds_target_uuid s = dict_get (dict_of v) ''identity_uuid''"
  by (auto simp: d_recovery_reconciled_def recovery_ready_def d_exact_def d_uuids_def res_simps Let_def)

lemma d_reconciled_bound: "d_reconciled v s = Inr s' \<Longrightarrow>
  s' = s\<lparr>ds_reconciled_hash := dict_get (dict_of v) ''snapshot_sha256'',
         ds_reconciled_generation := dict_get (dict_of v) ''connection_generation'',
         ds_reconciled_boot_uuid := (if ds_recovery_boot_uuid s = PyNone \<or> ds_recovery_boot_uuid s = PyStr []
           then dict_get (ds_baseline s) ''linux_boot_uuid'' else ds_recovery_boot_uuid s), ds_phase := D_RECONCILED\<rparr>
    \<and> ds_target_uuid s = dict_get (dict_of v) ''identity_uuid''"
  by (auto simp: d_reconciled_def d_exact_def res_simps Let_def)

definition reconciliation_known :: "pydict list \<Rightarrow> delete_state \<Rightarrow> bool" where
  "reconciliation_known rs s =
     (ds_recovery_boot_uuid s = recovery_boot rs \<and> recovery_boot rs \<noteq> PyStr []
      \<and> (ds_recovery_action s \<noteq> PyNone \<longrightarrow> recovery_boot rs \<noteq> PyNone)
      \<and> (ds_phase s = D_RECONCILED \<longrightarrow> reconciled_by rs s))"

lemma known_elsewhere:
  assumes "reconciliation_known rs s" and "dict_get r ''milestone'' \<noteq> PyStr ''DELETE_RECOVERY_INTENT''"
    and "ds_recovery_boot_uuid s' = ds_recovery_boot_uuid s" and "ds_recovery_action s' = ds_recovery_action s"
    and "ds_phase s' \<noteq> D_RECONCILED"
  shows "reconciliation_known (rs @ [r]) s'"
  using assms by (simp add: reconciliation_known_def recovery_boot_snoc)

lemma delete_step_known:
  assumes k: "reconciliation_known rs s" and "delete_step H r s = Inr s'"
  shows "reconciliation_known (rs @ [r]) s'"
  using assms(2)
proof (cases rule: delete_step_cases)
  case repair
  then have m: "dict_get r ''milestone'' \<noteq> PyStr ''DELETE_RECOVERY_INTENT''"
    by (auto simp: is_repair_record_def is_repair_milestone_def REPAIR_MILESTONE_def)
  have "reconciled_by (rs @ [r]) s" if "reconciled_by rs s"
  proof -
    from that obtain as q bs where "rs = as @ q # bs" "list_all is_repair_record bs" "reconciliation_record q"
      "let f = dict_of (dict_get q ''evidence'') in
             ds_reconciled_hash s = dict_get f ''snapshot_sha256''
             \<and> ds_reconciled_generation s = dict_get f ''connection_generation''
             \<and> ds_reconciled_boot_uuid s = reconciling_boot (ds_baseline s) as
             \<and> ds_target_uuid s = dict_get f ''identity_uuid''" unfolding reconciled_by_def by blast
    with repair(1) show ?thesis unfolding reconciled_by_def
      by (intro exI [of _ as] exI [of _ q] exI [of _ "bs @ [r]"]) simp
  qed
  with k m repair(2) show ?thesis by (simp add: reconciliation_known_def recovery_boot_snoc)
next
  case milestone
  let ?v = "dict_get r ''evidence''"
  note other = known_elsewhere [OF k]
  from milestone(3) show ?thesis
  proof (cases rule: delete_milestone_cases)
    case recovery_intent
    from d_recovery_intent_boot [OF this(2)] recovery_intent(1) show ?thesis
      by (auto simp: reconciliation_known_def recovery_boot_snoc)
  next
    case reconciled
    note b = d_reconciled_bound [OF reconciled(2)]
    have "reconciled_by (rs @ [r]) s'"
      unfolding reconciled_by_def using b k reconciled(1)
      by (intro exI [of _ rs] exI [of _ r] exI [of _ "[]"])
        (simp add: reconciliation_record_def reconciliation_known_def reconciling_boot_def Let_def)
    with b k reconciled(1) show ?thesis by (simp add: reconciliation_known_def recovery_boot_snoc)
  next
    case recovery_committed
    note b = d_recovery_reconciled_bound [OF recovery_committed(2)]
    have "reconciled_by (rs @ [r]) s'"
      unfolding reconciled_by_def using b k recovery_committed(1)
      by (intro exI [of _ rs] exI [of _ r] exI [of _ "[]"])
        (simp add: reconciliation_record_def reconciliation_known_def reconciling_boot_def Let_def)
    with b k recovery_committed(1) show ?thesis by (simp add: reconciliation_known_def recovery_boot_snoc)
  next
    case catacomb
    then have "dict_get r ''milestone'' \<noteq> PyStr ''DELETE_RECOVERY_INTENT''" by (auto simp: is_catacomb_def startswith_def)
    with d_catacomb_ok [OF catacomb(2)] show ?thesis by (elim exE conjE) (rule other; simp)
  next
    case recovery_sep_absence
    with d_recovery_sep_absence_ok [OF this(2)] show ?thesis by (auto intro!: other dest!: restart_persistence_ok)
  next
    case recovery_master_save
    with d_recovery_master_save_ok [OF this(2)] show ?thesis by (auto intro!: other dest!: restart_persistence_ok)
  next
    case recovery_unchanged
    with d_recovery_reconciled_ok [OF this(2)] show ?thesis by (auto intro!: other)
  next
    case outcome_unknown
    with d_outcome_unknown_ok [OF this(2)] show ?thesis by (elim exE conjE) (rule other; simp)
  next
    case intent
    with d_intent_ok [OF this(2)] show ?thesis by (elim exE conjE) (rule other; simp)
  next
    case command_observed
    with d_command_observed_ok [OF this(2)] show ?thesis by (elim exE conjE) (rule other; simp)
  next
    case dispatch_intent
    with d_dispatch_intent_ok [OF this(2)] show ?thesis by (auto intro!: other)
  next
    case sep_absence
    with d_sep_absence_ok [OF this(2)] show ?thesis by (auto intro!: other)
  next
    case not_performed
    with d_not_performed_ok [OF this(2)] show ?thesis by (auto intro!: other)
  next
    case post_reboot
    with d_post_reboot_ok [OF this(2)] show ?thesis by (auto intro!: other)
  qed
qed

lemma deletion_reconciled_by:
  assumes "deletion.run H rs = Inr s" and "ds_phase s = D_RECONCILED"
  shows "reconciled_by rs s"
proof -
  from assms(1) have "reconciliation_known rs s"
  proof (induction rule: deletion.run_induct)
    case (start r s)
    with delete_start_ok [OF start] have "dict_get r ''milestone'' = PyStr ''BASELINE_RECONCILED''" "ds_phase s = D_BASELINE"
      "ds_recovery_boot_uuid s = PyNone" "ds_recovery_action s = PyNone"
      by (auto simp: delete_start_def res_simps Let_def)
    then show ?case by (simp add: reconciliation_known_def recovery_boot_def)
  next
    case (step rs r s s')
    then show ?case by (intro delete_step_known)
  qed
  with assms(2) show ?thesis by (simp add: reconciliation_known_def)
qed

text \<open>
  C32: the proof after a reboot crosses a reboot. In an accepted journal, the record before the proof (repairs aside) is a
  reconciliation, and the proof comes from another connection than that reconciliation and from another Linux boot than the
  one it was made in: the boot of the last recovery, if there was one, and else the boot of the baseline. It is about the
  identity and the snapshot that were reconciled, with the identity still absent.
\<close>

theorem delete_reboot_proof:
  assumes "delete_validate_history H (rs @ [r]) = Inr h'"
    and "dict_get r ''milestone'' = PyStr ''DELETE_POST_REBOOT_VERIFIED''"
  shows "dh_phase h' = D_POST_REBOOT_VERIFIED
    \<and> (\<exists>as q bs. rs = as @ q # bs \<and> list_all is_repair_record bs \<and> reconciliation_record q
         \<and> reboot_proof (dict_of (dict_get r ''evidence'')) (dict_of (dict_get q ''evidence''))
             (reconciling_boot (dh_baseline h') as))"
proof -
  obtain s' where s': "deletion.run H (rs @ [r]) = Inr s'" "dh_phase h' = ds_phase s'" "dh_baseline h' = ds_baseline s'"
    using assms(1) by (rule delete_history_run)
  have nr: "\<not> is_repair_record r"
    using assms(2) by (simp add: is_repair_record_def is_repair_milestone_def REPAIR_MILESTONE_def)
  have "rs \<noteq> []"
  proof
    assume "rs = []"
    with s'(1) have "delete_start r = Inr s'" by (auto simp: deletion.run_def res_simps)
    with delete_start_ok assms(2) show False by fastforce
  qed
  with s'(1) obtain s where s: "deletion.run H rs = Inr s" "delete_step H r s = Inr s'"
    by (auto simp: deletion.run_snoc res_simps)
  have "delete_milestone H (PyStr ''DELETE_POST_REBOOT_VERIFIED'') (dict_get r ''evidence'') s = Inr s'"
    using s(2) by (cases rule: delete_step_cases) (use nr assms(2) in auto)
  then have "d_post_reboot (dict_get r ''evidence'') s = Inr s'"
    by (cases rule: delete_milestone_cases) (simp_all add: is_catacomb_def startswith_def)
  note p = d_post_reboot_ok [OF this]
  from deletion_reconciled_by [OF s(1)] p obtain as q bs where q: "rs = as @ q # bs" "list_all is_repair_record bs"
    "reconciliation_record q" "ds_reconciled_hash s = dict_get (dict_of (dict_get q ''evidence'')) ''snapshot_sha256''"
    "ds_reconciled_generation s = dict_get (dict_of (dict_get q ''evidence'')) ''connection_generation''"
    "ds_reconciled_boot_uuid s = reconciling_boot (ds_baseline s) as"
    "ds_target_uuid s = dict_get (dict_of (dict_get q ''evidence'')) ''identity_uuid''"
    by (auto simp: reconciled_by_def Let_def)
  have "reboot_proof (dict_of (dict_get r ''evidence'')) (dict_of (dict_get q ''evidence'')) (reconciling_boot (ds_baseline s) as)"
    using p unfolding reboot_proof_def q(4-7) by simp
  with q(1-3) p s'(2,3) show ?thesis by auto
qed

interpretation deletion_append: checked_append H "delete_validate_history H" dh_operation_id dh_record_count
    dh_head_hash "delete_error ''operation ID does not match delete journal''" "delete_append_checked H"
  for H :: "string \<Rightarrow> string"
  by unfold_locales (unfold delete_append_checked_def delete_read_def, rule refl)

text \<open>
  Checked appends to a deletion journal. A success extends the journal by exactly the milestone and
  its evidence and returns the history of the extended journal; a milestone that the history does
  not allow is not written.
\<close>

theorem delete_append_checked_exact:
  assumes "open_private fs = Inr f" and "holds H (jf_data f) rs" and "length rs < 4096" and "plain (PyDict e)"
  shows "(delete_append_checked H ws ws1 ws2 ws3 i m e fs = (Inr h, fs') \<longrightarrow>
      (\<exists>r'. holds H (file_data fs') (rs @ [r']) \<and> dict_get r' ''milestone'' = PyStr m
        \<and> dict_get r' ''evidence'' = sort_dicts (PyDict e) \<and> delete_validate_history H (rs @ [r']) = Inr h))
    \<and> (isl (delete_validate_history H (rs @ [candidate_record i m e])) \<longrightarrow>
      (\<exists>y. delete_append_checked H ws ws1 ws2 ws3 i m e fs = (Inl y, fs)))"
proof (intro conjI impI)
  assume "delete_append_checked H ws ws1 ws2 ws3 i m e fs = (Inr h, fs')"
  from deletion_append.success_extends [OF assms this] show
    "\<exists>r'. holds H (file_data fs') (rs @ [r']) \<and> dict_get r' ''milestone'' = PyStr m
        \<and> dict_get r' ''evidence'' = sort_dicts (PyDict e) \<and> delete_validate_history H (rs @ [r']) = Inr h" by blast
next
  assume "isl (delete_validate_history H (rs @ [candidate_record i m e]))"
  then obtain x where "delete_validate_history H (rs @ [candidate_record i m e]) = Inl x" by (auto simp: isl_def)
  from deletion_append.rejected_not_written [OF assms(1,2) _ this] assms(3) show
    "\<exists>y. delete_append_checked H ws ws1 ws2 ws3 i m e fs = (Inl y, fs)" by simp
qed

section \<open>Witnesses\<close>

text \<open>A deletion of the only identity of the sample baseline, from its intent to the proof after a reboot.\<close>

definition del_record :: "string \<Rightarrow> pydict \<Rightarrow> pydict" where
  "del_record milestone evidence = candidate_record sample_id milestone evidence"

definition del_save :: "string \<Rightarrow> pydict \<Rightarrow> pydict" where
  "del_save milestone extra = del_record milestone ([(KStr ''connection_generation'', sample_uuid CHR ''d''),
     (KStr ''batch_index'', PyInt 0), (KStr ''component_index'', PyInt 0), (KStr ''name'', PyStr ''user_000001f5.cat''),
     (KStr ''descriptor_sha256'', sample_digest CHR ''4'')] @ extra)"

definition del_commit :: "string \<Rightarrow> pydict" where
  "del_commit milestone = del_record milestone [(KStr ''connection_generation'', sample_uuid CHR ''d''),
     (KStr ''batch_index'', PyInt 0), (KStr ''staged_snapshot_sha256'', sample_digest CHR ''f'')]"

definition del_command :: "pydict list" where
  "del_command =
     [del_record ''BASELINE_RECONCILED'' [(KStr ''operation_kind'', PyStr ''delete-one''), (KStr ''baseline'', sample_baseline)],
      del_record ''DELETE_INTENT'' [(KStr ''connection_generation'', sample_uuid CHR ''d''), (KStr ''user_id'', PyInt 501),
        (KStr ''identity_uuid'', sample_uuid CHR ''1''), (KStr ''entity'', PyInt 0),
        (KStr ''target_name_sha256'', sample_digest CHR ''5''), (KStr ''request_sha256'', sample_digest CHR ''6''),
        (KStr ''request_length'', PyInt 20), (KStr ''survivor_snapshot_sha256'', sample_digest CHR ''7''),
        (KStr ''survivor_count'', PyInt 0), (KStr ''mapping_generation'', sample_digest CHR ''2'')],
      del_record ''DELETE_DISPATCH_INTENT'' [(KStr ''connection_generation'', sample_uuid CHR ''d''),
        (KStr ''identity_uuid'', sample_uuid CHR ''1''), (KStr ''request_sha256'', sample_digest CHR ''6''),
        (KStr ''command'', PyInt 13), (KStr ''protocol_version'', PyInt 1)],
      del_record ''DELETE_COMMAND_OBSERVED'' [(KStr ''connection_generation'', sample_uuid CHR ''d''),
        (KStr ''identity_uuid'', sample_uuid CHR ''1''), (KStr ''status'', PyInt 0), (KStr ''output_length'', PyInt 0),
        (KStr ''service_event_count'', PyInt 0)]]"

definition del_saved :: "pydict list" where
  "del_saved =
     [del_record ''DELETE_SEP_ABSENCE_OBSERVED'' [(KStr ''connection_generation'', sample_uuid CHR ''d''),
        (KStr ''identity_uuid'', sample_uuid CHR ''1''), (KStr ''survivor_snapshot_sha256'', sample_digest CHR ''7''),
        (KStr ''survivor_count'', PyInt 0), (KStr ''stable_double_read'', PyBool True),
        (KStr ''per_user_global_equal'', PyBool True), (KStr ''target_absent'', PyBool True)],
      del_record ''CATACOMB_PERSISTENCE_PLAN'' [(KStr ''connection_generation'', sample_uuid CHR ''d''),
        (KStr ''batches'', PyList [PyList [PyDict [(KStr ''name'', PyStr ''user_000001f5.cat''),
          (KStr ''descriptor_sha256'', sample_digest CHR ''4'')]]])],
      del_save ''CATACOMB_PREPARE_INTENT'' [],
      del_save ''CATACOMB_PREPARED'' [(KStr ''status'', PyInt 0), (KStr ''expected_blob_length'', PyInt 64)],
      del_save ''CATACOMB_COMPLETE_INTENT'' [],
      del_save ''CATACOMB_SECURE_BLOB_CAPTURED'' [(KStr ''status'', PyInt 0), (KStr ''blob_length'', PyInt 64),
        (KStr ''secure_blob_sha256'', sample_digest CHR ''8'')],
      del_save ''CATACOMB_HOST_STAGED'' [(KStr ''secure_blob_sha256'', sample_digest CHR ''8''),
        (KStr ''final_file_sha256'', sample_digest CHR ''9'')],
      del_commit ''CATACOMB_HOST_BATCH_COMMIT_INTENT'', del_commit ''CATACOMB_HOST_BATCH_COMMITTED'',
      del_save ''CATACOMB_FINAL_CONFIRM_INTENT'' [], del_save ''CATACOMB_FINAL_CONFIRMED'' [(KStr ''status'', PyInt 0)],
      del_record ''CATACOMB_PERSISTENCE_ATTESTED'' [(KStr ''connection_generation'', sample_uuid CHR ''d''),
        (KStr ''batch_count'', PyInt 1), (KStr ''reconciliation_snapshot_sha256'', sample_digest CHR ''e''),
        (KStr ''sep_host_generation_equal'', PyBool True), (KStr ''independent_archive_readback'', PyBool True)]]"

definition del_proved :: "pydict list" where
  "del_proved =
     [del_record ''DELETE_RECONCILED'' [(KStr ''connection_generation'', sample_uuid CHR ''d''),
        (KStr ''identity_uuid'', sample_uuid CHR ''1''), (KStr ''survivor_snapshot_sha256'', sample_digest CHR ''7''),
        (KStr ''snapshot_sha256'', sample_digest CHR ''a''), (KStr ''mapping_generation'', sample_digest CHR ''2''),
        (KStr ''identity_count'', PyInt 0), (KStr ''target_absent'', PyBool True), (KStr ''local_live_equal'', PyBool True),
        (KStr ''host_reconciled'', PyBool True), (KStr ''sep_clean'', PyBool True)],
      del_record ''DELETE_POST_REBOOT_VERIFIED'' [(KStr ''linux_boot_uuid'', sample_uuid CHR ''2''),
        (KStr ''connection_generation'', sample_uuid CHR ''3''), (KStr ''identity_uuid'', sample_uuid CHR ''1''),
        (KStr ''survivor_snapshot_sha256'', sample_digest CHR ''7''), (KStr ''snapshot_sha256'', sample_digest CHR ''a''),
        (KStr ''mapping_generation'', sample_digest CHR ''2''), (KStr ''target_absent'', PyBool True),
        (KStr ''local_live_equal'', PyBool True), (KStr ''sep_clean'', PyBool True)]]"

definition del_run :: "pydict list" where
  "del_run = del_command @ del_saved @ del_proved"

text \<open>The state after the baseline record, written out, so that the evaluations below do not check the baseline again.\<close>

definition del_ready :: delete_state where
  "del_ready =
     \<lparr>ds_operation_id = sample_id, ds_baseline = dict_of sample_baseline,
      ds_phase = D_BASELINE, ds_target_uuid = PyNone, ds_target_entity = PyNone,
      ds_target_name_hash = PyNone, ds_request_hash = PyNone, ds_survivor_hash = PyNone,
      ds_command_status = None, ds_reconciled_hash = PyNone, ds_reconciled_generation = PyNone,
      ds_reconciled_boot_uuid = PyNone, ds_outcome_stage = PyNone, ds_recovery_action = PyNone,
      ds_recovery_boot_uuid = PyNone, ds_recovery_user_file_sha256 = PyNone,
      ds_persistence_connection_generation = sample_uuid CHR ''d'',
      ds_persistence = projr (tracker_init (dict_of sample_baseline) ''identity-delete'')\<rparr>"

lemma del_base_start: "delete_start (hd del_command) = Inr del_ready"
  by code_simp

lemma del_eval: "rs = hd del_command # rest \<Longrightarrow> delete_validate_history save_hash rs =
    and_then (fold_res (delete_step save_hash) rest del_ready) (delete_history_of rs)"
  using delete_validate_from [OF del_base_start] by simp

definition del_history :: delete_history where
  "del_history = projr (delete_validate_history save_hash del_run)"

definition del_repair :: pydict where
  "del_repair = del_record REPAIR_MILESTONE [(KStr ''truncated_bytes'', PyInt 5)]"

lemma del_run_ends: "delete_validate_history save_hash del_run = Inr del_history"
  "dh_phase del_history = D_POST_REBOOT_VERIFIED"
  "\<not> isl (delete_validate_history save_hash (del_run @ [del_repair]))"
proof -
  define s where "s = fold_res (delete_step save_hash) (tl del_run) del_ready"
  have run: "del_run = hd del_command # tl del_run" "del_run @ [del_repair] = hd del_command # (tl del_run @ [del_repair])"
    by (simp_all add: del_run_def del_command_def)
  have "case s of Inl _ \<Rightarrow> False | Inr t \<Rightarrow> ds_phase t = D_POST_REBOOT_VERIFIED" unfolding s_def by code_simp
  then obtain t where t: "s = Inr t" "ds_phase t = D_POST_REBOOT_VERIFIED" by (auto split: sum.splits)
  have zeros: "dict_get (last del_run) ''record_hash'' = PyStr (replicate 64 CHR ''0'')"
    "dict_get del_repair ''record_hash'' = PyStr (replicate 64 CHR ''0'')" by code_simp+
  then have "\<exists>h. delete_history_of del_run t = Inr h \<and> dh_phase h = D_POST_REBOOT_VERIFIED"
    using t(2) fromhex_zeros by (simp add: delete_history_of_def d_sha256_def require_sha256_def py_simps Let_def)
  then show "delete_validate_history save_hash del_run = Inr del_history" "dh_phase del_history = D_POST_REBOOT_VERIFIED"
    using del_eval [OF run(1)] t(1) by (auto simp: del_history_def s_def)
  have "delete_step save_hash del_repair t = Inr t"
    by (simp add: delete_step_def del_repair_def del_record_def candidate_record_def is_repair_milestone_def REPAIR_MILESTONE_def)
  then have "fold_res (delete_step save_hash) (tl del_run @ [del_repair]) del_ready = Inr t"
    using t(1) by (simp add: fold_res_append s_def)
  then show "\<not> isl (delete_validate_history save_hash (del_run @ [del_repair]))"
    using del_eval [OF run(2)] zeros(2) fromhex_zeros
    by (simp add: delete_history_of_def d_sha256_def require_sha256_def py_simps Let_def)
qed

theorem delete_history_sound_witness:
  "dh_phase del_history = D_POST_REBOOT_VERIFIED \<and> dh_reconciled_snapshot_sha256 del_history \<noteq> PyNone"
  using delete_history_sound [OF del_run_ends(1)] del_run_ends(2) by simp

theorem delete_absence_before_save_witness: "\<exists>q \<in> set (take 5 del_run). absence_record q"
proof (rule delete_absence_before_save)
  show "delete_validate_history save_hash (take 5 del_run @ del_run ! 5 # drop 6 del_run) = Inr del_history"
    using del_run_ends(1) by (simp add: del_run_def del_command_def del_saved_def)
  show "is_catacomb (dict_get (del_run ! 5) ''milestone'')
      \<or> dict_get (del_run ! 5) ''milestone'' \<in> PyStr ` {''DELETE_RECONCILED'', ''DELETE_POST_REBOOT_VERIFIED''}"
    by code_simp
qed

theorem delete_steps_in_order_witness:
  "\<exists>as q rs. take 3 del_run = as @ q # rs \<and> dict_get q ''milestone'' = PyStr ''DELETE_DISPATCH_INTENT''
     \<and> list_all is_repair_record rs"
proof (rule delete_steps_in_order)
  show "delete_validate_history save_hash (take 3 del_run @ del_run ! 3 # drop 4 del_run) = Inr del_history"
    using del_run_ends(1) by (simp add: del_run_def del_command_def)
  show "dict_get (del_run ! 3) ''milestone'' = PyStr ''DELETE_COMMAND_OBSERVED''" by code_simp
  show "(''DELETE_COMMAND_OBSERVED'', ''DELETE_DISPATCH_INTENT'', D_DISPATCH_INTENT) \<in> set delete_ahead_pairs"
    by (simp add: delete_ahead_pairs_def)
qed

theorem delete_reboot_proof_witness:
  "\<exists>as q bs. butlast del_run = as @ q # bs \<and> list_all is_repair_record bs \<and> reconciliation_record q
     \<and> reboot_proof (dict_of (dict_get (last del_run) ''evidence'')) (dict_of (dict_get q ''evidence''))
         (reconciling_boot (dh_baseline del_history) as)"
proof (rule delete_reboot_proof [THEN conjunct2])
  have "del_run \<noteq> []" by (simp add: del_run_def del_command_def)
  then show "delete_validate_history save_hash (butlast del_run @ [last del_run]) = Inr del_history"
    using del_run_ends(1) by simp
  show "dict_get (last del_run) ''milestone'' = PyStr ''DELETE_POST_REBOOT_VERIFIED''" by code_simp
qed

theorem finished_delete_is_final_witness: "is_repair_record del_repair"
proof (rule finished_delete_is_final [OF del_run_ends(1)])
  show "dh_phase del_history \<in> {D_ABORTED, D_POST_REBOOT_VERIFIED}" by (simp add: del_run_ends(2))
  show "delete_validate_history save_hash (del_run @ [del_repair]) =
      Inr (projr (delete_validate_history save_hash (del_run @ [del_repair])))"
    using del_run_ends(3) by (rule isr_eq)
qed

definition del_interrupted :: delete_history where
  "del_interrupted = projr (delete_validate_history save_hash del_command)"

theorem delete_recovery_available_witness:
  "\<exists>r h'. delete_validate_history save_hash (del_command @ [r]) = Inr h' \<and> dh_phase h' = D_OUTCOME_UNKNOWN"
proof -
  have "case and_then (fold_res (delete_step save_hash) (tl del_command) del_ready) (delete_history_of del_command) of
      Inl _ \<Rightarrow> False | Inr h \<Rightarrow> dh_phase h = D_COMMAND_OBSERVED \<and> dh_recovery_action h = PyNone" by code_simp
  then have "case delete_validate_history save_hash del_command of Inl _ \<Rightarrow> False
     | Inr h \<Rightarrow> dh_phase h = D_COMMAND_OBSERVED \<and> dh_recovery_action h = PyNone"
    by (subst del_eval [of _ "tl del_command"]) (simp_all add: del_command_def)
  then have h: "delete_validate_history save_hash del_command = Inr del_interrupted"
    "dh_phase del_interrupted = D_COMMAND_OBSERVED" "dh_recovery_action del_interrupted = PyNone"
    by (auto simp: del_interrupted_def split: sum.splits)
  have "canonical_uuid (str_of (sample_uuid CHR ''2''))" by code_simp
  show ?thesis
    by (rule exI, rule delete_recovery_available [OF h(1) _ h(3) \<open>canonical_uuid _\<close> refl]) (simp add: h(2))
qed

theorem delete_append_checked_exact_witness:
  "\<exists>y. delete_append_checked save_hash [] [] [] [] sample_id ''DELETE_RECONCILED'' [] base_fs = (Inl y, base_fs)"
proof -
  have "isl (delete_validate_history save_hash ([base_read] @ [candidate_record sample_id ''DELETE_RECONCILED'' []]))"
    by code_simp
  moreover have "plain (PyDict [])" by code_simp
  ultimately show ?thesis
    using delete_append_checked_exact [OF base_open base_holds, of "[]"] by simp
qed

end
