(* ===== verification/Rename_Facts.thy ===== *)
theory Rename_Facts
  imports Rename_Journal Delete_Facts
begin

text \<open>
  What an accepted rename journal establishes: what it renames and from what to what, what each phase stands
  for, and that a finished rename is final. The rename journal is the third instance of the contract of
  typed journals and of checked appends.
\<close>

section \<open>The branches, seen from their results\<close>

lemma r_sha256_Inr [res_simps]:
  "r_sha256 v f = Inr u \<longleftrightarrow> (\<exists>s. v = PyStr s \<and> length s = 64 \<and> fromhex_ok s)"
  by (auto simp: r_sha256_def require_sha256_def res_simps py_simps)

lemma r_uuid_Inr [res_simps]: "r_uuid v f = Inr u \<longleftrightarrow> (\<exists>s. v = PyStr s \<and> canonical_uuid s)"
  by (auto simp: r_uuid_def require_uuid_def res_simps py_simps)

text \<open>The identity to rename: exactly one record of the baseline; and the two labels differ.\<close>

definition rename_target :: "pydict \<Rightarrow> pyval \<Rightarrow> pyval \<Rightarrow> bool" where
  "rename_target baseline u e =
     ((\<exists>x. u = PyStr x \<and> canonical_uuid x) \<and> (\<exists>n. e = PyInt n \<and> 0 \<le> n)
      \<and> length (filter (\<lambda>i. py_eq (dict_get (dict_of i) ''uuid'') u \<and> py_eq (dict_get (dict_of i) ''entity'') e)
          (list_of (dict_get baseline ''identity_records''))) = 1)"

definition rename_labels :: "pyval \<Rightarrow> pyval \<Rightarrow> bool" where
  "rename_labels old new = (old \<noteq> new \<and> (\<exists>a. old = PyStr a \<and> length a = 64) \<and> (\<exists>b. new = PyStr b \<and> length b = 64))"

lemma r_intent_ok:
  assumes "r_intent v s = Inr s'"
  shows "\<exists>u e a b. s' = s\<lparr>rs_target_uuid := u, rs_target_entity := e, rs_old_name_hash := a, rs_new_name_hash := b,
     rs_phase := R_INTENT\<rparr> \<and> rs_phase s = R_BASELINE \<and> rename_target (rs_baseline s) u e \<and> rename_labels a b"
proof -
  from assms obtain d where d: "rs_phase s = R_BASELINE" "r_uuid (dict_get d ''identity_uuid'') ''identity UUID'' = Inr ()"
    "r_sha256 (dict_get d ''previous_name_sha256'') ''previous name SHA-256'' = Inr ()"
    "r_sha256 (dict_get d ''new_name_sha256'') ''new name SHA-256'' = Inr ()"
    "isinstance_int (dict_get d ''entity'')" "\<not> type_is_bool (dict_get d ''entity'')" "0 \<le> int_of (dict_get d ''entity'')"
    "\<not> py_eq (dict_get d ''previous_name_sha256'') (dict_get d ''new_name_sha256'')"
    "length (r_matches (rs_baseline s) d) = 1"
    and s': "s' = s\<lparr>rs_target_uuid := dict_get d ''identity_uuid'', rs_target_entity := dict_get d ''entity'',
             rs_old_name_hash := dict_get d ''previous_name_sha256'',
             rs_new_name_hash := dict_get d ''new_name_sha256'', rs_phase := R_INTENT\<rparr>"
    unfolding r_intent_def Let_def
    by (elim guard_InrE and_then_InrE Inr_inject [elim_format]) (rule that; (assumption | (rule sym, assumption) | auto))
  from d(5-7) have "\<exists>n. dict_get d ''entity'' = PyInt n \<and> 0 \<le> n"
    by (cases "dict_get d ''entity''") (auto simp: py_simps)
  with d s' show ?thesis
    by (intro exI conjI) (auto simp: rename_target_def rename_labels_def r_matches_def res_simps)
qed

lemma r_aborted_ok: "r_aborted v s = Inr s' \<Longrightarrow>
  s' = s\<lparr>rs_phase := R_ABORTED\<rparr> \<and> rs_phase s = R_PERSISTING \<and> pt_phase (rs_persistence s) = P_COMPONENT_READY"
  by (auto simp: r_aborted_def res_simps)

lemma r_catacomb_ok:
  assumes "r_catacomb H m v s = Inr s'"
  shows "\<exists>t. consume_one H False (m, v) (rs_persistence s) = Inr t
    \<and> s' = s\<lparr>rs_persistence := t, rs_phase := (if pt_phase t = P_COMPLETE then R_PERSISTENCE_READY
         else if pt_phase t = P_OUTCOME_UNKNOWN then R_OUTCOME_UNKNOWN else R_PERSISTING)\<rparr>
    \<and> rs_phase s \<in> {R_INTENT, R_PERSISTING}"
proof -
  from assms obtain b t where "consume H False m v (rs_persistence s) = Inr (b, t)"
    "s' = s\<lparr>rs_persistence := t, rs_phase := (if pt_phase t = P_COMPLETE then R_PERSISTENCE_READY
         else if pt_phase t = P_OUTCOME_UNKNOWN then R_OUTCOME_UNKNOWN else R_PERSISTING)\<rparr>"
    "rs_phase s \<in> {R_INTENT, R_PERSISTING}"
    unfolding r_catacomb_def by (auto simp: res_simps simp del: if_split split: prod.splits)
  then show ?thesis by (intro exI [of _ t]) (simp add: consume_one_def)
qed

lemma r_reconciled_ok: "r_reconciled v s = Inr s' \<Longrightarrow>
  \<exists>h. s' = s\<lparr>rs_reconciled_hash := PyStr h, rs_phase := R_RECONCILED\<rparr> \<and> rs_phase s = R_PERSISTENCE_READY"
  by (auto simp: r_reconciled_def r_sha256s_def res_simps)

lemma r_recovery_intent_ok:
  assumes "r_recovery_intent v s = Inr s'"
  shows "\<exists>a. s' = s\<lparr>rs_recovery_action := PyStr a, rs_phase := R_OUTCOME_UNKNOWN\<rparr> \<and> rs_recovery_action s = PyNone
    \<and> a \<in> {''prepare-discarded'', ''commit-rolled-forward'', ''no-local-transaction''}
    \<and> rs_phase s \<in> {R_INTENT, R_PERSISTING, R_PERSISTENCE_READY, R_OUTCOME_UNKNOWN}"
proof -
  from assms obtain e where e: "\<not> (rs_phase s \<notin> {R_INTENT, R_PERSISTING, R_PERSISTENCE_READY, R_OUTCOME_UNKNOWN}
         \<or> rs_recovery_action s \<noteq> PyNone)"
    "\<exists>known. in_str_set (dict_get e ''action'') [''prepare-discarded'', ''commit-rolled-forward'', ''no-local-transaction'']
       = Inr known \<and> known"
    "s' = s\<lparr>rs_recovery_action := dict_get e ''action'', rs_phase := R_OUTCOME_UNKNOWN\<rparr>"
    unfolding r_recovery_intent_def Let_def by (elim guard_InrE and_then_InrE) (rule that; blast)
  from e(2) obtain a where "dict_get e ''action'' = PyStr a"
    "a \<in> {''prepare-discarded'', ''commit-rolled-forward'', ''no-local-transaction''}" by (auto simp: in_str_set_Inr)
  with e(1,3) show ?thesis by (intro exI [of _ a]) simp
qed

lemma r_recovery_reconciled_ok:
  assumes "r_recovery_reconciled c v s = Inr s'"
  shows "\<exists>h. s' = s\<lparr>rs_reconciled_hash := PyStr h, rs_phase := (if c then R_RECONCILED else R_ABORTED)\<rparr>
    \<and> rs_phase s = R_OUTCOME_UNKNOWN \<and> rs_recovery_action s \<noteq> PyNone \<and> rs_target_uuid s \<noteq> PyNone
    \<and> (\<not> c \<longrightarrow> rs_recovery_action s \<noteq> PyStr ''commit-rolled-forward'')"
proof -
  from assms obtain e where e: "\<not> (rs_phase s \<noteq> R_OUTCOME_UNKNOWN \<or> rs_recovery_action s = PyNone \<or> rs_target_uuid s = PyNone)"
    "r_sha256s e [''name_sha256'', ''snapshot_sha256'', ''mapping_generation''] = Inr ()"
    "\<not> (\<not> c \<and> rs_recovery_action s = PyStr ''commit-rolled-forward'')"
    and s': "s' = s\<lparr>rs_reconciled_hash := dict_get e ''snapshot_sha256'',
             rs_phase := (if c then R_RECONCILED else R_ABORTED)\<rparr>"
    unfolding r_recovery_reconciled_def Let_def
    by (elim guard_InrE and_then_InrE Inr_inject [elim_format]) (rule that; (assumption | (rule sym, assumption) | auto))
  from e(2) obtain h where "dict_get e ''snapshot_sha256'' = PyStr h" by (auto simp: r_sha256s_def res_simps)
  with e(1,3) s' show ?thesis by (intro exI [of _ h]) auto
qed

lemma r_post_reboot_ok: "r_post_reboot v s = Inr s' \<Longrightarrow> s' = s\<lparr>rs_phase := R_POST_REBOOT_VERIFIED\<rparr> \<and> rs_phase s = R_RECONCILED"
  by (auto simp: r_post_reboot_def res_simps)

lemma rename_milestone_cases:
  assumes "rename_milestone H m v s = Inr s'"
  obtains
    (intent) "m = PyStr ''RENAME_INTENT''" "r_intent v s = Inr s'"
  | (aborted) "m = PyStr ''RENAME_ABORTED_BEFORE_PERSISTENCE''" "r_aborted v s = Inr s'"
  | (catacomb) "is_catacomb m" "r_catacomb H m v s = Inr s'"
  | (reconciled) "m = PyStr ''RENAME_RECONCILED''" "r_reconciled v s = Inr s'"
  | (recovery_intent) "m = PyStr ''RENAME_RECOVERY_INTENT''" "r_recovery_intent v s = Inr s'"
  | (recovery_reconciled) c where "m = PyStr (if c then ''RENAME_RECOVERY_RECONCILED_COMMITTED''
       else ''RENAME_RECOVERY_RECONCILED_NO_CHANGE'')" "r_recovery_reconciled c v s = Inr s'"
  | (post_reboot) "m = PyStr ''RENAME_POST_REBOOT_VERIFIED''" "r_post_reboot v s = Inr s'"
proof -
  have rec: thesis if "in_str_set m [''RENAME_RECOVERY_RECONCILED_NO_CHANGE'',
             ''RENAME_RECOVERY_RECONCILED_COMMITTED''] = Inr x" "x"
      "r_recovery_reconciled (endswith (str_of m) ''COMMITTED'') v s = Inr s'" for x
  proof -
    from that(1,2) have "m = PyStr (if endswith (str_of m) ''COMMITTED'' then ''RENAME_RECOVERY_RECONCILED_COMMITTED''
       else ''RENAME_RECOVERY_RECONCILED_NO_CHANGE'')" by (auto simp: in_str_set_Inr endswith_def)
    with that(3) recovery_reconciled show thesis by blast
  qed
  show thesis
    using assms unfolding rename_milestone_def is_catacomb_def [symmetric]
    by (elim if_InrE and_then_InrE Inl_InrE) ((rule rec; assumption) | (rule that; assumption))+
qed

section \<open>Invariant\<close>

definition rename_inv :: "rename_state \<Rightarrow> bool" where
  "rename_inv s =
     (tracker_ok (rs_persistence s)
      \<and> (if rs_phase s = R_BASELINE then rs_recovery_action s = PyNone
         else rename_target (rs_baseline s) (rs_target_uuid s) (rs_target_entity s)
           \<and> rename_labels (rs_old_name_hash s) (rs_new_name_hash s))
      \<and> rs_recovery_action s \<in> {PyNone, PyStr ''prepare-discarded'', PyStr ''commit-rolled-forward'',
           PyStr ''no-local-transaction''}
      \<and> (rs_phase s \<in> {R_INTENT, R_PERSISTING, R_PERSISTENCE_READY} \<longrightarrow> rs_recovery_action s = PyNone)
      \<and> (rs_phase s = R_PERSISTENCE_READY \<longrightarrow> pt_phase (rs_persistence s) = P_COMPLETE)
      \<and> (rs_phase s = R_ABORTED \<longrightarrow> (if rs_recovery_action s = PyNone then pt_phase (rs_persistence s) = P_COMPONENT_READY
           else rs_recovery_action s \<noteq> PyStr ''commit-rolled-forward''))
      \<and> (rs_phase s \<in> {R_RECONCILED, R_POST_REBOOT_VERIFIED} \<longrightarrow> rs_reconciled_hash s \<noteq> PyNone
           \<and> (rs_recovery_action s = PyNone \<longrightarrow> pt_phase (rs_persistence s) = P_COMPLETE)))"

lemma rename_invD:
  assumes "rename_inv s"
  shows "rs_phase s \<noteq> R_BASELINE \<Longrightarrow> rename_target (rs_baseline s) (rs_target_uuid s) (rs_target_entity s)"
    and "rs_phase s \<noteq> R_BASELINE \<Longrightarrow> rename_labels (rs_old_name_hash s) (rs_new_name_hash s)"
    and "rs_phase s \<in> {R_INTENT, R_PERSISTING, R_PERSISTENCE_READY} \<Longrightarrow> rs_recovery_action s = PyNone"
    and "tracker_ok (rs_persistence s)"
proof -
  show "tracker_ok (rs_persistence s)" using assms by (simp add: rename_inv_def)
  show "rs_phase s \<noteq> R_BASELINE \<Longrightarrow> rename_target (rs_baseline s) (rs_target_uuid s) (rs_target_entity s)"
    "rs_phase s \<noteq> R_BASELINE \<Longrightarrow> rename_labels (rs_old_name_hash s) (rs_new_name_hash s)"
    using assms by (simp_all add: rename_inv_def)
  show "rs_phase s \<in> {R_INTENT, R_PERSISTING, R_PERSISTENCE_READY} \<Longrightarrow> rs_recovery_action s = PyNone"
    using assms unfolding rename_inv_def by blast
qed

lemma rename_milestone_inv:
  assumes "rename_milestone H m v s = Inr s'" and "rename_inv s"
  shows "rename_inv s'"
  using assms(1)
proof (cases rule: rename_milestone_cases)
  case intent
  from r_intent_ok [OF this(2)] assms(2) show ?thesis by (elim exE conjE) (simp add: rename_inv_def)
next
  case aborted
  from r_aborted_ok [OF this(2)] assms(2) show ?thesis by (simp add: rename_inv_def)
next
  case catacomb
  from r_catacomb_ok [OF this(2)] obtain t where t: "consume_one H False (m, v) (rs_persistence s) = Inr t"
    and s': "s' = s\<lparr>rs_persistence := t, rs_phase := (if pt_phase t = P_COMPLETE then R_PERSISTENCE_READY
         else if pt_phase t = P_OUTCOME_UNKNOWN then R_OUTCOME_UNKNOWN else R_PERSISTING)\<rparr>"
    and ph: "rs_phase s \<in> {R_INTENT, R_PERSISTING}" by blast
  have "tracker_ok t" using consume_one_keeps_ok [OF t] assms(2) by (simp add: rename_inv_def)
  moreover have "rs_phase s \<noteq> R_BASELINE" "rs_phase s \<in> {R_INTENT, R_PERSISTING, R_PERSISTENCE_READY}" using ph by auto
  ultimately show ?thesis using rename_invD [OF assms(2)]
    by (cases "pt_phase t = P_COMPLETE"; cases "pt_phase t = P_OUTCOME_UNKNOWN") (simp_all add: rename_inv_def s')
next
  case reconciled
  from r_reconciled_ok [OF this(2)] assms(2) show ?thesis by (elim exE conjE) (simp add: rename_inv_def)
next
  case recovery_intent
  from r_recovery_intent_ok [OF this(2)] obtain a where s': "s' = s\<lparr>rs_recovery_action := PyStr a, rs_phase := R_OUTCOME_UNKNOWN\<rparr>"
    and a: "a \<in> {''prepare-discarded'', ''commit-rolled-forward'', ''no-local-transaction''}" and ph: "rs_phase s \<noteq> R_BASELINE"
    by fastforce
  have "PyStr a \<in> {PyNone, PyStr ''prepare-discarded'', PyStr ''commit-rolled-forward'', PyStr ''no-local-transaction''}"
    using a by blast
  with rename_invD [OF assms(2)] ph show ?thesis unfolding s' rename_inv_def by (simp del: insert_iff) simp
next
  case (recovery_reconciled c)
  from r_recovery_reconciled_ok [OF this(2)] assms(2) show ?thesis by (elim exE conjE) (simp add: rename_inv_def)
next
  case post_reboot
  from r_post_reboot_ok [OF this(2)] assms(2) show ?thesis by (simp add: rename_inv_def)
qed

lemma rename_step_cases:
  assumes "rename_step H r s = Inr s'"
  obtains (repair) "is_repair_record r" "s' = s"
  | (milestone) "\<not> is_repair_record r" "dict_get r ''operation_id'' = PyStr (rs_operation_id s)"
      "rename_milestone H (dict_get r ''milestone'') (dict_get r ''evidence'') s = Inr s'"
  using assms by (auto simp: rename_step_def is_repair_record_def split: if_splits)

lemma rename_start_ok:
  assumes "rename_start r = Inr s"
  shows "rename_inv s \<and> rs_phase s = R_BASELINE"
proof -
  from assms obtain i t where i: "tracker_init (dict_of (dict_get i ''baseline'')) ''identity-metadata'' = Inr t"
    "rs_persistence s = t" "rs_phase s = R_BASELINE" "rs_recovery_action s = PyNone"
    by (auto simp: rename_start_def res_simps Let_def)
  with tracker_init_eq [OF i(1)] show ?thesis by (simp add: rename_inv_def)
qed

interpretation renaming: typed_journal rename_start "rename_step H" rename_inv for H :: "string \<Rightarrow> string"
proof
  fix r s s'
  show "rename_step H r s = Inr s" if "is_repair_record r"
    using that by (simp add: rename_step_def is_repair_record_def)
  show "rename_inv s" if "rename_start r = Inr s"
    using rename_start_ok [OF that] by simp
  show "rename_inv s'" if "rename_step H r s = Inr s'" "rename_inv s"
    using that(1) by (cases rule: rename_step_cases) (use that(2) rename_milestone_inv in auto)
qed

lemma rename_history_run:
  assumes "rename_validate_history H rs = Inr h"
  obtains s where "renaming.run H rs = Inr s" "rh_phase h = rs_phase s" "rh_baseline h = rs_baseline s"
    "rh_target_identity_uuid h = rs_target_uuid s" "rh_target_entity h = rs_target_entity s"
    "rh_previous_name_sha256 h = rs_old_name_hash s" "rh_new_name_sha256 h = rs_new_name_hash s"
    "rh_persistence h = tracker_snapshot (rs_persistence s)"
    "rh_reconciled_snapshot_sha256 h = rs_reconciled_hash s" "rh_recovery_action h = rs_recovery_action s" "rs \<noteq> []"
    "rh_operation_id h = rs_operation_id s"
  using assms
  by (cases rs) (auto simp: rename_validate_history_def renaming.run_def res_simps Let_def)

interpretation rename_append: checked_append H "rename_validate_history H" rh_operation_id rh_record_count
    rh_head_hash "rename_error ''operation ID does not match rename journal''" "rename_append_checked H"
  for H :: "string \<Rightarrow> string"
  by unfold_locales (unfold rename_append_checked_def rename_read_def, rule refl)

section \<open>Properties\<close>

text \<open>
  C37: what an accepted rename history stands for. After the intent the target is exactly one identity of
  the baseline and the two labels are different digests; ``persistence ready'' means that the whole
  save was attested; an abort happened before the save of the only component or was recovered without a
  host commit; and a reconciled rename has its snapshot and, unless it was recovered, a complete save.
\<close>

theorem rename_history_sound:
  assumes "rename_validate_history H rs = Inr h"
  shows "(rh_phase h \<noteq> R_BASELINE \<longrightarrow>
        rename_target (rh_baseline h) (rh_target_identity_uuid h) (rh_target_entity h)
        \<and> rename_labels (rh_previous_name_sha256 h) (rh_new_name_sha256 h))
    \<and> (rh_phase h = R_PERSISTENCE_READY \<longrightarrow> ph_phase (rh_persistence h) = P_COMPLETE)
    \<and> (rh_phase h = R_ABORTED \<longrightarrow> (if rh_recovery_action h = PyNone then ph_phase (rh_persistence h) = P_COMPONENT_READY
         else rh_recovery_action h \<noteq> PyStr ''commit-rolled-forward''))
    \<and> (rh_phase h \<in> {R_RECONCILED, R_POST_REBOOT_VERIFIED} \<longrightarrow> rh_reconciled_snapshot_sha256 h \<noteq> PyNone
         \<and> (rh_recovery_action h = PyNone \<longrightarrow> ph_phase (rh_persistence h) = P_COMPLETE))"
proof -
  from assms obtain s where s: "renaming.run H rs = Inr s" "rh_phase h = rs_phase s" "rh_baseline h = rs_baseline s"
    "rh_target_identity_uuid h = rs_target_uuid s" "rh_target_entity h = rs_target_entity s"
    "rh_previous_name_sha256 h = rs_old_name_hash s" "rh_new_name_sha256 h = rs_new_name_hash s"
    "rh_persistence h = tracker_snapshot (rs_persistence s)"
    "rh_reconciled_snapshot_sha256 h = rs_reconciled_hash s" "rh_recovery_action h = rs_recovery_action s"
    by (rule rename_history_run)
  have "ph_phase (tracker_snapshot t) = pt_phase t" for t by (simp add: tracker_snapshot_def)
  with renaming.run_inv [OF s(1)] show ?thesis
    unfolding s(2-) rename_inv_def by (simp split: if_split_asm)
qed

text \<open>A finished rename is final.\<close>

lemma finished_rename_is_final:
  assumes "renaming.run H rs = Inr s" and "rs_phase s \<in> {R_ABORTED, R_POST_REBOOT_VERIFIED}"
    and "renaming.run H (rs @ [r]) = Inr s'"
  shows "is_repair_record r"
proof -
  have "rs \<noteq> []" using assms(1) by (auto simp: renaming.run_def)
  with assms(1,3) have "rename_step H r s = Inr s'" by (simp add: renaming.run_snoc)
  then show ?thesis
  proof (cases rule: rename_step_cases)
    case milestone
    from milestone(3) have False
    proof (cases rule: rename_milestone_cases)
      case catacomb
      from r_catacomb_ok [OF this(2)] assms(2) show False by auto
    next
      case recovery_intent
      from r_recovery_intent_ok [OF this(2)] assms(2) show False by auto
    next
      case (recovery_reconciled c)
      from r_recovery_reconciled_ok [OF this(2)] assms(2) show False by auto
    qed (use assms(2) in \<open>auto dest!: r_intent_ok r_aborted_ok r_reconciled_ok r_post_reboot_ok\<close>)
    then show ?thesis ..
  qed simp
qed

section \<open>A recovered rename\<close>

text \<open>
  A proof after a reboot against the evidence of a recovery: everything agrees with what the recovery reconciled, and the
  boot is another one than the baseline's.
\<close>

definition label_proof :: "pydict \<Rightarrow> pydict \<Rightarrow> pydict \<Rightarrow> bool" where
  "label_proof baseline recovery e =
     (dict_keys_are e [''linux_boot_uuid'', ''connection_generation'', ''identity_uuid'', ''new_name_sha256'',
        ''snapshot_sha256'', ''mapping_generation'', ''identity_set_unchanged'', ''label_preserved'', ''local_live_equal'']
      \<and> (case dict_get e ''linux_boot_uuid'' of PyStr b \<Rightarrow> canonical_uuid b | _ \<Rightarrow> False)
      \<and> dict_get e ''linux_boot_uuid'' \<noteq> dict_get baseline ''linux_boot_uuid''
      \<and> dict_get e ''identity_uuid'' = dict_get recovery ''identity_uuid''
      \<and> dict_get e ''new_name_sha256'' = dict_get recovery ''name_sha256''
      \<and> dict_get e ''snapshot_sha256'' = dict_get recovery ''snapshot_sha256''
      \<and> dict_get e ''mapping_generation'' = dict_get recovery ''mapping_generation''
      \<and> list_all (dict_is_true e) [''identity_set_unchanged'', ''label_preserved'', ''local_live_equal''])"

lemma boot_uuid_cases:
  "(case v of PyStr b \<Rightarrow> canonical_uuid b | _ \<Rightarrow> False) \<longleftrightarrow> (\<exists>b. v = PyStr b \<and> canonical_uuid b)"
  by (cases v) auto

lemma r_recovery_committed_bound:
  assumes "r_recovery_reconciled True v s = Inr s'"
  shows "s' = s\<lparr>rs_reconciled_hash := dict_get (dict_of v) ''snapshot_sha256'', rs_phase := R_RECONCILED\<rparr>
    \<and> \<not> r_same s (dict_of v) ''connection_generation'' \<and> r_same s (dict_of v) ''mapping_generation''
    \<and> r_uuids (dict_of v) [''connection_generation'', ''identity_uuid''] = Inr ()
    \<and> r_sha256s (dict_of v) [''name_sha256'', ''snapshot_sha256'', ''mapping_generation''] = Inr ()
    \<and> rs_target_uuid s = dict_get (dict_of v) ''identity_uuid'' \<and> rs_new_name_hash s = dict_get (dict_of v) ''name_sha256''"
  using assms by (auto simp: r_recovery_reconciled_def r_exact_def r_uuids_def r_sha256s_def res_simps Let_def)

text \<open>
  C38: the proof after a reboot need not cross one. A proof that is offered from the very connection that recovered the rename is
  accepted exactly when it agrees with what the recovery reconciled and names another boot than the baseline does. So neither
  its connection nor its boot is compared with those of the recovery: the boot in which the recovery itself ran will do.
\<close>

theorem rename_proof_from_recovery_connection:
  assumes "rename_validate_history H (rs @ [q]) = Inr h"
    and "dict_get q ''milestone'' = PyStr ''RENAME_RECOVERY_RECONCILED_COMMITTED''"
    and "dict_get e ''connection_generation'' = dict_get (dict_of (dict_get q ''evidence'')) ''connection_generation''"
  shows "(\<exists>h'. rename_validate_history H
        (rs @ [q, candidate_record (rh_operation_id h) ''RENAME_POST_REBOOT_VERIFIED'' e]) = Inr h')
    \<longleftrightarrow> label_proof (rh_baseline h) (dict_of (dict_get q ''evidence'')) e"
proof -
  let ?f = "dict_of (dict_get q ''evidence'')" and ?r = "candidate_record (rh_operation_id h) ''RENAME_POST_REBOOT_VERIFIED'' e"
  obtain s where s: "renaming.run H (rs @ [q]) = Inr s" "rh_baseline h = rs_baseline s" "rh_operation_id h = rs_operation_id s"
    using assms(1) by (rule rename_history_run)
  have "rs \<noteq> []"
  proof
    assume "rs = []"
    with s(1) have "rename_start q = Inr s" by (auto simp: renaming.run_def res_simps)
    with assms(2) show False by (simp add: rename_start_def)
  qed
  with s(1) obtain s0 where "rename_step H q s0 = Inr s" by (auto simp: renaming.run_snoc res_simps)
  then have "r_recovery_reconciled True (dict_get q ''evidence'') s0 = Inr s"
  proof (cases rule: rename_step_cases)
    case repair
    with assms(2) show ?thesis by (simp add: is_repair_record_def is_repair_milestone_def REPAIR_MILESTONE_def)
  next
    case milestone
    from milestone(3) show ?thesis
      by (cases rule: rename_milestone_cases) (use assms(2) in \<open>auto simp: is_catacomb_def startswith_def split: if_splits\<close>)
  qed
  note b = r_recovery_committed_bound [OF this]
  have "(\<exists>h'. rename_validate_history H ((rs @ [q]) @ [?r]) = Inr h') \<longleftrightarrow> (\<exists>s'. rename_step H ?r s = Inr s')"
    using s(1) unfolding rename_validate_history_def renaming.run_def
    by (cases rs) (auto simp: res_simps Let_def fold_res_append candidate_record_def require_sha256_def r_sha256_def
        fromhex_zeros py_simps)
  also have "\<dots> \<longleftrightarrow> (\<exists>s'. r_post_reboot (PyDict e) s = Inr s')"
    using s(3) by (simp add: rename_step_def rename_milestone_def candidate_record_def is_repair_milestone_def
        REPAIR_MILESTONE_def startswith_def)
  also have "\<dots> \<longleftrightarrow> label_proof (rs_baseline s) ?f e"
    using b assms(3)
    by (auto simp: r_post_reboot_def label_proof_def boot_uuid_cases r_exact_def r_uuids_def r_sha256s_def r_same_def res_simps py_simps)
  finally show ?thesis using s(2) by simp
qed

definition ren_run :: "pydict list" where
  "ren_run =
     [del_record ''BASELINE_RECONCILED'' [(KStr ''operation_kind'', PyStr ''rename''), (KStr ''baseline'', sample_baseline)],
      del_record ''RENAME_INTENT'' [(KStr ''connection_generation'', sample_uuid CHR ''d''), (KStr ''user_id'', PyInt 501),
        (KStr ''identity_uuid'', sample_uuid CHR ''1''), (KStr ''entity'', PyInt 0),
        (KStr ''previous_name_sha256'', sample_digest CHR ''5''), (KStr ''new_name_sha256'', sample_digest CHR ''6''),
        (KStr ''mapping_generation'', sample_digest CHR ''2'')],
      del_record ''RENAME_RECOVERY_INTENT'' [(KStr ''action'', PyStr ''commit-rolled-forward''),
        (KStr ''mapping_generation'', sample_digest CHR ''2''), (KStr ''host_commit_possible'', PyBool True),
        (KStr ''mutation_possible'', PyBool True)],
      del_record ''RENAME_RECOVERY_RECONCILED_COMMITTED'' [(KStr ''connection_generation'', sample_uuid CHR ''3''),
        (KStr ''identity_uuid'', sample_uuid CHR ''1''), (KStr ''name_sha256'', sample_digest CHR ''6''),
        (KStr ''snapshot_sha256'', sample_digest CHR ''a''), (KStr ''mapping_generation'', sample_digest CHR ''2''),
        (KStr ''identity_count'', PyInt 1), (KStr ''identity_set_unchanged'', PyBool True),
        (KStr ''local_live_equal'', PyBool True), (KStr ''sep_clean'', PyBool True), (KStr ''host_reconciled'', PyBool True),
        (KStr ''recovery_action'', PyStr ''commit-rolled-forward'')],
      del_record ''RENAME_POST_REBOOT_VERIFIED'' [(KStr ''linux_boot_uuid'', sample_uuid CHR ''2''),
        (KStr ''connection_generation'', sample_uuid CHR ''3''), (KStr ''identity_uuid'', sample_uuid CHR ''1''),
        (KStr ''new_name_sha256'', sample_digest CHR ''6''), (KStr ''snapshot_sha256'', sample_digest CHR ''a''),
        (KStr ''mapping_generation'', sample_digest CHR ''2''), (KStr ''identity_set_unchanged'', PyBool True),
        (KStr ''label_preserved'', PyBool True), (KStr ''local_live_equal'', PyBool True)]]"

lemma ren_run_accepted:
  "case rename_validate_history save_hash ren_run of Inl _ \<Rightarrow> False | Inr h \<Rightarrow> rh_phase h = R_POST_REBOOT_VERIFIED"
  "\<not> isl (rename_validate_history save_hash (take 4 ren_run))"
  by code_simp+

text \<open>The sample proof comes from the connection of the sample recovery.\<close>

theorem rename_proof_from_recovery_connection_witness:
  "\<exists>rs q h e. rename_validate_history save_hash (rs @ [q]) = Inr h
     \<and> dict_get e ''connection_generation'' = dict_get (dict_of (dict_get q ''evidence'')) ''connection_generation''
     \<and> label_proof (rh_baseline h) (dict_of (dict_get q ''evidence'')) e
     \<and> (\<exists>h'. rename_validate_history save_hash
          (rs @ [q, candidate_record (rh_operation_id h) ''RENAME_POST_REBOOT_VERIFIED'' e]) = Inr h')"
proof -
  let ?h = "projr (rename_validate_history save_hash (take 4 ren_run))" and ?q = "ren_run ! 3"
    and ?e = "dict_of (dict_get (ren_run ! 4) ''evidence'')"
  have "take 4 ren_run = take 3 ren_run @ [?q]" by (simp add: ren_run_def)
  with isr_eq [OF ren_run_accepted(2)] have h: "rename_validate_history save_hash (take 3 ren_run @ [?q]) = Inr ?h" by simp
  have m: "dict_get ?q ''milestone'' = PyStr ''RENAME_RECOVERY_RECONCILED_COMMITTED''"
    "dict_get ?e ''connection_generation'' = dict_get (dict_of (dict_get ?q ''evidence'')) ''connection_generation''" by code_simp+
  have "label_proof (rh_baseline ?h) (dict_of (dict_get ?q ''evidence'')) ?e" by code_simp
  with rename_proof_from_recovery_connection [OF h m] h m(2) show ?thesis by blast
qed

theorem rename_history_sound_witness:
  "\<exists>h. rename_validate_history save_hash ren_run = Inr h \<and> rename_labels (rh_previous_name_sha256 h) (rh_new_name_sha256 h)"
proof -
  obtain h where "rename_validate_history save_hash ren_run = Inr h" "rh_phase h = R_POST_REBOOT_VERIFIED"
    using ren_run_accepted(1) by (auto split: sum.splits)
  with rename_history_sound [OF this(1)] show ?thesis by auto
qed

end
