(* ===== verification/Byte_Struct.thy ===== *)
theory Byte_Struct
  imports Py_Value
begin

text \<open>
  What the modules use of \<^verbatim>\<open>struct\<close>, of \<^verbatim>\<open>bytes\<close> and of \<^verbatim>\<open>uuid\<close>: integers in little-endian and big-endian
  order, byte strings of fixed length, padding, the texts of digests and UUIDs, \<^verbatim>\<open>pack\<close>, \<^verbatim>\<open>unpack\<close> and
  \<^verbatim>\<open>unpack_from\<close>. The locale states when a format is a codec, and proves once how arrays of fixed-size
  records are split and joined.
\<close>

section \<open>Byte values\<close>

definition type_is_bytes :: "pyval \<Rightarrow> bool" where
  "type_is_bytes v = (case v of PyBytes _ \<Rightarrow> True | _ \<Rightarrow> False)"

definition type_is_bytearray :: "pyval \<Rightarrow> bool" where
  "type_is_bytearray v = (case v of PyByteArray _ \<Rightarrow> True | _ \<Rightarrow> False)"

definition bytes_of :: "pyval \<Rightarrow> bytes" where
  "bytes_of v = (case v of PyBytes bs \<Rightarrow> bs | PyByteArray bs \<Rightarrow> bs | _ \<Rightarrow> [])"

lemma bytes_of_simps [simp]: "bytes_of (PyBytes bs) = bs" "bytes_of (PyByteArray bs) = bs"
  by (simp_all add: bytes_of_def)

lemma bytes_type_iff [py_simps]:
  "type_is_bytes v \<longleftrightarrow> (\<exists>bs. v = PyBytes bs)"
  "type_is_bytearray v \<longleftrightarrow> (\<exists>bs. v = PyByteArray bs)"
  by (cases v; simp add: type_is_bytes_def type_is_bytearray_def)+

text \<open>A literal \<^verbatim>\<open>b"..."\<close>, and \<^verbatim>\<open>bytes(n)\<close>.\<close>

definition bytes_lit :: "string \<Rightarrow> bytes" where
  "bytes_lit s = map (\<lambda>c. word_of_nat (of_char c)) s"

definition zero_bytes :: "nat \<Rightarrow> bytes" where
  "zero_bytes n = replicate n 0"

lemma length_bytes_lit [simp]: "length (bytes_lit s) = length s"
  by (simp add: bytes_lit_def)

lemma length_zero_bytes [simp]: "length (zero_bytes n) = n"
  by (simp add: zero_bytes_def)

section \<open>Little-endian integers\<close>

fun le_bytes :: "nat \<Rightarrow> int \<Rightarrow> bytes" where
  "le_bytes 0 n = []"
| "le_bytes (Suc k) n = word_of_int n # le_bytes k (n div 256)"

fun le_int :: "bytes \<Rightarrow> int" where
  "le_int [] = 0"
| "le_int (b # bs) = uint b + 256 * le_int bs"

lemma length_le_bytes [simp]: "length (le_bytes k n) = k"
  by (induction k arbitrary: n) auto

lemma uint_byte_bounds: "0 \<le> uint (b :: byte) \<and> uint b < 256"
  using uint_lt2p [of b] by simp

lemma le_int_bounds: "0 \<le> le_int bs \<and> le_int bs < 256 ^ length bs"
proof (induction bs)
  case (Cons b bs)
  have "uint b + 256 * le_int bs < 256 + 256 * (256 ^ length bs - 1)"
  proof -
    have "le_int bs \<le> 256 ^ length bs - 1" using Cons by simp
    with uint_byte_bounds [of b] show ?thesis by (intro add_less_le_mono) simp_all
  qed
  with uint_byte_bounds [of b] Cons show ?case by simp
qed simp

lemma le_int_le_bytes: "le_int (le_bytes k n) = n mod 256 ^ k"
proof (induction k arbitrary: n)
  case (Suc k)
  have "n mod 256 ^ Suc k = n mod 256 + 256 * (n div 256 mod 256 ^ k)"
    by (simp add: mod_mult2_eq' [of n 256 "256 ^ k"] zmod_zmult2_eq)
  with Suc show ?case by (simp add: uint_word_of_int)
qed simp

lemma le_bytes_le_int: "le_bytes (length bs) (le_int bs) = bs"
proof (induction bs)
  case (Cons b bs)
  have "(uint b + 256 * le_int bs) div 256 = le_int bs" using uint_byte_bounds [of b] by simp
  moreover have "(word_of_int (uint b + 256 * le_int bs) :: byte) = word_of_int (uint b)"
    unfolding word_of_int_eq_iff by (simp add: take_bit_eq_mod)
  ultimately show ?case using Cons by simp
qed simp

section \<open>Big-endian integers\<close>

text \<open>\<^verbatim>\<open>int.from_bytes(bs, "big")\<close>, also \<^verbatim>\<open>uuid.UUID(bytes=bs).int\<close>.\<close>

definition be_uint :: "bytes \<Rightarrow> int" where
  "be_uint bs = foldl (\<lambda>n b. 256 * n + uint b) 0 bs"

lemma be_uint_simps [simp]: "be_uint [] = 0" "be_uint (bs @ [b]) = 256 * be_uint bs + uint b"
  by (simp_all add: be_uint_def)

lemma be_uint_single [simp]: "be_uint [b] = uint b" "be_uint [a, b] = 256 * uint a + uint b"
  by (simp_all add: be_uint_def)

lemma be_uint_bounds: "0 \<le> be_uint bs \<and> be_uint bs < 256 ^ length bs"
proof (induction bs rule: rev_induct)
  case (snoc b bs)
  with uint_byte_bounds [of b] show ?case by simp
qed simp

lemma be_uint_zero: "be_uint bs = 0 \<longleftrightarrow> bs = zero_bytes (length bs)"
proof (induction bs rule: rev_induct)
  case (snoc b bs)
  have "be_uint (bs @ [b]) = 0 \<longleftrightarrow> be_uint bs = 0 \<and> b = 0"
    using be_uint_bounds [of bs] uint_byte_bounds [of b] by (auto simp: add_nonneg_eq_0_iff simp flip: uint_0_iff)
  with snoc show ?case by (simp add: zero_bytes_def replicate_append_same [symmetric])
qed (simp add: zero_bytes_def)

section \<open>Texts of digests and UUIDs\<close>

definition byte_hex :: "byte \<Rightarrow> string" where
  "byte_hex b = [hex_char (unat b div 16), hex_char (unat b mod 16)]"

definition hexdigest :: "bytes \<Rightarrow> string" where
  "hexdigest bs = concat (map byte_hex bs)"

text \<open>\<^verbatim>\<open>str(uuid.UUID(bytes=bs))\<close>: the constructor wants 16 bytes.\<close>

definition uuid_str :: "bytes \<Rightarrow> string" where
  "uuid_str bs =
     (let h = hexdigest bs in
      take 8 h @ ''-'' @ take 4 (drop 8 h) @ ''-'' @ take 4 (drop 12 h) @ ''-'' @ take 4 (drop 16 h) @ ''-'' @ drop 20 h)"

definition uuid_text :: "bytes \<Rightarrow> string res" where
  "uuid_text bs = (if length bs \<noteq> 16 then Inl (Exc ValueError ''bytes is not a 16-char string'') else Inr (uuid_str bs))"

lemma unat_byte: "unat b < 256" for b :: byte
proof -
  have "unat b < 2 ^ LENGTH(8)" by (rule unsigned_less)
  then show ?thesis by simp
qed

lemma hex_char_inj: "m < 16 \<Longrightarrow> n < 16 \<Longrightarrow> hex_char m = hex_char n \<Longrightarrow> m = n"
proof -
  assume "m < 16" "n < 16" "hex_char m = hex_char n"
  moreover from this have "(of_char (hex_char m) :: nat) = of_char (hex_char n)" by simp
  ultimately show "m = n" by (simp add: hex_char_def of_char_of split: if_splits)
qed

lemma byte_hex_inj: "byte_hex b = byte_hex c \<Longrightarrow> b = c"
proof -
  assume "byte_hex b = byte_hex c"
  then have "unat b div 16 = unat c div 16" "unat b mod 16 = unat c mod 16"
    using unat_byte [of b] unat_byte [of c] by (auto simp: byte_hex_def intro!: hex_char_inj)
  then have "unat b = unat c" by (metis div_mult_mod_eq)
  then show "b = c" by (rule word_unat_eq_iff [THEN iffD2])
qed

lemma hexdigest_length: "length (hexdigest bs) = 2 * length bs"
  by (induction bs) (simp_all add: hexdigest_def byte_hex_def)

lemma hexdigest_inj: "length bs = length cs \<Longrightarrow> hexdigest bs = hexdigest cs \<Longrightarrow> bs = cs"
proof (induction bs cs rule: list_induct2)
  case (Cons b bs c cs)
  then have "byte_hex b = byte_hex c" "hexdigest bs = hexdigest cs" by (simp_all add: hexdigest_def byte_hex_def)
  with Cons byte_hex_inj show ?case by blast
qed simp

lemma uuid_str_inj:
  assumes "length bs = 16" and "length cs = 16"
  shows "uuid_str bs = uuid_str cs \<longleftrightarrow> bs = cs"
proof
  assume u: "uuid_str bs = uuid_str cs"
  define parts where "parts = (\<lambda>h. (take 8 h, take 4 (drop 8 h), take 4 (drop 12 h), take 4 (drop 16 h), drop 20 (h :: string)))"
  have "parts (hexdigest bs) = parts (hexdigest cs)"
    using u assms by (auto simp: uuid_str_def Let_def parts_def hexdigest_length)
  moreover have "(case parts h of (a, b, c, d, e) \<Rightarrow> a @ b @ c @ d @ e) = h" for h
    using append_take_drop_id [of 8 h] append_take_drop_id [of 4 "drop 8 h"] append_take_drop_id [of 4 "drop 12 h"]
      append_take_drop_id [of 4 "drop 16 h"] by (simp add: parts_def)
  ultimately have "hexdigest bs = hexdigest cs" by metis
  with assms show "bs = cs" by (simp add: hexdigest_inj)
qed simp

lemma uuid_text_inj: "uuid_text bs = Inr t \<Longrightarrow> uuid_text cs = Inr t \<Longrightarrow> bs = cs"
  by (auto simp: uuid_text_def uuid_str_inj split: if_splits)

section \<open>Formats\<close>

text \<open>The items of a \<^verbatim>\<open>"<..."\<close> format: \<^verbatim>\<open>H\<close>, \<^verbatim>\<open>I\<close>, \<^verbatim>\<open>Q\<close> by their width in bytes, \<^verbatim>\<open>ns\<close> and \<^verbatim>\<open>nx\<close>.\<close>

datatype fmt = FUInt nat | FRaw nat | FPad nat

fun fmt_width :: "fmt \<Rightarrow> nat" where
  "fmt_width (FUInt k) = k"
| "fmt_width (FRaw k) = k"
| "fmt_width (FPad k) = k"

definition struct_size :: "fmt list \<Rightarrow> nat" where
  "struct_size fs = sum_list (map fmt_width fs)"

definition struct_error :: exc where
  "struct_error = Exc StructError ''struct''"

text \<open>\<^verbatim>\<open>struct.pack\<close>: integers out of range and values of the wrong type raise; \<^verbatim>\<open>ns\<close> pads with zeros or truncates.\<close>

fun struct_pack :: "fmt list \<Rightarrow> pyval list \<Rightarrow> bytes res" where
  "struct_pack [] [] = Inr []"
| "struct_pack [] (v # vs) = Inl struct_error"
| "struct_pack (FPad k # fs) vs = and_then (struct_pack fs vs) (\<lambda>bs. Inr (zero_bytes k @ bs))"
| "struct_pack (FUInt k # fs) [] = Inl struct_error"
| "struct_pack (FRaw k # fs) [] = Inl struct_error"
| "struct_pack (FUInt k # fs) (v # vs) =
     (if \<not> isinstance_int v \<or> \<not> (0 \<le> int_of v \<and> int_of v < 256 ^ k) then Inl struct_error
      else and_then (struct_pack fs vs) (\<lambda>bs. Inr (le_bytes k (int_of v) @ bs)))"
| "struct_pack (FRaw k # fs) (v # vs) =
     (if \<not> type_is_bytes v \<and> \<not> type_is_bytearray v then Inl struct_error
      else and_then (struct_pack fs vs) (\<lambda>bs. Inr (take k (bytes_of v @ zero_bytes k) @ bs)))"

fun struct_fields :: "fmt list \<Rightarrow> bytes \<Rightarrow> pyval list" where
  "struct_fields [] bs = []"
| "struct_fields (FUInt k # fs) bs = PyInt (le_int (take k bs)) # struct_fields fs (drop k bs)"
| "struct_fields (FRaw k # fs) bs = PyBytes (take k bs) # struct_fields fs (drop k bs)"
| "struct_fields (FPad k # fs) bs = struct_fields fs (drop k bs)"

text \<open>\<^verbatim>\<open>struct.unpack\<close> needs exactly the format's size, \<^verbatim>\<open>unpack_from\<close> at least that much after the offset.\<close>

definition struct_unpack :: "fmt list \<Rightarrow> bytes \<Rightarrow> pyval list res" where
  "struct_unpack fs bs = (if length bs \<noteq> struct_size fs then Inl struct_error else Inr (struct_fields fs bs))"

definition struct_unpack_from :: "fmt list \<Rightarrow> bytes \<Rightarrow> nat \<Rightarrow> pyval list res" where
  "struct_unpack_from fs bs offset =
     (if length bs < offset + struct_size fs then Inl struct_error else Inr (struct_fields fs (drop offset bs)))"

text \<open>The values a format can carry: integers below the bound and byte strings of the exact length.\<close>

fun fields_fit :: "fmt list \<Rightarrow> pyval list \<Rightarrow> bool" where
  "fields_fit [] vs = (vs = [])"
| "fields_fit (FPad k # fs) vs = fields_fit fs vs"
| "fields_fit (FUInt k # fs) vs =
     (case vs of v # ws \<Rightarrow> type_is_int v \<and> 0 \<le> int_of v \<and> int_of v < 256 ^ k \<and> fields_fit fs ws | [] \<Rightarrow> False)"
| "fields_fit (FRaw k # fs) vs =
     (case vs of v # ws \<Rightarrow> type_is_bytes v \<and> length (bytes_of v) = k \<and> fields_fit fs ws | [] \<Rightarrow> False)"

fun no_pad :: "fmt list \<Rightarrow> bool" where
  "no_pad [] = True"
| "no_pad (FPad k # fs) = False"
| "no_pad (f # fs) = no_pad fs"

lemma struct_size_simps [simp]:
  "struct_size [] = 0" "struct_size (f # fs) = fmt_width f + struct_size fs"
  by (simp_all add: struct_size_def)

lemma struct_pack_length: "struct_pack fs vs = Inr bs \<Longrightarrow> length bs = struct_size fs"
  by (induction fs vs arbitrary: bs rule: struct_pack.induct) (auto simp: res_simps split: if_splits)

lemma struct_pack_fit: "fields_fit fs vs \<Longrightarrow> \<exists>bs. struct_pack fs vs = Inr bs"
proof (induction fs vs rule: struct_pack.induct)
  case (6 k fs v vs)
  then show ?case by (auto simp: py_simps)
next
  case (7 k fs v vs)
  then show ?case by (auto simp: py_simps)
qed auto

lemma struct_fields_pack:
  "struct_pack fs vs = Inr bs \<Longrightarrow> fields_fit fs vs \<Longrightarrow> struct_fields fs (bs @ rest) = vs"
proof (induction fs vs arbitrary: bs rule: struct_pack.induct)
  case (6 k fs v vs)
  then show ?case by (auto simp: py_simps res_simps le_int_le_bytes)
next
  case (7 k fs v vs)
  then show ?case by (auto simp: py_simps res_simps)
qed (auto simp: res_simps)

lemma struct_pack_fields:
  "no_pad fs \<Longrightarrow> length bs = struct_size fs \<Longrightarrow> struct_pack fs (struct_fields fs bs) = Inr bs"
proof (induction fs arbitrary: bs)
  case (Cons f fs)
  show ?case
  proof (cases f)
    case (FUInt k)
    have "le_bytes k (le_int (take k bs)) = take k bs"
      using le_bytes_le_int [of "take k bs"] Cons.prems(2) FUInt by simp
    moreover have "0 \<le> le_int (take k bs) \<and> le_int (take k bs) < 256 ^ k"
      using le_int_bounds [of "take k bs"] Cons.prems(2) FUInt by simp
    moreover have "struct_pack fs (struct_fields fs (drop k bs)) = Inr (drop k bs)"
      using Cons.prems FUInt by (intro Cons.IH) simp_all
    ultimately show ?thesis using FUInt by (simp add: py_simps)
  qed (use Cons in \<open>auto simp: py_simps\<close>)
qed simp

lemma struct_fields_fit: "length bs = struct_size fs \<Longrightarrow> fields_fit fs (struct_fields fs bs)"
proof (induction fs arbitrary: bs)
  case (Cons f fs)
  show ?case
  proof (cases f)
    case (FUInt k)
    with Cons le_int_bounds [of "take k bs"] show ?thesis by (simp add: py_simps)
  qed (use Cons in \<open>simp_all add: py_simps\<close>)
qed simp


lemma struct_fields_take: "struct_size fs \<le> n \<Longrightarrow> struct_fields fs (take n bs) = struct_fields fs bs"
proof (induction fs arbitrary: n bs)
  case (Cons f fs)
  then show ?case by (cases f) (simp_all add: drop_take min_absorb1)
qed simp

text \<open>Bytes that decode to some values start with the encoding of these values.\<close>

lemma pack_take_fields:
  assumes "no_pad fs" and "struct_size fs \<le> length bs" and "struct_fields fs bs = vs"
  shows "struct_pack fs vs = Inr (take (struct_size fs) bs)"
  using struct_pack_fields [OF assms(1), of "take (struct_size fs) bs"] assms(2,3) by (simp add: struct_fields_take)

section \<open>Arrays of records\<close>

text \<open>
  \<^verbatim>\<open>for offset in range(0, len(data), size): ... unpack_from(data, offset) ...\<close> with the results collected
  in a list: \<open>f\<close> is the body, applied to the bytes from the offset on.
\<close>

function parse_array :: "nat \<Rightarrow> (bytes \<Rightarrow> 'a res) \<Rightarrow> bytes \<Rightarrow> 'a list res" where
  "parse_array width f bs =
     (if width = 0 \<or> bs = [] then Inr []
      else and_then (f bs) (\<lambda>x. and_then (parse_array width f (drop width bs)) (\<lambda>xs. Inr (x # xs))))"
  by auto
termination by (relation "measure (\<lambda>(width, f, bs). length bs)") auto

declare parse_array.simps [simp del]

lemma parse_array_Nil [simp]: "parse_array width f [] = Inr []"
  by (simp add: parse_array.simps)

text \<open>
  The contract of a record of fixed size: encoding and decoding are inverse to each other and the
  decoder reads no further than the record. Its consequence is the same contract for arrays.
\<close>

locale record_array =
  fixes width :: nat
    and decode :: "bytes \<Rightarrow> 'a res"
    and encode :: "'a \<Rightarrow> bytes"
    and valid :: "'a \<Rightarrow> bool"
  assumes size_pos: "0 < width"
    and encode_length: "valid x \<Longrightarrow> length (encode x) = width"
    and decode_encode: "valid x \<Longrightarrow> decode (encode x @ rest) = Inr x"
    and encode_decode: "width \<le> length bs \<Longrightarrow> decode bs = Inr x \<Longrightarrow> valid x \<and> encode x = take width bs"
begin

lemma parse_encoded: "list_all valid xs \<Longrightarrow> parse_array width decode (concat (map encode xs)) = Inr xs"
proof (induction xs)
  case (Cons x xs)
  then have "encode x @ concat (map encode xs) \<noteq> []" "length (encode x) = width"
    using encode_length [of x] size_pos by auto
  with Cons show ?case
    using size_pos by (simp add: parse_array.simps [of width decode "encode x @ concat (map encode xs)"] decode_encode)
qed simp

lemma encoded_length: "list_all valid xs \<Longrightarrow> length (concat (map encode xs)) = width * length xs"
  by (induction xs) (auto simp: encode_length)

lemma parsed_encodes:
  "parse_array width decode bs = Inr xs \<Longrightarrow> width dvd length bs \<Longrightarrow> list_all valid xs \<and> concat (map encode xs) = bs"
proof (induction "length bs" arbitrary: bs xs rule: less_induct)
  case less
  show ?case
  proof (cases "bs = []")
    case False
    then have le: "width \<le> length bs" using less.prems(2) by (simp add: dvd_imp_le)
    from less.prems(1) False size_pos obtain x ys where
      x: "decode bs = Inr x" "parse_array width decode (drop width bs) = Inr ys" "xs = x # ys"
      by (auto simp: parse_array.simps [of width decode bs] res_simps)
    have "width dvd length (drop width bs)" using less.prems(2) le by (simp add: dvd_diff_nat)
    with less.hyps [OF _ x(2)] False size_pos have "list_all valid ys \<and> concat (map encode ys) = drop width bs" by simp
    with encode_decode [OF le x(1)] x(3) show ?thesis by simp
  qed (use less.prems in simp)
qed

end

end
