(* ===== verification/Catacomb_Protocol.thy ===== *)
theory Catacomb_Protocol
  imports Byte_Struct
begin

unbundle bit_operations_syntax

text \<open>
  The Catacomb save commands, \<^verbatim>\<open>src/src/t2_catacomb_protocol.py\<close>: components and their descriptors, the
  state arrays the device returns, which components an enrollment must save, and the three requests
  (prepare, complete, confirm) with their replies. An argument whose type the source tests is a
  \<open>pyval\<close>. A constructed object is a record; its \<^verbatim>\<open>__post_init__\<close> is the definition that builds it.
\<close>

section \<open>Constants\<close>

definition COMMAND_PREPARE_SAVE_CATACOMB :: int where "COMMAND_PREPARE_SAVE_CATACOMB = 0x3D"
definition COMMAND_COMPLETE_SAVE_CATACOMB :: int where "COMMAND_COMPLETE_SAVE_CATACOMB = 0x3E"
definition COMMAND_CONFIRM_SAVE_CATACOMB :: int where "COMMAND_CONFIRM_SAVE_CATACOMB = 0x3F"
definition PREPARE_REPLY :: "fmt list" where "PREPARE_REPLY = [FUInt 4]"
definition MAX_SECURE_BLOB_SIZE :: int where "MAX_SECURE_BLOB_SIZE = 1024 * 1024"
definition UINT32_MAX :: int where "UINT32_MAX = 0xFFFFFFFF"
definition ZERO_UUID :: bytes where "ZERO_UUID = zero_bytes 16"
definition COMPONENT_DESCRIPTOR :: "fmt list" where "COMPONENT_DESCRIPTOR = [FUInt 4, FUInt 4, FRaw 16]"
definition USER_STATE_RECORD :: "fmt list" where "USER_STATE_RECORD = [FUInt 4, FUInt 4]"
definition GROUP_STATE_RECORD :: "fmt list" where "GROUP_STATE_RECORD = [FUInt 4, FUInt 4, FRaw 16, FUInt 4]"
definition CATACOMB_STATE_NEEDS_SAVE :: int where "CATACOMB_STATE_NEEDS_SAVE = 0x04"

abbreviation catacomb_error :: "string \<Rightarrow> exc" where
  "catacomb_error \<equiv> Exc CatacombProtocolError"

section \<open>Components\<close>

datatype component_kind = C_MASTER | C_USER | C_GROUP

record catacomb_component =
  cc_user_id :: int
  cc_group_type :: int
  cc_group_uuid :: bytes

definition component_field :: "pyval \<Rightarrow> string \<Rightarrow> unit res" where
  "component_field value field =
     (if \<not> type_is_int value \<or> \<not> (0 \<le> int_of value \<and> int_of value \<le> UINT32_MAX)
      then Inl (catacomb_error (field @ '' is outside uint32'')) else Inr ())"

definition new_component :: "pyval \<Rightarrow> pyval \<Rightarrow> pyval \<Rightarrow> catacomb_component res" where
  "new_component user_id group_type group_uuid =
     and_then (component_field user_id ''component user ID'') (\<lambda>_.
     and_then (component_field group_type ''component group type'') (\<lambda>_.
     if \<not> type_is_bytes group_uuid \<or> length (bytes_of group_uuid) \<noteq> 16
     then Inl (catacomb_error ''component group UUID must be exactly 16 bytes'')
     else if int_of group_type = 0 \<and> bytes_of group_uuid \<noteq> ZERO_UUID
     then Inl (catacomb_error ''user/master component has a nonzero group UUID'')
     else if int_of group_type \<noteq> 0 \<and> int_of user_id = UINT32_MAX
     then Inl (catacomb_error ''group component identity is not canonical'')
     else Inr \<lparr>cc_user_id = int_of user_id, cc_group_type = int_of group_type, cc_group_uuid = bytes_of group_uuid\<rparr>))"

definition component_user :: "pyval \<Rightarrow> catacomb_component res" where
  "component_user user_id =
     (if \<not> type_is_int user_id \<or> \<not> (0 \<le> int_of user_id \<and> int_of user_id < UINT32_MAX)
      then Inl (catacomb_error ''user component ID is outside canonical range'')
      else new_component user_id (PyInt 0) (PyBytes ZERO_UUID))"

definition component_master :: "catacomb_component res" where
  "component_master = new_component (PyInt UINT32_MAX) (PyInt 0) (PyBytes ZERO_UUID)"

definition component_group :: "pyval \<Rightarrow> pyval \<Rightarrow> pyval \<Rightarrow> catacomb_component res" where
  "component_group user_id group_type group_uuid =
     (if \<not> type_is_int group_type \<or> \<not> (0 < int_of group_type \<and> int_of group_type \<le> UINT32_MAX)
      then Inl (catacomb_error ''group component type must be nonzero'')
      else new_component user_id group_type group_uuid)"

definition component_parse :: "pyval \<Rightarrow> catacomb_component res" where
  "component_parse descriptor =
     (if \<not> type_is_bytes descriptor \<or> length (bytes_of descriptor) \<noteq> struct_size COMPONENT_DESCRIPTOR
      then Inl (catacomb_error ''component descriptor must be exactly 24 bytes'')
      else and_then (struct_unpack COMPONENT_DESCRIPTOR (bytes_of descriptor)) (\<lambda>v.
           new_component (v ! 0) (v ! 1) (v ! 2)))"

definition component_values :: "catacomb_component \<Rightarrow> pyval list" where
  "component_values c = [PyInt (cc_user_id c), PyInt (cc_group_type c), PyBytes (cc_group_uuid c)]"

definition component_descriptor :: "catacomb_component \<Rightarrow> bytes res" where
  "component_descriptor c = struct_pack COMPONENT_DESCRIPTOR (component_values c)"

definition kind_of_component :: "catacomb_component \<Rightarrow> component_kind" where
  "kind_of_component c =
     (if cc_user_id c = UINT32_MAX then C_MASTER else if cc_group_type c = 0 then C_USER else C_GROUP)"

section \<open>States\<close>

record catacomb_state =
  st_component :: catacomb_component
  st_state :: int

definition new_state :: "catacomb_component \<Rightarrow> pyval \<Rightarrow> catacomb_state res" where
  "new_state component state =
     (if \<not> type_is_int state \<or> \<not> (0 \<le> int_of state \<and> int_of state \<le> UINT32_MAX)
      then Inl (catacomb_error ''Catacomb state is outside uint32'')
      else Inr \<lparr>st_component = component, st_state = int_of state\<rparr>)"

definition needs_save :: "catacomb_state \<Rightarrow> bool" where
  "needs_save s = (st_state s AND CATACOMB_STATE_NEEDS_SAVE \<noteq> 0)"

text \<open>\<^verbatim>\<open>[record.component.descriptor for record in states]\<close>\<close>

fun descriptors :: "catacomb_state list \<Rightarrow> bytes list res" where
  "descriptors [] = Inr []"
| "descriptors (s # ss) =
     and_then (component_descriptor (st_component s)) (\<lambda>d. and_then (descriptors ss) (\<lambda>ds. Inr (d # ds)))"

definition unique_states :: "catacomb_state list \<Rightarrow> catacomb_state list res" where
  "unique_states states =
     and_then (descriptors states) (\<lambda>ds.
     if card (set ds) \<noteq> length ds then Inl (catacomb_error ''Catacomb state contains a duplicate component'')
     else Inr states)"

text \<open>The bodies of the two loops over records: the record at an offset.\<close>

definition user_state_record :: "bytes \<Rightarrow> catacomb_state res" where
  "user_state_record bs =
     and_then (struct_unpack_from USER_STATE_RECORD bs 0) (\<lambda>v.
     and_then (if int_of (v ! 0) = UINT32_MAX then component_master else component_user (v ! 0)) (\<lambda>component.
     new_state component (v ! 1)))"

definition group_state_record :: "bytes \<Rightarrow> catacomb_state res" where
  "group_state_record bs =
     and_then (struct_unpack_from GROUP_STATE_RECORD bs 0) (\<lambda>v.
     and_then (new_component (v ! 0) (v ! 1) (v ! 2)) (\<lambda>component.
     if kind_of_component component \<noteq> C_GROUP
     then Inl (catacomb_error ''group Catacomb state contains a non-group component'')
     else new_state component (v ! 3)))"

definition parse_user_states :: "pyval \<Rightarrow> catacomb_state list res" where
  "parse_user_states output =
     (if \<not> type_is_bytes output \<or> bytes_of output = []
         \<or> length (bytes_of output) mod struct_size USER_STATE_RECORD \<noteq> 0
      then Inl (catacomb_error ''user Catacomb state bytes are malformed'')
      else and_then (parse_array (struct_size USER_STATE_RECORD) user_state_record (bytes_of output)) unique_states)"

definition parse_group_states :: "pyval \<Rightarrow> catacomb_state list res" where
  "parse_group_states output =
     (if \<not> type_is_bytes output \<or> length (bytes_of output) mod struct_size GROUP_STATE_RECORD \<noteq> 0
      then Inl (catacomb_error ''group Catacomb state bytes are malformed'')
      else and_then (parse_array (struct_size GROUP_STATE_RECORD) group_state_record (bytes_of output)) unique_states)"

text \<open>
  The save list of an enrollment. The collections are tuples of states by construction of the model,
  so the type tests on them have no counterpart.
\<close>

definition plan_builtin_enrollment_save ::
    "catacomb_state list \<Rightarrow> pyval \<Rightarrow> catacomb_state list \<Rightarrow> (catacomb_component \<times> catacomb_component) res" where
  "plan_builtin_enrollment_save user_states apple_user_id group_states =
     (if \<not> type_is_int apple_user_id \<or> \<not> (0 \<le> int_of apple_user_id \<and> int_of apple_user_id < UINT32_MAX)
      then Inl (catacomb_error ''selected Apple user ID is invalid'')
      else let combined = user_states @ group_states in
      if combined = [] then Inl (catacomb_error ''Catacomb save planning has invalid state'')
      else and_then (descriptors combined) (\<lambda>ds.
      if card (set ds) \<noteq> length ds then Inl (catacomb_error ''Catacomb state repeats a component'')
      else and_then component_master (\<lambda>master.
      and_then (component_user apple_user_id) (\<lambda>selected.
      if length (filter (\<lambda>r. st_component r = master) user_states) \<noteq> 1
      then Inl (catacomb_error ''Catacomb state has no unique master component'')
      else let selected_records = filter (\<lambda>r. st_component r = selected) user_states in
      if length selected_records \<noteq> 1 \<or> \<not> needs_save (selected_records ! 0)
      then Inl (catacomb_error ''selected user component is not marked for save'')
      else if map st_component (filter (\<lambda>r. needs_save r \<and> kind_of_component (st_component r) \<noteq> C_MASTER) combined)
                \<noteq> [selected]
      then Inl (catacomb_error ''built-in enrollment dirtied an unexpected Catacomb component'')
      else Inr (selected, master)))))"

section \<open>Requests and replies\<close>

record catacomb_request =
  rq_command :: int
  rq_protocol_version :: int
  rq_descriptor :: bytes
  rq_output_capacity :: int

definition validate_descriptor :: "pyval \<Rightarrow> pyval \<Rightarrow> unit res" where
  "validate_descriptor protocol_version descriptor =
     (if \<not> type_is_int protocol_version \<or> int_of protocol_version \<notin> {1, 2}
      then Inl (catacomb_error ''Catacomb protocol must be version 1 or 2'')
      else if \<not> type_is_bytes descriptor
              \<or> length (bytes_of descriptor) \<noteq> (if int_of protocol_version = 1 then 4 else 24)
      then Inl (catacomb_error ''protocol-'') else Inr ())"

definition new_request :: "int \<Rightarrow> pyval \<Rightarrow> pyval \<Rightarrow> pyval \<Rightarrow> catacomb_request res" where
  "new_request command protocol_version descriptor output_capacity =
     and_then (validate_descriptor protocol_version descriptor) (\<lambda>_.
     if command \<notin> {COMMAND_PREPARE_SAVE_CATACOMB, COMMAND_COMPLETE_SAVE_CATACOMB, COMMAND_CONFIRM_SAVE_CATACOMB}
     then Inl (catacomb_error ''unsupported Catacomb persistence command'')
     else if \<not> type_is_int output_capacity
             \<or> \<not> (0 \<le> int_of output_capacity \<and> int_of output_capacity \<le> MAX_SECURE_BLOB_SIZE)
     then Inl (catacomb_error ''output capacity is invalid or unbounded'')
     else if command = COMMAND_PREPARE_SAVE_CATACOMB \<and> int_of output_capacity \<noteq> int (struct_size PREPARE_REPLY)
     then Inl (catacomb_error ''Catacomb prepare output capacity must be 4'')
     else if command = COMMAND_COMPLETE_SAVE_CATACOMB \<and> int_of output_capacity = 0
     then Inl (catacomb_error ''Catacomb complete output capacity is empty'')
     else if command = COMMAND_CONFIRM_SAVE_CATACOMB \<and> int_of output_capacity \<noteq> 0
     then Inl (catacomb_error ''Catacomb confirm output capacity must be zero'')
     else Inr \<lparr>rq_command = command, rq_protocol_version = int_of protocol_version,
               rq_descriptor = bytes_of descriptor, rq_output_capacity = int_of output_capacity\<rparr>)"

definition require_success :: "pyval \<Rightarrow> string \<Rightarrow> unit res" where
  "require_success status operation =
     (if \<not> type_is_int status then Inl (catacomb_error (operation @ '' status is not an integer''))
      else if int_of status \<noteq> 0 then Inl (catacomb_error (operation @ '' returned nonzero status''))
      else Inr ())"

definition build_prepare_request :: "pyval \<Rightarrow> pyval \<Rightarrow> catacomb_request res" where
  "build_prepare_request protocol_version descriptor =
     new_request COMMAND_PREPARE_SAVE_CATACOMB protocol_version descriptor (PyInt (int (struct_size PREPARE_REPLY)))"

definition parse_prepare_reply :: "pyval \<Rightarrow> pyval \<Rightarrow> int res" where
  "parse_prepare_reply status output =
     and_then (require_success status ''Catacomb prepare'') (\<lambda>_.
     if \<not> type_is_bytes output \<or> length (bytes_of output) \<noteq> struct_size PREPARE_REPLY
     then Inl (catacomb_error ''Catacomb prepare output must be exactly 4 bytes'')
     else and_then (struct_unpack PREPARE_REPLY (bytes_of output)) (\<lambda>v.
     let expected_length = int_of (v ! 0) in
     if \<not> (0 < expected_length \<and> expected_length \<le> MAX_SECURE_BLOB_SIZE)
     then Inl (catacomb_error ''prepared secure-blob length is invalid or unbounded'')
     else Inr expected_length))"

definition expected_length_check :: "pyval \<Rightarrow> unit res" where
  "expected_length_check expected_length =
     (if \<not> type_is_int expected_length
         \<or> \<not> (0 < int_of expected_length \<and> int_of expected_length \<le> MAX_SECURE_BLOB_SIZE)
      then Inl (catacomb_error ''expected secure-blob length is invalid or unbounded'') else Inr ())"

definition build_complete_request :: "pyval \<Rightarrow> pyval \<Rightarrow> pyval \<Rightarrow> catacomb_request res" where
  "build_complete_request protocol_version descriptor expected_length =
     and_then (expected_length_check expected_length) (\<lambda>_.
     new_request COMMAND_COMPLETE_SAVE_CATACOMB protocol_version descriptor expected_length)"

definition parse_complete_reply :: "pyval \<Rightarrow> pyval \<Rightarrow> pyval \<Rightarrow> pyval res" where
  "parse_complete_reply status output expected_length =
     and_then (require_success status ''Catacomb complete'') (\<lambda>_.
     and_then (expected_length_check expected_length) (\<lambda>_.
     if \<not> type_is_bytearray output \<or> int (length (bytes_of output)) \<noteq> int_of expected_length
     then Inl (catacomb_error ''Catacomb complete output differs from the prepared length'')
     else Inr output))"

definition build_confirm_request :: "pyval \<Rightarrow> pyval \<Rightarrow> catacomb_request res" where
  "build_confirm_request protocol_version descriptor =
     new_request COMMAND_CONFIRM_SAVE_CATACOMB protocol_version descriptor (PyInt 0)"

definition parse_confirm_reply :: "pyval \<Rightarrow> pyval \<Rightarrow> unit res" where
  "parse_confirm_reply status output =
     and_then (require_success status ''Catacomb confirm'') (\<lambda>_.
     if \<not> type_is_bytes output \<or> bytes_of output \<noteq> []
     then Inl (catacomb_error ''Catacomb confirm must not return output'') else Inr ())"

end
