(* ===== verification/Catacomb_Facts.thy ===== *)
theory Catacomb_Facts
  imports Catacomb_Protocol
begin

text \<open>
  Correctness of the Catacomb commands: descriptors and state arrays are exact encodings, the save
  list of an enrollment is exactly what its specification asks for, and the three exchanges of a save
  fit together.
\<close>

section \<open>Components\<close>

definition component_ok :: "catacomb_component \<Rightarrow> bool" where
  "component_ok c = (0 \<le> cc_user_id c \<and> cc_user_id c \<le> UINT32_MAX \<and> 0 \<le> cc_group_type c
     \<and> cc_group_type c \<le> UINT32_MAX \<and> length (cc_group_uuid c) = 16
     \<and> (if cc_group_type c = 0 then cc_group_uuid c = ZERO_UUID else cc_user_id c \<noteq> UINT32_MAX))"

lemma new_component_iff:
  "new_component u g d = Inr c \<longleftrightarrow>
     u = PyInt (cc_user_id c) \<and> g = PyInt (cc_group_type c) \<and> d = PyBytes (cc_group_uuid c) \<and> component_ok c"
  by (cases c) (auto simp: new_component_def component_field_def component_ok_def res_simps py_simps)

lemma component_values_fit: "component_ok c \<Longrightarrow> fields_fit COMPONENT_DESCRIPTOR (component_values c)"
  by (auto simp: component_ok_def COMPONENT_DESCRIPTOR_def component_values_def py_simps UINT32_MAX_def)

lemma component_descriptor_ok: "component_ok c \<Longrightarrow> \<exists>d. component_descriptor c = Inr d"
  unfolding component_descriptor_def by (rule struct_pack_fit [OF component_values_fit])

lemma component_of_fields:
  "new_component (v ! 0) (v ! 1) (v ! 2) = Inr c \<Longrightarrow> length v = 3 \<Longrightarrow> component_ok c \<and> v = component_values c"
  by (cases v; cases "tl v"; cases "tl (tl v)") (auto simp: new_component_iff component_values_def)

lemma component_parse_iff:
  "component_parse (PyBytes d) = Inr c \<longleftrightarrow> component_ok c \<and> component_descriptor c = Inr d"
proof
  assume "component_parse (PyBytes d) = Inr c"
  then have d: "length d = struct_size COMPONENT_DESCRIPTOR"
    "new_component (struct_fields COMPONENT_DESCRIPTOR d ! 0) (struct_fields COMPONENT_DESCRIPTOR d ! 1)
       (struct_fields COMPONENT_DESCRIPTOR d ! 2) = Inr c"
    by (auto simp: component_parse_def struct_unpack_def res_simps)
  then have "component_ok c \<and> struct_fields COMPONENT_DESCRIPTOR d = component_values c"
    by (intro component_of_fields) (simp_all add: COMPONENT_DESCRIPTOR_def)
  moreover have "struct_pack COMPONENT_DESCRIPTOR (struct_fields COMPONENT_DESCRIPTOR d) = Inr d"
    by (rule struct_pack_fields) (simp_all add: d(1), simp add: COMPONENT_DESCRIPTOR_def)
  ultimately show "component_ok c \<and> component_descriptor c = Inr d" by (simp add: component_descriptor_def)
next
  assume c: "component_ok c \<and> component_descriptor c = Inr d"
  then have pack: "struct_pack COMPONENT_DESCRIPTOR (component_values c) = Inr d" by (simp add: component_descriptor_def)
  with c have "struct_fields COMPONENT_DESCRIPTOR d = component_values c"
    using struct_fields_pack [OF pack component_values_fit, of "[]"] by simp
  moreover have "new_component (component_values c ! 0) (component_values c ! 1) (component_values c ! 2) = Inr c"
    using c by (simp add: new_component_iff component_values_def)
  ultimately show "component_parse (PyBytes d) = Inr c"
    using struct_pack_length [OF pack] by (simp add: component_parse_def struct_unpack_def py_simps)
qed

lemma descriptor_inj:
  assumes "component_ok b" and "component_ok c" and "component_descriptor b = component_descriptor c"
  shows "b = c"
proof -
  from component_descriptor_ok [OF assms(1)] obtain d where "component_descriptor b = Inr d" by blast
  with assms component_parse_iff [of d b] component_parse_iff [of d c] show ?thesis by simp
qed

section \<open>States\<close>

definition state_ok :: "catacomb_state \<Rightarrow> bool" where
  "state_ok s = (component_ok (st_component s) \<and> 0 \<le> st_state s \<and> st_state s \<le> UINT32_MAX)"

lemma new_state_iff:
  "new_state c v = Inr s \<longleftrightarrow> v = PyInt (st_state s) \<and> st_component s = c \<and> 0 \<le> st_state s \<and> st_state s \<le> UINT32_MAX"
  by (cases s) (auto simp: new_state_def py_simps res_simps)

lemma descriptors_of_ok:
  assumes "list_all state_ok ss"
  shows "\<exists>ds. descriptors ss = Inr ds \<and> length ds = length ss \<and> (distinct ds \<longleftrightarrow> distinct (map st_component ss))
    \<and> (\<forall>d. d \<in> set ds \<longleftrightarrow> (\<exists>s \<in> set ss. component_descriptor (st_component s) = Inr d))"
  using assms
proof (induction ss)
  case (Cons s ss)
  then obtain ds where ds: "descriptors ss = Inr ds" "length ds = length ss" "distinct ds \<longleftrightarrow> distinct (map st_component ss)"
    "\<forall>d. d \<in> set ds \<longleftrightarrow> (\<exists>s \<in> set ss. component_descriptor (st_component s) = Inr d)" by auto
  from Cons.prems obtain d where d: "component_descriptor (st_component s) = Inr d"
    using component_descriptor_ok by (auto simp: state_ok_def)
  have "d \<in> set ds \<longleftrightarrow> st_component s \<in> set (map st_component ss)"
  proof
    assume "d \<in> set ds"
    then obtain t where t: "t \<in> set ss" "component_descriptor (st_component t) = Inr d" using ds(4) by blast
    then have "st_component t = st_component s"
      using Cons.prems d by (intro descriptor_inj) (auto simp: list_all_iff state_ok_def)
    with t(1) show "st_component s \<in> set (map st_component ss)" by (metis image_eqI set_map)
  next
    assume "st_component s \<in> set (map st_component ss)"
    with d ds(4) show "d \<in> set ds" by force
  qed
  with ds d show ?case by auto
qed simp

lemma unique_states_iff:
  assumes "list_all state_ok ss"
  shows "unique_states ss = Inr ts \<longleftrightarrow> ts = ss \<and> distinct (map st_component ss)"
proof -
  from descriptors_of_ok [OF assms] obtain ds where
    ds: "descriptors ss = Inr ds" "distinct ds \<longleftrightarrow> distinct (map st_component ss)" by blast
  then show ?thesis using card_distinct [of ds] distinct_card [of ds] by (auto simp: unique_states_def)
qed

text \<open>Users and master, and groups, as the device reports them.\<close>

definition user_state_ok :: "catacomb_state \<Rightarrow> bool" where
  "user_state_ok s = (state_ok s \<and> kind_of_component (st_component s) \<noteq> C_GROUP)"

definition group_state_ok :: "catacomb_state \<Rightarrow> bool" where
  "group_state_ok s = (state_ok s \<and> kind_of_component (st_component s) = C_GROUP)"

definition user_state_values :: "catacomb_state \<Rightarrow> pyval list" where
  "user_state_values s = [PyInt (cc_user_id (st_component s)), PyInt (st_state s)]"

definition group_state_values :: "catacomb_state \<Rightarrow> pyval list" where
  "group_state_values s = component_values (st_component s) @ [PyInt (st_state s)]"

definition user_state_bytes :: "catacomb_state \<Rightarrow> bytes" where
  "user_state_bytes s = projr (struct_pack USER_STATE_RECORD (user_state_values s))"

definition group_state_bytes :: "catacomb_state \<Rightarrow> bytes" where
  "group_state_bytes s = projr (struct_pack GROUP_STATE_RECORD (group_state_values s))"

lemma component_user_iff:
  "component_user (PyInt u) = Inr c \<longleftrightarrow> 0 \<le> u \<and> u < UINT32_MAX \<and> c = \<lparr>cc_user_id = u, cc_group_type = 0, cc_group_uuid = ZERO_UUID\<rparr>"
  by (cases c) (auto simp: component_user_def new_component_iff component_ok_def py_simps UINT32_MAX_def ZERO_UUID_def)

lemma component_master_iff:
  "component_master = Inr c \<longleftrightarrow> c = \<lparr>cc_user_id = UINT32_MAX, cc_group_type = 0, cc_group_uuid = ZERO_UUID\<rparr>"
  by (cases c) (auto simp: component_master_def new_component_iff component_ok_def UINT32_MAX_def ZERO_UUID_def)

lemma user_component_iff:
  "(if u = UINT32_MAX then component_master else component_user (PyInt u)) = Inr c \<longleftrightarrow>
     component_ok c \<and> kind_of_component c \<noteq> C_GROUP \<and> cc_user_id c = u"
  by (cases c) (auto simp: component_user_iff component_master_iff kind_of_component_def component_ok_def
      UINT32_MAX_def ZERO_UUID_def)

lemma user_record_iff:
  assumes "struct_size USER_STATE_RECORD \<le> length bs"
  shows "user_state_record bs = Inr s \<longleftrightarrow> user_state_ok s \<and> struct_fields USER_STATE_RECORD bs = user_state_values s"
proof -
  obtain u t where v: "struct_fields USER_STATE_RECORD bs = [PyInt u, PyInt t]" by (simp add: USER_STATE_RECORD_def)
  have "user_state_record bs = Inr s \<longleftrightarrow> (\<exists>c. (if u = UINT32_MAX then component_master else component_user (PyInt u)) = Inr c
      \<and> new_state c (PyInt t) = Inr s)"
    using assms v by (simp add: user_state_record_def struct_unpack_from_def res_simps)
  then show ?thesis
    unfolding user_component_iff new_state_iff v by (auto simp: user_state_ok_def state_ok_def user_state_values_def)
qed

lemma group_record_iff:
  assumes "struct_size GROUP_STATE_RECORD \<le> length bs"
  shows "group_state_record bs = Inr s \<longleftrightarrow> group_state_ok s \<and> struct_fields GROUP_STATE_RECORD bs = group_state_values s"
proof -
  obtain u g d t where v: "struct_fields GROUP_STATE_RECORD bs = [PyInt u, PyInt g, PyBytes d, PyInt t]"
    by (simp add: GROUP_STATE_RECORD_def)
  have "group_state_record bs = Inr s \<longleftrightarrow> (\<exists>c. new_component (PyInt u) (PyInt g) (PyBytes d) = Inr c
      \<and> kind_of_component c = C_GROUP \<and> new_state c (PyInt t) = Inr s)"
    using assms v by (simp add: group_state_record_def struct_unpack_from_def res_simps)
  then show ?thesis
    unfolding new_component_iff new_state_iff v
    by (auto simp: group_state_ok_def state_ok_def group_state_values_def component_values_def)
qed

lemma state_values_fit:
  "user_state_ok s \<Longrightarrow> fields_fit USER_STATE_RECORD (user_state_values s)"
  "group_state_ok s \<Longrightarrow> fields_fit GROUP_STATE_RECORD (group_state_values s)"
  by (auto simp: user_state_ok_def group_state_ok_def state_ok_def component_ok_def USER_STATE_RECORD_def
      GROUP_STATE_RECORD_def user_state_values_def group_state_values_def component_values_def py_simps UINT32_MAX_def)

lemma state_bytes_pack:
  "user_state_ok s \<Longrightarrow> struct_pack USER_STATE_RECORD (user_state_values s) = Inr (user_state_bytes s)"
  "group_state_ok s \<Longrightarrow> struct_pack GROUP_STATE_RECORD (group_state_values s) = Inr (group_state_bytes s)"
  by (auto simp: user_state_bytes_def group_state_bytes_def dest!: state_values_fit struct_pack_fit)

interpretation user_array: record_array "struct_size USER_STATE_RECORD" user_state_record user_state_bytes user_state_ok
proof
  fix s rest bs
  show "0 < struct_size USER_STATE_RECORD" by (simp add: USER_STATE_RECORD_def)
  show "length (user_state_bytes s) = struct_size USER_STATE_RECORD" if "user_state_ok s"
    by (rule struct_pack_length [OF state_bytes_pack(1) [OF that]])
  show "user_state_record (user_state_bytes s @ rest) = Inr s" if "user_state_ok s"
    using that struct_fields_pack [OF state_bytes_pack(1) [OF that] state_values_fit(1) [OF that]]
      struct_pack_length [OF state_bytes_pack(1) [OF that]] by (subst user_record_iff) auto
  show "user_state_ok s \<and> user_state_bytes s = take (struct_size USER_STATE_RECORD) bs"
    if "struct_size USER_STATE_RECORD \<le> length bs" "user_state_record bs = Inr s"
  proof -
    have s: "user_state_ok s" "struct_fields USER_STATE_RECORD bs = user_state_values s"
      using that by (simp_all add: user_record_iff)
    with pack_take_fields [OF _ that(1) s(2)] show ?thesis
      by (simp add: user_state_bytes_def) (simp add: USER_STATE_RECORD_def)
  qed
qed

interpretation group_array: record_array "struct_size GROUP_STATE_RECORD" group_state_record group_state_bytes group_state_ok
proof
  fix s rest bs
  show "0 < struct_size GROUP_STATE_RECORD" by (simp add: GROUP_STATE_RECORD_def)
  show "length (group_state_bytes s) = struct_size GROUP_STATE_RECORD" if "group_state_ok s"
    by (rule struct_pack_length [OF state_bytes_pack(2) [OF that]])
  show "group_state_record (group_state_bytes s @ rest) = Inr s" if "group_state_ok s"
    using that struct_fields_pack [OF state_bytes_pack(2) [OF that] state_values_fit(2) [OF that]]
      struct_pack_length [OF state_bytes_pack(2) [OF that]] by (subst group_record_iff) auto
  show "group_state_ok s \<and> group_state_bytes s = take (struct_size GROUP_STATE_RECORD) bs"
    if "struct_size GROUP_STATE_RECORD \<le> length bs" "group_state_record bs = Inr s"
  proof -
    have s: "group_state_ok s" "struct_fields GROUP_STATE_RECORD bs = group_state_values s"
      using that by (simp_all add: group_record_iff)
    with pack_take_fields [OF _ that(1) s(2)] show ?thesis
      by (simp add: group_state_bytes_def) (simp add: GROUP_STATE_RECORD_def)
  qed
qed


section \<open>Properties\<close>

text \<open>
  Component descriptors are exact. The bytes that parse to a component are the descriptor of that
  component and no others, and the components that parsing yields are the well-formed ones.
\<close>

theorem component_descriptor_exact:
  "component_parse (PyBytes d) = Inr c \<longleftrightarrow> component_ok c \<and> component_descriptor c = Inr d"
  by (rule component_parse_iff)

lemma user_states_parse:
  "parse_user_states (PyBytes out) = Inr ss \<longleftrightarrow>
     ss \<noteq> [] \<and> list_all user_state_ok ss \<and> distinct (map st_component ss) \<and> out = concat (map user_state_bytes ss)"
proof
  assume "parse_user_states (PyBytes out) = Inr ss"
  then obtain ts where ts: "out \<noteq> []" "struct_size USER_STATE_RECORD dvd length out"
    "parse_array (struct_size USER_STATE_RECORD) user_state_record out = Inr ts" "unique_states ts = Inr ss"
    by (auto simp: parse_user_states_def res_simps py_simps mod_0_imp_dvd)
  from user_array.parsed_encodes [OF ts(3,2)] have ok: "list_all user_state_ok ts" "concat (map user_state_bytes ts) = out"
    by simp_all
  then have "list_all state_ok ts" by (auto simp: list_all_iff user_state_ok_def)
  with ts(4) have "ss = ts \<and> distinct (map st_component ts)" by (simp add: unique_states_iff)
  with ok ts(1) show "ss \<noteq> [] \<and> list_all user_state_ok ss \<and> distinct (map st_component ss) \<and> out = concat (map user_state_bytes ss)"
    by auto
next
  assume ss: "ss \<noteq> [] \<and> list_all user_state_ok ss \<and> distinct (map st_component ss) \<and> out = concat (map user_state_bytes ss)"
  have len: "length out = struct_size USER_STATE_RECORD * length ss" using ss user_array.encoded_length by simp
  then have "struct_size USER_STATE_RECORD dvd length out" by simp
  moreover have "0 < length ss" using ss by simp
  with len user_array.size_pos have "out \<noteq> []" by auto
  moreover have "list_all state_ok ss" using ss by (auto simp: list_all_iff user_state_ok_def)
  ultimately show "parse_user_states (PyBytes out) = Inr ss"
    using ss user_array.parse_encoded [of ss]
    by (simp add: parse_user_states_def py_simps unique_states_iff)
qed

lemma group_states_parse:
  "parse_group_states (PyBytes out) = Inr ss \<longleftrightarrow>
     list_all group_state_ok ss \<and> distinct (map st_component ss) \<and> out = concat (map group_state_bytes ss)"
proof
  assume "parse_group_states (PyBytes out) = Inr ss"
  then obtain ts where ts: "struct_size GROUP_STATE_RECORD dvd length out"
    "parse_array (struct_size GROUP_STATE_RECORD) group_state_record out = Inr ts" "unique_states ts = Inr ss"
    by (auto simp: parse_group_states_def res_simps py_simps mod_0_imp_dvd)
  from group_array.parsed_encodes [OF ts(2,1)] have ok: "list_all group_state_ok ts" "concat (map group_state_bytes ts) = out"
    by simp_all
  then have "list_all state_ok ts" by (auto simp: list_all_iff group_state_ok_def)
  with ts(3) have "ss = ts \<and> distinct (map st_component ts)" by (simp add: unique_states_iff)
  with ok show "list_all group_state_ok ss \<and> distinct (map st_component ss) \<and> out = concat (map group_state_bytes ss)"
    by auto
next
  assume ss: "list_all group_state_ok ss \<and> distinct (map st_component ss) \<and> out = concat (map group_state_bytes ss)"
  have "struct_size GROUP_STATE_RECORD dvd length out" using ss group_array.encoded_length by simp
  moreover have "list_all state_ok ss" using ss by (auto simp: list_all_iff group_state_ok_def)
  ultimately show "parse_group_states (PyBytes out) = Inr ss"
    using ss group_array.parse_encoded [of ss]
    by (simp add: parse_group_states_def py_simps unique_states_iff)
qed

text \<open>
  The state arrays are exact. The bytes of command 0x3c parse to a list of states exactly when they
  are the encodings, one after the other, of that list, the list is not empty, and its components are
  users or master, well formed and different from each other; the bytes of command 0x50 likewise for
  groups, where the list may be empty.
\<close>

theorem state_arrays_exact:
  "(parse_user_states (PyBytes out) = Inr us \<longleftrightarrow> us \<noteq> [] \<and> list_all user_state_ok us
      \<and> distinct (map st_component us) \<and> out = concat (map user_state_bytes us))
   \<and> (parse_group_states (PyBytes out) = Inr gs \<longleftrightarrow> list_all group_state_ok gs
      \<and> distinct (map st_component gs) \<and> out = concat (map group_state_bytes gs))"
  by (simp only: user_states_parse group_states_parse)

text \<open>What must hold for an enrollment of \<open>selected\<close> to be saved.\<close>

definition enrollment_save_spec ::
    "catacomb_state list \<Rightarrow> catacomb_state list \<Rightarrow> catacomb_component \<Rightarrow> catacomb_component \<Rightarrow> bool" where
  "enrollment_save_spec us gs selected master =
     (distinct (map st_component (us @ gs)) \<and> master \<in> st_component ` set us \<and> selected \<in> st_component ` set us
      \<and> st_component ` {r \<in> set (us @ gs). needs_save r \<and> kind_of_component (st_component r) \<noteq> C_MASTER} = {selected})"

lemma distinct_filter_one:
  "distinct (map f xs) \<Longrightarrow> length (filter (\<lambda>x. f x = c) xs) = of_bool (c \<in> f ` set xs)"
  by (induction xs) auto

lemma distinct_filter_one_iff:
  "distinct (map f xs) \<Longrightarrow> length (filter (\<lambda>x. f x = c) xs) = 1 \<longleftrightarrow> c \<in> f ` set xs"
  by (subst distinct_filter_one) simp_all

lemma distinct_map_filter_one:
  assumes "distinct (map f xs)"
  shows "map f (filter P xs) = [c] \<longleftrightarrow> f ` {x \<in> set xs. P x} = {c}"
proof -
  have d: "distinct (map f (filter P xs))" using assms by (rule distinct_map_filter)
  have "set (map f (filter P xs)) = {c} \<longleftrightarrow> map f (filter P xs) = [c]"
  proof
    assume "set (map f (filter P xs)) = {c}"
    with d show "map f (filter P xs) = [c]"
      by (metis distinct_card card_1_singleton_iff length_0_conv length_Suc_conv set_ConsD list.set_intros(1)
          One_nat_def card.empty insert_not_empty singletonD singletonI)
  qed (simp del: map_eq_Cons_conv)
  then show ?thesis by auto
qed

text \<open>
  C36: what an enrollment saves is exactly what the device marked. For well-formed states the plan
  succeeds exactly when the components are distinct, master is listed, and the selected user is
  listed and is the only component besides master that needs saving; it is then the selected user
  followed by master.
\<close>

theorem enrollment_save_plan_exact:
  assumes "list_all state_ok (us @ gs)"
  shows "plan_builtin_enrollment_save us (PyInt uid) gs = Inr (selected, master) \<longleftrightarrow>
    component_user (PyInt uid) = Inr selected \<and> component_master = Inr master
    \<and> enrollment_save_spec us gs selected master" (is "?plan \<longleftrightarrow> ?spec")
proof -
  obtain ds where ds: "descriptors (us @ gs) = Inr ds"
    "card (set ds) = length ds \<longleftrightarrow> distinct (map st_component (us @ gs))"
    using descriptors_of_ok [OF assms] card_distinct distinct_card by metis
  define dirty where "dirty = (\<lambda>r. needs_save r \<and> kind_of_component (st_component r) \<noteq> C_MASTER)"
  show ?thesis
  proof
    assume ?plan
    then obtain p: "component_user (PyInt uid) = Inr selected" "component_master = Inr master"
      "card (set ds) = length ds" "length (filter (\<lambda>r. st_component r = master) us) = 1"
      "length (filter (\<lambda>r. st_component r = selected) us) = 1"
      "map st_component (filter dirty (us @ gs)) = [selected]"
      unfolding plan_builtin_enrollment_save_def Let_def ds(1) and_then_simps
      by (elim guard_InrE and_then_InrE) (rule that; simp add: dirty_def)
    have dist: "distinct (map st_component (us @ gs))" using p(3) ds(2) by blast
    then have dist_us: "distinct (map st_component us)" by simp
    have "st_component ` {r \<in> set (us @ gs). dirty r} = {selected}"
      by (rule distinct_map_filter_one [OF dist, THEN iffD1, OF p(6)])
    with p(1,2,4,5) dist show ?spec
      unfolding enrollment_save_spec_def dirty_def distinct_filter_one_iff [OF dist_us] by (intro conjI)
  next
    assume spec: ?spec
    then have sp: "distinct (map st_component (us @ gs))" "master \<in> st_component ` set us"
      "selected \<in> st_component ` set us" "st_component ` {r \<in> set (us @ gs). dirty r} = {selected}"
      "component_user (PyInt uid) = Inr selected" "component_master = Inr master"
      by (auto simp: enrollment_save_spec_def dirty_def)
    have one: "length (filter (\<lambda>r. st_component r = master) us) = 1"
      "length (filter (\<lambda>r. st_component r = selected) us) = 1"
      using sp(1-3) by (simp_all only: distinct_filter_one_iff map_append distinct_append)
    then obtain r where r: "filter (\<lambda>r. st_component r = selected) us = [r]" by (auto simp: length_Suc_conv)
    then have "r \<in> set us" "st_component r = selected" by (auto dest: filter_eq_ConsD simp: filter_eq_Cons_iff)
    moreover from sp(4) obtain q where q: "q \<in> set (us @ gs)" "dirty q" "st_component q = selected" by blast
    moreover have "inj_on st_component (set (us @ gs))" using sp(1) unfolding distinct_map by blast
    ultimately have "r = q" by (auto dest: inj_onD)
    with q r have dirty_r: "needs_save (filter (\<lambda>r. st_component r = selected) us ! 0)" by (simp add: dirty_def)
    have "map st_component (filter dirty (us @ gs)) = [selected]"
      by (rule distinct_map_filter_one [OF sp(1), THEN iffD2, OF sp(4)])
    moreover have "us @ gs \<noteq> []" using \<open>r \<in> set us\<close> by auto
    moreover have "0 \<le> uid \<and> uid < UINT32_MAX" using sp(5) by (simp add: component_user_iff)
    ultimately show ?plan
      using ds(2) sp(1) one dirty_r
      unfolding plan_builtin_enrollment_save_def Let_def ds(1) sp(5,6) and_then_simps dirty_def
      by (simp add: py_simps)
  qed
qed

text \<open>
  The three exchanges of a save fit together. A prepare reply that is accepted announces a length
  between 1 and 1 MiB; the complete request for that length is then always built, with exactly that
  output capacity; the complete reply is accepted for exactly the buffers of that length; and the
  confirm request for the same descriptor is built with no output capacity.
\<close>

theorem save_exchange_composes:
  assumes "build_prepare_request v d = Inr prepare" and "parse_prepare_reply status out = Inr n"
  shows "0 < n \<and> n \<le> MAX_SECURE_BLOB_SIZE \<and> rq_output_capacity prepare = 4
    \<and> build_complete_request v d (PyInt n) =
        Inr (prepare\<lparr>rq_command := COMMAND_COMPLETE_SAVE_CATACOMB, rq_output_capacity := n\<rparr>)
    \<and> (parse_complete_reply (PyInt 0) (PyByteArray blob) (PyInt n) = Inr (PyByteArray blob) \<longleftrightarrow> int (length blob) = n)
    \<and> build_confirm_request v d =
        Inr (prepare\<lparr>rq_command := COMMAND_CONFIRM_SAVE_CATACOMB, rq_output_capacity := 0\<rparr>)"
proof -
  have n: "0 < n" "n \<le> MAX_SECURE_BLOB_SIZE"
    using assms(2) by (auto simp: parse_prepare_reply_def res_simps Let_def)
  have p: "validate_descriptor v d = Inr ()" "prepare = \<lparr>rq_command = COMMAND_PREPARE_SAVE_CATACOMB,
      rq_protocol_version = int_of v, rq_descriptor = bytes_of d, rq_output_capacity = 4\<rparr>"
    using assms(1) by (auto simp: build_prepare_request_def new_request_def res_simps PREPARE_REPLY_def)
  have distinct: "COMMAND_PREPARE_SAVE_CATACOMB \<noteq> COMMAND_COMPLETE_SAVE_CATACOMB"
    "COMMAND_PREPARE_SAVE_CATACOMB \<noteq> COMMAND_CONFIRM_SAVE_CATACOMB"
    "COMMAND_COMPLETE_SAVE_CATACOMB \<noteq> COMMAND_CONFIRM_SAVE_CATACOMB"
    by (simp_all add: COMMAND_PREPARE_SAVE_CATACOMB_def COMMAND_COMPLETE_SAVE_CATACOMB_def COMMAND_CONFIRM_SAVE_CATACOMB_def)
  have "0 \<le> MAX_SECURE_BLOB_SIZE" by (simp add: MAX_SECURE_BLOB_SIZE_def)
  with n p distinct show ?thesis
    by (simp add: build_complete_request_def build_confirm_request_def parse_complete_reply_def expected_length_check_def
        require_success_def new_request_def py_simps)
qed

section \<open>Witnesses\<close>

theorem enrollment_save_plan_exact_witness:
  "\<exists>master selected. plan_builtin_enrollment_save
     [\<lparr>st_component = \<lparr>cc_user_id = UINT32_MAX, cc_group_type = 0, cc_group_uuid = ZERO_UUID\<rparr>, st_state = 4\<rparr>,
      \<lparr>st_component = \<lparr>cc_user_id = 501, cc_group_type = 0, cc_group_uuid = ZERO_UUID\<rparr>, st_state = 5\<rparr>]
     (PyInt 501) [] = Inr (selected, master)"
proof -
  let ?m = "\<lparr>cc_user_id = UINT32_MAX, cc_group_type = 0, cc_group_uuid = ZERO_UUID\<rparr>"
  let ?u = "\<lparr>cc_user_id = 501, cc_group_type = 0, cc_group_uuid = ZERO_UUID\<rparr>"
  let ?us = "[\<lparr>st_component = ?m, st_state = 4\<rparr>, \<lparr>st_component = ?u, st_state = 5\<rparr>]"
  have "list_all state_ok (?us @ [])"
    by (simp add: state_ok_def component_ok_def UINT32_MAX_def ZERO_UUID_def)
  moreover have "component_user (PyInt 501) = Inr ?u" "component_master = Inr ?m"
    by (simp_all add: component_user_iff component_master_iff UINT32_MAX_def)
  moreover have "{r \<in> set (?us @ []). needs_save r \<and> kind_of_component (st_component r) \<noteq> C_MASTER} =
      {\<lparr>st_component = ?u, st_state = 5\<rparr>}"
    by (auto simp: needs_save_def CATACOMB_STATE_NEEDS_SAVE_def kind_of_component_def UINT32_MAX_def)
  then have "enrollment_save_spec ?us [] ?u ?m"
    by (simp add: enrollment_save_spec_def) (simp add: UINT32_MAX_def)
  ultimately show ?thesis using enrollment_save_plan_exact [of ?us "[]" 501 ?u ?m] by blast
qed

theorem save_exchange_composes_witness:
  "build_complete_request (PyInt 1) (PyBytes [1, 2, 3, 4]) (PyInt 64) =
     Inr \<lparr>rq_command = COMMAND_COMPLETE_SAVE_CATACOMB, rq_protocol_version = 1, rq_descriptor = [1, 2, 3, 4],
       rq_output_capacity = 64\<rparr>"
proof -
  have "build_prepare_request (PyInt 1) (PyBytes [1, 2, 3, 4]) =
      Inr \<lparr>rq_command = COMMAND_PREPARE_SAVE_CATACOMB, rq_protocol_version = 1, rq_descriptor = [1, 2, 3, 4],
        rq_output_capacity = 4\<rparr>" by code_simp
  moreover have "parse_prepare_reply (PyInt 0) (PyBytes [64, 0, 0, 0]) = Inr 64" by code_simp
  ultimately show ?thesis using save_exchange_composes by fastforce
qed

end
