(* ===== verification/Methods.thy ===== *)
theory Methods
  imports T2_Prelude
begin

text \<open>
  Methods that raise and change state: a method maps a state to a result, an exception or a value, and a new state.
  The combinators are the sequencing, \<^verbatim>\<open>raise\<close> and \<^verbatim>\<open>try\<close> of the operations that send commands and write journals; the
  weakest preconditions of the combinators for normal and exceptional ends carry the proofs about them.
\<close>

section \<open>Methods as state transformers\<close>

type_synonym ('s, 'a) stateful = "'s \<Rightarrow> 'a res \<times> 's"

definition op_return :: "'a \<Rightarrow> ('s, 'a) stateful" where
  "op_return x s = (Inr x, s)"

definition op_raise :: "exc \<Rightarrow> ('s, 'a) stateful" where
  "op_raise e s = (Inl e, s)"

definition op_lift :: "'a res \<Rightarrow> ('s, 'a) stateful" where
  "op_lift r s = (r, s)"

definition op_bind :: "('s, 'a) stateful \<Rightarrow> ('a \<Rightarrow> ('s, 'b) stateful) \<Rightarrow> ('s, 'b) stateful" where
  "op_bind m f s = (case m s of (Inl e, s1) \<Rightarrow> (Inl e, s1) | (Inr x, s1) \<Rightarrow> f x s1)"

text \<open>\<^verbatim>\<open>try: m except BaseException as error: h\<close>\<close>

definition op_catch :: "('s, 'a) stateful \<Rightarrow> (exc \<Rightarrow> ('s, 'a) stateful) \<Rightarrow> ('s, 'a) stateful" where
  "op_catch m h s = (case m s of (Inl e, s1) \<Rightarrow> h e s1 | (Inr x, s1) \<Rightarrow> (Inr x, s1))"

text \<open>\<^verbatim>\<open>try: m except C as error: h\<close>, for one class or several.\<close>

definition op_except :: "exc_class list \<Rightarrow> ('s, 'a) stateful \<Rightarrow> (exc \<Rightarrow> ('s, 'a) stateful) \<Rightarrow> ('s, 'a) stateful" where
  "op_except cs m h = op_catch m (\<lambda>e. if list_ex (issubclass (exc_class e)) cs then h e else op_raise e)"

section \<open>Weakest preconditions\<close>

definition wp :: "('s, 'a) stateful \<Rightarrow> ('a \<Rightarrow> 's \<Rightarrow> bool) \<Rightarrow> (exc \<Rightarrow> 's \<Rightarrow> bool) \<Rightarrow> 's \<Rightarrow> bool" where
  "wp m Q E s = (case m s of (Inl e, s') \<Rightarrow> E e s' | (Inr x, s') \<Rightarrow> Q x s')"

named_theorems wp_simps \<open>weakest preconditions of the basic methods\<close>

lemma wp_return [wp_simps]: "wp (op_return x) Q E s = Q x s"
  by (simp add: wp_def op_return_def)

lemma wp_raise [wp_simps]: "wp (op_raise e) Q E s = E e s"
  by (simp add: wp_def op_raise_def)

lemma wp_lift [wp_simps]: "wp (op_lift r) Q E s = (case r of Inl e \<Rightarrow> E e s | Inr x \<Rightarrow> Q x s)"
  by (simp add: wp_def op_lift_def split: sum.splits)

lemma wp_bind [wp_simps]: "wp (op_bind m f) Q E s = wp m (\<lambda>x. wp (f x) Q E) E s"
  by (simp add: wp_def op_bind_def split: sum.splits prod.splits)

lemma wp_catch [wp_simps]: "wp (op_catch m h) Q E s = wp m Q (\<lambda>e. wp (h e) Q E) s"
  by (simp add: wp_def op_catch_def split: sum.splits prod.splits)

lemma wp_except [wp_simps]:
  "wp (op_except cs m h) Q E s =
     wp m Q (\<lambda>e s'. if list_ex (issubclass (exc_class e)) cs then wp (h e) Q E s' else E e s') s"
  by (simp add: op_except_def wp_catch if_distrib [where f = "\<lambda>m. wp m Q E s'" for s'] wp_raise cong: if_cong)
    (simp add: wp_def op_raise_def split: sum.splits prod.splits)

lemma wp_state [wp_simps]: "wp (\<lambda>s. m s s) Q E s = wp (m s) Q E s"
  by (simp add: wp_def)

lemma wp_mono:
  "wp m Q E s \<Longrightarrow> (\<And>x s'. Q x s' \<Longrightarrow> Q' x s') \<Longrightarrow> (\<And>e s'. E e s' \<Longrightarrow> E' e s') \<Longrightarrow> wp m Q' E' s"
  by (auto simp: wp_def split: sum.splits prod.splits)

end
