(* ===== verification/Enrollment_Protocol.thy ===== *)
theory Enrollment_Protocol
  imports Byte_Struct
begin

text \<open>
  Enrollment requests and events, \<^verbatim>\<open>src/src/t2_enrollment_protocol.py\<close>: the start request with its wipeable
  buffer, the parsers of service events, and the state machine that reduces the event stream of one
  enrollment. An operation of the machine returns its result and the new machine, because a raising
  operation also changes the state. SHA-256 is the parameter \<open>H\<close>.
\<close>

section \<open>Constants\<close>

definition COMMAND_ENROLL_START :: int where "COMMAND_ENROLL_START = 0x03"
definition SERVICE_STATUS :: int where "SERVICE_STATUS = 0xE3FF8001"
definition SERVICE_ENROLLMENT_RESULT :: int where "SERVICE_ENROLLMENT_RESULT = 0xE3FF8003"
definition SERVICE_STATISTICS :: int where "SERVICE_STATISTICS = 0xE3FF8004"
definition SERVICE_SENSOR_RECOVERY_REASON :: int where "SERVICE_SENSOR_RECOVERY_REASON = 0xE3FF8009"
definition SERVICE_SKS_LOCK_STATE :: int where "SERVICE_SKS_LOCK_STATE = 0xE3FF800A"
definition SERVICE_ACCESSORY_AUTHORIZATION :: int where "SERVICE_ACCESSORY_AUTHORIZATION = 0xE3FF800E"
definition SERVICE_HEADER :: "fmt list" where "SERVICE_HEADER = [FUInt 8, FUInt 4, FUInt 4, FUInt 8]"
definition STATUS_PAYLOAD_HEADER :: "fmt list" where "STATUS_PAYLOAD_HEADER = [FUInt 4, FPad 4, FUInt 8]"
definition SKS_LOCK_STATE_PAYLOAD :: "fmt list" where "SKS_LOCK_STATE_PAYLOAD = [FUInt 4, FUInt 2]"
definition STATISTICS_MIN_PAYLOAD_SIZE :: nat where "STATISTICS_MIN_PAYLOAD_SIZE = 12"
definition ACM_EXTERNAL_FORM_SIZE :: nat where "ACM_EXTERNAL_FORM_SIZE = 16"
definition BUILTIN_GROUPS :: "bytes list" where "BUILTIN_GROUPS = [zero_bytes 20, le_bytes 4 1 @ zero_bytes 16]"
definition MAX_EVENT_PAYLOAD :: nat where "MAX_EVENT_PAYLOAD = 1024 * 1024"
definition MAX_EVENT_FINGERPRINTS :: nat where "MAX_EVENT_FINGERPRINTS = 64"

definition EXACT_NOOP_PHASE_RANGES :: "(int \<times> int) list" where
  "EXACT_NOOP_PHASE_RANGES = [(0, 50), (52, 57), (59, 59), (69, 69), (71, 73), (75, 77), (79, 79), (81, 84),
     (89, 92), (94, 97), (356, 500), (503, 0xFFFFFFFF)]"

definition EXACT_UNMAPPED_GENERIC_STATE_STATUSES :: "int list" where
  "EXACT_UNMAPPED_GENERIC_STATE_STATUSES = [51, 58, 60, 61, 62, 65, 80, 99, 502]"

abbreviation protocol_error :: "string \<Rightarrow> exc" where
  "protocol_error \<equiv> Exc EnrollmentProtocolError"

definition in_uint :: "nat \<Rightarrow> int \<Rightarrow> bool" where
  "in_uint bits n = (0 \<le> n \<and> n \<le> 2 ^ bits - 1)"

section \<open>Data\<close>

datatype enrollment_state =
    S_ACTIVE | S_CANCEL_REQUESTED | S_SEP_RESULT_WITNESSED | S_SEP_IDENTITY_OBSERVED | S_CANCELLED | S_FAILED
  | S_TIMED_OUT | S_FROZEN

datatype enrollment_action =
    A_IGNORE_TELEMETRY | A_IGNORE_AUXILIARY | A_IGNORE_PHASE | A_FINGER_PRESENT | A_FINGER_REMOVED | A_CONTINUE
  | A_PROGRESS | A_REMOVE_AND_RETRY | A_RETRY_SCAN | A_RETRY_SMALL_COVERAGE | A_DIRTY_SENSOR | A_CANCELLED
  | A_FAILED | A_TIMED_OUT | A_RESULT_WITNESSED | A_IDENTITY_OBSERVED

record enrollment_identity =
  id_user_id :: int
  id_identity_uuid :: bytes
  id_group_type :: int
  id_group_uuid :: bytes

definition new_identity :: "int \<Rightarrow> bytes \<Rightarrow> int \<Rightarrow> bytes \<Rightarrow> enrollment_identity res" where
  "new_identity user_id identity_uuid group_type group_uuid =
     (if \<not> in_uint 32 user_id then Inl (protocol_error ''identity user ID is outside uint32 range'')
      else if length identity_uuid \<noteq> 16 then Inl (protocol_error ''identity UUID must be exactly 16 bytes'')
      else if list_all (\<lambda>b. b = 0) identity_uuid then Inl (protocol_error ''identity UUID must not be zero'')
      else if \<not> in_uint 32 group_type then Inl (protocol_error ''group type is outside uint32 range'')
      else if length group_uuid \<noteq> 16 then Inl (protocol_error ''group UUID must be exactly 16 bytes'')
      else Inr \<lparr>id_user_id = user_id, id_identity_uuid = identity_uuid, id_group_type = group_type,
                id_group_uuid = group_uuid\<rparr>)"

record service_event =
  ev_sequence :: int
  ev_envelope_type :: int
  ev_version :: int
  ev_ordinal :: int
  ev_payload :: bytes

definition new_event :: "int \<Rightarrow> int \<Rightarrow> int \<Rightarrow> int \<Rightarrow> bytes \<Rightarrow> service_event res" where
  "new_event sequence envelope_type version ordinal payload =
     (if \<not> in_uint 64 sequence then Inl (protocol_error ''event sequence is outside uint64 range'')
      else if \<not> in_uint 32 envelope_type then Inl (protocol_error ''event type is outside uint32 range'')
      else if \<not> in_uint 32 version then Inl (protocol_error ''event version is outside uint32 range'')
      else if \<not> in_uint 32 ordinal then Inl (protocol_error ''event ordinal is outside uint32 range'')
      else if MAX_EVENT_PAYLOAD < length payload then Inl (protocol_error ''event payload is invalid or unbounded'')
      else Inr \<lparr>ev_sequence = sequence, ev_envelope_type = envelope_type, ev_version = version,
                ev_ordinal = ordinal, ev_payload = payload\<rparr>)"

record enrollment_transition =
  tr_action :: enrollment_action
  tr_state :: enrollment_state
  tr_continue_required :: bool
  tr_progress_percent :: "int option"
  tr_identity :: "enrollment_identity option"

section \<open>The start request\<close>

record enrollment_request =
  er_buffer :: bytes
  er_wiped :: bool
  er_protocol_version :: int

text \<open>\<^verbatim>\<open>pack_into\<close> at offset 0 and the slice assignment \<^verbatim>\<open>buffer[16:32] = ...\<close> keep the length of the buffer.\<close>

definition new_enrollment_request :: "int \<Rightarrow> int \<Rightarrow> pyval \<Rightarrow> enrollment_request res" where
  "new_enrollment_request protocol_version user_id acm_external_form =
     (if protocol_version \<notin> {1, 2} then Inl (protocol_error ''enrollment protocol must be version 1 or 2'')
      else if \<not> in_uint 32 user_id then Inl (protocol_error ''user ID is outside uint32 range'')
      else if \<not> type_is_bytes acm_external_form \<or> length (bytes_of acm_external_form) \<noteq> ACM_EXTERNAL_FORM_SIZE
      then Inl (protocol_error ''ACM external form must be exactly 16 bytes'')
      else let buffer = zero_bytes (if protocol_version = 1 then 48 else 68) in
      and_then (struct_pack [FUInt 4, FUInt 4, FUInt 4, FUInt 4] [PyInt 0, PyInt user_id, PyInt 0, PyInt 16]) (\<lambda>packed.
      let buffer = packed @ drop (length packed) buffer;
          buffer = take 16 buffer @ bytes_of acm_external_form @ drop 32 buffer in
      Inr \<lparr>er_buffer = buffer, er_wiped = False, er_protocol_version = protocol_version\<rparr>))"

definition request_command :: "enrollment_request \<Rightarrow> int" where
  "request_command r = COMMAND_ENROLL_START"

definition request_buffer :: "enrollment_request \<Rightarrow> bytes res" where
  "request_buffer r =
     (if er_wiped r then Inl (protocol_error ''enrollment request has been wiped'') else Inr (er_buffer r))"

definition request_wipe :: "enrollment_request \<Rightarrow> enrollment_request" where
  "request_wipe r = r\<lparr>er_buffer := zero_bytes (length (er_buffer r)), er_wiped := True\<rparr>"

definition build_continue_payload :: bytes where
  "build_continue_payload = []"

section \<open>Event parsers\<close>

definition parse_service_event :: "pyval \<Rightarrow> service_event res" where
  "parse_service_event v =
     (if \<not> type_is_bytes v \<or> \<not> (struct_size SERVICE_HEADER \<le> length (bytes_of v)
            \<and> length (bytes_of v) \<le> struct_size SERVICE_HEADER + MAX_EVENT_PAYLOAD)
      then Inl (protocol_error ''service event length is invalid'')
      else and_then (struct_unpack_from SERVICE_HEADER (bytes_of v) 0) (\<lambda>h.
      let reserved = int_of (h ! 0); envelope_type = int_of (h ! 1); version = int_of (h ! 2);
          event_timestamp = int_of (h ! 3);
          payload = drop (struct_size SERVICE_HEADER) (bytes_of v) in
      if reserved \<noteq> 0 \<or> event_timestamp = 0 then Inl (protocol_error ''service event header is invalid'')
      else if envelope_type \<in> {SERVICE_STATUS, SERVICE_SENSOR_RECOVERY_REASON}
      then (if length payload < struct_size STATUS_PAYLOAD_HEADER
            then Inl (protocol_error ''service ordinal payload is truncated'')
            else and_then (struct_unpack_from STATUS_PAYLOAD_HEADER payload 0) (\<lambda>s.
                 new_event event_timestamp envelope_type version (int_of (s ! 0)) payload))
      else new_event event_timestamp envelope_type version 0 payload))"

definition result_record :: "service_event \<Rightarrow> bytes res" where
  "result_record event =
     (if ev_version event = 1
      then (if length (ev_payload event) \<noteq> 20
            then Inl (protocol_error ''version-1 enrollment result must be 20 bytes'')
            else and_then (struct_pack [FUInt 4, FPad 16] [PyInt 1]) (\<lambda>group. Inr (ev_payload event @ group)))
      else if ev_version event = 2
      then (if length (ev_payload event) < 40
            then Inl (protocol_error ''version-2 enrollment result must contain at least 40 bytes'')
            else Inr (take 40 (ev_payload event)))
      else Inl (protocol_error ''unsupported enrollment-result version''))"

definition parse_enrollment_result :: "service_event \<Rightarrow> enrollment_identity res" where
  "parse_enrollment_result event =
     (if ev_envelope_type event \<noteq> SERVICE_ENROLLMENT_RESULT
      then Inl (protocol_error ''event is not an enrollment result'')
      else and_then (result_record event) (\<lambda>record.
      and_then (struct_unpack [FUInt 4, FRaw 16, FUInt 4, FRaw 16] record) (\<lambda>v.
      if drop 20 record \<notin> set BUILTIN_GROUPS
      then Inl (protocol_error ''accessory enrollment result is unsupported'')
      else new_identity (int_of (v ! 0)) (bytes_of (v ! 1)) (int_of (v ! 2)) (bytes_of (v ! 3)))))"

definition parse_enrollment_identity :: "service_event \<Rightarrow> int \<Rightarrow> enrollment_identity res" where
  "parse_enrollment_identity event expected_user_id =
     and_then (parse_enrollment_result event) (\<lambda>identity.
     if id_user_id identity \<noteq> expected_user_id
     then Inl (protocol_error ''enrollment result belongs to another Apple user'')
     else Inr identity)"

definition validate_status_payload :: "service_event \<Rightarrow> unit res" where
  "validate_status_payload event =
     (if ev_payload event = [] then Inr ()
      else if length (ev_payload event) < 16 then Inl (protocol_error ''generic status payload is truncated'')
      else and_then (struct_unpack_from [FUInt 4] (ev_payload event) 0) (\<lambda>s.
      and_then (struct_unpack_from [FUInt 8] (ev_payload event) 8) (\<lambda>l.
      if int_of (s ! 0) \<noteq> ev_ordinal event then Inl (protocol_error ''status payload disagrees with its ordinal'')
      else if int_of (l ! 0) \<noteq> int (length (ev_payload event)) - 16
      then Inl (protocol_error ''status payload length is inconsistent'')
      else Inr ())))"

definition validate_sks_lock_state_payload :: "service_event \<Rightarrow> unit res" where
  "validate_sks_lock_state_payload event =
     (if ev_version event \<noteq> 1 then Inl (protocol_error ''unsupported SKS lock-state event version'')
      else if length (ev_payload event) < struct_size SKS_LOCK_STATE_PAYLOAD
      then Inl (protocol_error ''SKS lock-state payload is truncated'')
      else and_then (struct_unpack_from SKS_LOCK_STATE_PAYLOAD (ev_payload event) 0) (\<lambda>_. Inr ()))"

section \<open>The state machine\<close>

record enrollment_machine =
  em_expected_user_id :: int
  em_connection_generation :: string
  em_operation_id :: string
  em_state :: enrollment_state
  em_last_sequence :: "int option"
  em_fingerprints :: "bytes list"

definition new_machine :: "int \<Rightarrow> string \<Rightarrow> string \<Rightarrow> enrollment_machine res" where
  "new_machine expected_user_id connection_generation operation_id =
     (if \<not> in_uint 32 expected_user_id then Inl (protocol_error ''expected user ID is outside uint32 range'')
      else if connection_generation = [] \<or> operation_id = []
      then Inl (protocol_error ''generation and operation IDs are required'')
      else Inr \<lparr>em_expected_user_id = expected_user_id, em_connection_generation = connection_generation,
                em_operation_id = operation_id, em_state = S_ACTIVE, em_last_sequence = None, em_fingerprints = []\<rparr>)"

definition freeze :: "string \<Rightarrow> enrollment_machine \<Rightarrow> 'a res \<times> enrollment_machine" where
  "freeze message m = (Inl (protocol_error message), m\<lparr>em_state := S_FROZEN\<rparr>)"

definition request_cancel :: "enrollment_machine \<Rightarrow> unit res \<times> enrollment_machine" where
  "request_cancel m =
     (if em_state m \<noteq> S_ACTIVE then freeze ''cancel requested outside an active operation'' m
      else (Inr (), m\<lparr>em_state := S_CANCEL_REQUESTED\<rparr>))"

text \<open>\<^verbatim>\<open>return EnrollmentTransition(action, self.state)\<close>, and the same after a change of state.\<close>

definition plain_transition :: "enrollment_action \<Rightarrow> enrollment_machine \<Rightarrow> enrollment_transition" where
  "plain_transition action m = \<lparr>tr_action = action, tr_state = em_state m, tr_continue_required = False,
     tr_progress_percent = None, tr_identity = None\<rparr>"

definition observe :: "enrollment_action \<Rightarrow> enrollment_machine \<Rightarrow> enrollment_transition res \<times> enrollment_machine" where
  "observe action m = (Inr (plain_transition action m), m)"

definition become :: "enrollment_action \<Rightarrow> enrollment_state \<Rightarrow> enrollment_machine
    \<Rightarrow> enrollment_transition res \<times> enrollment_machine" where
  "become action state m = observe action (m\<lparr>em_state := state\<rparr>)"

definition accept_result ::
    "service_event \<Rightarrow> enrollment_machine \<Rightarrow> enrollment_transition res \<times> enrollment_machine" where
  "accept_result event m =
     (let has_opaque_v1_tail = ev_version event = 1 \<and> 20 < length (ev_payload event);
          identity_event =
            (if has_opaque_v1_tail
             then new_event (ev_sequence event) (ev_envelope_type event) (ev_version event) (ev_ordinal event)
                    (take 20 (ev_payload event))
             else Inr event) in
      case and_then identity_event parse_enrollment_result of
        Inl error \<Rightarrow>
          if issubclass (exc_class error) EnrollmentProtocolError
          then freeze ''invalid enrollment-result event'' m else (Inl error, m)
      | Inr identity \<Rightarrow>
          if has_opaque_v1_tail \<or> id_user_id identity \<noteq> em_expected_user_id m
          then become A_RESULT_WITNESSED S_SEP_RESULT_WITNESSED m
          else let m' = m\<lparr>em_state := S_SEP_IDENTITY_OBSERVED\<rparr> in
               (Inr ((plain_transition A_IDENTITY_OBSERVED m')\<lparr>tr_identity := Some identity\<rparr>), m'))"

text \<open>\<^verbatim>\<open>try: check except EnrollmentProtocolError: freeze and raise; return IGNORE_AUXILIARY\<close>\<close>

definition accept_auxiliary ::
    "unit res \<Rightarrow> string \<Rightarrow> enrollment_machine \<Rightarrow> enrollment_transition res \<times> enrollment_machine" where
  "accept_auxiliary check message m =
     (case check of
        Inl error \<Rightarrow>
          if issubclass (exc_class error) EnrollmentProtocolError then freeze message m else (Inl error, m)
      | Inr _ \<Rightarrow> observe A_IGNORE_AUXILIARY m)"

definition accept_status ::
    "int \<Rightarrow> enrollment_machine \<Rightarrow> enrollment_transition res \<times> enrollment_machine" where
  "accept_status status m =
     (if status = 66 then become A_CANCELLED S_CANCELLED m
      else if status = 67 then become A_FAILED S_FAILED m
      else if status = 68 then become A_TIMED_OUT S_TIMED_OUT m
      else if em_state m = S_CANCEL_REQUESTED
      then freeze ''nonterminal event arrived after cancellation was requested'' m
      else if status = 63 then observe A_FINGER_PRESENT m
      else if status = 64 then observe A_FINGER_REMOVED m
      else if status = 70 then (Inr ((plain_transition A_CONTINUE m)\<lparr>tr_continue_required := True\<rparr>), m)
      else if status = 74 then observe A_REMOVE_AND_RETRY m
      else if status \<in> {78, 85, 87, 88, 98} then observe A_RETRY_SCAN m
      else if status = 86 then observe A_RETRY_SMALL_COVERAGE m
      else if status = 93 then observe A_DIRTY_SENSOR m
      else if 100 \<le> status \<and> status \<le> 355
      then (Inr ((plain_transition A_PROGRESS m)\<lparr>tr_continue_required := True,
                   tr_progress_percent := Some (100 * (status - 100) div 255)\<rparr>), m)
      else if list_ex (\<lambda>(lower, upper). lower \<le> status \<and> status \<le> upper) EXACT_NOOP_PHASE_RANGES
      then observe A_IGNORE_PHASE m
      else if status \<in> set EXACT_UNMAPPED_GENERIC_STATE_STATUSES
      then freeze ''unmapped generic operation state status '' m
      else freeze ''unclassified enrollment status '' m)"

definition accept_generic ::
    "service_event \<Rightarrow> enrollment_machine \<Rightarrow> enrollment_transition res \<times> enrollment_machine" where
  "accept_generic event m =
     (if ev_envelope_type event \<noteq> SERVICE_STATUS \<or> ev_version event \<notin> {1, 2}
      then freeze ''unknown enrollment envelope '' m
      else case validate_status_payload event of
        Inl error \<Rightarrow>
          if issubclass (exc_class error) EnrollmentProtocolError
          then freeze ''invalid generic status event'' m else (Inl error, m)
      | Inr _ \<Rightarrow> accept_status (ev_ordinal event) m)"

definition accept_event ::
    "service_event \<Rightarrow> enrollment_machine \<Rightarrow> enrollment_transition res \<times> enrollment_machine" where
  "accept_event event m =
     (if ev_envelope_type event = SERVICE_ENROLLMENT_RESULT then accept_result event m
      else if ev_envelope_type event = SERVICE_ACCESSORY_AUTHORIZATION
              \<or> ev_envelope_type event = SERVICE_STATUS \<and> ev_ordinal event = 501
      then freeze ''accessory authorization is unsupported'' m
      else if ev_envelope_type event = SERVICE_STATISTICS \<and> ev_version event = 1
      then (if length (ev_payload event) < STATISTICS_MIN_PAYLOAD_SIZE
            then freeze ''statistics telemetry payload is truncated'' m
            else observe A_IGNORE_TELEMETRY m)
      else if ev_envelope_type event = SERVICE_SENSOR_RECOVERY_REASON
      then (if ev_version event \<noteq> 1 then freeze ''invalid sensor-recovery auxiliary event'' m
            else accept_auxiliary (validate_status_payload event) ''invalid sensor-recovery auxiliary event'' m)
      else if ev_envelope_type event = SERVICE_SKS_LOCK_STATE
      then accept_auxiliary (validate_sks_lock_state_payload event) ''invalid SKS lock-state auxiliary event'' m
      else accept_generic event m)"

text \<open>A \<^verbatim>\<open>deque(maxlen=64)\<close> drops its oldest element when a 65th is appended.\<close>

definition deque_append :: "nat \<Rightarrow> 'a list \<Rightarrow> 'a \<Rightarrow> 'a list" where
  "deque_append maxlen xs x = (let ys = xs @ [x] in drop (length ys - maxlen) ys)"

definition event_fingerprint :: "(bytes \<Rightarrow> bytes) \<Rightarrow> service_event \<Rightarrow> bytes res" where
  "event_fingerprint H event =
     and_then (struct_pack SERVICE_HEADER [PyInt (ev_sequence event), PyInt (ev_envelope_type event),
       PyInt (ev_version event), PyInt (ev_ordinal event)]) (\<lambda>header. Inr (H (header @ ev_payload event)))"

definition accept ::
    "(bytes \<Rightarrow> bytes) \<Rightarrow> service_event \<Rightarrow> string \<Rightarrow> string \<Rightarrow> enrollment_machine
      \<Rightarrow> enrollment_transition res \<times> enrollment_machine" where
  "accept H event connection_generation operation_id m =
     (if em_state m \<notin> {S_ACTIVE, S_CANCEL_REQUESTED}
      then freeze ''event arrived after the operation became terminal'' m
      else if connection_generation \<noteq> em_connection_generation m
      then freeze ''event belongs to another connection generation'' m
      else if operation_id \<noteq> em_operation_id m
      then freeze ''event belongs to another enrollment operation'' m
      else case event_fingerprint H event of
        Inl error \<Rightarrow> (Inl error, m)
      | Inr fingerprint \<Rightarrow>
          if fingerprint \<in> set (em_fingerprints m) then freeze ''duplicate enrollment event'' m
          else if (case em_last_sequence m of None \<Rightarrow> False | Some n \<Rightarrow> ev_sequence event \<le> n)
          then freeze ''enrollment event sequence is not increasing'' m
          else accept_event event (m\<lparr>em_last_sequence := Some (ev_sequence event),
                 em_fingerprints := deque_append MAX_EVENT_FINGERPRINTS (em_fingerprints m) fingerprint\<rparr>))"

end
