(* ===== verification/Enrollment_Operation.thy ===== *)
theory Enrollment_Operation
  imports Methods Enrollment_Journal Enrollment_Protocol
begin

text \<open>
  The journaled enrollment operation, \<^verbatim>\<open>src/src/t2_enrollment_operation.py\<close>: it drives one enrollment over a
  transport, reduces the device events with the state machine of \<^verbatim>\<open>Enrollment_Protocol\<close> and records every
  step in the enrollment journal before it is taken. The transport and the callbacks are the fields of
  \<open>operation_env\<close>, functions on an arbitrary world; the state of the operation is \<open>op_state\<close>. A method is a
  function from that state to its result, an exception or a value, and the new state. \<open>op_trace\<close> is a
  history variable: it lists the effects in the order in which they happened and no step reads it.
\<close>

section \<open>State and environment\<close>

text \<open>What a caller's callback returns: a value, or an awaitable object.\<close>

datatype callback_value = Returned pyval | Awaitable

text \<open>An append is listed with the journal file before it and its result.\<close>

datatype op_effect =
    Journaled journal_fs string pydict "enrollment_history res"
  | Sent_Start bytes | Sent_Continue | Sent_Cancel | Polled | Called_Back

record 'w op_state =
  op_world :: 'w
  op_fs :: journal_fs
  op_operation_id :: string
  op_history :: enrollment_history
  op_apple_user_id :: int
  op_request :: "enrollment_request option"
  op_trace :: "op_effect list"

text \<open>
  The transport (\<^verbatim>\<open>EnrollmentTransport\<close>), the callbacks of \<^verbatim>\<open>run\<close>, the results of \<^verbatim>\<open>os.write\<close> inside the next
  append, and SHA-256: on the text of a record with a hexadecimal result, and on bytes.
\<close>

record 'w operation_env =
  env_record_hash :: "string \<Rightarrow> string"
  env_sha256 :: "bytes \<Rightarrow> bytes"
  env_writes :: "'w \<Rightarrow> (int list \<times> int list \<times> int list \<times> int list) \<times> 'w"
  env_connection_generation :: string
  env_protocol_version :: int
  env_start :: "bytes \<Rightarrow> 'w \<Rightarrow> pyval res \<times> 'w"
  env_continue :: "'w \<Rightarrow> pyval res \<times> 'w"
  env_cancel :: "'w \<Rightarrow> pyval res \<times> 'w"
  env_next_event :: "'w \<Rightarrow> pyval res \<times> 'w"
  env_dispatch_allowed :: "'w \<Rightarrow> callback_value res \<times> 'w"
  env_cancel_requested :: "'w \<Rightarrow> callback_value res \<times> 'w"
  env_on_started :: "'w \<Rightarrow> callback_value res \<times> 'w"
  env_on_feedback :: "enrollment_transition \<Rightarrow> 'w \<Rightarrow> callback_value res \<times> 'w"
  env_close_awaitable :: "'w \<Rightarrow> unit res \<times> 'w"

record operation_result =
  or_outcome :: string
  or_transition :: "enrollment_transition option"
  or_reconciliation_required :: bool

abbreviation operation_error :: "string \<Rightarrow> exc" where
  "operation_error \<equiv> Exc EnrollmentOperationError"

section \<open>Calls\<close>

type_synonym ('w, 'a) op = "('w op_state, 'a) stateful"

text \<open>A call into the outside world.\<close>

definition op_call :: "op_effect \<Rightarrow> ('w \<Rightarrow> 'a res \<times> 'w) \<Rightarrow> ('w, 'a) op" where
  "op_call effect f s =
     (case f (op_world s) of (r, w) \<Rightarrow> (r, s\<lparr>op_world := w, op_trace := op_trace s @ [effect]\<rparr>))"

section \<open>Truth of callback results\<close>

text \<open>\<^verbatim>\<open>bool(value)\<close>\<close>

fun py_truth :: "pyval \<Rightarrow> bool" where
  "py_truth PyNone = False"
| "py_truth (PyBool b) = b"
| "py_truth (PyInt n) = (n \<noteq> 0)"
| "py_truth (PyStr t) = (t \<noteq> [])"
| "py_truth (PyBytes bs) = (bs \<noteq> [])"
| "py_truth (PyByteArray bs) = (bs \<noteq> [])"
| "py_truth (PyList xs) = (xs \<noteq> [])"
| "py_truth (PyTuple xs) = (xs \<noteq> [])"
| "py_truth (PyDict d) = (d \<noteq> [])"

fun callback_truth :: "callback_value \<Rightarrow> bool" where
  "callback_truth (Returned v) = py_truth v"
| "callback_truth Awaitable = True"

section \<open>Journaling\<close>

definition transport_status :: "pyval \<Rightarrow> string \<Rightarrow> int res" where
  "transport_status value operation =
     (if \<not> isinstance_int value \<or> type_is_bool value \<or> \<not> (- (2 ^ 31) \<le> int_of value \<and> int_of value < 2 ^ 32)
      then Inl (operation_error (operation @ '' transport returned an invalid status''))
      else Inr (int_of value))"

text \<open>\<^verbatim>\<open>_append\<close>: \<^verbatim>\<open>self.history\<close> changes only when the append returned.\<close>

definition op_append :: "'w operation_env \<Rightarrow> string \<Rightarrow> pydict \<Rightarrow> ('w, unit) op" where
  "op_append env milestone evidence s =
     (case env_writes env (op_world s) of ((ws, ws1, ws2, ws3), w) \<Rightarrow>
      (case enrollment_append_checked (env_record_hash env) ws ws1 ws2 ws3 (op_operation_id s) milestone evidence
              (op_fs s) of (r, fs) \<Rightarrow>
       let s1 = s\<lparr>op_world := w, op_fs := fs,
                  op_trace := op_trace s @ [Journaled (op_fs s) milestone evidence r]\<rparr> in
       (case r of
          Inr h \<Rightarrow> (Inr (), s1\<lparr>op_history := h\<rparr>)
        | Inl e \<Rightarrow> (Inl (if issubclass (exc_class e) EnrollmentJournalError
                     then operation_error ''durable enrollment milestone '' else e), s1))))"

definition cancel_intent_evidence :: "'w operation_env \<Rightarrow> string \<Rightarrow> pydict" where
  "cancel_intent_evidence env reason =
     [(KStr ''connection_generation'', PyStr (env_connection_generation env)), (KStr ''reason'', PyStr reason)]"

definition status_evidence :: "int \<Rightarrow> pydict" where
  "status_evidence status = [(KStr ''status'', PyInt status)]"

text \<open>\<^verbatim>\<open>self._transport_status(self.transport.cancel(), ...)\<close> and the other two commands.\<close>

definition op_command :: "op_effect \<Rightarrow> string \<Rightarrow> ('w \<Rightarrow> pyval res \<times> 'w) \<Rightarrow> ('w, int) op" where
  "op_command effect operation f = op_bind (op_call effect f) (\<lambda>v. op_lift (transport_status v operation))"

definition cancel_after_primary_failure :: "'w operation_env \<Rightarrow> ('w, unit) op" where
  "cancel_after_primary_failure env =
     op_bind (op_except [EnrollmentOperationError]
                (op_bind (op_append env ''ENROLL_CANCEL_INTENT'' (cancel_intent_evidence env ''primary-failure''))
                   (\<lambda>_. op_return True))
                (\<lambda>_. op_return False)) (\<lambda>journaled.
     if \<not> journaled then op_return ()
     else op_bind (op_catch (op_bind (op_command Sent_Cancel ''failure cleanup cancel'' (env_cancel env))
                        (\<lambda>status. op_return (Some status)))
                     (\<lambda>_. op_return None)) (\<lambda>status.
          if status \<noteq> Some 0 then op_return ()
          else op_except [EnrollmentOperationError]
                 (op_append env ''ENROLL_CANCEL_DISPATCH_OBSERVED'' (status_evidence 0))
                 (\<lambda>_. op_return ())))"

definition outcome_unknown_evidence :: "'w operation_env \<Rightarrow> string \<Rightarrow> string \<Rightarrow> pydict" where
  "outcome_unknown_evidence env stage reason =
     [(KStr ''connection_generation'', PyStr (env_connection_generation env)), (KStr ''stage'', PyStr stage),
      (KStr ''reason'', PyStr reason), (KStr ''mutation_possible'', PyBool True)]"

definition op_outcome_unknown :: "'w operation_env \<Rightarrow> string \<Rightarrow> string \<Rightarrow> ('w, 'a) op" where
  "op_outcome_unknown env stage reason =
     op_bind (\<lambda>s. if eh_phase (op_history s) = E_ACTIVE \<and> reason = ''protocol-error''
                     \<and> stage \<in> {''active'', ''terminal''}
                  then cancel_after_primary_failure env s else op_return () s) (\<lambda>_.
     op_bind (op_except [EnrollmentOperationError]
                (op_append env ''ENROLL_OUTCOME_UNKNOWN'' (outcome_unknown_evidence env stage reason))
                (\<lambda>_. op_raise (operation_error ''enrollment outcome is unknown and could not be journaled''))) (\<lambda>_.
     op_raise (operation_error ''enrollment outcome is unknown; reconciliation is required'')))"

definition append_during_active_operation ::
    "'w operation_env \<Rightarrow> string \<Rightarrow> pydict \<Rightarrow> string \<Rightarrow> ('w, unit) op" where
  "append_during_active_operation env milestone evidence stage =
     op_except [EnrollmentOperationError] (op_append env milestone evidence)
       (\<lambda>_. op_outcome_unknown env stage ''journal-error'')"

section \<open>Construction\<close>

definition new_operation ::
    "'w operation_env \<Rightarrow> int list \<Rightarrow> string \<Rightarrow> string \<Rightarrow> string \<Rightarrow> int \<Rightarrow> int \<Rightarrow> 'w \<Rightarrow> journal_fs
      \<Rightarrow> 'w op_state res \<times> journal_fs" where
  "new_operation env ws operation_id linux_boot_uuid mapping_generation caller_linux_uid target_linux_uid w fs =
     (case enrollment_read (env_record_hash env) ws fs of
        (Inl e, fs1) \<Rightarrow> (Inl e, fs1)
      | (Inr history, fs1) \<Rightarrow>
          (and_then (require_start_ready history linux_boot_uuid (env_connection_generation env) mapping_generation
             caller_linux_uid target_linux_uid (env_protocol_version env)) (\<lambda>_.
           if operation_id \<noteq> eh_operation_id history
           then Inl (operation_error ''operation ID does not match E0 journal'')
           else Inr \<lparr>op_world = w, op_fs = fs1, op_operation_id = operation_id, op_history = history,
                     op_apple_user_id = int_of (dict_get (eh_baseline history) ''apple_uid''),
                     op_request = None, op_trace = []\<rparr>), fs1))"

section \<open>The start command\<close>

text \<open>A callback that must be synchronous and return \<^verbatim>\<open>None\<close>.\<close>

definition call_sync :: "'w operation_env \<Rightarrow> string \<Rightarrow> ('w \<Rightarrow> callback_value res \<times> 'w) \<Rightarrow> ('w, unit) op" where
  "call_sync env name f =
     op_bind (op_call Called_Back f) (\<lambda>v.
     case v of
       Awaitable \<Rightarrow> op_bind (op_call Called_Back (env_close_awaitable env)) (\<lambda>_.
         op_raise (operation_error (name @ '' callback must be synchronous'')))
     | Returned x \<Rightarrow>
         if x \<noteq> PyNone then op_raise (operation_error (name @ '' callback must return None'')) else op_return ())"

text \<open>\<^verbatim>\<open>dispatch_allowed()\<close>; an exception and an awaitable count as \<^verbatim>\<open>False\<close>.\<close>

definition dispatch_guard :: "'w operation_env \<Rightarrow> ('w, pyval) op" where
  "dispatch_guard env =
     op_catch
       (op_bind (op_call Called_Back (env_dispatch_allowed env)) (\<lambda>v.
        case v of
          Awaitable \<Rightarrow> op_bind (op_call Called_Back (env_close_awaitable env)) (\<lambda>_. op_return (PyBool False))
        | Returned x \<Rightarrow> op_return x))
       (\<lambda>_. op_return (PyBool False))"

definition abort_evidence :: "'w operation_env \<Rightarrow> pydict" where
  "abort_evidence env =
     [(KStr ''connection_generation'', PyStr (env_connection_generation env)),
      (KStr ''reason'', PyStr ''safety-guard-unavailable''), (KStr ''mutation_possible'', PyBool False)]"

definition start_intent_evidence :: "'w operation_env \<Rightarrow> int \<Rightarrow> bytes \<Rightarrow> pydict" where
  "start_intent_evidence env apple_user_id request_bytes =
     [(KStr ''apple_uid'', PyInt apple_user_id), (KStr ''protocol_version'', PyInt (env_protocol_version env)),
      (KStr ''connection_generation'', PyStr (env_connection_generation env)),
      (KStr ''request_length'', PyInt (int (length request_bytes))),
      (KStr ''request_sha256'', PyStr (hexdigest (env_sha256 env request_bytes)))]"

definition new_result :: "string \<Rightarrow> enrollment_transition option \<Rightarrow> operation_result" where
  "new_result outcome transition =
     \<lparr>or_outcome = outcome, or_transition = transition, or_reconciliation_required = True\<rparr>"

text \<open>The body of the \<^verbatim>\<open>with\<close> statement; it returns the result of an early \<^verbatim>\<open>return\<close>, if there is one.\<close>

definition send_start :: "'w operation_env \<Rightarrow> enrollment_request \<Rightarrow> ('w, operation_result option) op" where
  "send_start env request =
     op_bind (op_lift (request_buffer request)) (\<lambda>request_bytes.
     op_bind (\<lambda>s. op_append env ''ENROLL_START_INTENT''
                    (start_intent_evidence env (op_apple_user_id s) request_bytes) s) (\<lambda>_.
     op_bind (op_catch (op_command (Sent_Start request_bytes) ''start'' (env_start env request_bytes))
                (\<lambda>_. op_outcome_unknown env ''start'' ''transport-error'')) (\<lambda>start_status.
     if start_status \<noteq> 0
     then op_bind (append_during_active_operation env ''ENROLL_START_REJECTED'' (status_evidence start_status) ''start'')
            (\<lambda>_. op_return (Some (new_result ''start-rejected'' None)))
     else op_bind (append_during_active_operation env ''ENROLL_START_OBSERVED'' (status_evidence 0) ''start'') (\<lambda>_.
          op_bind (op_catch (call_sync env ''enrollment-start'' (env_on_started env))
                     (\<lambda>_. op_outcome_unknown env ''active'' ''protocol-error'')) (\<lambda>_.
          op_return None)))))"

text \<open>\<^verbatim>\<open>with SensitiveEnrollmentRequest(...) as request:\<close> wipes the request on every exit.\<close>

definition with_request ::
    "'w operation_env \<Rightarrow> pyval \<Rightarrow> (enrollment_request \<Rightarrow> ('w, 'a) op) \<Rightarrow> ('w, 'a) op" where
  "with_request env acm_external_form body s =
     (case new_enrollment_request (env_protocol_version env) (op_apple_user_id s) acm_external_form of
        Inl e \<Rightarrow> (Inl e, s)
      | Inr request \<Rightarrow>
          (case body request (s\<lparr>op_request := Some request\<rparr>) of
             (r, s1) \<Rightarrow> (r, s1\<lparr>op_request := map_option request_wipe (op_request s1)\<rparr>)))"

definition start_operation :: "'w operation_env \<Rightarrow> pyval \<Rightarrow> ('w, operation_result option) op" where
  "start_operation env acm_external_form =
     op_bind (dispatch_guard env) (\<lambda>allowed.
     if allowed \<noteq> PyBool True
     then op_bind (op_append env ''ENROLL_ABORTED_BEFORE_START'' (abort_evidence env)) (\<lambda>_.
          op_raise (Exc EnrollmentPreDispatchCancelled ''enrollment cancelled before start dispatch''))
     else with_request env acm_external_form (send_start env))"

section \<open>The event loop\<close>

text \<open>How one iteration ends: with the next values of the local variables, or with a result.\<close>

datatype loop_step =
    Again (again_cancel_sent: bool) (again_event_count: int) (again_machine: enrollment_machine)
  | Finished operation_result

definition cancel_step :: "'w operation_env \<Rightarrow> enrollment_machine \<Rightarrow> ('w, enrollment_machine) op" where
  "cancel_step env machine =
     op_bind (append_during_active_operation env ''ENROLL_CANCEL_INTENT''
                (cancel_intent_evidence env ''caller-requested'') ''cancel'') (\<lambda>_.
     case request_cancel machine of
       (Inl e, machine') \<Rightarrow> op_raise e
     | (Inr _, machine') \<Rightarrow>
         op_bind (op_catch (op_command Sent_Cancel ''cancel'' (env_cancel env))
                    (\<lambda>_. op_outcome_unknown env ''cancel'' ''transport-error'')) (\<lambda>cancel_status.
         if cancel_status \<noteq> 0 then op_outcome_unknown env ''cancel'' ''transport-error''
         else op_bind (append_during_active_operation env ''ENROLL_CANCEL_DISPATCH_OBSERVED''
                         (status_evidence 0) ''cancel'') (\<lambda>_.
              op_return machine')))"

text \<open>\<^verbatim>\<open>event = parse_service_event(raw); transition = machine.accept(event, ...)\<close>\<close>

definition reduce_event ::
    "'w operation_env \<Rightarrow> string \<Rightarrow> pyval \<Rightarrow> enrollment_machine
      \<Rightarrow> (service_event \<times> enrollment_transition \<times> enrollment_machine) res" where
  "reduce_event env operation_id raw_event machine =
     and_then (parse_service_event raw_event) (\<lambda>event.
     case accept (env_sha256 env) event (env_connection_generation env) operation_id machine of
       (Inl e, machine') \<Rightarrow> Inl e
     | (Inr transition, machine') \<Rightarrow> Inr (event, transition, machine'))"

definition wants_feedback :: "enrollment_action \<Rightarrow> bool" where
  "wants_feedback action = (action \<notin> {A_IGNORE_TELEMETRY, A_IGNORE_AUXILIARY, A_IGNORE_PHASE, A_RESULT_WITNESSED,
     A_IDENTITY_OBSERVED, A_CANCELLED, A_FAILED, A_TIMED_OUT})"

definition continue_intent_evidence :: "'w operation_env \<Rightarrow> service_event \<Rightarrow> bytes \<Rightarrow> pydict" where
  "continue_intent_evidence env event raw =
     [(KStr ''connection_generation'', PyStr (env_connection_generation env)),
      (KStr ''event_sequence'', PyInt (ev_sequence event)), (KStr ''event_ordinal'', PyInt (ev_ordinal event)),
      (KStr ''event_sha256'', PyStr (hexdigest (env_sha256 env raw)))]"

definition continue_observed_evidence :: "service_event \<Rightarrow> int \<Rightarrow> pydict" where
  "continue_observed_evidence event status =
     [(KStr ''event_sequence'', PyInt (ev_sequence event)), (KStr ''status'', PyInt status),
      (KStr ''return_status_authoritative'', PyBool False)]"

definition continue_step :: "'w operation_env \<Rightarrow> service_event \<Rightarrow> bytes \<Rightarrow> ('w, unit) op" where
  "continue_step env event raw =
     op_bind (append_during_active_operation env ''ENROLL_CONTINUE_INTENT''
                (continue_intent_evidence env event raw) ''continue'') (\<lambda>_.
     op_bind (op_catch (op_command Sent_Continue ''continue'' (env_continue env))
                (\<lambda>_. op_outcome_unknown env ''continue'' ''transport-error'')) (\<lambda>continue_status.
     append_during_active_operation env ''ENROLL_CONTINUE_OBSERVED''
       (continue_observed_evidence event continue_status) ''continue''))"

definition identity_evidence ::
    "'w operation_env \<Rightarrow> service_event \<Rightarrow> enrollment_identity \<Rightarrow> string \<Rightarrow> pydict" where
  "identity_evidence env event identity identity_uuid =
     [(KStr ''connection_generation'', PyStr (env_connection_generation env)),
      (KStr ''event_sequence'', PyInt (ev_sequence event)),
      (KStr ''envelope_type'', PyInt (ev_envelope_type event)), (KStr ''event_version'', PyInt (ev_version event)),
      (KStr ''user_id'', PyInt (id_user_id identity)), (KStr ''identity_uuid'', PyStr identity_uuid)]"

definition identity_step ::
    "'w operation_env \<Rightarrow> service_event \<Rightarrow> enrollment_transition \<Rightarrow> ('w, operation_result) op" where
  "identity_step env event transition =
     (case tr_identity transition of
        None \<Rightarrow> op_raise (Exc AssertionError [])
      | Some identity \<Rightarrow>
          op_bind (op_lift (uuid_text (id_identity_uuid identity))) (\<lambda>identity_uuid.
          op_bind (append_during_active_operation env ''E2_TERMINAL_IDENTITY_OBSERVED''
                     (identity_evidence env event identity identity_uuid) ''terminal'') (\<lambda>_.
          op_return (new_result ''identity-observed'' (Some transition)))))"

definition witness_evidence :: "'w operation_env \<Rightarrow> int \<Rightarrow> service_event \<Rightarrow> bytes \<Rightarrow> pydict" where
  "witness_evidence env apple_user_id event raw =
     [(KStr ''connection_generation'', PyStr (env_connection_generation env)),
      (KStr ''event_sequence'', PyInt (ev_sequence event)),
      (KStr ''envelope_type'', PyInt (ev_envelope_type event)), (KStr ''event_version'', PyInt (ev_version event)),
      (KStr ''payload_length'', PyInt (int (length (ev_payload event)))),
      (KStr ''event_sha256'', PyStr (hexdigest (env_sha256 env raw))),
      (KStr ''embedded_user_matches'', PyBool (4 \<le> length (ev_payload event)
         \<and> le_int (take 4 (ev_payload event)) = apple_user_id))]"

definition witness_step ::
    "'w operation_env \<Rightarrow> service_event \<Rightarrow> bytes \<Rightarrow> enrollment_transition \<Rightarrow> ('w, operation_result) op" where
  "witness_step env event raw transition =
     op_bind (\<lambda>s. append_during_active_operation env ''E2_TERMINAL_RESULT_WITNESSED''
                (witness_evidence env (op_apple_user_id s) event raw) ''terminal'' s) (\<lambda>_.
     op_return (new_result ''result-witnessed'' (Some transition)))"

definition terminal_status :: "enrollment_action \<Rightarrow> int option" where
  "terminal_status action = (case action of A_CANCELLED \<Rightarrow> Some 66 | A_FAILED \<Rightarrow> Some 67 | A_TIMED_OUT \<Rightarrow> Some 68 | _ \<Rightarrow> None)"

text \<open>\<^verbatim>\<open>transition.action.value\<close> for the three actions that reach the last \<^verbatim>\<open>return\<close>.\<close>

definition terminal_outcome :: "enrollment_action \<Rightarrow> string" where
  "terminal_outcome action =
     (case action of A_CANCELLED \<Rightarrow> ''cancelled'' | A_FAILED \<Rightarrow> ''failed'' | A_TIMED_OUT \<Rightarrow> ''timed-out'' | _ \<Rightarrow> [])"

definition failure_evidence :: "'w operation_env \<Rightarrow> service_event \<Rightarrow> int \<Rightarrow> pydict" where
  "failure_evidence env event status =
     [(KStr ''connection_generation'', PyStr (env_connection_generation env)),
      (KStr ''event_sequence'', PyInt (ev_sequence event)),
      (KStr ''envelope_type'', PyInt (ev_envelope_type event)), (KStr ''status'', PyInt status)]"

definition failure_step ::
    "'w operation_env \<Rightarrow> service_event \<Rightarrow> int \<Rightarrow> enrollment_transition \<Rightarrow> ('w, operation_result) op" where
  "failure_step env event status transition =
     op_bind (append_during_active_operation env ''ENROLL_TERMINAL_FAILURE_OBSERVED''
                (failure_evidence env event status) ''terminal'') (\<lambda>_.
     op_return (new_result (terminal_outcome (tr_action transition)) (Some transition)))"

text \<open>\<^verbatim>\<open>cancel_requested()\<close>, as the condition of an \<^verbatim>\<open>if\<close>.\<close>

definition ask_cancel :: "'w operation_env \<Rightarrow> ('w, bool) op" where
  "ask_cancel env = op_bind (op_call Called_Back (env_cancel_requested env)) (\<lambda>v. op_return (callback_truth v))"

text \<open>The last part of the loop body: the three kinds of terminal transition, or the next iteration.\<close>

definition conclude :: "'w operation_env \<Rightarrow> bool \<Rightarrow> int \<Rightarrow> bytes \<Rightarrow> service_event \<Rightarrow> enrollment_transition
    \<Rightarrow> enrollment_machine \<Rightarrow> ('w, loop_step) op" where
  "conclude env cancel_sent event_count raw event transition machine =
     (if tr_action transition = A_IDENTITY_OBSERVED
      then op_bind (identity_step env event transition) (\<lambda>result. op_return (Finished result))
      else if tr_action transition = A_RESULT_WITNESSED
      then op_bind (witness_step env event raw transition) (\<lambda>result. op_return (Finished result))
      else (case terminal_status (tr_action transition) of
              Some status \<Rightarrow> op_bind (failure_step env event status transition) (\<lambda>result. op_return (Finished result))
            | None \<Rightarrow> op_return (Again cancel_sent event_count machine)))"

text \<open>A transition that requires a continue is answered with one, unless the caller cancels first.\<close>

definition answer :: "'w operation_env \<Rightarrow> bool \<Rightarrow> int \<Rightarrow> bytes \<Rightarrow> service_event \<Rightarrow> enrollment_transition
    \<Rightarrow> enrollment_machine \<Rightarrow> ('w, loop_step) op" where
  "answer env cancel_sent event_count raw event transition machine =
     (if tr_continue_required transition
      then op_bind (ask_cancel env) (\<lambda>cancelling.
           if cancelling then op_return (Again cancel_sent event_count machine)
           else op_bind (continue_step env event raw) (\<lambda>_. op_return (Again cancel_sent event_count machine)))
      else conclude env cancel_sent event_count raw event transition machine)"

text \<open>What follows a transition of the machine, from the feedback callback to the end of the loop body.\<close>

definition act_on :: "'w operation_env \<Rightarrow> bool \<Rightarrow> int \<Rightarrow> bytes \<Rightarrow> service_event \<Rightarrow> enrollment_transition
    \<Rightarrow> enrollment_machine \<Rightarrow> ('w, loop_step) op" where
  "act_on env cancel_sent event_count raw event transition machine =
     op_bind (if wants_feedback (tr_action transition)
              then op_catch (call_sync env ''enrollment feedback'' (env_on_feedback env transition))
                     (\<lambda>_. op_outcome_unknown env ''active'' ''protocol-error'')
              else op_return ()) (\<lambda>_.
     answer env cancel_sent event_count raw event transition machine)"

text \<open>One poll of the transport.\<close>

definition receive ::
    "'w operation_env \<Rightarrow> bool \<Rightarrow> int \<Rightarrow> enrollment_machine \<Rightarrow> ('w, loop_step) op" where
  "receive env cancel_sent event_count machine =
     op_bind (op_catch (op_call Polled (env_next_event env))
                (\<lambda>_. op_outcome_unknown env ''active'' ''connection-lost'')) (\<lambda>raw_event.
     if raw_event = PyNone then op_return (Again cancel_sent event_count machine)
     else op_bind (\<lambda>s. op_except [EnrollmentProtocolError, TypeError]
                         (op_lift (reduce_event env (op_operation_id s) raw_event machine))
                         (\<lambda>_. op_outcome_unknown env ''terminal'' ''protocol-error'') s) (\<lambda>(event, transition, machine).
          act_on env cancel_sent (event_count + 1) (bytes_of raw_event) event transition machine))"

definition loop_body ::
    "'w operation_env \<Rightarrow> bool \<Rightarrow> int \<Rightarrow> enrollment_machine \<Rightarrow> ('w, loop_step) op" where
  "loop_body env cancel_sent event_count machine =
     op_bind (op_catch (if cancel_sent then op_return False else ask_cancel env)
                (\<lambda>_. op_outcome_unknown env ''active'' ''protocol-error'')) (\<lambda>should_cancel.
     op_bind (if should_cancel then op_bind (cancel_step env machine) (\<lambda>m. op_return (True, m))
              else op_return (cancel_sent, machine)) (\<lambda>(cancel_sent, machine).
     receive env cancel_sent event_count machine))"

text \<open>Polls without an event do not count, so the loop need not end: \<open>None\<close> stands for a run that does not.\<close>

partial_function (option) event_loop ::
    "'w operation_env \<Rightarrow> int \<Rightarrow> bool \<Rightarrow> int \<Rightarrow> enrollment_machine \<Rightarrow> 'w op_state
      \<Rightarrow> (operation_result res \<times> 'w op_state) option" where
  "event_loop env event_limit cancel_sent event_count machine s =
     (if \<not> event_count < event_limit then Some (op_outcome_unknown env ''active'' ''protocol-error'' s)
      else (case loop_body env cancel_sent event_count machine s of
              (Inl e, s1) \<Rightarrow> Some (Inl e, s1)
            | (Inr step, s1) \<Rightarrow>
                (case step of
                   Finished result \<Rightarrow> Some (Inr result, s1)
                 | Again c n m \<Rightarrow> event_loop env event_limit c n m s1)))"

section \<open>The operation\<close>

definition run_handler :: "'w operation_env \<Rightarrow> exc \<Rightarrow> ('w, operation_result) op" where
  "run_handler env e s =
     (if issubclass (exc_class e) EnrollmentOperationError then (Inl e, s)
      else if eh_phase (op_history s) \<in> {E_ACTIVE, E_CONTINUE_INTENT, E_CANCEL_INTENT, E_CANCEL_REQUESTED}
      then op_outcome_unknown env ''active'' ''protocol-error'' s
      else (Inl (operation_error ''enrollment operation failed locally''), s))"

definition run_operation :: "'w operation_env \<Rightarrow> pyval \<Rightarrow> pyval \<Rightarrow> 'w op_state
    \<Rightarrow> (operation_result res \<times> 'w op_state) option" where
  "run_operation env acm_external_form event_limit s =
     (if \<not> isinstance_int event_limit \<or> type_is_bool event_limit
         \<or> \<not> (1 \<le> int_of event_limit \<and> int_of event_limit \<le> 1024)
      then Some (Inl (operation_error ''event limit is outside policy''), s)
      else (case new_machine (op_apple_user_id s) (env_connection_generation env) (op_operation_id s) of
              Inl e \<Rightarrow> Some (Inl e, s)
            | Inr machine \<Rightarrow>
                (case start_operation env acm_external_form s of
                   (Inl e, s1) \<Rightarrow> Some (run_handler env e s1)
                 | (Inr (Some result), s1) \<Rightarrow> Some (Inr result, s1)
                 | (Inr None, s1) \<Rightarrow>
                     (case event_loop env (int_of event_limit) False 0 machine s1 of
                        None \<Rightarrow> None
                      | Some (Inl e, s2) \<Rightarrow> Some (run_handler env e s2)
                      | Some (Inr result, s2) \<Rightarrow> Some (Inr result, s2)))))"

end
