(* ===== verification/Enrollment_Protocol_Facts.thy ===== *)
theory Enrollment_Protocol_Facts
  imports Enrollment_Protocol
begin

text \<open>
  Correctness of the enrollment protocol: events are exact encodings, the statuses of the device are
  partitioned, an identity is only ever taken from a result that names the enrolled user, and the
  machine accepts events in order, at most up to the first terminal one.
\<close>

section \<open>Events\<close>

definition event_ok :: "service_event \<Rightarrow> bool" where
  "event_ok e = (in_uint 64 (ev_sequence e) \<and> in_uint 32 (ev_envelope_type e) \<and> in_uint 32 (ev_version e)
     \<and> in_uint 32 (ev_ordinal e) \<and> length (ev_payload e) \<le> MAX_EVENT_PAYLOAD)"

lemma new_event_iff:
  "new_event s t v ord p = Inr e \<longleftrightarrow>
     e = \<lparr>ev_sequence = s, ev_envelope_type = t, ev_version = v, ev_ordinal = ord, ev_payload = p\<rparr> \<and> event_ok e"
  by (auto simp: new_event_def event_ok_def)

definition header_values :: "int \<Rightarrow> service_event \<Rightarrow> pyval list" where
  "header_values reserved e = [PyInt reserved, PyInt (ev_envelope_type e), PyInt (ev_version e), PyInt (ev_sequence e)]"

lemma header_values_fit: "event_ok e \<Longrightarrow> fields_fit SERVICE_HEADER (header_values 0 e)"
  by (auto simp: event_ok_def SERVICE_HEADER_def header_values_def in_uint_def py_simps)

text \<open>The ordinal of an event is the first word of the payload for the two types that carry one.\<close>

definition ordinal_ok :: "service_event \<Rightarrow> bool" where
  "ordinal_ok e = (if ev_envelope_type e \<in> {SERVICE_STATUS, SERVICE_SENSOR_RECOVERY_REASON}
     then 16 \<le> length (ev_payload e) \<and> ev_ordinal e = le_int (take 4 (ev_payload e)) else ev_ordinal e = 0)"

lemma service_header_size: "struct_size SERVICE_HEADER = 24" "no_pad SERVICE_HEADER"
  by (simp_all add: SERVICE_HEADER_def)

lemma parse_service_event_iff:
  "parse_service_event (PyBytes bs) = Inr e \<longleftrightarrow>
     event_ok e \<and> ev_sequence e \<noteq> 0 \<and> ordinal_ok e
     \<and> (\<exists>h. struct_pack SERVICE_HEADER (header_values 0 e) = Inr h \<and> bs = h @ ev_payload e)" (is "?p \<longleftrightarrow> ?e")
proof
  assume ?p
  then have len: "24 \<le> length bs" by (auto simp: parse_service_event_def res_simps service_header_size split: if_splits)
  obtain r t v q where f: "struct_fields SERVICE_HEADER bs = [PyInt r, PyInt t, PyInt v, PyInt q]"
    by (simp add: SERVICE_HEADER_def)
  from \<open>?p\<close> len have e: "r = 0" "q \<noteq> 0" "ev_envelope_type e = t" "ev_version e = v" "ev_sequence e = q"
    "ev_payload e = drop 24 bs" "event_ok e" "ordinal_ok e"
    by (auto simp: parse_service_event_def struct_unpack_from_def service_header_size f res_simps Let_def new_event_iff
        ordinal_ok_def STATUS_PAYLOAD_HEADER_def split: if_splits)
  have "struct_pack SERVICE_HEADER (header_values 0 e) = Inr (take 24 bs)"
    using pack_take_fields [of SERVICE_HEADER bs "header_values 0 e"] len e f
    by (simp add: service_header_size header_values_def)
  with e show ?e by (metis append_take_drop_id)
next
  assume ?e
  then obtain h where h: "struct_pack SERVICE_HEADER (header_values 0 e) = Inr h" "bs = h @ ev_payload e"
    and e: "event_ok e" "ev_sequence e \<noteq> 0" "ordinal_ok e" by blast
  have len: "length h = 24" using struct_pack_length [OF h(1)] by (simp add: service_header_size)
  have f: "struct_fields SERVICE_HEADER bs = header_values 0 e"
    unfolding h(2) by (rule struct_fields_pack [OF h(1) header_values_fit [OF e(1)]])
  have "new_event (ev_sequence e) (ev_envelope_type e) (ev_version e) (ev_ordinal e) (ev_payload e) = Inr e"
    using e(1) by (cases e) (simp add: new_event_iff)
  with e len f h(2) show ?p
    by (auto simp: parse_service_event_def struct_unpack_from_def service_header_size header_values_def Let_def
        ordinal_ok_def STATUS_PAYLOAD_HEADER_def event_ok_def py_simps)
qed

section \<open>Results\<close>

lemma new_identity_iff:
  "new_identity u i g d = Inr x \<longleftrightarrow> x = \<lparr>id_user_id = u, id_identity_uuid = i, id_group_type = g, id_group_uuid = d\<rparr>
     \<and> in_uint 32 u \<and> length i = 16 \<and> \<not> list_all (\<lambda>b. b = 0) i \<and> in_uint 32 g \<and> length d = 16"
  by (auto simp: new_identity_def)

lemma result_record_ok:
  assumes "result_record event = Inr raw"
  shows "length raw = 40 \<and> take 20 raw = take 20 (ev_payload event) \<and> 20 \<le> length (ev_payload event)
    \<and> (ev_version event = 1 \<longrightarrow> length (ev_payload event) = 20)"
proof -
  from assms consider "ev_version event = 1" "length (ev_payload event) = 20"
      "raw = ev_payload event @ le_bytes 4 1 @ zero_bytes 16"
    | "ev_version event = 2" "40 \<le> length (ev_payload event)" "raw = take 40 (ev_payload event)"
    by (auto simp: result_record_def res_simps py_simps split: if_splits)
  then show ?thesis by cases (auto simp: min_def)
qed

text \<open>The identity of a result is its first 20 bytes, and its group is one of the built-in ones.\<close>

lemma parse_enrollment_result_ok:
  assumes "parse_enrollment_result event = Inr i"
  shows "ev_envelope_type event = SERVICE_ENROLLMENT_RESULT
    \<and> take 20 (ev_payload event) = le_bytes 4 (id_user_id i) @ id_identity_uuid i
    \<and> length (id_identity_uuid i) = 16 \<and> \<not> list_all (\<lambda>b. b = 0) (id_identity_uuid i)
    \<and> le_bytes 4 (id_group_type i) @ id_group_uuid i \<in> set BUILTIN_GROUPS
    \<and> (ev_version event = 1 \<longrightarrow> length (ev_payload event) = 20)"
proof -
  from assms obtain raw where r: "ev_envelope_type event = SERVICE_ENROLLMENT_RESULT"
    "result_record event = Inr raw" "drop 20 raw \<in> set BUILTIN_GROUPS"
    and i: "new_identity (le_int (take 4 raw)) (take 16 (drop 4 raw)) (le_int (take 4 (drop 20 raw)))
      (take 16 (drop 24 raw)) = Inr i"
    by (auto simp: parse_enrollment_result_def struct_unpack_def res_simps split: if_splits)
  note rec = result_record_ok [OF r(2)]
  from i rec have u: "le_bytes 4 (id_user_id i) = take 4 raw" "id_identity_uuid i = take 16 (drop 4 raw)"
    "le_bytes 4 (id_group_type i) = take 4 (drop 20 raw)" "id_group_uuid i = take 16 (drop 24 raw)"
    using le_bytes_le_int [of "take 4 raw"] le_bytes_le_int [of "take 4 (drop 20 raw)"]
    by (auto simp: new_identity_iff)
  have "take 20 raw = take 4 raw @ take 16 (drop 4 raw)"
    using take_add [of 4 16 raw] by simp
  moreover have "drop 20 raw = take 4 (drop 20 raw) @ take 16 (drop 24 raw)"
  proof -
    have "drop 24 raw = take 16 (drop 24 raw)" using rec by simp
    then show ?thesis using append_take_drop_id [of 4 "drop 20 raw"] by (simp only: drop_drop) simp
  qed
  ultimately show ?thesis using r(1,3) rec u i by (auto simp: new_identity_iff)
qed


section \<open>The machine, one event at a time\<close>

definition terminal_states :: "enrollment_state set" where
  "terminal_states = {S_SEP_RESULT_WITNESSED, S_SEP_IDENTITY_OBSERVED, S_CANCELLED, S_FAILED, S_TIMED_OUT, S_FROZEN}"

lemmas machine_defs = freeze_def observe_def become_def plain_transition_def

text \<open>What a transition tells about the event that caused it; \<open>m'\<close> is the machine after the event.\<close>

fun transition_ok :: "service_event \<Rightarrow> enrollment_machine \<Rightarrow> enrollment_machine \<Rightarrow> enrollment_action \<Rightarrow> bool" where
  "transition_ok e m m' A_CONTINUE = (ev_envelope_type e = SERVICE_STATUS \<and> ev_ordinal e = 70 \<and> m' = m)"
| "transition_ok e m m' A_PROGRESS =
     (ev_envelope_type e = SERVICE_STATUS \<and> 100 \<le> ev_ordinal e \<and> ev_ordinal e \<le> 355 \<and> m' = m)"
| "transition_ok e m m' A_CANCELLED =
     (ev_envelope_type e = SERVICE_STATUS \<and> ev_ordinal e = 66 \<and> m' = m\<lparr>em_state := S_CANCELLED\<rparr>)"
| "transition_ok e m m' A_FAILED =
     (ev_envelope_type e = SERVICE_STATUS \<and> ev_ordinal e = 67 \<and> m' = m\<lparr>em_state := S_FAILED\<rparr>)"
| "transition_ok e m m' A_TIMED_OUT =
     (ev_envelope_type e = SERVICE_STATUS \<and> ev_ordinal e = 68 \<and> m' = m\<lparr>em_state := S_TIMED_OUT\<rparr>)"
| "transition_ok e m m' A_RESULT_WITNESSED =
     (ev_envelope_type e = SERVICE_ENROLLMENT_RESULT \<and> m' = m\<lparr>em_state := S_SEP_RESULT_WITNESSED\<rparr>
      \<and> (ev_version e = 1 \<and> 20 \<le> length (ev_payload e) \<or> ev_version e = 2 \<and> 40 \<le> length (ev_payload e)))"
| "transition_ok e m m' A_IDENTITY_OBSERVED =
     (ev_envelope_type e = SERVICE_ENROLLMENT_RESULT \<and> m' = m\<lparr>em_state := S_SEP_IDENTITY_OBSERVED\<rparr>
      \<and> ev_version e \<in> {1, 2})"
| "transition_ok e m m' _ = (m' = m)"

definition continues :: "enrollment_action \<Rightarrow> bool" where
  "continues a = (a \<in> {A_CONTINUE, A_PROGRESS})"

lemma if_eqE: "(if c then x else y) = z \<Longrightarrow> (c \<Longrightarrow> x = z \<Longrightarrow> P) \<Longrightarrow> (\<not> c \<Longrightarrow> y = z \<Longrightarrow> P) \<Longrightarrow> P"
  by (cases c) auto

lemma machine_eqs:
  "observe a m = (Inr t, m') \<longleftrightarrow> t = plain_transition a m \<and> m' = m"
  "become a st m = (Inr t, m') \<longleftrightarrow> t = plain_transition a (m\<lparr>em_state := st\<rparr>) \<and> m' = m\<lparr>em_state := st\<rparr>"
  "freeze msg m \<noteq> (Inr t, m')"
  by (auto simp: machine_defs)

lemma accept_status_ok:
  assumes "accept_status st m = (Inr t, m')" and "ev_envelope_type e = SERVICE_STATUS" and "ev_ordinal e = st"
  shows "transition_ok e m m' (tr_action t) \<and> tr_state t = em_state m' \<and> tr_identity t = None
    \<and> tr_continue_required t = continues (tr_action t)
    \<and> (continues (tr_action t) \<longrightarrow> em_state m \<noteq> S_CANCEL_REQUESTED)
    \<and> (\<forall>p. tr_progress_percent t = Some p \<longrightarrow> p = 100 * (st - 100) div 255 \<and> tr_action t = A_PROGRESS)"
  using assms unfolding accept_status_def
  by (elim if_eqE) (clarsimp simp: machine_eqs plain_transition_def continues_def)+

lemma result_version:
  "parse_enrollment_result e = Inr i \<Longrightarrow> ev_version e = 1 \<and> length (ev_payload e) = 20
     \<or> ev_version e = 2 \<and> 40 \<le> length (ev_payload e)"
  by (auto simp: parse_enrollment_result_def result_record_def res_simps split: if_splits)

lemma accept_result_ok:
  assumes "accept_result e m = (Inr t, m')" and "ev_envelope_type e = SERVICE_ENROLLMENT_RESULT"
  shows "transition_ok e m m' (tr_action t) \<and> tr_state t = em_state m' \<and> tr_progress_percent t = None
    \<and> \<not> tr_continue_required t \<and> tr_action t \<in> {A_RESULT_WITNESSED, A_IDENTITY_OBSERVED}
    \<and> (case tr_identity t of None \<Rightarrow> tr_action t = A_RESULT_WITNESSED
       | Some i \<Rightarrow> tr_action t = A_IDENTITY_OBSERVED \<and> id_user_id i = em_expected_user_id m
           \<and> parse_enrollment_result e = Inr i)"
proof (cases "ev_version e = 1 \<and> 20 < length (ev_payload e)")
  case True
  with assms show ?thesis
    by (auto simp: accept_result_def Let_def machine_defs split: sum.splits if_splits)
next
  case False
  show ?thesis
  proof (cases "parse_enrollment_result e")
    case (Inl x)
    have "accept_result e m = (if issubclass (exc_class x) EnrollmentProtocolError
        then freeze ''invalid enrollment-result event'' m else (Inl x, m))"
      by (simp only: accept_result_def Let_def False Inl if_False and_then_simps sum.case)
    with assms(1) show ?thesis by (simp add: freeze_def split: if_splits)
  next
    case (Inr i)
    have run: "accept_result e m = (if id_user_id i \<noteq> em_expected_user_id m
        then become A_RESULT_WITNESSED S_SEP_RESULT_WITNESSED m
        else (Inr ((plain_transition A_IDENTITY_OBSERVED (m\<lparr>em_state := S_SEP_IDENTITY_OBSERVED\<rparr>))\<lparr>tr_identity := Some i\<rparr>),
              m\<lparr>em_state := S_SEP_IDENTITY_OBSERVED\<rparr>))"
      by (simp only: accept_result_def Let_def False Inr if_False and_then_simps sum.case simp_thms)
    from result_version [OF Inr] assms run Inr show ?thesis
      by (auto simp: machine_defs split: if_splits)
  qed
qed

lemma accept_event_ok:
  assumes "accept_event e m = (Inr t, m')"
  shows "transition_ok e m m' (tr_action t) \<and> tr_state t = em_state m'
    \<and> tr_continue_required t = continues (tr_action t)
    \<and> (continues (tr_action t) \<longrightarrow> em_state m \<noteq> S_CANCEL_REQUESTED)
    \<and> (\<forall>p. tr_progress_percent t = Some p \<longrightarrow> p = 100 * (ev_ordinal e - 100) div 255 \<and> tr_action t = A_PROGRESS)
    \<and> (case tr_identity t of None \<Rightarrow> tr_action t \<noteq> A_IDENTITY_OBSERVED
       | Some i \<Rightarrow> tr_action t = A_IDENTITY_OBSERVED \<and> id_user_id i = em_expected_user_id m
           \<and> parse_enrollment_result e = Inr i)"
proof (cases "ev_envelope_type e = SERVICE_ENROLLMENT_RESULT")
  case True
  with assms have "accept_result e m = (Inr t, m')" by (simp add: accept_event_def)
  from accept_result_ok [OF this True] show ?thesis
    by (auto simp: continues_def split: option.splits)
next
  case False
  note not_result = this
  consider (aux) "t = plain_transition (tr_action t) m" "m' = m" "tr_action t \<in> {A_IGNORE_TELEMETRY, A_IGNORE_AUXILIARY}"
    | (status) "accept_status (ev_ordinal e) m = (Inr t, m')" "ev_envelope_type e = SERVICE_STATUS"
  proof -
    from assms False consider "observe A_IGNORE_TELEMETRY m = (Inr t, m')"
      | c msg where "accept_auxiliary c msg m = (Inr t, m')" | "accept_generic e m = (Inr t, m')"
      unfolding accept_event_def by (elim if_eqE) (auto simp: freeze_def)
    then show thesis
    proof cases
      case 1
      then show thesis by (intro aux) (auto simp: machine_defs)
    next
      case 2
      then show thesis by (intro aux) (auto simp: accept_auxiliary_def machine_defs split: sum.splits if_splits)
    next
      case 3
      then show thesis by (intro status) (auto simp: accept_generic_def freeze_def split: sum.splits if_splits)
    qed
  qed
  then show ?thesis
  proof cases
    case aux
    then show ?thesis
      by (cases t) (auto simp: plain_transition_def continues_def)
  next
    case status
    from accept_status_ok [OF status refl] have a: "transition_ok e m m' (tr_action t)" "tr_identity t = None" by blast+
    have "tr_action t \<noteq> A_IDENTITY_OBSERVED"
    proof
      assume "tr_action t = A_IDENTITY_OBSERVED"
      with a(1) not_result show False by simp
    qed
    with accept_status_ok [OF status refl] show ?thesis by simp
  qed
qed

lemma accept_cases:
  assumes "accept H e g i m = (r, m')"
  obtains (refused) message where "(r, m') = freeze message m"
  | (unpackable) x where "event_fingerprint H e = Inl x" "r = Inl x" "m' = m"
  | (event) m1 where "em_state m \<in> {S_ACTIVE, S_CANCEL_REQUESTED}" "g = em_connection_generation m" "i = em_operation_id m"
      "case em_last_sequence m of None \<Rightarrow> True | Some n \<Rightarrow> n < ev_sequence e"
      "m1 = m\<lparr>em_last_sequence := Some (ev_sequence e), em_fingerprints := em_fingerprints m1\<rparr>"
      "accept_event e m1 = (r, m')" "length (em_fingerprints m1) \<le> MAX_EVENT_FINGERPRINTS"
proof (cases "\<exists>message. (r, m') = freeze message m")
  case False
  then have no: "freeze message m \<noteq> (r, m')" for message by metis
  show thesis
  proof (cases "event_fingerprint H e")
    case (Inl x)
    with assms no have "(Inl x, m) = (r, m')" unfolding accept_def by (elim if_eqE) simp_all
    with Inl show thesis by (intro unpackable) auto
  next
    case (Inr fp)
    define m1 where "m1 = m\<lparr>em_last_sequence := Some (ev_sequence e),
                 em_fingerprints := deque_append MAX_EVENT_FINGERPRINTS (em_fingerprints m) fp\<rparr>"
    have "em_state m \<in> {S_ACTIVE, S_CANCEL_REQUESTED}" "g = em_connection_generation m" "i = em_operation_id m"
      "case em_last_sequence m of None \<Rightarrow> True | Some n \<Rightarrow> n < ev_sequence e" "accept_event e m1 = (r, m')"
      using assms no unfolding accept_def m1_def Inr sum.case by (elim if_eqE; simp split: option.splits)+
    moreover have "m1 = m\<lparr>em_last_sequence := Some (ev_sequence e), em_fingerprints := em_fingerprints m1\<rparr>"
      "length (em_fingerprints m1) \<le> MAX_EVENT_FINGERPRINTS" by (simp_all add: m1_def deque_append_def Let_def)
    ultimately show thesis by (intro event)
  qed
qed (use refused in blast)


text \<open>An event that is well formed can be fingerprinted.\<close>

lemma event_fingerprint_ok: "event_ok e \<Longrightarrow> \<exists>fp. event_fingerprint H e = Inr fp"
proof -
  assume "event_ok e"
  then have "fields_fit SERVICE_HEADER [PyInt (ev_sequence e), PyInt (ev_envelope_type e), PyInt (ev_version e),
      PyInt (ev_ordinal e)]"
    by (auto simp: event_ok_def SERVICE_HEADER_def in_uint_def py_simps)
  from struct_pack_fit [OF this] show ?thesis by (auto simp: event_fingerprint_def)
qed

text \<open>Every exception of the parsers is an \<^verbatim>\<open>EnrollmentProtocolError\<close>: the lengths are tested before they are used.\<close>

lemma parser_errors:
  "parse_enrollment_result e = Inl x \<Longrightarrow> exc_class x = EnrollmentProtocolError"
  "new_event a b c d p = Inl x \<Longrightarrow> exc_class x = EnrollmentProtocolError"
  "validate_status_payload e = Inl x \<Longrightarrow> exc_class x = EnrollmentProtocolError"
  "validate_sks_lock_state_payload e = Inl x \<Longrightarrow> exc_class x = EnrollmentProtocolError"
proof -
  have id: "new_identity u i g d = Inl x \<Longrightarrow> exc_class x = EnrollmentProtocolError" for u i g d
    by (auto simp: new_identity_def split: if_splits)
  show "exc_class x = EnrollmentProtocolError" if "parse_enrollment_result e = Inl x"
  proof (cases "result_record e")
    case (Inl y)
    with that show ?thesis
      by (auto simp: parse_enrollment_result_def result_record_def py_simps split: if_splits)
  next
    case (Inr raw)
    then have "length raw = 40" using result_record_ok by blast
    with Inr that id show ?thesis
      by (auto simp: parse_enrollment_result_def struct_unpack_def split: if_splits)
  qed
  show "new_event a b c d p = Inl x \<Longrightarrow> exc_class x = EnrollmentProtocolError"
    by (auto simp: new_event_def split: if_splits)
  show "validate_status_payload e = Inl x \<Longrightarrow> exc_class x = EnrollmentProtocolError"
    by (auto simp: validate_status_payload_def struct_unpack_from_def split: if_splits)
  show "validate_sks_lock_state_payload e = Inl x \<Longrightarrow> exc_class x = EnrollmentProtocolError"
    by (auto simp: validate_sks_lock_state_payload_def struct_unpack_from_def split: if_splits)
qed

lemma accept_event_errors:
  assumes "accept_event e m = (Inl x, m')"
  shows "exc_class x = EnrollmentProtocolError \<and> em_state m' = S_FROZEN"
proof -
  have frozen: "freeze msg m = (Inl x, m') \<Longrightarrow> exc_class x = EnrollmentProtocolError \<and> em_state m' = S_FROZEN" for msg
    by (auto simp: freeze_def)
  have aux: "accept_auxiliary c msg m = (Inl x, m') \<Longrightarrow> (\<And>y. c = Inl y \<Longrightarrow> exc_class y = EnrollmentProtocolError) \<Longrightarrow>
      exc_class x = EnrollmentProtocolError \<and> em_state m' = S_FROZEN" for c msg
    by (cases c) (auto simp: accept_auxiliary_def observe_def freeze_def)
  have st: "accept_status n m = (Inl x, m') \<Longrightarrow> exc_class x = EnrollmentProtocolError \<and> em_state m' = S_FROZEN" for n
    unfolding accept_status_def by (elim if_eqE) (auto simp: machine_defs)
  have gen: "accept_generic e m = (Inl x, m') \<Longrightarrow> exc_class x = EnrollmentProtocolError \<and> em_state m' = S_FROZEN"
    unfolding accept_generic_def using parser_errors(3) [of e]
    by (elim if_eqE) (auto dest: frozen st split: sum.splits)
  have res: "accept_result e m = (Inl x, m') \<Longrightarrow> exc_class x = EnrollmentProtocolError \<and> em_state m' = S_FROZEN"
  proof -
    assume run: "accept_result e m = (Inl x, m')"
    define parsed where "parsed = and_then (if ev_version e = 1 \<and> 20 < length (ev_payload e)
      then new_event (ev_sequence e) (ev_envelope_type e) (ev_version e) (ev_ordinal e) (take 20 (ev_payload e))
      else Inr e) parse_enrollment_result"
    have err: "parsed = Inl y \<Longrightarrow> exc_class y = EnrollmentProtocolError" for y
      using parser_errors(1,2) unfolding parsed_def and_then_def by (auto split: sum.splits if_splits)
    show ?thesis
      using run unfolding accept_result_def Let_def parsed_def [symmetric]
      by (cases parsed) (auto simp: machine_defs dest: err split: if_splits)
  qed
  from assms show ?thesis
    unfolding accept_event_def by (elim if_eqE) (auto dest: frozen res gen aux [OF _ parser_errors(3)] aux [OF _ parser_errors(4)] simp: observe_def)
qed

section \<open>Properties\<close>

text \<open>
  Service events are exact. The bytes that parse to an event are its header (reserved word zero,
  type, version, timestamp) followed by its payload; the fields are in range, the timestamp is not
  zero, and the ordinal is the one the payload carries.
\<close>

theorem service_event_exact:
  "parse_service_event (PyBytes bs) = Inr e \<longleftrightarrow>
     event_ok e \<and> ev_sequence e \<noteq> 0 \<and> ordinal_ok e
     \<and> (\<exists>h. struct_pack SERVICE_HEADER (header_values 0 e) = Inr h \<and> bs = h @ ev_payload e)"
  by (rule parse_service_event_iff)

text \<open>The kinds of status the machine distinguishes, and the accessory status that never reaches them.\<close>

definition status_kinds :: "int \<Rightarrow> bool list" where
  "status_kinds st =
     [st \<in> {66, 67, 68}, st \<in> {63, 64, 70, 74, 78, 85, 86, 87, 88, 93, 98}, 100 \<le> st \<and> st \<le> 355,
      list_ex (\<lambda>(lower, upper). lower \<le> st \<and> st \<le> upper) EXACT_NOOP_PHASE_RANGES,
      st \<in> set EXACT_UNMAPPED_GENERIC_STATE_STATUSES, st = 501]"

text \<open>
  C33: the statuses are partitioned. Every 32-bit status is of exactly one kind (terminal, explicit,
  progress, recovered no-op, unmapped, accessory), so the defensive last branch of the machine is
  never taken.
\<close>

theorem statuses_partitioned:
  assumes "in_uint 32 st"
  shows "length (filter id (status_kinds st)) = 1
    \<and> (st \<noteq> 501 \<longrightarrow> fst (accept_status st m) \<noteq> Inl (protocol_error ''unclassified enrollment status ''))"
proof -
  have bounds: "0 \<le> st" "st \<le> 4294967295" using assms by (simp_all add: in_uint_def)
  have one: "length (filter id (status_kinds st)) = 1"
  proof -
    consider "st \<le> 69" | "70 \<le> st" "st \<le> 99" | "100 \<le> st" by linarith
    then show ?thesis
    proof cases
      case 1
      then have "st \<in> {0..69}" using bounds by simp
      also have "\<dots> = set [0..69]" by (rule set_upto [symmetric])
      finally show ?thesis
        by (simp add: upto_rec1) (elim disjE; simp add: status_kinds_def EXACT_NOOP_PHASE_RANGES_def
            EXACT_UNMAPPED_GENERIC_STATE_STATUSES_def)
    next
      case 2
      then have "st \<in> {70..99}" by simp
      also have "\<dots> = set [70..99]" by (rule set_upto [symmetric])
      finally show ?thesis
        by (simp add: upto_rec1) (elim disjE; simp add: status_kinds_def EXACT_NOOP_PHASE_RANGES_def
            EXACT_UNMAPPED_GENERIC_STATE_STATUSES_def)
    next
      case 3
      then consider "st \<le> 355" | "356 \<le> st" "st \<le> 500" | "st = 501" | "st = 502" | "503 \<le> st" by linarith
      then show ?thesis
        using bounds 3
        by cases (simp_all add: status_kinds_def EXACT_NOOP_PHASE_RANGES_def EXACT_UNMAPPED_GENERIC_STATE_STATUSES_def)
    qed
  qed
  moreover have "fst (accept_status st m) \<noteq> Inl (protocol_error ''unclassified enrollment status '')" if "st \<noteq> 501"
  proof
    assume last: "fst (accept_status st m) = Inl (protocol_error ''unclassified enrollment status '')"
    have "\<not> list_ex id (status_kinds st)"
      using last that unfolding accept_status_def status_kinds_def
      by (auto simp: machine_defs split: if_splits)
    then have "filter id (status_kinds st) = []" by (simp add: filter_empty_conv list_ex_iff)
    with one show False by simp
  qed
  ultimately show ?thesis by blast
qed


lemma accept_errors:
  assumes "event_ok e" and "accept H e g i m = (Inl x, m')"
  shows "exc_class x = EnrollmentProtocolError \<and> em_state m' = S_FROZEN"
  using assms(2)
proof (cases rule: accept_cases)
  case (refused message)
  then show ?thesis by (auto simp: freeze_def)
next
  case (unpackable y)
  with event_fingerprint_ok [OF assms(1), of H] show ?thesis by auto
next
  case (event m1)
  from accept_event_errors [OF event(6)] show ?thesis .
qed

text \<open>
  The machine fails closed. For a well-formed event, an exception is always an
  \<^verbatim>\<open>EnrollmentProtocolError\<close> and leaves the machine frozen.
\<close>

theorem machine_fails_closed:
  assumes "event_ok e" and "accept H e g i m = (Inl x, m')"
  shows "exc_class x = EnrollmentProtocolError \<and> em_state m' = S_FROZEN"
  using assms by (rule accept_errors)

text \<open>
  C35: where an enrolled identity comes from. When the machine reports an identity, the event was an
  enrollment result for the user being enrolled, the identity is the 20-byte prefix of its payload,
  not zero and of a built-in group, a version-1 result had nothing behind that prefix, and the
  machine has stopped.
\<close>

theorem identity_is_from_result:
  assumes "accept H e g i m = (Inr t, m')" and "tr_identity t = Some identity"
  shows "ev_envelope_type e = SERVICE_ENROLLMENT_RESULT \<and> id_user_id identity = em_expected_user_id m
    \<and> take 20 (ev_payload e) = le_bytes 4 (id_user_id identity) @ id_identity_uuid identity
    \<and> \<not> list_all (\<lambda>b. b = 0) (id_identity_uuid identity)
    \<and> le_bytes 4 (id_group_type identity) @ id_group_uuid identity \<in> set BUILTIN_GROUPS
    \<and> (ev_version e = 1 \<longrightarrow> length (ev_payload e) = 20) \<and> em_state m' = S_SEP_IDENTITY_OBSERVED"
  using assms(1)
proof (cases rule: accept_cases)
  case (event m1)
  from accept_event_ok [OF event(6)] assms(2) have t: "tr_action t = A_IDENTITY_OBSERVED"
    "id_user_id identity = em_expected_user_id m1" "parse_enrollment_result e = Inr identity"
    "transition_ok e m1 m' (tr_action t)" by auto
  have "em_expected_user_id m1 = em_expected_user_id m" by (subst event(5)) simp
  with parse_enrollment_result_ok [OF t(3)] t show ?thesis by simp
qed (auto simp: freeze_def)

section \<open>The machine, over a whole operation\<close>

text \<open>What the operation feeds to the machine: a cancellation, or an event with its routing.\<close>

datatype machine_input = Cancel_Input | Event_Input service_event string string

definition feed :: "(bytes \<Rightarrow> bytes) \<Rightarrow> machine_input \<Rightarrow> enrollment_machine
    \<Rightarrow> (service_event \<times> enrollment_transition) list \<times> enrollment_machine" where
  "feed H inp m =
     (case inp of
        Cancel_Input \<Rightarrow> ([], snd (request_cancel m))
      | Event_Input e g i \<Rightarrow>
          (case accept H e g i m of (Inl _, m') \<Rightarrow> ([], m') | (Inr t, m') \<Rightarrow> ([(e, t)], m')))"

fun feed_all :: "(bytes \<Rightarrow> bytes) \<Rightarrow> machine_input list \<Rightarrow> enrollment_machine
    \<Rightarrow> (service_event \<times> enrollment_transition) list \<times> enrollment_machine" where
  "feed_all H [] m = ([], m)"
| "feed_all H (x # xs) m =
     (case feed H x m of (out, m1) \<Rightarrow> case feed_all H xs m1 of (outs, m2) \<Rightarrow> (out @ outs, m2))"

definition after :: "int option \<Rightarrow> int \<Rightarrow> bool" where
  "after prev n = (case prev of None \<Rightarrow> True | Some l \<Rightarrow> l < n)"

lemma transition_ok_frame:
  "transition_ok e m m' a \<Longrightarrow> em_last_sequence m' = em_last_sequence m \<and> (em_state m' = em_state m \<or> em_state m' \<in> terminal_states)"
  by (cases a) (auto simp: terminal_states_def)

lemma feed_step:
  assumes "feed H x m = (out, m')"
  shows "(\<forall>(e, t) \<in> set out. after (em_last_sequence m) (ev_sequence e) \<and> em_last_sequence m' = Some (ev_sequence e)
            \<and> tr_state t = em_state m' \<and> em_state m \<notin> terminal_states)
    \<and> length out \<le> 1 \<and> (out = [] \<longrightarrow> em_last_sequence m' = em_last_sequence m \<or> em_state m' \<in> terminal_states)
    \<and> (em_state m \<in> terminal_states \<longrightarrow> em_state m' \<in> terminal_states)"
proof (cases x)
  case Cancel_Input
  with assms show ?thesis by (auto simp: feed_def request_cancel_def freeze_def terminal_states_def split: if_splits)
next
  case (Event_Input e g i)
  obtain r where r: "accept H e g i m = (r, m')" "out = (case r of Inl _ \<Rightarrow> [] | Inr t \<Rightarrow> [(e, t)])"
    using assms Event_Input by (auto simp: feed_def split: prod.splits sum.splits)
  from r(1) show ?thesis
  proof (cases rule: accept_cases)
    case (refused message)
    with r(2) show ?thesis by (auto simp: freeze_def terminal_states_def)
  next
    case (unpackable y)
    with r(2) show ?thesis by simp
  next
    case (event m1)
    have m1: "em_last_sequence m1 = Some (ev_sequence e)" by (subst event(5)) simp
    show ?thesis
    proof (cases r)
      case (Inl y)
      with accept_event_errors [of e m1 y m'] event(6) r(2) event(1) show ?thesis by (auto simp: terminal_states_def)
    next
      case (Inr t)
      with event(6) have a: "transition_ok e m1 m' (tr_action t)" "tr_state t = em_state m'"
        using accept_event_ok [of e m1 t m'] by simp_all
      have "em_last_sequence m' = Some (ev_sequence e)" using transition_ok_frame [OF a(1)] m1 by simp
      with r(2) Inr a(2) event(1,4) show ?thesis by (auto simp: terminal_states_def after_def)
    qed
  qed
qed


lemma feed_all_order:
  assumes "feed_all H xs m = (outs, m')"
  shows "sorted_wrt (<) (map (ev_sequence \<circ> fst) outs)
    \<and> (\<forall>(e, t) \<in> set outs. after (em_last_sequence m) (ev_sequence e))
    \<and> (em_state m \<in> terminal_states \<longrightarrow> outs = [])
    \<and> (\<forall>(e, t) \<in> set (butlast outs). tr_state t \<notin> terminal_states)"
  using assms
proof (induction xs arbitrary: m outs)
  case (Cons x xs)
  obtain out m1 where x: "feed H x m = (out, m1)" by (cases "feed H x m")
  obtain rest where rest: "feed_all H xs m1 = (rest, m')" "outs = out @ rest"
    using Cons.prems x by (auto split: prod.splits)
  note st = feed_step [OF x] and ih = Cons.IH [OF rest(1)]
  show ?case
  proof (cases out)
    case Nil
    with st ih rest(2) show ?thesis by auto
  next
    case (Cons et out')
    then have out: "out = [et]" using st by auto
    obtain e t where et: "et = (e, t)" by (cases et)
    have s: "after (em_last_sequence m) (ev_sequence e)" "em_last_sequence m1 = Some (ev_sequence e)"
      "tr_state t = em_state m1" "em_state m \<notin> terminal_states" using st out et by auto
    have later: "after (em_last_sequence m) n" if "after (em_last_sequence m1) n" for n
      using s(1,2) that by (auto simp: after_def split: option.splits)
    have "\<forall>(e', t') \<in> set rest. ev_sequence e < ev_sequence e'" using ih s(2) by (auto simp: after_def)
    with ih s out et rest(2) later show ?thesis by (auto simp: comp_def)
  qed
qed simp

text \<open>
  C34: an operation's events are accepted in order and at most up to the first terminal one. Whatever
  is fed to the machine, the accepted events have strictly increasing timestamps, and every accepted
  event but the last leaves the operation running.
\<close>

theorem machine_orders_events:
  assumes "feed_all H xs m = (outs, m')"
  shows "sorted_wrt (<) (map (ev_sequence \<circ> fst) outs)
    \<and> (\<forall>(e, t) \<in> set (butlast outs). tr_state t \<notin> terminal_states)
    \<and> (em_state m \<in> terminal_states \<longrightarrow> outs = [])"
  using feed_all_order [OF assms] by blast

lemma percent_bounds:
  assumes "0 \<le> d" and "d \<le> 255"
  shows "0 \<le> 100 * d div 255 \<and> 100 * d div 255 \<le> 100 \<and> (100 * d div 255 = 100 \<longleftrightarrow> d = (255 :: int))"
proof -
  define q r where "q = 100 * d div 255" and "r = 100 * d mod 255"
  have "100 * d = 255 * q + r" "0 \<le> r" "r < 255" unfolding q_def r_def by (simp_all only: mult_div_mod_eq)
  then show ?thesis unfolding q_def [symmetric] using assms by linarith
qed

text \<open>
  A continue is only ever asked for by a running operation, for status 70 or a progress status, and
  the progress it reports is between 0 and 100 percent, 100 exactly for the last progress status.
\<close>

theorem continue_and_progress:
  assumes "accept H e g i m = (Inr t, m')"
  shows "(tr_continue_required t \<longrightarrow> em_state m = S_ACTIVE \<and> em_state m' = S_ACTIVE
        \<and> ev_envelope_type e = SERVICE_STATUS \<and> (ev_ordinal e = 70 \<or> 100 \<le> ev_ordinal e \<and> ev_ordinal e \<le> 355))
    \<and> (\<forall>p. tr_progress_percent t = Some p \<longrightarrow> 0 \<le> p \<and> p \<le> 100 \<and> (p = 100 \<longleftrightarrow> ev_ordinal e = 355)
        \<and> tr_continue_required t)"
  using assms
proof (cases rule: accept_cases)
  case (event m1)
  have st: "em_state m1 = em_state m" by (subst event(5)) simp
  from accept_event_ok [OF event(6)] have t: "transition_ok e m1 m' (tr_action t)"
    "tr_continue_required t = continues (tr_action t)" "continues (tr_action t) \<longrightarrow> em_state m1 \<noteq> S_CANCEL_REQUESTED"
    "\<forall>p. tr_progress_percent t = Some p \<longrightarrow> p = 100 * (ev_ordinal e - 100) div 255 \<and> tr_action t = A_PROGRESS" by blast+
  have cont: "tr_continue_required t \<longrightarrow> em_state m = S_ACTIVE \<and> em_state m' = S_ACTIVE
        \<and> ev_envelope_type e = SERVICE_STATUS \<and> (ev_ordinal e = 70 \<or> 100 \<le> ev_ordinal e \<and> ev_ordinal e \<le> 355)"
    using t(1-3) st event(1) by (auto simp: continues_def)
  moreover have "0 \<le> p \<and> p \<le> 100 \<and> (p = 100 \<longleftrightarrow> ev_ordinal e = 355) \<and> tr_continue_required t"
    if "tr_progress_percent t = Some p" for p
  proof -
    have p: "p = 100 * (ev_ordinal e - 100) div 255" "tr_action t = A_PROGRESS" using t(4) that by auto
    with t(1,2) have "100 \<le> ev_ordinal e" "ev_ordinal e \<le> 355" "tr_continue_required t" by (simp_all add: continues_def)
    then show ?thesis using percent_bounds [of "ev_ordinal e - 100", folded p(1)] by simp
  qed
  ultimately show ?thesis by blast
qed (auto simp: freeze_def)

text \<open>
  The start request. Its buffer is four words (0, the user, 0, 16), the 16-byte authorization and
  zeros, 48 bytes long for protocol 1 and 68 for protocol 2; after a wipe the buffer holds only zeros
  and can no longer be obtained.
\<close>

theorem start_request_layout_and_wipe:
  assumes "new_enrollment_request v user (PyBytes form) = Inr r"
  shows "request_buffer r = Inr (le_bytes 4 0 @ le_bytes 4 user @ le_bytes 4 0 @ le_bytes 4 16 @ form
        @ zero_bytes (if v = 1 then 16 else 36))
    \<and> length form = 16 \<and> isl (request_buffer (request_wipe r))
    \<and> er_buffer (request_wipe r) = zero_bytes (if v = 1 then 48 else 68)"
proof -
  from assms have form: "v \<in> {1, 2}" "in_uint 32 user" "length form = 16"
    by (auto simp: new_enrollment_request_def ACM_EXTERNAL_FORM_SIZE_def split: if_splits)
  have pack: "struct_pack [FUInt 4, FUInt 4, FUInt 4, FUInt 4] [PyInt 0, PyInt user, PyInt 0, PyInt 16] =
    Inr (le_bytes 4 0 @ le_bytes 4 user @ le_bytes 4 0 @ le_bytes 4 16)"
    using form(2) by (simp add: py_simps in_uint_def)
  have r: "er_buffer r = le_bytes 4 0 @ le_bytes 4 user @ le_bytes 4 0 @ le_bytes 4 16 @ form
        @ zero_bytes (if v = 1 then 16 else 36)" "\<not> er_wiped r"
    using assms form unfolding new_enrollment_request_def pack Let_def
    by (auto simp: zero_bytes_def ACM_EXTERNAL_FORM_SIZE_def split: if_splits)
  then show ?thesis using form by (auto simp: request_buffer_def request_wipe_def)
qed

section \<open>Witnesses\<close>

definition sample_machine :: enrollment_machine where
  "sample_machine = projr (new_machine 501 ''g'' ''o'')"

definition status_event :: "int \<Rightarrow> int \<Rightarrow> service_event" where
  "status_event seq st = \<lparr>ev_sequence = seq, ev_envelope_type = SERVICE_STATUS, ev_version = 1, ev_ordinal = st,
     ev_payload = le_bytes 4 st @ zero_bytes 12\<rparr>"

definition result_event :: "int \<Rightarrow> service_event" where
  "result_event seq = \<lparr>ev_sequence = seq, ev_envelope_type = SERVICE_ENROLLMENT_RESULT, ev_version = 1, ev_ordinal = 0,
     ev_payload = le_bytes 4 501 @ replicate 16 7\<rparr>"

definition sample_inputs :: "machine_input list" where
  "sample_inputs = [Event_Input (status_event 5 70) ''g'' ''o'', Event_Input (status_event 6 355) ''g'' ''o'',
     Event_Input (result_event 9) ''g'' ''o'', Event_Input (status_event 12 63) ''g'' ''o'']"

theorem machine_orders_events_witness:
  "sorted_wrt (<) (map (ev_sequence \<circ> fst) (fst (feed_all id sample_inputs sample_machine)))
   \<and> length (fst (feed_all id sample_inputs sample_machine)) = 3"
proof -
  have "length (fst (feed_all id sample_inputs sample_machine)) = 3" by code_simp
  moreover obtain outs m' where "feed_all id sample_inputs sample_machine = (outs, m')" by fastforce
  ultimately show ?thesis using machine_orders_events by force
qed

theorem statuses_partitioned_witness: "length (filter id (status_kinds 355)) = 1"
  using statuses_partitioned [of 355] by (simp add: in_uint_def)

theorem machine_fails_closed_witness:
  "em_state (snd (accept id (status_event 5 51) ''g'' ''o'' sample_machine)) = S_FROZEN"
proof -
  have "isl (fst (accept id (status_event 5 51) ''g'' ''o'' sample_machine))" by code_simp
  then obtain x m' where run: "accept id (status_event 5 51) ''g'' ''o'' sample_machine = (Inl x, m')"
    by (cases "accept id (status_event 5 51) ''g'' ''o'' sample_machine") (auto simp: isl_def)
  moreover have "event_ok (status_event 5 51)"
    by (simp add: event_ok_def status_event_def in_uint_def SERVICE_STATUS_def MAX_EVENT_PAYLOAD_def)
  ultimately show ?thesis using machine_fails_closed by fastforce
qed

theorem identity_is_from_result_witness:
  "\<exists>t m' i. accept id (result_event 9) ''g'' ''o'' sample_machine = (Inr t, m') \<and> tr_identity t = Some i
     \<and> id_user_id i = 501 \<and> em_state m' = S_SEP_IDENTITY_OBSERVED"
proof -
  have "case accept id (result_event 9) ''g'' ''o'' sample_machine of
      (Inl _, _) \<Rightarrow> False | (Inr t, m') \<Rightarrow> tr_identity t \<noteq> None" by code_simp
  then obtain t m' i where run: "accept id (result_event 9) ''g'' ''o'' sample_machine = (Inr t, m')" "tr_identity t = Some i"
    by (auto split: prod.splits sum.splits)
  moreover have "em_expected_user_id sample_machine = 501" by code_simp
  ultimately show ?thesis using identity_is_from_result [OF run] by auto
qed

theorem continue_and_progress_witness:
  "\<exists>t m' p. accept id (status_event 5 355) ''g'' ''o'' sample_machine = (Inr t, m') \<and> tr_progress_percent t = Some p \<and> p = 100"
proof -
  have "case accept id (status_event 5 355) ''g'' ''o'' sample_machine of
      (Inl _, _) \<Rightarrow> False | (Inr t, m') \<Rightarrow> tr_progress_percent t \<noteq> None" by code_simp
  then obtain t m' p where run: "accept id (status_event 5 355) ''g'' ''o'' sample_machine = (Inr t, m')"
    "tr_progress_percent t = Some p" by (auto split: prod.splits sum.splits)
  moreover have "p = 100" using continue_and_progress [OF run(1)] run(2) by (simp add: status_event_def)
  ultimately show ?thesis by blast
qed

theorem start_request_layout_and_wipe_witness:
  "er_buffer (request_wipe (projr (new_enrollment_request 2 501 (PyBytes (replicate 16 7))))) = zero_bytes 68"
proof -
  have "\<not> isl (new_enrollment_request 2 501 (PyBytes (replicate 16 7)))" by code_simp
  then obtain r where "new_enrollment_request 2 501 (PyBytes (replicate 16 7)) = Inr r"
    by (cases "new_enrollment_request 2 501 (PyBytes (replicate 16 7))") auto
  with start_request_layout_and_wipe [OF this] show ?thesis by simp
qed

end
