(* ===== verification/Operation_Logic.thy ===== *)
theory Operation_Logic
  imports Enrollment_Operation Enrollment_Facts Enrollment_Protocol_Facts Journal_Recovery
begin

text \<open>
  Reasoning about the enrollment operation: the rules of its calls, the link between the operation's \<^verbatim>\<open>history\<close> and
  the replayed journal, and the fact that each milestone the operation offers is one the journal accepts in the phase
  where it is offered.
\<close>

section \<open>Calls\<close>

text \<open>A call may return anything; only the world and the trace change.\<close>

definition effect :: "op_effect \<Rightarrow> 'w op_state \<Rightarrow> 'w \<Rightarrow> 'w op_state" where
  "effect c s w = s\<lparr>op_world := w, op_trace := op_trace s @ [c]\<rparr>"

lemma wp_call:
  assumes "\<And>x w. f (op_world s) = (Inr x, w) \<Longrightarrow> Q x (effect c s w)"
    and "\<And>e w. f (op_world s) = (Inl e, w) \<Longrightarrow> E e (effect c s w)"
  shows "wp (op_call c f) Q E s"
  using assms by (auto simp: wp_def op_call_def effect_def split: sum.splits prod.splits)

section \<open>Digests and UUIDs\<close>

lemma hex_char_digit: "n < 16 \<Longrightarrow> is_hex_digit (hex_char n) \<and> \<not> is_ascii_space (hex_char n)"
  by (auto simp: is_hex_digit_def hex_char_def is_ascii_space_def)

lemma byte_hex_digits: "list_all is_hex_digit (byte_hex b)" "length (byte_hex b) = 2"
  using hex_char_digit [of "unat b div 16"] hex_char_digit [of "unat b mod 16"] unsigned_less [of b, where 'a = nat]
  by (simp_all add: byte_hex_def)

lemma hexdigest_digits: "list_all is_hex_digit (hexdigest bs)" "length (hexdigest bs) = 2 * length bs"
  by (induction bs) (simp_all add: hexdigest_def byte_hex_digits)

lemma fromhex_hexdigest: "fromhex_ok (hexdigest bs)"
proof (induction bs)
  case (Cons b bs)
  have "unat b div 16 < 16" "unat b mod 16 < 16" using unsigned_less [of b, where 'a = nat] by simp_all
  with Cons hex_char_digit show ?case by (simp add: hexdigest_def byte_hex_def)
qed (simp add: hexdigest_def)

lemma hexdigest_sha256: "length (H bs) = 32 \<Longrightarrow> require_sha256 (PyStr (hexdigest (H bs))) field = Inr ()"
  by (simp add: require_sha256_def hexdigest_digits fromhex_hexdigest py_simps)

lemma canonical_uuid_groups:
  assumes "length a = 8" "length b = 4" "length c = 4" "length d = 4" "length e = 12"
    and "list_all is_hex_digit (a @ b @ c @ d @ e)"
  shows "canonical_uuid (a @ ''-'' @ b @ ''-'' @ c @ ''-'' @ d @ ''-'' @ e)"
proof -
  have z: "list_all (\<lambda>(hyphen, c). if hyphen then c = CHR ''-'' else is_hex_digit c) (zip (replicate n False) xs)"
    if "length xs = n" "list_all is_hex_digit xs" for n xs
    using that by (auto simp: list_all_iff zip_replicate1)
  have "list_all is_hex_digit a" "list_all is_hex_digit b" "list_all is_hex_digit c" "list_all is_hex_digit d"
    "list_all is_hex_digit e" using assms(6) by simp_all
  note zs = z [OF assms(1) this(1)] z [OF assms(2) this(2)] z [OF assms(3) this(3)] z [OF assms(4) this(4)]
    z [OF assms(5) this(5)]
  show ?thesis
    unfolding canonical_uuid_code uuid_hyphens_code
    using assms(1-5) zs by (simp only: zip_append length_replicate append_Cons append_Nil zip_Cons_Cons list_all_append
        list.pred_inject length_append list.size prod.case if_True) simp
qed

lemma uuid_text_canonical: "uuid_text bs = Inr t \<Longrightarrow> canonical_uuid t"
proof -
  assume a: "uuid_text bs = Inr t"
  let ?h = "hexdigest bs"
  have len: "length ?h = 32" and dig: "list_all is_hex_digit ?h"
    using a hexdigest_digits [of bs] by (auto simp: uuid_text_def uuid_str_def split: if_splits)
  have cut: "drop n ?h = take k (drop n ?h) @ drop (k + n) ?h" for n k
    by (metis append_take_drop_id drop_drop)
  have "?h = take 8 ?h @ drop 8 ?h" by simp
  also have "drop 8 ?h = take 4 (drop 8 ?h) @ drop 12 ?h" using cut [of 8 4] by simp
  also have "drop 12 ?h = take 4 (drop 12 ?h) @ drop 16 ?h" using cut [of 12 4] by simp
  also have "drop 16 ?h = take 4 (drop 16 ?h) @ drop 20 ?h" using cut [of 16 4] by simp
  finally have split: "take 8 ?h @ take 4 (drop 8 ?h) @ take 4 (drop 12 ?h) @ take 4 (drop 16 ?h) @ drop 20 ?h = ?h" ..
  have "list_all is_hex_digit (take 8 ?h @ take 4 (drop 8 ?h) @ take 4 (drop 12 ?h) @ take 4 (drop 16 ?h) @ drop 20 ?h)"
    using dig by (simp only: split)
  from canonical_uuid_groups [OF _ _ _ _ _ this] len a show ?thesis
    by (auto simp: uuid_text_def uuid_str_def Let_def split: if_splits)
qed

section \<open>Evidence as it is written\<close>

text \<open>The values in the operation's evidence are numbers, texts and truth values, so JSON only reorders the items.\<close>

fun flat :: "pyval \<Rightarrow> bool" where
  "flat (PyInt _) = True"
| "flat (PyStr _) = True"
| "flat (PyBool _) = True"
| "flat _ = False"

definition flat_evidence :: "pydict \<Rightarrow> bool" where
  "flat_evidence ev = (distinct (map fst ev) \<and> list_all (\<lambda>(k, v). \<not> is_KInt k \<and> flat v) ev)"

definition same_items :: "pydict \<Rightarrow> pydict \<Rightarrow> bool" where
  "same_items d ev = ((\<forall>k. dict_get d k = dict_get ev k) \<and> (\<forall>ks. dict_keys_are d ks = dict_keys_are ev ks))"

lemma same_items_refl [simp]: "same_items ev ev"
  by (simp add: same_items_def)

lemma flat_sort [simp]: "flat v \<Longrightarrow> sort_dicts v = v" "flat v \<Longrightarrow> plain v"
  by (cases v; simp)+

lemma flat_evidence_plain: "flat_evidence ev \<Longrightarrow> plain (PyDict ev)"
  by (auto simp: flat_evidence_def list_all_iff)

lemma flat_evidence_sorted:
  assumes "flat_evidence ev"
  shows "same_items (sorted_items ev) ev"
proof -
  have d: "distinct (map fst ev)" using assms by (simp add: flat_evidence_def)
  have "sort_dicts (dict_get ev k) = dict_get ev k" for k
    using assms by (auto simp: dict_get_def flat_evidence_def list_all_iff split: option.splits dest!: map_of_SomeD)
  then show ?thesis by (simp add: same_items_def dict_get_sorted_items [OF d] dict_keys_are_sorted_items)
qed

lemmas evidence_defs = abort_evidence_def start_intent_evidence_def status_evidence_def cancel_intent_evidence_def
  continue_intent_evidence_def continue_observed_evidence_def identity_evidence_def witness_evidence_def
  failure_evidence_def outcome_unknown_evidence_def

lemma evidence_flat:
  "flat_evidence (abort_evidence env)" "flat_evidence (start_intent_evidence env uid bs)"
  "flat_evidence (status_evidence st)" "flat_evidence (cancel_intent_evidence env reason)"
  "flat_evidence (continue_intent_evidence env event raw)" "flat_evidence (continue_observed_evidence event st)"
  "flat_evidence (identity_evidence env event identity u)" "flat_evidence (witness_evidence env uid event raw)"
  "flat_evidence (failure_evidence env event st)" "flat_evidence (outcome_unknown_evidence env stage reason)"
  by (simp_all add: evidence_defs flat_evidence_def)

section \<open>Milestones the journal takes\<close>

definition takes :: "(string \<Rightarrow> string) \<Rightarrow> string \<Rightarrow> pydict \<Rightarrow> enroll_state \<Rightarrow> enroll_state \<Rightarrow> bool" where
  "takes J m ev st st' = (\<forall>d. same_items d ev \<longrightarrow> enroll_milestone J (PyStr m) (PyDict d) st = Inr st')"

text \<open>The baseline of the journal is the one the operation was constructed for.\<close>

definition base_match :: "'w operation_env \<Rightarrow> int \<Rightarrow> enroll_state \<Rightarrow> bool" where
  "base_match env uid st =
     (dict_get (es_baseline st) ''connection_generation'' = PyStr (env_connection_generation env)
      \<and> dict_get (es_baseline st) ''apple_uid'' = PyInt uid
      \<and> dict_get (es_baseline st) ''protocol_version'' = PyInt (env_protocol_version env))"

lemma takesI:
  assumes "\<And>d. (\<And>k. dict_get d k = dict_get ev k) \<Longrightarrow> (\<And>ks. dict_keys_are d ks = dict_keys_are ev ks) \<Longrightarrow>
    enroll_milestone J (PyStr m) (PyDict d) st = Inr st'"
  shows "takes J m ev st st'"
  using assms by (auto simp: takes_def same_items_def)

lemma keys_of_literal:
  "dict_has ((k, v) # d) j = (k = KStr j \<or> dict_has d j)"
  "dict_keys_are ((k, v) # d) ks =
     (list_all (\<lambda>(k, _). \<exists>s\<in>set ks. k = KStr s) ((k, v) # d) \<and> list_all (dict_has ((k, v) # d)) ks)"
  by (simp_all add: dict_has_def dict_keys_are_def)

lemmas take_simps = enroll_milestone_def e_exact_def e_same_generation_def base_match_def keys_of_literal
  e_status_def e_uint_def e_sha256_def e_uuid_def py_simps evidence_defs

lemma takes_abort:
  "base_match env uid st \<Longrightarrow> es_phase st = E_BASELINE \<Longrightarrow>
   takes J ''ENROLL_ABORTED_BEFORE_START'' (abort_evidence env) st (st\<lparr>es_phase := E_ABORTED_BEFORE_START\<rparr>)"
  by (rule takesI) (simp add: take_simps e_aborted_before_start_def)

lemma takes_start_intent:
  "base_match env uid st \<Longrightarrow> es_phase st = E_BASELINE \<Longrightarrow> length (env_sha256 env bs) = 32 \<Longrightarrow>
   length bs = (if env_protocol_version env = 1 then 48 else 68) \<Longrightarrow>
   takes J ''ENROLL_START_INTENT'' (start_intent_evidence env uid bs) st (st\<lparr>es_phase := E_START_INTENT\<rparr>)"
  by (rule takesI)
    (simp add: take_simps e_start_intent_def hexdigest_sha256)

lemma takes_start_observed:
  "es_phase st = E_START_INTENT \<Longrightarrow>
   takes J ''ENROLL_START_OBSERVED'' (status_evidence 0) st (st\<lparr>es_phase := E_ACTIVE\<rparr>)"
  by (rule takesI) (simp add: take_simps e_start_observed_def)

lemma takes_start_rejected:
  "es_phase st = E_START_INTENT \<Longrightarrow> - (2 ^ 31) \<le> n \<Longrightarrow> n < 2 ^ 32 \<Longrightarrow> n \<noteq> 0 \<Longrightarrow>
   takes J ''ENROLL_START_REJECTED'' (status_evidence n) st
     (st\<lparr>es_terminal_status := Some n, es_phase := E_TERMINAL_FAILURE\<rparr>)"
  by (rule takesI) (simp add: take_simps e_start_rejected_def)

lemma takes_continue_intent:
  "base_match env uid st \<Longrightarrow> es_phase st = E_ACTIVE \<Longrightarrow> length (env_sha256 env raw) = 32 \<Longrightarrow> event_ok e \<Longrightarrow>
   ev_ordinal e = 70 \<or> 100 \<le> ev_ordinal e \<and> ev_ordinal e \<le> 355 \<Longrightarrow> \<not> not_increasing st (ev_sequence e) \<Longrightarrow>
   takes J ''ENROLL_CONTINUE_INTENT'' (continue_intent_evidence env e raw) st
     (st\<lparr>es_pending_event := Some (ev_sequence e), es_phase := E_CONTINUE_INTENT\<rparr>)"
  by (rule takesI) (auto simp: take_simps e_continue_intent_def hexdigest_sha256 event_ok_def in_uint_def)

lemma takes_continue_observed:
  "es_phase st = E_CONTINUE_INTENT \<Longrightarrow> es_pending_event st = Some (ev_sequence e) \<Longrightarrow> event_ok e \<Longrightarrow>
   - (2 ^ 31) \<le> n \<Longrightarrow> n < 2 ^ 32 \<Longrightarrow>
   takes J ''ENROLL_CONTINUE_OBSERVED'' (continue_observed_evidence e n) st
     (st\<lparr>es_last_event := Some (ev_sequence e), es_pending_event := None, es_phase := E_ACTIVE\<rparr>)"
  by (rule takesI) (auto simp: take_simps e_continue_observed_def event_ok_def in_uint_def Let_def)

lemma takes_cancel_intent:
  "base_match env uid st \<Longrightarrow> es_phase st = E_ACTIVE \<Longrightarrow> reason \<in> {''caller-requested'', ''primary-failure''} \<Longrightarrow>
   takes J ''ENROLL_CANCEL_INTENT'' (cancel_intent_evidence env reason) st (st\<lparr>es_phase := E_CANCEL_INTENT\<rparr>)"
  by (rule takesI) (auto simp: take_simps e_cancel_intent_def)

lemma takes_cancel_observed:
  "es_phase st = E_CANCEL_INTENT \<Longrightarrow>
   takes J ''ENROLL_CANCEL_DISPATCH_OBSERVED'' (status_evidence 0) st (st\<lparr>es_phase := E_CANCEL_REQUESTED\<rparr>)"
  by (rule takesI) (simp add: take_simps e_cancel_dispatch_observed_def)

lemma takes_identity:
  "base_match env uid st \<Longrightarrow> es_phase st \<in> {E_ACTIVE, E_CANCEL_REQUESTED} \<Longrightarrow> event_ok e \<Longrightarrow>
   \<not> not_increasing st (ev_sequence e) \<Longrightarrow> ev_envelope_type e = 0xE3FF8003 \<Longrightarrow> ev_version e \<in> {1, 2} \<Longrightarrow>
   id_user_id i = uid \<Longrightarrow> canonical_uuid u \<Longrightarrow>
   takes J ''E2_TERMINAL_IDENTITY_OBSERVED'' (identity_evidence env e i u) st
     (st\<lparr>es_terminal_identity_uuid := Some u, es_last_event := Some (ev_sequence e), es_phase := E_TERMINAL_IDENTITY\<rparr>)"
  by (rule takesI) (auto simp: take_simps e_terminal_identity_def event_ok_def in_uint_def in_int_tuple_def
      require_uuid_def Enrollment_Journal.SERVICE_ENROLLMENT_RESULT_def)

lemma takes_witness:
  "base_match env uid st \<Longrightarrow> es_phase st \<in> {E_ACTIVE, E_CANCEL_REQUESTED} \<Longrightarrow> event_ok e \<Longrightarrow>
   length (env_sha256 env raw) = 32 \<Longrightarrow>
   \<not> not_increasing st (ev_sequence e) \<Longrightarrow> ev_envelope_type e = 0xE3FF8003 \<Longrightarrow>
   ev_version e = 1 \<and> 20 \<le> length (ev_payload e) \<or> ev_version e = 2 \<and> 40 \<le> length (ev_payload e) \<Longrightarrow>
   takes J ''E2_TERMINAL_RESULT_WITNESSED'' (witness_evidence env uid e raw) st
     (st\<lparr>es_last_event := Some (ev_sequence e), es_phase := E_TERMINAL_WITNESS\<rparr>)"
  by (rule takesI) (auto simp: take_simps e_terminal_witness_def event_ok_def in_uint_def hexdigest_sha256
      MAX_EVENT_PAYLOAD_def Let_def Enrollment_Journal.SERVICE_ENROLLMENT_RESULT_def)

lemma takes_failure:
  "base_match env uid st \<Longrightarrow> es_phase st \<in> {E_ACTIVE, E_CANCEL_REQUESTED} \<Longrightarrow> event_ok e \<Longrightarrow>
   \<not> not_increasing st (ev_sequence e) \<Longrightarrow> ev_envelope_type e = 0xE3FF8001 \<Longrightarrow> n \<in> {66, 67, 68} \<Longrightarrow>
   takes J ''ENROLL_TERMINAL_FAILURE_OBSERVED'' (failure_evidence env e n) st
     (st\<lparr>es_last_event := Some (ev_sequence e), es_terminal_status := Some n, es_phase := E_TERMINAL_FAILURE\<rparr>)"
  by (rule takesI) (auto simp: take_simps e_terminal_failure_def event_ok_def in_uint_def in_int_tuple_def
      Enrollment_Journal.SERVICE_STATUS_def)

definition active_phases :: "enrollment_phase set" where
  "active_phases = {E_START_INTENT, E_ACTIVE, E_CONTINUE_INTENT, E_CANCEL_INTENT, E_CANCEL_REQUESTED}"

lemma takes_outcome_unknown:
  assumes "base_match env uid st" and "es_phase st \<in> active_phases"
    and "stage \<in> set [''start'', ''active'', ''continue'', ''cancel'', ''terminal'']"
    and "reason \<in> set [''transport-error'', ''connection-lost'', ''journal-error'', ''protocol-error'']"
  shows "takes J ''ENROLL_OUTCOME_UNKNOWN'' (outcome_unknown_evidence env stage reason) st
     (st\<lparr>es_outcome_unknown_stage := Some stage, es_phase := E_OUTCOME_UNKNOWN\<rparr>)"
proof (rule takesI)
  fix d
  assume d: "\<And>k. dict_get d k = dict_get (outcome_unknown_evidence env stage reason) k"
    "\<And>ks. dict_keys_are d ks = dict_keys_are (outcome_unknown_evidence env stage reason) ks"
  have "es_phase st \<in> {E_START_INTENT, E_ACTIVE, E_CONTINUE_INTENT, E_CANCEL_INTENT, E_CANCEL_REQUESTED,
      E_TERMINAL_WITNESS, E_PERSISTING}" and np: "es_phase st \<noteq> E_PERSISTING"
    using assms(2) by (auto simp: active_phases_def)
  then have ph: "(es_phase st \<notin> {E_START_INTENT, E_ACTIVE, E_CONTINUE_INTENT, E_CANCEL_INTENT, E_CANCEL_REQUESTED,
      E_TERMINAL_WITNESS, E_PERSISTING}) = False" by simp
  have keys: "dict_keys_are d [''connection_generation'', ''stage'', ''reason'', ''mutation_possible'']"
    by (simp add: d outcome_unknown_evidence_def keys_of_literal)
  have get: "dict_get d ''stage'' = PyStr stage" "dict_get d ''reason'' = PyStr reason"
    "dict_get d ''mutation_possible'' = PyBool True"
    "dict_get d ''connection_generation'' = PyStr (env_connection_generation env)"
    by (simp_all add: d outcome_unknown_evidence_def)
  have "e_outcome_unknown (PyDict d) st = Inr (st\<lparr>es_outcome_unknown_stage := Some stage, es_phase := E_OUTCOME_UNKNOWN\<rparr>)"
    using keys get assms(1,3,4) unfolding e_outcome_unknown_def ph Let_def
    by (simp add: e_exact_def e_same_generation_def base_match_def py_simps dict_is_true_def np del: set_simps)
  then show "enroll_milestone J (PyStr ''ENROLL_OUTCOME_UNKNOWN'') (PyDict d) st =
      Inr (st\<lparr>es_outcome_unknown_stage := Some stage, es_phase := E_OUTCOME_UNKNOWN\<rparr>)"
    by (simp add: enroll_milestone_def py_simps startswith_def)
qed

end
