(* ===== verification/Operation_History.thy ===== *)
theory Operation_History
  imports Operation_Logic
begin

text \<open>
  The operation's \<^verbatim>\<open>history\<close> and the journal file: what one checked append does to both, whatever its writes
  do. The invariant of the operation says that its commands were announced, that the journal file stays
  recoverable, and that as long as no append failed the history is the replay of the file.
\<close>

section \<open>Histories and replayed states\<close>

definition shown :: "enrollment_history \<Rightarrow> enroll_state \<Rightarrow> bool" where
  "shown h st = (eh_phase h = es_phase st \<and> eh_last_event_sequence h = es_last_event st
     \<and> eh_pending_event_sequence h = es_pending_event st \<and> eh_terminal_status h = es_terminal_status st
     \<and> eh_terminal_identity_uuid h = es_terminal_identity_uuid st)"

lemma validate_shown:
  assumes "enrollment_validate_history J rs = Inr h"
  obtains st where "enrollment.run J rs = Inr st" "shown h st" "rs \<noteq> []" "eh_operation_id h = es_operation_id st"
proof -
  from assms obtain r rest s0 st where r: "rs = r # rest" "enroll_start r = Inr s0" "fold_res (enroll_step J) rest s0 = Inr st"
    and h: "shown h st" "eh_operation_id h = es_operation_id st"
    by (cases rs) (auto simp: enrollment_validate_history_def shown_def res_simps Let_def)
  then have "enrollment.run J rs = Inr st" by (simp add: enrollment.run_def)
  with r h show ?thesis by (intro that) auto
qed

text \<open>What no milestone changes.\<close>

lemma enroll_step_fixed:
  assumes "enroll_step J r s = Inr s'"
  shows "es_baseline s' = es_baseline s \<and> es_operation_id s' = es_operation_id s"
  using assms
proof (cases rule: enroll_step_cases)
  case milestone
  from milestone(3) show ?thesis
  proof (cases rule: enroll_milestone_cases)
    case catacomb
    from e_catacomb_ok [OF this(2)] show ?thesis by (elim exE conjE) simp
  qed (auto dest!: enroll_ok)
qed simp

lemma enroll_run_fixed:
  assumes "enrollment.run J (r # rs) = Inr s" and "enroll_start r = Inr b"
  shows "es_baseline s = es_baseline b \<and> es_operation_id s = es_operation_id b"
proof -
  have "fold_res (enroll_step J) rs b = Inr s" using assms by (simp add: enrollment.run_def)
  then show ?thesis
    by (rule fold_res_invariant) (auto dest: enroll_step_fixed)
qed

text \<open>Before the start was observed there is no event.\<close>

lemma no_event_before_start:
  assumes "enrollment.run J rs = Inr s"
  shows "es_phase s \<in> {E_BASELINE, E_START_INTENT} \<longrightarrow> es_last_event s = None"
  using assms
proof (induction rule: enrollment.run_induct)
  case (start r s)
  with enroll_start_ok [OF start] show ?case by simp
next
  case (step rs r s s')
  from step(3) show ?case
  proof (cases rule: enroll_step_cases)
    case milestone
    from milestone(3) show ?thesis
    proof (cases rule: enroll_milestone_cases)
      case catacomb
      from e_catacomb_phase(1) [OF this(2)] show ?thesis by auto
    qed (use step(4) in \<open>auto dest!: enroll_ok\<close>)
  qed (use step(4) in simp)
qed

section \<open>Offered milestones\<close>

lemma candidate_accepted:
  assumes "enrollment_validate_history J rs = Inr h" and "eh_operation_id h = i"
    and "\<And>st. enrollment.run J rs = Inr st \<Longrightarrow> shown h st \<Longrightarrow> \<exists>st'. takes J m ev st st'"
    and "\<not> is_repair_milestone (PyStr m)"
  shows "\<exists>h'. enrollment_validate_history J (rs @ [candidate_record i m ev]) = Inr h'"
proof -
  from assms(1) obtain st where st: "enrollment.run J rs = Inr st" "shown h st" "rs \<noteq> []"
    "eh_operation_id h = es_operation_id st" by (rule validate_shown)
  from assms(3) [OF st(1,2)] obtain st' where "takes J m ev st st'" by blast
  then have "enroll_milestone J (PyStr m) (PyDict ev) st = Inr st'" by (simp add: takes_def)
  then have step: "enroll_step J (candidate_record i m ev) st = Inr st'"
    using assms(2,4) st(4) by (simp add: enroll_step_def candidate_record_def)
  obtain r rest where r: "rs = r # rest" using st(3) by (cases rs) auto
  obtain s0 where s0: "enroll_start r = Inr s0" "fold_res (enroll_step J) rest s0 = Inr st"
    using st(1) r by (auto simp: enrollment.run_def res_simps)
  have "e_sha256 (PyStr (replicate 64 CHR ''0'')) f = Inr ()" for f
  proof -
    have "fromhex_ok (replicate 64 CHR ''0'')" by code_simp
    then show ?thesis by (simp add: e_sha256_def require_sha256_def py_simps)
  qed
  then show ?thesis
    using step unfolding r append_Cons enrollment_validate_from [OF s0(1)]
    by (simp add: fold_res_append s0(2) enroll_history_of_def candidate_record_def)
qed

text \<open>The history after a milestone that was stored.\<close>

definition after_milestone :: "(string \<Rightarrow> string) \<Rightarrow> string \<Rightarrow> pydict \<Rightarrow> enrollment_history \<Rightarrow> bool" where
  "after_milestone J m ev h = (\<exists>st st' d. same_items d ev \<and> enroll_milestone J (PyStr m) (PyDict d) st = Inr st' \<and> shown h st')"

lemma stored_milestone:
  assumes "enrollment_validate_history J (rs @ [r]) = Inr h'" and "rs \<noteq> []"
    and "dict_get r ''milestone'' = PyStr m" and "dict_get r ''evidence'' = sort_dicts (PyDict ev)"
    and "flat_evidence ev" and "\<not> is_repair_milestone (PyStr m)"
  shows "\<exists>st st' d. enrollment.run J rs = Inr st \<and> same_items d ev
    \<and> enroll_milestone J (PyStr m) (PyDict d) st = Inr st' \<and> shown h' st' \<and> eh_operation_id h' = es_operation_id st"
proof -
  from assms(1) obtain st' where st': "enrollment.run J (rs @ [r]) = Inr st'" "shown h' st'"
    "eh_operation_id h' = es_operation_id st'" by (rule validate_shown)
  from st'(1) assms(2) obtain st where st: "enrollment.run J rs = Inr st" "enroll_step J r st = Inr st'"
    by (auto simp: enrollment.run_snoc res_simps)
  have "enroll_milestone J (PyStr m) (PyDict (sorted_items ev)) st = Inr st'"
    using st(2) by (cases rule: enroll_step_cases) (use assms(3,4,6) in \<open>auto simp: is_repair_record_def sort_dicts_PyDict\<close>)
  with st(1) st'(2,3) enroll_step_fixed [OF st(2)] flat_evidence_sorted [OF assms(5)] show ?thesis by force
qed

lemma after_milestoneE:
  assumes "after_milestone J m ev h"
  obtains st st' d where "same_items d ev" "enroll_milestone J (PyStr m) (PyDict d) st = Inr st'" "shown h st'"
  using assms by (auto simp: after_milestone_def)

lemma milestone_branch:
  "enroll_milestone J (PyStr ''ENROLL_ABORTED_BEFORE_START'') v st = e_aborted_before_start v st"
  "enroll_milestone J (PyStr ''ENROLL_START_INTENT'') v st = e_start_intent v st"
  "enroll_milestone J (PyStr ''ENROLL_START_OBSERVED'') v st = e_start_observed v st"
  "enroll_milestone J (PyStr ''ENROLL_START_REJECTED'') v st = e_start_rejected v st"
  "enroll_milestone J (PyStr ''ENROLL_CONTINUE_INTENT'') v st = e_continue_intent v st"
  "enroll_milestone J (PyStr ''ENROLL_CONTINUE_OBSERVED'') v st = e_continue_observed v st"
  "enroll_milestone J (PyStr ''ENROLL_CANCEL_INTENT'') v st = e_cancel_intent v st"
  "enroll_milestone J (PyStr ''ENROLL_CANCEL_DISPATCH_OBSERVED'') v st = e_cancel_dispatch_observed v st"
  "enroll_milestone J (PyStr ''E2_TERMINAL_IDENTITY_OBSERVED'') v st = e_terminal_identity v st"
  "enroll_milestone J (PyStr ''E2_TERMINAL_RESULT_WITNESSED'') v st = e_terminal_witness v st"
  "enroll_milestone J (PyStr ''ENROLL_TERMINAL_FAILURE_OBSERVED'') v st = e_terminal_failure v st"
  "enroll_milestone J (PyStr ''ENROLL_OUTCOME_UNKNOWN'') v st = e_outcome_unknown v st"
  by (simp_all add: enroll_milestone_def startswith_def py_simps)

text \<open>The phase that each milestone of the operation leaves.\<close>

lemma after_phase:
  "after_milestone J ''ENROLL_ABORTED_BEFORE_START'' ev h \<Longrightarrow> eh_phase h = E_ABORTED_BEFORE_START"
  "after_milestone J ''ENROLL_START_INTENT'' ev h \<Longrightarrow> eh_phase h = E_START_INTENT"
  "after_milestone J ''ENROLL_START_OBSERVED'' ev h \<Longrightarrow> eh_phase h = E_ACTIVE"
  "after_milestone J ''ENROLL_CONTINUE_INTENT'' ev h \<Longrightarrow> eh_phase h = E_CONTINUE_INTENT"
  "after_milestone J ''ENROLL_CONTINUE_OBSERVED'' ev h \<Longrightarrow> eh_phase h = E_ACTIVE"
  "after_milestone J ''ENROLL_CANCEL_INTENT'' ev h \<Longrightarrow> eh_phase h = E_CANCEL_INTENT"
  "after_milestone J ''ENROLL_CANCEL_DISPATCH_OBSERVED'' ev h \<Longrightarrow> eh_phase h = E_CANCEL_REQUESTED"
  "after_milestone J ''E2_TERMINAL_RESULT_WITNESSED'' ev h \<Longrightarrow> eh_phase h = E_TERMINAL_WITNESS"
  "after_milestone J ''ENROLL_OUTCOME_UNKNOWN'' ev h \<Longrightarrow> eh_phase h = E_OUTCOME_UNKNOWN"
  by (auto elim!: after_milestoneE dest!: enroll_ok simp: milestone_branch shown_def)

lemma after_start_rejected:
  "after_milestone J ''ENROLL_START_REJECTED'' (status_evidence n) h \<Longrightarrow>
     eh_phase h = E_TERMINAL_FAILURE \<and> eh_terminal_status h = Some n"
  by (auto elim!: after_milestoneE simp: milestone_branch shown_def e_start_rejected_def res_simps e_exact_def
      e_status_def status_evidence_def same_items_def py_simps)

lemma after_identity:
  "after_milestone J ''E2_TERMINAL_IDENTITY_OBSERVED'' (identity_evidence env e i u) h \<Longrightarrow>
     eh_phase h = E_TERMINAL_IDENTITY \<and> eh_terminal_identity_uuid h = Some u"
  by (auto elim!: after_milestoneE simp: milestone_branch shown_def e_terminal_identity_def res_simps e_exact_def
      identity_evidence_def same_items_def py_simps)

lemma after_failure:
  "after_milestone J ''ENROLL_TERMINAL_FAILURE_OBSERVED'' (failure_evidence env e n) h \<Longrightarrow>
     eh_phase h = E_TERMINAL_FAILURE \<and> eh_terminal_status h = Some n"
  by (auto elim!: after_milestoneE simp: milestone_branch shown_def e_terminal_failure_def res_simps e_exact_def
      failure_evidence_def same_items_def py_simps)

section \<open>The invariant of the operation\<close>

definition no_failure :: "op_effect list \<Rightarrow> bool" where
  "no_failure tr = (\<forall>fs m ev e. Journaled fs m ev (Inl e) \<notin> set tr)"

definition is_command :: "op_effect \<Rightarrow> bool" where
  "is_command c = (case c of Sent_Start _ \<Rightarrow> True | Sent_Continue \<Rightarrow> True | Sent_Cancel \<Rightarrow> True | _ \<Rightarrow> False)"

text \<open>The stored append that must come directly before a command.\<close>

definition announces :: "'w operation_env \<Rightarrow> int \<Rightarrow> op_effect \<Rightarrow> op_effect \<Rightarrow> bool" where
  "announces env uid a c = (case c of
     Sent_Start bs \<Rightarrow> \<exists>fs h. a = Journaled fs ''ENROLL_START_INTENT'' (start_intent_evidence env uid bs) (Inr h)
   | Sent_Continue \<Rightarrow> \<exists>fs ev h. a = Journaled fs ''ENROLL_CONTINUE_INTENT'' ev (Inr h)
   | Sent_Cancel \<Rightarrow> \<exists>fs ev h. a = Journaled fs ''ENROLL_CANCEL_INTENT'' ev (Inr h)
   | _ \<Rightarrow> True)"

definition write_ahead :: "'w operation_env \<Rightarrow> int \<Rightarrow> op_effect list \<Rightarrow> bool" where
  "write_ahead env uid tr =
     (\<forall>as c bs. tr = as @ c # bs \<longrightarrow> is_command c \<longrightarrow> as \<noteq> [] \<and> announces env uid (last as) c)"

text \<open>The first append that fails was not one that the replay of the journal refuses.\<close>

definition offers_accepted :: "(string \<Rightarrow> string) \<Rightarrow> string \<Rightarrow> op_effect list \<Rightarrow> bool" where
  "offers_accepted J i tr =
     (\<forall>as fs m ev e bs. tr = as @ Journaled fs m ev (Inl e) # bs \<longrightarrow> no_failure as \<longrightarrow>
        (\<exists>rs h. clean J rs fs \<and> enrollment_validate_history J (rs @ [candidate_record i m ev]) = Inr h))"

lemma snoc_eq_split: "xs @ [x] = as @ c # bs \<longleftrightarrow> (\<exists>bs'. bs = bs' @ [x] \<and> xs = as @ c # bs') \<or> bs = [] \<and> xs = as \<and> x = c"
  by (cases bs rule: rev_cases) auto

lemma no_failure_append [simp]: "no_failure (as @ bs) \<longleftrightarrow> no_failure as \<and> no_failure bs"
  by (auto simp: no_failure_def)

lemma no_failure_Nil [simp]: "no_failure []"
  by (simp add: no_failure_def)

lemma no_failure_Cons [simp]:
  "no_failure (Journaled fs m ev (Inl e) # tr) = False" "no_failure (Journaled fs m ev (Inr h) # tr) = no_failure tr"
  "no_failure (Sent_Start bs # tr) = no_failure tr" "no_failure (Sent_Continue # tr) = no_failure tr"
  "no_failure (Sent_Cancel # tr) = no_failure tr" "no_failure (Polled # tr) = no_failure tr"
  "no_failure (Called_Back # tr) = no_failure tr"
  by (auto simp: no_failure_def)

lemma write_ahead_snoc: "write_ahead env uid (tr @ [c]) \<longleftrightarrow>
    write_ahead env uid tr \<and> (is_command c \<longrightarrow> tr \<noteq> [] \<and> announces env uid (last tr) c)"
  by (auto simp: write_ahead_def snoc_eq_split)

lemma offers_accepted_snoc: "offers_accepted J i (tr @ [c]) \<longleftrightarrow> offers_accepted J i tr \<and>
    (\<forall>fs m ev e. c = Journaled fs m ev (Inl e) \<longrightarrow> no_failure tr \<longrightarrow>
       (\<exists>rs h. clean J rs fs \<and> enrollment_validate_history J (rs @ [candidate_record i m ev]) = Inr h))"
  unfolding offers_accepted_def snoc_eq_split by blast

text \<open>The journal and the digest that the operation was constructed for.\<close>

definition ready :: "'w operation_env \<Rightarrow> pydict \<Rightarrow> string \<Rightarrow> int \<Rightarrow> bool" where
  "ready env first i uid = ((\<forall>bs. length (env_sha256 env bs) = 32)
     \<and> (\<exists>b. enroll_start first = Inr b \<and> es_operation_id b = i \<and> base_match env uid b))"

text \<open>The history is the replay of the file.\<close>

definition in_step :: "'w operation_env \<Rightarrow> pydict \<Rightarrow> 'w op_state \<Rightarrow> bool" where
  "in_step env first s = (\<exists>rs. clean (env_record_hash env) (first # rs) (op_fs s)
     \<and> enrollment_validate_history (env_record_hash env) (first # rs) = Inr (op_history s))"

definition op_inv :: "'w operation_env \<Rightarrow> pydict \<Rightarrow> 'w op_state \<Rightarrow> bool" where
  "op_inv env first s =
     (ready env first (op_operation_id s) (op_apple_user_id s)
      \<and> recoverable (env_record_hash env) first (op_fs s)
      \<and> write_ahead env (op_apple_user_id s) (op_trace s)
      \<and> offers_accepted (env_record_hash env) (op_operation_id s) (op_trace s)
      \<and> (no_failure (op_trace s) \<longrightarrow> in_step env first s))"

text \<open>What no method changes; only the \<^verbatim>\<open>with\<close> statement touches the request.\<close>

definition frame :: "'w op_state \<Rightarrow> 'w op_state \<Rightarrow> bool" where
  "frame s s' = (op_operation_id s' = op_operation_id s \<and> op_apple_user_id s' = op_apple_user_id s
     \<and> (\<exists>tr. op_trace s' = op_trace s @ tr))"

lemma frame_refl [simp]: "frame s s"
  by (simp add: frame_def)

lemma frame_trans [trans]: "frame s s' \<Longrightarrow> frame s' s'' \<Longrightarrow> frame s s''"
  by (auto simp: frame_def)

lemma frame_no_failure: "frame s s' \<Longrightarrow> no_failure (op_trace s') \<Longrightarrow> no_failure (op_trace s)"
  by (auto simp: frame_def)

lemma effect_simps [simp]:
  "op_fs (effect c s w) = op_fs s" "op_operation_id (effect c s w) = op_operation_id s"
  "op_history (effect c s w) = op_history s" "op_apple_user_id (effect c s w) = op_apple_user_id s"
  "op_request (effect c s w) = op_request s" "op_trace (effect c s w) = op_trace s @ [c]"
  "frame s (effect c s w)"
  by (simp_all add: effect_def frame_def)

lemma op_inv_effect:
  assumes "op_inv env first s" and "\<And>fs m ev r. c \<noteq> Journaled fs m ev r"
    and "is_command c \<Longrightarrow> op_trace s \<noteq> [] \<and> announces env (op_apple_user_id s) (last (op_trace s)) c"
  shows "op_inv env first (effect c s w)"
  using assms by (cases c) (auto simp: op_inv_def write_ahead_snoc offers_accepted_snoc in_step_def)

lemma start_operation_id: "enroll_start r = Inr b \<Longrightarrow> dict_get r ''operation_id'' = PyStr (es_operation_id b)"
proof -
  assume "enroll_start r = Inr b"
  then have "e_uuid (dict_get r ''operation_id'') ''operation_id'' = Inr ()"
    "es_operation_id b = str_of (dict_get r ''operation_id'')"
    by (auto simp: enroll_start_def res_simps Let_def)
  then show ?thesis by (auto simp: e_uuid_def rewrap_Inr_iff require_uuid_def py_simps split: if_splits)
qed

lemma ready_operation_id: "ready env first i uid \<Longrightarrow> dict_get first ''operation_id'' = PyStr i"
  by (auto simp: ready_def dest: start_operation_id)

text \<open>The replayed state behind a history that is in step.\<close>

lemma in_step_state:
  assumes "op_inv env first s" and "no_failure (op_trace s)"
  obtains rs st where "clean (env_record_hash env) (first # rs) (op_fs s)"
    "enrollment_validate_history (env_record_hash env) (first # rs) = Inr (op_history s)"
    "enrollment.run (env_record_hash env) (first # rs) = Inr st" "shown (op_history s) st"
    "base_match env (op_apple_user_id s) st" "eh_operation_id (op_history s) = op_operation_id s"
proof -
  from assms obtain rs where rs: "clean (env_record_hash env) (first # rs) (op_fs s)"
    "enrollment_validate_history (env_record_hash env) (first # rs) = Inr (op_history s)"
    by (auto simp: op_inv_def in_step_def)
  from rs(2) obtain st where st: "enrollment.run (env_record_hash env) (first # rs) = Inr st" "shown (op_history s) st"
    "eh_operation_id (op_history s) = es_operation_id st" by (rule validate_shown)
  obtain b where b: "enroll_start first = Inr b" "es_operation_id b = op_operation_id s"
    "base_match env (op_apple_user_id s) b" using assms(1) by (auto simp: op_inv_def ready_def)
  from enroll_run_fixed [OF st(1) b(1)] b(2,3) st(3) show ?thesis
    by (intro that [OF rs st(1,2)]) (simp_all add: base_match_def)
qed

end
