(* ===== verification/Operation_Rules.thy ===== *)
theory Operation_Rules
  imports Operation_History
begin

text \<open>
  A rule for every method of the enrollment operation: what holds when it returns and when it raises. Each
  follows from the rules of the methods it calls by computing the weakest precondition.
\<close>

section \<open>Appends\<close>

text \<open>The file shows the history.\<close>

lemma in_step_later: "in_step env first s \<Longrightarrow> op_fs s' = op_fs s \<Longrightarrow> op_history s' = op_history s \<Longrightarrow> in_step env first s'"
  by (simp add: in_step_def)

text \<open>A milestone was stored.\<close>

definition stored :: "'w operation_env \<Rightarrow> pydict \<Rightarrow> string \<Rightarrow> pydict \<Rightarrow> 'w op_state \<Rightarrow> 'w op_state \<Rightarrow> bool" where
  "stored env first m ev s s' =
     (frame s s' \<and> op_inv env first s' \<and> in_step env first s'
      \<and> after_milestone (env_record_hash env) m ev (op_history s')
      \<and> (\<exists>fs. op_trace s' = op_trace s @ [Journaled fs m ev (Inr (op_history s'))])
      \<and> (no_failure (op_trace s') \<longrightarrow> (\<exists>st st'. takes (env_record_hash env) m ev st st' \<and> shown (op_history s) st
            \<and> shown (op_history s') st')))"

text \<open>An append failed; the history is the old one.\<close>

definition refused :: "'w operation_env \<Rightarrow> pydict \<Rightarrow> 'w op_state \<Rightarrow> 'w op_state \<Rightarrow> bool" where
  "refused env first s s' =
     (frame s s' \<and> op_inv env first s' \<and> op_history s' = op_history s \<and> \<not> no_failure (op_trace s')
      \<and> (\<forall>c \<in> set (op_trace s'). is_command c \<longrightarrow> c \<in> set (op_trace s)))"

text \<open>What the replayed state must allow for a milestone to be offered.\<close>

definition offerable :: "'w operation_env \<Rightarrow> string \<Rightarrow> pydict \<Rightarrow> 'w op_state \<Rightarrow> bool" where
  "offerable env m ev s = (no_failure (op_trace s) \<longrightarrow>
     (\<forall>rs st. enrollment.run (env_record_hash env) rs = Inr st \<longrightarrow> shown (op_history s) st \<longrightarrow>
        base_match env (op_apple_user_id s) st \<longrightarrow> (\<exists>st'. takes (env_record_hash env) m ev st st')))"

lemma takes_functional: "takes J m ev st st' \<Longrightarrow> same_items d ev \<Longrightarrow> enroll_milestone J (PyStr m) (PyDict d) st = Inr st'' \<Longrightarrow> st' = st''"
  by (auto simp: takes_def)

lemma wp_append:
  assumes inv: "op_inv env first s" and ev: "flat_evidence ev" and m: "\<not> is_repair_milestone (PyStr m)"
    and offer: "offerable env m ev s"
    and ok: "\<And>s'. stored env first m ev s s' \<Longrightarrow> Q () s'"
    and fail: "\<And>e s'. refused env first s s' \<Longrightarrow> E e s'"
  shows "wp (op_append env m ev) Q E s"
proof -
  let ?J = "env_record_hash env" and ?i = "op_operation_id s"
  obtain ws ws1 ws2 ws3 w where w: "env_writes env (op_world s) = ((ws, ws1, ws2, ws3), w)"
    by (cases "env_writes env (op_world s)") (auto elim: prod_cases4)
  obtain r fs where r: "enrollment_append_checked ?J ws ws1 ws2 ws3 ?i m ev (op_fs s) = (r, fs)" by fastforce
  define s1 where "s1 = s\<lparr>op_world := w, op_fs := fs, op_trace := op_trace s @ [Journaled (op_fs s) m ev r]\<rparr>"
  have rec: "recoverable ?J first (op_fs s)" and id: "dict_get first ''operation_id'' = PyStr ?i"
    and pl: "plain (PyDict ev)"
    using inv ready_operation_id [of env first ?i "op_apple_user_id s"] flat_evidence_plain [OF ev]
    by (simp_all add: op_inv_def)
  note app = enrollment_append.append_recoverable [OF rec id pl r]
  have acc: "\<exists>rs h. clean ?J rs (op_fs s) \<and> enrollment_validate_history ?J (rs @ [candidate_record ?i m ev]) = Inr h"
    if nf: "no_failure (op_trace s)"
  proof -
    from in_step_state [OF inv nf] obtain rs st where rs: "clean ?J (first # rs) (op_fs s)"
      "enrollment_validate_history ?J (first # rs) = Inr (op_history s)" "enrollment.run ?J (first # rs) = Inr st"
      "shown (op_history s) st" "base_match env (op_apple_user_id s) st" "eh_operation_id (op_history s) = ?i" .
    have "\<exists>st'. takes ?J m ev st'' st'" if "enrollment.run ?J (first # rs) = Inr st''" "shown (op_history s) st''" for st''
      using offer nf that rs(3,5) by (auto simp: offerable_def)
    from candidate_accepted [OF rs(2,6) this m] rs(1) show ?thesis by blast
  qed
  have fr: "frame s (s1\<lparr>op_history := h\<rparr>)" "frame s s1" for h by (auto simp: frame_def s1_def)
  show ?thesis
  proof (cases r)
    case (Inl e)
    have "refused env first s s1"
      using inv app(1) acc fr unfolding Inl refused_def
      by (auto simp: op_inv_def s1_def Inl write_ahead_snoc offers_accepted_snoc is_command_def)
    with fail show ?thesis
      by (simp add: wp_def op_append_def w r Let_def Inl s1_def)
  next
    case (Inr h)
    let ?s = "s1\<lparr>op_history := h\<rparr>"
    from app(2) [OF Inr] obtain rs r' where st: "clean ?J (first # rs @ [r']) fs"
      "enrollment_validate_history ?J (first # rs @ [r']) = Inr h"
      "dict_get r' ''milestone'' = PyStr m" "dict_get r' ''evidence'' = sort_dicts (PyDict ev)" by blast
    have step: "in_step env first ?s" using st(1,2) by (auto simp: in_step_def s1_def)
    have inv': "op_inv env first ?s"
      using inv app(1) step by (auto simp: op_inv_def s1_def Inr write_ahead_snoc offers_accepted_snoc is_command_def)
    have aft: "after_milestone ?J m ev h"
      using stored_milestone [of ?J "first # rs" r' h m ev] st ev m by (auto simp: after_milestone_def)
    have tk: "\<exists>st st'. takes ?J m ev st st' \<and> shown (op_history s) st \<and> shown h st'" if nf: "no_failure (op_trace s)"
    proof -
      from in_step_state [OF inv nf] obtain rs0 st0 where rs0: "clean ?J (first # rs0) (op_fs s)"
        "enrollment.run ?J (first # rs0) = Inr st0" "shown (op_history s) st0"
        "base_match env (op_apple_user_id s) st0" .
      obtain st1 where st1: "takes ?J m ev st0 st1" using offer nf rs0(2-4) unfolding offerable_def by blast
      from enrollment_append.append_to_clean [OF rs0(1) pl r [unfolded Inr]] obtain r0 where
        r0: "enrollment_validate_history ?J ((first # rs0) @ [r0]) = Inr h"
          "dict_get r0 ''milestone'' = PyStr m" "dict_get r0 ''evidence'' = sort_dicts (PyDict ev)" by auto
      from stored_milestone [OF r0(1) _ r0(2,3) ev m] rs0(2) obtain st' d where
        d: "same_items d ev" "enroll_milestone ?J (PyStr m) (PyDict d) st0 = Inr st'" "shown h st'" by auto
      with takes_functional [OF st1 d(1,2)] st1 rs0(3) show ?thesis by blast
    qed
    have "stored env first m ev s ?s"
      unfolding stored_def using fr inv' step aft tk by (auto simp: s1_def Inr)
    with ok show ?thesis by (simp add: wp_def op_append_def w r Let_def Inr s1_def)
  qed
qed

section \<open>Calls\<close>

lemma wp_plain_call:
  assumes "op_inv env first s" and "\<not> is_command c" and "\<And>fs m ev r. c \<noteq> Journaled fs m ev r"
    and "\<And>x s'. frame s s' \<Longrightarrow> op_inv env first s' \<Longrightarrow> op_history s' = op_history s \<Longrightarrow> op_trace s' = op_trace s @ [c] \<Longrightarrow>
      \<exists>w. f (op_world s) = (Inr x, w) \<Longrightarrow> Q x s'"
    and "\<And>e s'. frame s s' \<Longrightarrow> op_inv env first s' \<Longrightarrow> op_history s' = op_history s \<Longrightarrow> op_trace s' = op_trace s @ [c] \<Longrightarrow>
      \<exists>w. f (op_world s) = (Inl e, w) \<Longrightarrow> E e s'"
  shows "wp (op_call c f) Q E s"
  by (rule wp_call) (use assms op_inv_effect [OF assms(1,3)] in \<open>auto\<close>)

text \<open>Neither the history nor the journal changed.\<close>

definition quiet :: "'w operation_env \<Rightarrow> pydict \<Rightarrow> 'w op_state \<Rightarrow> 'w op_state \<Rightarrow> bool" where
  "quiet env first s s' = (frame s s' \<and> op_inv env first s' \<and> op_history s' = op_history s
     \<and> no_failure (op_trace s') = no_failure (op_trace s))"

lemma quiet_trans: "quiet env first s s1 \<Longrightarrow> quiet env first s1 s2 \<Longrightarrow> quiet env first s s2"
  by (auto simp: quiet_def intro: frame_trans)

text \<open>A command that was announced; its status is in range.\<close>

lemma wp_command:
  assumes "op_inv env first s" and "op_trace s \<noteq> [] \<and> announces env (op_apple_user_id s) (last (op_trace s)) c"
    and "is_command c"
    and "\<And>x s'. quiet env first s s' \<Longrightarrow> - (2 ^ 31) \<le> x \<Longrightarrow> x < 2 ^ 32 \<Longrightarrow> Q x s'"
    and "\<And>e s'. quiet env first s s' \<Longrightarrow> E e s'"
  shows "wp (op_command c name f) Q E s"
proof -
  have nj: "c \<noteq> Journaled fs m ev r" for fs m ev r using assms(3) by (auto simp: is_command_def)
  then have nf: "no_failure (op_trace s @ [c]) = no_failure (op_trace s)" by (cases c) auto
  have inv: "op_inv env first (effect c s w)" for w
    using op_inv_effect [OF assms(1) nj] assms(2) by blast
  show ?thesis
    unfolding op_command_def wp_simps
    by (rule wp_call) (use inv nf assms(4,5) in \<open>auto simp: quiet_def wp_simps transport_status_def py_simps split: sum.splits if_splits\<close>)
qed

section \<open>Losing track\<close>

lemma wp_state_if: "wp (\<lambda>s. if c s then m s else n s) Q E s = (if c s then wp m Q E s else wp n Q E s)"
  by (simp add: wp_def)

text \<open>How a method ends that has lost track of the device.\<close>

definition reconcile_error :: exc where
  "reconcile_error = operation_error ''enrollment outcome is unknown; reconciliation is required''"

definition unknown_end :: "'w operation_env \<Rightarrow> pydict \<Rightarrow> 'w op_state \<Rightarrow> exc \<Rightarrow> 'w op_state \<Rightarrow> bool" where
  "unknown_end env first s e s' =
     (frame s s' \<and> op_inv env first s'
      \<and> (e = reconcile_error \<and> eh_phase (op_history s') = E_OUTCOME_UNKNOWN \<and> in_step env first s'
         \<or> \<not> no_failure (op_trace s') \<and> eh_phase (op_history s') \<in> active_phases))"

lemma unknown_end_frame: "frame s s1 \<Longrightarrow> unknown_end env first s1 e s' \<Longrightarrow> unknown_end env first s e s'"
  by (auto simp: unknown_end_def intro: frame_trans)

text \<open>A state between two methods: the invariant, and the phase of the history.\<close>

definition at_phase :: "'w operation_env \<Rightarrow> pydict \<Rightarrow> 'w op_state \<Rightarrow> enrollment_phase set \<Rightarrow> 'w op_state \<Rightarrow> bool" where
  "at_phase env first s P s' = (frame s s' \<and> op_inv env first s' \<and> eh_phase (op_history s') \<in> P)"

lemma at_phase_frame: "frame s s1 \<Longrightarrow> at_phase env first s1 P s' \<Longrightarrow> at_phase env first s P s'"
  by (auto simp: at_phase_def intro: frame_trans)

lemma offerable_cancel:
  "eh_phase (op_history s) = E_ACTIVE \<Longrightarrow> reason \<in> {''caller-requested'', ''primary-failure''} \<Longrightarrow>
   offerable env ''ENROLL_CANCEL_INTENT'' (cancel_intent_evidence env reason) s"
  using takes_cancel_intent [of env "op_apple_user_id s"] by (fastforce simp: offerable_def shown_def)

lemma offerable_cancel_observed:
  "eh_phase (op_history s) = E_CANCEL_INTENT \<Longrightarrow>
   offerable env ''ENROLL_CANCEL_DISPATCH_OBSERVED'' (status_evidence 0) s"
  unfolding offerable_def shown_def by (metis takes_cancel_observed)

lemma not_repair_names:
  "\<not> is_repair_milestone (PyStr ''ENROLL_ABORTED_BEFORE_START'')" "\<not> is_repair_milestone (PyStr ''ENROLL_START_INTENT'')"
  "\<not> is_repair_milestone (PyStr ''ENROLL_START_OBSERVED'')" "\<not> is_repair_milestone (PyStr ''ENROLL_START_REJECTED'')"
  "\<not> is_repair_milestone (PyStr ''ENROLL_CONTINUE_INTENT'')" "\<not> is_repair_milestone (PyStr ''ENROLL_CONTINUE_OBSERVED'')"
  "\<not> is_repair_milestone (PyStr ''ENROLL_CANCEL_INTENT'')" "\<not> is_repair_milestone (PyStr ''ENROLL_CANCEL_DISPATCH_OBSERVED'')"
  "\<not> is_repair_milestone (PyStr ''E2_TERMINAL_IDENTITY_OBSERVED'')" "\<not> is_repair_milestone (PyStr ''E2_TERMINAL_RESULT_WITNESSED'')"
  "\<not> is_repair_milestone (PyStr ''ENROLL_TERMINAL_FAILURE_OBSERVED'')" "\<not> is_repair_milestone (PyStr ''ENROLL_OUTCOME_UNKNOWN'')"
  by (simp_all add: is_repair_milestone_def REPAIR_MILESTONE_def)

lemma storedD:
  assumes "stored env first m ev s s'"
  shows "frame s s'" "op_inv env first s'" "in_step env first s'" "after_milestone (env_record_hash env) m ev (op_history s')"
    "op_trace s' \<noteq> []" "\<exists>fs. last (op_trace s') = Journaled fs m ev (Inr (op_history s'))"
    "no_failure (op_trace s') = no_failure (op_trace s)"
  using assms by (auto simp: stored_def)

lemma refusedD:
  assumes "refused env first s s'"
  shows "frame s s'" "op_inv env first s'" "op_history s' = op_history s" "\<not> no_failure (op_trace s')"
  using assms by (auto simp: refused_def)

lemma wp_cancel_after_primary_failure:
  assumes inv: "op_inv env first s" and ph: "eh_phase (op_history s) = E_ACTIVE"
    and ok: "\<And>s'. at_phase env first s active_phases s' \<Longrightarrow> Q () s'"
    and fail: "\<And>e s'. at_phase env first s active_phases s' \<Longrightarrow> \<not> no_failure (op_trace s') \<Longrightarrow> E e s'"
  shows "wp (cancel_after_primary_failure env) Q E s"
  unfolding cancel_after_primary_failure_def wp_simps
proof (rule wp_append [OF inv evidence_flat(4) not_repair_names(7) offerable_cancel [OF ph]], goal_cases)
  case (2 s1)
  note d = storedD [OF this]
  have p1: "eh_phase (op_history s1) = E_CANCEL_INTENT" using after_phase(6) d(4) by blast
  have done1: "at_phase env first s active_phases s2" if "frame s1 s2" "op_inv env first s2" "op_history s2 = op_history s1" for s2
    using that p1 frame_trans [OF d(1)] by (auto simp: at_phase_def active_phases_def)
  show ?case
    unfolding not_True_eq_False if_False wp_simps
  proof (rule wp_command [OF d(2)], goal_cases)
    case 1
    show ?case using d(5,6) by (auto simp: announces_def)
  next
    case (3 x s2)
    then have q: "frame s1 s2" "op_inv env first s2" "op_history s2 = op_history s1" by (simp_all add: quiet_def)
    have e: "offerable env ''ENROLL_CANCEL_DISPATCH_OBSERVED'' (status_evidence 0) s2"
      using p1 q(3) by (intro offerable_cancel_observed) simp
    show ?case
    proof (cases "x = 0")
      case True
      have "wp (op_append env ''ENROLL_CANCEL_DISPATCH_OBSERVED'' (status_evidence 0)) Q
          (\<lambda>e s'. if list_ex (issubclass (exc_class e)) [EnrollmentOperationError] then Q () s' else E e s') s2"
      proof (rule wp_append [OF q(2) evidence_flat(3) not_repair_names(8) e], goal_cases)
        case (1 s3)
        have "at_phase env first s active_phases s3"
          using storedD(1,2) [OF 1] after_phase(7) [OF storedD(4) [OF 1]] frame_trans [OF d(1) frame_trans [OF q(1)]]
          by (auto simp: at_phase_def active_phases_def)
        then show ?case by (rule ok)
      next
        case (2 e s3)
        note r = refusedD [OF this]
        have "at_phase env first s active_phases s3" using done1 [OF frame_trans [OF q(1) r(1)] r(2)] r(3) q(3) by simp
        with ok fail r(4) show ?case by simp
      qed
      moreover have "(Some x \<noteq> Some 0) = False" using True by simp
      ultimately show ?thesis by (simp only: if_False wp_simps)
    next
      case False
      then show ?thesis using ok done1 [OF q] by (simp add: wp_simps)
    qed
  next
    case (4 e s2)
    then show ?case using ok done1 by (simp add: wp_simps quiet_def)
  qed (simp add: is_command_def)
next
  case (3 e s1)
  note r = refusedD [OF this]
  have "at_phase env first s active_phases s1" using r ph by (auto simp: at_phase_def active_phases_def)
  with ok fail r(4) show ?case by (simp add: wp_simps)
qed simp

lemma offerable_unknown:
  assumes "eh_phase (op_history s) \<in> active_phases"
    and "stage \<in> set [''start'', ''active'', ''continue'', ''cancel'', ''terminal'']"
    and "reason \<in> set [''transport-error'', ''connection-lost'', ''journal-error'', ''protocol-error'']"
  shows "offerable env ''ENROLL_OUTCOME_UNKNOWN'' (outcome_unknown_evidence env stage reason) s"
  using takes_outcome_unknown [OF _ _ assms(2,3)] assms(1) by (fastforce simp: offerable_def shown_def)

lemma wp_outcome_unknown:
  assumes inv: "op_inv env first s" and ph: "eh_phase (op_history s) \<in> active_phases"
    and sr: "stage \<in> set [''start'', ''active'', ''continue'', ''cancel'', ''terminal'']"
      "reason \<in> set [''transport-error'', ''connection-lost'', ''journal-error'', ''protocol-error'']"
    and fail: "\<And>e s'. unknown_end env first s e s' \<Longrightarrow> E e s'"
  shows "wp (op_outcome_unknown env stage reason) Q E s"
proof -
  have rest: "wp (op_except [EnrollmentOperationError]
                (op_append env ''ENROLL_OUTCOME_UNKNOWN'' (outcome_unknown_evidence env stage reason))
                (\<lambda>_. op_raise (operation_error ''enrollment outcome is unknown and could not be journaled'')))
      (\<lambda>x. wp (op_raise (operation_error ''enrollment outcome is unknown; reconciliation is required'')) Q E) E s1"
    if s1: "at_phase env first s active_phases s1" for s1
    unfolding wp_simps
  proof (rule wp_append [where first = first, OF _ evidence_flat(10) not_repair_names(12)], goal_cases)
    case 1
    show ?case using s1 by (simp add: at_phase_def)
  next
    case 2
    show ?case using s1 sr by (intro offerable_unknown) (auto simp: at_phase_def)
  next
    case (3 s2)
    note d = storedD [OF this]
    have "unknown_end env first s reconcile_error s2"
      using s1 d(2,3) frame_trans [OF _ d(1)] after_phase(9) [OF d(4)] by (simp add: unknown_end_def at_phase_def)
    then show ?case unfolding reconcile_error_def by (rule fail)
  next
    case (4 e s2)
    note r = refusedD [OF this]
    have "unknown_end env first s e' s2" for e'
      using s1 r(2-4) frame_trans [OF _ r(1)] by (simp add: unknown_end_def at_phase_def)
    with fail show ?case by (simp add: wp_simps)
  qed
  show ?thesis
  proof (cases "eh_phase (op_history s) = E_ACTIVE \<and> reason = ''protocol-error'' \<and> stage \<in> {''active'', ''terminal''}")
    case True
    have "wp (cancel_after_primary_failure env)
      (\<lambda>x. wp (op_bind (op_except [EnrollmentOperationError]
                (op_append env ''ENROLL_OUTCOME_UNKNOWN'' (outcome_unknown_evidence env stage reason))
                (\<lambda>_. op_raise (operation_error ''enrollment outcome is unknown and could not be journaled''))) (\<lambda>_.
        op_raise (operation_error ''enrollment outcome is unknown; reconciliation is required''))) Q E) E s"
    proof (rule wp_cancel_after_primary_failure [OF inv], goal_cases)
      case (2 s1)
      then show ?case unfolding wp_bind by (rule rest)
    next
      case (3 e s1)
      then show ?case by (intro fail) (simp add: unknown_end_def at_phase_def)
    qed (use True in simp)
    then show ?thesis unfolding op_outcome_unknown_def wp_bind wp_state_if
      by (simp only: True if_True simp_thms)
  next
    case False
    have "at_phase env first s active_phases s" using inv ph by (simp add: at_phase_def)
    from rest [OF this] show ?thesis unfolding op_outcome_unknown_def wp_bind wp_state_if
      by (simp only: False if_False wp_return)
  qed
qed

lemma wp_append_during:
  assumes inv: "op_inv env first s" and ph: "eh_phase (op_history s) \<in> active_phases"
    and ev: "flat_evidence ev" and m: "\<not> is_repair_milestone (PyStr m)" and of: "offerable env m ev s"
    and st: "stage \<in> set [''start'', ''active'', ''continue'', ''cancel'', ''terminal'']"
    and ok: "\<And>s'. stored env first m ev s s' \<Longrightarrow> Q () s'"
    and fail: "\<And>e s'. unknown_end env first s e s' \<Longrightarrow> E e s'"
  shows "wp (append_during_active_operation env m ev stage) Q E s"
  unfolding append_during_active_operation_def wp_simps
proof (rule wp_append [OF inv ev m of], goal_cases)
  case (1 s1)
  then show ?case by (rule ok)
next
  case (2 e s1)
  note r = refusedD [OF this]
  show ?case
  proof (cases "list_ex (issubclass (exc_class e)) [EnrollmentOperationError]")
    case True
    have "wp (op_outcome_unknown env stage ''journal-error'') Q E s1"
    proof (rule wp_outcome_unknown [OF r(2) _ st], goal_cases)
      case (3 e s2)
      then show ?case using unknown_end_frame [OF r(1)] by (intro fail)
    qed (use ph r(3) in simp_all)
    with True show ?thesis by (simp only: if_True)
  next
    case False
    have "unknown_end env first s e s1" using r ph by (simp add: unknown_end_def)
    with False fail show ?thesis by (simp only: if_False)
  qed
qed

section \<open>Callbacks\<close>

lemma wp_call_sync:
  assumes "op_inv env first s" and "\<And>s'. quiet env first s s' \<Longrightarrow> Q () s'" and "\<And>e s'. quiet env first s s' \<Longrightarrow> E e s'"
  shows "wp (call_sync env name f) Q E s"
  unfolding call_sync_def wp_simps
proof (rule wp_plain_call [OF assms(1)], goal_cases)
  case (3 v s1)
  then have q: "quiet env first s s1" by (simp add: quiet_def)
  show ?case
  proof (cases v)
    case Awaitable
    have "wp (op_call Called_Back (env_close_awaitable env)) (\<lambda>x. wp (op_raise (operation_error (name @ '' callback must be synchronous''))) Q E) E s1"
      unfolding wp_simps
    proof (rule wp_plain_call [of env first], goal_cases)
      case 1
      show ?case using q by (simp add: quiet_def)
    next
      case (4 x s2)
      then have "quiet env first s1 s2" by (simp add: quiet_def)
      with quiet_trans [OF q] assms(3) show ?case by blast
    next
      case (5 e s2)
      then have "quiet env first s1 s2" by (simp add: quiet_def)
      with quiet_trans [OF q] assms(3) show ?case by blast
    qed (simp_all add: is_command_def)
    then show ?thesis by (simp add: Awaitable wp_bind)
  qed (use q assms(2,3) in \<open>simp add: wp_simps\<close>)
next
  case (4 e s1)
  then show ?case by (intro assms(3)) (simp add: quiet_def)
qed (simp_all add: is_command_def)

text \<open>A callback whose failure loses track of the device.\<close>

lemma wp_guarded_callback:
  assumes "op_inv env first s" and "eh_phase (op_history s) \<in> active_phases"
    and "\<And>s'. quiet env first s s' \<Longrightarrow> Q () s'" and "\<And>e s'. unknown_end env first s e s' \<Longrightarrow> E e s'"
  shows "wp (op_catch (call_sync env name f) (\<lambda>_. op_outcome_unknown env ''active'' ''protocol-error'')) Q E s"
  unfolding wp_simps
proof (rule wp_call_sync [OF assms(1)], goal_cases)
  case (1 s1)
  then show ?case by (rule assms(3))
next
  case (2 e s1)
  then have q: "frame s s1" "op_inv env first s1" "eh_phase (op_history s1) \<in> active_phases"
    using assms(2) by (simp_all add: quiet_def)
  show ?case
    by (rule wp_outcome_unknown [OF q(2,3)]) (use assms(4) unknown_end_frame [OF q(1)] in auto)
qed

lemma wp_guarded_command:
  assumes "op_inv env first s" and "op_trace s \<noteq> [] \<and> announces env (op_apple_user_id s) (last (op_trace s)) c"
    and "is_command c" and "eh_phase (op_history s) \<in> active_phases"
    and "stage \<in> set [''start'', ''active'', ''continue'', ''cancel'', ''terminal'']"
    and "\<And>x s'. quiet env first s s' \<Longrightarrow> - (2 ^ 31) \<le> x \<Longrightarrow> x < 2 ^ 32 \<Longrightarrow> Q x s'"
    and "\<And>e s'. unknown_end env first s e s' \<Longrightarrow> E e s'"
  shows "wp (op_catch (op_command c name f) (\<lambda>_. op_outcome_unknown env stage ''transport-error'')) Q E s"
  unfolding wp_simps
proof (rule wp_command [OF assms(1-3)], goal_cases)
  case (1 x s1)
  then show ?case by (rule assms(6))
next
  case (2 e s1)
  then have q: "frame s s1" "op_inv env first s1" "eh_phase (op_history s1) \<in> active_phases"
    using assms(4) by (simp_all add: quiet_def)
  show ?case
    by (rule wp_outcome_unknown [OF q(2,3) assms(5)]) (use assms(7) unknown_end_frame [OF q(1)] in auto)
qed

end
