(* ===== verification/Operation_Steps.thy ===== *)
theory Operation_Steps
  imports Operation_Rules
begin

text \<open>
  The steps of the enrollment operation: sending the start, cancelling, continuing, and the three ways to
  finish. Each rule says what the journal shows when the step returns; a step that raises has lost track of
  the device.
\<close>

section \<open>What the milestones record\<close>

lemma after_continue_intent:
  "after_milestone J ''ENROLL_CONTINUE_INTENT'' (continue_intent_evidence env e raw) h \<Longrightarrow>
     eh_phase h = E_CONTINUE_INTENT \<and> eh_pending_event_sequence h = Some (ev_sequence e)"
  by (auto elim!: after_milestoneE simp: milestone_branch shown_def e_continue_intent_def res_simps e_exact_def
      e_uint_def continue_intent_evidence_def same_items_def py_simps)

lemma after_continue_observed:
  "after_milestone J ''ENROLL_CONTINUE_OBSERVED'' (continue_observed_evidence e n) h \<Longrightarrow>
     eh_phase h = E_ACTIVE \<and> eh_last_event_sequence h = Some (ev_sequence e)"
  by (auto elim!: after_milestoneE dest!: e_continue_observed_ok
      simp: milestone_branch shown_def continue_observed_evidence_def same_items_def py_simps)

lemma stored_last_event:
  assumes "stored env first m ev s s'" and "no_failure (op_trace s')"
    and "m \<in> set [''ENROLL_START_INTENT'', ''ENROLL_START_OBSERVED'', ''ENROLL_CANCEL_INTENT'', ''ENROLL_CANCEL_DISPATCH_OBSERVED'']"
  shows "eh_last_event_sequence (op_history s') = eh_last_event_sequence (op_history s)"
proof -
  obtain st st' where st: "takes (env_record_hash env) m ev st st'" "shown (op_history s) st" "shown (op_history s') st'"
    using assms(1,2) by (auto simp: stored_def)
  then have "enroll_milestone (env_record_hash env) (PyStr m) (PyDict ev) st = Inr st'" by (simp add: takes_def)
  then have "es_last_event st' = es_last_event st"
    using assms(3) by (auto simp: milestone_branch dest!: enroll_ok)
  with st show ?thesis by (simp add: shown_def)
qed

text \<open>The event is newer than everything in the journal, as far as the history knows.\<close>

definition newer :: "'w op_state \<Rightarrow> service_event \<Rightarrow> bool" where
  "newer s e = (no_failure (op_trace s) \<longrightarrow>
     (case eh_last_event_sequence (op_history s) of None \<Rightarrow> True | Some n \<Rightarrow> n < ev_sequence e))"

lemma newer_shown: "newer s e \<Longrightarrow> no_failure (op_trace s) \<Longrightarrow> shown (op_history s) st \<Longrightarrow> \<not> not_increasing st (ev_sequence e)"
  by (auto simp: newer_def shown_def not_increasing_def split: option.splits)

lemma op_inv_sha: "op_inv env first s \<Longrightarrow> length (env_sha256 env bs) = 32"
  by (simp add: op_inv_def ready_def)

lemma offerable_start_intent:
  "op_inv env first s \<Longrightarrow> eh_phase (op_history s) = E_BASELINE \<Longrightarrow>
   length bs = (if env_protocol_version env = 1 then 48 else 68) \<Longrightarrow>
   offerable env ''ENROLL_START_INTENT'' (start_intent_evidence env (op_apple_user_id s) bs) s"
  unfolding offerable_def shown_def by (metis takes_start_intent op_inv_sha)

lemma offerable_abort:
  "eh_phase (op_history s) = E_BASELINE \<Longrightarrow> offerable env ''ENROLL_ABORTED_BEFORE_START'' (abort_evidence env) s"
  unfolding offerable_def shown_def by (metis takes_abort)

lemma offerable_start_observed:
  "eh_phase (op_history s) = E_START_INTENT \<Longrightarrow> offerable env ''ENROLL_START_OBSERVED'' (status_evidence 0) s"
  unfolding offerable_def shown_def by (metis takes_start_observed)

lemma offerable_start_rejected:
  "eh_phase (op_history s) = E_START_INTENT \<Longrightarrow> - (2 ^ 31) \<le> n \<Longrightarrow> n < 2 ^ 32 \<Longrightarrow> n \<noteq> 0 \<Longrightarrow>
   offerable env ''ENROLL_START_REJECTED'' (status_evidence n) s"
  unfolding offerable_def shown_def by (metis takes_start_rejected)

lemma offerable_continue_intent:
  assumes "op_inv env first s" and "eh_phase (op_history s) = E_ACTIVE" and "event_ok e" and "newer s e"
    and "ev_ordinal e = 70 \<or> 100 \<le> ev_ordinal e \<and> ev_ordinal e \<le> 355"
  shows "offerable env ''ENROLL_CONTINUE_INTENT'' (continue_intent_evidence env e raw) s"
proof -
  have ph: "es_phase st = E_ACTIVE" if "shown (op_history s) st" for st using that assms(2) by (simp add: shown_def)
  show ?thesis
    unfolding offerable_def
    using takes_continue_intent [OF _ ph op_inv_sha [OF assms(1)] assms(3,5) newer_shown [OF assms(4)]] by blast
qed

lemma offerable_continue_observed:
  assumes "eh_phase (op_history s) = E_CONTINUE_INTENT" and "eh_pending_event_sequence (op_history s) = Some (ev_sequence e)"
    and "event_ok e" and "- (2 ^ 31) \<le> n" and "n < 2 ^ 32"
  shows "offerable env ''ENROLL_CONTINUE_OBSERVED'' (continue_observed_evidence e n) s"
  unfolding offerable_def shown_def using takes_continue_observed [OF _ _ assms(3-5)] assms(1,2) by metis

lemma offerable_terminal:
  assumes "op_inv env first s" and "eh_phase (op_history s) \<in> {E_ACTIVE, E_CANCEL_REQUESTED}" and "event_ok e" and "newer s e"
  shows "ev_envelope_type e = 0xE3FF8003 \<Longrightarrow> ev_version e \<in> {1, 2} \<Longrightarrow> id_user_id i = op_apple_user_id s \<Longrightarrow>
      canonical_uuid u \<Longrightarrow> offerable env ''E2_TERMINAL_IDENTITY_OBSERVED'' (identity_evidence env e i u) s"
    and "ev_envelope_type e = 0xE3FF8003 \<Longrightarrow>
      ev_version e = 1 \<and> 20 \<le> length (ev_payload e) \<or> ev_version e = 2 \<and> 40 \<le> length (ev_payload e) \<Longrightarrow>
      offerable env ''E2_TERMINAL_RESULT_WITNESSED'' (witness_evidence env (op_apple_user_id s) e raw) s"
    and "ev_envelope_type e = 0xE3FF8001 \<Longrightarrow> n \<in> {66, 67, 68} \<Longrightarrow>
      offerable env ''ENROLL_TERMINAL_FAILURE_OBSERVED'' (failure_evidence env e n) s"
proof -
  have ph: "es_phase st \<in> {E_ACTIVE, E_CANCEL_REQUESTED}" if "shown (op_history s) st" for st
    using that assms(2) by (simp add: shown_def)
  note new = newer_shown [OF assms(4)] and ev = assms(3)
  show "ev_envelope_type e = 0xE3FF8003 \<Longrightarrow> ev_version e \<in> {1, 2} \<Longrightarrow> id_user_id i = op_apple_user_id s \<Longrightarrow>
      canonical_uuid u \<Longrightarrow> offerable env ''E2_TERMINAL_IDENTITY_OBSERVED'' (identity_evidence env e i u) s"
    unfolding offerable_def using takes_identity [OF _ ph ev new] by blast
  show "ev_envelope_type e = 0xE3FF8003 \<Longrightarrow>
      ev_version e = 1 \<and> 20 \<le> length (ev_payload e) \<or> ev_version e = 2 \<and> 40 \<le> length (ev_payload e) \<Longrightarrow>
      offerable env ''E2_TERMINAL_RESULT_WITNESSED'' (witness_evidence env (op_apple_user_id s) e raw) s"
    unfolding offerable_def using takes_witness [OF _ ph ev op_inv_sha [OF assms(1)] new] by blast
  show "ev_envelope_type e = 0xE3FF8001 \<Longrightarrow> n \<in> {66, 67, 68} \<Longrightarrow>
      offerable env ''ENROLL_TERMINAL_FAILURE_OBSERVED'' (failure_evidence env e n) s"
    unfolding offerable_def using takes_failure [OF _ ph ev new] by blast
qed

section \<open>Results\<close>

text \<open>The result a run reports is what the journal shows.\<close>

definition outcome_recorded :: "int \<Rightarrow> operation_result \<Rightarrow> enrollment_history \<Rightarrow> bool" where
  "outcome_recorded uid r h =
     (or_outcome r = ''start-rejected'' \<and> or_transition r = None \<and> eh_phase h = E_TERMINAL_FAILURE
        \<and> (\<exists>n. n \<noteq> 0 \<and> eh_terminal_status h = Some n)
      \<or> (\<exists>t. or_transition r = Some t \<and>
           (or_outcome r = ''identity-observed'' \<and> eh_phase h = E_TERMINAL_IDENTITY
              \<and> (\<exists>i u. tr_identity t = Some i \<and> id_user_id i = uid \<and> uuid_text (id_identity_uuid i) = Inr u
                   \<and> eh_terminal_identity_uuid h = Some u)
            \<or> or_outcome r = ''result-witnessed'' \<and> tr_action t = A_RESULT_WITNESSED \<and> eh_phase h = E_TERMINAL_WITNESS
            \<or> (\<exists>n. terminal_status (tr_action t) = Some n \<and> or_outcome r = terminal_outcome (tr_action t)
                 \<and> eh_phase h = E_TERMINAL_FAILURE \<and> eh_terminal_status h = Some n))))"

definition result_end :: "'w operation_env \<Rightarrow> pydict \<Rightarrow> 'w op_state \<Rightarrow> operation_result \<Rightarrow> 'w op_state \<Rightarrow> bool" where
  "result_end env first s r s' =
     (frame s s' \<and> op_inv env first s' \<and> in_step env first s' \<and> or_reconciliation_required r
      \<and> outcome_recorded (op_apple_user_id s) r (op_history s'))"

lemma result_endI:
  "stored env first m ev s s' \<Longrightarrow> or_reconciliation_required r \<Longrightarrow> outcome_recorded (op_apple_user_id s) r (op_history s') \<Longrightarrow>
   result_end env first s r s'"
  by (simp add: result_end_def storedD)

lemma result_end_frame: "frame s s1 \<Longrightarrow> result_end env first s1 e s' \<Longrightarrow> result_end env first s e s'"
  by (auto simp: result_end_def frame_def)

lemma active_subset [simp]: "E_ACTIVE \<in> active_phases" "E_START_INTENT \<in> active_phases" "E_CONTINUE_INTENT \<in> active_phases"
  "E_CANCEL_INTENT \<in> active_phases" "E_CANCEL_REQUESTED \<in> active_phases"
  by (simp_all add: active_phases_def)

lemma wp_at: "wp (m s) Q E s \<Longrightarrow> wp (\<lambda>s. m s s) Q E s"
  by (simp add: wp_def)

lemma wp_failure_step:
  assumes "op_inv env first s" and "eh_phase (op_history s) \<in> {E_ACTIVE, E_CANCEL_REQUESTED}" and "event_ok e" and "newer s e"
    and "ev_envelope_type e = 0xE3FF8001" and "terminal_status (tr_action t) = Some n"
    and "\<And>r s'. result_end env first s r s' \<Longrightarrow> Q r s'" and "\<And>x s'. unknown_end env first s x s' \<Longrightarrow> E x s'"
  shows "wp (failure_step env e n t) Q E s"
  unfolding failure_step_def wp_simps
proof (rule wp_append_during [OF assms(1) _ evidence_flat(9) not_repair_names(11)], goal_cases)
  case 2
  have "n \<in> {66, 67, 68}" using assms(6) by (auto simp: terminal_status_def split: enrollment_action.splits)
  then show ?case using offerable_terminal(3) [OF assms(1-5)] by simp
next
  case (4 s1)
  from after_failure [OF storedD(4) [OF 4]] assms(6) show ?case
    by (intro assms(7) result_endI [OF 4]) (auto simp: new_result_def outcome_recorded_def)
qed (use assms(2,8) in auto)

lemma wp_witness_step:
  assumes "op_inv env first s" and "eh_phase (op_history s) \<in> {E_ACTIVE, E_CANCEL_REQUESTED}" and "event_ok e" and "newer s e"
    and "ev_envelope_type e = 0xE3FF8003" and "tr_action t = A_RESULT_WITNESSED"
    and "ev_version e = 1 \<and> 20 \<le> length (ev_payload e) \<or> ev_version e = 2 \<and> 40 \<le> length (ev_payload e)"
    and "\<And>r s'. result_end env first s r s' \<Longrightarrow> Q r s'" and "\<And>x s'. unknown_end env first s x s' \<Longrightarrow> E x s'"
  shows "wp (witness_step env e raw t) Q E s"
  unfolding witness_step_def wp_bind wp_return
proof (rule wp_at [where m = "\<lambda>s'. append_during_active_operation env ''E2_TERMINAL_RESULT_WITNESSED''
    (witness_evidence env (op_apple_user_id s') e raw) ''terminal''"], rule wp_append_during [OF assms(1) _ evidence_flat(8) not_repair_names(10)], goal_cases)
  case 2
  show ?case using offerable_terminal(2) [OF assms(1-5,7)] .
next
  case (4 s1)
  from after_phase(8) [OF storedD(4) [OF 4]] assms(6) show ?case
    by (intro assms(8) result_endI [OF 4]) (auto simp: new_result_def outcome_recorded_def)
qed (use assms(2,9) in auto)

lemma wp_identity_step:
  assumes "op_inv env first s" and "eh_phase (op_history s) \<in> {E_ACTIVE, E_CANCEL_REQUESTED}" and "event_ok e" and "newer s e"
    and "ev_envelope_type e = 0xE3FF8003" and "ev_version e \<in> {1, 2}"
    and "tr_identity t = Some i" and "id_user_id i = op_apple_user_id s" and "length (id_identity_uuid i) = 16"
    and "\<And>r s'. result_end env first s r s' \<Longrightarrow> Q r s'" and "\<And>x s'. unknown_end env first s x s' \<Longrightarrow> E x s'"
  shows "wp (identity_step env e t) Q E s"
proof -
  obtain u where u: "uuid_text (id_identity_uuid i) = Inr u" using assms(9) by (simp add: uuid_text_def uuid_str_def Let_def)
  show ?thesis
    unfolding identity_step_def assms(7) option.case wp_simps u sum.case
  proof (rule wp_append_during [OF assms(1) _ evidence_flat(7) not_repair_names(9)], goal_cases)
    case 2
    show ?case using offerable_terminal(1) [OF assms(1-6,8) uuid_text_canonical [OF u]] .
  next
    case (4 s1)
    from after_identity [OF storedD(4) [OF 4]] assms(7,8) u show ?case
      by (intro assms(10) result_endI [OF 4]) (auto simp: new_result_def outcome_recorded_def)
  qed (use assms(2,11) in auto)
qed

section \<open>Cancelling and continuing\<close>

lemma wp_cancel_step:
  assumes inv: "op_inv env first s" and ph: "eh_phase (op_history s) = E_ACTIVE" and ma: "em_state machine = S_ACTIVE"
    and ok: "\<And>s'. at_phase env first s {E_CANCEL_REQUESTED} s' \<Longrightarrow>
      (no_failure (op_trace s') \<Longrightarrow> eh_last_event_sequence (op_history s') = eh_last_event_sequence (op_history s)) \<Longrightarrow>
      Q (machine\<lparr>em_state := S_CANCEL_REQUESTED\<rparr>) s'"
    and fail: "\<And>e s'. unknown_end env first s e s' \<Longrightarrow> E e s'"
  shows "wp (cancel_step env machine) Q E s"
  unfolding cancel_step_def wp_bind
proof (rule wp_append_during [OF inv _ evidence_flat(4) not_repair_names(7)], goal_cases)
  case 2
  show ?case by (rule offerable_cancel [OF ph]) simp
next
  case (4 s1)
  note d = storedD [OF 4] and last1 = stored_last_event [OF 4]
  have p1: "eh_phase (op_history s1) = E_CANCEL_INTENT" by (rule after_phase(6) [OF d(4)])
  note up = unknown_end_frame [OF d(1)]
  show ?case
    unfolding request_cancel_def
  proof (simp only: ma simp_thms if_False prod.case sum.case wp_bind, rule wp_guarded_command [OF d(2)], goal_cases)
    case 1
    show ?case using d(5,6) by (auto simp: announces_def)
  next
    case (5 x s2)
    then have q: "frame s1 s2" "op_inv env first s2" "op_history s2 = op_history s1" "no_failure (op_trace s2) = no_failure (op_trace s1)"
      by (simp_all add: quiet_def)
    note up2 = up [OF unknown_end_frame [OF q(1)]]
    show ?case
    proof (cases "x = 0")
      case True
      have "wp (append_during_active_operation env ''ENROLL_CANCEL_DISPATCH_OBSERVED'' (status_evidence 0) ''cancel'')
          (\<lambda>_. wp (op_return (machine\<lparr>em_state := S_CANCEL_REQUESTED\<rparr>)) Q E) E s2"
        unfolding wp_return
      proof (rule wp_append_during [OF q(2) _ evidence_flat(3) not_repair_names(8)], goal_cases)
        case 2
        show ?case using p1 q(3) by (intro offerable_cancel_observed) simp
      next
        case (4 s3)
        note e = storedD [OF 4] and last3 = stored_last_event [OF 4]
        show ?case
        proof (rule ok)
          show "at_phase env first s {E_CANCEL_REQUESTED} s3"
            using e(1,2) after_phase(7) [OF e(4)] frame_trans [OF d(1) frame_trans [OF q(1)]] by (simp add: at_phase_def)
          show "eh_last_event_sequence (op_history s3) = eh_last_event_sequence (op_history s)"
            if "no_failure (op_trace s3)"
            using that last3 last1 e(7) q(3,4) by simp
        qed
      next
        case (5 e s3)
        then show ?case by (intro fail up2)
      qed (use p1 q(3) in simp_all)
      moreover have "(x \<noteq> 0) = False" using True by simp
      ultimately show ?thesis by (simp only: if_False wp_bind)
    next
      case False
      have "wp (op_outcome_unknown env ''cancel'' ''transport-error'') Q E s2"
        by (rule wp_outcome_unknown [OF q(2)]) (use p1 q(3) fail up2 in auto)
      with False show ?thesis by (simp only: simp_thms if_True)
    qed
  next
    case (6 e s2)
    then show ?case by (intro fail up)
  qed (use p1 in \<open>simp_all add: is_command_def\<close>)
next
  case (5 e s1)
  then show ?case by (rule fail)
qed (use ph in simp_all)

lemma wp_continue_step:
  assumes inv: "op_inv env first s" and ph: "eh_phase (op_history s) = E_ACTIVE" and ev: "event_ok e" and new: "newer s e"
    and ord: "ev_ordinal e = 70 \<or> 100 \<le> ev_ordinal e \<and> ev_ordinal e \<le> 355"
    and ok: "\<And>s'. at_phase env first s {E_ACTIVE} s' \<Longrightarrow> eh_last_event_sequence (op_history s') = Some (ev_sequence e) \<Longrightarrow> Q () s'"
    and fail: "\<And>e s'. unknown_end env first s e s' \<Longrightarrow> E e s'"
  shows "wp (continue_step env e raw) Q E s"
  unfolding continue_step_def wp_bind
proof (rule wp_append_during [OF inv _ evidence_flat(5) not_repair_names(5)], goal_cases)
  case 2
  show ?case by (rule offerable_continue_intent [OF inv ph ev new ord])
next
  case (4 s1)
  note d = storedD [OF 4] and i = after_continue_intent [OF storedD(4) [OF 4]]
  note up = unknown_end_frame [OF d(1)]
  show ?case
  proof (rule wp_guarded_command [OF d(2)], goal_cases)
    case 1
    show ?case using d(5,6) by (auto simp: announces_def)
  next
    case (5 x s2)
    then have q: "frame s1 s2" "op_inv env first s2" "op_history s2 = op_history s1" by (simp_all add: quiet_def)
    show ?case
    proof (rule wp_append_during [OF q(2) _ evidence_flat(6) not_repair_names(6)], goal_cases)
      case 2
      show ?case using i q(3) ev 5(2,3) by (intro offerable_continue_observed) simp_all
    next
      case (4 s3)
      note e = storedD [OF 4]
      from after_continue_observed [OF e(4)] e(1,2) frame_trans [OF d(1) frame_trans [OF q(1)]] show ?case
        by (intro ok) (simp_all add: at_phase_def)
    next
      case (5 e s3)
      then show ?case by (intro fail up unknown_end_frame [OF q(1)])
    qed (use i q(3) in simp_all)
  next
    case (6 e s2)
    then show ?case by (intro fail up)
  qed (use i in \<open>simp_all add: is_command_def\<close>)
next
  case (5 e s1)
  then show ?case by (rule fail)
qed (use ph in simp_all)

end
