(* ===== verification/Operation_Loop.thy ===== *)
theory Operation_Loop
  imports Operation_Steps
begin

text \<open>
  The event loop of the enrollment operation. Between two iterations the phase of the journal, the state of
  the machine and the flag \<^verbatim>\<open>cancel_sent\<close> agree, and no event in the journal is newer than the machine's last.
\<close>

section \<open>Events that were reduced\<close>

lemma parse_service_event_errors:
  "parse_service_event v = Inl x \<Longrightarrow> exc_class x = EnrollmentProtocolError"
  by (auto simp: parse_service_event_def struct_unpack_from_def service_header_size STATUS_PAYLOAD_HEADER_def Let_def
      intro: parser_errors(2) split: if_splits)

lemma parse_service_event_ok: "parse_service_event v = Inr e \<Longrightarrow> event_ok e"
proof -
  assume a: "parse_service_event v = Inr e"
  then obtain bs where "v = PyBytes bs"
    by (cases v) (auto simp: parse_service_event_def py_simps split: if_splits)
  with a show ?thesis by (simp add: parse_service_event_iff)
qed

lemma reduce_event_errors:
  assumes "reduce_event env i v m = Inl x"
  shows "exc_class x = EnrollmentProtocolError"
proof (cases "parse_service_event v")
  case (Inl y)
  with assms show ?thesis by (auto simp: reduce_event_def intro: parse_service_event_errors)
next
  case (Inr e)
  with assms obtain m' where "accept (env_sha256 env) e (env_connection_generation env) i m = (Inl x, m')"
    by (auto simp: reduce_event_def split: prod.splits sum.splits)
  with accept_errors parse_service_event_ok [OF Inr] show ?thesis by blast
qed

text \<open>What a transition tells the operation; \<open>m1\<close> is the machine that had noted the event.\<close>

definition reduced :: "service_event \<Rightarrow> enrollment_transition \<Rightarrow> enrollment_machine \<Rightarrow> enrollment_machine \<Rightarrow> bool" where
  "reduced e t m m' =
     (event_ok e
      \<and> (case em_last_sequence m of None \<Rightarrow> True | Some n \<Rightarrow> n < ev_sequence e)
      \<and> em_last_sequence m' = Some (ev_sequence e)
      \<and> em_expected_user_id m' = em_expected_user_id m
      \<and> (\<exists>m1. em_state m1 = em_state m \<and> transition_ok e m1 m' (tr_action t))
      \<and> tr_continue_required t = continues (tr_action t)
      \<and> (continues (tr_action t) \<longrightarrow> em_state m \<noteq> S_CANCEL_REQUESTED)
      \<and> (case tr_identity t of None \<Rightarrow> tr_action t \<noteq> A_IDENTITY_OBSERVED
         | Some i \<Rightarrow> id_user_id i = em_expected_user_id m \<and> length (id_identity_uuid i) = 16))"

lemma reduce_event_ok:
  assumes "reduce_event env i v m = Inr (e, t, m')"
  shows "reduced e t m m'"
proof -
  from assms have p: "parse_service_event v = Inr e"
    and a: "accept (env_sha256 env) e (env_connection_generation env) i m = (Inr t, m')"
    by (cases "parse_service_event v"; auto simp: reduce_event_def split: prod.splits sum.splits)+
  from a show ?thesis
  proof (cases rule: accept_cases)
    case (event m1)
    have m1: "em_state m1 = em_state m" "em_last_sequence m1 = Some (ev_sequence e)"
      "em_expected_user_id m1 = em_expected_user_id m"
      by (subst event(5), simp)+
    note ok = accept_event_ok [OF event(6)]
    then have tr: "transition_ok e m1 m' (tr_action t)" by blast
    have "em_last_sequence m' = Some (ev_sequence e) \<and> em_expected_user_id m' = em_expected_user_id m"
      using tr m1 by (cases "tr_action t") auto
    with ok tr m1 event(4) parse_service_event_ok [OF p] show ?thesis
      unfolding reduced_def by (auto split: option.splits dest: parse_enrollment_result_ok)
  qed (auto simp: freeze_def)
qed

section \<open>The invariant of the loop\<close>

definition up_to :: "int option \<Rightarrow> int option \<Rightarrow> bool" where
  "up_to a b = (\<forall>n. a = Some n \<longrightarrow> (\<exists>k. b = Some k \<and> n \<le> k))"

definition loop_ok :: "'w operation_env \<Rightarrow> pydict \<Rightarrow> 'w op_state \<Rightarrow> bool \<Rightarrow> enrollment_machine \<Rightarrow> 'w op_state \<Rightarrow> bool" where
  "loop_ok env first s0 cancel_sent m s =
     (at_phase env first s0 {if cancel_sent then E_CANCEL_REQUESTED else E_ACTIVE} s
      \<and> em_state m = (if cancel_sent then S_CANCEL_REQUESTED else S_ACTIVE)
      \<and> em_expected_user_id m = op_apple_user_id s
      \<and> (no_failure (op_trace s) \<longrightarrow> up_to (eh_last_event_sequence (op_history s)) (em_last_sequence m)))"

definition loop_post :: "'w operation_env \<Rightarrow> pydict \<Rightarrow> 'w op_state \<Rightarrow> loop_step \<Rightarrow> 'w op_state \<Rightarrow> bool" where
  "loop_post env first s0 step s = (case step of
     Again c n m \<Rightarrow> loop_ok env first s0 c m s | Finished r \<Rightarrow> result_end env first s0 r s)"

text \<open>The caller's cancel callback does not raise the operation's own exception.\<close>

definition calm :: "'w operation_env \<Rightarrow> bool" where
  "calm env = (\<forall>w e w'. env_cancel_requested env w = (Inl e, w') \<longrightarrow> \<not> issubclass (exc_class e) EnrollmentOperationError)"

text \<open>An exception of a callback that left the loop.\<close>

definition escaped :: "'w operation_env \<Rightarrow> pydict \<Rightarrow> 'w op_state \<Rightarrow> exc \<Rightarrow> 'w op_state \<Rightarrow> bool" where
  "escaped env first s e s' = (at_phase env first s {E_ACTIVE, E_CANCEL_REQUESTED} s'
     \<and> (issubclass (exc_class e) EnrollmentOperationError \<longrightarrow> \<not> calm env))"

definition loop_error :: "'w operation_env \<Rightarrow> pydict \<Rightarrow> 'w op_state \<Rightarrow> exc \<Rightarrow> 'w op_state \<Rightarrow> bool" where
  "loop_error env first s e s' = (unknown_end env first s e s' \<or> escaped env first s e s')"

lemma loop_ok_quiet: "loop_ok env first s0 c m s \<Longrightarrow> quiet env first s s' \<Longrightarrow> loop_ok env first s0 c m s'"
  by (auto simp: loop_ok_def quiet_def at_phase_def frame_def)

lemma loop_ok_frame: "loop_ok env first s0 c m s \<Longrightarrow> frame s0 s"
  by (simp add: loop_ok_def at_phase_def)

lemma loop_error_frame: "frame s s1 \<Longrightarrow> loop_error env first s1 e s' \<Longrightarrow> loop_error env first s e s'"
  by (auto simp: loop_error_def escaped_def intro: unknown_end_frame at_phase_frame)

lemma wp_ask_cancel:
  assumes "op_inv env first s" and "eh_phase (op_history s) \<in> {E_ACTIVE, E_CANCEL_REQUESTED}"
    and "\<And>b s'. quiet env first s s' \<Longrightarrow> Q b s'" and "\<And>e s'. quiet env first s s' \<Longrightarrow> escaped env first s e s' \<Longrightarrow> E e s'"
  shows "wp (ask_cancel env) Q E s"
  unfolding ask_cancel_def wp_simps
proof (rule wp_plain_call [OF assms(1)], goal_cases)
  case (3 v s1)
  then show ?case by (intro assms(3)) (simp add: quiet_def)
next
  case (4 e s1)
  moreover from 4(5) have "issubclass (exc_class e) EnrollmentOperationError \<longrightarrow> \<not> calm env" by (auto simp: calm_def)
  ultimately show ?case using assms(2) by (intro assms(4)) (simp_all add: quiet_def escaped_def at_phase_def)
qed (simp_all add: is_command_def)

section \<open>One iteration\<close>

lemma wp_returns: "wp (op_return x) Q E = Q x"
  by (rule ext) (rule wp_return)

lemma wp_branches: "wp (if b then f else g) Q E = (\<lambda>s. if b then wp f Q E s else wp g Q E s)"
  by simp

lemma wp_binds: "wp (op_bind m f) Q E = wp m (\<lambda>x. wp (f x) Q E) E"
  by (rule ext) (rule wp_bind)

lemmas wp_funs = wp_returns wp_branches wp_binds wp_catch

lemma loop_ok_newer: "loop_ok env first s0 c m s \<Longrightarrow> reduced e t m m' \<Longrightarrow> newer s e"
  by (auto simp: loop_ok_def reduced_def newer_def up_to_def split: option.splits)

lemma loop_ok_advance:
  assumes "loop_ok env first s0 c m s" and "reduced e t m m'" and "em_state m' = em_state m"
  shows "loop_ok env first s0 c m' s"
  using assms by (force simp: loop_ok_def reduced_def up_to_def split: option.splits)

text \<open>The actions that end the operation, and the others.\<close>

definition ends :: "enrollment_action \<Rightarrow> bool" where
  "ends a = (a \<in> {A_IDENTITY_OBSERVED, A_RESULT_WITNESSED} \<or> terminal_status a \<noteq> None)"

lemma reduced_state: "reduced e t m m' \<Longrightarrow> \<not> ends (tr_action t) \<Longrightarrow> em_state m' = em_state m"
  by (cases "tr_action t") (auto simp: reduced_def ends_def terminal_status_def)

lemma terminal_status_event:
  assumes "reduced e t m m'" and "terminal_status (tr_action t) = Some n"
  shows "ev_envelope_type e = 0xE3FF8001"
  using assms by (cases "tr_action t") (auto simp: reduced_def terminal_status_def Enrollment_Protocol.SERVICE_STATUS_def)

lemma wp_finish:
  assumes "loop_ok env first s0 c m s"
    and "\<And>Q' E'. (\<And>r s'. result_end env first s r s' \<Longrightarrow> Q' r s') \<Longrightarrow> (\<And>x s'. unknown_end env first s x s' \<Longrightarrow> E' x s') \<Longrightarrow>
      wp f Q' E' s"
    and "\<And>step s'. loop_post env first s0 step s' \<Longrightarrow> Q step s'" and "\<And>x s'. loop_error env first s0 x s' \<Longrightarrow> E x s'"
  shows "wp (op_bind f (\<lambda>result. op_return (Finished result))) Q E s"
  unfolding wp_simps
proof (rule assms(2))
  show "Q (Finished r) s'" if "result_end env first s r s'" for r s'
    using result_end_frame [OF loop_ok_frame [OF assms(1)] that] by (intro assms(3)) (simp add: loop_post_def)
  show "E x s'" if "unknown_end env first s x s'" for x s'
    using unknown_end_frame [OF loop_ok_frame [OF assms(1)] that] by (intro assms(4)) (simp add: loop_error_def)
qed

lemma wp_conclude:
  assumes ok: "loop_ok env first s0 c m s" and red: "reduced e t m m'"
    and Q: "\<And>step s'. loop_post env first s0 step s' \<Longrightarrow> Q step s'"
    and E: "\<And>x s'. loop_error env first s0 x s' \<Longrightarrow> E x s'"
  shows "wp (conclude env c n raw e t m') Q E s"
proof -
  have inv: "op_inv env first s" "eh_phase (op_history s) \<in> {E_ACTIVE, E_CANCEL_REQUESTED}"
    and uid: "em_expected_user_id m = op_apple_user_id s"
    using ok by (auto simp: loop_ok_def at_phase_def)
  have ev: "event_ok e" and tr: "\<exists>m1. transition_ok e m1 m' (tr_action t)" using red by (auto simp: reduced_def)
  note pre = inv ev loop_ok_newer [OF ok red]
  consider (identity) "tr_action t = A_IDENTITY_OBSERVED" | (witness) "tr_action t = A_RESULT_WITNESSED"
    | (status) n where "terminal_status (tr_action t) = Some n" "tr_action t \<noteq> A_IDENTITY_OBSERVED" "tr_action t \<noteq> A_RESULT_WITNESSED"
    | (other) "\<not> ends (tr_action t)"
    unfolding ends_def by blast
  then show ?thesis
  proof cases
    case identity
    then obtain i where i: "tr_identity t = Some i" "id_user_id i = op_apple_user_id s" "length (id_identity_uuid i) = 16"
      using red uid by (auto simp: reduced_def split: option.splits)
    have ty: "ev_envelope_type e = 0xE3FF8003" "ev_version e \<in> {1, 2}"
      using tr identity by (auto simp: Enrollment_Protocol.SERVICE_ENROLLMENT_RESULT_def)
    show ?thesis using identity wp_finish [OF ok wp_identity_step [OF pre ty i] Q E] by (simp add: conclude_def)
  next
    case witness
    have ty: "ev_envelope_type e = 0xE3FF8003"
      "ev_version e = 1 \<and> 20 \<le> length (ev_payload e) \<or> ev_version e = 2 \<and> 40 \<le> length (ev_payload e)"
      using tr witness by (auto simp: Enrollment_Protocol.SERVICE_ENROLLMENT_RESULT_def)
    show ?thesis using witness wp_finish [OF ok wp_witness_step [OF pre ty(1) witness ty(2)] Q E] by (simp add: conclude_def)
  next
    case status
    show ?thesis
      using status wp_finish [OF ok wp_failure_step [OF pre terminal_status_event [OF red status(1)] status(1)] Q E]
      by (simp add: conclude_def)
  next
    case other
    have "loop_ok env first s0 c m' s" by (rule loop_ok_advance [OF ok red reduced_state [OF red other]])
    with other Q show ?thesis by (simp add: ends_def conclude_def wp_return loop_post_def)
  qed
qed

lemma wp_answer:
  assumes ok: "loop_ok env first s0 c m s" and red: "reduced e t m m'"
    and Q: "\<And>step s'. loop_post env first s0 step s' \<Longrightarrow> Q step s'"
    and E: "\<And>x s'. loop_error env first s0 x s' \<Longrightarrow> E x s'"
  shows "wp (answer env c n raw e t m') Q E s"
proof (cases "tr_continue_required t")
  case True
  then have act: "tr_action t \<in> {A_CONTINUE, A_PROGRESS}" and ns: "em_state m \<noteq> S_CANCEL_REQUESTED"
    using red by (auto simp: reduced_def continues_def)
  then have same: "em_state m' = em_state m" by (intro reduced_state [OF red]) (auto simp: ends_def terminal_status_def)
  have ord: "ev_ordinal e = 70 \<or> 100 \<le> ev_ordinal e \<and> ev_ordinal e \<le> 355" and ev: "event_ok e"
    and m': "em_last_sequence m' = Some (ev_sequence e)" "em_expected_user_id m' = em_expected_user_id m"
    using red act by (auto simp: reduced_def)
  have again: "Q (Again c n m') s1" if "loop_ok env first s0 c m s1" for s1
    using loop_ok_advance [OF that red same] by (intro Q) (simp add: loop_post_def)
  have continue_rule: "wp (continue_step env e raw) (\<lambda>_. Q (Again c n m')) E s1" if ok1: "loop_ok env first s0 c m s1" for s1
  proof -
    from ns ok1 have c: "\<not> c" and st: "em_state m = S_ACTIVE" and inv: "op_inv env first s1" "eh_phase (op_history s1) = E_ACTIVE"
      by (auto simp: loop_ok_def at_phase_def split: if_splits)
    show ?thesis
    proof (rule wp_continue_step [OF inv ev loop_ok_newer [OF ok1 red] ord])
      fix s2 assume "at_phase env first s1 {E_ACTIVE} s2" "eh_last_event_sequence (op_history s2) = Some (ev_sequence e)"
      moreover have "op_apple_user_id s2 = op_apple_user_id s1" using calculation(1) by (simp add: at_phase_def frame_def)
      ultimately have "loop_ok env first s0 c m' s2"
        using ok1 c st same m' at_phase_frame [OF loop_ok_frame [OF ok1]] by (simp add: loop_ok_def up_to_def)
      then show "Q (Again c n m') s2" by (intro Q) (simp add: loop_post_def)
    next
      fix x s2 assume "unknown_end env first s1 x s2"
      then show "E x s2" using unknown_end_frame [OF loop_ok_frame [OF ok1]] by (intro E) (simp add: loop_error_def)
    qed
  qed
  have "wp (ask_cancel env) (\<lambda>b s1. if b then Q (Again c n m') s1 else wp (continue_step env e raw) (\<lambda>_. Q (Again c n m')) E s1) E s"
  proof (rule wp_ask_cancel)
    show "op_inv env first s" "eh_phase (op_history s) \<in> {E_ACTIVE, E_CANCEL_REQUESTED}"
      using ok by (auto simp: loop_ok_def at_phase_def)
  next
    fix b s1 assume "quiet env first s s1"
    from again [OF loop_ok_quiet [OF ok this]] continue_rule [OF loop_ok_quiet [OF ok this]]
    show "if b then Q (Again c n m') s1 else wp (continue_step env e raw) (\<lambda>_. Q (Again c n m')) E s1" by simp
  next
    fix x s1 assume "escaped env first s x s1"
    with loop_error_frame [OF loop_ok_frame [OF ok]] show "E x s1" by (intro E) (auto simp: loop_error_def)
  qed
  then show ?thesis
    by (simp add: answer_def True wp_funs split del: if_split cong: if_cong)
next
  case False
  with wp_conclude [OF ok red Q E] show ?thesis by (simp add: answer_def)
qed

lemma wp_act_on:
  assumes ok: "loop_ok env first s0 c m s" and red: "reduced e t m m'"
    and Q: "\<And>step s'. loop_post env first s0 step s' \<Longrightarrow> Q step s'"
    and E: "\<And>x s'. loop_error env first s0 x s' \<Longrightarrow> E x s'"
  shows "wp (act_on env c n raw e t m') Q E s"
proof (cases "wants_feedback (tr_action t)")
  case True
  have inv: "op_inv env first s" "eh_phase (op_history s) \<in> active_phases"
    using ok by (auto simp: loop_ok_def at_phase_def split: if_splits)
  show ?thesis
    unfolding act_on_def wp_bind
    by (simp only: True if_True, rule wp_guarded_callback [OF inv])
      (use wp_answer [OF loop_ok_quiet [OF ok] red Q E] unknown_end_frame [OF loop_ok_frame [OF ok]] E
        in \<open>auto simp: loop_error_def\<close>)
next
  case False
  with wp_answer [OF ok red Q E] show ?thesis by (simp only: act_on_def wp_bind if_False wp_return)
qed

text \<open>Losing track inside the loop.\<close>

lemma wp_lost:
  assumes "loop_ok env first s0 c m s" and "stage \<in> {''active'', ''terminal''}" and "reason \<in> {''connection-lost'', ''protocol-error''}"
  shows "wp (op_outcome_unknown env stage reason) Q (loop_error env first s0) s"
proof (rule wp_outcome_unknown [where first = first], goal_cases)
  case (5 e s')
  with unknown_end_frame [OF loop_ok_frame [OF assms(1)]] show ?case by (simp add: loop_error_def)
qed (use assms in \<open>auto simp: loop_ok_def at_phase_def split: if_splits\<close>)

lemma wp_reduce:
  "wp (\<lambda>s. op_except cs (op_lift (reduce_event env (op_operation_id s) raw m)) h s) Q E s =
     (case reduce_event env (op_operation_id s) raw m of
        Inl e \<Rightarrow> if list_ex (issubclass (exc_class e)) cs then wp (h e) Q E s else E e s | Inr x \<Rightarrow> Q x s)"
proof -
  have "wp (\<lambda>s. op_except cs (op_lift (reduce_event env (op_operation_id s) raw m)) h s) Q E s =
      wp (op_except cs (op_lift (reduce_event env (op_operation_id s) raw m)) h) Q E s" by (simp add: wp_def)
  then show ?thesis by (simp add: wp_except wp_lift)
qed

lemma wp_receive:
  assumes ok: "loop_ok env first s0 c m s"
  shows "wp (receive env c n m) (loop_post env first s0) (loop_error env first s0) s"
proof -
  have phase: "op_inv env first s" using ok by (simp add: loop_ok_def at_phase_def)
  show ?thesis
    unfolding receive_def wp_bind wp_catch
  proof (rule wp_plain_call [OF phase], goal_cases)
    case (3 raw s1)
    then have ok1: "loop_ok env first s0 c m s1" by (intro loop_ok_quiet [OF ok]) (simp add: quiet_def)
    show ?case
    proof (cases "raw = PyNone")
      case True
      with ok1 show ?thesis by (simp add: wp_return loop_post_def)
    next
      case False
      show ?thesis
      proof (cases "reduce_event env (op_operation_id s1) raw m")
        case (Inl x)
        show ?thesis
          using False wp_lost [OF ok1, of "''terminal''" "''protocol-error''"] reduce_event_errors [OF Inl]
          by (simp add: wp_bind wp_reduce Inl)
      next
        case (Inr etm)
        obtain e t m' where etm: "etm = (e, t, m')" by (cases etm)
        from wp_act_on [OF ok1 reduce_event_ok [OF Inr [unfolded etm]]] False show ?thesis
          by (simp add: wp_bind wp_reduce Inr etm)
      qed
    qed
  next
    case (4 x s1)
    then have "loop_ok env first s0 c m s1" by (intro loop_ok_quiet [OF ok]) (simp add: quiet_def)
    then show ?case by (intro wp_lost) simp_all
  qed (simp_all add: is_command_def)
qed

lemma wp_loop_body:
  assumes ok: "loop_ok env first s0 c m s"
  shows "wp (loop_body env c n m) (loop_post env first s0) (loop_error env first s0) s"
proof (cases c)
  case True
  with wp_receive [OF ok] show ?thesis by (simp add: loop_body_def wp_bind wp_catch wp_return)
next
  case False
  have inv: "op_inv env first s1" "eh_phase (op_history s1) = E_ACTIVE" "em_state m = S_ACTIVE" if "loop_ok env first s0 c m s1" for s1
    using that False by (auto simp: loop_ok_def at_phase_def)
  have lost: "loop_error env first s0 x s2" if "loop_ok env first s0 c m s1" "unknown_end env first s1 x s2" for x s1 s2
    using unknown_end_frame [OF loop_ok_frame [OF that(1)] that(2)] by (simp add: loop_error_def)
  have cancel: "wp (cancel_step env m) (\<lambda>m'. wp (receive env True n m') (loop_post env first s0) (loop_error env first s0))
      (loop_error env first s0) s1" if ok1: "loop_ok env first s0 c m s1" for s1
  proof (rule wp_cancel_step [OF inv [OF ok1]])
    fix s2
    assume s2: "at_phase env first s1 {E_CANCEL_REQUESTED} s2"
      "no_failure (op_trace s2) \<Longrightarrow> eh_last_event_sequence (op_history s2) = eh_last_event_sequence (op_history s1)"
    then have "no_failure (op_trace s2) \<Longrightarrow> no_failure (op_trace s1)" "op_apple_user_id s2 = op_apple_user_id s1"
      by (auto simp: at_phase_def frame_def)
    with s2 ok1 at_phase_frame [OF loop_ok_frame [OF ok1]]
    have "loop_ok env first s0 True (m\<lparr>em_state := S_CANCEL_REQUESTED\<rparr>) s2" by (simp add: loop_ok_def)
    then show "wp (receive env True n (m\<lparr>em_state := S_CANCEL_REQUESTED\<rparr>)) (loop_post env first s0) (loop_error env first s0) s2"
      by (rule wp_receive)
  qed (rule lost [OF ok1])
  have "wp (ask_cancel env) (\<lambda>b s1. if b then wp (cancel_step env m) (\<lambda>m'. wp (receive env True n m') (loop_post env first s0)
        (loop_error env first s0)) (loop_error env first s0) s1
      else wp (receive env False n m) (loop_post env first s0) (loop_error env first s0) s1)
      (\<lambda>e. wp (op_outcome_unknown env ''active'' ''protocol-error'') Q (loop_error env first s0)) s" for Q :: "bool \<Rightarrow> _"
  proof (rule wp_ask_cancel [OF inv(1) [OF ok]])
    fix x s1 assume "quiet env first s s1"
    note ok1 = loop_ok_quiet [OF ok this]
    show "wp (op_outcome_unknown env ''active'' ''protocol-error'') Q (loop_error env first s0) s1"
      by (rule wp_lost [OF ok1]) simp_all
  qed (use False inv(2) [OF ok] cancel wp_receive [OF loop_ok_quiet [OF ok]] loop_ok_quiet [OF ok] in simp_all)
  with False show ?thesis
    by (simp add: loop_body_def wp_funs split del: if_split cong: if_cong)
qed

section \<open>The loop\<close>

text \<open>The rule of the loop: every run that ends, ends in one of the ways of one iteration.\<close>

lemma event_loop_rule:
  assumes "event_loop env limit c n m s = Some (r, s')" and "loop_ok env first s0 c m s"
  shows "case r of Inl e \<Rightarrow> loop_error env first s0 e s' | Inr res \<Rightarrow> result_end env first s0 res s'"
proof -
  let ?P = "\<lambda>env limit c n m s (r, s'). loop_ok env first s0 c m s \<longrightarrow>
    (case r of Inl e \<Rightarrow> loop_error env first s0 e s' | Inr res \<Rightarrow> result_end env first s0 res s')"
  have "?P env limit c n m s (r, s')"
  proof (rule event_loop.raw_induct [where P = ?P, OF _ assms(1)], goal_cases)
    case (1 loop env limit c n m s y)
    show ?case
    proof (cases "n < limit")
      case True
      obtain b s1 where body: "loop_body env c n m s = (b, s1)" by fastforce
      have wp: "case b of Inl e \<Rightarrow> loop_error env first s0 e s1 | Inr step \<Rightarrow> loop_post env first s0 step s1"
        if "loop_ok env first s0 c m s" using wp_loop_body [OF that, of n] body by (simp add: wp_def)
      show ?thesis
      proof (cases "\<exists>c' n' m'. b = Inr (Again c' n' m')")
        case again: True
        then obtain c' n' m' where b: "b = Inr (Again c' n' m')" by blast
        with 1(2) True body have "loop env limit c' n' m' s1 = Some y" by simp
        from 1(1) [OF this] wp b show ?thesis by (auto simp: loop_post_def)
      next
        case False
        with 1(2) True body wp show ?thesis by (auto simp: loop_post_def split: sum.splits loop_step.splits)
      qed
    next
      case False
      have "wp (op_outcome_unknown env ''active'' ''protocol-error'') (result_end env first s0) (loop_error env first s0) s"
        if "loop_ok env first s0 c m s" by (rule wp_lost [OF that]) simp_all
      with 1(2) False show ?thesis by (auto simp: wp_def split: prod.splits sum.splits)
    qed
  qed
  with assms(2) show ?thesis by simp
qed

end
