(* ===== verification/Operation_Run.thy ===== *)
theory Operation_Run
  imports Operation_Loop
begin

text \<open>
  The whole operation: from a journal that shows the baseline, a run that ends has reported a result that
  the journal shows, or has sent nothing, or has recorded that the outcome is unknown, or could not write.
\<close>

section \<open>The start\<close>

lemma wp_raises: "wp (op_raise e) Q E = E e"
  by (rule ext) (rule wp_raise)

text \<open>The run ended before any command was sent.\<close>

definition unspent :: "'w operation_env \<Rightarrow> pydict \<Rightarrow> 'w op_state \<Rightarrow> exc \<Rightarrow> 'w op_state \<Rightarrow> bool" where
  "unspent env first s e s' =
     (frame s s' \<and> op_inv env first s' \<and> (\<forall>c \<in> set (op_trace s'). \<not> is_command c)
      \<and> (eh_phase (op_history s') = E_BASELINE
         \<or> eh_phase (op_history s') = E_ABORTED_BEFORE_START \<and> in_step env first s'
            \<and> exc_class e = EnrollmentPreDispatchCancelled))"

definition start_error :: "'w operation_env \<Rightarrow> pydict \<Rightarrow> 'w op_state \<Rightarrow> exc \<Rightarrow> 'w op_state \<Rightarrow> bool" where
  "start_error env first s e s' = (unspent env first s e s' \<or> unknown_end env first s e s')"

text \<open>The operation as it was constructed.\<close>

definition at_baseline :: "'w operation_env \<Rightarrow> pydict \<Rightarrow> 'w op_state \<Rightarrow> bool" where
  "at_baseline env first s = (op_inv env first s \<and> eh_phase (op_history s) = E_BASELINE
     \<and> (\<forall>c \<in> set (op_trace s). \<not> is_command c)
     \<and> (no_failure (op_trace s) \<longrightarrow> eh_last_event_sequence (op_history s) = None))"

lemma at_baseline_quiet:
  assumes "at_baseline env first s" and "quiet env first s s'" and "op_trace s' = op_trace s @ tr" and "\<forall>c \<in> set tr. \<not> is_command c"
  shows "at_baseline env first s'"
  using assms by (auto simp: at_baseline_def quiet_def)

lemma unspent_refused:
  assumes "at_baseline env first s" and "refused env first s s'"
  shows "unspent env first s e s'"
  using assms by (auto simp: at_baseline_def refused_def unspent_def)

lemma unspent_self: "at_baseline env first s \<Longrightarrow> unspent env first s e s"
  by (simp add: at_baseline_def unspent_def)

text \<open>Asking for permission does not fail.\<close>

lemma wp_dispatch_guard:
  assumes base: "at_baseline env first s" and Q: "\<And>v s'. at_baseline env first s' \<Longrightarrow> frame s s' \<Longrightarrow> Q v s'"
  shows "wp (dispatch_guard env) Q E s"
proof -
  have call: "wp (op_call Called_Back f) P P' s1" if "at_baseline env first s1"
    "\<And>x s2. at_baseline env first s2 \<Longrightarrow> frame s1 s2 \<Longrightarrow> P x s2" "\<And>e s2. at_baseline env first s2 \<Longrightarrow> frame s1 s2 \<Longrightarrow> P' e s2"
    for f :: "'a \<Rightarrow> 'c res \<times> 'a" and P P' s1
  proof (rule wp_plain_call [where env = env and first = first], goal_cases)
    case 1
    show ?case using that(1) by (simp add: at_baseline_def)
  next
    case (4 x s2)
    then show ?case using at_baseline_quiet [OF that(1), of s2 "[Called_Back]"] that(2) by (simp add: quiet_def is_command_def)
  next
    case (5 x s2)
    then show ?case using at_baseline_quiet [OF that(1), of s2 "[Called_Back]"] that(3) by (simp add: quiet_def is_command_def)
  qed (simp_all add: is_command_def)
  show ?thesis
    unfolding dispatch_guard_def wp_catch wp_bind wp_return
  proof (rule call [OF base], goal_cases)
    case (1 v s1)
    show ?case
    proof (cases v)
      case Awaitable
      have "wp (op_call Called_Back (env_close_awaitable env)) (\<lambda>_. Q (PyBool False)) (\<lambda>_. Q (PyBool False)) s1"
        by (rule call [OF 1(1)]) (use Q 1(2) frame_trans in blast)+
      then show ?thesis by (simp add: Awaitable wp_bind wp_return wp_returns)
    qed (use Q 1 in \<open>simp add: wp_return\<close>)
  next
    case (2 e s1)
    then show ?case by (rule Q)
  qed
qed

lemma wp_send_start:
  assumes base: "at_baseline env first s"
    and request: "request_buffer request = Inr bs" "length bs = (if env_protocol_version env = 1 then 48 else 68)"
    and started: "\<And>s'. at_phase env first s {E_ACTIVE} s' \<Longrightarrow>
      (no_failure (op_trace s') \<Longrightarrow> eh_last_event_sequence (op_history s') = None) \<Longrightarrow> Q None s'"
    and rejected: "\<And>r s'. result_end env first s r s' \<Longrightarrow> Q (Some r) s'"
    and fail: "\<And>e s'. start_error env first s e s' \<Longrightarrow> E e s'"
  shows "wp (send_start env request) Q E s"
proof -
  have inv: "op_inv env first s" and ph: "eh_phase (op_history s) = E_BASELINE" using base by (simp_all add: at_baseline_def)
  show ?thesis
    unfolding send_start_def wp_bind wp_lift request(1) sum.case
  proof (rule wp_at [where m = "\<lambda>s'. op_append env ''ENROLL_START_INTENT'' (start_intent_evidence env (op_apple_user_id s') bs)"],
      rule wp_append [OF inv evidence_flat(2) not_repair_names(2) offerable_start_intent [OF inv ph request(2)]], goal_cases)
    case (1 s1)
    note d = storedD [OF 1] and last1 = stored_last_event [OF 1]
    have p1: "eh_phase (op_history s1) = E_START_INTENT" by (rule after_phase(2) [OF d(4)])
    have up: "E e s'" if "unknown_end env first s1 e s'" for e s'
      using unknown_end_frame [OF d(1) that] by (intro fail) (simp add: start_error_def)
    show ?case
    proof (rule wp_guarded_command [OF d(2)], goal_cases)
      case 1
      show ?case using d(1,5,6) by (auto simp: announces_def frame_def)
    next
      case (5 x s2)
      then have q: "frame s1 s2" "op_inv env first s2" "op_history s2 = op_history s1" "no_failure (op_trace s2) = no_failure (op_trace s1)"
        by (simp_all add: quiet_def)
      have act: "eh_phase (op_history s2) \<in> active_phases" using p1 q(3) by simp
      have up2: "E e s'" if "unknown_end env first s2 e s'" for e s' by (rule up [OF unknown_end_frame [OF q(1) that]])
      show ?case
      proof (cases "x = 0")
        case True
        have "wp (append_during_active_operation env ''ENROLL_START_OBSERVED'' (status_evidence 0) ''start'')
          (\<lambda>_. wp (op_catch (call_sync env ''enrollment-start'' (env_on_started env))
                     (\<lambda>_. op_outcome_unknown env ''active'' ''protocol-error'')) (\<lambda>_. Q None) E) E s2"
        proof (rule wp_append_during [OF q(2) act evidence_flat(3) not_repair_names(3)], goal_cases)
          case 1
          show ?case using p1 q(3) by (intro offerable_start_observed) simp
        next
          case (3 s3)
          note e = storedD [OF 3] and last3 = stored_last_event [OF 3]
          have p3: "eh_phase (op_history s3) = E_ACTIVE" by (rule after_phase(3) [OF e(4)])
          have fr: "frame s s3" by (rule frame_trans [OF d(1) frame_trans [OF q(1) e(1)]])
          show ?case
          proof (rule wp_guarded_callback [OF e(2)])
            fix s4 assume "quiet env first s3 s4"
            then have r: "frame s3 s4" "op_inv env first s4" "op_history s4 = op_history s3" "no_failure (op_trace s4) = no_failure (op_trace s3)"
              by (simp_all add: quiet_def)
            show "Q None s4"
            proof (rule started)
              show "at_phase env first s {E_ACTIVE} s4" using r p3 frame_trans [OF fr r(1)] by (simp add: at_phase_def)
              show "eh_last_event_sequence (op_history s4) = None" if "no_failure (op_trace s4)"
                using that r(3,4) last3 last1 e(7) d(7) q(3,4) base by (simp add: at_baseline_def)
            qed
          next
            fix x s4 assume "unknown_end env first s3 x s4"
            then show "E x s4" by (intro up2 unknown_end_frame [OF e(1)])
          qed (simp add: p3)
        next
          case (4 e s3)
          then show ?case by (rule up2)
        qed simp
        with True show ?thesis by (simp add: wp_binds wp_returns)
      next
        case False
        have "wp (append_during_active_operation env ''ENROLL_START_REJECTED'' (status_evidence x) ''start'')
            (\<lambda>_. Q (Some (new_result ''start-rejected'' None))) E s2"
        proof (rule wp_append_during [OF q(2) act evidence_flat(3) not_repair_names(4)], goal_cases)
          case 1
          show ?case using p1 q(3) 5(2,3) False by (intro offerable_start_rejected) simp_all
        next
          case (3 s3)
          have fr: "frame s s2" by (rule frame_trans [OF d(1) q(1)])
          from after_start_rejected [OF storedD(4) [OF 3]] False have "result_end env first s2 (new_result ''start-rejected'' None) s3"
            by (intro result_endI [OF 3]) (auto simp: new_result_def outcome_recorded_def)
          then show ?case by (intro rejected result_end_frame [OF fr])
        next
          case (4 e s3)
          then show ?case by (rule up2)
        qed simp
        with False show ?thesis by (simp add: wp_binds wp_returns)
      qed
    next
      case (6 e s2)
      then show ?case by (rule up)
    qed (simp_all add: p1 is_command_def)
  next
    case (2 e s1)
    from unspent_refused [OF base this] show ?case by (intro fail) (simp add: start_error_def)
  qed
qed

text \<open>The request is an implementation detail: no invariant is about it.\<close>

lemma request_irrelevant [simp]:
  "op_inv env first (s\<lparr>op_request := x\<rparr>) = op_inv env first s" "in_step env first (s\<lparr>op_request := x\<rparr>) = in_step env first s"
  "frame s (s'\<lparr>op_request := x\<rparr>) = frame s s'" "frame (s\<lparr>op_request := x\<rparr>) s' = frame s s'"
  "at_baseline env first (s\<lparr>op_request := x\<rparr>) = at_baseline env first s"
  "unknown_end env first s e (s'\<lparr>op_request := x\<rparr>) = unknown_end env first s e s'"
  "unknown_end env first (s\<lparr>op_request := x\<rparr>) e s' = unknown_end env first s e s'"
  "result_end env first s r (s'\<lparr>op_request := x\<rparr>) = result_end env first s r s'"
  "result_end env first (s\<lparr>op_request := x\<rparr>) r s' = result_end env first s r s'"
  "start_error env first s e (s'\<lparr>op_request := x\<rparr>) = start_error env first s e s'"
  "start_error env first (s\<lparr>op_request := x\<rparr>) e s' = start_error env first s e s'"
  "at_phase env first s P (s'\<lparr>op_request := x\<rparr>) = at_phase env first s P s'"
  "at_phase env first (s\<lparr>op_request := x\<rparr>) P s' = at_phase env first s P s'"
  by (simp_all add: op_inv_def in_step_def frame_def at_baseline_def unknown_end_def result_end_def start_error_def
      unspent_def at_phase_def)

lemma new_request_buffer:
  assumes "new_enrollment_request v uid form = Inr r"
  shows "request_buffer r = Inr (er_buffer r) \<and> length (er_buffer r) = (if v = 1 then 48 else 68)"
proof -
  have len: "length packed = 16" if "struct_pack [FUInt 4, FUInt 4, FUInt 4, FUInt 4] vs = Inr packed" for vs packed
    using struct_pack_length [OF that] by simp
  from assms show ?thesis
    by (auto simp: new_enrollment_request_def request_buffer_def res_simps Let_def zero_bytes_def ACM_EXTERNAL_FORM_SIZE_def
        dest!: len split: if_splits)
qed

lemma wp_start_operation:
  assumes base: "at_baseline env first s"
    and started: "\<And>s'. at_phase env first s {E_ACTIVE} s' \<Longrightarrow>
      (no_failure (op_trace s') \<Longrightarrow> eh_last_event_sequence (op_history s') = None) \<Longrightarrow> Q None s'"
    and rejected: "\<And>r s'. result_end env first s r s' \<Longrightarrow> Q (Some r) s'"
    and fail: "\<And>e s'. start_error env first s e s' \<Longrightarrow> E e s'"
  shows "wp (start_operation env form) Q E s"
  unfolding start_operation_def wp_bind
proof (rule wp_dispatch_guard [OF base])
  fix v s1 assume base1: "at_baseline env first s1" and fr: "frame s s1"
  have inv: "op_inv env first s1" and ph: "eh_phase (op_history s1) = E_BASELINE" using base1 by (simp_all add: at_baseline_def)
  have fail1: "E e s'" if "start_error env first s1 e s'" for e s'
    using that frame_trans [OF fr] unknown_end_frame [OF fr] by (intro fail) (auto simp: start_error_def unspent_def)
  have abort: "wp (op_append env ''ENROLL_ABORTED_BEFORE_START'' (abort_evidence env))
      (\<lambda>_. E (Exc EnrollmentPreDispatchCancelled ''enrollment cancelled before start dispatch'')) E s1"
  proof (rule wp_append [OF inv evidence_flat(1) not_repair_names(1) offerable_abort [OF ph]], goal_cases)
    case (1 s2)
    then have "op_trace s2 = op_trace s1 @ [last (op_trace s2)]" "\<not> is_command (last (op_trace s2))"
      by (auto simp: stored_def is_command_def)
    then have "\<forall>c \<in> set (op_trace s2). \<not> is_command c" using base1 by (metis at_baseline_def Un_iff set_append empty_iff list.set insert_iff)
    then have "unspent env first s1 (Exc EnrollmentPreDispatchCancelled m) s2" for m
      using storedD(1-3) [OF 1] after_phase(1) [OF storedD(4) [OF 1]] by (simp add: unspent_def)
    then show ?case by (intro fail1) (simp add: start_error_def)
  next
    case (2 e s2)
    from unspent_refused [OF base1 this] show ?case by (intro fail1) (simp add: start_error_def)
  qed
  have go: "wp (with_request env form (send_start env)) Q E s1"
  proof (cases "new_enrollment_request (env_protocol_version env) (op_apple_user_id s1) form")
    case (Inl e)
    have "E e s1" using unspent_self [OF base1] by (intro fail1) (simp add: start_error_def)
    with Inl show ?thesis by (simp add: wp_def with_request_def)
  next
    case (Inr request)
    note buf = new_request_buffer [OF Inr]
    let ?w = "\<lambda>s'. s'\<lparr>op_request := map_option request_wipe (op_request s')\<rparr>"
    have "wp (send_start env request) (\<lambda>x s'. Q x (?w s')) (\<lambda>e s'. E e (?w s')) (s1\<lparr>op_request := Some request\<rparr>)"
    proof (rule wp_send_start [where first = first, OF _ conjunct1 [OF buf] conjunct2 [OF buf]], goal_cases)
      case 1
      show ?case using base1 by simp
    next
      case (2 s2)
      then show ?case using at_phase_frame [OF fr, of env first "{E_ACTIVE}" "?w s2"] by (intro started) simp_all
    next
      case (3 r s2)
      then show ?case using result_end_frame [OF fr, of env first r "?w s2"] by (intro rejected) simp_all
    next
      case (4 e s2)
      then show ?case by (intro fail1) simp
    qed
    then show ?thesis
      by (auto simp: wp_def with_request_def Inr split: prod.splits sum.splits)
  qed
  show "wp (if v \<noteq> PyBool True then op_bind (op_append env ''ENROLL_ABORTED_BEFORE_START'' (abort_evidence env)) (\<lambda>_.
          op_raise (Exc EnrollmentPreDispatchCancelled ''enrollment cancelled before start dispatch''))
        else with_request env form (send_start env)) Q E s1"
    using abort go by (simp add: wp_bind wp_raises)
qed

section \<open>The run\<close>

definition run_error :: "'w operation_env \<Rightarrow> pydict \<Rightarrow> 'w op_state \<Rightarrow> exc \<Rightarrow> 'w op_state \<Rightarrow> bool" where
  "run_error env first s e s' =
     (unspent env first s e s' \<or> unknown_end env first s e s' \<or> frame s s' \<and> op_inv env first s' \<and> \<not> calm env)"

lemma handled:
  assumes "start_error env first s e s1 \<or> loop_error env first s e s1"
  shows "wp (run_handler env e) Q (run_error env first s) s1"
proof (cases "issubclass (exc_class e) EnrollmentOperationError")
  case True
  have "run_error env first s e s1"
    using assms True by (auto simp: run_error_def start_error_def loop_error_def escaped_def at_phase_def)
  with True show ?thesis by (simp add: wp_def run_handler_def)
next
  case False
  show ?thesis
  proof (cases "eh_phase (op_history s1) \<in> {E_ACTIVE, E_CONTINUE_INTENT, E_CANCEL_INTENT, E_CANCEL_REQUESTED}")
    case True
    have fr: "frame s s1" "op_inv env first s1"
      using assms by (auto simp: start_error_def loop_error_def unspent_def unknown_end_def escaped_def at_phase_def)
    have "wp (op_outcome_unknown env ''active'' ''protocol-error'') Q (run_error env first s) s1"
      by (rule wp_outcome_unknown [OF fr(2)]) (use True unknown_end_frame [OF fr(1)] in \<open>auto simp: run_error_def\<close>)
    with True False show ?thesis by (simp add: wp_def run_handler_def)
  next
    case ph: False
    have "run_error env first s e' s1" for e'
      using assms ph False
      by (auto simp: run_error_def start_error_def loop_error_def escaped_def at_phase_def unspent_def unknown_end_def reconcile_error_def)
    with ph False show ?thesis by (simp add: wp_def run_handler_def)
  qed
qed

text \<open>How a run ends.\<close>

lemma run_operation_rule:
  assumes "run_operation env form limit s = Some (r, s')" and base: "at_baseline env first s"
  shows "case r of Inl e \<Rightarrow> run_error env first s e s' | Inr res \<Rightarrow> result_end env first s res s'"
proof -
  have self: "run_error env first s e s" for e using unspent_self [OF base] by (simp add: run_error_def)
  have handler: "case r' of Inl e' \<Rightarrow> run_error env first s e' s2 | Inr res \<Rightarrow> result_end env first s res s2"
    if "run_handler env e s1 = (r', s2)" "start_error env first s e s1 \<or> loop_error env first s e s1" for e s1 r' s2
    using handled [OF that(2), of "result_end env first s"] that(1) by (simp add: wp_def split: sum.splits)
  consider (self) e where "r = Inl e" "s' = s"
    | (start_failed) e s1 where "start_operation env form s = (Inl e, s1)" "run_handler env e s1 = (r, s')"
    | (rejected) res where "start_operation env form s = (Inr (Some res), s')" "r = Inr res"
    | (loop) m s1 r2 s2 where "new_machine (op_apple_user_id s) (env_connection_generation env) (op_operation_id s) = Inr m"
        "start_operation env form s = (Inr None, s1)" "event_loop env (int_of limit) False 0 m s1 = Some (r2, s2)"
        "(case r2 of Inl e \<Rightarrow> run_handler env e s2 | Inr res \<Rightarrow> (Inr res, s2)) = (r, s')"
    using assms(1) unfolding run_operation_def
    by (auto split: if_splits sum.splits prod.splits option.splits)
  then show ?thesis
  proof cases
    case self
    with \<open>\<And>e. run_error env first s e s\<close> show ?thesis by simp
  next
    case start_failed
    have "wp (start_operation env form) (\<lambda>_ _. True) (start_error env first s) s" by (rule wp_start_operation [OF base]) simp_all
    with start_failed handler show ?thesis by (simp add: wp_def)
  next
    case rejected
    have "wp (start_operation env form) (\<lambda>x s'. \<forall>r. x = Some r \<longrightarrow> result_end env first s r s') (\<lambda>_ _. True) s"
      by (rule wp_start_operation [OF base]) simp_all
    with rejected show ?thesis by (simp add: wp_def)
  next
    case loop
    have "wp (start_operation env form) (\<lambda>x s'. x = None \<longrightarrow> loop_ok env first s False m s') (\<lambda>_ _. True) s"
    proof (rule wp_start_operation [OF base], goal_cases)
      case (1 s1)
      then have "op_apple_user_id s1 = op_apple_user_id s" by (simp add: at_phase_def frame_def)
      with 1 loop(1) show ?case
        by (auto simp: loop_ok_def new_machine_def up_to_def split: if_splits)
    qed simp_all
    with loop(2) have "loop_ok env first s False m s1" by (simp add: wp_def)
    from event_loop_rule [OF loop(3) this] have ended: "case r2 of Inl e \<Rightarrow> loop_error env first s e s2
        | Inr res \<Rightarrow> result_end env first s res s2" .
    show ?thesis
    proof (cases r2)
      case (Inl e)
      with ended loop(4) handler [of e s2 r s'] show ?thesis by simp
    next
      case (Inr res)
      with ended loop(4) show ?thesis by auto
    qed
  qed
qed

end
