(* ===== verification/Operation_Termination.thy ===== *)
theory Operation_Termination
  imports Operation_Logic
begin

text \<open>
  The event loop ends when the transport does not stay idle for ever: every iteration receives an event,
  sends the one cancel, or brings the transport closer to its next event.
\<close>

lemma wp_any: "wp m (\<lambda>_ _. True) (\<lambda>_ _. True) s"
  by (simp add: wp_def split: sum.splits prod.splits)

lemma wp_bind_any: "(\<And>x s'. wp (f x) Q (\<lambda>_ _. True) s') \<Longrightarrow> wp (op_bind m f) Q (\<lambda>_ _. True) s"
  unfolding wp_bind by (rule wp_mono [OF wp_any])

lemma outcome_unknown_raises: "wp (op_outcome_unknown env stage reason) Q (\<lambda>_ _. True) s"
  unfolding op_outcome_unknown_def by (intro wp_bind_any) (simp add: wp_raise)

text \<open>The number of events after an iteration that handled one.\<close>

definition counts :: "int \<Rightarrow> loop_step \<Rightarrow> bool" where
  "counts n step = (\<forall>c' n' m'. step = Again c' n' m' \<longrightarrow> n' = n)"

lemma counts_simps [simp]: "counts n (Again c n m)" "counts n (Finished r)"
  by (simp_all add: counts_def)

lemma act_on_counts: "wp (act_on env c n raw e t m) (\<lambda>step _. counts n step) (\<lambda>_ _. True) s"
  unfolding act_on_def
proof (rule wp_bind_any)
  fix x s'
  show "wp (answer env c n raw e t m) (\<lambda>step _. counts n step) (\<lambda>_ _. True) s'"
  proof (cases "tr_continue_required t")
    case True
    have "wp (if b then op_return (Again c n m) else op_bind (continue_step env e raw) (\<lambda>_. op_return (Again c n m)))
        (\<lambda>step _. counts n step) (\<lambda>_ _. True) s1" for b s1
      by (cases b) (simp_all add: wp_return wp_bind_any)
    with True show ?thesis by (simp add: answer_def wp_bind_any)
  next
    case False
    then show ?thesis
      by (auto simp: answer_def conclude_def wp_return intro: wp_bind_any split: option.splits)
  qed
qed

text \<open>The progress of one iteration, for a bound \<open>\<mu>\<close> on the polls without an event that can still follow.\<close>

definition patient :: "('w \<Rightarrow> nat) \<Rightarrow> 'w operation_env \<Rightarrow> bool" where
  "patient \<mu> env = ((\<forall>w. \<mu> (snd (env_cancel_requested env w)) \<le> \<mu> w)
     \<and> (\<forall>w w'. env_next_event env w = (Inr PyNone, w') \<longrightarrow> \<mu> w' < \<mu> w))"

definition progress :: "('w \<Rightarrow> nat) \<Rightarrow> bool \<Rightarrow> int \<Rightarrow> nat \<Rightarrow> loop_step \<Rightarrow> 'w op_state \<Rightarrow> bool" where
  "progress \<mu> c n k step s = (\<forall>c' n' m'. step = Again c' n' m' \<longrightarrow>
     n' = n + 1 \<or> n' = n \<and> c' \<and> \<not> c \<or> n' = n \<and> c' = c \<and> \<mu> (op_world s) < k)"

lemma receive_progress:
  assumes "patient \<mu> env" and "\<mu> (op_world s) \<le> k"
  shows "wp (receive env c n m) (\<lambda>step s'. progress \<mu> c n k step s') (\<lambda>_ _. True) s"
proof -
  have act: "wp (act_on env c (n + 1) raw e t m') (\<lambda>step s'. progress \<mu> c n k step s') (\<lambda>_ _. True) s'" for raw e t m' s'
    by (rule wp_mono [OF act_on_counts]) (auto simp: counts_def progress_def)
  show ?thesis
    unfolding receive_def wp_bind wp_catch
  proof (rule wp_call, goal_cases)
    case (1 raw w)
    show ?case
    proof (cases "raw = PyNone")
      case True
      with 1 assms have "\<mu> w < k" by (force simp: patient_def)
      with True show ?thesis by (simp add: wp_return progress_def effect_def)
    next
      case False
      have "wp (case x of (e, t, m') \<Rightarrow> act_on env c (n + 1) (bytes_of raw) e t m')
          (\<lambda>step s'. progress \<mu> c n k step s') (\<lambda>_ _. True) s'" for x s'
        using act by (cases x) simp
      with False show ?thesis by (simp add: wp_bind_any)
    qed
  next
    case (2 x w)
    show ?case by (rule outcome_unknown_raises)
  qed
qed

lemma loop_body_progress:
  assumes "patient \<mu> env"
  shows "wp (loop_body env c n m) (\<lambda>step s'. progress \<mu> c n (\<mu> (op_world s)) step s') (\<lambda>_ _. True) s"
proof (cases c)
  case True
  with receive_progress [OF assms order_refl, where c = c and n = n and m = m and s = s] show ?thesis
    by (simp add: loop_body_def wp_bind wp_catch wp_return)
next
  case False
  have asked: "wp (op_bind (if b then op_bind (cancel_step env m) (\<lambda>m. op_return (True, m)) else op_return (c, m))
      (\<lambda>(c, m). receive env c n m)) (\<lambda>step s'. progress \<mu> c n (\<mu> (op_world s)) step s') (\<lambda>_ _. True) s1"
    if "\<mu> (op_world s1) \<le> \<mu> (op_world s)" for b s1
  proof (cases b)
    case True
    have "wp (receive env True n m') (\<lambda>step s'. progress \<mu> c n (\<mu> (op_world s)) step s') (\<lambda>_ _. True) s2" for m' s2
      by (rule wp_mono [OF receive_progress [OF assms order_refl]]) (use False in \<open>auto simp: progress_def\<close>)
    then show ?thesis
      unfolding wp_bind using True
      by (simp add: wp_bind) (rule wp_mono [OF wp_any], simp_all add: wp_return)
  next
    case b: False
    with receive_progress [OF assms that, where c = c and n = n and m = m] show ?thesis by (simp add: wp_bind wp_return)
  qed
  have le: "\<mu> (snd (env_cancel_requested env w)) \<le> \<mu> w" for w using assms by (simp add: patient_def)
  show ?thesis
    unfolding loop_body_def wp_bind wp_catch using False
    apply (simp add: ask_cancel_def wp_bind)
    apply (rule wp_call)
    subgoal for v w using le [of "op_world s"] asked [of "effect Called_Back s w" "callback_truth v"]
      by (simp add: wp_return wp_bind effect_def)
    subgoal by (rule outcome_unknown_raises)
    done
qed

text \<open>The measure: events still to come, the cancel still to come, idle polls still to come.\<close>

definition loop_measure :: "('w \<Rightarrow> nat) \<Rightarrow> int \<Rightarrow> bool \<times> int \<times> 'w op_state \<Rightarrow> nat \<times> nat \<times> nat" where
  "loop_measure \<mu> limit = (\<lambda>(c, n, s). (nat (limit - n), if c then 0 else 1, \<mu> (op_world s)))"

lemma event_loop_returns:
  assumes "patient \<mu> env"
  shows "\<exists>r s'. event_loop env limit c n m s = Some (r, s')"
proof (induction "(c, n, s)" arbitrary: c n m s
    rule: wf_induct_rule [OF wf_inv_image [OF wf_lex_prod [OF wf_less_than wf_lex_prod [OF wf_less_than wf_less_than]],
      of "loop_measure \<mu> limit"]])
  case 1
  show ?case
  proof (cases "n < limit")
    case True
    obtain r s1 where body: "loop_body env c n m s = (r, s1)" by fastforce
    have again: "\<exists>r s'. event_loop env limit c' n' m' s1 = Some (r, s')" if "r = Inr (Again c' n' m')" for c' n' m'
    proof (rule 1)
      have "progress \<mu> c n (\<mu> (op_world s)) (Again c' n' m') s1"
        using loop_body_progress [OF assms, of c n m s] body that by (simp add: wp_def)
      then show "((c', n', s1), c, n, s) \<in> inv_image (less_than <*lex*> less_than <*lex*> less_than) (loop_measure \<mu> limit)"
        using True by (auto simp: progress_def loop_measure_def)
    qed
    show ?thesis
      using again True body by (subst event_loop.simps) (auto split: sum.splits loop_step.splits)
  next
    case False
    obtain r s' where "op_outcome_unknown env ''active'' ''protocol-error'' s = (r :: operation_result res, s')" by fastforce
    with False show ?thesis by (subst event_loop.simps) simp
  qed
qed

end
