(* ===== verification/Operation_Theorems.thy ===== *)
theory Operation_Theorems
  imports Operation_Run Operation_Termination
begin

text \<open>The properties of the enrollment operation, stated for an operation constructed on a journal file.\<close>

section \<open>Construction\<close>

lemma baseline_numbers:
  assumes "enroll_start r = Inr b"
  shows "\<exists>u p. dict_get (es_baseline b) ''apple_uid'' = PyInt u \<and> dict_get (es_baseline b) ''protocol_version'' = PyInt p"
proof -
  have int: "\<exists>n. v = PyInt n" if "require_nonnegative_int v f = Inr ()" for v f
    using that by (cases v) (auto simp: require_nonnegative_int_def py_simps split: if_splits)
  from assms have base: "es_baseline b = dict_of (dict_get (dict_of (dict_get r ''evidence'')) ''baseline'')"
    "validate_baseline (dict_get (dict_of (dict_get r ''evidence'')) ''baseline'') = Inr ()"
    by (auto simp: enroll_start_def res_simps Let_def e_exact_def)
  then have "validate_baseline_fields (es_baseline b) = Inr ()"
    unfolding validate_baseline_def Let_def by (elim guard_InrE and_then_InrE) simp
  then have "\<exists>u. all_ok (map (\<lambda>field. require_nonnegative_int (dict_get (es_baseline b) field) field)
      [''caller_linux_uid'', ''target_linux_uid'', ''apple_uid'', ''protocol_version'', ''master_enrollment_count'']) = Inr u"
    unfolding validate_baseline_fields_def Let_def by (elim guard_InrE and_then_InrE) (rule exI)
  then have all: "\<forall>r \<in> set (map (\<lambda>field. require_nonnegative_int (dict_get (es_baseline b) field) field)
      [''caller_linux_uid'', ''target_linux_uid'', ''apple_uid'', ''protocol_version'', ''master_enrollment_count'']). r = Inr ()"
    unfolding all_ok_iff by (rule exE)
  have "require_nonnegative_int (dict_get (es_baseline b) ''apple_uid'') ''apple_uid'' = Inr ()"
    by (rule bspec [OF all]) (simp only: list.set list.map insert_iff simp_thms)
  moreover have "require_nonnegative_int (dict_get (es_baseline b) ''protocol_version'') ''protocol_version'' = Inr ()"
    by (rule bspec [OF all]) (simp only: list.set list.map insert_iff simp_thms)
  ultimately show ?thesis using int by blast
qed

lemma new_operation_baseline:
  assumes sha: "\<And>bs. length (env_sha256 env bs) = 32"
    and journal: "clean (env_record_hash env) records fs"
    and new: "new_operation env ws i boot mapping caller target w fs = (Inr s, fs')"
  obtains first rest where "records = first # rest" "at_baseline env first s" "op_trace s = []"
proof -
  let ?J = "env_record_hash env"
  obtain h where rd: "enrollment_read ?J ws fs = (Inr h, fs')" and ready: "require_start_ready h boot (env_connection_generation env)
      mapping caller target (env_protocol_version env) = Inr ()" and i: "i = eh_operation_id h"
    and s: "s = \<lparr>op_world = w, op_fs = fs', op_operation_id = i, op_history = h,
       op_apple_user_id = int_of (dict_get (eh_baseline h) ''apple_uid''), op_request = None, op_trace = []\<rparr>"
    using new unfolding new_operation_def by (auto simp: res_simps split: prod.splits sum.splits)
  obtain r1 fs1 where r1: "read_journal ?J ws fs = (r1, fs1)" by fastforce
  from read_clean [OF journal r1] rd r1 have fs': "fs' = fs" and val: "enrollment_validate_history ?J records = Inr h"
    by (auto simp: enrollment_read_def res_simps)
  from validate_shown [OF val] obtain st where st: "enrollment.run ?J records = Inr st" "shown h st" "records \<noteq> []"
    "eh_operation_id h = es_operation_id st" .
  then obtain first rest where rec: "records = first # rest" by (cases records) auto
  obtain b where b: "enroll_start first = Inr b" using val by (auto simp: rec enrollment_validate_history_def res_simps)
  note fixed = enroll_run_fixed [OF st(1) [unfolded rec] b]
  have base: "eh_baseline h = es_baseline b"
    using val fixed st(1) by (auto simp: rec enrollment_validate_history_def enrollment.run_def res_simps Let_def)
  from baseline_numbers [OF b] ready have bm: "base_match env (int_of (dict_get (eh_baseline h) ''apple_uid'')) b"
    by (auto simp: base_match_def base require_start_ready_def Let_def py_simps split: if_splits)
  have ph: "eh_phase h = E_BASELINE" using ready by (simp add: require_start_ready_def Let_def split: if_splits)
  have le: "eh_last_event_sequence h = None" using no_event_before_start [OF st(1)] st(2) ph by (simp add: shown_def)
  have rdy: "ready env first i (int_of (dict_get (eh_baseline h) ''apple_uid''))"
    using sha b bm fixed st(4) i by (auto simp: ready_def)
  have inst: "in_step env first s" using journal val by (auto simp: in_step_def s fs' rec)
  have "op_inv env first s"
    using rdy inst clean_recoverable journal by (auto simp: op_inv_def s fs' rec write_ahead_def offers_accepted_def)
  with ph le rec show ?thesis by (intro that [of first rest]) (simp_all add: at_baseline_def s)
qed

text \<open>How a run of a constructed operation ends.\<close>

lemma run_ends:
  assumes "\<And>bs. length (env_sha256 env bs) = 32" and "clean (env_record_hash env) records fs"
    and "new_operation env ws i boot mapping caller target w fs = (Inr s, fs')"
    and "run_operation env form limit s = Some (r, s')"
  obtains first rest where "records = first # rest" "op_inv env first s'" "frame s s'"
    "case r of Inl e \<Rightarrow> run_error env first s e s' | Inr res \<Rightarrow> result_end env first s res s'"
proof -
  from new_operation_baseline [OF assms(1-3)] obtain first rest where f: "records = first # rest" "at_baseline env first s" .
  note ends = run_operation_rule [OF assms(4) f(2)]
  have "op_inv env first s' \<and> frame s s'"
    using ends by (cases r) (auto simp: run_error_def unspent_def unknown_end_def result_end_def)
  with f ends show ?thesis by (intro that) auto
qed

section \<open>Properties\<close>

text \<open>
  C4: no command without a durable announcement. In every run, whatever the transport, the callbacks and
  the file system do, a start, continue or cancel command is sent only directly after the append that
  announces it has succeeded; the announcement of the start names the digest of the bytes that are sent.
\<close>

theorem commands_are_announced:
  assumes "\<And>bs. length (env_sha256 env bs) = 32" and "clean (env_record_hash env) records fs"
    and "new_operation env ws i boot mapping caller target w fs = (Inr s, fs')"
    and "run_operation env form limit s = Some (r, s')"
  shows "write_ahead env (op_apple_user_id s) (op_trace s')"
proof -
  obtain first where "op_inv env first s'" "frame s s'" using run_ends [OF assms] by metis
  then show ?thesis by (simp add: op_inv_def frame_def)
qed

text \<open>
  C5: a result is what the journal shows. When a run returns a result, the journal file holds a complete
  history of records that replays to the operation's own history, that history is in the terminal phase that
  belongs to the result, with the status or the identity the result carries, and the result demands
  reconciliation.
\<close>

theorem result_is_durable:
  assumes "\<And>bs. length (env_sha256 env bs) = 32" and "clean (env_record_hash env) records fs"
    and "new_operation env ws i boot mapping caller target w fs = (Inr s, fs')"
    and "run_operation env form limit s = Some (Inr result, s')"
  shows "outcome_recorded (op_apple_user_id s) result (op_history s') \<and> or_reconciliation_required result
    \<and> (\<exists>rs. clean (env_record_hash env) rs (op_fs s')
         \<and> enrollment_validate_history (env_record_hash env) rs = Inr (op_history s'))"
proof -
  obtain first where "result_end env first s result s'" using run_ends [OF assms] by (metis sum.case(2))
  then show ?thesis by (auto simp: result_end_def in_step_def)
qed

text \<open>
  C6: errors are accounted for, as long as the caller's \<^verbatim>\<open>cancel_requested\<close> does not raise the operation's own exception
  (\<open>calm\<close>; the second call of it is not guarded). When a run raises and no append of it failed, either nothing was sent and the
  journal still shows the baseline or the abort, or the outcome is recorded as unknown, in a file that replays to
  the operation's history, and the error asks for reconciliation.
\<close>

theorem errors_are_accounted:
  assumes "\<And>bs. length (env_sha256 env bs) = 32" and "clean (env_record_hash env) records fs"
    and "new_operation env ws i boot mapping caller target w fs = (Inr s, fs')"
    and "run_operation env form limit s = Some (Inl e, s')" and "calm env" and "no_failure (op_trace s')"
  shows "(\<forall>c \<in> set (op_trace s'). \<not> is_command c) \<and> eh_phase (op_history s') \<in> {E_BASELINE, E_ABORTED_BEFORE_START}
    \<or> e = operation_error ''enrollment outcome is unknown; reconciliation is required''
      \<and> eh_phase (op_history s') = E_OUTCOME_UNKNOWN
      \<and> (\<exists>rs. clean (env_record_hash env) rs (op_fs s')
           \<and> enrollment_validate_history (env_record_hash env) rs = Inr (op_history s'))"
proof -
  obtain first where "run_error env first s e s'" using run_ends [OF assms(1-4)] by (metis sum.case(1))
  then show ?thesis
    using assms(5,6) by (auto simp: run_error_def unspent_def unknown_end_def reconcile_error_def in_step_def)
qed

text \<open>
  C7: the operation does not contradict its journal. Up to the first append that fails, that one included, every milestone
  it offers is one that the replay of the journal accepts, so it was not refused for its contents, and the journal file can always be
  read again: it holds complete records and at most a torn line.
\<close>

theorem offers_fit_the_journal:
  assumes "\<And>bs. length (env_sha256 env bs) = 32" and "clean (env_record_hash env) records fs"
    and "new_operation env ws i boot mapping caller target w fs = (Inr s, fs')"
    and "run_operation env form limit s = Some (r, s')"
  shows "offers_accepted (env_record_hash env) (op_operation_id s) (op_trace s')
    \<and> recoverable (env_record_hash env) (hd records) (op_fs s')"
proof -
  obtain first rest where "records = first # rest" "op_inv env first s'" "frame s s'" using run_ends [OF assms] by metis
  then show ?thesis by (simp add: op_inv_def frame_def)
qed

text \<open>
  C8: termination. If the transport returns \<^verbatim>\<open>None\<close> only finitely often in a row, and asking for
  a cancel does not extend that, then every run ends, whatever the device sends and whatever fails.
\<close>

theorem run_terminates:
  assumes "patient \<mu> env"
  shows "\<exists>r s'. run_operation env form limit s = Some (r, s')"
proof -
  have ends: "event_loop env n False 0 m s1 = None \<Longrightarrow> P" for n m s1 P
    using event_loop_returns [OF assms, of n False 0 m s1] by auto
  have "run_operation env form limit s \<noteq> None"
    by (auto simp: run_operation_def elim: ends split: prod.splits sum.splits option.splits)
  then show ?thesis by auto
qed

section \<open>An operation on the sample journal\<close>

text \<open>The device refuses the start with status 5.\<close>

definition sample_env :: "bool \<Rightarrow> unit operation_env" where
  "sample_env allowed = \<lparr>env_record_hash = save_hash, env_sha256 = (\<lambda>_. replicate 32 0),
     env_writes = (\<lambda>w. (([], [], [], []), w)),
     env_connection_generation = str_of (dict_get (dict_of sample_baseline) ''connection_generation''),
     env_protocol_version = 2, env_start = (\<lambda>bs w. (Inr (PyInt 5), w)),
     env_continue = (\<lambda>w. (Inr (PyInt 0), w)), env_cancel = (\<lambda>w. (Inr (PyInt 0), w)),
     env_next_event = (\<lambda>w. (Inl (Exc OSError []), w)),
     env_dispatch_allowed = (\<lambda>w. (Inr (Returned (PyBool allowed)), w)),
     env_cancel_requested = (\<lambda>w. (Inr (Returned (PyBool False)), w)),
     env_on_started = (\<lambda>w. (Inr (Returned PyNone), w)), env_on_feedback = (\<lambda>t w. (Inr (Returned PyNone), w)),
     env_close_awaitable = (\<lambda>w. (Inr (), w))\<rparr>"

definition sample_state :: "unit op_state" where
  "sample_state = \<lparr>op_world = (), op_fs = base_fs, op_operation_id = sample_id,
     op_history = projr (enrollment_validate_history save_hash [base_read]), op_apple_user_id = 501,
     op_request = None, op_trace = []\<rparr>"

lemma sample_sha: "length (env_sha256 (sample_env b) bs) = 32"
  by (simp add: sample_env_def)

lemma sample_clean: "clean (env_record_hash (sample_env b)) [base_read] base_fs"
  by (simp add: sample_env_def open_clean [OF base_open base_holds])

lemma sample_patient: "patient (\<lambda>_. 0) (sample_env b)" and sample_calm: "calm (sample_env b)"
  by (simp_all add: patient_def calm_def sample_env_def)

lemma sample_new:
  "new_operation (sample_env b) [] sample_id (str_of (dict_get (dict_of sample_baseline) ''linux_boot_uuid''))
     (str_of (dict_get (dict_of sample_baseline) ''mapping_generation'')) 1000 1000 () base_fs = (Inr sample_state, base_fs)"
proof -
  obtain h where h: "enrollment_validate_history save_hash [base_read] = Inr h" "eh_operation_id h = sample_id"
    using abort_histories(1) by (auto split: sum.splits)
  have rd: "read_journal save_hash [] base_fs = (Inr [base_read], base_fs)"
    by (rule read_journal_holds [OF base_open base_holds]) simp
  have "case enrollment_validate_history save_hash [base_read] of Inl _ \<Rightarrow> False
     | Inr h \<Rightarrow> require_start_ready h (str_of (dict_get (dict_of sample_baseline) ''linux_boot_uuid''))
         (str_of (dict_get (dict_of sample_baseline) ''connection_generation''))
         (str_of (dict_get (dict_of sample_baseline) ''mapping_generation'')) 1000 1000 2 = Inr ()
         \<and> dict_get (eh_baseline h) ''apple_uid'' = PyInt 501"
    unfolding base_eval by code_simp
  with h rd show ?thesis
    by (simp add: new_operation_def enrollment_read_def sample_env_def sample_state_def)
qed

text \<open>An append whose milestone the journal accepts, and whose writes are complete, succeeds.\<close>

lemma enrollment_append_succeeds:
  assumes f: "open_private fs = Inr f" "fs_parent fs = ParentDir True True" and rs: "holds H (jf_data f) rs" "rs \<noteq> []" "length rs < 4096"
    and id: "dict_get (hd rs) ''operation_id'' = PyStr i" "eh_operation_id h = i"
    and e: "plain (PyDict e)" "append_checks i m e (Some (int (length rs))) (Some hh) = Inr ()" "head_hash rs = PyStr hh"
    and v: "enrollment_validate_history H rs = Inr h" "enrollment_validate_history H (rs @ [candidate_record i m e]) = Inr h1"
      "enrollment_validate_history H (rs @ [read_back H u]) = Inr h2"
    and u: "u = unsigned_fields (PyStr i) (length rs) (head_hash rs) m e"
    and size: "int (length (jf_data f)) + int (length (record_line (signed H u))) \<le> MAX_JOURNAL_BYTES"
    and fs': "f' = f\<lparr>jf_data := jf_data f @ record_line (signed H u)\<rparr>" "fs' = fs\<lparr>fs_file := Some f'\<rparr>"
  shows "enrollment_append_checked H [] [] [] [] i m e fs = (Inr h2, fs')"
    and "open_private fs' = Inr f'" and "holds H (jf_data f') (rs @ [read_back H u])"
proof -
  have h: "eh_record_count h = int (length rs)" "eh_head_hash h = hh"
    using v(1) rs(2) e(3) by (cases rs; auto simp: enrollment_validate_history_def head_hash_def res_simps Let_def)+
  note app = enrollment_append.append_succeeds [OF f rs id(1) v(1) id(2) h(1) _ e(1) _ v(2,3) u size fs']
  show "enrollment_append_checked H [] [] [] [] i m e fs = (Inr h2, fs')"
    "open_private fs' = Inr f'" "holds H (jf_data f') (rs @ [read_back H u])"
    using app e(2,3) h(2) by simp_all
qed

definition refused_request :: bytes where
  "refused_request = er_buffer (projr (new_enrollment_request 2 501 (PyBytes (replicate 16 7))))"

definition intent_evidence :: pydict where
  "intent_evidence = start_intent_evidence (sample_env True) 501 refused_request"

lemma refused_length: "length refused_request = 68"
proof -
  have "\<not> isl (new_enrollment_request 2 501 (PyBytes (replicate 16 7)))" by code_simp
  then obtain r where "new_enrollment_request 2 501 (PyBytes (replicate 16 7)) = Inr r"
    by (cases "new_enrollment_request 2 501 (PyBytes (replicate 16 7))") auto
  with new_request_buffer [OF this] show ?thesis by (simp add: refused_request_def)
qed

lemma zero_hexdigest: "hexdigest (replicate 32 0) = replicate 64 CHR ''0''"
  by code_simp

lemma intent_evidence_code [code]:
  "intent_evidence =
     [(KStr ''apple_uid'', PyInt 501), (KStr ''protocol_version'', PyInt 2),
      (KStr ''connection_generation'', dict_get (dict_of sample_baseline) ''connection_generation''),
      (KStr ''request_length'', PyInt 68), (KStr ''request_sha256'', PyStr (replicate 64 CHR ''0''))]"
proof -
  have "PyStr (str_of (dict_get (dict_of sample_baseline) ''connection_generation'')) =
      dict_get (dict_of sample_baseline) ''connection_generation''" by code_simp
  then show ?thesis
    by (simp add: intent_evidence_def start_intent_evidence_def sample_env_def refused_length zero_hexdigest)
qed

definition intent_fields :: pydict where
  "intent_fields = unsigned_fields (PyStr sample_id) 1 (PyStr (save_digest CHR ''f'')) ''ENROLL_START_INTENT'' intent_evidence"

definition refusal_fields :: pydict where
  "refusal_fields = unsigned_fields (PyStr sample_id) 2 (PyStr (save_digest CHR ''f'')) ''ENROLL_START_REJECTED'' (status_evidence 5)"

definition intent_read :: pydict where
  "intent_read = sorted_items intent_fields @ [(KStr ''record_hash'', PyStr (save_digest CHR ''f''))]"

definition refusal_read :: pydict where
  "refusal_read = sorted_items refusal_fields @ [(KStr ''record_hash'', PyStr (save_digest CHR ''f''))]"

lemma refused_reads: "read_back save_hash intent_fields = intent_read" "read_back save_hash refusal_fields = refusal_read"
  by (simp_all add: intent_read_def refusal_read_def read_back_save_hash)

lemma refused_checks:
  "plain (PyDict intent_evidence)"
  "append_checks sample_id ''ENROLL_START_INTENT'' intent_evidence (Some 1) (Some (save_digest CHR ''f'')) = Inr ()"
  "append_checks sample_id ''ENROLL_START_REJECTED'' (status_evidence 5) (Some 2) (Some (save_digest CHR ''f'')) = Inr ()"
  "head_hash [base_read, intent_read] = PyStr (save_digest CHR ''f'')"
  by code_simp+

lemma refused_sizes: "int (length (record_line (signed save_hash intent_fields))) \<le> 8000"
  "int (length (record_line (signed save_hash refusal_fields))) \<le> 8000"
  by code_simp+

lemma refused_histories:
  "\<not> isl (enrollment_validate_history save_hash
     ([base_read] @ [candidate_record sample_id ''ENROLL_START_INTENT'' intent_evidence]))"
  "case enrollment_validate_history save_hash ([base_read] @ [intent_read]) of Inl _ \<Rightarrow> False
   | Inr h \<Rightarrow> eh_operation_id h = sample_id"
  "\<not> isl (enrollment_validate_history save_hash
     ([base_read, intent_read] @ [candidate_record sample_id ''ENROLL_START_REJECTED'' (status_evidence 5)]))"
  "\<not> isl (enrollment_validate_history save_hash ([base_read, intent_read] @ [refusal_read]))"
  unfolding append_Cons append_Nil base_eval by code_simp+

definition intent_file :: journal_file where
  "intent_file = base_file\<lparr>jf_data := jf_data base_file @ record_line (signed save_hash intent_fields)\<rparr>"

definition intent_fs :: journal_fs where
  "intent_fs = base_fs\<lparr>fs_file := Some intent_file\<rparr>"

definition refusal_fs :: journal_fs where
  "refusal_fs = intent_fs\<lparr>fs_file := Some (intent_file\<lparr>jf_data := jf_data intent_file @ record_line (signed save_hash refusal_fields)\<rparr>)\<rparr>"

definition intent_history :: enrollment_history where
  "intent_history = projr (enrollment_validate_history save_hash ([base_read] @ [intent_read]))"

definition refusal_history :: enrollment_history where
  "refusal_history = projr (enrollment_validate_history save_hash ([base_read, intent_read] @ [refusal_read]))"

lemma intent_histories: "enrollment_validate_history save_hash ([base_read] @ [intent_read]) = Inr intent_history"
    "eh_operation_id intent_history = sample_id"
    "enrollment_validate_history save_hash ([base_read, intent_read] @ [refusal_read]) = Inr refusal_history"
  using refused_histories(2,4) by (auto simp: intent_history_def refusal_history_def isl_def split: sum.splits)

lemma intent_append:
  "enrollment_append_checked save_hash [] [] [] [] sample_id ''ENROLL_START_INTENT'' intent_evidence base_fs = (Inr intent_history, intent_fs)"
  "open_private intent_fs = Inr intent_file" "holds save_hash (jf_data intent_file) [base_read, intent_read]"
proof -
  obtain h where h: "enrollment_validate_history save_hash [base_read] = Inr h" "eh_operation_id h = sample_id"
    using abort_histories(1) by (auto split: sum.splits)
  obtain h1 where h1: "enrollment_validate_history save_hash
      ([base_read] @ [candidate_record sample_id ''ENROLL_START_INTENT'' intent_evidence]) = Inr h1"
    using isr_eq [OF refused_histories(1)] by blast
  note app = enrollment_append_succeeds [OF base_open _ base_holds _ _ _ h(2) refused_checks(1) _ abort_head(1) h(1) h1,
      where u = intent_fields and f' = intent_file and fs' = intent_fs and ?h2.0 = intent_history, unfolded refused_reads]
  have "enrollment_append_checked save_hash [] [] [] [] sample_id ''ENROLL_START_INTENT'' intent_evidence base_fs = (Inr intent_history, intent_fs)"
    "open_private intent_fs = Inr intent_file" "holds save_hash (jf_data intent_file) ([base_read] @ [intent_read])"
    by (rule app; (use base_size refused_sizes(1) refused_checks(2) intent_histories(1) in \<open>simp add: abort_head
      intent_fields_def intent_file_def intent_fs_def base_fs_def MAX_JOURNAL_BYTES_def\<close>))+
  then show "enrollment_append_checked save_hash [] [] [] [] sample_id ''ENROLL_START_INTENT'' intent_evidence base_fs = (Inr intent_history, intent_fs)"
    "open_private intent_fs = Inr intent_file" "holds save_hash (jf_data intent_file) [base_read, intent_read]" by simp_all
qed

lemma refusal_append:
  "enrollment_append_checked save_hash [] [] [] [] sample_id ''ENROLL_START_REJECTED'' (status_evidence 5) intent_fs =
     (Inr refusal_history, refusal_fs)"
proof -
  obtain h1 where h1: "enrollment_validate_history save_hash ([base_read, intent_read] @
      [candidate_record sample_id ''ENROLL_START_REJECTED'' (status_evidence 5)]) = Inr h1"
    using isr_eq [OF refused_histories(3)] by blast
  have "plain (PyDict (status_evidence 5))" by (rule flat_evidence_plain [OF evidence_flat(3)])
  note app = enrollment_append_succeeds(1) [OF intent_append(2) _ intent_append(3) _ _ _ intent_histories(2) this _
      refused_checks(4) _ h1, where u = refusal_fields and fs' = refusal_fs and ?h2.0 = refusal_history, unfolded refused_reads]
  have "int (length (jf_data intent_file)) \<le> 16000" using base_size refused_sizes(1) by (simp add: intent_file_def)
  with refused_sizes(2) refused_checks(3) intent_histories(1,3) show ?thesis
    by (intro app) (simp_all add: abort_head refused_checks(4) numeral_2_eq_2 refusal_fields_def refusal_fs_def intent_fs_def base_fs_def
      MAX_JOURNAL_BYTES_def)
qed

lemmas run_defs = op_bind_def op_catch_def op_except_def op_call_def op_return_def op_lift_def op_raise_def

lemma sample_dispatch: "dispatch_guard (sample_env b) s = (Inr (PyBool b), s\<lparr>op_trace := op_trace s @ [Called_Back]\<rparr>)"
  by (simp add: dispatch_guard_def run_defs sample_env_def)

lemma sample_machine: "\<exists>m. new_machine 501 (env_connection_generation (sample_env b)) sample_id = Inr m"
proof -
  have "env_connection_generation (sample_env b) \<noteq> []" "sample_id \<noteq> []"
    by (simp add: sample_env_def) code_simp+
  then show ?thesis by (simp add: new_machine_def in_uint_def)
qed

lemma sample_request: "\<exists>r. new_enrollment_request 2 501 (PyBytes (replicate 16 7)) = Inr r \<and> request_buffer r = Inr refused_request"
proof -
  have "\<not> isl (new_enrollment_request 2 501 (PyBytes (replicate 16 7)))" by code_simp
  then obtain r where "new_enrollment_request 2 501 (PyBytes (replicate 16 7)) = Inr r"
    by (cases "new_enrollment_request 2 501 (PyBytes (replicate 16 7))") auto
  with new_request_buffer [OF this] show ?thesis by (simp add: refused_request_def)
qed

text \<open>The device refuses, and the run returns that.\<close>

lemma sample_refused:
  "\<exists>s'. run_operation (sample_env True) (PyBytes (replicate 16 7)) (PyInt 8) sample_state =
     Some (Inr (new_result ''start-rejected'' None), s')"
proof -
  obtain m where m: "new_machine 501 (env_connection_generation (sample_env True)) sample_id = Inr m" using sample_machine by blast
  obtain r where r: "new_enrollment_request 2 501 (PyBytes (replicate 16 7)) = Inr r" "request_buffer r = Inr refused_request"
    using sample_request by blast
  have env: "env_protocol_version (sample_env True) = 2" "env_record_hash (sample_env True) = save_hash"
    "env_writes (sample_env True) w = (([], [], [], []), w)" "env_start (sample_env True) bs w = (Inr (PyInt 5), w)" for bs w
    by (simp_all add: sample_env_def)
  have "\<exists>s'. start_operation (sample_env True) (PyBytes (replicate 16 7)) sample_state =
      (Inr (Some (new_result ''start-rejected'' None)), s')"
    by (simp add: start_operation_def sample_dispatch with_request_def send_start_def op_append_def op_command_def
        append_during_active_operation_def run_defs env r sample_state_def intent_append(1) refusal_append
        intent_evidence_def [symmetric] transport_status_def Let_def py_simps)
  then show ?thesis by (auto simp: run_operation_def m sample_state_def py_simps)
qed

section \<open>Witnesses\<close>

theorem run_terminates_witness:
  "\<exists>r s'. run_operation (sample_env True) (PyBytes (replicate 16 7)) (PyInt 8) sample_state = Some (r, s')"
  by (rule run_terminates [OF sample_patient])

theorem commands_are_announced_witness:
  "\<exists>r s'. run_operation (sample_env True) (PyBytes (replicate 16 7)) (PyInt 8) sample_state = Some (r, s')
     \<and> write_ahead (sample_env True) 501 (op_trace s')"
proof -
  obtain r s' where run: "run_operation (sample_env True) (PyBytes (replicate 16 7)) (PyInt 8) sample_state = Some (r, s')"
    using sample_refused by blast
  have "op_apple_user_id sample_state = 501" by (simp add: sample_state_def)
  with commands_are_announced [OF sample_sha sample_clean sample_new run] run show ?thesis by auto
qed

theorem result_is_durable_witness:
  "\<exists>s'. run_operation (sample_env True) (PyBytes (replicate 16 7)) (PyInt 8) sample_state =
       Some (Inr (new_result ''start-rejected'' None), s') \<and> eh_phase (op_history s') = E_TERMINAL_FAILURE"
proof -
  obtain s' where run: "run_operation (sample_env True) (PyBytes (replicate 16 7)) (PyInt 8) sample_state =
      Some (Inr (new_result ''start-rejected'' None), s')" using sample_refused by blast
  from result_is_durable [OF sample_sha sample_clean sample_new run] run show ?thesis
    by (auto simp: outcome_recorded_def new_result_def)
qed

lemma sample_aborted:
  "\<exists>s'. run_operation (sample_env False) PyNone (PyInt 8) sample_state =
     Some (Inl (Exc EnrollmentPreDispatchCancelled ''enrollment cancelled before start dispatch''), s') \<and> no_failure (op_trace s')"
proof -
  obtain m where m: "new_machine 501 (env_connection_generation (sample_env False)) sample_id = Inr m" using sample_machine by blast
  have ev: "abort_evidence (sample_env False) = enroll_abort_evidence" unfolding sample_env_def by code_simp
  have env: "env_record_hash (sample_env False) = save_hash" "env_writes (sample_env False) w = (([], [], [], []), w)" for w
    by (simp_all add: sample_env_def)
  have "\<exists>s'. start_operation (sample_env False) PyNone sample_state =
      (Inl (Exc EnrollmentPreDispatchCancelled ''enrollment cancelled before start dispatch''), s') \<and> no_failure (op_trace s')"
    by (simp add: start_operation_def sample_dispatch op_append_def run_defs env ev sample_state_def abort_append Let_def)
  then show ?thesis by (auto simp: run_operation_def m sample_state_def run_handler_def py_simps)
qed

text \<open>The connection is lost while the start is sent.\<close>

definition lost_env :: "unit operation_env" where
  "lost_env = (sample_env True)\<lparr>env_start := (\<lambda>bs w. (Inl (Exc ConnectionError ''connection lost''), w))\<rparr>"

definition lost_evidence :: pydict where
  "lost_evidence = outcome_unknown_evidence lost_env ''start'' ''transport-error''"

lemma lost_evidence_code [code]:
  "lost_evidence =
     [(KStr ''connection_generation'', dict_get (dict_of sample_baseline) ''connection_generation''),
      (KStr ''stage'', PyStr ''start''), (KStr ''reason'', PyStr ''transport-error''), (KStr ''mutation_possible'', PyBool True)]"
proof -
  have "PyStr (str_of (dict_get (dict_of sample_baseline) ''connection_generation'')) =
      dict_get (dict_of sample_baseline) ''connection_generation''" by code_simp
  then show ?thesis by (simp add: lost_evidence_def outcome_unknown_evidence_def lost_env_def sample_env_def)
qed

definition lost_fields :: pydict where
  "lost_fields = unsigned_fields (PyStr sample_id) 2 (PyStr (save_digest CHR ''f'')) ''ENROLL_OUTCOME_UNKNOWN'' lost_evidence"

definition lost_read :: pydict where
  "lost_read = sorted_items lost_fields @ [(KStr ''record_hash'', PyStr (save_digest CHR ''f''))]"

lemma lost_checks:
  "plain (PyDict lost_evidence)" "read_back save_hash lost_fields = lost_read"
  "append_checks sample_id ''ENROLL_OUTCOME_UNKNOWN'' lost_evidence (Some 2) (Some (save_digest CHR ''f'')) = Inr ()"
  "int (length (record_line (signed save_hash lost_fields))) \<le> 8000"
proof -
  show "read_back save_hash lost_fields = lost_read" by (simp add: lost_read_def read_back_save_hash)
qed code_simp+

lemma lost_histories:
  "\<not> isl (enrollment_validate_history save_hash
     ([base_read, intent_read] @ [candidate_record sample_id ''ENROLL_OUTCOME_UNKNOWN'' lost_evidence]))"
  "\<not> isl (enrollment_validate_history save_hash ([base_read, intent_read] @ [lost_read]))"
  unfolding append_Cons append_Nil base_eval by code_simp+

definition lost_fs :: journal_fs where
  "lost_fs = intent_fs\<lparr>fs_file := Some (intent_file\<lparr>jf_data := jf_data intent_file @ record_line (signed save_hash lost_fields)\<rparr>)\<rparr>"

definition lost_history :: enrollment_history where
  "lost_history = projr (enrollment_validate_history save_hash ([base_read, intent_read] @ [lost_read]))"

lemma lost_append:
  "enrollment_append_checked save_hash [] [] [] [] sample_id ''ENROLL_OUTCOME_UNKNOWN'' lost_evidence intent_fs =
     (Inr lost_history, lost_fs)"
proof -
  obtain h1 where h1: "enrollment_validate_history save_hash ([base_read, intent_read] @
      [candidate_record sample_id ''ENROLL_OUTCOME_UNKNOWN'' lost_evidence]) = Inr h1"
    using isr_eq [OF lost_histories(1)] by blast
  have h2: "enrollment_validate_history save_hash ([base_read, intent_read] @ [lost_read]) = Inr lost_history"
    unfolding lost_history_def by (rule isr_eq [OF lost_histories(2)])
  note app = enrollment_append_succeeds(1) [OF intent_append(2) _ intent_append(3) _ _ _ intent_histories(2) lost_checks(1) _
      refused_checks(4) _ h1, where u = lost_fields and fs' = lost_fs and ?h2.0 = lost_history, unfolded lost_checks(2)]
  have "int (length (jf_data intent_file)) \<le> 16000" using base_size refused_sizes(1) by (simp add: intent_file_def)
  with lost_checks(3,4) intent_histories(1) h2 show ?thesis
    by (intro app) (simp_all add: abort_head refused_checks(4) numeral_2_eq_2 lost_fields_def lost_fs_def intent_fs_def base_fs_def
      MAX_JOURNAL_BYTES_def)
qed

lemma lost_env_calls:
  "env_record_hash lost_env = env_record_hash (sample_env True)" "env_sha256 lost_env = env_sha256 (sample_env True)"
  "env_connection_generation lost_env = env_connection_generation (sample_env True)"
  "env_protocol_version lost_env = env_protocol_version (sample_env True)"
  "env_dispatch_allowed lost_env = env_dispatch_allowed (sample_env True)"
  "env_cancel_requested lost_env = env_cancel_requested (sample_env True)"
  "env_close_awaitable lost_env = env_close_awaitable (sample_env True)"
  by (simp_all add: lost_env_def)

lemma lost_setting:
  "length (env_sha256 lost_env bs) = 32" "clean (env_record_hash lost_env) [base_read] base_fs" "calm lost_env"
  "new_operation lost_env [] sample_id (str_of (dict_get (dict_of sample_baseline) ''linux_boot_uuid''))
     (str_of (dict_get (dict_of sample_baseline) ''mapping_generation'')) 1000 1000 () base_fs = (Inr sample_state, base_fs)"
  using sample_sha [of True] sample_clean [of True] sample_calm [of True] sample_new [of True]
  unfolding calm_def new_operation_def lost_env_calls by this+

lemma sample_lost:
  "\<exists>s'. run_operation lost_env (PyBytes (replicate 16 7)) (PyInt 8) sample_state =
     Some (Inl (operation_error ''enrollment outcome is unknown; reconciliation is required''), s')
   \<and> no_failure (op_trace s') \<and> Sent_Start refused_request \<in> set (op_trace s')"
proof -
  obtain m where m: "new_machine 501 (env_connection_generation lost_env) sample_id = Inr m"
    using sample_machine [of True] by (auto simp: lost_env_def)
  obtain r where r: "new_enrollment_request 2 501 (PyBytes (replicate 16 7)) = Inr r" "request_buffer r = Inr refused_request"
    using sample_request by blast
  have env: "env_protocol_version lost_env = 2" "env_record_hash lost_env = save_hash"
    "env_writes lost_env w = (([], [], [], []), w)" "env_start lost_env bs w = (Inl (Exc ConnectionError ''connection lost''), w)"
    "start_intent_evidence lost_env = start_intent_evidence (sample_env True)"
    "outcome_unknown_evidence lost_env ''start'' ''transport-error'' = lost_evidence" for bs w
    by (simp_all add: lost_env_def sample_env_def start_intent_evidence_def lost_evidence_def fun_eq_iff)
  have dis: "dispatch_guard lost_env s = (Inr (PyBool True), s\<lparr>op_trace := op_trace s @ [Called_Back]\<rparr>)" for s
    using sample_dispatch [of True s] unfolding dispatch_guard_def lost_env_calls .
  have "\<exists>s'. start_operation lost_env (PyBytes (replicate 16 7)) sample_state =
      (Inl (operation_error ''enrollment outcome is unknown; reconciliation is required''), s')
      \<and> no_failure (op_trace s') \<and> Sent_Start refused_request \<in> set (op_trace s')"
    by (simp add: start_operation_def dis with_request_def send_start_def op_append_def op_command_def op_outcome_unknown_def
        run_defs env r sample_state_def intent_append(1) lost_append intent_evidence_def [symmetric] Let_def)
  then show ?thesis by (auto simp: run_operation_def m sample_state_def run_handler_def py_simps)
qed

text \<open>Both kinds of error: the run that was cancelled before it sent anything, and the run that lost the connection.\<close>

theorem errors_are_accounted_witness:
  "(\<exists>s'. run_operation (sample_env False) PyNone (PyInt 8) sample_state =
     Some (Inl (Exc EnrollmentPreDispatchCancelled ''enrollment cancelled before start dispatch''), s') \<and>
     eh_phase (op_history s') \<in> {E_BASELINE, E_ABORTED_BEFORE_START}) \<and>
   (\<exists>s' rs. run_operation lost_env (PyBytes (replicate 16 7)) (PyInt 8) sample_state =
     Some (Inl (operation_error ''enrollment outcome is unknown; reconciliation is required''), s') \<and>
     eh_phase (op_history s') = E_OUTCOME_UNKNOWN \<and> clean save_hash rs (op_fs s') \<and>
     enrollment_validate_history save_hash rs = Inr (op_history s'))"
proof
  obtain s' where run: "run_operation (sample_env False) PyNone (PyInt 8) sample_state =
      Some (Inl (Exc EnrollmentPreDispatchCancelled ''enrollment cancelled before start dispatch''), s')"
    and nf: "no_failure (op_trace s')" using sample_aborted by blast
  from errors_are_accounted [OF sample_sha sample_clean sample_new run sample_calm nf] run
  show "\<exists>s'. run_operation (sample_env False) PyNone (PyInt 8) sample_state =
     Some (Inl (Exc EnrollmentPreDispatchCancelled ''enrollment cancelled before start dispatch''), s') \<and>
     eh_phase (op_history s') \<in> {E_BASELINE, E_ABORTED_BEFORE_START}" by auto
next
  obtain s' where run: "run_operation lost_env (PyBytes (replicate 16 7)) (PyInt 8) sample_state =
      Some (Inl (operation_error ''enrollment outcome is unknown; reconciliation is required''), s')"
    and nf: "no_failure (op_trace s')" and sent: "Sent_Start refused_request \<in> set (op_trace s')" using sample_lost by blast
  have "\<not> (\<forall>c \<in> set (op_trace s'). \<not> is_command c)" using sent by (auto simp: is_command_def intro!: bexI [OF _ sent])
  moreover have "env_record_hash lost_env = save_hash" by (simp add: lost_env_def sample_env_def)
  ultimately show "\<exists>s' rs. run_operation lost_env (PyBytes (replicate 16 7)) (PyInt 8) sample_state =
     Some (Inl (operation_error ''enrollment outcome is unknown; reconciliation is required''), s') \<and>
     eh_phase (op_history s') = E_OUTCOME_UNKNOWN \<and> clean save_hash rs (op_fs s') \<and>
     enrollment_validate_history save_hash rs = Inr (op_history s')"
    using errors_are_accounted [OF lost_setting(1,2,4) run lost_setting(3) nf] run by auto
qed

theorem offers_fit_the_journal_witness:
  "\<exists>r s'. run_operation (sample_env True) (PyBytes (replicate 16 7)) (PyInt 8) sample_state = Some (r, s')
     \<and> recoverable save_hash base_read (op_fs s')"
proof -
  obtain r s' where run: "run_operation (sample_env True) (PyBytes (replicate 16 7)) (PyInt 8) sample_state = Some (r, s')"
    using sample_refused by blast
  have "env_record_hash (sample_env True) = save_hash" by (simp add: sample_env_def)
  with offers_fit_the_journal [OF sample_sha sample_clean sample_new run] run show ?thesis by auto
qed

end
