(* ===== verification/Local_Catacomb.thy ===== *)
theory Local_Catacomb
  imports Byte_Struct
begin

text \<open>
  The identities of the host's Catacomb file as the modules outside the codec see them: what they read of the
  \<^verbatim>\<open>UserCatacomb\<close> and \<^verbatim>\<open>Identity\<close> objects of \<^verbatim>\<open>src/src/t2_catacomb_codec.py\<close>, and what its constructor has checked.
\<close>

text \<open>
  The codec sets \<^verbatim>\<open>identity.uuid\<close> to \<^verbatim>\<open>str(uuid.UUID(bytes=raw))\<close> of 16
  bytes; \<open>li_uuid\<close> is \<^verbatim>\<open>raw\<close>, so \<open>uuid_str (li_uuid i)\<close> is \<^verbatim>\<open>identity.uuid\<close> and \<open>li_uuid i\<close> is \<^verbatim>\<open>uuid.UUID(identity.uuid).bytes\<close>.
  \<open>li_metadata\<close> stands for the seven other fields (type, flags, counters, creation time), which are only compared.
\<close>

record local_identity =
  li_uuid :: bytes
  li_user_id :: int
  li_entity :: int
  li_name :: string
  li_metadata :: pyval

record user_catacomb =
  uc_expected_user_id :: int
  uc_identities :: "local_identity list"

text \<open>
  What the constructors have checked: a 32-bit user that all identities belong to, 16-byte UUIDs, unique UUIDs and
  entity numbers.
\<close>

definition catacomb_ok :: "user_catacomb \<Rightarrow> bool" where
  "catacomb_ok c = (0 \<le> uc_expected_user_id c \<and> uc_expected_user_id c \<le> 0xFFFFFFFF
     \<and> list_all (\<lambda>i. length (li_uuid i) = 16 \<and> li_user_id i = uc_expected_user_id c) (uc_identities c)
     \<and> distinct (map li_uuid (uc_identities c)) \<and> distinct (map li_entity (uc_identities c)))"

text \<open>An argument tested with \<^verbatim>\<open>isinstance\<close>: some other value, or an object of the class.\<close>

type_synonym catacomb_arg = "pyval + user_catacomb"

end
