(* ===== verification/Identity_Inventory.thy ===== *)
theory Identity_Inventory
  imports Local_Catacomb Mutation_Journal
begin

text \<open>
  The join of the host's Catacomb with a live SEP inventory, \<^verbatim>\<open>src/src/t2_identity_inventory.py\<close>: both live
  inventories must list exactly the identities of the host's file, or nothing may be mutated. A Python set of
  pairs is the list of its elements.
\<close>

section \<open>Live inventories\<close>

abbreviation inventory_error :: "string \<Rightarrow> exc" where
  "inventory_error \<equiv> Exc IdentityInventoryError"

record resolved_identity =
  ri_apple_user_id :: int
  ri_identity_uuid :: string
  ri_entity :: int
  ri_name :: string

text \<open>\<^verbatim>\<open>_canonical_uuid\<close>: \<^verbatim>\<open>str\<close> of the parsed UUID is in lower case.\<close>

definition inventory_uuid :: "pyval \<Rightarrow> string \<Rightarrow> string res" where
  "inventory_uuid value field =
     (if \<not> isinstance_str value \<or> \<not> uuid_accepts (str_of value)
      then Inl (inventory_error (field @ '' is not a UUID''))
      else if \<not> (canonical_uuid (str_of value) \<and> lower (str_of value) = str_of value)
      then Inl (inventory_error (field @ '' is not canonical''))
      else Inr (str_of value))"

definition live_pair :: "int \<Rightarrow> pyval \<Rightarrow> (int \<times> string) list \<Rightarrow> (int \<times> string) list res" where
  "live_pair apple_user_id v pairs =
     (let entry = dict_of v in
     if \<not> isinstance_dict v \<or> \<not> dict_keys_are entry [''user_id'', ''identity_uuid'']
     then Inl (inventory_error ''live identity inventory is malformed'')
     else and_then (inventory_uuid (dict_get entry ''identity_uuid'') ''live identity UUID'') (\<lambda>u.
     if \<not> py_eq (dict_get entry ''user_id'') (PyInt apple_user_id) \<or> (apple_user_id, u) \<in> set pairs
     then Inl (inventory_error ''live identity inventory is ambiguous'')
     else Inr (pairs @ [(apple_user_id, u)])))"

definition live_pairs :: "pyval \<Rightarrow> int \<Rightarrow> (int \<times> string) list res" where
  "live_pairs records apple_user_id =
     (if \<not> isinstance_list records then Inl (inventory_error ''live identity inventory is absent'')
      else fold_res (live_pair apple_user_id) (list_of records) [])"

definition NO_GROUP_UUID :: string where
  "NO_GROUP_UUID = ''00000000-0000-0000-0000-000000000000''"

definition global_pair :: "int \<Rightarrow> pyval \<Rightarrow> (int \<times> string) list \<Rightarrow> (int \<times> string) list res" where
  "global_pair apple_user_id v pairs =
     (let entry = dict_of v in
     if \<not> isinstance_dict v \<or> \<not> dict_keys_are entry [''user_id'', ''identity_uuid'', ''group_type'', ''group_uuid'']
     then Inl (inventory_error ''global identity inventory is malformed'')
     else if \<not> py_eq (dict_get entry ''user_id'') (PyInt apple_user_id) then Inr pairs
     else if \<not> in_int_tuple (dict_get entry ''group_type'') [0, 1]
             \<or> \<not> py_eq (dict_get entry ''group_uuid'') (PyStr NO_GROUP_UUID)
     then Inl (inventory_error ''configured identity is not built-in'')
     else and_then (inventory_uuid (dict_get entry ''identity_uuid'') ''global identity UUID'') (\<lambda>u.
     if (apple_user_id, u) \<in> set pairs then Inl (inventory_error ''global identity inventory is ambiguous'')
     else Inr (pairs @ [(apple_user_id, u)])))"

definition configured_global_pairs :: "pyval \<Rightarrow> int \<Rightarrow> (int \<times> string) list res" where
  "configured_global_pairs records apple_user_id =
     (if \<not> isinstance_list records then Inl (inventory_error ''global identity inventory is absent'')
      else fold_res (global_pair apple_user_id) (list_of records) [])"

section \<open>Catacomb states\<close>

text \<open>The set of tuples of the state items; building it hashes them.\<close>

definition normalized_states :: "pyval \<Rightarrow> pyval list res" where
  "normalized_states states =
     (if \<not> isinstance_list states then Inr []
      else let items = map (\<lambda>v. PyTuple (map (dict_get (dict_of v)) [''kind'', ''user_id'', ''state'', ''needs_save'']))
                 (filter isinstance_dict (list_of states)) in
      if list_all hashable items then Inr items else Inl (Exc TypeError ''unhashable type''))"

definition component_states :: "int \<Rightarrow> int \<Rightarrow> bool \<Rightarrow> pyval list" where
  "component_states apple_user_id state needs_save =
     [PyTuple [PyStr ''master'', PyInt 0xFFFFFFFF, PyInt state, PyBool needs_save],
      PyTuple [PyStr ''user'', PyInt apple_user_id, PyInt state, PyBool needs_save]]"

text \<open>\<^verbatim>\<open>==\<close> on sets.\<close>

definition same_set :: "pyval list \<Rightarrow> pyval list \<Rightarrow> bool" where
  "same_set xs ys = (list_all (\<lambda>x. list_ex (py_eq x) ys) xs \<and> list_all (\<lambda>y. list_ex (py_eq y) xs) ys)"

section \<open>Summaries\<close>

definition local_pairs :: "user_catacomb \<Rightarrow> (int \<times> string) list" where
  "local_pairs c = map (\<lambda>i. (li_user_id i, uuid_str (li_uuid i))) (uc_identities c)"

definition slot_entry :: "nat \<times> local_identity \<Rightarrow> pyval" where
  "slot_entry = (\<lambda>(position, i). PyDict [(KStr ''slot'', PyInt (int position)), (KStr ''name'', PyStr (li_name i)),
     (KStr ''live'', PyBool True)])"

definition inventory_summary :: "local_identity list \<Rightarrow> pydict" where
  "inventory_summary ordered =
     [(KStr ''schema_version'', PyInt 1), (KStr ''identity_count'', PyInt (int (length ordered))),
      (KStr ''identities'', PyList (map slot_entry (zip [1..<Suc (length ordered)] ordered))),
      (KStr ''local_live_reconciled'', PyBool True), (KStr ''selection_scope'', PyStr ''current-reconciled-list''),
      (KStr ''finger_names_are_presentation_metadata'', PyBool True), (KStr ''identifiers_redacted'', PyBool True)]"

text \<open>The check of the Catacomb that an inventory without a present one must pass.\<close>

definition catacomb_authority :: "user_catacomb \<Rightarrow> pydict \<Rightarrow> unit res" where
  "catacomb_authority c catacomb =
     (let states = dict_get catacomb ''user_states'' in
      if dict_is_true catacomb ''present'' then Inr ()
      else and_then (normalized_states states) (\<lambda>normalized.
        if dict_get catacomb ''present'' \<noteq> PyBool False \<or> local_pairs c \<noteq> [] \<or> \<not> isinstance_list states
           \<or> length (list_of states) \<noteq> 2 \<or> \<not> same_set normalized (component_states (uc_expected_user_id c) 3 False)
        then Inl (inventory_error ''live identity inventory has no reconciled Catacomb authority'')
        else Inr ()))"

definition summarize :: "catacomb_arg \<Rightarrow> pyval \<Rightarrow> pydict res" where
  "summarize local_arg live =
     (case local_arg of
        Inl _ \<Rightarrow> Inl (inventory_error ''local identity archive is not validated'')
      | Inr c \<Rightarrow>
     (if \<not> isinstance_dict live then Inl (inventory_error ''live identity inventory is not a mapping'')
      else let d = dict_of live; apple_user_id = uc_expected_user_id c in
      if \<not> dict_is_true d ''double_collection_equal'' \<or> \<not> py_eq (dict_get d ''apple_uid'') (PyInt apple_user_id)
         \<or> \<not> py_eq (dict_get d ''biometric_protocol_version'') (PyInt 2) \<or> \<not> isinstance_dict (dict_get d ''catacomb'')
      then Inl (inventory_error ''live identity inventory is stale or unstable'')
      else and_then (live_pairs (dict_get d ''per_user_identity_records'') apple_user_id) (\<lambda>per_user_pairs.
      and_then (configured_global_pairs (dict_get d ''global_identity_records'') apple_user_id) (\<lambda>global_pairs.
      if set (local_pairs c) \<noteq> set per_user_pairs \<or> set per_user_pairs \<noteq> set global_pairs
      then Inl (inventory_error ''local and live identity inventories disagree'')
      else and_then (catacomb_authority c (dict_of (dict_get d ''catacomb''))) (\<lambda>_.
      Inr (inventory_summary (sort_key li_entity (uc_identities c))))))))"

definition summarize_pending_final_delete :: "catacomb_arg \<Rightarrow> pyval \<Rightarrow> pyval \<Rightarrow> pydict res" where
  "summarize_pending_final_delete local_arg live expected_catacomb_uuid =
     (case local_arg of
        Inl _ \<Rightarrow> Inl (inventory_error ''final-delete inventory is not a stable empty survivor set'')
      | Inr c \<Rightarrow>
     (let d = dict_of live; apple_user_id = uc_expected_user_id c in
      if uc_identities c \<noteq> [] \<or> \<not> isinstance_dict live \<or> \<not> dict_is_true d ''double_collection_equal''
         \<or> \<not> py_eq (dict_get d ''apple_uid'') (PyInt apple_user_id)
         \<or> \<not> py_eq (dict_get d ''biometric_protocol_version'') (PyInt 2)
      then Inl (inventory_error ''final-delete inventory is not a stable empty survivor set'')
      else and_then (live_pairs (dict_get d ''per_user_identity_records'') apple_user_id) (\<lambda>per_user.
      and_then (configured_global_pairs (dict_get d ''global_identity_records'') apple_user_id) (\<lambda>global_pairs.
      let catacomb = dict_get d ''catacomb'';
          states = (if isinstance_dict catacomb then dict_get (dict_of catacomb) ''user_states'' else PyNone) in
      and_then (normalized_states states) (\<lambda>normalized.
      if per_user \<noteq> [] \<or> global_pairs \<noteq> [] \<or> \<not> isinstance_dict catacomb
         \<or> dict_get (dict_of catacomb) ''present'' \<noteq> PyBool False
         \<or> \<not> py_eq (dict_get (dict_of catacomb) ''uuid'') expected_catacomb_uuid \<or> \<not> isinstance_list states
         \<or> length (list_of states) \<noteq> 2 \<or> \<not> same_set normalized (component_states apple_user_id 7 True)
      then Inl (inventory_error ''final-delete Catacomb is not the exact dirty empty state'')
      else Inr (inventory_summary []))))))"

definition resolve_slot :: "catacomb_arg \<Rightarrow> pyval \<Rightarrow> pyval \<Rightarrow> resolved_identity res" where
  "resolve_slot local_arg live slot =
     and_then (summarize local_arg live) (\<lambda>summary.
     if \<not> isinstance_int slot \<or> type_is_bool slot
        \<or> \<not> (1 \<le> int_of slot \<and> int_of slot \<le> int_of (dict_get summary ''identity_count''))
     then Inl (inventory_error ''identity slot is outside the current list'')
     else let i = sort_key li_entity (uc_identities (projr local_arg)) ! nat (int_of slot - 1) in
          Inr \<lparr>ri_apple_user_id = li_user_id i, ri_identity_uuid = uuid_str (li_uuid i), ri_entity = li_entity i,
               ri_name = li_name i\<rparr>)"

section \<open>Live lists\<close>

text \<open>What the live lists hold when they are accepted.\<close>

definition inventory_name :: "string \<Rightarrow> bool" where
  "inventory_name u = (uuid_accepts u \<and> canonical_uuid u \<and> lower u = u)"

lemma inventory_uuid_iff: "inventory_uuid v f = Inr u \<longleftrightarrow> v = PyStr u \<and> inventory_name u"
  by (auto simp: inventory_uuid_def inventory_name_def py_simps)

definition live_entry :: "int \<Rightarrow> string \<Rightarrow> pydict \<Rightarrow> bool" where
  "live_entry uid u d = (dict_keys_are d [''user_id'', ''identity_uuid''] \<and> py_eq (dict_get d ''user_id'') (PyInt uid)
     \<and> dict_get d ''identity_uuid'' = PyStr u \<and> inventory_name u)"

definition foreign_entry :: "int \<Rightarrow> pydict \<Rightarrow> bool" where
  "foreign_entry uid d = (\<not> py_eq (dict_get d ''user_id'') (PyInt uid))"

definition global_entry :: "int \<Rightarrow> string \<Rightarrow> pydict \<Rightarrow> bool" where
  "global_entry uid u d = (in_int_tuple (dict_get d ''group_type'') [0, 1] \<and> dict_get d ''group_uuid'' = PyStr NO_GROUP_UUID
     \<and> dict_get d ''identity_uuid'' = PyStr u \<and> inventory_name u)"

lemma live_pair_iff:
  "live_pair uid v pairs = Inr out \<longleftrightarrow>
     (\<exists>d u. v = PyDict d \<and> live_entry uid u d \<and> (uid, u) \<notin> set pairs \<and> out = pairs @ [(uid, u)])"
  by (auto simp: live_pair_def Let_def res_simps py_simps inventory_uuid_iff live_entry_def)

lemma live_fold_iff:
  "fold_res (live_pair uid) vs pairs = Inr out \<longleftrightarrow>
     (\<exists>ds us. vs = map PyDict ds \<and> list_all2 (live_entry uid) us ds \<and> distinct us
        \<and> set (map (Pair uid) us) \<inter> set pairs = {} \<and> out = pairs @ map (Pair uid) us)"
proof (induction vs arbitrary: pairs)
  case (Cons v vs)
  show ?case
  proof
    assume "fold_res (live_pair uid) (v # vs) pairs = Inr out"
    then obtain d u where v: "v = PyDict d" "live_entry uid u d" "(uid, u) \<notin> set pairs"
      and r: "fold_res (live_pair uid) vs (pairs @ [(uid, u)]) = Inr out" by (auto simp: res_simps live_pair_iff)
    from r obtain ds us where "vs = map PyDict ds" "list_all2 (live_entry uid) us ds" "distinct us"
      "set (map (Pair uid) us) \<inter> set (pairs @ [(uid, u)]) = {}" "out = (pairs @ [(uid, u)]) @ map (Pair uid) us"
      unfolding Cons.IH by blast
    with v show "\<exists>ds us. v # vs = map PyDict ds \<and> list_all2 (live_entry uid) us ds \<and> distinct us
        \<and> set (map (Pair uid) us) \<inter> set pairs = {} \<and> out = pairs @ map (Pair uid) us"
      by (intro exI [of _ "d # ds"] exI [of _ "u # us"]) auto
  next
    assume "\<exists>ds us. v # vs = map PyDict ds \<and> list_all2 (live_entry uid) us ds \<and> distinct us
        \<and> set (map (Pair uid) us) \<inter> set pairs = {} \<and> out = pairs @ map (Pair uid) us"
    then obtain ds0 us0 where a: "v # vs = map PyDict ds0" "list_all2 (live_entry uid) us0 ds0" "distinct us0"
      "set (map (Pair uid) us0) \<inter> set pairs = {}" "out = pairs @ map (Pair uid) us0" by (elim exE conjE) (rule that)
    then obtain d ds u us where c: "ds0 = d # ds" "us0 = u # us" by (cases ds0; cases us0) auto
    from a c have v: "v = PyDict d" "live_entry uid u d" "(uid, u) \<notin> set pairs" and r: "vs = map PyDict ds"
      "list_all2 (live_entry uid) us ds" "distinct us" "set (map (Pair uid) us) \<inter> set (pairs @ [(uid, u)]) = {}"
      "out = (pairs @ [(uid, u)]) @ map (Pair uid) us" by auto
    from r have "fold_res (live_pair uid) vs (pairs @ [(uid, u)]) = Inr out" unfolding Cons.IH by blast
    with v show "fold_res (live_pair uid) (v # vs) pairs = Inr out" by (auto simp: res_simps live_pair_iff)
  qed
qed auto

lemma live_pairs_iff:
  "live_pairs v uid = Inr out \<longleftrightarrow>
     (\<exists>ds us. v = PyList (map PyDict ds) \<and> list_all2 (live_entry uid) us ds \<and> distinct us \<and> out = map (Pair uid) us)"
  by (cases v) (auto simp: live_pairs_def isinstance_list_def live_fold_iff)

lemma global_pair_iff:
  "global_pair uid v pairs = Inr out \<longleftrightarrow>
     (\<exists>d. v = PyDict d \<and> dict_keys_are d [''user_id'', ''identity_uuid'', ''group_type'', ''group_uuid'']
        \<and> (if foreign_entry uid d then out = pairs
           else \<exists>u. global_entry uid u d \<and> (uid, u) \<notin> set pairs \<and> out = pairs @ [(uid, u)]))"
proof (cases v)
  case (PyDict d)
  show ?thesis
  proof (cases "foreign_entry uid d")
    case True
    with PyDict show ?thesis by (auto simp: global_pair_def isinstance_dict_def foreign_entry_def)
  next
    case False
    then have own: "py_eq (dict_get d ''user_id'') (PyInt uid)" by (simp add: foreign_entry_def)
    have "global_pair uid v pairs = Inr out \<longleftrightarrow> dict_keys_are d [''user_id'', ''identity_uuid'', ''group_type'', ''group_uuid'']
        \<and> in_int_tuple (dict_get d ''group_type'') [0, 1] \<and> dict_get d ''group_uuid'' = PyStr NO_GROUP_UUID
        \<and> (\<exists>u. inventory_uuid (dict_get d ''identity_uuid'') ''global identity UUID'' = Inr u
             \<and> (uid, u) \<notin> set pairs \<and> out = pairs @ [(uid, u)])"
      using own by (auto simp: global_pair_def PyDict isinstance_dict_def Let_def res_simps)
    then show ?thesis using False PyDict by (auto simp: inventory_uuid_iff global_entry_def)
  qed
qed (simp_all add: global_pair_def isinstance_dict_def)

definition global_listed :: "int \<Rightarrow> string list \<Rightarrow> pydict list \<Rightarrow> bool" where
  "global_listed uid us ds =
     (list_all (\<lambda>d. dict_keys_are d [''user_id'', ''identity_uuid'', ''group_type'', ''group_uuid'']) ds
      \<and> list_all2 (global_entry uid) us (filter (\<lambda>d. \<not> foreign_entry uid d) ds) \<and> distinct us)"

lemma global_fold_pairs_iff:
  "fold_res (global_pair uid) vs pairs = Inr out \<longleftrightarrow>
     (\<exists>ds us. vs = map PyDict ds \<and> global_listed uid us ds
        \<and> set (map (Pair uid) us) \<inter> set pairs = {} \<and> out = pairs @ map (Pair uid) us)"
proof (induction vs arbitrary: pairs)
  case Nil
  show ?case by (auto simp: global_listed_def)
next
  case (Cons v vs)
  show ?case
  proof
    assume "fold_res (global_pair uid) (v # vs) pairs = Inr out"
    then obtain next_pairs where n: "global_pair uid v pairs = Inr next_pairs" "fold_res (global_pair uid) vs next_pairs = Inr out"
      by (auto simp: res_simps)
    from n(1) obtain d where v: "v = PyDict d" "dict_keys_are d [''user_id'', ''identity_uuid'', ''group_type'', ''group_uuid'']"
      and r: "if foreign_entry uid d then next_pairs = pairs
        else \<exists>u. global_entry uid u d \<and> (uid, u) \<notin> set pairs \<and> next_pairs = pairs @ [(uid, u)]"
      unfolding global_pair_iff by (elim exE conjE) (rule that)
    show "\<exists>ds us. v # vs = map PyDict ds \<and> global_listed uid us ds
        \<and> set (map (Pair uid) us) \<inter> set pairs = {} \<and> out = pairs @ map (Pair uid) us"
    proof (cases "foreign_entry uid d")
      case True
      with r n(2) have "fold_res (global_pair uid) vs pairs = Inr out" by simp
      then obtain ds us where "vs = map PyDict ds" "global_listed uid us ds"
        "set (map (Pair uid) us) \<inter> set pairs = {}" "out = pairs @ map (Pair uid) us"
        unfolding Cons.IH by (elim exE conjE) (rule that)
      with v True show ?thesis by (intro exI [of _ "d # ds"] exI [of _ us]) (simp add: global_listed_def)
    next
      case False
      with r n(2) obtain u where u: "global_entry uid u d" "(uid, u) \<notin> set pairs"
        "fold_res (global_pair uid) vs (pairs @ [(uid, u)]) = Inr out" by auto
      from u(3) obtain ds us where "vs = map PyDict ds" "global_listed uid us ds"
        "set (map (Pair uid) us) \<inter> set (pairs @ [(uid, u)]) = {}" "out = (pairs @ [(uid, u)]) @ map (Pair uid) us"
        unfolding Cons.IH by (elim exE conjE) (rule that)
      with v u False show ?thesis by (intro exI [of _ "d # ds"] exI [of _ "u # us"]) (auto simp: global_listed_def)
    qed
  next
    assume "\<exists>ds us. v # vs = map PyDict ds \<and> global_listed uid us ds
        \<and> set (map (Pair uid) us) \<inter> set pairs = {} \<and> out = pairs @ map (Pair uid) us"
    then obtain ds0 us where a: "v # vs = map PyDict ds0" "global_listed uid us ds0"
      "set (map (Pair uid) us) \<inter> set pairs = {}" "out = pairs @ map (Pair uid) us" by (elim exE conjE) (rule that)
    then obtain d ds where c: "ds0 = d # ds" "v = PyDict d" "vs = map PyDict ds" by (cases ds0) auto
    show "fold_res (global_pair uid) (v # vs) pairs = Inr out"
    proof (cases "foreign_entry uid d")
      case True
      with a c have "\<exists>ds us. vs = map PyDict ds \<and> global_listed uid us ds
        \<and> set (map (Pair uid) us) \<inter> set pairs = {} \<and> out = pairs @ map (Pair uid) us"
        by (intro exI [of _ ds] exI [of _ us]) (simp add: global_listed_def)
      then have "fold_res (global_pair uid) vs pairs = Inr out" unfolding Cons.IH .
      with a c True show ?thesis by (auto simp: res_simps global_pair_iff global_listed_def)
    next
      case False
      with a c obtain u us1 where u: "us = u # us1" "global_entry uid u d" by (auto simp: global_listed_def list_all2_Cons2)
      with a c False have "\<exists>ds us. vs = map PyDict ds \<and> global_listed uid us ds
        \<and> set (map (Pair uid) us) \<inter> set (pairs @ [(uid, u)]) = {} \<and> out = (pairs @ [(uid, u)]) @ map (Pair uid) us"
        by (intro exI [of _ ds] exI [of _ us1]) (auto simp: global_listed_def)
      then have "fold_res (global_pair uid) vs (pairs @ [(uid, u)]) = Inr out" unfolding Cons.IH .
      with a c u False show ?thesis by (auto simp: res_simps global_pair_iff global_listed_def)
    qed
  qed
qed

lemma configured_global_pairs_iff:
  "configured_global_pairs v uid = Inr out \<longleftrightarrow>
     (\<exists>ds us. v = PyList (map PyDict ds) \<and> global_listed uid us ds \<and> out = map (Pair uid) us)"
  by (cases v) (auto simp: configured_global_pairs_def isinstance_list_def global_fold_pairs_iff)

section \<open>Agreement\<close>

text \<open>Both live lists hold the identities \<open>us\<close> of the user.\<close>

definition both_list :: "int \<Rightarrow> pydict \<Rightarrow> string set \<Rightarrow> bool" where
  "both_list uid d U = (\<exists>ds us gs vs. dict_get d ''per_user_identity_records'' = PyList (map PyDict ds)
     \<and> list_all2 (live_entry uid) us ds \<and> distinct us
     \<and> dict_get d ''global_identity_records'' = PyList (map PyDict gs) \<and> global_listed uid vs gs
     \<and> set us = U \<and> set vs = U)"

definition stable_read :: "int \<Rightarrow> pydict \<Rightarrow> bool" where
  "stable_read uid d = (dict_is_true d ''double_collection_equal'' \<and> py_eq (dict_get d ''apple_uid'') (PyInt uid)
     \<and> py_eq (dict_get d ''biometric_protocol_version'') (PyInt 2))"

definition identity_names :: "user_catacomb \<Rightarrow> string set" where
  "identity_names c = (\<lambda>i. uuid_str (li_uuid i)) ` set (uc_identities c)"

text \<open>The SEP's component states are two, and those of an absent Catacomb.\<close>

definition states_are :: "int \<Rightarrow> int \<Rightarrow> bool \<Rightarrow> pydict \<Rightarrow> bool" where
  "states_are uid state needs_save catacomb =
     (\<exists>xs ys. dict_get catacomb ''present'' = PyBool False \<and> dict_get catacomb ''user_states'' = PyList xs \<and> length xs = 2
        \<and> normalized_states (PyList xs) = Inr ys \<and> same_set ys (component_states uid state needs_save))"

lemma live_entry_name: "live_entry uid u d \<Longrightarrow> dict_get d ''identity_uuid'' = PyStr u"
  by (simp only: live_entry_def)

lemma live_entries_unique: "list_all2 (live_entry uid) us ds \<Longrightarrow> list_all2 (live_entry uid) vs ds \<Longrightarrow> us = vs"
proof (induction us ds arbitrary: vs rule: list_all2_induct)
  case (Cons u us d ds)
  from Cons.prems obtain v ws where v: "vs = v # ws" "live_entry uid v d" "list_all2 (live_entry uid) ws ds"
    by (cases vs) simp_all
  have "PyStr u = PyStr v" using live_entry_name [OF Cons.hyps(1)] live_entry_name [OF v(2)] by (rule subst)
  with v Cons.IH show ?case by simp
qed simp

lemma both_list_unique:
  assumes "both_list uid d U" and "both_list uid d W"
  shows "U = W"
proof -
  from assms(1) obtain ds us where u: "dict_get d ''per_user_identity_records'' = PyList (map PyDict ds)"
    "list_all2 (live_entry uid) us ds" "set us = U" unfolding both_list_def by (elim exE conjE) (rule that)
  from assms(2) obtain es vs where w: "dict_get d ''per_user_identity_records'' = PyList (map PyDict es)"
    "list_all2 (live_entry uid) vs es" "set vs = W" unfolding both_list_def by (elim exE conjE) (rule that)
  from u(1) w(1) have "map PyDict ds = map PyDict es" by simp
  then have "ds = es" by (rule map_injective) (simp add: inj_def)
  with live_entries_unique [OF u(2)] w(2) u(3) w(3) show ?thesis by simp
qed

lemma local_pairs_set:
  assumes "catacomb_ok c"
  shows "set (local_pairs c) = Pair (uc_expected_user_id c) ` identity_names c"
proof -
  have "\<forall>i \<in> set (uc_identities c). li_user_id i = uc_expected_user_id c"
    using assms by (simp add: catacomb_ok_def list_all_iff)
  then show ?thesis unfolding local_pairs_def identity_names_def set_map image_image by (intro image_cong) simp_all
qed

lemma pair_sets: "Pair (uid :: int) ` U = Pair uid ` W \<longleftrightarrow> U = (W :: string set)"
  by (rule inj_image_eq_iff) (simp add: inj_on_def)

text \<open>The two inventories that \<^verbatim>\<open>summarize\<close> and \<^verbatim>\<open>summarize_pending_final_delete\<close> accept.\<close>

definition reconciled :: "user_catacomb \<Rightarrow> pydict \<Rightarrow> bool" where
  "reconciled c d = (stable_read (uc_expected_user_id c) d \<and> both_list (uc_expected_user_id c) d (identity_names c)
     \<and> (\<exists>catacomb. dict_get d ''catacomb'' = PyDict catacomb \<and> (dict_is_true catacomb ''present''
          \<or> uc_identities c = [] \<and> states_are (uc_expected_user_id c) 3 False catacomb)))"

definition finally_deleted :: "user_catacomb \<Rightarrow> pydict \<Rightarrow> pyval \<Rightarrow> bool" where
  "finally_deleted c d catacomb_uuid = (stable_read (uc_expected_user_id c) d \<and> uc_identities c = []
     \<and> both_list (uc_expected_user_id c) d {}
     \<and> (\<exists>catacomb. dict_get d ''catacomb'' = PyDict catacomb \<and> py_eq (dict_get catacomb ''uuid'') catacomb_uuid
          \<and> states_are (uc_expected_user_id c) 7 True catacomb))"

lemma both_list_iff:
  "(\<exists>ps qs. live_pairs (dict_get d ''per_user_identity_records'') uid = Inr ps
      \<and> configured_global_pairs (dict_get d ''global_identity_records'') uid = Inr qs
      \<and> set ps = Pair uid ` U \<and> set qs = Pair uid ` U) \<longleftrightarrow> both_list uid d U"
proof
  assume "\<exists>ps qs. live_pairs (dict_get d ''per_user_identity_records'') uid = Inr ps
      \<and> configured_global_pairs (dict_get d ''global_identity_records'') uid = Inr qs
      \<and> set ps = Pair uid ` U \<and> set qs = Pair uid ` U"
  then obtain ps qs where p: "live_pairs (dict_get d ''per_user_identity_records'') uid = Inr ps" "set ps = Pair uid ` U"
    and q: "configured_global_pairs (dict_get d ''global_identity_records'') uid = Inr qs" "set qs = Pair uid ` U"
    by (elim exE conjE) (rule that)
  from p(1) obtain ds us where 1: "dict_get d ''per_user_identity_records'' = PyList (map PyDict ds)"
    "list_all2 (live_entry uid) us ds" "distinct us" "ps = map (Pair uid) us" unfolding live_pairs_iff by (elim exE conjE) (rule that)
  from q(1) obtain gs vs where 2: "dict_get d ''global_identity_records'' = PyList (map PyDict gs)"
    "global_listed uid vs gs" "qs = map (Pair uid) vs" unfolding configured_global_pairs_iff by (elim exE conjE) (rule that)
  from p(2) 1(4) q(2) 2(3) have "set us = U" "set vs = U" by (simp_all add: pair_sets)
  with 1 2 show "both_list uid d U" unfolding both_list_def by blast
next
  assume "both_list uid d U"
  then obtain ds us gs vs where 1: "dict_get d ''per_user_identity_records'' = PyList (map PyDict ds)"
    "list_all2 (live_entry uid) us ds" "distinct us" "set us = U"
    and 2: "dict_get d ''global_identity_records'' = PyList (map PyDict gs)" "global_listed uid vs gs" "set vs = U"
    unfolding both_list_def by (elim exE conjE) (rule that)
  have "live_pairs (dict_get d ''per_user_identity_records'') uid = Inr (map (Pair uid) us)"
    unfolding live_pairs_iff using 1 by blast
  moreover have "configured_global_pairs (dict_get d ''global_identity_records'') uid = Inr (map (Pair uid) vs)"
    unfolding configured_global_pairs_iff using 2 by blast
  ultimately show "\<exists>ps qs. live_pairs (dict_get d ''per_user_identity_records'') uid = Inr ps
      \<and> configured_global_pairs (dict_get d ''global_identity_records'') uid = Inr qs
      \<and> set ps = Pair uid ` U \<and> set qs = Pair uid ` U"
    using 1(4) 2(3) by (intro exI [of _ "map (Pair uid) us"] exI [of _ "map (Pair uid) vs"]) simp
qed

lemma states_are_iff:
  "states_are uid state needs_save catacomb \<longleftrightarrow> dict_get catacomb ''present'' = PyBool False
     \<and> isinstance_list (dict_get catacomb ''user_states'') \<and> length (list_of (dict_get catacomb ''user_states'')) = 2
     \<and> (\<exists>ys. normalized_states (dict_get catacomb ''user_states'') = Inr ys
          \<and> same_set ys (component_states uid state needs_save))"
  by (auto simp: states_are_def py_simps)

lemma catacomb_authority_iff:
  "catacomb_authority c catacomb = Inr u \<longleftrightarrow>
     dict_is_true catacomb ''present'' \<or> uc_identities c = [] \<and> states_are (uc_expected_user_id c) 3 False catacomb"
proof (cases "dict_is_true catacomb ''present''")
  case False
  have "local_pairs c = [] \<longleftrightarrow> uc_identities c = []" by (simp add: local_pairs_def)
  with False show ?thesis by (auto simp: catacomb_authority_def Let_def states_are_iff and_then_Inr_iff guard_Inr_iff)
qed (simp add: catacomb_authority_def)

lemma summarize_iff:
  assumes "catacomb_ok c"
  shows "summarize (Inr c) live = Inr s \<longleftrightarrow>
    (\<exists>d. live = PyDict d \<and> reconciled c d \<and> s = inventory_summary (sort_key li_entity (uc_identities c)))"
proof (cases live)
  case (PyDict d)
  let ?uid = "uc_expected_user_id c"
  let ?cat = "dict_of (dict_get d ''catacomb'')"
  have "summarize (Inr c) live = Inr s \<longleftrightarrow> stable_read ?uid d \<and> isinstance_dict (dict_get d ''catacomb'')
      \<and> (\<exists>ps qs. live_pairs (dict_get d ''per_user_identity_records'') ?uid = Inr ps
      \<and> configured_global_pairs (dict_get d ''global_identity_records'') ?uid = Inr qs
      \<and> set ps = Pair ?uid ` identity_names c \<and> set qs = Pair ?uid ` identity_names c)
      \<and> catacomb_authority c ?cat = Inr () \<and> s = inventory_summary (sort_key li_entity (uc_identities c))"
    using local_pairs_set [OF assms]
    by (auto simp: PyDict summarize_def isinstance_dict_def [of "PyDict d"] Let_def and_then_Inr_iff guard_Inr_iff stable_read_def)
  also have "\<dots> \<longleftrightarrow> stable_read ?uid d \<and> isinstance_dict (dict_get d ''catacomb'')
      \<and> both_list ?uid d (identity_names c) \<and> catacomb_authority c ?cat = Inr ()
      \<and> s = inventory_summary (sort_key li_entity (uc_identities c))"
    unfolding both_list_iff by blast
  finally show ?thesis by (auto simp: PyDict reconciled_def catacomb_authority_iff py_simps)
qed (simp_all add: summarize_def isinstance_dict_def)

lemma pending_final_delete_iff:
  "summarize_pending_final_delete (Inr c) live catacomb_uuid = Inr s \<longleftrightarrow>
    (\<exists>d. live = PyDict d \<and> finally_deleted c d catacomb_uuid \<and> s = inventory_summary [])"
proof (cases live)
  case (PyDict d)
  let ?uid = "uc_expected_user_id c"
  let ?cat = "dict_of (dict_get d ''catacomb'')"
  have "summarize_pending_final_delete (Inr c) live catacomb_uuid = Inr s \<longleftrightarrow>
      stable_read ?uid d \<and> uc_identities c = [] \<and> isinstance_dict (dict_get d ''catacomb'')
      \<and> (\<exists>ps qs. live_pairs (dict_get d ''per_user_identity_records'') ?uid = Inr ps
      \<and> configured_global_pairs (dict_get d ''global_identity_records'') ?uid = Inr qs
      \<and> set ps = Pair ?uid ` {} \<and> set qs = Pair ?uid ` {})
      \<and> py_eq (dict_get ?cat ''uuid'') catacomb_uuid \<and> states_are ?uid 7 True ?cat \<and> s = inventory_summary []"
    by (auto simp: PyDict summarize_pending_final_delete_def isinstance_dict_def [of "PyDict d"] Let_def and_then_Inr_iff
        guard_Inr_iff stable_read_def states_are_iff)
  also have "\<dots> \<longleftrightarrow> stable_read ?uid d \<and> uc_identities c = [] \<and> isinstance_dict (dict_get d ''catacomb'')
      \<and> both_list ?uid d {} \<and> py_eq (dict_get ?cat ''uuid'') catacomb_uuid \<and> states_are ?uid 7 True ?cat
      \<and> s = inventory_summary []"
    unfolding both_list_iff by blast
  finally show ?thesis by (auto simp: PyDict finally_deleted_def py_simps)
qed (simp_all add: summarize_pending_final_delete_def isinstance_dict_def)

section \<open>Slots\<close>

lemma rank_in_sorted:
  assumes "sorted (map f xs)" and "distinct (map f xs)" and "k < length xs"
  shows "card {x \<in> set xs. f x < (f (xs ! k) :: int)} = k"
proof -
  have less: "f (xs ! j) < f (xs ! k) \<longleftrightarrow> j < k" if "j < length xs" for j
  proof -
    have le: "f (xs ! a) \<le> f (xs ! b)" if "a \<le> b" "b < length xs" for a b
      using sorted_nth_mono [OF assms(1), of a b] that by simp
    have ne: "f (xs ! j) \<noteq> f (xs ! k)" if "j \<noteq> k"
      using nth_eq_iff_index_eq [OF assms(2), of j k] that \<open>j < length xs\<close> assms(3) by simp
    show ?thesis using le [of j k] le [of k j] ne that assms(3) by (cases "j < k"; cases "j = k") fastforce+
  qed
  have "{x \<in> set xs. f x < f (xs ! k)} = (!) xs ` {j. j < length xs \<and> f (xs ! j) < f (xs ! k)}"
    by (auto simp: in_set_conv_nth)
  moreover have "{j. j < length xs \<and> f (xs ! j) < f (xs ! k)} = {..<k}" using less assms(3) by auto
  ultimately have "{x \<in> set xs. f x < f (xs ! k)} = (!) xs ` {..<k}" by simp
  moreover have "inj_on ((!) xs) {..<k}"
    using assms(2,3) by (auto intro!: inj_onI simp: nth_eq_iff_index_eq distinct_map)
  ultimately show ?thesis by (simp add: card_image)
qed

text \<open>\<^verbatim>\<open>int(slot)\<close> that names the identity: one more than the number of identities with a lower entity number.\<close>

definition slot_of :: "user_catacomb \<Rightarrow> local_identity \<Rightarrow> int" where
  "slot_of c i = 1 + int (card {j \<in> set (uc_identities c). li_entity j < li_entity i})"

definition resolved :: "local_identity \<Rightarrow> resolved_identity" where
  "resolved i = \<lparr>ri_apple_user_id = li_user_id i, ri_identity_uuid = uuid_str (li_uuid i), ri_entity = li_entity i,
     ri_name = li_name i\<rparr>"

lemma slot_at:
  assumes "catacomb_ok c" and "1 \<le> n" and "n \<le> int (length (uc_identities c))"
  shows "sort_key li_entity (uc_identities c) ! nat (n - 1) = i \<longleftrightarrow> i \<in> set (uc_identities c) \<and> n = slot_of c i"
proof -
  let ?xs = "sort_key li_entity (uc_identities c)"
  have sd: "sorted (map li_entity ?xs)" "distinct (map li_entity ?xs)" using assms(1) by (simp_all add: catacomb_ok_def distinct_map)
  have rank: "slot_of c (?xs ! k) = 1 + int k" if "k < length ?xs" for k
    using rank_in_sorted [OF sd that] by (simp add: slot_of_def)
  have k: "nat (n - 1) < length ?xs" using assms(2,3) by auto
  show ?thesis
  proof
    assume i: "?xs ! nat (n - 1) = i"
    then have "i \<in> set ?xs" using k nth_mem by blast
    moreover have "n = slot_of c i" using rank [OF k] i assms(2) by simp
    ultimately show "i \<in> set (uc_identities c) \<and> n = slot_of c i" by simp
  next
    assume i: "i \<in> set (uc_identities c) \<and> n = slot_of c i"
    then have "i \<in> set ?xs" by simp
    then obtain j where j: "j < length ?xs" "?xs ! j = i" unfolding in_set_conv_nth by (elim exE conjE) (rule that)
    with rank [OF j(1)] i have "n = 1 + int j" by simp
    with j(2) show "?xs ! nat (n - 1) = i" by simp
  qed
qed

lemma slot_of_bounds:
  assumes "i \<in> set (uc_identities c)" and "catacomb_ok c"
  shows "1 \<le> slot_of c i \<and> slot_of c i \<le> int (length (uc_identities c))"
proof -
  have "{j \<in> set (uc_identities c). li_entity j < li_entity i} \<subset> set (uc_identities c)" using assms(1) by auto
  then have "card {j \<in> set (uc_identities c). li_entity j < li_entity i} < card (set (uc_identities c))"
    by (intro psubset_card_mono) simp
  also have "\<dots> \<le> length (uc_identities c)" by (rule card_length)
  finally show ?thesis by (simp add: slot_of_def)
qed

text \<open>
  C19: A slot names one live identity. A slot is resolved if and only if the inventory is reconciled with the host's
  file (a stable double read, the same identities in the file and in both live lists, and a Catacomb that is present
  or a clean empty one) and the slot is the position of an enrolled identity in the order of entity numbers; the result is
  that identity.
\<close>

theorem slot_names_live_identity:
  assumes "catacomb_ok c"
  shows "resolve_slot (Inr c) live slot = Inr r \<longleftrightarrow>
    (\<exists>d i. live = PyDict d \<and> reconciled c d \<and> i \<in> set (uc_identities c) \<and> slot = PyInt (slot_of c i) \<and> r = resolved i)"
proof -
  let ?xs = "sort_key li_entity (uc_identities c)"
  have "resolve_slot (Inr c) live slot = Inr r \<longleftrightarrow> (\<exists>d n. live = PyDict d \<and> reconciled c d \<and> slot = PyInt n
      \<and> 1 \<le> n \<and> n \<le> int (length (uc_identities c)) \<and> r = resolved (?xs ! nat (n - 1)))"
    by (auto simp: resolve_slot_def summarize_iff [OF assms] and_then_Inr_iff guard_Inr_iff inventory_summary_def Let_def py_simps
        resolved_def)
  also have "\<dots> \<longleftrightarrow> (\<exists>d i. live = PyDict d \<and> reconciled c d \<and> i \<in> set (uc_identities c) \<and> slot = PyInt (slot_of c i)
      \<and> r = resolved i)"
  proof
    assume "\<exists>d n. live = PyDict d \<and> reconciled c d \<and> slot = PyInt n
      \<and> 1 \<le> n \<and> n \<le> int (length (uc_identities c)) \<and> r = resolved (?xs ! nat (n - 1))"
    then obtain d n where n: "live = PyDict d" "reconciled c d" "slot = PyInt n" "1 \<le> n" "n \<le> int (length (uc_identities c))"
      "r = resolved (?xs ! nat (n - 1))" by (elim exE conjE) (rule that)
    from slot_at [OF assms n(4,5), of "?xs ! nat (n - 1)"] n show "\<exists>d i. live = PyDict d \<and> reconciled c d
        \<and> i \<in> set (uc_identities c) \<and> slot = PyInt (slot_of c i) \<and> r = resolved i"
      by (intro exI [of _ d] exI [of _ "?xs ! nat (n - 1)"]) simp
  next
    assume "\<exists>d i. live = PyDict d \<and> reconciled c d \<and> i \<in> set (uc_identities c) \<and> slot = PyInt (slot_of c i) \<and> r = resolved i"
    then obtain d i where i: "live = PyDict d" "reconciled c d" "i \<in> set (uc_identities c)" "slot = PyInt (slot_of c i)"
      "r = resolved i" by (elim exE conjE) (rule that)
    note b = slot_of_bounds [OF i(3) assms]
    from slot_at [OF assms, of "slot_of c i" i] b i show "\<exists>d n. live = PyDict d \<and> reconciled c d \<and> slot = PyInt n
      \<and> 1 \<le> n \<and> n \<le> int (length (uc_identities c)) \<and> r = resolved (?xs ! nat (n - 1))"
      by (intro exI [of _ d] exI [of _ "slot_of c i"]) simp
  qed
  finally show ?thesis .
qed

section \<open>Witnesses\<close>

definition slot_catacomb :: user_catacomb where
  "slot_catacomb = \<lparr>uc_expected_user_id = 501,
     uc_identities = [\<lparr>li_uuid = replicate 16 0x22, li_user_id = 501, li_entity = 3, li_name = ''thumb'', li_metadata = PyNone\<rparr>,
       \<lparr>li_uuid = replicate 16 0x11, li_user_id = 501, li_entity = 1, li_name = ''index'', li_metadata = PyNone\<rparr>]\<rparr>"

text \<open>The UUIDs of the sample are kept folded, so that the evaluation does not read them again.\<close>

definition slot_uuid :: "byte \<Rightarrow> string" where
  "slot_uuid b = uuid_str (replicate 16 b)"

definition slot_live :: pyval where
  "slot_live =
     (let user = (KStr ''user_id'', PyInt 501); group = [(KStr ''group_type'', PyInt 0), (KStr ''group_uuid'', PyStr NO_GROUP_UUID)];
          name = (\<lambda>b. (KStr ''identity_uuid'', PyStr (slot_uuid b))) in
      PyDict [(KStr ''double_collection_equal'', PyBool True), (KStr ''apple_uid'', PyInt 501),
        (KStr ''biometric_protocol_version'', PyInt 2), (KStr ''catacomb'', PyDict [(KStr ''present'', PyBool True)]),
        (KStr ''per_user_identity_records'', PyList [PyDict [user, name 0x11], PyDict [user, name 0x22]]),
        (KStr ''global_identity_records'', PyList [PyDict ([user, name 0x22] @ group), PyDict ([user, name 0x11] @ group)])])"

lemma slot_uuids: "inventory_uuid (PyStr (slot_uuid 0x11)) f = Inr (slot_uuid 0x11)"
  "inventory_uuid (PyStr (slot_uuid 0x22)) f = Inr (slot_uuid 0x22)" "slot_uuid 0x11 \<noteq> slot_uuid 0x22"
proof -
  have "inventory_name (slot_uuid 0x11)" "inventory_name (slot_uuid 0x22)" by code_simp+
  then show "inventory_uuid (PyStr (slot_uuid 0x11)) f = Inr (slot_uuid 0x11)"
    "inventory_uuid (PyStr (slot_uuid 0x22)) f = Inr (slot_uuid 0x22)" by (simp_all add: inventory_uuid_iff)
  show "slot_uuid 0x11 \<noteq> slot_uuid 0x22" by code_simp
qed

lemma slot_lists:
  "live_pairs (dict_get (dict_of slot_live) ''per_user_identity_records'') 501 = Inr [(501, slot_uuid 0x11), (501, slot_uuid 0x22)]"
  "configured_global_pairs (dict_get (dict_of slot_live) ''global_identity_records'') 501 =
     Inr [(501, slot_uuid 0x22), (501, slot_uuid 0x11)]"
  using slot_uuids
  by (simp_all add: slot_live_def Let_def live_pairs_def live_pair_def configured_global_pairs_def global_pair_def py_simps
      dict_keys_are_def dict_has_def in_int_tuple_def)

lemma slot_summary: "summarize (Inr slot_catacomb) slot_live = Inr (inventory_summary (sort_key li_entity (uc_identities slot_catacomb)))"
proof -
  have d: "isinstance_dict slot_live" "dict_is_true (dict_of slot_live) ''double_collection_equal''"
    "dict_get (dict_of slot_live) ''apple_uid'' = PyInt 501" "dict_get (dict_of slot_live) ''biometric_protocol_version'' = PyInt 2"
    "dict_get (dict_of slot_live) ''catacomb'' = PyDict [(KStr ''present'', PyBool True)]"
    by (simp_all add: slot_live_def Let_def py_simps dict_is_true_def)
  have "uc_expected_user_id slot_catacomb = 501" "local_pairs slot_catacomb = [(501, slot_uuid 0x22), (501, slot_uuid 0x11)]"
    by (simp_all add: slot_catacomb_def local_pairs_def slot_uuid_def)
  then show ?thesis using d slot_lists by (simp add: summarize_def Let_def catacomb_authority_def py_simps dict_is_true_def insert_commute)
qed

theorem slot_names_live_identity_witness:
  "\<exists>d i. slot_live = PyDict d \<and> reconciled slot_catacomb d \<and> i \<in> set (uc_identities slot_catacomb)
     \<and> slot_of slot_catacomb i = 2 \<and> li_name i = ''thumb''"
proof -
  have ok: "catacomb_ok slot_catacomb" by code_simp
  have xs: "sort_key li_entity (uc_identities slot_catacomb) =
      [\<lparr>li_uuid = replicate 16 0x11, li_user_id = 501, li_entity = 1, li_name = ''index'', li_metadata = PyNone\<rparr>,
       \<lparr>li_uuid = replicate 16 0x22, li_user_id = 501, li_entity = 3, li_name = ''thumb'', li_metadata = PyNone\<rparr>]"
    by (simp add: slot_catacomb_def)
  have "ri_name (projr (resolve_slot (Inr slot_catacomb) slot_live (PyInt 2))) = ''thumb''
      \<and> \<not> isl (resolve_slot (Inr slot_catacomb) slot_live (PyInt 2))"
    by (simp add: resolve_slot_def slot_summary inventory_summary_def xs py_simps Let_def)
  then obtain r where r: "resolve_slot (Inr slot_catacomb) slot_live (PyInt 2) = Inr r" "ri_name r = ''thumb''"
    by (cases "resolve_slot (Inr slot_catacomb) slot_live (PyInt 2)") auto
  from slot_names_live_identity [OF ok, THEN iffD1, OF r(1)] obtain d i where "slot_live = PyDict d"
    "reconciled slot_catacomb d" "i \<in> set (uc_identities slot_catacomb)" "PyInt 2 = PyInt (slot_of slot_catacomb i)" "r = resolved i"
    by (elim exE conjE) (rule that)
  with r(2) show ?thesis by (intro exI [of _ d] exI [of _ i]) (simp add: resolved_def)
qed

end
