(* ===== verification/Delete_Operation.thy ===== *)
theory Delete_Operation
  imports Methods Delete_Journal Identity_Inventory Enrollment_Protocol
begin

text \<open>
  The execution of one identity deletion: the one-shot Bridge adapter of \<^verbatim>\<open>src/src/t2_identity_delete_bridge.py\<close> and the
  journaled operation of \<^verbatim>\<open>src/src/t2_identity_delete_operation.py\<close>. The lease of the Bridge connection (a \<^verbatim>\<open>Protocol\<close>
  in the source), the inventory collector and the decoder of Catacomb archives are the fields of \<open>delete_env\<close>,
  functions on an arbitrary world. \<open>sys_trace\<close> is a history variable: it lists the effects in order, and no step reads it.
\<close>

section \<open>State and environment\<close>

datatype delete_bridge_state = BRIDGE_READY | BRIDGE_DISPATCHED | BRIDGE_POISONED

text \<open>An append is listed with the journal file before it and its result, a collection with what it returned.\<close>

datatype delete_effect =
    Appended journal_fs string pydict "delete_history res"
  | Dispatched bytes | Invalidated | Collected "pyval res"

record 'w delete_system =
  sys_world :: 'w
  sys_fs :: journal_fs
  sys_bridge :: delete_bridge_state
  sys_trace :: "delete_effect list"

text \<open>
  \<open>de_generation\<close> is the generation that the adapter was constructed for, \<open>de_lease_generation\<close> what the lease says;
  \<open>de_command\<close> is \<^verbatim>\<open>lease.biometric_command(0x0D, version=1, value=0, data=..., output_capacity=0)\<close>.
\<close>

record 'w delete_env =
  de_record_hash :: "string \<Rightarrow> string"
  de_sha256 :: "bytes \<Rightarrow> bytes"
  de_writes :: "'w \<Rightarrow> (int list \<times> int list \<times> int list \<times> int list) \<times> 'w"
  de_generation :: string
  de_lease_generation :: "'w \<Rightarrow> string"
  de_command :: "bytes \<Rightarrow> 'w \<Rightarrow> (pyval \<times> pyval) res \<times> 'w"
  de_invalidate :: "'w \<Rightarrow> unit res \<times> 'w"
  de_collect :: "'w \<Rightarrow> pyval res \<times> 'w"
  de_decode :: "bytes \<Rightarrow> int \<Rightarrow> user_catacomb res"

type_synonym ('w, 'a) delete_method = "('w delete_system, 'a) stateful"

definition sys_call :: "('a res \<Rightarrow> delete_effect) \<Rightarrow> ('w \<Rightarrow> 'a res \<times> 'w) \<Rightarrow> ('w, 'a) delete_method" where
  "sys_call effect f s =
     (case f (sys_world s) of (r, w) \<Rightarrow> (r, s\<lparr>sys_world := w, sys_trace := sys_trace s @ [effect r]\<rparr>))"

section \<open>The Bridge adapter\<close>

abbreviation bridge_error :: "string \<Rightarrow> exc" where
  "bridge_error \<equiv> Exc IdentityDeleteBridgeError"

definition BRIDGE_SERVICE_STATUS :: int where "BRIDGE_SERVICE_STATUS = 0xE3FF8000"
definition BIOMETRIC_NIL_OUTPUT_SENTINEL :: string where
  "BIOMETRIC_NIL_OUTPUT_SENTINEL = ''d4161201-daf5-4bbd-ae4f-9bf319fabbe0''"

definition is_biometric_nil_output :: "pyval \<Rightarrow> bool" where
  "is_biometric_nil_output v = (isinstance_str v \<and> str_of v = BIOMETRIC_NIL_OUTPUT_SENTINEL)"

record delete_command_result =
  dc_status :: int
  dc_output_length :: int
  dc_service_event_count :: int

text \<open>The constructor: the generation that the adapter is pinned to, and its state.\<close>

definition new_delete_bridge :: "pyval \<Rightarrow> string \<Rightarrow> (string \<times> delete_bridge_state) res" where
  "new_delete_bridge connection_generation lease_generation =
     (if \<not> isinstance_str connection_generation \<or> \<not> uuid_accepts (str_of connection_generation)
      then Inl (bridge_error ''connection generation is invalid'')
      else if \<not> (canonical_uuid (str_of connection_generation) \<and> lower (str_of connection_generation) = str_of connection_generation)
              \<or> lease_generation \<noteq> str_of connection_generation
      then Inl (bridge_error ''delete Bridge generation changed'')
      else Inr (str_of connection_generation, BRIDGE_READY))"

definition delete_event_ok :: "pyval \<Rightarrow> bool" where
  "delete_event_ok event =
     (let xs = list_of event in
      isinstance_list event \<and> length xs = 5 \<and> py_eq (xs ! 0) (PyInt 9) \<and> py_eq (xs ! 1) (PyInt BRIDGE_SERVICE_STATUS)
      \<and> type_is_bytes (xs ! 2) \<and> struct_size SERVICE_HEADER \<le> length (bytes_of (xs ! 2))
      \<and> length (bytes_of (xs ! 2)) \<le> struct_size SERVICE_HEADER + MAX_EVENT_PAYLOAD)"

text \<open>The checks on the reply and its events after the lease returned.\<close>

definition check_delete_reply :: "bool \<Rightarrow> pyval \<Rightarrow> pyval \<Rightarrow> delete_command_result res" where
  "check_delete_reply lease_unchanged reply events =
     (let xs = list_of reply in
     if \<not> lease_unchanged \<or> \<not> isinstance_list reply \<or> length xs \<noteq> 2 \<or> \<not> type_is_int (xs ! 0)
        \<or> \<not> (- (2 ^ 31) \<le> int_of (xs ! 0) \<and> int_of (xs ! 0) < 2 ^ 32) \<or> \<not> isinstance_list events
     then Inl (bridge_error ''identity delete reply is malformed'')
     else if \<not> list_all delete_event_ok (list_of events)
     then Inl (bridge_error ''identity delete service event is malformed'')
     else let output = (if is_biometric_nil_output (xs ! 1) then PyBytes [] else xs ! 1) in
     if \<not> type_is_bytes output \<or> bytes_of output \<noteq> [] then Inl (bridge_error ''identity delete returned unexpected data'')
     else Inr \<lparr>dc_status = int_of (xs ! 0), dc_output_length = 0, dc_service_event_count = int (length (list_of events))\<rparr>)"

definition bridge_become :: "delete_bridge_state \<Rightarrow> ('w, unit) delete_method" where
  "bridge_become state s = (Inr (), s\<lparr>sys_bridge := state\<rparr>)"

definition bridge_poison :: "'w delete_env \<Rightarrow> ('w, unit) delete_method" where
  "bridge_poison env = op_bind (bridge_become BRIDGE_POISONED) (\<lambda>_.
     op_catch (sys_call (\<lambda>_. Invalidated) (de_invalidate env)) (\<lambda>_. op_return ()))"

definition bridge_delete :: "'w delete_env \<Rightarrow> bytes \<Rightarrow> ('w, delete_command_result) delete_method" where
  "bridge_delete env request s =
     (if sys_bridge s \<noteq> BRIDGE_READY then op_raise (bridge_error ''identity delete Bridge is not reusable'') s
      else if length request \<noteq> 20 then op_raise (bridge_error ''identity delete request must be 20 bytes'') s
      else op_catch
        (op_bind (sys_call (\<lambda>_. Dispatched request) (de_command env request)) (\<lambda>(reply, events).
         op_bind (bridge_become BRIDGE_DISPATCHED) (\<lambda>_ s1.
         op_lift (check_delete_reply (de_lease_generation env (sys_world s1) = de_generation env) reply events) s1)))
        (\<lambda>e. op_bind (bridge_poison env) (\<lambda>_.
             op_raise (if issubclass (exc_class e) IdentityDeleteBridgeError then e
                       else bridge_error ''identity delete transport is ambiguous''))) s)"

section \<open>Journaling\<close>

record identity_delete_plan =
  dp_apple_user_id :: int
  dp_identity_uuid :: string
  dp_entity :: int
  dp_name :: string
  dp_request :: bytes
  dp_survivor_snapshot_sha256 :: string
  dp_archive :: bytes

record delete_operation_result =
  dr_outcome :: string
  dr_command_status :: int

abbreviation delete_operation_error :: "string \<Rightarrow> exc" where
  "delete_operation_error \<equiv> Exc IdentityDeleteOperationError"

definition delete_append :: "'w delete_env \<Rightarrow> string \<Rightarrow> string \<Rightarrow> pydict \<Rightarrow> ('w, delete_history) delete_method" where
  "delete_append env operation_id milestone evidence s =
     (case de_writes env (sys_world s) of ((ws, ws1, ws2, ws3), w) \<Rightarrow>
      (case delete_append_checked (de_record_hash env) ws ws1 ws2 ws3 operation_id milestone evidence (sys_fs s) of (r, fs) \<Rightarrow>
       (r, s\<lparr>sys_world := w, sys_fs := fs, sys_trace := sys_trace s @ [Appended (sys_fs s) milestone evidence r]\<rparr>)))"

definition delete_history_read :: "'w delete_env \<Rightarrow> int list \<Rightarrow> ('w, delete_history) delete_method" where
  "delete_history_read env ws s =
     (case delete_read (de_record_hash env) ws (sys_fs s) of (r, fs) \<Rightarrow> (r, s\<lparr>sys_fs := fs\<rparr>))"

definition unknown_evidence :: "pyval \<Rightarrow> string \<Rightarrow> string \<Rightarrow> pydict" where
  "unknown_evidence generation stage reason =
     [(KStr ''connection_generation'', generation), (KStr ''stage'', PyStr stage), (KStr ''reason'', PyStr reason),
      (KStr ''mutation_possible'', PyBool True)]"

definition delete_freeze :: "'w delete_env \<Rightarrow> string \<Rightarrow> pyval \<Rightarrow> string \<Rightarrow> string \<Rightarrow> ('w, 'a) delete_method" where
  "delete_freeze env operation_id generation stage reason =
     op_bind (op_catch (op_bind (delete_append env operation_id ''DELETE_OUTCOME_UNKNOWN''
                                   (unknown_evidence generation stage reason)) (\<lambda>_. op_return ()))
                (\<lambda>_. op_return ())) (\<lambda>_.
     op_raise (delete_operation_error (''identity deletion stopped at '' @ stage @ ''; reconciliation is required'')))"

section \<open>The operation\<close>

definition dispatch_evidence :: "delete_history \<Rightarrow> identity_delete_plan \<Rightarrow> pydict" where
  "dispatch_evidence history plan =
     [(KStr ''connection_generation'', dict_get (dh_baseline history) ''connection_generation''),
      (KStr ''identity_uuid'', PyStr (dp_identity_uuid plan)), (KStr ''request_sha256'', dh_request_sha256 history),
      (KStr ''command'', PyInt 0x0D), (KStr ''protocol_version'', PyInt 1)]"

definition command_evidence :: "pyval \<Rightarrow> identity_delete_plan \<Rightarrow> delete_command_result \<Rightarrow> pydict" where
  "command_evidence generation plan command =
     [(KStr ''connection_generation'', generation), (KStr ''identity_uuid'', PyStr (dp_identity_uuid plan)),
      (KStr ''status'', PyInt (dc_status command)), (KStr ''output_length'', PyInt (dc_output_length command)),
      (KStr ''service_event_count'', PyInt (dc_service_event_count command))]"

definition absence_evidence :: "pyval \<Rightarrow> identity_delete_plan \<Rightarrow> pydict \<Rightarrow> pydict" where
  "absence_evidence generation plan summary =
     [(KStr ''connection_generation'', generation), (KStr ''identity_uuid'', PyStr (dp_identity_uuid plan)),
      (KStr ''survivor_snapshot_sha256'', PyStr (dp_survivor_snapshot_sha256 plan)),
      (KStr ''survivor_count'', dict_get summary ''identity_count''), (KStr ''stable_double_read'', PyBool True),
      (KStr ''per_user_global_equal'', PyBool True), (KStr ''target_absent'', PyBool True)]"

definition unchanged_evidence :: "pyval \<Rightarrow> identity_delete_plan \<Rightarrow> pydict" where
  "unchanged_evidence generation plan =
     [(KStr ''connection_generation'', generation), (KStr ''identity_uuid'', PyStr (dp_identity_uuid plan)),
      (KStr ''command_failed'', PyBool True), (KStr ''target_present'', PyBool True),
      (KStr ''baseline_identity_set_equal'', PyBool True), (KStr ''sep_catacomb_unchanged'', PyBool True),
      (KStr ''stable_double_read'', PyBool True)]"

definition plan_differs :: "'w delete_env \<Rightarrow> delete_history \<Rightarrow> string \<Rightarrow> identity_delete_plan \<Rightarrow> user_catacomb \<Rightarrow> bool" where
  "plan_differs env history operation_id plan c =
     (dh_operation_id history \<noteq> operation_id \<or> dh_phase history \<noteq> D_INTENT
      \<or> \<not> py_eq (dh_target_identity_uuid history) (PyStr (dp_identity_uuid plan))
      \<or> \<not> py_eq (dh_target_entity history) (PyInt (dp_entity plan))
      \<or> \<not> py_eq (dh_request_sha256 history) (PyStr (hexdigest (de_sha256 env (dp_request plan))))
      \<or> \<not> py_eq (dh_survivor_snapshot_sha256 history) (PyStr (dp_survivor_snapshot_sha256 plan))
      \<or> \<not> py_eq (dict_get (dh_baseline history) ''apple_uid'') (PyInt (dp_apple_user_id plan))
      \<or> \<not> py_eq (PyStr (de_generation env)) (dict_get (dh_baseline history) ''connection_generation'')
      \<or> uc_expected_user_id c \<noteq> dp_apple_user_id plan)"

text \<open>\<^verbatim>\<open>try: r except IdentityInventoryError: None\<close>\<close>

definition or_none :: "pydict res \<Rightarrow> pydict option res" where
  "or_none r = (case r of
     Inr x \<Rightarrow> Inr (Some x)
   | Inl e \<Rightarrow> (if issubclass (exc_class e) IdentityInventoryError then Inr None else Inl e))"

definition survivor_summary :: "user_catacomb \<Rightarrow> pyval \<Rightarrow> pyval \<Rightarrow> pydict option res" where
  "survivor_summary planned live catacomb_uuid =
     and_then (or_none (summarize (Inr planned) live)) (\<lambda>summary.
     case summary of
       Some s \<Rightarrow> Inr (Some s)
     | None \<Rightarrow> or_none (summarize_pending_final_delete (Inr planned) live catacomb_uuid))"

definition exact_no_change :: "delete_history \<Rightarrow> pyval \<Rightarrow> pydict option \<Rightarrow> bool" where
  "exact_no_change history live original_summary =
     (let catacomb = dict_get (dict_of live) ''catacomb''; sep = dict_of (dict_get (dh_baseline history) ''sep_catacomb'') in
      (case original_summary of
         None \<Rightarrow> False
       | Some summary \<Rightarrow> py_eq (dict_get summary ''identity_count'')
            (PyInt (int (length (list_of (dict_get (dh_baseline history) ''identity_records''))))))
      \<and> isinstance_dict catacomb \<and> py_eq (dict_get (dict_of catacomb) ''uuid'') (dict_get sep ''uuid'')
      \<and> py_eq (dict_get (dict_of catacomb) ''hash'') (dict_get sep ''hash''))"

text \<open>The end of \<^verbatim>\<open>run\<close>: what the inventory after the command shows.\<close>

definition conclude_delete ::
    "'w delete_env \<Rightarrow> string \<Rightarrow> identity_delete_plan \<Rightarrow> user_catacomb \<Rightarrow> delete_history \<Rightarrow> pyval \<Rightarrow> delete_command_result \<Rightarrow> pyval
      \<Rightarrow> ('w, delete_operation_result) delete_method" where
  "conclude_delete env operation_id plan c history generation command live =
     op_bind (op_lift (de_decode env (dp_archive plan) (dp_apple_user_id plan))) (\<lambda>planned_local.
     op_bind (op_lift (survivor_summary planned_local live
                (dict_get (dict_of (dict_get (dh_baseline history) ''sep_catacomb'')) ''uuid''))) (\<lambda>survivors.
     case survivors of
       Some summary \<Rightarrow>
         op_bind (delete_append env operation_id ''DELETE_SEP_ABSENCE_OBSERVED'' (absence_evidence generation plan summary))
           (\<lambda>_. op_return \<lparr>dr_outcome = ''sep-deleted'', dr_command_status = dc_status command\<rparr>)
     | None \<Rightarrow>
         op_bind (op_lift (or_none (summarize (Inr c) live))) (\<lambda>original_summary.
         if dc_status command \<noteq> 0 \<and> exact_no_change history live original_summary
         then op_bind (delete_append env operation_id ''DELETE_NOT_PERFORMED'' (unchanged_evidence generation plan))
                (\<lambda>_. op_return \<lparr>dr_outcome = ''not-deleted'', dr_command_status = dc_status command\<rparr>)
         else delete_freeze env operation_id generation ''readback'' ''readback-error'')))"

definition after_command ::
    "'w delete_env \<Rightarrow> string \<Rightarrow> identity_delete_plan \<Rightarrow> user_catacomb \<Rightarrow> delete_history \<Rightarrow> pyval \<Rightarrow> delete_command_result
      \<Rightarrow> ('w, delete_operation_result) delete_method" where
  "after_command env operation_id plan c history generation command =
     op_bind (op_catch (sys_call Collected (de_collect env))
                (\<lambda>_. delete_freeze env operation_id generation ''readback'' ''inventory-error'')) (\<lambda>live.
     if \<not> isinstance_dict live then op_raise (Exc AttributeError ''get'')
     else if \<not> py_eq (dict_get (dict_of live) ''connection_generation'') generation
     then delete_freeze env operation_id generation ''readback'' ''inventory-error''
     else conclude_delete env operation_id plan c history generation command live)"

definition delete_run ::
    "'w delete_env \<Rightarrow> int list \<Rightarrow> string \<Rightarrow> identity_delete_plan \<Rightarrow> user_catacomb \<Rightarrow> ('w, delete_operation_result) delete_method" where
  "delete_run env ws operation_id plan c =
     op_bind (delete_history_read env ws) (\<lambda>history.
     let generation = dict_get (dh_baseline history) ''connection_generation'' in
     if plan_differs env history operation_id plan c
     then op_raise (delete_operation_error ''identity delete plan differs from durable intent'')
     else op_bind (delete_append env operation_id ''DELETE_DISPATCH_INTENT'' (dispatch_evidence history plan)) (\<lambda>_.
     op_bind (op_catch (bridge_delete env (dp_request plan))
                (\<lambda>_. delete_freeze env operation_id generation ''dispatch'' ''transport-error'')) (\<lambda>command.
     op_bind (delete_append env operation_id ''DELETE_COMMAND_OBSERVED'' (command_evidence generation plan command)) (\<lambda>_.
     after_command env operation_id plan c history generation command))))"

end
