(* ===== verification/Fprint_Identity.thy ===== *)
theory Fprint_Identity
  imports Byte_Struct Json_Codec
begin

text \<open>
  The names of enrolled fingers, \<^verbatim>\<open>src/src/t2_fprint_identity.py\<close>: a handle \<^verbatim>\<open>finger-n\<close> names one of five
  slots, and a new enrollment takes the lowest free one. \<^verbatim>\<open>next_reserved_handle\<close> is the entry point in
  \<^verbatim>\<open>src/src/t2_fprint_sequence.py\<close>.
\<close>

section \<open>Handles\<close>

definition MAX_ENROLLED_IDENTITIES :: int where "MAX_ENROLLED_IDENTITIES = 5"
definition MAX_FINGER_NUMBER :: int where "MAX_FINGER_NUMBER = MAX_ENROLLED_IDENTITIES"
definition LEGACY_MAX_FINGER_NUMBER :: int where "LEGACY_MAX_FINGER_NUMBER = 999999999"

abbreviation identity_error :: "string \<Rightarrow> exc" where
  "identity_error \<equiv> Exc FprintIdentityError"

text \<open>\<^verbatim>\<open>_HANDLE.fullmatch(value)\<close>: the group of \<^verbatim>\<open>finger-([1-9][0-9]{0,8})\<close>.\<close>

definition handle_match :: "string \<Rightarrow> string option" where
  "handle_match s =
     (let digits = drop 7 s in
     if take 7 s = ''finger-'' \<and> digits \<noteq> [] \<and> length digits \<le> 9 \<and> list_all is_digit digits \<and> hd digits \<noteq> CHR ''0''
     then Some digits else None)"

definition finger_number :: "pyval \<Rightarrow> int res" where
  "finger_number value =
     (if \<not> isinstance_str value then Inl (identity_error ''finger handle is not text'')
      else case handle_match (str_of value) of
        None \<Rightarrow> Inl (identity_error ''finger handle is not canonical'')
      | Some digits \<Rightarrow>
          (let result = int (digits_value digits) in
          if \<not> (1 \<le> result \<and> result \<le> MAX_FINGER_NUMBER)
          then Inl (identity_error ''finger handle number is outside policy'') else Inr result))"

definition is_handle :: "pyval \<Rightarrow> bool" where
  "is_handle value = (case finger_number value of Inl _ \<Rightarrow> False | Inr _ \<Rightarrow> True)"

definition finger_handle :: "pyval \<Rightarrow> string res" where
  "finger_handle value =
     (if \<not> type_is_int value \<or> \<not> (1 \<le> int_of value \<and> int_of value \<le> MAX_FINGER_NUMBER)
      then Inl (identity_error ''finger handle number is outside policy'')
      else Inr (''finger-'' @ int_text (int_of value)))"

definition display_name :: "pyval \<Rightarrow> string res" where
  "display_name value = and_then (finger_number value) (\<lambda>n. Inr (''Finger '' @ int_text n))"

section \<open>Collections of handles\<close>

definition seq_items :: "pyval \<Rightarrow> pyval list option" where
  "seq_items v = (case v of PyList xs \<Rightarrow> Some xs | PyTuple xs \<Rightarrow> Some xs | _ \<Rightarrow> None)"

text \<open>\<^verbatim>\<open>sorted(names, key=number)\<close> on names that are known to be handles.\<close>

definition ordered_handles :: "pyval \<Rightarrow> string list res" where
  "ordered_handles collection =
     (case seq_items collection of
        None \<Rightarrow> Inl (identity_error ''finger handle collection has the wrong type'')
      | Some names \<Rightarrow>
          (if \<not> list_all is_handle names \<or> \<not> distinct (map str_of names)
           then Inl (identity_error ''finger handles are invalid or duplicated'')
           else Inr (map str_of (sort_key (\<lambda>name. projr (finger_number name)) names))))"

text \<open>The loop of \<^verbatim>\<open>next_handle\<close> over the slots that are left.\<close>

fun first_free :: "string list \<Rightarrow> int list \<Rightarrow> string res" where
  "first_free occupied [] = Inl (identity_error ''fingerprint slot capacity is exhausted'')"
| "first_free occupied (slot # slots) =
     and_then (finger_handle (PyInt slot)) (\<lambda>candidate.
     if candidate \<notin> set occupied then Inr candidate else first_free occupied slots)"

definition next_handle :: "pyval \<Rightarrow> string res" where
  "next_handle collection =
     and_then (ordered_handles collection) (\<lambda>names. first_free names [1..MAX_ENROLLED_IDENTITIES])"

definition LEGACY_ENROLLMENT_REQUESTS :: "string list" where
  "LEGACY_ENROLLMENT_REQUESTS =
     [side @ ''-'' @ finger. side \<leftarrow> [''left'', ''right''],
        finger \<leftarrow> [''thumb'', ''index-finger'', ''middle-finger'', ''ring-finger'', ''little-finger'']]"

definition is_enrollment_request :: "pyval \<Rightarrow> bool res" where
  "is_enrollment_request value = (if is_handle value then Inr True else in_str_set value LEGACY_ENROLLMENT_REQUESTS)"

section \<open>Slot allocation\<close>

abbreviation sequence_error :: "string \<Rightarrow> exc" where
  "sequence_error \<equiv> Exc FprintSequenceError"

definition next_reserved_handle :: "pyval \<Rightarrow> pyval \<Rightarrow> string res" where
  "next_reserved_handle high_water current_handles =
     (if \<not> type_is_int high_water \<or> \<not> (0 \<le> int_of high_water \<and> int_of high_water \<le> LEGACY_MAX_FINGER_NUMBER)
      then Inl (sequence_error ''finger sequence high-water mark is invalid'')
      else and_then (replace_exc FprintIdentityError (sequence_error ''current neutral handle set is invalid'')
                       (ordered_handles current_handles)) (\<lambda>names.
           replace_exc FprintIdentityError (sequence_error ''fingerprint slot capacity is exhausted'')
             (next_handle (PyTuple (map PyStr names)))))"

section \<open>Correctness\<close>

definition the_handle :: "int \<Rightarrow> string" where
  "the_handle n = ''finger-'' @ int_text n"

definition slots :: "int list" where
  "slots = [1, 2, 3, 4, 5]"

lemma upto_slots: "[1..MAX_ENROLLED_IDENTITIES] = slots"
  by (simp add: MAX_ENROLLED_IDENTITIES_def slots_def upto.simps)

lemma slot_iff: "n \<in> set slots \<longleftrightarrow> 1 \<le> n \<and> n \<le> MAX_FINGER_NUMBER"
  by (auto simp: slots_def MAX_FINGER_NUMBER_def MAX_ENROLLED_IDENTITIES_def)


lemma the_handle_simps [simp]:
  "the_handle 1 = ''finger-1''" "the_handle 2 = ''finger-2''" "the_handle 3 = ''finger-3''"
  "the_handle 4 = ''finger-4''" "the_handle 5 = ''finger-5''"
  by code_simp+

lemma the_handle_inj: "m \<in> set slots \<Longrightarrow> n \<in> set slots \<Longrightarrow> the_handle m = the_handle n \<longleftrightarrow> m = n"
  by (auto simp: slots_def)

lemma digits_value_lower:
  "ds \<noteq> [] \<Longrightarrow> list_all is_digit ds \<Longrightarrow> hd ds \<noteq> CHR ''0'' \<Longrightarrow> 10 ^ (length ds - 1) \<le> digits_value ds"
proof (induction ds rule: rev_induct)
  case (snoc c ds)
  show ?case
  proof (cases "ds = []")
    case True
    with snoc.prems have "is_digit c" "c \<noteq> CHR ''0''" by simp_all
    then have "(of_char c :: nat) \<noteq> of_char (CHR ''0'')" by (simp only: of_char_eq_iff) simp
    with \<open>is_digit c\<close> have "48 < (of_char c :: nat)" by (simp add: is_digit_def)
    with True show ?thesis by (simp add: digits_value_def)
  next
    case False
    with snoc have "10 ^ (length ds - 1) \<le> digits_value ds" by simp
    moreover have "(10::nat) ^ length ds = 10 * 10 ^ (length ds - 1)" using False by (cases ds) simp_all
    ultimately show ?thesis by (simp add: digits_value_snoc)
  qed
qed simp

lemma small_number:
  assumes "ds \<noteq> []" and "list_all is_digit ds" and "hd ds \<noteq> CHR ''0''" and "digits_value ds \<le> 5"
  shows "\<exists>c. ds = [c] \<and> is_digit c"
proof -
  have "10 ^ (length ds - 1) \<le> (5 :: nat)" using digits_value_lower [OF assms(1-3)] assms(4) by simp
  moreover have "(10 :: nat) ^ 1 \<le> 10 ^ (length ds - 1)" if "length ds - 1 \<noteq> 0"
    using that by (intro power_increasing) simp_all
  ultimately have "length ds - 1 = 0" by fastforce
  with assms(1,2) show ?thesis by (cases ds) auto
qed

lemma handle_match_iff:
  "(\<exists>digits. handle_match s = Some digits \<and> int (digits_value digits) = n) \<and> n \<in> set slots
   \<longleftrightarrow> n \<in> set slots \<and> s = the_handle n"
proof
  assume a: "(\<exists>digits. handle_match s = Some digits \<and> int (digits_value digits) = n) \<and> n \<in> set slots"
  then obtain ds where "handle_match s = Some ds" and n: "int (digits_value ds) = n" "n \<in> set slots" by blast
  then have ds: "take 7 s = ''finger-''" "ds = drop 7 s" "ds \<noteq> []" "list_all is_digit ds" "hd ds \<noteq> CHR ''0''"
    unfolding handle_match_def Let_def by (auto split: if_splits)
  have "digits_value ds \<le> 5" using n by (auto simp: slots_def)
  with ds obtain c where c: "ds = [c]" "is_digit c" using small_number [of ds] by blast
  then have "of_char c = 48 + nat n" using n(1) by (auto simp: digits_value_def is_digit_def)
  then have "c = digit_char (nat n)" by (metis char_of_char digit_char_def)
  moreover have "int_text n = [digit_char (nat n)]" using n(2) by (auto simp: slots_def int_text_def dec_text.simps)
  moreover have "s = ''finger-'' @ ds" using ds(1,2) append_take_drop_id [of 7 s] by simp
  ultimately show "n \<in> set slots \<and> s = the_handle n" using n(2) c(1) by (simp add: the_handle_def)
next
  assume a: "n \<in> set slots \<and> s = the_handle n"
  then have "n = 1 \<or> n = 2 \<or> n = 3 \<or> n = 4 \<or> n = 5" "s = the_handle n" by (auto simp: slots_def)
  then show "(\<exists>digits. handle_match s = Some digits \<and> int (digits_value digits) = n) \<and> n \<in> set slots"
    by (elim disjE) (simp_all add: handle_match_def is_digit_def digits_value_def slots_def)
qed

lemma finger_number_iff: "finger_number v = Inr n \<longleftrightarrow> n \<in> set slots \<and> v = PyStr (the_handle n)"
proof (cases v)
  case (PyStr s)
  have "finger_number v = Inr n \<longleftrightarrow> (\<exists>digits. handle_match s = Some digits \<and> int (digits_value digits) = n) \<and> n \<in> set slots"
    using PyStr by (auto simp: finger_number_def slot_iff Let_def py_simps res_simps split: option.splits)
  with PyStr handle_match_iff [of s n] show ?thesis by auto
qed (simp_all add: finger_number_def py_simps)

lemma is_handle_iff: "is_handle v \<longleftrightarrow> (\<exists>n \<in> set slots. v = PyStr (the_handle n))"
  unfolding is_handle_def by (auto split: sum.splits simp: finger_number_iff) (metis finger_number_iff sum.distinct(1))

lemma handle_names: "list_all is_handle vs \<longleftrightarrow> (\<exists>ns. set ns \<subseteq> set slots \<and> vs = map (\<lambda>n. PyStr (the_handle n)) ns)"
proof
  assume "list_all is_handle vs"
  then show "\<exists>ns. set ns \<subseteq> set slots \<and> vs = map (\<lambda>n. PyStr (the_handle n)) ns"
  proof (induction vs)
    case (Cons v vs)
    then obtain n ns where "n \<in> set slots" "v = PyStr (the_handle n)" "set ns \<subseteq> set slots"
      "vs = map (\<lambda>n. PyStr (the_handle n)) ns" by (auto simp: is_handle_iff)
    then show ?case by (intro exI [of _ "n # ns"]) simp
  qed simp
next
  assume "\<exists>ns. set ns \<subseteq> set slots \<and> vs = map (\<lambda>n. PyStr (the_handle n)) ns"
  then show "list_all is_handle vs" by (fastforce simp: list_all_iff is_handle_iff)
qed

lemma insort_key_cong: "(\<And>y. y \<in> set (x # ys) \<Longrightarrow> f y = g y) \<Longrightarrow> insort_key f x ys = insort_key g x ys"
  by (induction ys) auto

lemma sort_key_cong: "(\<And>y. y \<in> set ys \<Longrightarrow> f y = g y) \<Longrightarrow> sort_key f ys = sort_key g ys"
  by (induction ys) (auto intro!: insort_key_cong)

text \<open>The handles of a collection, in slot order.\<close>

lemma ordered_handles_iff:
  "ordered_handles collection = Inr names \<longleftrightarrow>
     (\<exists>ns. seq_items collection = Some (map (\<lambda>n. PyStr (the_handle n)) ns) \<and> set ns \<subseteq> set slots \<and> distinct ns
       \<and> names = map the_handle (sort ns))"
proof -
  have sorted: "map str_of (sort_key (\<lambda>name. projr (finger_number name)) (map (\<lambda>n. PyStr (the_handle n)) ns))
      = map the_handle (sort ns)" if "set ns \<subseteq> set slots" for ns
  proof -
    have "sort_key (\<lambda>n. projr (finger_number (PyStr (the_handle n)))) ns = sort ns"
    proof (rule sort_key_cong)
      fix n assume "n \<in> set ns"
      with that have "finger_number (PyStr (the_handle n)) = Inr n" by (auto simp: finger_number_iff)
      then show "projr (finger_number (PyStr (the_handle n))) = n" by simp
    qed
    then show ?thesis by (simp add: sort_key_map)
  qed
  have distinct: "distinct (map str_of (map (\<lambda>n. PyStr (the_handle n)) ns)) \<longleftrightarrow> distinct ns" if "set ns \<subseteq> set slots" for ns
    using that the_handle_inj by (auto simp: distinct_map inj_on_def subset_iff)
  show ?thesis
  proof
    assume o: "ordered_handles collection = Inr names"
    then obtain vs where vs: "seq_items collection = Some vs" "list_all is_handle vs" "distinct (map str_of vs)"
      "names = map str_of (sort_key (\<lambda>name. projr (finger_number name)) vs)"
      by (auto simp: ordered_handles_def split: option.splits if_splits)
    from vs(2) obtain ns where ns: "set ns \<subseteq> set slots" "vs = map (\<lambda>n. PyStr (the_handle n)) ns" by (auto simp: handle_names)
    with vs(3) have "distinct ns" using distinct [OF ns(1)] by simp
    with vs(1,4) ns sorted [OF ns(1)] show "\<exists>ns. seq_items collection = Some (map (\<lambda>n. PyStr (the_handle n)) ns)
      \<and> set ns \<subseteq> set slots \<and> distinct ns \<and> names = map the_handle (sort ns)" by blast
  next
    assume "\<exists>ns. seq_items collection = Some (map (\<lambda>n. PyStr (the_handle n)) ns)
      \<and> set ns \<subseteq> set slots \<and> distinct ns \<and> names = map the_handle (sort ns)"
    then obtain ns where ns: "seq_items collection = Some (map (\<lambda>n. PyStr (the_handle n)) ns)" "set ns \<subseteq> set slots"
      "distinct ns" "names = map the_handle (sort ns)" by blast
    moreover have "list_all is_handle (map (\<lambda>n. PyStr (the_handle n)) ns)" using ns(2) handle_names by blast
    ultimately show "ordered_handles collection = Inr names"
      using sorted [OF ns(2)] distinct [OF ns(2)] by (simp only: ordered_handles_def option.case) simp
  qed
qed

lemma finger_handle_slot: "n \<in> set slots \<Longrightarrow> finger_handle (PyInt n) = Inr (the_handle n)"
  by (simp add: finger_handle_def slot_iff the_handle_def py_simps)

lemma int_ranges: "{1..<1} = ({} :: int set)" "{1..<2} = {1 :: int}" "{1..<3} = {1, 2 :: int}" "{1..<4} = {1, 2, 3 :: int}"
  "{1..<5} = {1, 2, 3, 4 :: int}"
  by auto

lemma first_free_iff:
  assumes "set ns \<subseteq> set slots"
  shows "first_free (map the_handle (sort ns)) slots = Inr h \<longleftrightarrow>
    (\<exists>n. h = the_handle n \<and> n \<in> set slots - set ns \<and> {1..<n} \<subseteq> set ns)" (is "_ \<longleftrightarrow> ?R")
proof -
  have member: "the_handle n \<in> the_handle ` set ns \<longleftrightarrow> n \<in> set ns" if "n \<in> set slots" for n
    using that assms the_handle_inj by (auto simp: subset_iff image_iff)
  have step: "first_free (map the_handle (sort ns)) (n # us) =
      (if n \<in> set ns then first_free (map the_handle (sort ns)) us else Inr (the_handle n))" if "n \<in> set slots" for n us
    using that member [OF that] by (simp add: finger_handle_slot)
  have "first_free (map the_handle (sort ns)) slots = Inr h \<longleftrightarrow>
      (if 1 \<notin> set ns then h = the_handle 1 else if 2 \<notin> set ns then h = the_handle 2 else if 3 \<notin> set ns then h = the_handle 3
       else if 4 \<notin> set ns then h = the_handle 4 else 5 \<notin> set ns \<and> h = the_handle 5)"
    unfolding slots_def by (subst step, simp add: slots_def)+ auto
  also have "\<dots> \<longleftrightarrow> (\<exists>n \<in> set slots. h = the_handle n \<and> n \<notin> set ns \<and> {1..<n} \<subseteq> set ns)"
    unfolding slots_def by (simp add: int_ranges) blast
  finally show ?thesis by blast
qed

lemma next_handle_iff:
  "next_handle collection = Inr h \<longleftrightarrow>
     (\<exists>ns n. seq_items collection = Some (map (\<lambda>n. PyStr (the_handle n)) ns) \<and> set ns \<subseteq> set slots \<and> distinct ns
       \<and> h = the_handle n \<and> n \<in> set slots - set ns \<and> {1..<n} \<subseteq> set ns)"
  using first_free_iff by (auto simp: next_handle_def res_simps ordered_handles_iff upto_slots)

text \<open>
  C40: A new enrollment gets the lowest free slot and no other: for any collection of distinct handles that
  leaves a slot free, whatever the order and the recorded high-water mark, the next handle is the
  one with the least number that is not used, so that no retained handle moves or is given twice; for every other
  input no handle is returned.
\<close>

theorem next_handle_is_lowest_free:
  "next_reserved_handle high_water current_handles = Inr h \<longleftrightarrow>
     (\<exists>w ns n. high_water = PyInt w \<and> 0 \<le> w \<and> w \<le> LEGACY_MAX_FINGER_NUMBER
       \<and> seq_items current_handles = Some (map (\<lambda>n. PyStr (the_handle n)) ns) \<and> set ns \<subseteq> {1..5} \<and> distinct ns
       \<and> h = the_handle n \<and> n \<in> {1..5} - set ns \<and> {1..<n} \<subseteq> set ns)"
proof -
  have slots: "set slots = {1..5}" by (auto simp: slots_def)
  have sorted: "seq_items (PyTuple (map PyStr (map the_handle (sort ns)))) = Some (map (\<lambda>n. PyStr (the_handle n)) (sort ns))"
    for ns by (simp add: seq_items_def)
  have again: "next_handle (PyTuple (map PyStr (map the_handle (sort ns)))) = Inr h \<longleftrightarrow>
      (\<exists>n. h = the_handle n \<and> n \<in> set slots - set ns \<and> {1..<n} \<subseteq> set ns)"
    if ns: "set ns \<subseteq> set slots" "distinct ns" for ns
  proof -
    have "ordered_handles (PyTuple (map PyStr (map the_handle (sort ns)))) = Inr (map the_handle (sort ns))"
      unfolding ordered_handles_iff sorted using ns by (intro exI [of _ "sort ns"]) (simp add: sorted_sort_id)
    then show ?thesis using first_free_iff [OF ns(1)] by (simp add: next_handle_def upto_slots)
  qed
  have "(\<exists>names. ordered_handles current_handles = Inr names \<and> next_handle (PyTuple (map PyStr names)) = Inr h) \<longleftrightarrow>
      (\<exists>ns. (seq_items current_handles = Some (map (\<lambda>n. PyStr (the_handle n)) ns) \<and> set ns \<subseteq> set slots \<and> distinct ns)
        \<and> next_handle (PyTuple (map PyStr (map the_handle (sort ns)))) = Inr h)"
    unfolding ordered_handles_iff by blast
  also have "\<dots> \<longleftrightarrow>
      (\<exists>ns n. seq_items current_handles = Some (map (\<lambda>n. PyStr (the_handle n)) ns) \<and> set ns \<subseteq> set slots \<and> distinct ns
        \<and> h = the_handle n \<and> n \<in> set slots - set ns \<and> {1..<n} \<subseteq> set ns)"
    using again by blast
  finally have handles: "(\<exists>names. ordered_handles current_handles = Inr names
      \<and> next_handle (PyTuple (map PyStr names)) = Inr h) \<longleftrightarrow> \<dots>" .
  have "next_reserved_handle high_water current_handles = Inr h \<longleftrightarrow>
      (\<exists>w. high_water = PyInt w \<and> 0 \<le> w \<and> w \<le> LEGACY_MAX_FINGER_NUMBER)
      \<and> (\<exists>names. ordered_handles current_handles = Inr names \<and> next_handle (PyTuple (map PyStr names)) = Inr h)"
    by (auto simp: next_reserved_handle_def res_simps py_simps)
  then show ?thesis unfolding handles slots by blast
qed

end
