(* ===== verification/Delete_Plan.thy ===== *)
theory Delete_Plan
  imports Delete_Operation Fprint_Identity
begin

text \<open>
  The plan of one deletion, \<^verbatim>\<open>src/src/t2_identity_delete.py\<close>: the target of a slot or a finger name, the rewritten
  archive without it, the request of the delete command and the digest of the survivors. The codec of Catacomb archives is
  an argument; an opened Catacomb is the archive it was decoded from with what the module reads of it.
\<close>

section \<open>The codec\<close>

text \<open>\<^verbatim>\<open>decode_user_catacomb(archive, user)\<close>, and on its result \<^verbatim>\<open>plan_delete\<close>, \<^verbatim>\<open>replace_secure_data\<close> and \<^verbatim>\<open>secure_data\<close>.\<close>

record catacomb_codec =
  cc_decode :: "bytes \<Rightarrow> int \<Rightarrow> user_catacomb res"
  cc_plan_delete :: "bytes \<Rightarrow> int \<Rightarrow> string \<Rightarrow> bytes res"
  cc_replace_secure_data :: "bytes \<Rightarrow> int \<Rightarrow> bytes \<Rightarrow> bytes res"
  cc_secure_data :: "bytes \<Rightarrow> int \<Rightarrow> bytes"

record opened_catacomb =
  oc_archive :: bytes
  oc_view :: user_catacomb

type_synonym opened_arg = "pyval + opened_catacomb"

text \<open>What the inventory module sees of the argument.\<close>

definition view_of :: "opened_arg \<Rightarrow> catacomb_arg" where
  "view_of arg = map_sum id oc_view arg"

abbreviation delete_plan_error :: "string \<Rightarrow> exc" where
  "delete_plan_error \<equiv> Exc IdentityDeleteError"

section \<open>Survivors\<close>

abbreviation identity_uuid_of :: "local_identity \<Rightarrow> string" where
  "identity_uuid_of i \<equiv> uuid_str (li_uuid i)"

text \<open>The digest is the hexadecimal SHA-256 of the UTF-8 form of a text.\<close>

definition survivor_entry :: "(string \<Rightarrow> string) \<Rightarrow> local_identity \<Rightarrow> pyval" where
  "survivor_entry D i = PyDict [(KStr ''user_id'', PyInt (li_user_id i)), (KStr ''identity_uuid'', PyStr (identity_uuid_of i)),
     (KStr ''entity'', PyInt (li_entity i)), (KStr ''name_sha256'', PyStr (D (li_name i)))]"

definition survivor_snapshot_sha256 :: "(string \<Rightarrow> string) \<Rightarrow> local_identity list \<Rightarrow> string res" where
  "survivor_snapshot_sha256 D identities =
     and_then (canonical (PyList (map (survivor_entry D) (sort_key li_entity identities)))) (\<lambda>t. Inr (D t))"

text \<open>\<^verbatim>\<open>==\<close> of two identities, and the dictionary of identities by UUID, in which the last entry of a UUID stays.\<close>

definition same_identity_record :: "local_identity \<Rightarrow> local_identity \<Rightarrow> bool" where
  "same_identity_record i j = (identity_uuid_of i = identity_uuid_of j \<and> li_user_id i = li_user_id j
     \<and> li_entity i = li_entity j \<and> li_name i = li_name j \<and> py_eq (li_metadata i) (li_metadata j))"

definition by_uuid :: "local_identity list \<Rightarrow> string \<Rightarrow> local_identity option" where
  "by_uuid identities = map_of (rev (map (\<lambda>i. (identity_uuid_of i, i)) identities))"

definition changed :: "local_identity option \<Rightarrow> local_identity option \<Rightarrow> bool" where
  "changed x y = (case (x, y) of (Some i, Some j) \<Rightarrow> \<not> same_identity_record i j | (None, None) \<Rightarrow> False | _ \<Rightarrow> True)"

section \<open>Plans\<close>

text \<open>\<^verbatim>\<open>struct.pack("<I", user_id) + uuid.UUID(...).bytes\<close>\<close>

definition delete_request :: "int \<Rightarrow> bytes \<Rightarrow> bytes res" where
  "delete_request user_id raw = and_then (struct_pack [FUInt 4] [PyInt user_id]) (\<lambda>bs. Inr (bs @ raw))"

definition plan_target :: "(string \<Rightarrow> string) \<Rightarrow> catacomb_codec \<Rightarrow> opened_arg \<Rightarrow> string \<Rightarrow> identity_delete_plan res" where
  "plan_target D cc arg identity_uuid =
     (case arg of
        Inl _ \<Rightarrow> Inl (delete_plan_error ''local identity archive is not validated'')
      | Inr opened \<Rightarrow>
     (let c = oc_view opened; candidates = filter (\<lambda>i. identity_uuid_of i = identity_uuid) (uc_identities c) in
      if length candidates \<noteq> 1 then Inl (delete_plan_error ''delete target is not unique in the local archive'')
      else let selected = hd candidates; u = identity_uuid_of selected in
      and_then (rewrap CatacombCodecError IdentityDeleteError
        (and_then (cc_plan_delete cc (oc_archive opened) (uc_expected_user_id c) u) (\<lambda>archive.
         and_then (cc_decode cc archive (li_user_id selected)) (\<lambda>decoded. Inr (archive, decoded))))) (\<lambda>(archive, decoded).
      let before = map identity_uuid_of (uc_identities c); after = map identity_uuid_of (uc_identities decoded) in
      if u \<notin> set before \<or> u \<in> set after \<or> set after \<noteq> set before - {u}
      then Inl (delete_plan_error ''delete plan did not remove exactly its target'')
      else if list_ex (\<lambda>k. changed (by_uuid (uc_identities decoded) k) (by_uuid (uc_identities c) k)) after
      then Inl (delete_plan_error ''delete plan changed surviving identity metadata'')
      else and_then (delete_request (li_user_id selected) (li_uuid selected)) (\<lambda>request.
      if length request \<noteq> 20 then Inl (delete_plan_error ''delete request is not the recovered 20-byte form'')
      else and_then (survivor_snapshot_sha256 D (uc_identities decoded)) (\<lambda>digest.
      Inr \<lparr>dp_apple_user_id = li_user_id selected, dp_identity_uuid = u, dp_entity = li_entity selected,
           dp_name = li_name selected, dp_request = request, dp_survivor_snapshot_sha256 = digest, dp_archive = archive\<rparr>)))))"

definition plan_slot :: "(string \<Rightarrow> string) \<Rightarrow> catacomb_codec \<Rightarrow> opened_arg \<Rightarrow> pyval \<Rightarrow> pyval \<Rightarrow> identity_delete_plan res" where
  "plan_slot D cc arg live slot =
     and_then (rewrap IdentityInventoryError IdentityDeleteError (resolve_slot (view_of arg) live slot)) (\<lambda>selected.
     plan_target D cc arg (ri_identity_uuid selected))"

definition plan_named :: "(string \<Rightarrow> string) \<Rightarrow> catacomb_codec \<Rightarrow> opened_arg \<Rightarrow> pyval \<Rightarrow> pyval \<Rightarrow> identity_delete_plan res" where
  "plan_named D cc arg live finger_name =
     (if \<not> is_handle finger_name then Inl (delete_plan_error ''delete finger handle is not canonical'')
      else and_then (rewrap IdentityInventoryError IdentityDeleteError (summarize (view_of arg) live)) (\<lambda>_.
      let candidates = filter (\<lambda>i. li_name i = str_of finger_name) (uc_identities (oc_view (projr arg))) in
      if length candidates \<noteq> 1
      then Inl (delete_plan_error ''delete finger name is not unique in the reconciled inventory'')
      else plan_target D cc arg (identity_uuid_of (hd candidates))))"

section \<open>Recovery\<close>

text \<open>\<^verbatim>\<open>uuid.UUID(text).bytes\<close>, for a text in canonical form.\<close>

definition hex_value :: "char \<Rightarrow> nat" where
  "hex_value c = (let n = of_char c in if n < 58 then n - 48 else n - 87)"

fun hex_pairs :: "string \<Rightarrow> bytes" where
  "hex_pairs (a # b # rest) = of_nat (16 * hex_value a + hex_value b) # hex_pairs rest"
| "hex_pairs _ = []"

definition uuid_bytes :: "string \<Rightarrow> bytes" where
  "uuid_bytes u = hex_pairs (filter (\<lambda>c. c \<noteq> CHR ''-'') u)"

definition recovery_plan ::
    "(string \<Rightarrow> string) \<Rightarrow> catacomb_codec \<Rightarrow> opened_arg \<Rightarrow> pyval \<Rightarrow> pyval \<Rightarrow> pyval \<Rightarrow> identity_delete_plan res" where
  "recovery_plan D cc arg identity_uuid entity expected_survivor_sha256 =
     (case arg of
        Inl _ \<Rightarrow> Inl (delete_plan_error ''local survivor archive is not validated'')
      | Inr opened \<Rightarrow>
     (let c = oc_view opened; u = str_of identity_uuid in
      if \<not> isinstance_str identity_uuid \<or> \<not> uuid_accepts u
      then Inl (delete_plan_error ''recovery delete binding is invalid'')
      else and_then (replace_exc JournalError (delete_plan_error ''recovery delete binding is invalid'')
             (require_sha256 expected_survivor_sha256 ''survivor snapshot'')) (\<lambda>_.
      if \<not> inventory_name u \<or> \<not> type_is_int entity \<or> \<not> (0 \<le> int_of entity \<and> int_of entity \<le> 0xFFFFFFFF)
         \<or> u \<in> set (map identity_uuid_of (uc_identities c))
      then Inl (delete_plan_error ''recovery survivor set differs from the journal'')
      else and_then (survivor_snapshot_sha256 D (uc_identities c)) (\<lambda>digest.
      if digest \<noteq> str_of expected_survivor_sha256
      then Inl (delete_plan_error ''recovery survivor set differs from the journal'')
      else and_then (delete_request (uc_expected_user_id c) (uuid_bytes u)) (\<lambda>request.
      and_then (cc_replace_secure_data cc (oc_archive opened) (uc_expected_user_id c)
                  (cc_secure_data cc (oc_archive opened) (uc_expected_user_id c))) (\<lambda>archive.
      and_then (cc_decode cc archive (uc_expected_user_id c)) (\<lambda>verified.
      if \<not> list_all2 same_identity_record (uc_identities verified) (uc_identities c)
      then Inl (delete_plan_error ''recovery archive changed surviving identities'')
      else Inr \<lparr>dp_apple_user_id = uc_expected_user_id c, dp_identity_uuid = u, dp_entity = int_of entity, dp_name = [],
                dp_request = request, dp_survivor_snapshot_sha256 = str_of expected_survivor_sha256, dp_archive = archive\<rparr>)))))))"

definition bind_secure_blob :: "(string \<Rightarrow> string) \<Rightarrow> catacomb_codec \<Rightarrow> identity_delete_plan \<Rightarrow> bytes \<Rightarrow> bytes res" where
  "bind_secure_blob D cc plan secure_blob =
     and_then (replace_exc TypeError (delete_plan_error ''fresh secure envelope is invalid'')
       (replace_exc CatacombCodecError (delete_plan_error ''fresh secure envelope is invalid'')
       (and_then (cc_decode cc (dp_archive plan) (dp_apple_user_id plan)) (\<lambda>_.
        and_then (cc_replace_secure_data cc (dp_archive plan) (dp_apple_user_id plan) secure_blob) (\<lambda>output.
        and_then (cc_decode cc output (dp_apple_user_id plan)) (\<lambda>verified. Inr (output, verified))))))) (\<lambda>(output, verified).
     if dp_identity_uuid plan \<in> set (map identity_uuid_of (uc_identities verified))
     then Inl (delete_plan_error ''secure-envelope binding changed the deletion survivor set'')
     else and_then (survivor_snapshot_sha256 D (uc_identities verified)) (\<lambda>digest.
     if digest \<noteq> dp_survivor_snapshot_sha256 plan
     then Inl (delete_plan_error ''secure-envelope binding changed the deletion survivor set'')
     else Inr output))"

end
