(* ===== verification/Delete_Operation_Facts.thy ===== *)
theory Delete_Operation_Facts
  imports Delete_Operation Delete_Facts Journal_Recovery
begin

text \<open>
  Correctness of the deletion operation: rules for its methods in the style of weakest preconditions, each on a journal
  file that holds complete records, and what every run leaves behind: the announced command, the recorded
  result, and a journal that never loses a dispatched deletion.
\<close>

section \<open>Histories of a dispatched deletion\<close>

definition not_dispatched :: "delete_phase set" where
  "not_dispatched = {D_BASELINE, D_INTENT}"

text \<open>No milestone leads back before the dispatch, and none changes the target after it.\<close>

lemma delete_milestone_progress:
  assumes "delete_milestone H m v s = Inr s'" and "ds_phase s \<notin> not_dispatched"
  shows "ds_phase s' \<notin> not_dispatched \<and> ds_target_uuid s' = ds_target_uuid s"
  using assms(1)
proof (cases rule: delete_milestone_cases)
  case intent
  with d_intent_ok [OF this(2)] assms(2) show ?thesis by (auto simp: not_dispatched_def)
next
  case dispatch_intent
  with d_dispatch_intent_ok [OF this(2)] show ?thesis by (simp add: not_dispatched_def)
next
  case command_observed
  from d_command_observed_ok [OF this(2)] show ?thesis by (elim exE conjE) (simp add: not_dispatched_def)
next
  case catacomb
  from d_catacomb_ok [OF this(2)] assms(2) show ?thesis by (elim exE conjE) (simp add: not_dispatched_def split: if_splits)
next
  case recovery_sep_absence
  from d_recovery_sep_absence_ok [OF this(2)] assms(2) show ?thesis
    by (auto dest!: restart_persistence_ok simp: not_dispatched_def)
next
  case recovery_master_save
  from d_recovery_master_save_ok [OF this(2)] assms(2) show ?thesis
    by (auto dest!: restart_persistence_ok simp: not_dispatched_def)
next
  case recovery_unchanged
  from d_recovery_reconciled_ok [OF this(2)] assms(2) show ?thesis by (auto simp: not_dispatched_def)
next
  case recovery_committed
  from d_recovery_reconciled_ok [OF this(2)] assms(2) show ?thesis by (auto simp: not_dispatched_def)
next
  case outcome_unknown
  from d_outcome_unknown_ok [OF this(2)] show ?thesis by (elim exE conjE) (simp add: not_dispatched_def)
next
  case recovery_intent
  from d_recovery_intent_ok [OF this(2)] show ?thesis by (elim exE conjE) (simp add: not_dispatched_def)
next
  case reconciled
  from d_reconciled_ok [OF this(2)] assms(2) show ?thesis by (auto simp: not_dispatched_def)
next
  case post_reboot
  from d_post_reboot_ok [OF this(2)] assms(2) show ?thesis by (auto simp: not_dispatched_def)
next
  case sep_absence
  from d_sep_absence_ok [OF this(2)] show ?thesis by (simp add: not_dispatched_def)
next
  case not_performed
  from d_not_performed_ok [OF this(2)] show ?thesis by (simp add: not_dispatched_def)
qed

lemma delete_step_progress:
  assumes "delete_step H r s = Inr s'" and "ds_phase s \<notin> not_dispatched"
  shows "ds_phase s' \<notin> not_dispatched \<and> ds_target_uuid s' = ds_target_uuid s"
  using assms(1) by (cases rule: delete_step_cases) (use assms(2) delete_milestone_progress in blast)+

lemma dispatched_prefix:
  assumes "delete_validate_history H base = Inr h0" and "dh_phase h0 \<notin> not_dispatched"
    and "delete_validate_history H (base @ qs) = Inr h"
  shows "dh_phase h \<notin> not_dispatched \<and> dh_target_identity_uuid h = dh_target_identity_uuid h0"
proof -
  obtain s0 where s0: "deletion.run H base = Inr s0" "dh_phase h0 = ds_phase s0"
    "dh_target_identity_uuid h0 = ds_target_uuid s0" "base \<noteq> []" using assms(1) by (rule delete_history_run)
  obtain s where s: "deletion.run H (base @ qs) = Inr s" "dh_phase h = ds_phase s"
    "dh_target_identity_uuid h = ds_target_uuid s" using assms(3) by (rule delete_history_run)
  from deletion.run_prefix [OF s(1) s0(4)] s0(1) have "fold_res (delete_step H) qs s0 = Inr s" by auto
  then have "ds_phase s \<notin> not_dispatched \<and> ds_target_uuid s = ds_target_uuid s0"
    by (rule fold_res_invariant) (use s0(2) assms(2) delete_step_progress in auto)
  with s s0 show ?thesis by simp
qed

text \<open>A stored milestone and the states around it.\<close>

definition mirrors :: "delete_history \<Rightarrow> delete_state \<Rightarrow> bool" where
  "mirrors h t = (dh_phase h = ds_phase t \<and> dh_command_status h = ds_command_status t
     \<and> dh_target_identity_uuid h = ds_target_uuid t)"

lemma stored_delete:
  assumes "delete_validate_history H (rs @ [r]) = Inr h" and "delete_validate_history H rs = Inr h0"
    and "dict_get r ''milestone'' = PyStr m" and "\<not> is_repair_milestone (PyStr m)"
  shows "\<exists>t t'. delete_milestone H (PyStr m) (dict_get r ''evidence'') t = Inr t' \<and> mirrors h0 t \<and> mirrors h t'"
proof -
  obtain s where s: "deletion.run H rs = Inr s" "mirrors h0 s" "rs \<noteq> []"
    using assms(2) by (rule delete_history_run) (auto simp: mirrors_def)
  obtain s' where s': "deletion.run H (rs @ [r]) = Inr s'" "mirrors h s'"
    using assms(1) by (rule delete_history_run) (auto simp: mirrors_def)
  from s'(1) s(1,3) have "delete_step H r s = Inr s'" by (simp add: deletion.run_snoc)
  then have "delete_milestone H (PyStr m) (dict_get r ''evidence'') s = Inr s'"
    by (cases rule: delete_step_cases) (use assms(3,4) in \<open>auto simp: is_repair_record_def\<close>)
  with s s' show ?thesis by blast
qed

lemma delete_start_operation_id: "delete_start r = Inr b \<Longrightarrow> \<exists>j. dict_get r ''operation_id'' = PyStr j"
  by (auto simp: delete_start_def res_simps Let_def)

lemma history_operation_id:
  assumes "delete_validate_history H rs = Inr h"
  shows "rs \<noteq> []" and "\<exists>j. dict_get (hd rs) ''operation_id'' = PyStr j"
  using assms delete_start_operation_id by (cases rs; auto simp: delete_validate_history_def res_simps Let_def)+

section \<open>Appends and freezes\<close>

text \<open>The journal file holds exactly these records, and they replay to the history.\<close>

definition journal_shows :: "'w delete_env \<Rightarrow> pydict list \<Rightarrow> delete_history \<Rightarrow> journal_fs \<Rightarrow> bool" where
  "journal_shows env rs h fs = (clean (de_record_hash env) rs fs \<and> delete_validate_history (de_record_hash env) rs = Inr h)"

lemma wp_sys_call:
  assumes "\<And>x w. f (sys_world s) = (Inr x, w) \<Longrightarrow> Q x (s\<lparr>sys_world := w, sys_trace := sys_trace s @ [c (Inr x)]\<rparr>)"
    and "\<And>e w. f (sys_world s) = (Inl e, w) \<Longrightarrow> E e (s\<lparr>sys_world := w, sys_trace := sys_trace s @ [c (Inl e)]\<rparr>)"
  shows "wp (sys_call c f) Q E s"
  using assms by (auto simp: wp_def sys_call_def split: sum.splits prod.splits)

lemma wp_delete_append:
  assumes j: "journal_shows env rs h0 (sys_fs s)" and ev: "plain (PyDict ev)"
    and ok: "\<And>h r s'. journal_shows env (rs @ [r]) h (sys_fs s') \<Longrightarrow> dict_get r ''milestone'' = PyStr m \<Longrightarrow>
      dict_get r ''evidence'' = sort_dicts (PyDict ev) \<Longrightarrow> sys_bridge s' = sys_bridge s \<Longrightarrow>
      sys_trace s' = sys_trace s @ [Appended (sys_fs s) m ev (Inr h)] \<Longrightarrow> Q h s'"
    and fail: "\<And>e s'. kept (de_record_hash env) rs (sys_fs s') \<Longrightarrow> sys_bridge s' = sys_bridge s \<Longrightarrow>
      sys_trace s' = sys_trace s @ [Appended (sys_fs s) m ev (Inl e)] \<Longrightarrow> E e s'"
  shows "wp (delete_append env i m ev) Q E s"
proof -
  let ?H = "de_record_hash env"
  obtain ws ws1 ws2 ws3 w where w: "de_writes env (sys_world s) = ((ws, ws1, ws2, ws3), w)"
    by (cases "de_writes env (sys_world s)") (auto elim: prod_cases4)
  obtain r fs where r: "delete_append_checked ?H ws ws1 ws2 ws3 i m ev (sys_fs s) = (r, fs)" by fastforce
  from j have c: "clean ?H rs (sys_fs s)" "delete_validate_history ?H rs = Inr h0" by (simp_all add: journal_shows_def)
  from history_operation_id(2) [OF c(2)] obtain id where id: "dict_get (hd rs) ''operation_id'' = PyStr id" ..
  show ?thesis
  proof (cases r)
    case (Inl e)
    have "kept ?H rs fs"
      by (rule deletion_append.append_kept(1) [OF clean_kept_all [OF c(1)] history_operation_id(1) [OF c(2)] id ev r])
    then show ?thesis using fail by (simp add: wp_def delete_append_def w r Inl)
  next
    case (Inr h)
    from deletion_append.append_to_clean [OF c(1) ev r [unfolded Inr]] obtain r' where
      "clean ?H (rs @ [r']) fs" "delete_validate_history ?H (rs @ [r']) = Inr h"
      "dict_get r' ''milestone'' = PyStr m" "dict_get r' ''evidence'' = sort_dicts (PyDict ev)" by blast
    then show ?thesis using ok by (simp add: wp_def delete_append_def w r Inr journal_shows_def)
  qed
qed

text \<open>The same with the transition that the milestone made.\<close>

lemma wp_delete_milestone:
  fixes s :: "'w delete_system"
  assumes j: "journal_shows env rs h (sys_fs s)" and ev: "plain (PyDict ev)" and m: "\<not> is_repair_milestone (PyStr m)"
    and ok: "\<And>h' q s' t t'. journal_shows env (rs @ [q]) h' (sys_fs s') \<Longrightarrow>
      delete_milestone (de_record_hash env) (PyStr m) (sort_dicts (PyDict ev)) t = Inr t' \<Longrightarrow>
      mirrors h t \<Longrightarrow> mirrors h' t' \<Longrightarrow> sys_bridge s' = sys_bridge s \<Longrightarrow>
      sys_trace s' = sys_trace s @ [Appended (sys_fs s) m ev (Inr h')] \<Longrightarrow> Q h' s'"
    and fail: "\<And>e s'. kept (de_record_hash env) rs (sys_fs s') \<Longrightarrow> sys_bridge s' = sys_bridge s \<Longrightarrow>
      sys_trace s' = sys_trace s @ [Appended (sys_fs s) m ev (Inl e)] \<Longrightarrow> E e s'"
  shows "wp (delete_append env i m ev) Q E s"
proof (rule wp_delete_append [OF j ev _ fail])
  fix h' r and s' :: "'w delete_system"
  assume a: "journal_shows env (rs @ [r]) h' (sys_fs s')" "dict_get r ''milestone'' = PyStr m"
    "dict_get r ''evidence'' = sort_dicts (PyDict ev)" "sys_bridge s' = sys_bridge s"
    "sys_trace s' = sys_trace s @ [Appended (sys_fs s) m ev (Inr h')]"
  then have "delete_validate_history (de_record_hash env) (rs @ [r]) = Inr h'"
    "delete_validate_history (de_record_hash env) rs = Inr h" using j by (simp_all add: journal_shows_def)
  from stored_delete [OF this a(2) m] a show "Q h' s'" by (auto intro: ok)
qed

text \<open>A frozen operation has raised, and whatever its last append did, no record is lost.\<close>

lemma wp_delete_freeze:
  assumes j: "journal_shows env rs h0 (sys_fs s)"
    and E: "\<And>e s' ev r. kept (de_record_hash env) rs (sys_fs s') \<Longrightarrow> sys_bridge s' = sys_bridge s \<Longrightarrow>
      sys_trace s' = sys_trace s @ [Appended (sys_fs s) ''DELETE_OUTCOME_UNKNOWN'' ev r] \<Longrightarrow> E e s'"
  shows "wp (delete_freeze env i (PyStr g) stage reason) Q E s"
proof -
  have "plain (PyDict (unknown_evidence (PyStr g) stage reason))" by (simp add: unknown_evidence_def)
  then show ?thesis
    unfolding delete_freeze_def wp_simps
    by (rule wp_delete_append [OF j]) (use E clean_kept [of _ rs] in \<open>auto simp: journal_shows_def wp_simps\<close>)
qed

section \<open>The adapter\<close>

text \<open>The reply that the adapter accepts, if it gets one.\<close>

definition accepted_reply :: "'w delete_env \<Rightarrow> bytes \<Rightarrow> 'w \<Rightarrow> delete_command_result option" where
  "accepted_reply env request w =
     (case de_command env request w of
        (Inl _, _) \<Rightarrow> None
      | (Inr (reply, events), w') \<Rightarrow>
          (case check_delete_reply (de_lease_generation env w' = de_generation env) reply events of
             Inl _ \<Rightarrow> None | Inr command \<Rightarrow> Some command))"

text \<open>
  The adapter sends at most one command: none if it was used before, and after a command was sent it is used up. It
  never touches the journal.
\<close>

lemma bridge_poison_runs:
  "\<exists>s'. bridge_poison env s = (Inr (), s') \<and> sys_fs s' = sys_fs s \<and> sys_bridge s' = BRIDGE_POISONED
     \<and> sys_trace s' = sys_trace s @ [Invalidated]"
  by (auto simp: bridge_poison_def op_bind_def bridge_become_def op_catch_def sys_call_def op_return_def
      split: prod.splits sum.splits)

lemma wp_bridge_delete:
  fixes s :: "'w delete_system"
  assumes ok: "\<And>command s'. accepted_reply env request (sys_world s) = Some command \<Longrightarrow> sys_fs s' = sys_fs s \<Longrightarrow>
      length request = 20 \<Longrightarrow> sys_trace s' = sys_trace s @ [Dispatched request] \<Longrightarrow> Q command s'"
    and unsent: "\<And>e s'. sys_fs s' = sys_fs s \<Longrightarrow> sys_trace s' = sys_trace s \<Longrightarrow> E e s'"
    and lost: "\<And>e s'. accepted_reply env request (sys_world s) = None \<Longrightarrow> sys_fs s' = sys_fs s \<Longrightarrow> length request = 20 \<Longrightarrow>
      sys_trace s' = sys_trace s @ [Dispatched request, Invalidated] \<Longrightarrow> E e s'"
  shows "wp (bridge_delete env request) Q E s"
proof (cases "sys_bridge s = BRIDGE_READY \<and> length request = 20")
  case False
  then show ?thesis using unsent by (auto simp: wp_def bridge_delete_def op_raise_def)
next
  case True
  let ?call = "op_bind (sys_call (\<lambda>_. Dispatched request) (de_command env request)) (\<lambda>(reply, events).
         op_bind (bridge_become BRIDGE_DISPATCHED) (\<lambda>_ s1.
         op_lift (check_delete_reply (de_lease_generation env (sys_world s1) = de_generation env) reply events) s1))"
  have call: "sys_fs s1 = sys_fs s \<and> sys_trace s1 = sys_trace s @ [Dispatched request]
      \<and> accepted_reply env request (sys_world s) = (case r of Inl _ \<Rightarrow> None | Inr command \<Rightarrow> Some command)"
    if "?call s = (r, s1)" for r s1
    using that
    by (auto simp: accepted_reply_def op_bind_def sys_call_def bridge_become_def op_lift_def split: prod.splits sum.splits)
  obtain r s1 where r: "?call s = (r, s1)" by fastforce
  note c = call [OF r]
  show ?thesis
  proof (cases r)
    case (Inr command)
    with c ok True have "Q command s1" by simp
    then show ?thesis using True r Inr unfolding bridge_delete_def by (simp add: wp_def op_catch_def)
  next
    case (Inl e)
    obtain s2 where s2: "bridge_poison env s1 = (Inr (), s2)" "sys_fs s2 = sys_fs s1"
      "sys_trace s2 = sys_trace s1 @ [Invalidated]" using bridge_poison_runs [of env s1] by blast
    have "E e' s2" for e' using lost s2 c True Inl by simp
    then show ?thesis using True r Inl s2(1) unfolding bridge_delete_def
      by (simp add: wp_def op_catch_def op_bind_def [of "bridge_poison env"] op_raise_def)
  qed
qed

section \<open>After the command\<close>

definition sends :: "delete_effect list \<Rightarrow> bool" where
  "sends tr = (\<exists>bs. Dispatched bs \<in> set tr)"

lemma sends_simps [simp]:
  "\<not> sends []" "sends (as @ bs) \<longleftrightarrow> sends as \<or> sends bs" "sends (Appended fs m ev r # tr) = sends tr"
  "sends (Dispatched request # tr)" "sends (Invalidated # tr) = sends tr" "sends (Collected inventory # tr) = sends tr"
  by (auto simp: sends_def)

text \<open>Effects were added, none of them a command.\<close>

definition quietly :: "'w delete_system \<Rightarrow> 'w delete_system \<Rightarrow> bool" where
  "quietly s s' = (\<exists>tr. sys_trace s' = sys_trace s @ tr \<and> \<not> sends tr)"

lemma quietly_refl [simp]: "quietly s s"
  by (simp add: quietly_def)

lemma quietly_trans [trans]: "quietly s s' \<Longrightarrow> quietly s' s'' \<Longrightarrow> quietly s s''"
  by (auto simp: quietly_def)

lemma quietly_append: "sys_trace s' = sys_trace s @ tr \<Longrightarrow> \<not> sends tr \<Longrightarrow> quietly s s'"
  by (auto simp: quietly_def)

text \<open>What a result says about the inventory that was read after the command.\<close>

definition result_true ::
    "'w delete_env \<Rightarrow> identity_delete_plan \<Rightarrow> user_catacomb \<Rightarrow> delete_history \<Rightarrow> pyval \<Rightarrow> delete_operation_result \<Rightarrow> delete_phase \<Rightarrow> bool"
  where
  "result_true env plan c h0 live result phase =
     (\<exists>d. live = PyDict d \<and>
       (let sep = dict_of (dict_get (dh_baseline h0) ''sep_catacomb'') in
        dr_outcome result = ''sep-deleted'' \<and> phase = D_SEP_DELETED
          \<and> (\<exists>planned. de_decode env (dp_archive plan) (dp_apple_user_id plan) = Inr planned
               \<and> (reconciled planned d \<or> finally_deleted planned d (dict_get sep ''uuid'')))
        \<or> dr_outcome result = ''not-deleted'' \<and> phase = D_ABORTED \<and> dr_command_status result \<noteq> 0 \<and> reconciled c d
          \<and> py_eq (dict_get (dict_of (dict_get d ''catacomb'')) ''uuid'') (dict_get sep ''uuid'')
          \<and> py_eq (dict_get (dict_of (dict_get d ''catacomb'')) ''hash'') (dict_get sep ''hash'')))"

text \<open>After the effects \<open>tr\<close>, the result was appended, and nothing else was done.\<close>

definition concluded ::
    "'w delete_env \<Rightarrow> pydict list \<Rightarrow> identity_delete_plan \<Rightarrow> user_catacomb \<Rightarrow> delete_history \<Rightarrow> pyval \<Rightarrow> delete_effect list
      \<Rightarrow> delete_operation_result \<Rightarrow> 'w delete_system \<Rightarrow> bool" where
  "concluded env rs plan c h0 live tr result s' =
     (\<exists>q h fs m ev. journal_shows env (rs @ [q]) h (sys_fs s') \<and> dh_command_status h = Some (dr_command_status result)
        \<and> result_true env plan c h0 live result (dh_phase h) \<and> sys_trace s' = tr @ [Appended fs m ev (Inr h)])"

definition stopped :: "'w delete_env \<Rightarrow> pydict list \<Rightarrow> 'w delete_system \<Rightarrow> 'w delete_system \<Rightarrow> bool" where
  "stopped env rs s s' = (kept (de_record_hash env) rs (sys_fs s') \<and> quietly s s')"

lemma freeze_stops:
  "journal_shows env rs h (sys_fs s) \<Longrightarrow> (\<And>e s'. stopped env rs s s' \<Longrightarrow> E e s') \<Longrightarrow>
   wp (delete_freeze env i (PyStr g) stage reason) Q E s"
  by (erule wp_delete_freeze) (auto simp: stopped_def quietly_def)

lemma shows_stopped: "journal_shows env rs h (sys_fs s) \<Longrightarrow> stopped env rs s s"
  by (simp add: stopped_def journal_shows_def clean_kept_all)

lemma survivor_summary_true:
  assumes "catacomb_ok planned" and "survivor_summary planned live u = Inr (Some x)"
  shows "\<exists>d xs. live = PyDict d \<and> (reconciled planned d \<or> finally_deleted planned d u) \<and> x = inventory_summary xs"
proof (cases "summarize (Inr planned) live")
  case (Inr y)
  with assms show ?thesis by (auto simp: survivor_summary_def or_none_def summarize_iff)
next
  case (Inl e)
  with assms(2) have "summarize_pending_final_delete (Inr planned) live u = Inr x"
    by (auto simp: survivor_summary_def or_none_def split: sum.splits if_splits)
  then show ?thesis by (auto simp: pending_final_delete_iff)
qed

lemma conclude_delete_rule:
  assumes j: "journal_shows env rs h (sys_fs s)"
    and st: "dh_command_status h = Some (dc_status command)"
    and ok: "catacomb_ok c" "\<And>a u x. de_decode env a u = Inr x \<Longrightarrow> catacomb_ok x"
    and Q: "\<And>r s'. concluded env rs plan c h0 live (sys_trace s) r s' \<Longrightarrow> Q r s'"
    and E: "\<And>e s'. stopped env rs s s' \<Longrightarrow> E e s'"
  shows "wp (conclude_delete env i plan c h0 (PyStr g) command live) Q E s"
proof -
  note stop = E [OF shows_stopped [OF j]]
  have sep: "wp (delete_append env i ''DELETE_SEP_ABSENCE_OBSERVED'' (absence_evidence (PyStr g) plan x))
      (\<lambda>_. Q \<lparr>dr_outcome = ''sep-deleted'', dr_command_status = dc_status command\<rparr>) E s"
    if x: "de_decode env (dp_archive plan) (dp_apple_user_id plan) = Inr planned"
      "survivor_summary planned live (dict_get (dict_of (dict_get (dh_baseline h0) ''sep_catacomb'')) ''uuid'') = Inr (Some x)"
    for planned x
  proof -
    from survivor_summary_true [OF ok(2) [OF x(1)] x(2)] obtain d xs where d: "live = PyDict d"
      "reconciled planned d \<or> finally_deleted planned d (dict_get (dict_of (dict_get (dh_baseline h0) ''sep_catacomb'')) ''uuid'')"
      "x = inventory_summary xs" by blast
    have "plain (PyDict (absence_evidence (PyStr g) plan x))"
      by (simp add: absence_evidence_def d(3) inventory_summary_def)
    with j show ?thesis
    proof (rule wp_delete_milestone)
      fix h' q t t' and s' :: "'a delete_system"
      assume a: "journal_shows env (rs @ [q]) h' (sys_fs s')" "mirrors h t" "mirrors h' t'"
        "delete_milestone (de_record_hash env) (PyStr ''DELETE_SEP_ABSENCE_OBSERVED'')
          (sort_dicts (PyDict (absence_evidence (PyStr g) plan x))) t = Inr t'"
        "sys_trace s' = sys_trace s @
          [Appended (sys_fs s) ''DELETE_SEP_ABSENCE_OBSERVED'' (absence_evidence (PyStr g) plan x) (Inr h')]"
      from a(4) have "\<exists>v. d_sep_absence v t = Inr t'" by (auto simp: delete_milestone_def)
      with d_sep_absence_ok a(2,3) st have "dh_phase h' = D_SEP_DELETED" "dh_command_status h' = Some (dc_status command)"
        by (force simp: mirrors_def)+
      with a(1,5) d x(1) show "Q \<lparr>dr_outcome = ''sep-deleted'', dr_command_status = dc_status command\<rparr> s'"
        by (intro Q) (auto simp: concluded_def result_true_def quietly_def Let_def)
    qed (auto intro!: E simp: stopped_def quietly_def is_repair_milestone_def REPAIR_MILESTONE_def)
  qed
  have un: "wp (delete_append env i ''DELETE_NOT_PERFORMED'' (unchanged_evidence (PyStr g) plan))
      (\<lambda>_. Q \<lparr>dr_outcome = ''not-deleted'', dr_command_status = dc_status command\<rparr>) E s"
    if x: "dc_status command \<noteq> 0" "or_none (summarize (Inr c) live) = Inr y" "exact_no_change h0 live y" for y
  proof -
    from x(2,3) obtain z where "summarize (Inr c) live = Inr z"
      by (auto simp: or_none_def exact_no_change_def split: sum.splits if_splits)
    then obtain d where d: "live = PyDict d" "reconciled c d" by (auto simp: summarize_iff [OF ok(1)])
    have "plain (PyDict (unchanged_evidence (PyStr g) plan))" by (simp add: unchanged_evidence_def)
    with j show ?thesis
    proof (rule wp_delete_milestone)
      fix h' q t t' and s' :: "'a delete_system"
      assume a: "journal_shows env (rs @ [q]) h' (sys_fs s')" "mirrors h t" "mirrors h' t'"
        "delete_milestone (de_record_hash env) (PyStr ''DELETE_NOT_PERFORMED'')
          (sort_dicts (PyDict (unchanged_evidence (PyStr g) plan))) t = Inr t'"
        "sys_trace s' = sys_trace s @ [Appended (sys_fs s) ''DELETE_NOT_PERFORMED'' (unchanged_evidence (PyStr g) plan) (Inr h')]"
      from a(4) have "\<exists>v. d_not_performed v t = Inr t'" by (auto simp: delete_milestone_def)
      with d_not_performed_ok a(2,3) st have "dh_phase h' = D_ABORTED" "dh_command_status h' = Some (dc_status command)"
        by (force simp: mirrors_def)+
      with a(1,5) d x(1,3) show "Q \<lparr>dr_outcome = ''not-deleted'', dr_command_status = dc_status command\<rparr> s'"
        by (intro Q) (auto simp: concluded_def result_true_def quietly_def Let_def exact_no_change_def)
    qed (auto intro!: E simp: stopped_def quietly_def is_repair_milestone_def REPAIR_MILESTONE_def)
  qed
  have fr: "wp (delete_freeze env i (PyStr g) stage reason) Q E s" for stage reason
    using j by (rule freeze_stops) (rule E)
  have ret: "wp (op_return r) Q E = Q r" for r :: delete_operation_result
    by (rule ext) (rule wp_return)
  show ?thesis
    unfolding conclude_delete_def wp_simps
    using stop sep un fr by (auto simp: wp_simps ret split: sum.splits option.splits)
qed

lemma stopped_later: "stopped env rs s1 s2 \<Longrightarrow> quietly s s1 \<Longrightarrow> stopped env rs s s2"
  using quietly_trans by (auto simp: stopped_def)

lemma freeze_later:
  assumes "journal_shows env rs h (sys_fs s1)" and "quietly s s1" and "\<And>e s'. stopped env rs s s' \<Longrightarrow> E e s'"
  shows "wp (delete_freeze env i (PyStr g) stage reason) Q E s1"
  using assms(1) by (rule freeze_stops) (intro assms(3) stopped_later [OF _ assms(2)])

text \<open>The whole read-back, after the command result was recorded.\<close>

lemma after_command_rule:
  fixes s :: "'w delete_system"
  assumes j: "journal_shows env rs h (sys_fs s)"
    and st: "dh_command_status h = Some (dc_status command)"
    and ok: "catacomb_ok c" "\<And>a u x. de_decode env a u = Inr x \<Longrightarrow> catacomb_ok x"
    and Q: "\<And>r s' w w' live. de_collect env w = (Inr live, w') \<Longrightarrow>
      concluded env rs plan c h0 live (sys_trace s @ [Collected (Inr live)]) r s' \<Longrightarrow> Q r s'"
    and E: "\<And>e s'. stopped env rs s s' \<Longrightarrow> E e s'"
  shows "wp (after_command env i plan c h0 (PyStr g) command) Q E s"
proof -
  have step: "journal_shows env rs h (sys_fs s1) \<and> quietly s s1"
    if "s1 = s\<lparr>sys_world := w, sys_trace := sys_trace s @ [Collected x]\<rparr>" for s1 w x
    using that j by (simp add: quietly_def)
  have con: "wp (conclude_delete env i plan c h0 (PyStr g) command live) Q E s1"
    if "journal_shows env rs h (sys_fs s1)" "quietly s s1" "de_collect env (sys_world s) = (Inr live, w)"
      "sys_trace s1 = sys_trace s @ [Collected (Inr live)]" for live s1 w
  proof (rule conclude_delete_rule [OF that(1) st ok(1)])
    show "catacomb_ok x" if "de_decode env a u = Inr x" for a u x using that by (rule ok(2))
  next
    fix r and s' :: "'w delete_system" assume "concluded env rs plan c h0 live (sys_trace s1) r s'"
    with that(3) show "Q r s'" unfolding that(4) by (rule Q)
  next
    fix e and s' :: "'w delete_system" assume "stopped env rs s1 s'"
    then show "E e s'" using that(2) by (intro E) (rule stopped_later)
  qed
  have raise: "E e s1" if "journal_shows env rs h (sys_fs s1)" "quietly s s1" for e s1
    by (rule E [OF stopped_later [OF shows_stopped [OF that(1)] that(2)]])
  show ?thesis
    unfolding after_command_def wp_simps
  proof (rule wp_sys_call)
    fix live w assume w: "de_collect env (sys_world s) = (Inr live, w)"
    let ?s1 = "s\<lparr>sys_world := w, sys_trace := sys_trace s @ [Collected (Inr live)]\<rparr>"
    note s1 = step [OF refl, THEN conjunct1] step [OF refl, THEN conjunct2]
    have tr: "sys_trace ?s1 = sys_trace s @ [Collected (Inr live)]" by simp
    have fr: "wp (delete_freeze env i (PyStr g) ''readback'' ''inventory-error'') Q E ?s1" using s1 E by (rule freeze_later)
    from raise [OF s1] fr con [OF s1 w tr]
    show "wp (if \<not> isinstance_dict live then op_raise (Exc AttributeError ''get'')
        else if \<not> py_eq (dict_get (dict_of live) ''connection_generation'') (PyStr g)
        then delete_freeze env i (PyStr g) ''readback'' ''inventory-error''
        else conclude_delete env i plan c h0 (PyStr g) command live) Q E ?s1"
      by (simp add: wp_raise)
  next
    fix e w
    let ?s1 = "s\<lparr>sys_world := w, sys_trace := sys_trace s @ [Collected (Inl e)]\<rparr>"
    note s1 = step [OF refl, THEN conjunct1] step [OF refl, THEN conjunct2]
    show "wp (delete_freeze env i (PyStr g) ''readback'' ''inventory-error'') (\<lambda>live. wp (if \<not> isinstance_dict live
        then op_raise (Exc AttributeError ''get'')
        else if \<not> py_eq (dict_get (dict_of live) ''connection_generation'') (PyStr g)
        then delete_freeze env i (PyStr g) ''readback'' ''inventory-error''
        else conclude_delete env i plan c h0 (PyStr g) command live) Q E) E ?s1"
      using s1 E by (rule freeze_later)
  qed
qed

section \<open>The whole run\<close>

text \<open>
  The effects of a run that sent the command: first the append that announced it, with the identity of the plan and the
  digest of the request, then the command, and no other command later.
\<close>

definition announced :: "'w delete_env \<Rightarrow> identity_delete_plan \<Rightarrow> delete_effect list \<Rightarrow> bool" where
  "announced env plan tr =
     (\<exists>fs ev h rest. tr = Appended fs ''DELETE_DISPATCH_INTENT'' ev (Inr h) # Dispatched (dp_request plan) # rest
        \<and> \<not> sends rest \<and> length (dp_request plan) = 20
        \<and> dh_phase h = D_DISPATCH_INTENT \<and> dh_target_identity_uuid h = PyStr (dp_identity_uuid plan)
        \<and> dict_get ev ''request_sha256'' = PyStr (hexdigest (de_sha256 env (dp_request plan)))
        \<and> dict_get ev ''connection_generation'' = PyStr (de_generation env))"

text \<open>The journal holds the announcement, after the records that it had before.\<close>

definition dispatch_shown :: "'w delete_env \<Rightarrow> identity_delete_plan \<Rightarrow> pydict list \<Rightarrow> bool" where
  "dispatch_shown env plan base = (base \<noteq> [] \<and> (\<exists>h. delete_validate_history (de_record_hash env) base = Inr h
     \<and> dh_phase h = D_DISPATCH_INTENT \<and> dh_target_identity_uuid h = PyStr (dp_identity_uuid plan)))"

definition run_ended ::
    "'w delete_env \<Rightarrow> pydict list \<Rightarrow> identity_delete_plan \<Rightarrow> 'w delete_system \<Rightarrow> bool" where
  "run_ended env rs plan s' =
     (\<not> sends (sys_trace s') \<and> kept (de_record_hash env) rs (sys_fs s')
      \<or> announced env plan (sys_trace s')
         \<and> (\<exists>q. dispatch_shown env plan (rs @ [q]) \<and> kept (de_record_hash env) (rs @ [q]) (sys_fs s')))"

text \<open>
  All effects of a run that returned: the announcement, the command, the append of its result, then the collection that
  returned this inventory, and the append of the outcome.
\<close>

definition returned_effects :: "identity_delete_plan \<Rightarrow> pyval \<Rightarrow> delete_history \<Rightarrow> delete_effect list \<Rightarrow> bool" where
  "returned_effects plan live h tr =
     (\<exists>fs1 ev1 h1 fs2 ev2 h2 fs3 m ev3. tr =
        [Appended fs1 ''DELETE_DISPATCH_INTENT'' ev1 (Inr h1), Dispatched (dp_request plan),
         Appended fs2 ''DELETE_COMMAND_OBSERVED'' ev2 (Inr h2), Collected (Inr live), Appended fs3 m ev3 (Inr h)])"

text \<open>A run that returned: the inventory, the last history and the result agree.\<close>

definition run_returned ::
    "'w delete_env \<Rightarrow> pydict list \<Rightarrow> identity_delete_plan \<Rightarrow> user_catacomb \<Rightarrow> delete_history
      \<Rightarrow> delete_operation_result \<Rightarrow> 'w delete_system \<Rightarrow> bool" where
  "run_returned env rs plan c h0 result s' =
     (\<exists>qs h live w w'. de_collect env w = (Inr live, w') \<and> returned_effects plan live h (sys_trace s')
        \<and> journal_shows env (rs @ qs) h (sys_fs s') \<and> dh_command_status h = Some (dr_command_status result)
        \<and> result_true env plan c h0 live result (dh_phase h))"

lemma not_planned:
  assumes "\<not> plan_differs env h i plan c"
  shows "dict_get (dh_baseline h) ''connection_generation'' = PyStr (de_generation env)"
    and "dh_request_sha256 h = PyStr (hexdigest (de_sha256 env (dp_request plan)))"
    and "dh_target_identity_uuid h = PyStr (dp_identity_uuid plan)" and "dh_phase h = D_INTENT"
  using assms by (simp_all add: plan_differs_def)

lemma command_evidence_get:
  "plain (PyDict (command_evidence (PyStr g) plan command))"
  "dict_get (dict_of (sort_dicts (PyDict (command_evidence (PyStr g) plan command)))) ''status'' = PyInt (dc_status command)"
  "dict_get (dict_of (sort_dicts (PyDict (command_evidence (PyStr g) plan command)))) ''service_event_count''
     = PyInt (dc_service_event_count command)"
  by (simp_all add: sort_dicts_PyDict dict_get_sorted_items command_evidence_def)

lemma d_command_observed_exact:
  assumes "d_command_observed v s = Inr s'"
  shows "s' = s\<lparr>ds_command_status := Some (int_of (dict_get (dict_of v) ''status'')), ds_phase := D_COMMAND_OBSERVED\<rparr>"
    and "py_eq (dict_get (dict_of v) ''service_event_count'') (PyInt 0)"
  using assms by (auto simp: d_command_observed_def d_exact_def res_simps Let_def split: if_splits)

lemma announced_quietly: "announced env plan (sys_trace s) \<Longrightarrow> quietly s s' \<Longrightarrow> announced env plan (sys_trace s')"
  by (fastforce simp: announced_def quietly_def)

text \<open>Once the command is sent, every end of the run keeps the announcement.\<close>

definition in_flight :: "'w delete_env \<Rightarrow> pydict list \<Rightarrow> identity_delete_plan \<Rightarrow> pydict \<Rightarrow> 'w delete_system \<Rightarrow> bool" where
  "in_flight env rs plan q s = (announced env plan (sys_trace s) \<and> dispatch_shown env plan (rs @ [q])
     \<and> kept (de_record_hash env) (rs @ [q]) (sys_fs s))"

lemma in_flight_ended: "in_flight env rs plan q s \<Longrightarrow> run_ended env rs plan s"
  by (auto simp: in_flight_def run_ended_def)

lemma in_flight_later:
  assumes "in_flight env rs plan q s" and "quietly s s'" and "kept (de_record_hash env) (rs @ q # qs) (sys_fs s')"
  shows "run_ended env rs plan s'"
proof -
  from assms(3) have "kept (de_record_hash env) (rs @ [q]) (sys_fs s')"
    using kept_prefix [of _ "rs @ [q]" qs] by simp
  with assms(1,2) announced_quietly show ?thesis by (auto simp: in_flight_def run_ended_def)
qed

lemma observed_rule:
  fixes s :: "'w delete_system"
  assumes j: "journal_shows env (rs @ [q]) h (sys_fs s)" and fl: "in_flight env rs plan q s"
    and tr: "sys_trace s = [Appended fs1 ''DELETE_DISPATCH_INTENT'' ev1 (Inr h1), Dispatched (dp_request plan)]"
    and ok: "catacomb_ok c" "\<And>a u x. de_decode env a u = Inr x \<Longrightarrow> catacomb_ok x"
    and Q: "\<And>r s'. run_ended env rs plan s' \<Longrightarrow> run_returned env rs plan c h0 r s' \<Longrightarrow> Q r s'"
    and E: "\<And>e s'. run_ended env rs plan s' \<Longrightarrow> E e s'"
  shows "wp (op_bind (delete_append env i ''DELETE_COMMAND_OBSERVED'' (command_evidence (PyStr g) plan command)) (\<lambda>_.
     after_command env i plan c h0 (PyStr g) command)) Q E s"
  unfolding wp_bind
proof (rule wp_delete_milestone [OF j command_evidence_get(1)])
  fix h' r t t' and s1 :: "'w delete_system"
  assume a: "journal_shows env ((rs @ [q]) @ [r]) h' (sys_fs s1)" "mirrors h' t'"
    "delete_milestone (de_record_hash env) (PyStr ''DELETE_COMMAND_OBSERVED'')
       (sort_dicts (PyDict (command_evidence (PyStr g) plan command))) t = Inr t'"
    "sys_trace s1 = sys_trace s @ [Appended (sys_fs s) ''DELETE_COMMAND_OBSERVED'' (command_evidence (PyStr g) plan command) (Inr h')]"
  from a(3) have "d_command_observed (sort_dicts (PyDict (command_evidence (PyStr g) plan command))) t = Inr t'"
    by (simp add: delete_milestone_def)
  from d_command_observed_exact(1) [OF this] a(2) have st: "dh_command_status h' = Some (dc_status command)"
    by (simp add: mirrors_def command_evidence_get)
  have q: "quietly s s1" using a(4) by (simp add: quietly_def)
  show "wp (after_command env i plan c h0 (PyStr g) command) Q E s1"
  proof (rule after_command_rule [OF a(1) st ok(1)])
    show "catacomb_ok x" if "de_decode env a u = Inr x" for a u x using that by (rule ok(2))
  next
    fix result live w w' and s2 :: "'w delete_system"
    assume w: "de_collect env w = (Inr live, w')" and con: "concluded env ((rs @ [q]) @ [r]) plan c h0 live (sys_trace s1 @ [Collected (Inr live)]) result s2"
    from con obtain q' hh fs m ev where c: "journal_shows env ((rs @ [q, r]) @ [q']) hh (sys_fs s2)"
      "sys_trace s2 = sys_trace s1 @ [Collected (Inr live), Appended fs m ev (Inr hh)]"
      "dh_command_status hh = Some (dr_command_status result)" "result_true env plan c h0 live result (dh_phase hh)"
      by (auto simp: concluded_def)
    have quiet: "quietly s1 s2" using c(2) by (simp add: quietly_def)
    have eff: "returned_effects plan live hh (sys_trace s2)" using tr a(4) c(2) by (simp add: returned_effects_def)
    from c(1) have "kept (de_record_hash env) (rs @ q # [r, q']) (sys_fs s2)"
      by (simp add: journal_shows_def clean_kept_all)
    with fl quietly_trans [OF q quiet] have "run_ended env rs plan s2" by (rule in_flight_later)
    moreover from c(1) have "journal_shows env (rs @ [q, r, q']) hh (sys_fs s2)" by simp
    with c(3,4) w eff have "run_returned env rs plan c h0 result s2" unfolding run_returned_def by blast
    ultimately show "Q result s2" by (rule Q)
  next
    fix e and s2 :: "'w delete_system" assume "stopped env ((rs @ [q]) @ [r]) s1 s2"
    then have "quietly s1 s2" "kept (de_record_hash env) (rs @ q # [r]) (sys_fs s2)" by (simp_all add: stopped_def)
    with fl quietly_trans [OF q] show "E e s2" by (blast intro: E in_flight_later)
  qed
next
  fix e and s1 :: "'w delete_system"
  assume "kept (de_record_hash env) (rs @ [q]) (sys_fs s1)"
    "sys_trace s1 = sys_trace s @ [Appended (sys_fs s) ''DELETE_COMMAND_OBSERVED'' (command_evidence (PyStr g) plan command) (Inl e)]"
  then show "E e s1" by (intro E in_flight_later [OF fl, of _ "[]"]) (simp_all add: quietly_def)
qed (simp add: is_repair_milestone_def REPAIR_MILESTONE_def)

lemma dispatch_evidence_get:
  assumes "\<not> plan_differs env h i plan c"
  shows "plain (PyDict (dispatch_evidence h plan))"
    and "dict_get (dispatch_evidence h plan) ''request_sha256'' = PyStr (hexdigest (de_sha256 env (dp_request plan)))"
    and "dict_get (dispatch_evidence h plan) ''connection_generation'' = PyStr (de_generation env)"
  using not_planned [OF assms] by (simp_all add: dispatch_evidence_def)

lemma dispatch_recorded:
  assumes "journal_shows env (rs @ [q]) h1 fs" and "mirrors h t" and "mirrors h1 t'"
    and "delete_milestone (de_record_hash env) (PyStr ''DELETE_DISPATCH_INTENT'') v t = Inr t'"
    and "\<not> plan_differs env h i plan c"
  shows "dispatch_shown env plan (rs @ [q])" and "dh_phase h1 = D_DISPATCH_INTENT"
    and "dh_target_identity_uuid h1 = PyStr (dp_identity_uuid plan)"
proof -
  from assms(4) have "d_dispatch_intent v t = Inr t'" by (simp add: delete_milestone_def)
  from d_dispatch_intent_ok [OF this] assms(2,3) not_planned(3) [OF assms(5)]
  show h1: "dh_phase h1 = D_DISPATCH_INTENT" "dh_target_identity_uuid h1 = PyStr (dp_identity_uuid plan)"
    by (simp_all add: mirrors_def)
  then show "dispatch_shown env plan (rs @ [q])" using assms(1) by (simp add: dispatch_shown_def journal_shows_def)
qed

text \<open>The announcement and the command, for any continuation.\<close>

lemma dispatch_rule:
  fixes s :: "'w delete_system"
  assumes j: "journal_shows env rs h (sys_fs s)" and tr: "sys_trace s = []"
    and plan: "\<not> plan_differs env h i plan c"
    and sent: "\<And>command q h1 s'. journal_shows env (rs @ [q]) h1 (sys_fs s') \<Longrightarrow> in_flight env rs plan q s' \<Longrightarrow>
      sys_trace s' = [Appended (sys_fs s) ''DELETE_DISPATCH_INTENT'' (dispatch_evidence h plan) (Inr h1), Dispatched (dp_request plan)] \<Longrightarrow>
      (\<exists>w. accepted_reply env (dp_request plan) w = Some command) \<Longrightarrow> wp (rest command) Q E s'"
    and unsent: "\<And>e s'. kept (de_record_hash env) rs (sys_fs s') \<Longrightarrow> \<not> sends (sys_trace s') \<Longrightarrow> E e s'"
    and lost: "\<And>e s' w. accepted_reply env (dp_request plan) w = None \<Longrightarrow> run_ended env rs plan s' \<Longrightarrow> E e s'"
  shows "wp (op_bind (delete_append env i ''DELETE_DISPATCH_INTENT'' (dispatch_evidence h plan)) (\<lambda>_.
     op_bind (op_catch (bridge_delete env (dp_request plan))
                (\<lambda>_. delete_freeze env i (PyStr g) ''dispatch'' ''transport-error'')) rest)) Q E s"
  unfolding wp_bind [of "delete_append env i m ev" for m ev]
proof (rule wp_delete_milestone [OF j dispatch_evidence_get(1) [OF plan]])
  fix h1 q t t' and s1 :: "'w delete_system"
  assume a: "journal_shows env (rs @ [q]) h1 (sys_fs s1)" "mirrors h t" "mirrors h1 t'"
    "delete_milestone (de_record_hash env) (PyStr ''DELETE_DISPATCH_INTENT'')
       (sort_dicts (PyDict (dispatch_evidence h plan))) t = Inr t'"
    "sys_trace s1 = sys_trace s @ [Appended (sys_fs s) ''DELETE_DISPATCH_INTENT'' (dispatch_evidence h plan) (Inr h1)]"
  have fl: "in_flight env rs plan q s2"
    if "sys_fs s2 = sys_fs s1" "length (dp_request plan) = 20"
      "sys_trace s2 = sys_trace s1 @ Dispatched (dp_request plan) # more" "\<not> sends more"
    for s2 :: "'w delete_system" and more
    using that a(1,5) tr dispatch_recorded [OF a(1-4) plan] dispatch_evidence_get(2,3) [OF plan]
    by (simp add: in_flight_def announced_def journal_shows_def clean_kept_all)
  show "wp (op_bind (op_catch (bridge_delete env (dp_request plan))
        (\<lambda>_. delete_freeze env i (PyStr g) ''dispatch'' ''transport-error'')) rest) Q E s1"
    unfolding wp_bind [of "op_catch m f" for m f] wp_catch
  proof (rule wp_bridge_delete)
    fix command and s2 :: "'w delete_system"
    assume b: "accepted_reply env (dp_request plan) (sys_world s1) = Some command" "sys_fs s2 = sys_fs s1"
      "length (dp_request plan) = 20" "sys_trace s2 = sys_trace s1 @ [Dispatched (dp_request plan)]"
    with a(1,5) tr fl [of s2 "[]"] show "wp (rest command) Q E s2" by (intro sent [of q h1]) auto
  next
    fix e and s2 :: "'w delete_system"
    assume b: "sys_fs s2 = sys_fs s1" "sys_trace s2 = sys_trace s1"
    have "journal_shows env (rs @ [q]) h1 (sys_fs s2)" using a(1) b(1) by simp
    then show "wp (delete_freeze env i (PyStr g) ''dispatch'' ''transport-error'') (\<lambda>command. wp (rest command) Q E) E s2"
    proof (rule freeze_stops)
      fix e and s3 :: "'w delete_system" assume "stopped env (rs @ [q]) s2 s3"
      then show "E e s3" using b(2) a(5) tr kept_prefix by (intro unsent) (auto simp: stopped_def quietly_def)
    qed
  next
    fix e and s2 :: "'w delete_system"
    assume b: "accepted_reply env (dp_request plan) (sys_world s1) = None" "sys_fs s2 = sys_fs s1"
      "length (dp_request plan) = 20" "sys_trace s2 = sys_trace s1 @ [Dispatched (dp_request plan), Invalidated]"
    have "journal_shows env (rs @ [q]) h1 (sys_fs s2)" using a(1) b(2) by simp
    then show "wp (delete_freeze env i (PyStr g) ''dispatch'' ''transport-error'') (\<lambda>command. wp (rest command) Q E) E s2"
    proof (rule freeze_stops)
      fix e and s3 :: "'w delete_system" assume "stopped env (rs @ [q]) s2 s3"
      then have st: "quietly s2 s3" "kept (de_record_hash env) (rs @ q # []) (sys_fs s3)" by (simp_all add: stopped_def)
      have "in_flight env rs plan q s2" by (rule fl [of _ "[Invalidated]"]) (use b in \<open>simp_all add: sends_def\<close>)
      from lost [OF b(1) in_flight_later [OF this st]] show "E e s3" .
    qed
  qed
qed (use tr unsent in \<open>auto simp: is_repair_milestone_def REPAIR_MILESTONE_def\<close>)

end
