(* ===== verification/Delete_Operation_Theorems.thy ===== *)
theory Delete_Operation_Theorems
  imports Delete_Operation_Facts
begin

text \<open>
  The properties of the deletion operation: the write-ahead announcement of the command, the meaning of a result, the
  trace that a dispatched deletion leaves in the journal, and the replies that the journal cannot record.
\<close>

section \<open>Every run\<close>

lemma wp_history_read:
  assumes c: "clean (de_record_hash env) rs (sys_fs s)"
    and Q: "\<And>h. delete_validate_history (de_record_hash env) rs = Inr h \<Longrightarrow> Q h s" and E: "\<And>e. E e s"
  shows "wp (delete_history_read env ws) Q E s"
proof -
  obtain r1 fs1 where rd: "read_journal (de_record_hash env) ws (sys_fs s) = (r1, fs1)" by fastforce
  from read_clean [OF c rd] have fs: "s\<lparr>sys_fs := fs1\<rparr> = s" by simp
  have "Q h s" if "and_then r1 (delete_validate_history (de_record_hash env)) = Inr h" for h
    using that read_clean [OF c rd] Q by (auto simp: res_simps)
  then show ?thesis using E rd fs by (simp add: wp_def delete_history_read_def delete_read_def split: sum.splits)
qed

text \<open>What the proofs assume of the file and of the decoded Catacomb files.\<close>

definition delete_setting :: "'w delete_env \<Rightarrow> pydict list \<Rightarrow> user_catacomb \<Rightarrow> 'w delete_system \<Rightarrow> bool" where
  "delete_setting env rs c s = (clean (de_record_hash env) rs (sys_fs s) \<and> sys_trace s = [] \<and> catacomb_ok c
     \<and> (\<forall>a u x. de_decode env a u = Inr x \<longrightarrow> catacomb_ok x))"

lemma wp_delete_run:
  fixes s :: "'w delete_system"
  assumes set: "delete_setting env rs c s"
    and Q: "\<And>h r s'. delete_validate_history (de_record_hash env) rs = Inr h \<Longrightarrow> dh_phase h = D_INTENT \<Longrightarrow>
      run_ended env rs plan s' \<Longrightarrow> run_returned env rs plan c h r s' \<Longrightarrow> Q r s'"
    and E: "\<And>e s'. run_ended env rs plan s' \<Longrightarrow> E e s'"
  shows "wp (delete_run env ws i plan c) Q E s"
proof -
  let ?H = "de_record_hash env"
  have c: "clean ?H rs (sys_fs s)" "sys_trace s = []" "catacomb_ok c" "\<And>a u x. de_decode env a u = Inr x \<Longrightarrow> catacomb_ok x"
    using set by (auto simp: delete_setting_def)
  have none: "E e s" for e using c(1,2) by (intro E) (simp add: run_ended_def clean_kept_all)
  show ?thesis
    unfolding delete_run_def wp_bind [of "delete_history_read env ws"]
  proof (rule wp_history_read [OF c(1)])
    show "E e s" for e by (rule none)
  next
    fix h assume v: "delete_validate_history ?H rs = Inr h"
    then have j: "journal_shows env rs h (sys_fs s)" using c(1) by (simp add: journal_shows_def)
    show "wp (let generation = dict_get (dh_baseline h) ''connection_generation'' in
      if plan_differs env h i plan c
      then op_raise (delete_operation_error ''identity delete plan differs from durable intent'')
      else op_bind (delete_append env i ''DELETE_DISPATCH_INTENT'' (dispatch_evidence h plan)) (\<lambda>_.
        op_bind (op_catch (bridge_delete env (dp_request plan))
                (\<lambda>_. delete_freeze env i generation ''dispatch'' ''transport-error'')) (\<lambda>command.
        op_bind (delete_append env i ''DELETE_COMMAND_OBSERVED'' (command_evidence generation plan command)) (\<lambda>_.
        after_command env i plan c h generation command)))) Q E s"
    proof (cases "plan_differs env h i plan c")
      case True
      with none show ?thesis by (simp add: Let_def wp_raise)
    next
      case False
      note p = not_planned [OF False]
      show ?thesis
        unfolding Let_def p(1) if_not_P [OF False]
      proof (rule dispatch_rule [OF j c(2) False])
        fix command q h1 and s1 :: "'w delete_system"
        assume a: "journal_shows env (rs @ [q]) h1 (sys_fs s1)" "in_flight env rs plan q s1"
          "sys_trace s1 = [Appended (sys_fs s) ''DELETE_DISPATCH_INTENT'' (dispatch_evidence h plan) (Inr h1), Dispatched (dp_request plan)]"
        show "wp (op_bind (delete_append env i ''DELETE_COMMAND_OBSERVED''
              (command_evidence (PyStr (de_generation env)) plan command)) (\<lambda>_.
            after_command env i plan c h (PyStr (de_generation env)) command)) Q E s1"
          by (rule observed_rule [OF a(1-3) c(3)]) (use c(4) Q [OF v p(4)] E in blast)+
      qed (use E in \<open>auto simp: run_ended_def\<close>)
    qed
  qed
qed

lemma run_result:
  assumes "delete_setting env rs c s" and "delete_run env ws i plan c s = (Inr result, s')"
  shows "\<exists>h0. delete_validate_history (de_record_hash env) rs = Inr h0 \<and> dh_phase h0 = D_INTENT
    \<and> run_returned env rs plan c h0 result s'"
proof -
  have "wp (delete_run env ws i plan c) (\<lambda>r s'. \<exists>h0. delete_validate_history (de_record_hash env) rs = Inr h0
      \<and> dh_phase h0 = D_INTENT \<and> run_returned env rs plan c h0 r s') (\<lambda>_ _. True) s"
    by (rule wp_delete_run [OF assms(1)]) blast+
  with assms(2) show ?thesis by (simp add: wp_def)
qed

section \<open>Properties\<close>

text \<open>
  C9: The delete command is announced before it is sent. A run sends the command at most once, and if it does, the first
  two effects of the run are the successful append of DELETE_DISPATCH_INTENT, with the identity of the plan and the
  SHA-256 digest of the 20 bytes that are sent, and the command.
\<close>

theorem delete_dispatch_announced:
  assumes "delete_setting env rs c s" and "delete_run env ws i plan c s = (r, s')"
  shows "\<not> sends (sys_trace s') \<or> announced env plan (sys_trace s')"
proof -
  have "wp (delete_run env ws i plan c) (\<lambda>_. run_ended env rs plan) (\<lambda>_. run_ended env rs plan) s"
    by (rule wp_delete_run [OF assms(1)])
  with assms(2) have "run_ended env rs plan s'" by (simp add: wp_def split: sum.splits)
  then show ?thesis by (auto simp: run_ended_def)
qed

text \<open>
  C10: A result of the deletion is durable and true. When \<^verbatim>\<open>run\<close> returns, the journal file holds complete records that
  replay to the phase of the outcome with the status of the command, and the effects of the run were exactly: the announcement,
  the command, the append of its result, one collection of the inventory, the append of the outcome. It is the inventory of that
  collection that bears the outcome out: \<^verbatim>\<open>sep-deleted\<close> is returned only if both its lists hold exactly the identities of the
  planned archive, and \<^verbatim>\<open>not-deleted\<close> only if the command failed and the inventory and the SEP's Catacomb are
  those from before.
\<close>

theorem delete_result_is_durable:
  assumes "delete_setting env rs c s" and "delete_run env ws i plan c s = (Inr result, s')"
  shows "\<exists>h0 h qs live w w'. delete_validate_history (de_record_hash env) rs = Inr h0 \<and> dh_phase h0 = D_INTENT
    \<and> de_collect env w = (Inr live, w') \<and> returned_effects plan live h (sys_trace s')
    \<and> clean (de_record_hash env) (rs @ qs) (sys_fs s') \<and> delete_validate_history (de_record_hash env) (rs @ qs) = Inr h
    \<and> dh_command_status h = Some (dr_command_status result) \<and> result_true env plan c h0 live result (dh_phase h)"
  using run_result [OF assms] unfolding run_returned_def journal_shows_def by fastforce

text \<open>
  C11: A dispatched deletion is not forgotten. Once the command was sent, whatever failed later (the transport, an append in
  the middle of a write, the inventory), every reading of the journal that succeeds, repairs included, shows a phase after the
  dispatch and the same target.
\<close>

theorem dispatched_delete_not_forgotten:
  assumes "delete_setting env rs c s" and "delete_run env ws i plan c s = (r, s')" and "sends (sys_trace s')"
    and "delete_read (de_record_hash env) ws' (sys_fs s') = (Inr h, fs)"
  shows "dh_phase h \<notin> {D_BASELINE, D_INTENT} \<and> dh_target_identity_uuid h = PyStr (dp_identity_uuid plan)"
proof -
  let ?H = "de_record_hash env"
  have "wp (delete_run env ws i plan c) (\<lambda>_. run_ended env rs plan) (\<lambda>_. run_ended env rs plan) s"
    by (rule wp_delete_run [OF assms(1)])
  with assms(2) have "run_ended env rs plan s'" by (simp add: wp_def split: sum.splits)
  with assms(3) obtain q where q: "dispatch_shown env plan (rs @ [q])" "kept ?H (rs @ [q]) (sys_fs s')"
    by (auto simp: run_ended_def)
  then obtain h0 where h0: "delete_validate_history ?H (rs @ [q]) = Inr h0" "dh_phase h0 = D_DISPATCH_INTENT"
    "dh_target_identity_uuid h0 = PyStr (dp_identity_uuid plan)" by (auto simp: dispatch_shown_def)
  obtain id where id: "dict_get (hd (rs @ [q])) ''operation_id'' = PyStr id" using history_operation_id(2) [OF h0(1)] ..
  obtain r1 fs1 where rd: "read_journal ?H ws' (sys_fs s') = (Inr r1, fs1)" "delete_validate_history ?H r1 = Inr h"
    using assms(4) by (auto simp: delete_read_def res_simps split: prod.splits)
  from read_kept(3) [OF q(2) _ id rd(1) refl] obtain qs where "r1 = (rs @ [q]) @ qs" by auto
  with dispatched_prefix [OF h0(1) _ rd(2) [unfolded this]] h0(2,3) show ?thesis by (simp add: not_dispatched_def)
qed

section \<open>Replies that the journal cannot record\<close>

lemma append_refused:
  assumes j: "journal_shows env rs h (sys_fs s)" and m: "\<not> is_repair_milestone (PyStr m)"
    and no: "\<And>t. isl (delete_milestone (de_record_hash env) (PyStr m) (PyDict ev) t)"
    and E: "\<And>e s'. sys_fs s' = sys_fs s \<Longrightarrow> sys_trace s' = sys_trace s @ [Appended (sys_fs s) m ev (Inl e)] \<Longrightarrow> E e s'"
  shows "wp (delete_append env i m ev) Q E s"
proof -
  let ?H = "de_record_hash env"
  obtain ws ws1 ws2 ws3 w where w: "de_writes env (sys_world s) = ((ws, ws1, ws2, ws3), w)"
    by (cases "de_writes env (sys_world s)") (auto elim: prod_cases4)
  from j have c: "clean ?H rs (sys_fs s)" "delete_validate_history ?H rs = Inr h" by (simp_all add: journal_shows_def)
  have "isl (delete_validate_history ?H (rs @ [candidate_record i m ev]))"
  proof (rule ccontr)
    assume "\<not> isl (delete_validate_history ?H (rs @ [candidate_record i m ev]))"
    then obtain h' where "delete_validate_history ?H (rs @ [candidate_record i m ev]) = Inr h'" using isr_eq by blast
    moreover have get: "dict_get (candidate_record i m ev) ''milestone'' = PyStr m"
      "dict_get (candidate_record i m ev) ''evidence'' = PyDict ev" by (simp_all add: candidate_record_def)
    ultimately obtain t t' where "delete_milestone ?H (PyStr m) (PyDict ev) t = Inr t'"
      using stored_delete [OF _ c(2) get(1) m] by fastforce
    with no [of t] show False by simp
  qed
  then obtain x where x: "delete_validate_history ?H (rs @ [candidate_record i m ev]) = Inl x" by (auto simp: isl_def)
  obtain r1 fs1 where rd: "read_journal ?H ws (sys_fs s) = (r1, fs1)" by fastforce
  note r = read_clean [OF c(1) rd]
  have "\<exists>e. delete_append_checked ?H ws ws1 ws2 ws3 i m ev (sys_fs s) = (Inl e, sys_fs s)"
    using r c(2) x rd by (cases r1) (auto simp: delete_append_checked_def)
  then show ?thesis using E by (auto simp: wp_def delete_append_def w)
qed

lemma events_not_recorded:
  "0 < dc_service_event_count command \<Longrightarrow>
   isl (delete_milestone H (PyStr ''DELETE_COMMAND_OBSERVED'') (PyDict (command_evidence (PyStr g) plan command)) t)"
  using d_command_observed_exact(2) [of "PyDict (command_evidence (PyStr g) plan command)" t]
  by (cases "d_command_observed (PyDict (command_evidence (PyStr g) plan command)) t")
    (auto simp: delete_milestone_def command_evidence_def)

text \<open>
  C12: A reply with service events stops the deletion unrecorded. The adapter accepts a reply together with well-formed service
  events, but the journal takes a command result only with no events. So if the Bridge answers that way, every run that sends
  the command ends with the error of that append: the command result is not recorded, no DELETE_OUTCOME_UNKNOWN
  is attempted, the inventory is not read, and the file still ends with the announcement of the command.
\<close>

theorem service_event_strands_delete:
  assumes "clean (de_record_hash env) rs (sys_fs s)" and "sys_trace s = []"
    and event: "\<And>w. \<exists>command. accepted_reply env (dp_request plan) w = Some command \<and> 0 < dc_service_event_count command"
    and "delete_run env ws i plan c s = (r, s')" and "sends (sys_trace s')"
  shows "\<exists>q fs1 ev1 h1 fs2 ev2 e. r = Inl e
    \<and> sys_trace s' = [Appended fs1 ''DELETE_DISPATCH_INTENT'' ev1 (Inr h1), Dispatched (dp_request plan),
         Appended fs2 ''DELETE_COMMAND_OBSERVED'' ev2 (Inl e)]
    \<and> clean (de_record_hash env) (rs @ [q]) (sys_fs s') \<and> dispatch_shown env plan (rs @ [q])"
proof -
  let ?H = "de_record_hash env"
  let ?Q = "\<lambda>e s' :: 'a delete_system. sends (sys_trace s') \<longrightarrow> (\<exists>q fs1 ev1 h1 fs2 ev2.
    sys_trace s' = [Appended fs1 ''DELETE_DISPATCH_INTENT'' ev1 (Inr h1), Dispatched (dp_request plan),
         Appended fs2 ''DELETE_COMMAND_OBSERVED'' ev2 (Inl e)]
    \<and> clean ?H (rs @ [q]) (sys_fs s') \<and> dispatch_shown env plan (rs @ [q]))"
  have none: "?Q e s" for e using assms(2) by simp
  have "wp (delete_run env ws i plan c) (\<lambda>_ s'. \<not> sends (sys_trace s')) ?Q s"
    unfolding delete_run_def wp_bind [of "delete_history_read env ws"]
  proof (rule wp_history_read [OF assms(1)])
    show "?Q e s" for e by (rule none)
  next
    fix h assume v: "delete_validate_history ?H rs = Inr h"
    then have j: "journal_shows env rs h (sys_fs s)" using assms(1) by (simp add: journal_shows_def)
    show "wp (let generation = dict_get (dh_baseline h) ''connection_generation'' in
      if plan_differs env h i plan c
      then op_raise (delete_operation_error ''identity delete plan differs from durable intent'')
      else op_bind (delete_append env i ''DELETE_DISPATCH_INTENT'' (dispatch_evidence h plan)) (\<lambda>_.
        op_bind (op_catch (bridge_delete env (dp_request plan))
                (\<lambda>_. delete_freeze env i generation ''dispatch'' ''transport-error'')) (\<lambda>command.
        op_bind (delete_append env i ''DELETE_COMMAND_OBSERVED'' (command_evidence generation plan command)) (\<lambda>_.
        after_command env i plan c h generation command)))) (\<lambda>_ s'. \<not> sends (sys_trace s')) ?Q s"
    proof (cases "plan_differs env h i plan c")
      case True
      with none show ?thesis by (simp add: Let_def wp_raise)
    next
      case False
      show ?thesis
        unfolding Let_def not_planned(1) [OF False] if_not_P [OF False]
      proof (rule dispatch_rule [OF j assms(2) False])
        fix command q h1 and s1 :: "'a delete_system"
        assume a: "journal_shows env (rs @ [q]) h1 (sys_fs s1)" "in_flight env rs plan q s1"
          "sys_trace s1 = [Appended (sys_fs s) ''DELETE_DISPATCH_INTENT'' (dispatch_evidence h plan) (Inr h1), Dispatched (dp_request plan)]"
          "\<exists>w. accepted_reply env (dp_request plan) w = Some command"
        from a(4) obtain w where "accepted_reply env (dp_request plan) w = Some command" ..
        with event [of w] have "0 < dc_service_event_count command" by simp
        then have no: "isl (delete_milestone ?H (PyStr ''DELETE_COMMAND_OBSERVED'')
            (PyDict (command_evidence (PyStr (de_generation env)) plan command)) t)" for t
          by (rule events_not_recorded)
        show "wp (op_bind (delete_append env i ''DELETE_COMMAND_OBSERVED''
              (command_evidence (PyStr (de_generation env)) plan command)) (\<lambda>_.
            after_command env i plan c h (PyStr (de_generation env)) command)) (\<lambda>_ s'. \<not> sends (sys_trace s')) ?Q s1"
          unfolding wp_bind [of "delete_append env i m ev" for m ev]
          by (rule append_refused [OF a(1) _ no])
            (use a in \<open>auto simp: journal_shows_def in_flight_def is_repair_milestone_def REPAIR_MILESTONE_def\<close>)
      next
        fix e and s1 :: "'a delete_system" and w
        assume "accepted_reply env (dp_request plan) w = None"
        with event [of w] show "?Q e s1" by simp
      qed simp
    qed
  qed
  with assms(4,5) show ?thesis by (auto simp: wp_def split: sum.splits)
qed

end
