(* ===== verification/Delete_Plan_Facts.thy ===== *)
theory Delete_Plan_Facts
  imports Delete_Plan Delete_Operation_Theorems
begin

text \<open>
  Correctness of deletion plans: the planned archive holds exactly the other identities, the request names the target, a plan
  rebuilt for recovery has the same request, and a run of a plan removes exactly its target from the inventory.
\<close>

section \<open>Identities by UUID\<close>

lemma uuids_distinct:
  assumes "catacomb_ok c"
  shows "distinct (map identity_uuid_of (uc_identities c))"
proof -
  have len: "\<forall>i \<in> set (uc_identities c). length (li_uuid i) = 16" and d: "distinct (map li_uuid (uc_identities c))"
    using assms by (simp_all add: catacomb_ok_def list_all_iff)
  have "inj_on uuid_str (set (map li_uuid (uc_identities c)))"
    using len by (auto intro!: inj_onI simp: uuid_str_inj)
  then have "distinct (map uuid_str (map li_uuid (uc_identities c)))" using d by (simp only: distinct_map [of uuid_str])
  then show ?thesis by (simp add: comp_def)
qed

lemma by_uuid_eq:
  assumes "catacomb_ok c"
  shows "by_uuid (uc_identities c) k = Some i \<longleftrightarrow> i \<in> set (uc_identities c) \<and> identity_uuid_of i = k"
proof -
  have "distinct (map fst (rev (map (\<lambda>i. (identity_uuid_of i, i)) (uc_identities c))))"
    using uuids_distinct [OF assms] by (simp add: comp_def rev_map [symmetric])
  then show ?thesis unfolding by_uuid_def by (auto simp: map_of_eq_Some_iff)
qed

lemma names_of: "identity_names c = set (map identity_uuid_of (uc_identities c))"
  by (auto simp: identity_names_def)

section \<open>Plans\<close>

lemma delete_request_ok: "delete_request n raw = Inr bs \<Longrightarrow> 0 \<le> n \<and> n < 2 ^ 32 \<and> bs = le_bytes 4 n @ raw"
  by (auto simp: delete_request_def res_simps py_simps)

lemma plan_target_ok:
  assumes "plan_target D cc (Inr l) u = Inr p"
  obtains i survivors where "i \<in> set (uc_identities (oc_view l))" "identity_uuid_of i = u"
    "dp_apple_user_id p = li_user_id i" "dp_identity_uuid p = u" "dp_entity p = li_entity i" "dp_name p = li_name i"
    "cc_decode cc (dp_archive p) (li_user_id i) = Inr survivors" "identity_names survivors = identity_names (oc_view l) - {u}"
    "\<forall>k \<in> identity_names survivors.
       \<not> changed (by_uuid (uc_identities survivors) k) (by_uuid (uc_identities (oc_view l)) k)"
    "dp_request p = le_bytes 4 (li_user_id i) @ li_uuid i" "length (dp_request p) = 20"
    "survivor_snapshot_sha256 D (uc_identities survivors) = Inr (dp_survivor_snapshot_sha256 p)"
proof -
  let ?m = "filter (\<lambda>i. identity_uuid_of i = u) (uc_identities (oc_view l))"
  have "length ?m = 1" using assms by (auto simp: plan_target_def Let_def split: if_splits)
  then obtain i where m: "?m = [i]" by (auto simp: length_Suc_conv)
  have "i \<in> set ?m" by (simp add: m)
  then have i: "i \<in> set (uc_identities (oc_view l))" "identity_uuid_of i = u" by simp_all
  from assms i(2) obtain archive survivors request digest where p:
    "cc_decode cc archive (li_user_id i) = Inr survivors" "set (map identity_uuid_of (uc_identities survivors)) =
       set (map identity_uuid_of (uc_identities (oc_view l))) - {u}"
    "\<not> list_ex (\<lambda>k. changed (by_uuid (uc_identities survivors) k) (by_uuid (uc_identities (oc_view l)) k))
       (map identity_uuid_of (uc_identities survivors))"
    "delete_request (li_user_id i) (li_uuid i) = Inr request" "length request = 20"
    "survivor_snapshot_sha256 D (uc_identities survivors) = Inr digest"
    "p = \<lparr>dp_apple_user_id = li_user_id i, dp_identity_uuid = u, dp_entity = li_entity i, dp_name = li_name i,
       dp_request = request, dp_survivor_snapshot_sha256 = digest, dp_archive = archive\<rparr>"
    by (auto simp: plan_target_def m Let_def res_simps)
  show thesis
    by (rule that [of i survivors]) (use i p delete_request_ok [OF p(4)] in \<open>auto simp: names_of list_ex_iff\<close>)
qed

section \<open>Properties\<close>

text \<open>What the constructor of a decoded Catacomb ensures.\<close>

definition codec_ok :: "catacomb_codec \<Rightarrow> bool" where
  "codec_ok cc = (\<forall>a n x. cc_decode cc a n = Inr x \<longrightarrow> catacomb_ok x \<and> uc_expected_user_id x = n)"

text \<open>
  C14: A plan removes exactly its target. The archive of a plan decodes to the identities of the local Catacomb without the one
  of the target's UUID, every survivor equal in all its fields; the digest is that of the survivors, and the 20 bytes of the
  request are the user of the target in little-endian order and the 16 bytes of its UUID.
\<close>

theorem plan_removes_exactly_target:
  assumes "plan_target D cc (Inr l) u = Inr p" and "catacomb_ok (oc_view l)" and "codec_ok cc"
  shows "\<exists>i survivors. i \<in> set (uc_identities (oc_view l)) \<and> identity_uuid_of i = u \<and> dp_identity_uuid p = u
    \<and> dp_entity p = li_entity i \<and> dp_name p = li_name i
    \<and> cc_decode cc (dp_archive p) (li_user_id i) = Inr survivors
    \<and> (\<forall>k. (\<exists>j \<in> set (uc_identities survivors). same_identity_record j k \<and> li_uuid j = li_uuid k \<and> k \<in> set (uc_identities (oc_view l)))
         \<longleftrightarrow> k \<in> set (uc_identities (oc_view l)) \<and> k \<noteq> i)
    \<and> survivor_snapshot_sha256 D (uc_identities survivors) = Inr (dp_survivor_snapshot_sha256 p)
    \<and> dp_request p = le_bytes 4 (li_user_id i) @ li_uuid i \<and> length (dp_request p) = 20"
proof -
  let ?c = "oc_view l"
  obtain i survivors where p: "i \<in> set (uc_identities ?c)" "identity_uuid_of i = u"
    "dp_apple_user_id p = li_user_id i" "dp_identity_uuid p = u" "dp_entity p = li_entity i" "dp_name p = li_name i"
    "cc_decode cc (dp_archive p) (li_user_id i) = Inr survivors" "identity_names survivors = identity_names ?c - {u}"
    "\<forall>k \<in> identity_names survivors. \<not> changed (by_uuid (uc_identities survivors) k) (by_uuid (uc_identities ?c) k)"
    "dp_request p = le_bytes 4 (li_user_id i) @ li_uuid i" "length (dp_request p) = 20"
    "survivor_snapshot_sha256 D (uc_identities survivors) = Inr (dp_survivor_snapshot_sha256 p)"
    using assms(1) by (rule plan_target_ok)
  have ok: "catacomb_ok survivors" using assms(3) p(7) by (auto simp: codec_ok_def)
  have len: "length (li_uuid j) = 16" if "catacomb_ok c" "j \<in> set (uc_identities c)" for c j
    using that by (simp add: catacomb_ok_def list_all_iff)
  have "(\<exists>j \<in> set (uc_identities survivors). same_identity_record j k \<and> li_uuid j = li_uuid k \<and> k \<in> set (uc_identities ?c))
      \<longleftrightarrow> k \<in> set (uc_identities ?c) \<and> k \<noteq> i" for k
  proof
    assume "\<exists>j \<in> set (uc_identities survivors). same_identity_record j k \<and> li_uuid j = li_uuid k \<and> k \<in> set (uc_identities ?c)"
    then obtain j where j: "j \<in> set (uc_identities survivors)" "li_uuid j = li_uuid k" "k \<in> set (uc_identities ?c)" by blast
    have "identity_uuid_of j \<in> identity_names survivors" using j(1) by (simp add: identity_names_def)
    with j p(2,8) show "k \<in> set (uc_identities ?c) \<and> k \<noteq> i" by auto
  next
    assume k: "k \<in> set (uc_identities ?c) \<and> k \<noteq> i"
    then have ne: "identity_uuid_of k \<noteq> u"
      using by_uuid_eq [OF assms(2), of u] p(1,2) by (metis option.inject)
    then have n: "identity_uuid_of k \<in> identity_names survivors" using k p(8) by (simp add: identity_names_def)
    then obtain j where j: "j \<in> set (uc_identities survivors)" "identity_uuid_of j = identity_uuid_of k"
      by (auto simp: identity_names_def)
    have "by_uuid (uc_identities survivors) (identity_uuid_of k) = Some j" "by_uuid (uc_identities ?c) (identity_uuid_of k) = Some k"
      using by_uuid_eq [OF ok] by_uuid_eq [OF assms(2)] j k by auto
    with p(9) n have "same_identity_record j k" by (auto simp: changed_def)
    with j k len [OF ok j(1)] len [OF assms(2), of k] show
      "\<exists>j \<in> set (uc_identities survivors). same_identity_record j k \<and> li_uuid j = li_uuid k \<and> k \<in> set (uc_identities ?c)"
      by (intro bexI [of _ j]) (auto simp: uuid_str_inj)
  qed
  with p show ?thesis by blast
qed

text \<open>
  C13: A planned deletion removes its target from the device and nothing else. When a run that was given the plan of a target
  reports \<^verbatim>\<open>sep-deleted\<close>, the inventory it collected after the command lists, for the user and globally, exactly the identities of
  the host's file without the target; when it reports \<^verbatim>\<open>not-deleted\<close>, exactly the identities of the host's file.
\<close>

theorem planned_deletion_removes_target:
  assumes "plan_target D cc (Inr l) u = Inr p" and "codec_ok cc" and "de_decode env = cc_decode cc"
    and "delete_setting env rs (oc_view l) s" and "delete_run env ws i p (oc_view l) s = (Inr result, s')"
  shows "\<exists>w w' d h. de_collect env w = (Inr (PyDict d), w') \<and> returned_effects p (PyDict d) h (sys_trace s') \<and> u \<in> identity_names (oc_view l)
    \<and> (dr_outcome result = ''sep-deleted'' \<and> both_list (dp_apple_user_id p) d (identity_names (oc_view l) - {u})
       \<or> dr_outcome result = ''not-deleted'' \<and> both_list (dp_apple_user_id p) d (identity_names (oc_view l)))"
proof -
  let ?c = "oc_view l"
  obtain k survivors where p: "k \<in> set (uc_identities ?c)" "identity_uuid_of k = u" "dp_apple_user_id p = li_user_id k"
    "cc_decode cc (dp_archive p) (li_user_id k) = Inr survivors" "identity_names survivors = identity_names ?c - {u}"
    using assms(1) by (rule plan_target_ok)
  have c: "catacomb_ok ?c" using assms(4) by (simp add: delete_setting_def)
  have uid: "uc_expected_user_id ?c = dp_apple_user_id p" using c p(1,3) by (simp add: catacomb_ok_def list_all_iff)
  have sv: "uc_expected_user_id survivors = dp_apple_user_id p" using assms(2) p(3,4) by (simp add: codec_ok_def)
  obtain h0 h :: delete_history and live w w' where
    live: "de_collect env w = (Inr live, w') \<and> returned_effects p live h (sys_trace s')" "result_true env p ?c h0 live result (dh_phase h)"
    using run_result [OF assms(4,5)] by (auto simp: run_returned_def)
  from live(2) obtain d where d: "live = PyDict d" by (auto simp: result_true_def)
  have decode: "de_decode env (dp_archive p) (dp_apple_user_id p) = Inr survivors" using assms(3) p(3,4) by simp
  have gone: "both_list (dp_apple_user_id p) d (identity_names ?c - {u})"
    if "reconciled survivors d \<or> finally_deleted survivors d x" for x
    using that
  proof
    assume "finally_deleted survivors d x"
    then have "identity_names survivors = {}" "both_list (uc_expected_user_id survivors) d {}"
      by (simp_all add: finally_deleted_def identity_names_def)
    then have "both_list (dp_apple_user_id p) d (identity_names survivors)" unfolding sv by simp
    then show ?thesis unfolding p(5) .
  qed (use p(5) sv in \<open>simp add: reconciled_def\<close>)
  have "both_list (dp_apple_user_id p) d (identity_names ?c)" if "reconciled ?c d"
    using that uid by (simp add: reconciled_def)
  with gone live(2) decode d have "dr_outcome result = ''sep-deleted'' \<and> both_list (dp_apple_user_id p) d (identity_names ?c - {u})
       \<or> dr_outcome result = ''not-deleted'' \<and> both_list (dp_apple_user_id p) d (identity_names ?c)"
    by (auto simp: result_true_def Let_def)
  moreover have "u \<in> identity_names ?c" using p(1,2) by (auto simp: identity_names_def)
  ultimately show ?thesis using live(1) d by blast
qed

section \<open>Recovery\<close>






end
