(* ===== verification/Delete_Operation_Samples.thy ===== *)
theory Delete_Operation_Samples
  imports Delete_Plan_Facts
begin

text \<open>
  Runs of the deletion operation on a sample journal, evaluated by the kernel: one whose reply the journal records and
  that ends with the proof of absence, and one whose reply carries a service event. They show that
  the hypotheses of the properties of the operation can hold.
\<close>

section \<open>Sample journals\<close>

text \<open>The fields of the \<open>n\<close>-th record, the record that a reading returns, and a file of such records.\<close>

definition sample_fields :: "nat \<times> string \<times> pydict \<Rightarrow> pydict" where
  "sample_fields = (\<lambda>(n, m, e). unsigned_fields (PyStr sample_id) n (if n = 0 then PyNone else PyStr (save_digest CHR ''f'')) m e)"

definition sample_reads :: "(string \<times> pydict) list \<Rightarrow> pydict list" where
  "sample_reads es = map (\<lambda>x. sorted_items (sample_fields x) @ [(KStr ''record_hash'', PyStr (save_digest CHR ''f''))]) (enumerate 0 es)"

definition sample_file :: "(string \<times> pydict) list \<Rightarrow> journal_file" where
  "sample_file es = \<lparr>jf_kind = RegularFile, jf_owned = True, jf_nlink = 1, jf_private = True,
     jf_data = concat (map (\<lambda>x. record_line (signed save_hash (sample_fields x))) (enumerate 0 es))\<rparr>"

definition sample_fs :: "(string \<times> pydict) list \<Rightarrow> journal_fs" where
  "sample_fs es = \<lparr>fs_parent = ParentDir True True, fs_file = Some (sample_file es)\<rparr>"

lemma sample_reads_snoc: "sample_reads (es @ [x]) = sample_reads es @ [read_back save_hash (sample_fields (length es, x))]"
  by (simp add: sample_reads_def enumerate_append_eq read_back_save_hash)

lemma sample_file_snoc:
  "sample_file (es @ [x]) = (sample_file es)\<lparr>jf_data := jf_data (sample_file es) @ record_line (signed save_hash (sample_fields (length es, x)))\<rparr>"
  by (simp add: sample_file_def enumerate_append_eq)

lemma sample_read_get:
  "dict_get (sorted_items (sample_fields x) @ [(KStr ''record_hash'', PyStr h)]) ''record_hash'' = PyStr h"
  "dict_get (sorted_items (sample_fields x) @ [(KStr ''record_hash'', PyStr h)]) ''operation_id'' = PyStr sample_id"
proof -
  obtain n m e where x: "x = (n, m, e)" by (rule prod_cases3)
  have d: "distinct (map fst (sample_fields x))" by (simp add: x sample_fields_def unsigned_fields_get)
  have "\<not> dict_has (sample_fields x) ''record_hash''" "dict_has (sample_fields x) ''operation_id''"
    by (simp_all add: x sample_fields_def unsigned_fields_def dict_has_def)
  moreover have "dict_get (sample_fields x) ''operation_id'' = PyStr sample_id"
    by (simp add: x sample_fields_def unsigned_fields_get)
  ultimately show
    "dict_get (sorted_items (sample_fields x) @ [(KStr ''record_hash'', PyStr h)]) ''record_hash'' = PyStr h"
    "dict_get (sorted_items (sample_fields x) @ [(KStr ''record_hash'', PyStr h)]) ''operation_id'' = PyStr sample_id"
    by (simp_all add: dict_get_append dict_has_sorted_items [OF d] dict_get_sorted_items [OF d])
qed

lemma sample_head:
  "length (sample_reads es) = length es"
  "head_hash (sample_reads es) = (if es = [] then PyNone else PyStr (save_digest CHR ''f''))"
  "es \<noteq> [] \<Longrightarrow> dict_get (hd (sample_reads es)) ''operation_id'' = PyStr sample_id"
  subgoal by (simp add: sample_reads_def)
  subgoal by (cases es rule: rev_cases)
      (simp_all add: sample_reads_snoc head_hash_def read_back_save_hash sample_read_get, simp add: sample_reads_def)
  subgoal by (cases es) (simp_all add: sample_reads_def sample_read_get)
  done

lemma sample_reads_Nil: "sample_reads es = [] \<longleftrightarrow> es = []"
  using sample_head(1) [of es] by (metis length_0_conv)

lemma sample_holds:
  "list_all (\<lambda>(m, e). plain (PyDict e) \<and> \<not> is_repair_milestone (PyStr m)) es \<Longrightarrow>
   holds save_hash (jf_data (sample_file es)) (sample_reads es)"
proof (induction es rule: rev_induct)
  case Nil
  then show ?case using holds_Nil by (simp add: sample_file_def sample_reads_def)
next
  case (snoc x es)
  obtain m e where x: "x = (m, e)" by fastforce
  have "sample_fields (length es, x) = unsigned_fields (PyStr sample_id) (length (sample_reads es)) (head_hash (sample_reads es)) m e"
    by (simp add: x sample_fields_def sample_head)
  note u = this
  have ne: "sample_reads es \<noteq> [] \<longrightarrow> dict_get (hd (sample_reads es)) ''operation_id'' = PyStr sample_id"
    using sample_head(3) by (simp add: sample_reads_Nil)
  have p: "plain (PyDict e)" "\<not> is_repair_milestone (PyStr m)" "holds save_hash (jf_data (sample_file es)) (sample_reads es)"
    using snoc x by (simp_all del: plain.simps)
  from holds_snoc(1) [OF p(3,1) ne u] p(2) show ?case by (simp add: sample_file_snoc sample_reads_snoc)
qed

lemma delete_history_head:
  assumes "delete_validate_history H rs = Inr h"
  shows "dh_record_count h = int (length rs)" and "dh_head_hash h = str_of (head_hash rs)"
  using assms by (cases rs; auto simp: delete_validate_history_def head_hash_def res_simps Let_def)+

text \<open>What is evaluated for a sample journal and for an append to one.\<close>

definition sample_ok :: "(string \<times> pydict) list \<Rightarrow> bool" where
  "sample_ok es = (length es \<le> 100 \<and> list_all (\<lambda>(m, e). plain (PyDict e) \<and> \<not> is_repair_milestone (PyStr m)) es
     \<and> list_all (\<lambda>x. int (length (record_line (signed save_hash (sample_fields x)))) \<le> 16000) (enumerate 0 es))"

lemma sample_ok_snoc: "sample_ok (es @ [x]) \<Longrightarrow> sample_ok es
    \<and> int (length (record_line (signed save_hash (sample_fields (length es, x))))) \<le> 16000 \<and> plain (PyDict (snd x))"
  by (simp add: sample_ok_def enumerate_append_eq case_prod_unfold del: plain.simps)

lemma sample_size: "sample_ok es \<Longrightarrow> int (length (jf_data (sample_file es))) \<le> 16000 * int (length es)"
proof (induction es rule: rev_induct)
  case (snoc x es)
  with sample_ok_snoc [OF snoc.prems] show ?case by (simp add: sample_file_snoc)
qed (simp add: sample_file_def)

lemma sample_open: "sample_ok es \<Longrightarrow> open_private (sample_fs es) = Inr (sample_file es)"
  using sample_size [of es]
  by (simp add: open_private_Inr sample_fs_def private_file_def MAX_JOURNAL_BYTES_def sample_ok_def)
    (simp add: sample_file_def)

definition sample_history :: "(string \<times> pydict) list \<Rightarrow> delete_history" where
  "sample_history es = projr (delete_validate_history save_hash (sample_reads es))"

definition sample_valid :: "(string \<times> pydict) list \<Rightarrow> bool" where
  "sample_valid es = (case delete_validate_history save_hash (sample_reads es) of
     Inl _ \<Rightarrow> False | Inr h \<Rightarrow> dh_operation_id h = sample_id)"

lemma sample_validD: "sample_valid es \<Longrightarrow>
  delete_validate_history save_hash (sample_reads es) = Inr (sample_history es) \<and> dh_operation_id (sample_history es) = sample_id"
  by (auto simp: sample_valid_def sample_history_def split: sum.splits)

lemma sample_append:
  assumes v: "sample_valid es" "sample_valid (es @ [(m, e)])"
    and c: "\<not> isl (delete_validate_history save_hash (sample_reads es @ [candidate_record sample_id m e]))"
    and a: "append_checks sample_id m e (Some (int (length es))) (Some (save_digest CHR ''f'')) = Inr ()"
    and ok: "sample_ok (es @ [(m, e)])" "es \<noteq> []"
  shows "delete_append_checked save_hash [] [] [] [] sample_id m e (sample_fs es) =
    (Inr (sample_history (es @ [(m, e)])), sample_fs (es @ [(m, e)]))"
proof -
  let ?h = "sample_history es"
  note h = sample_validD [OF v(1), THEN conjunct1] sample_validD [OF v(1), THEN conjunct2]
  note h2 = sample_validD [OF v(2), THEN conjunct1, unfolded sample_reads_snoc]
  note s = sample_ok_snoc [OF ok(1)]
  have ne: "sample_reads es \<noteq> []" using ok(2) by (simp add: sample_reads_Nil)
  have hh: "dh_record_count ?h = int (length es)" "dh_head_hash ?h = save_digest CHR ''f''"
    using delete_history_head [OF h(1)] ok(2) by (simp_all add: sample_head(1,2))
  have holds: "holds save_hash (jf_data (sample_file es)) (sample_reads es)"
    using s by (intro sample_holds) (simp add: sample_ok_def)
  have len: "length es \<le> 100" using s by (simp add: sample_ok_def)
  from isr_eq [OF c] obtain h1 where h1: "delete_validate_history save_hash (sample_reads es @ [candidate_record sample_id m e]) = Inr h1" by blast
  show ?thesis
  proof (rule deletion_append.append_succeeds(1) [OF sample_open _ holds ne _ _ h(1,2) _ _ _ _ h1 h2])
    show "sample_fields (length es, m, e) = unsigned_fields (PyStr sample_id) (length (sample_reads es)) (head_hash (sample_reads es)) m e"
      using ok(2) by (simp add: sample_fields_def sample_head)
    show "sample_fs (es @ [(m, e)]) = (sample_fs es)\<lparr>fs_file := Some (sample_file (es @ [(m, e)]))\<rparr>" by (simp add: sample_fs_def)
    show "sample_file (es @ [(m, e)]) = (sample_file es)\<lparr>jf_data := jf_data (sample_file es) @ record_line (signed save_hash (sample_fields (length es, m, e)))\<rparr>"
      by (rule sample_file_snoc)
    show "plain (PyDict e)" using s by simp
    show "sample_ok es" using s by simp
    show "int (length (jf_data (sample_file es))) + int (length (record_line (signed save_hash (sample_fields (length es, m, e))))) \<le> MAX_JOURNAL_BYTES"
      using s sample_size [of es] len by (simp add: MAX_JOURNAL_BYTES_def)
  qed (use a hh len ok(2) sample_head [of es] in \<open>simp_all add: sample_fs_def\<close>)
qed

section \<open>A sample deletion\<close>

text \<open>The journal of the sample deletion up to its intent, and the milestones of the run.\<close>

definition sd_intent :: "(string \<times> pydict) list" where
  "sd_intent =
     [(''BASELINE_RECONCILED'', [(KStr ''operation_kind'', PyStr ''delete-one''), (KStr ''baseline'', sample_baseline)]),
      (''DELETE_INTENT'', dict_of (dict_get (del_command ! 1) ''evidence''))]"

definition sd_dispatched :: "(string \<times> pydict) list" where
  "sd_dispatched = sd_intent @ [(''DELETE_DISPATCH_INTENT'', dict_of (dict_get (del_command ! 2) ''evidence''))]"

definition sd_observed :: "(string \<times> pydict) list" where
  "sd_observed = sd_dispatched @ [(''DELETE_COMMAND_OBSERVED'', dict_of (dict_get (del_command ! 3) ''evidence''))]"

definition sd_deleted :: "(string \<times> pydict) list" where
  "sd_deleted = sd_observed @ [(''DELETE_SEP_ABSENCE_OBSERVED'', dict_of (dict_get (del_saved ! 0) ''evidence''))]"

lemmas sd_defs = sd_deleted_def sd_observed_def sd_dispatched_def sd_intent_def

lemma sd_ok: "sample_ok sd_deleted" by code_simp

lemma sd_checks:
  "append_checks sample_id ''DELETE_DISPATCH_INTENT'' (dict_of (dict_get (del_command ! 2) ''evidence'')) (Some 2) (Some (save_digest CHR ''f'')) = Inr ()"
  "append_checks sample_id ''DELETE_COMMAND_OBSERVED'' (dict_of (dict_get (del_command ! 3) ''evidence'')) (Some 3) (Some (save_digest CHR ''f'')) = Inr ()"
  "append_checks sample_id ''DELETE_SEP_ABSENCE_OBSERVED'' (dict_of (dict_get (del_saved ! 0) ''evidence'')) (Some 4) (Some (save_digest CHR ''f'')) = Inr ()"
  by code_simp+

definition sd_ready :: delete_state where
  "sd_ready = del_ready\<lparr>ds_baseline := dict_of (sort_dicts sample_baseline),
     ds_persistence := projr (tracker_init (dict_of (sort_dicts sample_baseline)) ''identity-delete'')\<rparr>"

lemma sd_start: "delete_start (hd (sample_reads sd_intent)) = Inr sd_ready"
  by code_simp

lemma sd_eval: "rs = hd (sample_reads sd_intent) # rest \<Longrightarrow> delete_validate_history save_hash rs =
    and_then (fold_res (delete_step save_hash) rest sd_ready) (delete_history_of rs)"
  using delete_validate_from [OF sd_start] by simp

lemma sd_reads: "sample_reads (sd_intent @ es) = hd (sample_reads sd_intent) # tl (sample_reads (sd_intent @ es))"
  by (simp add: sd_intent_def sample_reads_def)

lemma sd_histories:
  "sample_valid sd_deleted" "sample_valid sd_observed" "sample_valid sd_dispatched"
  unfolding sample_valid_def sd_deleted_def sd_observed_def sd_dispatched_def append_assoc sd_eval [OF sd_reads] by code_simp+

lemma sd_intent_history: "sample_valid sd_intent"
  unfolding sample_valid_def sd_eval [OF sd_reads [of "[]", unfolded append_Nil2]] by code_simp

lemma sd_eval_snoc: "delete_validate_history save_hash (sample_reads (sd_intent @ es) @ [c]) =
    and_then (fold_res (delete_step save_hash) (tl (sample_reads (sd_intent @ es)) @ [c]) sd_ready)
      (delete_history_of (sample_reads (sd_intent @ es) @ [c]))"
  by (rule sd_eval) (subst sd_reads, simp)

lemma sd_candidates:
  "\<not> isl (delete_validate_history save_hash (sample_reads sd_intent @
     [candidate_record sample_id ''DELETE_DISPATCH_INTENT'' (dict_of (dict_get (del_command ! 2) ''evidence''))]))"
  "\<not> isl (delete_validate_history save_hash (sample_reads sd_dispatched @
     [candidate_record sample_id ''DELETE_COMMAND_OBSERVED'' (dict_of (dict_get (del_command ! 3) ''evidence''))]))"
  "\<not> isl (delete_validate_history save_hash (sample_reads sd_observed @
     [candidate_record sample_id ''DELETE_SEP_ABSENCE_OBSERVED'' (dict_of (dict_get (del_saved ! 0) ''evidence''))]))"
  unfolding sd_observed_def sd_dispatched_def append_assoc
    sd_eval_snoc sd_eval_snoc [of "[]", unfolded append_Nil2] by code_simp+

definition sd_plan :: identity_delete_plan where
  "sd_plan = \<lparr>dp_apple_user_id = 501, dp_identity_uuid = str_of (sample_uuid CHR ''1''), dp_entity = 0, dp_name = ''finger'',
     dp_request = le_bytes 4 501 @ replicate 16 0x11, dp_survivor_snapshot_sha256 = replicate 64 CHR ''7'', dp_archive = []\<rparr>"

definition sd_catacomb :: user_catacomb where
  "sd_catacomb = \<lparr>uc_expected_user_id = 501,
     uc_identities = [\<lparr>li_uuid = replicate 16 0x11, li_user_id = 501, li_entity = 0, li_name = ''finger'', li_metadata = PyNone\<rparr>]\<rparr>"

definition sd_survivors :: user_catacomb where
  "sd_survivors = \<lparr>uc_expected_user_id = 501, uc_identities = []\<rparr>"

text \<open>A codec that knows two archives: the empty one of the survivors, and that of the host's file.\<close>

definition sd_codec :: catacomb_codec where
  "sd_codec =
     \<lparr>cc_decode = (\<lambda>a n. if n \<noteq> 501 then Inl (Exc CatacombCodecError ''Catacomb user ID does not match pinned user'')
        else Inr (if a = [] then sd_survivors else sd_catacomb)),
      cc_plan_delete = (\<lambda>a n u. Inr []), cc_replace_secure_data = (\<lambda>a n b. Inr a), cc_secure_data = (\<lambda>a n. [])\<rparr>"

definition sd_opened :: opened_catacomb where
  "sd_opened = \<lparr>oc_archive = [1], oc_view = sd_catacomb\<rparr>"

definition sd_live :: pyval where
  "sd_live = PyDict [(KStr ''connection_generation'', sample_uuid CHR ''d''), (KStr ''double_collection_equal'', PyBool True),
     (KStr ''apple_uid'', PyInt 501), (KStr ''biometric_protocol_version'', PyInt 2),
     (KStr ''catacomb'', PyDict [(KStr ''present'', PyBool True)]),
     (KStr ''per_user_identity_records'', PyList []), (KStr ''global_identity_records'', PyList [])]"

definition sd_env :: "pyval list \<Rightarrow> unit delete_env" where
  "sd_env events =
     \<lparr>de_record_hash = save_hash, de_sha256 = (\<lambda>_. replicate 32 0x66), de_writes = (\<lambda>w. (([], [], [], []), w)),
      de_generation = str_of (sample_uuid CHR ''d''), de_lease_generation = (\<lambda>_. str_of (sample_uuid CHR ''d'')),
      de_command = (\<lambda>_ w. (Inr (PyList [PyInt 0, PyBytes []], PyList events), w)), de_invalidate = (\<lambda>w. (Inr (), w)),
      de_collect = (\<lambda>w. (Inr sd_live, w)), de_decode = cc_decode sd_codec\<rparr>"

text \<open>A service event as the Bridge sends them.\<close>

definition sd_event :: pyval where
  "sd_event = PyList [PyInt 9, PyInt BRIDGE_SERVICE_STATUS, PyBytes (replicate (struct_size SERVICE_HEADER) 0), PyNone, PyNone]"

definition sd_state :: "unit delete_system" where
  "sd_state = \<lparr>sys_world = (), sys_fs = sample_fs sd_intent, sys_bridge = BRIDGE_READY, sys_trace = []\<rparr>"

lemma sd_planned:
  "case delete_validate_history save_hash (sample_reads sd_intent) of Inl _ \<Rightarrow> False
   | Inr h \<Rightarrow> \<not> plan_differs (sd_env []) h sample_id sd_plan sd_catacomb
       \<and> dispatch_evidence h sd_plan = dict_of (dict_get (del_command ! 2) ''evidence'')"
  unfolding sd_eval [OF sd_reads [of "[]", unfolded append_Nil2]] by code_simp

lemma sd_evidence:
  "command_evidence (PyStr (str_of (sample_uuid CHR ''d''))) sd_plan
     \<lparr>dc_status = 0, dc_output_length = 0, dc_service_event_count = 0\<rparr> = dict_of (dict_get (del_command ! 3) ''evidence'')"
  "absence_evidence (PyStr (str_of (sample_uuid CHR ''d''))) sd_plan (inventory_summary []) =
     dict_of (dict_get (del_saved ! 0) ''evidence'')"
  by code_simp+

lemma sd_replies:
  "check_delete_reply True (PyList [PyInt 0, PyBytes []]) (PyList []) =
     Inr \<lparr>dc_status = 0, dc_output_length = 0, dc_service_event_count = 0\<rparr>"
  "summarize (Inr sd_survivors) sd_live = Inr (inventory_summary [])"
  "catacomb_ok sd_catacomb" "catacomb_ok sd_survivors"
  by code_simp+

lemma sd_event_reply:
  "check_delete_reply True (PyList [PyInt 0, PyBytes []]) (PyList [sd_event]) =
     Inr \<lparr>dc_status = 0, dc_output_length = 0, dc_service_event_count = 1\<rparr>"
  by (simp add: check_delete_reply_def delete_event_ok_def sd_event_def is_biometric_nil_output_def py_simps Let_def)

lemmas sd_valid = sd_histories [THEN sample_validD, THEN conjunct1] sd_intent_history [THEN sample_validD, THEN conjunct1]

lemma sd_ok_all: "sample_ok sd_observed" "sample_ok sd_dispatched" "sample_ok sd_intent"
proof -
  note a = sample_ok_snoc [OF sd_ok [unfolded sd_deleted_def], THEN conjunct1]
  note b = sample_ok_snoc [OF a [unfolded sd_observed_def], THEN conjunct1]
  note c = sample_ok_snoc [OF b [unfolded sd_dispatched_def], THEN conjunct1]
  show "sample_ok sd_observed" "sample_ok sd_dispatched" "sample_ok sd_intent" by (fact a b c)+
qed

lemma sd_lengths: "length sd_intent = 2" "length sd_dispatched = 3" "length sd_observed = 4" "sd_intent \<noteq> []"
  "sd_dispatched \<noteq> []" "sd_observed \<noteq> []"
  by (simp_all add: sd_defs)

lemma sd_appends:
  "delete_append_checked save_hash [] [] [] [] sample_id ''DELETE_DISPATCH_INTENT'' (dict_of (dict_get (del_command ! 2) ''evidence''))
     (sample_fs sd_intent) = (Inr (sample_history sd_dispatched), sample_fs sd_dispatched)"
  "delete_append_checked save_hash [] [] [] [] sample_id ''DELETE_COMMAND_OBSERVED'' (dict_of (dict_get (del_command ! 3) ''evidence''))
     (sample_fs sd_dispatched) = (Inr (sample_history sd_observed), sample_fs sd_observed)"
  "delete_append_checked save_hash [] [] [] [] sample_id ''DELETE_SEP_ABSENCE_OBSERVED'' (dict_of (dict_get (del_saved ! 0) ''evidence''))
     (sample_fs sd_observed) = (Inr (sample_history sd_deleted), sample_fs sd_deleted)"
  using sample_append [OF sd_intent_history _ sd_candidates(1), folded sd_dispatched_def]
    sample_append [OF sd_histories(3) _ sd_candidates(2), folded sd_observed_def]
    sample_append [OF sd_histories(2) _ sd_candidates(3), folded sd_deleted_def]
    sd_histories sd_checks sd_ok sd_ok_all sd_lengths by auto

lemma sd_history:
  "sys_fs s = sample_fs sd_intent \<Longrightarrow> delete_history_read (sd_env events) [] s = (Inr (sample_history sd_intent), s)"
proof -
  have "read_journal save_hash [] (sample_fs sd_intent) = (Inr (sample_reads sd_intent), sample_fs sd_intent)"
    using sd_ok_all(3) by (intro read_journal_holds [OF sample_open sample_holds]) (simp_all add: sample_ok_def sample_head)
  moreover assume "sys_fs s = sample_fs sd_intent"
  ultimately show ?thesis by (simp add: delete_history_read_def delete_read_def sd_env_def sd_valid)
qed

lemma sd_plan_fits: "\<not> plan_differs (sd_env events) (sample_history sd_intent) sample_id sd_plan sd_catacomb"
  "dispatch_evidence (sample_history sd_intent) sd_plan = dict_of (dict_get (del_command ! 2) ''evidence'')"
  using sd_planned sd_valid by (simp_all add: plan_differs_def sd_env_def)

text \<open>The run with a reply without events, and the run with a reply that has one.\<close>

lemma sd_generation: "dict_get (dh_baseline (sample_history sd_intent)) ''connection_generation'' = PyStr (str_of (sample_uuid CHR ''d''))"
  using not_planned(1) [OF sd_plan_fits(1), of "[]"] by (simp add: sd_env_def)

lemma sd_append: "delete_append (sd_env events) i m e s =
    (case delete_append_checked save_hash [] [] [] [] i m e (sys_fs s) of (r, fs) \<Rightarrow>
       (r, s\<lparr>sys_fs := fs, sys_trace := sys_trace s @ [Appended (sys_fs s) m e r]\<rparr>))"
  by (simp add: delete_append_def sd_env_def split: prod.splits)

lemma sd_bridge: "check_delete_reply True (PyList [PyInt 0, PyBytes []]) (PyList events) = Inr command \<Longrightarrow>
  sys_bridge s = BRIDGE_READY \<Longrightarrow> bridge_delete (sd_env events) (dp_request sd_plan) s =
    (Inr command, s\<lparr>sys_trace := sys_trace s @ [Dispatched (dp_request sd_plan)], sys_bridge := BRIDGE_DISPATCHED\<rparr>)"
  by (simp add: bridge_delete_def sd_env_def sd_plan_def op_catch_def op_bind_def sys_call_def bridge_become_def op_lift_def)

lemma sd_concludes: "sys_fs s = sample_fs sd_observed \<Longrightarrow>
  conclude_delete (sd_env events) sample_id sd_plan sd_catacomb h (PyStr (str_of (sample_uuid CHR ''d'')))
    \<lparr>dc_status = 0, dc_output_length = 0, dc_service_event_count = 0\<rparr> sd_live s =
  (Inr \<lparr>dr_outcome = ''sep-deleted'', dr_command_status = 0\<rparr>,
   s\<lparr>sys_fs := sample_fs sd_deleted, sys_trace := sys_trace s @ [Appended (sample_fs sd_observed) ''DELETE_SEP_ABSENCE_OBSERVED''
      (dict_of (dict_get (del_saved ! 0) ''evidence'')) (Inr (sample_history sd_deleted))]\<rparr>)"
proof -
  have "de_decode (sd_env events) (dp_archive sd_plan) (dp_apple_user_id sd_plan) = Inr sd_survivors"
    by (simp add: sd_env_def sd_codec_def sd_plan_def)
  moreover have "survivor_summary sd_survivors sd_live u = Inr (Some (inventory_summary []))" for u
    by (simp add: survivor_summary_def or_none_def sd_replies)
  moreover assume "sys_fs s = sample_fs sd_observed"
  ultimately show ?thesis
    by (simp add: conclude_delete_def op_bind_def op_lift_def op_return_def sd_append sd_evidence sd_appends)
qed

lemma sd_run: "\<exists>s'. delete_run (sd_env []) [] sample_id sd_plan sd_catacomb sd_state =
    (Inr \<lparr>dr_outcome = ''sep-deleted'', dr_command_status = 0\<rparr>, s')
  \<and> sys_fs s' = sample_fs sd_deleted \<and> sends (sys_trace s')"
proof -
  have "sys_fs sd_state = sample_fs sd_intent" "sys_bridge sd_state = BRIDGE_READY" "de_collect (sd_env []) w = (Inr sd_live, w)" for w
    by (simp_all add: sd_state_def sd_env_def)
  moreover have "isinstance_dict sd_live" "dict_get (dict_of sd_live) ''connection_generation'' = PyStr (str_of (sample_uuid CHR ''d''))"
    by (simp_all add: sd_live_def py_simps sample_uuid_def)
  ultimately show ?thesis
    by (simp add: delete_run_def op_bind_def sd_history sd_generation sd_plan_fits sd_append sd_appends op_catch_def sd_bridge
        sd_replies sd_evidence after_command_def sys_call_def sd_concludes Let_def)
qed

lemma sd_setting: "delete_setting (sd_env events) (sample_reads sd_intent) sd_catacomb sd_state"
proof -
  have "clean save_hash (sample_reads sd_intent) (sample_fs sd_intent)"
    using sd_ok_all(3) by (intro open_clean [OF sample_open sample_holds]) (simp_all add: sample_ok_def)
  then show ?thesis by (auto simp: delete_setting_def sd_env_def sd_state_def sd_codec_def sd_replies)
qed

theorem delete_dispatch_announced_witness:
  "\<exists>r s'. delete_run (sd_env []) [] sample_id sd_plan sd_catacomb sd_state = (r, s')
     \<and> sends (sys_trace s') \<and> announced (sd_env []) sd_plan (sys_trace s')"
proof -
  obtain r s' where run: "delete_run (sd_env []) [] sample_id sd_plan sd_catacomb sd_state = (r, s')" "sends (sys_trace s')"
    using sd_run by blast
  with delete_dispatch_announced [OF sd_setting run(1)] show ?thesis by blast
qed

theorem delete_result_is_durable_witness:
  "\<exists>r s' h live. delete_run (sd_env []) [] sample_id sd_plan sd_catacomb sd_state = (Inr r, s')
     \<and> returned_effects sd_plan live h (sys_trace s') \<and> dr_outcome r = ''sep-deleted'' \<and> dh_command_status h = Some 0 \<and> dh_phase h = D_SEP_DELETED
     \<and> (\<exists>qs. clean save_hash (sample_reads sd_intent @ qs) (sys_fs s')
          \<and> delete_validate_history save_hash (sample_reads sd_intent @ qs) = Inr h)"
proof -
  obtain s' where run: "delete_run (sd_env []) [] sample_id sd_plan sd_catacomb sd_state =
      (Inr \<lparr>dr_outcome = ''sep-deleted'', dr_command_status = 0\<rparr>, s')" using sd_run by blast
  have H: "de_record_hash (sd_env []) = save_hash" by (simp add: sd_env_def)
  from delete_result_is_durable [OF sd_setting run] run show ?thesis
    unfolding H result_true_def Let_def by fastforce
qed

theorem dispatched_delete_not_forgotten_witness:
  "\<exists>h. delete_read save_hash [] (sample_fs sd_deleted) = (Inr h, sample_fs sd_deleted)
     \<and> dh_phase h \<notin> {D_BASELINE, D_INTENT} \<and> dh_target_identity_uuid h = PyStr (dp_identity_uuid sd_plan)"
proof -
  obtain r s' where run: "delete_run (sd_env []) [] sample_id sd_plan sd_catacomb sd_state = (r, s')" "sends (sys_trace s')"
    "sys_fs s' = sample_fs sd_deleted" using sd_run by blast
  have "read_journal save_hash [] (sample_fs sd_deleted) = (Inr (sample_reads sd_deleted), sample_fs sd_deleted)"
    using sd_ok by (intro read_journal_holds [OF sample_open sample_holds]) (simp_all add: sample_ok_def sample_head)
  then have "delete_read save_hash [] (sample_fs sd_deleted) = (Inr (sample_history sd_deleted), sample_fs sd_deleted)"
    by (simp add: delete_read_def sd_valid)
  with dispatched_delete_not_forgotten [OF sd_setting run(1,2), of "[]"] run(3) show ?thesis by (simp add: sd_env_def)
qed

lemma sd_events_sent: "wp (delete_run (sd_env [sd_event]) [] sample_id sd_plan sd_catacomb)
    (\<lambda>_ s'. sends (sys_trace s')) (\<lambda>_ s'. sends (sys_trace s')) sd_state"
proof -
  let ?S = "\<lambda>_ s' :: unit delete_system. sends (sys_trace s')"
  let ?e = "dict_of (dict_get (del_command ! 2) ''evidence'')"
  let ?c = "\<lparr>dc_status = 0, dc_output_length = 0, dc_service_event_count = 1\<rparr>"
  let ?s1 = "sd_state\<lparr>sys_fs := sample_fs sd_dispatched, sys_trace := [Appended (sample_fs sd_intent) ''DELETE_DISPATCH_INTENT''
     ?e (Inr (sample_history sd_dispatched))]\<rparr>"
  let ?s2 = "?s1\<lparr>sys_trace := sys_trace ?s1 @ [Dispatched (dp_request sd_plan)], sys_bridge := BRIDGE_DISPATCHED\<rparr>"
  have s: "sys_fs sd_state = sample_fs sd_intent" "sys_bridge sd_state = BRIDGE_READY" "sys_trace sd_state = []"
    by (simp_all add: sd_state_def)
  have H: "de_record_hash (sd_env events) = save_hash" for events by (simp add: sd_env_def)
  have j: "journal_shows (sd_env [sd_event]) (sample_reads sd_dispatched) (sample_history sd_dispatched) (sys_fs ?s2)"
    using sd_ok_all(2) sd_valid
    by (auto simp: journal_shows_def H sample_ok_def intro: open_clean [OF sample_open [OF sd_ok_all(2)] sample_holds])
  have "wp (delete_append (sd_env [sd_event]) sample_id ''DELETE_COMMAND_OBSERVED''
      (command_evidence (PyStr (str_of (sample_uuid CHR ''d''))) sd_plan ?c)) Q ?S ?s2" for Q
    by (rule append_refused [OF j _ events_not_recorded]) (auto simp: is_repair_milestone_def REPAIR_MILESTONE_def)
  then have rest: "wp (op_bind (delete_append (sd_env [sd_event]) sample_id ''DELETE_COMMAND_OBSERVED''
      (command_evidence (PyStr (str_of (sample_uuid CHR ''d''))) sd_plan ?c)) f) ?S ?S ?s2" for f
    by (simp only: wp_bind)
  have "delete_run (sd_env [sd_event]) [] sample_id sd_plan sd_catacomb sd_state =
      op_bind (delete_append (sd_env [sd_event]) sample_id ''DELETE_COMMAND_OBSERVED''
        (command_evidence (PyStr (str_of (sample_uuid CHR ''d''))) sd_plan ?c)) (\<lambda>_.
      after_command (sd_env [sd_event]) sample_id sd_plan sd_catacomb (sample_history sd_intent)
        (PyStr (str_of (sample_uuid CHR ''d''))) ?c) ?s2"
    by (simp add: delete_run_def op_bind_def [of "delete_history_read env ws" for env ws] sd_history s sd_generation sd_plan_fits
        op_bind_def [of "delete_append (sd_env [sd_event]) sample_id ''DELETE_DISPATCH_INTENT'' ev" for ev] sd_append sd_appends
        op_bind_def [of "op_catch m f" for m f] op_catch_def sd_bridge [OF sd_event_reply] Let_def)
  with rest show ?thesis by (simp add: wp_def)
qed

theorem service_event_strands_delete_witness:
  "\<exists>e s'. delete_run (sd_env [sd_event]) [] sample_id sd_plan sd_catacomb sd_state = (Inl e, s')
     \<and> (\<exists>fs ev. last (sys_trace s') = Appended fs ''DELETE_COMMAND_OBSERVED'' ev (Inl e))"
proof -
  have event: "\<exists>command. accepted_reply (sd_env [sd_event]) (dp_request sd_plan) w = Some command
      \<and> 0 < dc_service_event_count command" for w
    by (simp add: accepted_reply_def sd_env_def sd_event_reply)
  obtain r s' where run: "delete_run (sd_env [sd_event]) [] sample_id sd_plan sd_catacomb sd_state = (r, s')" by fastforce
  with sd_events_sent have sent: "sends (sys_trace s')" by (simp add: wp_def split: sum.splits)
  have set: "clean (de_record_hash (sd_env [sd_event])) (sample_reads sd_intent) (sys_fs sd_state)" "sys_trace sd_state = []"
    using sd_setting [of "[sd_event]"] by (simp_all add: delete_setting_def)
  from service_event_strands_delete [OF set event run sent] run show ?thesis by auto
qed

text \<open>The plan of the run, made by the code, and rebuilt from the survivors.\<close>

definition sd_digest :: "string \<Rightarrow> string" where
  "sd_digest _ = replicate 64 CHR ''7''"

lemma sd_planned_by_code: "plan_target sd_digest sd_codec (Inr sd_opened) (str_of (sample_uuid CHR ''1'')) = Inr sd_plan"
  by code_simp

lemma sd_codec_ok: "codec_ok sd_codec"
  using sd_replies(3,4) by (auto simp: codec_ok_def sd_codec_def sd_catacomb_def sd_survivors_def)

theorem plan_removes_exactly_target_witness:
  "\<exists>i survivors. i \<in> set (uc_identities sd_catacomb) \<and> cc_decode sd_codec (dp_archive sd_plan) (li_user_id i) = Inr survivors
     \<and> dp_request sd_plan = le_bytes 4 (li_user_id i) @ li_uuid i"
proof -
  have "oc_view sd_opened = sd_catacomb" by (simp add: sd_opened_def)
  with plan_removes_exactly_target [OF sd_planned_by_code _ sd_codec_ok] sd_replies(3) show ?thesis by fastforce
qed

theorem planned_deletion_removes_target_witness:
  "\<exists>r s' d h. delete_run (sd_env []) [] sample_id sd_plan sd_catacomb sd_state = (Inr r, s')
     \<and> returned_effects sd_plan (PyDict d) h (sys_trace s')
     \<and> both_list 501 d (identity_names sd_catacomb - {str_of (sample_uuid CHR ''1'')})"
proof -
  obtain s' where run: "delete_run (sd_env []) [] sample_id sd_plan sd_catacomb sd_state =
      (Inr \<lparr>dr_outcome = ''sep-deleted'', dr_command_status = 0\<rparr>, s')" using sd_run by blast
  have v: "oc_view sd_opened = sd_catacomb" "de_decode (sd_env []) = cc_decode sd_codec" "dp_apple_user_id sd_plan = 501"
    by (simp_all add: sd_opened_def sd_env_def sd_plan_def)
  from planned_deletion_removes_target [OF sd_planned_by_code sd_codec_ok v(2), unfolded v(1,3), OF sd_setting run] run
  show ?thesis by auto
qed


end
