(* ===== verification/Acm_Protocol.thy ===== *)
theory Acm_Protocol
  imports Byte_Struct
begin

text \<open>
  The framing of the Apple Credential Manager commands, \<^verbatim>\<open>src/src/t2_acm_protocol.py\<close>: context handles,
  the six commands of the context lifecycle, the two replies that are parsed, and the check that the
  device client makes on every command before it sends it. An argument whose type the source tests is a
  \<open>pyval\<close>; where it tests for a \<^verbatim>\<open>ContextHandle\<close>, the argument is a handle (\<open>Inr\<close>) or another object (\<open>Inl\<close>).
\<close>

section \<open>Constants\<close>

definition MAGIC :: bytes where "MAGIC = bytes_lit ''DRCS''"
definition ACM_VERSION :: int where "ACM_VERSION = 1"
definition HEADER_SIZE :: nat where "HEADER_SIZE = 8"
definition CONTEXT_SIZE :: nat where "CONTEXT_SIZE = 16"
definition OP_CONTEXT_CREATE :: int where "OP_CONTEXT_CREATE = 0x01"
definition OP_CONTEXT_DELETE :: int where "OP_CONTEXT_DELETE = 0x02"
definition OP_VERIFY_POLICY :: int where "OP_VERIFY_POLICY = 0x03"
definition OP_CONTEXT_EXTERNALIZE :: int where "OP_CONTEXT_EXTERNALIZE = 0x13"
definition OP_CONTEXT_CREATE_TRACKING :: int where "OP_CONTEXT_CREATE_TRACKING = 0x24"
definition OP_IDENTITY_SECRET_SET :: int where "OP_IDENTITY_SECRET_SET = 0x28"
definition ENROLLMENT_POLICY :: bytes where "ENROLLMENT_POLICY = bytes_lit ''TouchIdEnrollment''"
definition POLICY_RESPONSE_CAPACITY :: nat where "POLICY_RESPONSE_CAPACITY = 0x1000"
definition IDENTITY_SECRET_TYPE :: int where "IDENTITY_SECRET_TYPE = 5"
definition IDENTITY_SECRET_MAX_SIZE :: nat where "IDENTITY_SECRET_MAX_SIZE = 0x80"
definition SIMPLE_REQUIREMENT_TYPES :: "int set" where
  "SIMPLE_REQUIREMENT_TYPES = {1, 2, 3, 6} \<union> {8..<16} \<union> {18..<29}"

abbreviation acm_error :: "string \<Rightarrow> exc" where
  "acm_error \<equiv> Exc ACMProtocolError"

section \<open>Handles and policy results\<close>

record context_handle =
  ch_context :: bytes
  ch_payload :: int
  ch_tracking :: bool
  ch_response_byte :: int

type_synonym handle_arg = "pyval + context_handle"

text \<open>\<^verbatim>\<open>ContextHandle(...)\<close> with its \<^verbatim>\<open>__post_init__\<close>, and \<^verbatim>\<open>response_flag\<close>.\<close>

definition new_handle :: "pyval \<Rightarrow> int \<Rightarrow> pyval \<Rightarrow> int \<Rightarrow> context_handle res" where
  "new_handle ctx payload tracking response_byte =
     (if \<not> type_is_bytes ctx \<or> length (bytes_of ctx) \<noteq> CONTEXT_SIZE
      then Inl (acm_error ''context must be exactly 16 bytes'')
      else if \<not> (0 \<le> payload \<and> payload \<le> 0xFFFFFFFF) then Inl (acm_error ''context payload is outside uint32 range'')
      else if \<not> type_is_bool tracking then Inl (acm_error ''tracking must be boolean'')
      else if \<not> (0 \<le> response_byte \<and> response_byte \<le> 0xFF) then Inl (acm_error ''response_byte is outside uint8 range'')
      else if tracking = PyBool True \<and> response_byte \<notin> {0, 1} then Inl (acm_error ''tracking response flag is not boolean'')
      else Inr \<lparr>ch_context = bytes_of ctx, ch_payload = payload, ch_tracking = (tracking = PyBool True),
                ch_response_byte = response_byte\<rparr>)"

definition response_flag :: "context_handle \<Rightarrow> bool option" where
  "response_flag h = (if ch_tracking h then Some (ch_response_byte h \<noteq> 0) else None)"

record policy_result =
  pr_satisfied :: bool
  pr_requirement_present :: bool
  pr_requirement_length :: int
  pr_requirement_type :: "int option"
  pr_requirement_state :: "int option"
  pr_requirement_flags :: "int option"
  pr_requirement_payload_length :: "int option"

section \<open>Commands\<close>

definition acm_header :: "int \<Rightarrow> bytes res" where
  "acm_header opcode =
     (if opcode \<notin> {OP_CONTEXT_CREATE, OP_CONTEXT_DELETE, OP_VERIFY_POLICY, OP_CONTEXT_EXTERNALIZE,
                   OP_CONTEXT_CREATE_TRACKING, OP_IDENTITY_SECRET_SET}
      then Inl (acm_error ''opcode is outside the lifecycle allowlist'')
      else Inr (MAGIC @ map word_of_int [opcode, 0, 0, ACM_VERSION]))"

definition require_handle :: "handle_arg \<Rightarrow> context_handle res" where
  "require_handle handle =
     (case handle of Inl _ \<Rightarrow> Inl (acm_error ''handle must be a ContextHandle'') | Inr h \<Rightarrow> Inr h)"

definition build_create :: "int \<Rightarrow> bool \<Rightarrow> bytes res" where
  "build_create user_id tracking =
     (if \<not> (0 \<le> user_id \<and> user_id \<le> 0xFFFFFFFF) then Inl (acm_error ''user_id is outside uint32 range'')
      else and_then (acm_header (if tracking then OP_CONTEXT_CREATE_TRACKING else OP_CONTEXT_CREATE)) (\<lambda>h.
           and_then (struct_pack [FUInt 4] [PyInt user_id]) (\<lambda>u. Inr (h @ u))))"

definition build_delete :: "handle_arg \<Rightarrow> bytes res" where
  "build_delete handle =
     and_then (require_handle handle) (\<lambda>c. and_then (acm_header OP_CONTEXT_DELETE) (\<lambda>h. Inr (h @ ch_context c)))"

definition build_externalize :: "handle_arg \<Rightarrow> bytes res" where
  "build_externalize handle =
     and_then (require_handle handle) (\<lambda>c. and_then (acm_header OP_CONTEXT_EXTERNALIZE) (\<lambda>h. Inr (h @ ch_context c)))"

definition build_identity_secret :: "handle_arg \<Rightarrow> pyval \<Rightarrow> bytes res" where
  "build_identity_secret handle secret =
     and_then (require_handle handle) (\<lambda>c.
     if \<not> type_is_bytearray secret then Inl (acm_error ''identity secret must be a wipeable bytearray'')
     else if \<not> (1 \<le> length (bytes_of secret) \<and> length (bytes_of secret) \<le> IDENTITY_SECRET_MAX_SIZE)
     then Inl (acm_error ''identity secret length is outside the fixed bound'')
     else and_then (acm_header OP_IDENTITY_SECRET_SET) (\<lambda>h.
          and_then (struct_pack [FUInt 4, FUInt 4] [PyInt IDENTITY_SECRET_TYPE, PyInt (int (length (bytes_of secret)))]) (\<lambda>m.
          and_then (struct_pack [FUInt 4] [PyInt 0]) (\<lambda>p. Inr (h @ ch_context c @ m @ bytes_of secret @ p)))))"

definition build_enrollment_policy :: "handle_arg \<Rightarrow> bool \<Rightarrow> bytes res" where
  "build_enrollment_policy handle preflight =
     and_then (require_handle handle) (\<lambda>c.
     and_then (acm_header OP_VERIFY_POLICY) (\<lambda>h.
     and_then (struct_pack [FUInt 4] [PyInt 0]) (\<lambda>age.
     and_then (struct_pack [FUInt 4] [PyInt 0]) (\<lambda>params.
     Inr (h @ ch_context c @ ENROLLMENT_POLICY @ [0] @ [of_bool preflight] @ age @ params)))))"

definition build_enrollment_policy_preflight :: "handle_arg \<Rightarrow> bytes res" where
  "build_enrollment_policy_preflight handle = build_enrollment_policy handle True"

section \<open>Replies\<close>

definition parse_create_response :: "pyval \<Rightarrow> bool \<Rightarrow> context_handle res" where
  "parse_create_response response tracking =
     (let expected = (if tracking then 21 else 17) in
     if \<not> type_is_bytes response \<or> length (bytes_of response) \<noteq> expected
     then Inl (acm_error ''create response must be exactly'')
     else let flag_offset = CONTEXT_SIZE + (if tracking then 4 else 0);
              response_byte = uint (bytes_of response ! flag_offset) in
     if tracking \<and> response_byte \<notin> {0, 1} then Inl (acm_error ''tracking create response flag is not boolean'')
     else and_then (if tracking then struct_unpack_from [FUInt 4] (bytes_of response) CONTEXT_SIZE else Inr [PyInt 0]) (\<lambda>v.
          new_handle (PyBytes (take CONTEXT_SIZE (bytes_of response))) (int_of (v ! 0)) (PyBool tracking) response_byte))"

definition parse_policy_response :: "pyval \<Rightarrow> policy_result res" where
  "parse_policy_response response =
     (if \<not> type_is_bytes response \<or> \<not> (4 \<le> length (bytes_of response) \<and> length (bytes_of response) \<le> POLICY_RESPONSE_CAPACITY)
      then Inl (acm_error ''policy response length is invalid'')
      else and_then (struct_unpack_from [FUInt 4] (bytes_of response) 0) (\<lambda>v.
      let raw_result = int_of (v ! 0); requirement = drop 4 (bytes_of response) in
      if raw_result \<notin> {0, 1} then Inl (acm_error ''policy result is not boolean'')
      else if requirement = []
      then Inr \<lparr>pr_satisfied = (raw_result \<noteq> 0), pr_requirement_present = False, pr_requirement_length = 0,
                pr_requirement_type = None, pr_requirement_state = None, pr_requirement_flags = None,
                pr_requirement_payload_length = None\<rparr>
      else if length requirement < 16 then Inl (acm_error ''policy requirement is shorter than its header'')
      else and_then (struct_unpack_from [FUInt 4, FUInt 4, FUInt 4, FUInt 4] requirement 0) (\<lambda>r.
      if int_of (r ! 0) \<notin> SIMPLE_REQUIREMENT_TYPES then Inl (acm_error ''policy returned an unsupported requirement type'')
      else if int_of (r ! 3) \<noteq> int (length requirement) - 16
      then Inl (acm_error ''policy requirement payload length is inconsistent'')
      else Inr \<lparr>pr_satisfied = (raw_result \<noteq> 0), pr_requirement_present = True,
                pr_requirement_length = int (length requirement), pr_requirement_type = Some (int_of (r ! 0)),
                pr_requirement_state = Some (int_of (r ! 1)), pr_requirement_flags = Some (int_of (r ! 2)),
                pr_requirement_payload_length = Some (int_of (r ! 3))\<rparr>)))"

section \<open>The check of a command\<close>

text \<open>The lengths that the table in \<^verbatim>\<open>validate_command\<close> gives the opcodes of fixed length.\<close>

definition fixed_length :: "int \<Rightarrow> nat option" where
  "fixed_length opcode =
     (if opcode = OP_CONTEXT_CREATE then Some 12
      else if opcode = OP_CONTEXT_CREATE_TRACKING then Some 12
      else if opcode = OP_CONTEXT_DELETE then Some 24
      else if opcode = OP_CONTEXT_EXTERNALIZE then Some 24
      else if opcode = OP_VERIFY_POLICY then Some 51
      else None)"

text \<open>The branches of \<^verbatim>\<open>validate_command\<close> on the length, and the last one on the policy.\<close>

definition validate_length :: "int \<Rightarrow> bytes \<Rightarrow> unit res" where
  "validate_length opcode command =
     (if opcode = OP_IDENTITY_SECRET_SET
      then if \<not> (36 + 1 \<le> length command \<and> length command \<le> 36 + IDENTITY_SECRET_MAX_SIZE)
           then Inl (acm_error ''identity-secret command length is invalid'')
           else and_then (struct_unpack_from [FUInt 4] command 28) (\<lambda>n.
                and_then (struct_unpack_from [FUInt 4] command 24) (\<lambda>t.
                if int_of (t ! 0) \<noteq> IDENTITY_SECRET_TYPE \<or> int_of (n ! 0) \<noteq> int (length command) - 36
                    \<or> drop (length command - 4) command \<noteq> zero_bytes 4
                then Inl (acm_error ''identity-secret command is not the fixed form'')
                else Inr ()))
      else if fixed_length opcode = None \<or> length command \<noteq> the (fixed_length opcode)
      then Inl (acm_error ''command opcode or length is not allowed'')
      else Inr ())"

definition validate_policy :: "bytes \<Rightarrow> unit res" where
  "validate_policy command =
     (let fixed = drop 24 command in
     if take 18 fixed \<noteq> ENROLLMENT_POLICY @ [0] \<or> fixed ! 18 \<notin> {0, 1} \<or> drop 19 fixed \<noteq> zero_bytes 8
     then Inl (acm_error ''policy command is not the fixed enrollment policy'')
     else Inr ())"

definition validate_command :: "pyval \<Rightarrow> int res" where
  "validate_command command =
     (if \<not> (type_is_bytes command \<or> type_is_bytearray command) \<or> length (bytes_of command) < HEADER_SIZE
      then Inl (acm_error ''command is shorter than the ACM header'')
      else if take 4 (bytes_of command) \<noteq> MAGIC \<or> take 3 (drop 5 (bytes_of command)) \<noteq> [0, 0, 1]
      then Inl (acm_error ''command header is invalid'')
      else let opcode = uint (bytes_of command ! 4) in
           and_then (validate_length opcode (bytes_of command)) (\<lambda>_.
           and_then (if opcode = OP_VERIFY_POLICY then validate_policy (bytes_of command) else Inr ()) (\<lambda>_.
           Inr opcode)))"

end
