(* ===== verification/Acm_Facts.thy ===== *)
theory Acm_Facts
  imports Acm_Protocol
begin

text \<open>
  Correctness of the ACM framing: the check made before a command is sent accepts exactly the commands
  that the module can build, and the two parsers accept exactly the encodings of what they return.
\<close>

lemmas acm_consts = MAGIC_def ACM_VERSION_def HEADER_SIZE_def CONTEXT_SIZE_def OP_CONTEXT_CREATE_def OP_CONTEXT_DELETE_def
  OP_VERIFY_POLICY_def OP_CONTEXT_EXTERNALIZE_def OP_CONTEXT_CREATE_TRACKING_def OP_IDENTITY_SECRET_SET_def

lemmas one_uint = struct_pack.simps struct_unpack_from_def struct_fields.simps

section \<open>Handles\<close>

definition handle_ok :: "context_handle \<Rightarrow> bool" where
  "handle_ok h = (length (ch_context h) = CONTEXT_SIZE \<and> 0 \<le> ch_payload h \<and> ch_payload h \<le> 0xFFFFFFFF
     \<and> 0 \<le> ch_response_byte h \<and> ch_response_byte h \<le> 0xFF \<and> (ch_tracking h \<longrightarrow> ch_response_byte h \<in> {0, 1}))"

lemma new_handle_iff:
  "new_handle ctx payload tracking rb = Inr h \<longleftrightarrow>
     ctx = PyBytes (ch_context h) \<and> payload = ch_payload h \<and> tracking = PyBool (ch_tracking h) \<and> rb = ch_response_byte h
     \<and> handle_ok h"
  by (cases h) (auto simp: new_handle_def handle_ok_def res_simps py_simps)

section \<open>Commands\<close>

text \<open>The commands that the module builds, for handles that \<^verbatim>\<open>ContextHandle\<close> can construct.\<close>

datatype acm_request =
    CreateContext int bool
  | DeleteContext context_handle
  | ExternalizeContext context_handle
  | SetIdentitySecret context_handle bytes
  | VerifyEnrollmentPolicy context_handle bool

fun acm_build :: "acm_request \<Rightarrow> bytes res" where
  "acm_build (CreateContext u t) = build_create u t"
| "acm_build (DeleteContext h) = build_delete (Inr h)"
| "acm_build (ExternalizeContext h) = build_externalize (Inr h)"
| "acm_build (SetIdentitySecret h s) = build_identity_secret (Inr h) (PyByteArray s)"
| "acm_build (VerifyEnrollmentPolicy h p) = build_enrollment_policy (Inr h) p"

fun acm_opcode :: "acm_request \<Rightarrow> int" where
  "acm_opcode (CreateContext u t) = (if t then OP_CONTEXT_CREATE_TRACKING else OP_CONTEXT_CREATE)"
| "acm_opcode (DeleteContext h) = OP_CONTEXT_DELETE"
| "acm_opcode (ExternalizeContext h) = OP_CONTEXT_EXTERNALIZE"
| "acm_opcode (SetIdentitySecret h s) = OP_IDENTITY_SECRET_SET"
| "acm_opcode (VerifyEnrollmentPolicy h p) = OP_VERIFY_POLICY"

fun request_handle_ok :: "acm_request \<Rightarrow> bool" where
  "request_handle_ok (CreateContext u t) = True"
| "request_handle_ok (DeleteContext h) = handle_ok h"
| "request_handle_ok (ExternalizeContext h) = handle_ok h"
| "request_handle_ok (SetIdentitySecret h s) = handle_ok h"
| "request_handle_ok (VerifyEnrollmentPolicy h p) = handle_ok h"

text \<open>What follows the header of each command, in closed form.\<close>

fun acm_body :: "acm_request \<Rightarrow> bytes" where
  "acm_body (CreateContext u t) = le_bytes 4 u"
| "acm_body (DeleteContext h) = ch_context h"
| "acm_body (ExternalizeContext h) = ch_context h"
| "acm_body (SetIdentitySecret h s) =
     ch_context h @ le_bytes 4 IDENTITY_SECRET_TYPE @ le_bytes 4 (int (length s)) @ s @ zero_bytes 4"
| "acm_body (VerifyEnrollmentPolicy h p) = ch_context h @ ENROLLMENT_POLICY @ [0, of_bool p] @ zero_bytes 8"

fun acm_args_ok :: "acm_request \<Rightarrow> bool" where
  "acm_args_ok (CreateContext u t) = (0 \<le> u \<and> u \<le> 0xFFFFFFFF)"
| "acm_args_ok (SetIdentitySecret h s) = (1 \<le> length s \<and> length s \<le> IDENTITY_SECRET_MAX_SIZE)"
| "acm_args_ok r = True"

definition header_bytes :: "int \<Rightarrow> bytes" where
  "header_bytes opcode = MAGIC @ [word_of_int opcode, 0, 0, 1]"

lemma acm_header_opcode: "acm_header (acm_opcode r) = Inr (header_bytes (acm_opcode r))"
  by (cases r) (simp_all add: acm_header_def acm_consts header_bytes_def)

lemma le_bytes_zero: "le_bytes 4 0 = zero_bytes 4"
  by (simp add: numeral_eq_Suc zero_bytes_def)

lemma zero_bytes_8: "zero_bytes 8 = zero_bytes 4 @ zero_bytes 4"
  by (simp add: zero_bytes_def numeral_eq_Suc)

lemma acm_build_iff:
  "acm_build r = Inr bs \<longleftrightarrow> acm_args_ok r \<and> bs = header_bytes (acm_opcode r) @ acm_body r"
proof (cases r)
  case (CreateContext u t)
  then show ?thesis
    using acm_header_opcode [of r] by (auto simp: build_create_def res_simps py_simps)
next
  case (DeleteContext h)
  then show ?thesis using acm_header_opcode [of r] by (auto simp: build_delete_def require_handle_def)
next
  case (ExternalizeContext h)
  then show ?thesis using acm_header_opcode [of r] by (auto simp: build_externalize_def require_handle_def)
next
  case (SetIdentitySecret h s)
  then show ?thesis
    using acm_header_opcode [of r]
    by (auto simp: build_identity_secret_def require_handle_def res_simps py_simps IDENTITY_SECRET_TYPE_def
        IDENTITY_SECRET_MAX_SIZE_def le_bytes_zero)
next
  case (VerifyEnrollmentPolicy h p)
  then show ?thesis
    using acm_header_opcode [of r]
    by (auto simp: build_enrollment_policy_def require_handle_def res_simps py_simps le_bytes_zero zero_bytes_8)
qed

text \<open>A command that passes the first two checks is a header followed by anything.\<close>

lemma header_split:
  "HEADER_SIZE \<le> length bs \<and> take 4 bs = MAGIC \<and> take 3 (drop 5 bs) = [0, 0, 1]
   \<longleftrightarrow> (\<exists>rest. bs = header_bytes (uint (bs ! 4)) @ rest)"
proof
  assume a: "HEADER_SIZE \<le> length bs \<and> take 4 bs = MAGIC \<and> take 3 (drop 5 bs) = [0, 0, 1]"
  then have "drop 4 bs = bs ! 4 # drop 5 bs" using Cons_nth_drop_Suc [of 4 bs] by (simp add: HEADER_SIZE_def)
  with a have "bs = MAGIC @ bs ! 4 # [0, 0, 1] @ drop 3 (drop 5 bs)"
    by (metis append_take_drop_id)
  then show "\<exists>rest. bs = header_bytes (uint (bs ! 4)) @ rest" by (auto simp: header_bytes_def)
next
  assume "\<exists>rest. bs = header_bytes (uint (bs ! 4)) @ rest"
  then obtain b rest where "bs = MAGIC @ [b, 0, 0, 1] @ rest" by (auto simp: header_bytes_def)
  then show "HEADER_SIZE \<le> length bs \<and> take 4 bs = MAGIC \<and> take 3 (drop 5 bs) = [0, 0, 1]"
    by (simp add: HEADER_SIZE_def MAGIC_def)
qed

lemma length_header [simp]: "length (header_bytes op) = 8"
  by (simp add: header_bytes_def MAGIC_def)

lemma drop_header: "8 \<le> n \<Longrightarrow> drop n (header_bytes op @ rest) = drop (n - 8) rest"
  by simp

section \<open>Exactness of the check\<close>

text \<open>The accepted bodies of each opcode.\<close>

definition body_accepted :: "int \<Rightarrow> bytes \<Rightarrow> bool" where
  "body_accepted opcode rest = (\<exists>r. acm_opcode r = opcode \<and> request_handle_ok r \<and> acm_args_ok r \<and> rest = acm_body r)"

definition sample_handle :: "bytes \<Rightarrow> context_handle" where
  "sample_handle ctx = \<lparr>ch_context = ctx, ch_payload = 0, ch_tracking = False, ch_response_byte = 0\<rparr>"

lemma sample_handle_simps [simp]:
  "ch_context (sample_handle ctx) = ctx" "handle_ok (sample_handle ctx) \<longleftrightarrow> length ctx = 16"
  by (simp_all add: sample_handle_def handle_ok_def CONTEXT_SIZE_def)

lemma handle_context_length: "handle_ok h \<Longrightarrow> length (ch_context h) = 16"
  by (simp add: handle_ok_def CONTEXT_SIZE_def)

lemma le_bytes_Nil_iff [simp]: "le_bytes k n = [] \<longleftrightarrow> k = 0"
  by (cases k) simp_all

lemma u32_of_bytes: "length bs = 4 \<Longrightarrow> bs = le_bytes 4 (le_int bs) \<and> 0 \<le> le_int bs \<and> le_int bs \<le> 0xFFFFFFFF"
  using le_bytes_le_int [of bs] le_int_bounds [of bs] by simp

lemma u32_slice: "n + 4 \<le> length bs \<Longrightarrow> take 4 (drop n bs) = le_bytes 4 (le_int (take 4 (drop n bs)))"
  using u32_of_bytes [of "take 4 (drop n bs)"] by simp

lemma le_int_u32: "0 \<le> n \<Longrightarrow> n \<le> 0xFFFFFFFF \<Longrightarrow> le_int (le_bytes 4 n) = n"
  by (simp add: le_int_le_bytes)

lemma create_body:
  "opcode \<in> {OP_CONTEXT_CREATE, OP_CONTEXT_CREATE_TRACKING} \<Longrightarrow> body_accepted opcode rest \<longleftrightarrow> length rest = 4"
proof
  assume "opcode \<in> {OP_CONTEXT_CREATE, OP_CONTEXT_CREATE_TRACKING}" and "length rest = 4"
  then have "acm_opcode (CreateContext (le_int rest) (opcode = OP_CONTEXT_CREATE_TRACKING)) = opcode
    \<and> acm_args_ok (CreateContext (le_int rest) (opcode = OP_CONTEXT_CREATE_TRACKING))
    \<and> rest = acm_body (CreateContext (le_int rest) (opcode = OP_CONTEXT_CREATE_TRACKING))"
    using u32_of_bytes [of rest] by auto
  then show "body_accepted opcode rest" unfolding body_accepted_def by (metis request_handle_ok.simps(1))
next
  assume "opcode \<in> {OP_CONTEXT_CREATE, OP_CONTEXT_CREATE_TRACKING}" and "body_accepted opcode rest"
  then obtain r where "acm_opcode r \<in> {OP_CONTEXT_CREATE, OP_CONTEXT_CREATE_TRACKING}" "rest = acm_body r"
    by (auto simp: body_accepted_def)
  then show "length rest = 4" by (cases r) (auto simp: acm_consts)
qed

lemma context_body:
  assumes "opcode \<in> {OP_CONTEXT_DELETE, OP_CONTEXT_EXTERNALIZE}"
  shows "body_accepted opcode rest \<longleftrightarrow> length rest = 16"
proof
  assume "length rest = 16"
  then have "acm_body (DeleteContext (sample_handle rest)) = rest" "acm_body (ExternalizeContext (sample_handle rest)) = rest"
    "handle_ok (sample_handle rest)" by simp_all
  with assms show "body_accepted opcode rest" unfolding body_accepted_def
    by (metis acm_args_ok.simps(3,4) acm_opcode.simps(2,3) request_handle_ok.simps(2,3) insert_iff singletonD)
next
  assume "body_accepted opcode rest"
  with assms obtain r where "acm_opcode r \<in> {OP_CONTEXT_DELETE, OP_CONTEXT_EXTERNALIZE}" "rest = acm_body r" "request_handle_ok r"
    by (auto simp: body_accepted_def)
  then show "length rest = 16" by (cases r) (auto simp: acm_consts handle_context_length split: if_splits)
qed

lemma secret_body:
  "body_accepted OP_IDENTITY_SECRET_SET rest \<longleftrightarrow>
     29 \<le> length rest \<and> length rest \<le> 28 + IDENTITY_SECRET_MAX_SIZE \<and> le_int (take 4 (drop 16 rest)) = IDENTITY_SECRET_TYPE
     \<and> le_int (take 4 (drop 20 rest)) = int (length rest) - 28 \<and> drop (length rest - 4) rest = zero_bytes 4" (is "_ \<longleftrightarrow> ?R")
proof
  assume "body_accepted OP_IDENTITY_SECRET_SET rest"
  then obtain r where "acm_opcode r = OP_IDENTITY_SECRET_SET" "rest = acm_body r" "request_handle_ok r" "acm_args_ok r"
    by (auto simp: body_accepted_def)
  then obtain c s where "rest = c @ le_bytes 4 5 @ le_bytes 4 (int (length s)) @ s @ zero_bytes 4"
    "length c = 16" "1 \<le> length s" "length s \<le> IDENTITY_SECRET_MAX_SIZE"
    by (cases r) (auto simp: acm_consts IDENTITY_SECRET_TYPE_def split: if_splits dest!: handle_context_length)
  then show ?R by (simp add: le_int_u32 IDENTITY_SECRET_TYPE_def IDENTITY_SECRET_MAX_SIZE_def)
next
  assume R: ?R
  define s where "s = take (length rest - 28) (drop 24 rest)"
  have len: "length s = length rest - 28" using R by (simp add: s_def)
  have "drop (length rest - 28) (drop 24 rest) = zero_bytes 4" using R by (simp add: algebra_simps)
  then have tail: "drop 24 rest = s @ zero_bytes 4" unfolding s_def by (metis append_take_drop_id)
  have "drop 20 rest = take 4 (drop 20 rest) @ drop 24 rest" "drop 16 rest = take 4 (drop 16 rest) @ drop 20 rest"
    using append_take_drop_id [of 4 "drop 20 rest"] append_take_drop_id [of 4 "drop 16 rest"] by simp_all
  moreover have "take 4 (drop 20 rest) = le_bytes 4 (int (length s))" "take 4 (drop 16 rest) = le_bytes 4 IDENTITY_SECRET_TYPE"
    using u32_slice [of 20 rest] u32_slice [of 16 rest] R len by simp_all
  ultimately have "rest = take 16 rest @ le_bytes 4 IDENTITY_SECRET_TYPE @ le_bytes 4 (int (length s)) @ s @ zero_bytes 4"
    using tail by (metis append_take_drop_id)
  then have "rest = acm_body (SetIdentitySecret (sample_handle (take 16 rest)) s)" by simp
  moreover have "acm_args_ok (SetIdentitySecret (sample_handle (take 16 rest)) s)" "handle_ok (sample_handle (take 16 rest))"
    using R len by auto
  ultimately show "body_accepted OP_IDENTITY_SECRET_SET rest" unfolding body_accepted_def
    by (metis acm_opcode.simps(4) request_handle_ok.simps(4))
qed

lemma policy_body:
  "body_accepted OP_VERIFY_POLICY rest \<longleftrightarrow>
     length rest = 43 \<and> take 18 (drop 16 rest) = ENROLLMENT_POLICY @ [0] \<and> drop 16 rest ! 18 \<in> {0, 1}
     \<and> drop 19 (drop 16 rest) = zero_bytes 8" (is "_ \<longleftrightarrow> ?R")
proof
  assume "body_accepted OP_VERIFY_POLICY rest"
  then obtain r where "acm_opcode r = OP_VERIFY_POLICY" "rest = acm_body r" "request_handle_ok r"
    by (auto simp: body_accepted_def)
  then obtain c p where "rest = c @ ENROLLMENT_POLICY @ [0, of_bool p] @ zero_bytes 8" "length c = 16"
    by (cases r) (auto simp: acm_consts split: if_splits dest!: handle_context_length)
  then show ?R by (simp add: ENROLLMENT_POLICY_def nth_append)
next
  assume R: ?R
  define t where "t = drop 16 rest"
  have t: "take 18 t = ENROLLMENT_POLICY @ [0]" "t ! 18 \<in> {0, 1}" "drop 19 t = zero_bytes 8" "18 < length t"
    using R unfolding t_def by (blast, blast, blast, simp)
  then have "t = (ENROLLMENT_POLICY @ [0]) @ t ! 18 # zero_bytes 8"
    using id_take_nth_drop [of 18 t] by simp
  moreover have "t ! 18 = of_bool (t ! 18 = 1)" using t(2) by auto
  ultimately have "t = ENROLLMENT_POLICY @ [0, of_bool (t ! 18 = 1)] @ zero_bytes 8" by simp
  then have "rest = acm_body (VerifyEnrollmentPolicy (sample_handle (take 16 rest)) (t ! 18 = 1))"
    unfolding t_def by (metis acm_body.simps(5) append_take_drop_id sample_handle_simps(1))
  moreover have "handle_ok (sample_handle (take 16 rest))" using R by simp
  ultimately show "body_accepted OP_VERIFY_POLICY rest" unfolding body_accepted_def
    by (metis acm_opcode.simps(5) acm_args_ok.simps(5) request_handle_ok.simps(5))
qed


lemma body_opcode: "body_accepted opcode rest \<Longrightarrow> opcode \<in> {OP_CONTEXT_CREATE, OP_CONTEXT_CREATE_TRACKING,
    OP_CONTEXT_DELETE, OP_CONTEXT_EXTERNALIZE, OP_IDENTITY_SECRET_SET, OP_VERIFY_POLICY}"
proof -
  assume "body_accepted opcode rest"
  then obtain r where "acm_opcode r = opcode" by (auto simp: body_accepted_def)
  then show ?thesis by (cases r) auto
qed

lemma validate_body:
  "validate_length opcode (header_bytes opcode @ rest) = Inr ()
     \<and> (if opcode = OP_VERIFY_POLICY then validate_policy (header_bytes opcode @ rest) else Inr ()) = Inr ()
   \<longleftrightarrow> body_accepted opcode rest" (is "?L \<longleftrightarrow> _")
proof -
  consider (create) "opcode \<in> {OP_CONTEXT_CREATE, OP_CONTEXT_CREATE_TRACKING}"
    | (lifecycle) "opcode \<in> {OP_CONTEXT_DELETE, OP_CONTEXT_EXTERNALIZE}"
    | (secret) "opcode = OP_IDENTITY_SECRET_SET" | (policy) "opcode = OP_VERIFY_POLICY"
    | (other) "opcode \<notin> {OP_CONTEXT_CREATE, OP_CONTEXT_CREATE_TRACKING, OP_CONTEXT_DELETE, OP_CONTEXT_EXTERNALIZE,
        OP_IDENTITY_SECRET_SET, OP_VERIFY_POLICY}" by blast
  then show ?thesis
  proof cases
    case create
    then have "?L \<longleftrightarrow> length rest = 4"
      by (auto simp: validate_length_def fixed_length_def acm_consts res_simps)
    with create_body [OF create] show ?thesis by blast
  next
    case lifecycle
    then have "?L \<longleftrightarrow> length rest = 16"
      by (auto simp: validate_length_def fixed_length_def acm_consts res_simps)
    with context_body [OF lifecycle] show ?thesis by blast
  next
    case secret
    then have "OP_IDENTITY_SECRET_SET \<noteq> OP_VERIFY_POLICY" by (simp add: acm_consts)
    then show ?thesis
      unfolding secret secret_body
      by (auto simp: validate_length_def IDENTITY_SECRET_MAX_SIZE_def struct_unpack_from_def res_simps)
  next
    case policy
    then show ?thesis
      unfolding policy policy_body
      by (auto simp: validate_length_def validate_policy_def fixed_length_def acm_consts Let_def res_simps)
  next
    case other
    then have "\<not> ?L" by (simp add: validate_length_def fixed_length_def)
    with other body_opcode [of opcode rest] show ?thesis by blast
  qed
qed

lemma validate_command_iff:
  "validate_command command = Inr opcode \<longleftrightarrow>
     (\<exists>rest. command \<in> {PyBytes (header_bytes opcode @ rest), PyByteArray (header_bytes opcode @ rest)}
       \<and> body_accepted opcode rest)" (is "_ \<longleftrightarrow> ?R")
proof
  assume v: "validate_command command = Inr opcode"
  define bs where "bs = bytes_of command"
  from v have c: "command \<in> {PyBytes bs, PyByteArray bs}"
    "HEADER_SIZE \<le> length bs \<and> take 4 bs = MAGIC \<and> take 3 (drop 5 bs) = [0, 0, 1]" "opcode = uint (bs ! 4)"
    and body: "validate_length opcode bs = Inr ()
      \<and> (if opcode = OP_VERIFY_POLICY then validate_policy bs else Inr ()) = Inr ()"
    by (auto simp: validate_command_def bs_def py_simps bytes_type_iff res_simps Let_def not_less)
  from c(2) obtain rest where "bs = header_bytes opcode @ rest" unfolding header_split c(3) by blast
  with c(1) body validate_body [of opcode rest] show ?R by auto
next
  assume ?R
  then obtain rest where c: "command \<in> {PyBytes (header_bytes opcode @ rest), PyByteArray (header_bytes opcode @ rest)}"
    "body_accepted opcode rest" by blast
  have op: "uint ((header_bytes opcode @ rest) ! 4) = opcode"
    using body_opcode [OF c(2)] by (auto simp: header_bytes_def MAGIC_def nth_append acm_consts)
  then have "HEADER_SIZE \<le> length (header_bytes opcode @ rest) \<and> take 4 (header_bytes opcode @ rest) = MAGIC
    \<and> take 3 (drop 5 (header_bytes opcode @ rest)) = [0, 0, 1]" unfolding header_split by auto
  moreover have "validate_length opcode (header_bytes opcode @ rest) = Inr ()
     \<and> (if opcode = OP_VERIFY_POLICY then validate_policy (header_bytes opcode @ rest) else Inr ()) = Inr ()"
    using c(2) by (simp only: validate_body)
  ultimately show "validate_command command = Inr opcode"
    using c(1) op by (auto simp: validate_command_def py_simps bytes_type_iff Let_def split: if_splits)
qed

text \<open>
  C23: The check that the device client makes before it sends a command accepts exactly the commands that
  the module can build, for context handles that can be constructed and arguments that the builders
  accept, and returns their opcode; it accepts them as \<^verbatim>\<open>bytes\<close> and as \<^verbatim>\<open>bytearray\<close>, and nothing else.
\<close>

theorem acm_check_is_command_language:
  "validate_command command = Inr opcode \<longleftrightarrow>
     (\<exists>r bs. acm_build r = Inr bs \<and> acm_opcode r = opcode \<and> request_handle_ok r
       \<and> (command = PyBytes bs \<or> command = PyByteArray bs))"
  unfolding validate_command_iff body_accepted_def acm_build_iff by auto

section \<open>Replies\<close>

lemma last_byte: "length bs = Suc n \<Longrightarrow> drop n bs = le_bytes 1 (uint (bs ! n))"
  using Cons_nth_drop_Suc [of n bs] by (simp add: numeral_eq_Suc)

lemma nth_after: "length xs = n \<Longrightarrow> (xs @ le_bytes 1 b) ! n = word_of_int b"
  by (simp add: nth_append)

lemma uint_of_byte: "0 \<le> b \<Longrightarrow> b \<le> 0xFF \<Longrightarrow> uint (word_of_int b :: byte) = b"
  by (simp add: uint_word_of_int)

definition create_reply :: "context_handle \<Rightarrow> bytes" where
  "create_reply h = ch_context h @ (if ch_tracking h then le_bytes 4 (ch_payload h) else []) @ le_bytes 1 (ch_response_byte h)"

lemma tracking_reply_iff:
  "parse_create_response (PyBytes bs) True = Inr h \<longleftrightarrow> handle_ok h \<and> ch_tracking h \<and> bs = create_reply h"
proof
  assume p: "parse_create_response (PyBytes bs) True = Inr h"
  then have h: "handle_ok h" "ch_tracking h" "take 16 bs = ch_context h" "le_int (take 4 (drop 16 bs)) = ch_payload h"
    "uint (bs ! 20) = ch_response_byte h" and len: "length bs = 21"
    by (auto simp: parse_create_response_def Let_def CONTEXT_SIZE_def struct_unpack_from_def res_simps py_simps
        new_handle_iff split: if_splits)
  have "drop 20 bs = le_bytes 1 (ch_response_byte h)" using last_byte [of bs 20] len h(5) by simp
  moreover have "take 4 (drop 16 bs) = le_bytes 4 (ch_payload h)"
    using u32_of_bytes [of "take 4 (drop 16 bs)"] len h(4) by simp
  ultimately have "drop 16 bs = le_bytes 4 (ch_payload h) @ le_bytes 1 (ch_response_byte h)"
    using append_take_drop_id [of 4 "drop 16 bs"] by simp
  then have "bs = create_reply h" using append_take_drop_id [of 16 bs] h(2,3) by (simp add: create_reply_def)
  with h show "handle_ok h \<and> ch_tracking h \<and> bs = create_reply h" by simp
next
  assume h: "handle_ok h \<and> ch_tracking h \<and> bs = create_reply h"
  then have "bs ! 20 = word_of_int (ch_response_byte h)"
    using nth_after [of "ch_context h @ le_bytes 4 (ch_payload h)" 20] handle_context_length [of h] by (simp add: create_reply_def)
  with h handle_context_length [of h] uint_of_byte [of "ch_response_byte h"]
  show "parse_create_response (PyBytes bs) True = Inr h"
    by (auto simp: parse_create_response_def Let_def CONTEXT_SIZE_def struct_unpack_from_def py_simps new_handle_iff
        create_reply_def handle_ok_def le_int_u32)
qed

lemma plain_reply_iff:
  "parse_create_response (PyBytes bs) False = Inr h
   \<longleftrightarrow> handle_ok h \<and> \<not> ch_tracking h \<and> ch_payload h = 0 \<and> bs = create_reply h"
proof
  assume p: "parse_create_response (PyBytes bs) False = Inr h"
  then have h: "handle_ok h" "\<not> ch_tracking h" "take 16 bs = ch_context h" "ch_payload h = 0"
    "uint (bs ! 16) = ch_response_byte h" and len: "length bs = 17"
    by (auto simp: parse_create_response_def Let_def CONTEXT_SIZE_def res_simps py_simps new_handle_iff split: if_splits)
  have "drop 16 bs = le_bytes 1 (ch_response_byte h)" using last_byte [of bs 16] len h(5) by simp
  then have "bs = create_reply h" using append_take_drop_id [of 16 bs] h(2,3) by (simp add: create_reply_def)
  with h show "handle_ok h \<and> \<not> ch_tracking h \<and> ch_payload h = 0 \<and> bs = create_reply h" by simp
next
  assume h: "handle_ok h \<and> \<not> ch_tracking h \<and> ch_payload h = 0 \<and> bs = create_reply h"
  then have "bs ! 16 = word_of_int (ch_response_byte h)"
    using nth_after [of "ch_context h" 16] handle_context_length [of h] by (simp add: create_reply_def)
  with h handle_context_length [of h] uint_of_byte [of "ch_response_byte h"]
  show "parse_create_response (PyBytes bs) False = Inr h"
    by (auto simp: parse_create_response_def Let_def CONTEXT_SIZE_def py_simps new_handle_iff create_reply_def handle_ok_def)
qed

section \<open>Policy replies\<close>

text \<open>The reply that carries a result, and the bytes of its requirement after the header.\<close>

definition policy_reply :: "policy_result \<Rightarrow> bytes \<Rightarrow> bytes" where
  "policy_reply p payload = le_bytes 4 (of_bool (pr_satisfied p)) @
     (if pr_requirement_present p
      then le_bytes 4 (the (pr_requirement_type p)) @ le_bytes 4 (the (pr_requirement_state p))
        @ le_bytes 4 (the (pr_requirement_flags p)) @ le_bytes 4 (the (pr_requirement_payload_length p)) @ payload
      else [])"

definition u32_option :: "int option \<Rightarrow> bool" where
  "u32_option x = (\<exists>n. x = Some n \<and> 0 \<le> n \<and> n \<le> 0xFFFFFFFF)"

definition policy_ok :: "policy_result \<Rightarrow> bytes \<Rightarrow> bool" where
  "policy_ok p payload =
     (if pr_requirement_present p
      then (\<exists>t \<in> SIMPLE_REQUIREMENT_TYPES. pr_requirement_type p = Some t)
        \<and> u32_option (pr_requirement_state p) \<and> u32_option (pr_requirement_flags p)
        \<and> pr_requirement_payload_length p = Some (int (length payload))
        \<and> pr_requirement_length p = int (length payload) + 16 \<and> length payload + 20 \<le> POLICY_RESPONSE_CAPACITY
      else payload = [] \<and> pr_requirement_length p = 0 \<and> pr_requirement_type p = None \<and> pr_requirement_state p = None
        \<and> pr_requirement_flags p = None \<and> pr_requirement_payload_length p = None)"

lemma u32_take: "4 \<le> length bs \<Longrightarrow> bs = le_bytes 4 (le_int (take 4 bs)) @ drop 4 bs
    \<and> 0 \<le> le_int (take 4 bs) \<and> le_int (take 4 bs) \<le> 0xFFFFFFFF"
  using u32_of_bytes [of "take 4 bs"] by (metis append_take_drop_id length_take min_absorb2)

lemma policy_response_sound:
  assumes "parse_policy_response (PyBytes bs) = Inr p"
  shows "\<exists>payload. policy_ok p payload \<and> bs = policy_reply p payload"
proof -
  define d where "d = (\<lambda>n. drop n bs)"
  have raw: "le_int (take 4 bs) \<in> {0, 1}" "4 \<le> length bs" "length bs \<le> POLICY_RESPONSE_CAPACITY"
    using assms by (auto simp: parse_policy_response_def Let_def struct_unpack_from_def res_simps py_simps split: if_splits)
  then have first: "bs = le_bytes 4 (of_bool (le_int (take 4 bs) \<noteq> 0)) @ d 4"
    using u32_take [of bs] by (auto simp: d_def)
  show ?thesis
  proof (cases "d 4 = []")
    case True
    with assms raw have "policy_ok p [] \<and> \<not> pr_requirement_present p \<and> pr_satisfied p = (le_int (take 4 bs) \<noteq> 0)"
      by (auto simp: parse_policy_response_def Let_def struct_unpack_from_def d_def py_simps policy_ok_def)
    with first True show ?thesis by (auto simp: policy_reply_def)
  next
    case False
    with assms raw have p: "p = \<lparr>pr_satisfied = (le_int (take 4 bs) \<noteq> 0), pr_requirement_present = True,
        pr_requirement_length = int (length (d 4)), pr_requirement_type = Some (le_int (take 4 (d 4))),
        pr_requirement_state = Some (le_int (take 4 (d 8))), pr_requirement_flags = Some (le_int (take 4 (d 12))),
        pr_requirement_payload_length = Some (le_int (take 4 (d 16)))\<rparr>"
      "le_int (take 4 (d 4)) \<in> SIMPLE_REQUIREMENT_TYPES" "16 \<le> length (d 4)"
      "le_int (take 4 (d 16)) = int (length (d 4)) - 16"
      by (auto simp: parse_policy_response_def Let_def struct_unpack_from_def d_def res_simps py_simps split: if_splits)
    have "policy_ok p (d 20)"
      using p raw u32_take [of "d 8"] u32_take [of "d 12"] by (auto simp: policy_ok_def u32_option_def d_def)
    moreover have "d 4 = le_bytes 4 (le_int (take 4 (d 4))) @ le_bytes 4 (le_int (take 4 (d 8)))
        @ le_bytes 4 (le_int (take 4 (d 12))) @ le_bytes 4 (le_int (take 4 (d 16))) @ d 20"
      using u32_take [of "d 4"] u32_take [of "d 8"] u32_take [of "d 12"] u32_take [of "d 16"] p(3)
      by (simp add: d_def)
    ultimately show ?thesis using first p(1) by (auto simp: policy_reply_def)
  qed
qed

lemma requirement_type_u32: "t \<in> SIMPLE_REQUIREMENT_TYPES \<Longrightarrow> 0 \<le> t \<and> t \<le> 0xFFFFFFFF"
  by (auto simp: SIMPLE_REQUIREMENT_TYPES_def)

lemma policy_response_complete:
  assumes "policy_ok p payload"
  shows "parse_policy_response (PyBytes (policy_reply p payload)) = Inr p"
proof (cases "pr_requirement_present p")
  case True
  with assms obtain b t s f where f: "t \<in> SIMPLE_REQUIREMENT_TYPES" "0 \<le> s" "s \<le> 0xFFFFFFFF" "0 \<le> f" "f \<le> 0xFFFFFFFF"
    "p = \<lparr>pr_satisfied = b, pr_requirement_present = True, pr_requirement_length = int (length payload) + 16,
       pr_requirement_type = Some t, pr_requirement_state = Some s, pr_requirement_flags = Some f,
       pr_requirement_payload_length = Some (int (length payload))\<rparr>" and cap: "length payload + 20 \<le> POLICY_RESPONSE_CAPACITY"
    by (cases p) (auto simp: policy_ok_def u32_option_def)
  have reply: "policy_reply p payload = le_bytes 4 (of_bool b) @ le_bytes 4 t @ le_bytes 4 s @ le_bytes 4 f
     @ le_bytes 4 (int (length payload)) @ payload"
    by (simp add: policy_reply_def f(6))
  have "int (length payload) \<le> 0xFFFFFFFF" using cap by (simp add: POLICY_RESPONSE_CAPACITY_def)
  then show ?thesis
    unfolding reply using f cap requirement_type_u32 [OF f(1)]
    by (auto simp: parse_policy_response_def Let_def struct_unpack_from_def py_simps le_int_u32)
next
  case False
  with assms show ?thesis
    by (cases p) (auto simp: parse_policy_response_def Let_def struct_unpack_from_def py_simps policy_ok_def policy_reply_def
        le_int_u32 POLICY_RESPONSE_CAPACITY_def)
qed

text \<open>
  C39: Replies are decoded exactly. A create reply is accepted if and only if it is the encoding of a context
  handle that can be constructed, of the requested kind, and that handle is the result; a policy reply is
  accepted if and only if it is the encoding of a result with a supported requirement whose stated
  payload length is the true one, and that result is returned.
\<close>

theorem acm_replies_exact:
  "(parse_create_response (PyBytes bs) tracking = Inr h \<longleftrightarrow>
      handle_ok h \<and> ch_tracking h = tracking \<and> (tracking \<or> ch_payload h = 0) \<and> bs = create_reply h)
   \<and> (parse_policy_response (PyBytes bs) = Inr p \<longleftrightarrow> (\<exists>payload. policy_ok p payload \<and> bs = policy_reply p payload))"
  using tracking_reply_iff [of bs h] plain_reply_iff [of bs h] policy_response_sound [of bs p] policy_response_complete [of p]
  by (cases tracking) auto

end
