(* ===== verification/Aks_State.thy ===== *)
theory Aks_State
  imports Byte_Struct
begin

unbundle bit_operations_syntax

text \<open>
  The decoder of the keybag state dictionary, \<^verbatim>\<open>src/src/t2_aks_state.py\<close>: DER lengths, tags and integers,
  the loop over the entries of the dictionary, and the checks that make a \<^verbatim>\<open>KeybagState\<close> of them.
  A \<^verbatim>\<open>dict\<close> of the source is a \<open>pydict\<close>, an offset is a \<open>nat\<close>.
\<close>

section \<open>Constants and the result\<close>

definition MAX_DER_BYTES :: nat where "MAX_DER_BYTES = 16300"
definition INT32_MIN :: int where "INT32_MIN = - (2 ^ 31)"
definition INT32_MAX :: int where "INT32_MAX = 2 ^ 31 - 1"
definition AKS_UINT32_MAX :: int where "AKS_UINT32_MAX = 2 ^ 32 - 1"
definition UINT64_MAX :: int where "UINT64_MAX = 2 ^ 64 - 1"

abbreviation aks_error :: "string \<Rightarrow> exc" where
  "aks_error \<equiv> Exc AKSStateError"

record keybag_state =
  ks_handle :: int
  ks_maximum_unlock_attempts :: int
  ks_backoff :: int
  ks_failed_attempts :: int
  ks_generation_state :: int
  ks_lock_state :: int
  ks_more_state :: int
  ks_recovery_countdown :: int
  ks_state :: int
  ks_user_uuid :: string

definition redacted :: "keybag_state \<Rightarrow> pydict" where
  "redacted s = [(KStr ''schema_version'', PyInt 1),
     (KStr ''maximum_unlock_attempts'', PyInt (ks_maximum_unlock_attempts s)),
     (KStr ''backoff'', PyInt (ks_backoff s)),
     (KStr ''failed_attempts'', PyInt (ks_failed_attempts s)),
     (KStr ''generation_state'', PyInt (ks_generation_state s)),
     (KStr ''lock_state'', PyInt (ks_lock_state s)),
     (KStr ''more_state'', PyInt (ks_more_state s)),
     (KStr ''recovery_countdown'', PyInt (ks_recovery_countdown s)),
     (KStr ''state'', PyInt (ks_state s)),
     (KStr ''identifiers_redacted'', PyBool True)]"

section \<open>What the decoder uses of the standard library\<close>

text \<open>\<^verbatim>\<open>int.from_bytes(bs, "big", signed=True)\<close>\<close>

definition be_sint :: "bytes \<Rightarrow> int" where
  "be_sint bs = (if bs \<noteq> [] \<and> 128 \<le> uint (hd bs) then be_uint bs - 256 ^ length bs else be_uint bs)"

text \<open>\<^verbatim>\<open>bs.decode("ascii")\<close>.\<close>

definition decode_ascii :: "bytes \<Rightarrow> string res" where
  "decode_ascii bs =
     (if list_all (\<lambda>b. unat b < 128) bs then Inr (map (\<lambda>b. char_of (unat b)) bs) else Inl (Exc ValueError ''ascii''))"

section \<open>Lengths, tags and integers\<close>

text \<open>\<^verbatim>\<open>_length\<close>\<close>

definition der_length :: "bytes \<Rightarrow> nat \<Rightarrow> (nat \<times> nat) res" where
  "der_length data offset =
     (if length data \<le> offset then Inl (aks_error ''DER length is truncated'')
      else let first = unat (data ! offset); offset = offset + 1 in
      if first < 0x80 then Inr (first, offset)
      else let count = unat ((data ! (offset - 1)) AND 0x7F) in
      if count = 0 then Inl (aks_error ''indefinite DER length is forbidden'')
      else if 2 < count \<or> length data < offset + count then Inl (aks_error ''DER length is invalid'')
      else let encoded = take count (drop offset data) in
      if encoded ! 0 = 0 then Inl (aks_error ''DER length is not minimally encoded'')
      else let value = nat (be_uint encoded) in
      if value < 0x80 then Inl (aks_error ''DER long-form length is not minimal'')
      else Inr (value, offset + count))"

text \<open>\<^verbatim>\<open>_tlv\<close>\<close>

definition tlv :: "bytes \<Rightarrow> nat \<Rightarrow> byte \<Rightarrow> (bytes \<times> nat) res" where
  "tlv data offset expected_tag =
     (if length data \<le> offset \<or> data ! offset \<noteq> expected_tag then Inl (aks_error ''DER tag is unexpected'')
      else and_then (der_length data (offset + 1)) (\<lambda>(len, content_offset).
      let stop = content_offset + len in
      if length data < stop then Inl (aks_error ''DER value is truncated'')
      else Inr (take len (drop content_offset data), stop)))"

text \<open>\<^verbatim>\<open>_integer\<close>\<close>

definition der_integer :: "bytes \<Rightarrow> bool \<Rightarrow> string \<Rightarrow> int res" where
  "der_integer content is_signed field =
     (if content = [] then Inl (aks_error (field @ '' integer is empty''))
      else if 1 < length content \<and> content ! 0 = 0 \<and> uint (content ! 1) < 0x80
      then Inl (aks_error (field @ '' integer has redundant positive padding''))
      else if 1 < length content \<and> content ! 0 = 0xFF \<and> 0x80 \<le> uint (content ! 1)
      then Inl (aks_error (field @ '' integer has redundant negative padding''))
      else if \<not> is_signed \<and> (content ! 0) AND 0x80 \<noteq> 0 then Inl (aks_error (field @ '' integer is negative''))
      else let value = (if is_signed then be_sint content else be_uint content) in
      if is_signed
      then if \<not> (INT32_MIN \<le> value \<and> value \<le> INT32_MAX) \<or> value = 0
           then Inl (aks_error (field @ '' is outside the signed handle range'')) else Inr value
      else if \<not> (0 \<le> value \<and> value \<le> UINT64_MAX)
           then Inl (aks_error (field @ '' is outside the unsigned state range'')) else Inr value)"

section \<open>The entries of the dictionary\<close>

text \<open>One round of the loop: the key, its value and the next offset.\<close>

definition decode_entry :: "bytes \<Rightarrow> nat \<Rightarrow> pydict \<Rightarrow> (string \<times> pyval \<times> nat) res" where
  "decode_entry root offset values =
     and_then (tlv root offset 0x30) (\<lambda>(sequence, offset).
     and_then (tlv sequence 0 0x0C) (\<lambda>(key_content, sequence_offset).
     and_then (replace_exc ValueError (aks_error ''keybag state key is not ASCII'') (decode_ascii key_content)) (\<lambda>key.
     if dict_has values key then Inl (aks_error ''keybag state contains a duplicate key'')
     else if length sequence \<le> sequence_offset then Inl (aks_error ''keybag state value is missing'')
     else let tag = sequence ! sequence_offset in
     and_then (tlv sequence sequence_offset tag) (\<lambda>(content, value_end).
     if value_end \<noteq> length sequence then Inl (aks_error ''keybag state sequence has extra values'')
     else if tag = 0x02
     then and_then (der_integer content (key = ''bh'') key) (\<lambda>value. Inr (key, PyInt value, offset))
     else if tag = 0x04 then Inr (key, PyBytes content, offset)
     else Inl (aks_error ''keybag state value type is unsupported'')))))"

lemma der_length_progress: "der_length data offset = Inr (len, offset') \<Longrightarrow> offset < offset'"
  by (auto simp: der_length_def Let_def res_simps split: if_splits)

lemma tlv_progress: "tlv data offset tag = Inr (content, offset') \<Longrightarrow> offset < offset'"
  by (auto simp: tlv_def Let_def res_simps dest!: der_length_progress)

lemma decode_entry_progress: "decode_entry root offset values = Inr (key, v, offset') \<Longrightarrow> offset < offset'"
  by (auto simp: decode_entry_def Let_def res_simps dest!: tlv_progress [of root] split: if_splits)

text \<open>The loop, with \<^verbatim>\<open>values\<close> and \<^verbatim>\<open>field_order\<close> as its state.\<close>

function decode_entries :: "bytes \<Rightarrow> nat \<Rightarrow> pydict \<Rightarrow> string list \<Rightarrow> (pydict \<times> string list) res" where
  "decode_entries root offset values field_order =
     (if offset < length root
      then and_then (decode_entry root offset values) (\<lambda>(key, value, offset).
           decode_entries root offset (dict_put values (KStr key) value) (field_order @ [key]))
      else Inr (values, field_order))"
  by auto
termination
  by (relation "measure (\<lambda>(root, offset, values, field_order). length root - offset)")
    (auto dest!: decode_entry_progress)

declare decode_entries.simps [simp del]

section \<open>The decoder\<close>

definition expected_fields :: "string list" where
  "expected_fields = [''bh'', ''mua'', ''sb'', ''sfa'', ''sgs'', ''sls'', ''sms'', ''srcd'', ''ss'', ''uuuid'']"

text \<open>The checks on the collected values, and the result.\<close>

definition state_of_values :: "pydict \<Rightarrow> keybag_state res" where
  "state_of_values values =
     (let field = (\<lambda>k. dict_get values k); number = (\<lambda>k. int_of (dict_get values k)) in
     if \<not> list_all (\<lambda>k. type_is_int (field k)) (filter (\<lambda>k. k \<noteq> ''uuuid'') expected_fields)
     then Inl (aks_error ''keybag state integer field has the wrong type'')
     else if \<not> type_is_bytes (field ''uuuid'') \<or> length (bytes_of (field ''uuuid'')) \<noteq> 16
     then Inl (aks_error ''keybag user UUID is not exactly 16 bytes'')
     else and_then (uuid_text (bytes_of (field ''uuuid''))) (\<lambda>user_uuid.
     if be_uint (bytes_of (field ''uuuid'')) = 0 then Inl (aks_error ''keybag user UUID is zero'')
     else if \<not> list_all (\<lambda>k. type_is_int (field k)) [''bh'', ''mua'', ''sb'', ''sfa'', ''sgs'', ''sls'', ''sms'', ''srcd'', ''ss'']
     then Inl (Exc AssertionError [])
     else if AKS_UINT32_MAX < number ''mua'' then Inl (aks_error ''maximum unlock attempts is outside uint32'')
     else if AKS_UINT32_MAX < number ''sb'' \<or> AKS_UINT32_MAX < number ''sfa''
     then Inl (aks_error ''keybag retry state is outside uint32'')
     else if AKS_UINT32_MAX < number ''sgs'' \<or> AKS_UINT32_MAX < number ''sms''
     then Inl (aks_error ''keybag generation state is outside uint32'')
     else if AKS_UINT32_MAX < number ''srcd'' \<or> AKS_UINT32_MAX < number ''ss''
     then Inl (aks_error ''keybag state word is outside uint32'')
     else if 0xFFFF < number ''sls'' then Inl (aks_error ''keybag lock state is outside uint16'')
     else Inr \<lparr>ks_handle = number ''bh'', ks_maximum_unlock_attempts = number ''mua'', ks_backoff = number ''sb'',
               ks_failed_attempts = number ''sfa'', ks_generation_state = number ''sgs'', ks_lock_state = number ''sls'',
               ks_more_state = number ''sms'', ks_recovery_countdown = number ''srcd'', ks_state = number ''ss'',
               ks_user_uuid = user_uuid\<rparr>))"

definition decode_state :: "pyval \<Rightarrow> keybag_state res" where
  "decode_state data =
     (if \<not> type_is_bytes data \<or> \<not> (0 < length (bytes_of data) \<and> length (bytes_of data) \<le> MAX_DER_BYTES)
      then Inl (aks_error ''keybag state size is invalid'')
      else and_then (tlv (bytes_of data) 0 0x31) (\<lambda>(root, stop).
      if stop \<noteq> length (bytes_of data) then Inl (aks_error ''keybag state has trailing data'')
      else and_then (decode_entries root 0 [] []) (\<lambda>(values, field_order).
      if set (map fst values) \<noteq> set (map KStr expected_fields)
      then Inl (aks_error ''keybag state fields are incomplete or unsupported'')
      else if field_order \<noteq> sort expected_fields then Inl (aks_error ''keybag state fields are not in Apple key order'')
      else state_of_values values)))"

end
