(* ===== verification/Aks_Facts.thy ===== *)
theory Aks_Facts
  imports Aks_State
begin

text \<open>
  Correctness of the keybag state decoder: it accepts exactly one encoding of each state, the canonical
  DER encoding with the entries in key order, and returns that state.
\<close>

section \<open>Integers\<close>

text \<open>The shortest two's complement encoding, most significant byte first.\<close>

function int_bytes :: "int \<Rightarrow> bytes" where
  "int_bytes v = (if -128 \<le> v \<and> v < 128 then [word_of_int v] else int_bytes (v div 256) @ [word_of_int v])"
  by auto
termination by (relation "measure (\<lambda>v. nat \<bar>v\<bar>)") auto

declare int_bytes.simps [simp del]

definition minimal :: "bytes \<Rightarrow> bool" where
  "minimal bs = (bs \<noteq> [] \<and> \<not> (1 < length bs \<and> bs ! 0 = 0 \<and> uint (bs ! 1) < 0x80)
     \<and> \<not> (1 < length bs \<and> bs ! 0 = 0xFF \<and> 0x80 \<le> uint (bs ! 1)))"

lemma int_bytes_Nil [simp]: "int_bytes v \<noteq> []"
  by (subst int_bytes.simps) simp

lemma uint_byte_not_neg [simp]: "uint b \<noteq> -1" for b :: byte
  using uint_byte_bounds [of b] by linarith

lemma shifted_small: "0 \<le> u \<Longrightarrow> u < 256 \<Longrightarrow> -128 \<le> 256 * w + u \<Longrightarrow> 256 * w + u < 128
    \<Longrightarrow> w = 0 \<and> u < 128 \<or> w = -1 \<and> 128 \<le> u" for u w :: int
proof -
  consider "w \<le> -2" | "w = -1" | "w = 0" | "1 \<le> w" by linarith
  moreover assume "0 \<le> u" "u < 256" "-128 \<le> 256 * w + u" "256 * w + u < 128"
  ultimately show ?thesis by cases linarith+
qed

lemma be_sint_single: "be_sint [b] = (if 128 \<le> uint b then uint b - 256 else uint b)"
  by (simp add: be_sint_def)

lemma be_sint_snoc: "bs \<noteq> [] \<Longrightarrow> be_sint (bs @ [b]) = 256 * be_sint bs + uint b"
  by (simp add: be_sint_def algebra_simps)

lemma be_sint_single_bounds: "-128 \<le> be_sint [b] \<and> be_sint [b] < 128"
  unfolding be_sint_single by (split if_split) (use uint_byte_bounds [of b] in linarith)

lemma word_of_be_sint: "word_of_int (be_sint [b]) = b"
proof -
  have "(word_of_int (uint b - 256) :: byte) = word_of_int (uint b)"
    unfolding word_of_int_eq_iff by (simp add: take_bit_eq_mod)
  then show ?thesis by (simp add: be_sint_single)
qed

lemma mod_256: "-128 \<le> v \<Longrightarrow> v < 128 \<Longrightarrow> v mod 256 = (if 0 \<le> v then v else v + 256)" for v :: int
  using mod_add_self2 [of v 256] by (auto simp: mod_pos_pos_trivial simp del: mod_add_self2)

lemma be_sint_word: "-128 \<le> v \<Longrightarrow> v < 128 \<Longrightarrow> be_sint [word_of_int v] = v"
  by (simp add: be_sint_single uint_word_of_int mod_256)

lemma be_sint_int_bytes: "be_sint (int_bytes v) = v"
proof (induction v rule: int_bytes.induct)
  case (1 v)
  show ?case
  proof (cases "-128 \<le> v \<and> v < 128")
    case True
    then show ?thesis by (simp add: int_bytes.simps [of v] be_sint_word)
  next
    case False
    then have "int_bytes v = int_bytes (v div 256) @ [word_of_int v]" by (simp add: int_bytes.simps [of v])
    with 1 False show ?thesis by (simp add: be_sint_snoc uint_word_of_int)
  qed
qed

lemma minimal_snoc: "2 \<le> length bs \<Longrightarrow> minimal (bs @ [b]) \<longleftrightarrow> minimal bs"
  by (auto simp: minimal_def nth_append)

lemma int_bytes_short: "length (int_bytes v) \<noteq> 1 \<longleftrightarrow> \<not> (-128 \<le> v \<and> v < 128)"
  by (auto simp: int_bytes.simps [of v])

lemma byte_eq_iff: "b = c \<longleftrightarrow> uint b = uint c" for b c :: byte
  by (rule word_uint_eq_iff)

lemma minimal_int_bytes: "minimal (int_bytes v)"
proof (induction v rule: int_bytes.induct)
  case (1 v)
  show ?case
  proof (cases "-128 \<le> v \<and> v < 128")
    case True
    then show ?thesis by (simp add: int_bytes.simps [of v] minimal_def)
  next
    case False
    then have step: "int_bytes v = int_bytes (v div 256) @ [word_of_int v]" by (simp add: int_bytes.simps [of v])
    show ?thesis
    proof (cases "-128 \<le> v div 256 \<and> v div 256 < 128")
      case True
      then have "int_bytes (v div 256) = [word_of_int (v div 256)]" by (simp add: int_bytes.simps [of "v div 256"])
      moreover have "\<not> (v div 256 = 0 \<and> v mod 256 < 128)" "\<not> (v div 256 = -1 \<and> 128 \<le> v mod 256)"
        using False mult_div_mod_eq [of 256 v] by linarith+
      moreover have "(word_of_int (v div 256) :: byte) = 0 \<longleftrightarrow> v div 256 = 0"
        "(word_of_int (v div 256) :: byte) = 0xFF \<longleftrightarrow> v div 256 = -1"
        using True by (simp_all add: byte_eq_iff uint_word_of_int mod_256) arith
      ultimately show ?thesis using step by (auto simp: minimal_def uint_word_of_int)
    next
      case False
      then have "2 \<le> length (int_bytes (v div 256))"
        using int_bytes_short [of "v div 256"] int_bytes_Nil [of "v div 256"]
        by (cases "int_bytes (v div 256)"; cases "tl (int_bytes (v div 256))") auto
      with step 1 \<open>\<not> (-128 \<le> v \<and> v < 128)\<close> show ?thesis by (simp add: minimal_snoc)
    qed
  qed
qed

lemma int_bytes_step:
  assumes "\<not> (-128 \<le> 256 * w + uint b \<and> 256 * w + uint b < 128)"
  shows "int_bytes (256 * w + uint b) = int_bytes w @ [b]"
proof -
  have "(256 * w + uint b) div 256 = w" using uint_byte_bounds [of b] by simp
  moreover have "(word_of_int (256 * w + uint b) :: byte) = word_of_int (uint b)"
    unfolding word_of_int_eq_iff by (simp add: take_bit_eq_mod)
  ultimately show ?thesis using assms by (simp add: int_bytes.simps [of "256 * w + uint b"])
qed

lemma int_bytes_be_sint: "minimal bs \<Longrightarrow> int_bytes (be_sint bs) = bs"
proof (induction bs rule: rev_induct)
  case (snoc b bs)
  consider "bs = []" | a where "bs = [a]" | "2 \<le> length bs"
    by (cases bs; cases "tl bs") auto
  then show ?case
  proof cases
    case 1
    then show ?thesis
      using be_sint_single_bounds [of b] by (simp add: int_bytes.simps [of "be_sint [b]"] word_of_be_sint)
  next
    case (2 a)
    then have v: "be_sint (bs @ [b]) = 256 * be_sint [a] + uint b" using be_sint_snoc [of "[a]" b] by simp
    from snoc.prems 2 have "\<not> (be_sint [a] = 0 \<and> uint b < 128)" "\<not> (be_sint [a] = -1 \<and> 128 \<le> uint b)"
      using uint_byte_bounds [of a] by (auto simp: minimal_def be_sint_single byte_eq_iff split: if_splits)
    then have "\<not> (-128 \<le> be_sint (bs @ [b]) \<and> be_sint (bs @ [b]) < 128)"
      using uint_byte_bounds [of b] shifted_small [of "uint b" "be_sint [a]"] unfolding v by blast
    then have "int_bytes (be_sint (bs @ [b])) = int_bytes (be_sint [a]) @ [b]"
      unfolding v by (rule int_bytes_step)
    with 2 be_sint_single_bounds [of a] show ?thesis
      by (simp add: int_bytes.simps [of "be_sint [a]"] word_of_be_sint)
  next
    case 3
    have v: "be_sint (bs @ [b]) = 256 * be_sint bs + uint b" using 3 by (intro be_sint_snoc) auto
    from 3 snoc have IH: "int_bytes (be_sint bs) = bs" by (simp add: minimal_snoc)
    with 3 have "\<not> (-128 \<le> be_sint bs \<and> be_sint bs < 128)" using int_bytes_short [of "be_sint bs"] by auto
    then have "be_sint bs \<noteq> 0" "be_sint bs \<noteq> -1" by auto
    then have "\<not> (-128 \<le> be_sint (bs @ [b]) \<and> be_sint (bs @ [b]) < 128)"
      using uint_byte_bounds [of b] shifted_small [of "uint b" "be_sint bs"] unfolding v by blast
    then have "int_bytes (be_sint (bs @ [b])) = int_bytes (be_sint bs) @ [b]"
      unfolding v by (rule int_bytes_step)
    with IH show ?thesis by simp
  qed
qed (simp add: minimal_def)

lemma byte_sign_bit: "b AND 0x80 = 0 \<longleftrightarrow> uint b < 128" for b :: byte
proof -
  have "b AND 2 ^ 7 = 0 \<longleftrightarrow> \<not> bit b 7" by (rule and_exp_eq_0_iff_not_bit)
  moreover have "bit b 7 \<longleftrightarrow> odd (uint b div 128)" using bit_uint_iff [of b 7] by (simp add: bit_iff_odd [of "uint b"])
  moreover have "uint b div 128 = 0 \<or> uint b div 128 = 1" using uint_byte_bounds [of b] by auto
  ultimately show ?thesis using uint_byte_bounds [of b] by auto
qed


lemma der_integer_iff:
  "der_integer content is_signed field = Inr v \<longleftrightarrow> content = int_bytes v
     \<and> (if is_signed then INT32_MIN \<le> v \<and> v \<le> INT32_MAX \<and> v \<noteq> 0 else 0 \<le> v \<and> v \<le> UINT64_MAX)"
proof -
  have "der_integer content is_signed field = Inr v \<longleftrightarrow> minimal content \<and> (is_signed \<or> uint (content ! 0) < 128)
      \<and> v = (if is_signed then be_sint content else be_uint content)
      \<and> (if is_signed then INT32_MIN \<le> v \<and> v \<le> INT32_MAX \<and> v \<noteq> 0 else 0 \<le> v \<and> v \<le> UINT64_MAX)"
    by (auto simp: der_integer_def minimal_def Let_def byte_sign_bit split: if_splits)
  also have "\<dots> \<longleftrightarrow> (minimal content \<and> v = be_sint content)
      \<and> (if is_signed then INT32_MIN \<le> v \<and> v \<le> INT32_MAX \<and> v \<noteq> 0 else 0 \<le> v \<and> v \<le> UINT64_MAX)"
    using be_uint_bounds [of content] by (auto simp: be_sint_def minimal_def hd_conv_nth not_less)
  also have "minimal content \<and> v = be_sint content \<longleftrightarrow> content = int_bytes v"
    using minimal_int_bytes [of v] be_sint_int_bytes [of v] int_bytes_be_sint [of content] by auto
  finally show ?thesis by blast
qed

section \<open>Lengths and tags\<close>

definition der_len :: "nat \<Rightarrow> bytes" where
  "der_len n = (if n < 128 then [word_of_nat n] else if n < 256 then [0x81, word_of_nat n]
     else [0x82, word_of_nat (n div 256), word_of_nat (n mod 256)])"

definition der :: "byte \<Rightarrow> bytes \<Rightarrow> bytes" where
  "der tag content = tag # der_len (length content) @ content"

lemma der_length_drop:
  "offset \<le> length data \<Longrightarrow>
     der_length data offset = and_then (der_length (drop offset data) 0) (\<lambda>(n, e). Inr (n, offset + e))"
  by (auto simp: der_length_def Let_def nth_drop add.commute)

lemma unat_AND_7F: "unat (b AND 0x7F) = unat b mod 128" for b :: byte
proof -
  have "b AND 0x7F = take_bit 7 b" by (simp add: take_bit_eq_mask mask_eq_exp_minus_1)
  then have "unat (b AND 0x7F) = take_bit 7 (unat b)" by (simp only: unsigned_take_bit_eq)
  then show ?thesis by (simp add: take_bit_eq_mod)
qed

lemma der_length_nil [simp]: "der_length [] 0 = Inl (aks_error ''DER length is truncated'')"
  by (simp add: der_length_def)

lemma word_of_unat_byte [simp]: "word_of_nat (unat b) = b" for b :: byte
  by simp

lemma long_form: "128 \<le> unat b \<Longrightarrow> unat (b AND 0x7F) = unat b - 128" for b :: byte
  using unat_byte [of b] by (simp add: unat_AND_7F mod_if)

lemma byte_unat_eq: "unat b = n \<Longrightarrow> n < 256 \<Longrightarrow> b = word_of_nat n" for b :: byte
  by auto

lemma der_length_sound:
  assumes "der_length data 0 = Inr (n, e)"
  shows "n < 65536 \<and> data = der_len n @ drop e data \<and> e = length (der_len n)"
proof (cases data)
  case (Cons b bs)
  show ?thesis
  proof (cases "unat b < 128")
    case True
    with Cons assms show ?thesis by (auto simp: der_length_def der_len_def)
  next
    case False
    define count where "count = unat b - 128"
    have c: "count = 1 \<or> count = 2" "count \<le> length bs" "bs ! 0 \<noteq> 0 \<or> take count bs = []"
      "n = nat (be_uint (take count bs))" "128 \<le> n" "e = 1 + count"
      using assms Cons False by (auto simp: der_length_def Let_def long_form count_def nth_append split: if_splits)
    from c(1) show ?thesis
    proof
      assume 1: "count = 1"
      then have "b = 0x81" using False byte_unat_eq [of b 129] by (simp add: count_def)
      moreover from 1 c(2) obtain b1 cs where "bs = b1 # cs" by (cases bs) auto
      ultimately show ?thesis using c 1 Cons unat_byte [of b1] by (simp add: der_len_def)
    next
      assume 2: "count = 2"
      then have "b = 0x82" using False byte_unat_eq [of b 130] by (simp add: count_def)
      moreover from 2 c(2) obtain b1 b2 cs where bs: "bs = b1 # b2 # cs" by (cases bs; cases "tl bs") auto
      moreover from bs c(3) 2 have "b1 \<noteq> 0" by simp
      then have "1 \<le> unat b1" by (simp add: unat_gt_0 Suc_le_eq)
      moreover have "n = 256 * unat b1 + unat b2" using c(4) bs 2 by (simp add: nat_add_distrib nat_mult_distrib)
      ultimately show ?thesis using c(6) 2 Cons unat_byte [of b1] unat_byte [of b2] by (simp add: der_len_def)
    qed
  qed
qed (use assms in simp)

lemma der_length_complete: "n < 65536 \<Longrightarrow> der_length (der_len n @ rest) 0 = Inr (n, length (der_len n))"
proof -
  assume n: "n < 65536"
  consider "n < 128" | "128 \<le> n" "n < 256" | "256 \<le> n" by linarith
  then show ?thesis
  proof cases
    case 3
    have "n div 256 < 256" "n div 256 \<noteq> 0" using n 3 by (auto simp: div_less_iff_less_mult)
    moreover have "unat (word_of_nat (n div 256) :: byte) = n div 256" 
      using calculation by (simp add: unsigned_of_nat take_bit_eq_mod)
    then have "(word_of_nat (n div 256) :: byte) \<noteq> 0" using calculation(2) by (metis unsigned_0)
    moreover have "uint (word_of_nat (n div 256) :: byte) = int (n div 256)" "uint (word_of_nat (n mod 256) :: byte) = int (n mod 256)"
      using calculation by (simp_all add: unsigned_of_nat take_bit_eq_mod)
    moreover have "nat (256 * int (n div 256) + int (n mod 256)) = n"
      using mult_div_mod_eq [of 256 n] by linarith
    ultimately show ?thesis using 3 by (simp add: der_length_def der_len_def Let_def)
  qed (auto simp: der_length_def der_len_def Let_def unsigned_of_nat take_bit_eq_mod word_of_nat_eq_0_iff)
qed

lemma der_length_iff:
  assumes "offset \<le> length data"
  shows "der_length data offset = Inr (n, e) \<longleftrightarrow>
    n < 65536 \<and> drop offset data = der_len n @ drop e data \<and> e = offset + length (der_len n)"
proof
  assume "der_length data offset = Inr (n, e)"
  then obtain k where "der_length (drop offset data) 0 = Inr (n, k)" "e = offset + k"
    by (auto simp: der_length_drop [OF assms] res_simps)
  with der_length_sound [of "drop offset data" n k]
  show "n < 65536 \<and> drop offset data = der_len n @ drop e data \<and> e = offset + length (der_len n)"
    by (simp add: add.commute)
next
  assume "n < 65536 \<and> drop offset data = der_len n @ drop e data \<and> e = offset + length (der_len n)"
  with der_length_complete [of n "drop e data"] show "der_length data offset = Inr (n, e)"
    by (simp add: der_length_drop [OF assms])
qed

lemma tlv_iff:
  assumes "offset \<le> length data"
  shows "tlv data offset tag = Inr (content, e) \<longleftrightarrow>
    length content < 65536 \<and> drop offset data = der tag content @ drop e data \<and> e = offset + length (der tag content)"
  (is "_ \<longleftrightarrow> ?R")
proof (cases "offset < length data")
  case True
  then have split: "drop offset data = data ! offset # drop (offset + 1) data" by (simp add: Cons_nth_drop_Suc)
  show ?thesis
  proof
    assume "tlv data offset tag = Inr (content, e)"
    then obtain n k where k: "der_length data (offset + 1) = Inr (n, k)" "data ! offset = tag" "k + n \<le> length data"
      "content = take n (drop k data)" "e = k + n"
      by (auto simp: tlv_def Let_def res_simps split: if_splits)
    from k(1) True have d: "n < 65536" "drop (offset + 1) data = der_len n @ drop k data" "k = offset + 1 + length (der_len n)"
      by (simp_all add: der_length_iff)
    have "drop k data = content @ drop e data" "length content = n"
      using append_take_drop_id [of n "drop k data"] k by (simp_all add: add.commute)
    with d k split show ?R by (simp add: der_def)
  next
    assume R: ?R
    define k where "k = offset + 1 + length (der_len (length content))"
    from R split have s: "data ! offset = tag"
      "drop (offset + 1) data = der_len (length content) @ content @ drop e data" by (simp_all add: der_def)
    then have "drop (length (der_len (length content))) (drop (offset + 1) data) = content @ drop e data" by simp
    then have d: "drop k data = content @ drop e data" by (simp add: k_def add.commute)
    with s(2) have "der_length data (offset + 1) = Inr (length content, k)"
      using True R by (simp add: der_length_iff k_def)
    moreover have "k + length content \<le> length data"
    proof -
      from R have "length data - offset = length (der tag content) + (length data - e)" "e = offset + length (der tag content)"
        by (metis length_append length_drop)+
      with True show ?thesis by (simp add: k_def der_def)
    qed
    moreover have "e = k + length content" using R by (simp add: k_def der_def)
    ultimately show "tlv data offset tag = Inr (content, e)" using True s(1) d by (simp add: tlv_def)
  qed
next
  case False
  with assms show ?thesis by (simp add: tlv_def der_def)
qed


section \<open>Entries\<close>

fun value_der :: "pyval \<Rightarrow> bytes" where
  "value_der (PyInt i) = der 0x02 (int_bytes i)"
| "value_der (PyBytes bs) = der 0x04 bs"
| "value_der v = []"

definition entry_der :: "string \<times> pyval \<Rightarrow> bytes" where
  "entry_der kv = der 0x30 (der 0x0C (bytes_lit (fst kv)) @ value_der (snd kv))"

fun entry_ok :: "string \<times> pyval \<Rightarrow> bool" where
  "entry_ok (k, PyInt i) = (if k = ''bh'' then INT32_MIN \<le> i \<and> i \<le> INT32_MAX \<and> i \<noteq> 0 else 0 \<le> i \<and> i \<le> UINT64_MAX)"
| "entry_ok (k, PyBytes bs) = True"
| "entry_ok (k, v) = False"

definition ascii_key :: "string \<Rightarrow> bool" where
  "ascii_key k = list_all (\<lambda>c. (of_char c :: nat) < 128) k"

lemma decode_ascii_iff: "decode_ascii bs = Inr k \<longleftrightarrow> ascii_key k \<and> bs = bytes_lit k"
proof
  assume "decode_ascii bs = Inr k"
  then have "list_all (\<lambda>b. unat b < 128) bs" "k = map (\<lambda>b. char_of (unat b)) bs"
    by (auto simp: decode_ascii_def split: if_splits)
  then show "ascii_key k \<and> bs = bytes_lit k"
    by (induction bs arbitrary: k) (auto simp: ascii_key_def bytes_lit_def of_char_of)
next
  assume "ascii_key k \<and> bs = bytes_lit k"
  moreover have "ascii_key k \<Longrightarrow> list_all (\<lambda>b. unat b < 128) (bytes_lit k) \<and> map (\<lambda>b. char_of (unat b)) (bytes_lit k) = k"
    by (induction k) (auto simp: ascii_key_def bytes_lit_def unsigned_of_nat take_bit_eq_mod)
  ultimately show "decode_ascii bs = Inr k" by (simp add: decode_ascii_def)
qed

lemma length_der: "length content < length (der tag content)"
  by (simp add: der_def)

lemma tlv_0: "tlv data 0 tag = Inr (content, e) \<longleftrightarrow>
    length content < 65536 \<and> data = der tag content @ drop e data \<and> e = length (der tag content)"
  using tlv_iff [of 0 data tag content e] by simp

lemma decode_entry_sound:
  assumes "decode_entry root offset values = Inr (k, v, e)" and "offset \<le> length root"
  shows "\<not> dict_has values k \<and> entry_ok (k, v) \<and> ascii_key k \<and> drop offset root = entry_der (k, v) @ drop e root
    \<and> e = offset + length (entry_der (k, v))"
proof -
  from assms(1) obtain inner key_content m content where
    s: "tlv root offset 0x30 = Inr (inner, e)" "tlv inner 0 0x0C = Inr (key_content, m)" "decode_ascii key_content = Inr k"
      "\<not> dict_has values k" "m < length inner" "tlv inner m (inner ! m) = Inr (content, length inner)"
    and v: "inner ! m = 0x02 \<and> (\<exists>i. der_integer content (k = ''bh'') k = Inr i \<and> v = PyInt i)
      \<or> inner ! m = 0x04 \<and> v = PyBytes content"
    by (auto simp: decode_entry_def Let_def res_simps split: if_splits)
  from s(2) have "inner = der 0x0C key_content @ drop m inner" unfolding tlv_0 by blast
  moreover from s(5,6) have "drop m inner = der (inner ! m) content" by (simp add: tlv_iff)
  moreover have "value_der v = der (inner ! m) content \<and> entry_ok (k, v)" using v by (auto simp: der_integer_iff)
  ultimately have "der 0x0C (bytes_lit k) @ value_der v = inner" "ascii_key k" "entry_ok (k, v)"
    using s(3) by (simp_all add: decode_ascii_iff)
  with s(1,4) assms(2) show ?thesis by (auto simp: tlv_iff entry_der_def)
qed

lemma decode_entry_complete:
  assumes "\<not> dict_has values k" and "entry_ok (k, v)" and "ascii_key k" and "offset \<le> length root"
    and "drop offset root = entry_der (k, v) @ rest" and "length (entry_der (k, v)) < 65536"
  shows "decode_entry root offset values = Inr (k, v, offset + length (entry_der (k, v)))"
proof -
  define inner where "inner = der 0x0C (bytes_lit k) @ value_der v"
  define e where "e = offset + length (entry_der (k, v))"
  have len: "length inner < 65536"
    using assms(6) length_der [of inner "0x30"] by (simp add: entry_der_def inner_def del: length_append)
  have "drop e root = rest" using arg_cong [OF assms(5), of "drop (length (entry_der (k, v)))"] by (simp add: e_def add.commute)
  then have 1: "tlv root offset 0x30 = Inr (inner, e)"
    using assms(4,5) len by (simp add: tlv_iff entry_der_def inner_def e_def)
  obtain tag content where c: "value_der v = der tag content"
    "tag = 0x02 \<and> (\<exists>i. der_integer content (k = ''bh'') k = Inr i \<and> v = PyInt i) \<or> tag = 0x04 \<and> v = PyBytes content"
    using assms(2) by (cases v) (auto simp: der_integer_iff)
  define m where "m = length (der 0x0C (bytes_lit k))"
  have d: "drop m inner = der tag content" by (simp add: inner_def m_def c(1))
  have "length (bytes_lit k) < 65536" "length content < 65536"
    using len length_der [of "bytes_lit k" "0x0C"] length_der [of content tag] by (simp_all add: inner_def c(1))
  moreover have "length inner = m + length (der tag content)" by (simp add: inner_def m_def c(1))
  ultimately have 2: "tlv inner 0 0x0C = Inr (bytes_lit k, m)" and 3: "tlv inner m tag = Inr (content, length inner)"
    using d by (simp_all add: tlv_0 tlv_iff m_def) (simp add: inner_def)
  have "m < length inner" "inner ! m = tag"
    using d by (simp_all add: inner_def m_def c(1) der_def nth_append)
  moreover have "decode_ascii (bytes_lit k) = Inr k" using assms(3) by (simp add: decode_ascii_iff)
  ultimately show ?thesis
    using 1 2 3 c(2) assms(1) unfolding e_def [symmetric] by (auto simp: decode_entry_def)
qed


section \<open>The loop\<close>

lemma dict_put_new: "\<not> dict_has d k \<Longrightarrow> dict_put d (KStr k) v = d @ [(KStr k, v)]"
  by (induction d) (auto simp: dict_has_def split: if_splits)

lemma dict_has_append: "dict_has (d @ [(KStr k, v)]) k' \<longleftrightarrow> dict_has d k' \<or> k' = k"
  by (auto simp: dict_has_def map_add_def split: option.splits)

definition dict_of_entries :: "(string \<times> pyval) list \<Rightarrow> pydict" where
  "dict_of_entries = map (\<lambda>(k, v). (KStr k, v))"

lemma dict_of_entries_simps [simp]:
  "dict_of_entries [] = []" "dict_of_entries (kv # kvs) = (KStr (fst kv), snd kv) # dict_of_entries kvs"
  by (simp_all add: dict_of_entries_def case_prod_unfold)

lemma decode_entries_sound:
  "decode_entries root offset values field_order = Inr (values', order') \<Longrightarrow> offset \<le> length root \<Longrightarrow>
     \<exists>es. values' = values @ dict_of_entries es \<and> order' = field_order @ map fst es \<and> list_all entry_ok es
       \<and> drop offset root = concat (map entry_der es)"
proof (induction root offset "values" field_order rule: decode_entries.induct)
  case (1 root offset "values" field_order)
  show ?case
  proof (cases "offset < length root")
    case True
    with "1.prems" obtain k v e where
      e: "decode_entry root offset values = Inr (k, v, e)"
        "decode_entries root e (dict_put values (KStr k) v) (field_order @ [k]) = Inr (values', order')"
      by (auto simp: decode_entries.simps [of root offset] res_simps)
    from decode_entry_sound [OF e(1) "1.prems"(2)] have
      s: "\<not> dict_has values k" "entry_ok (k, v)" "drop offset root = entry_der (k, v) @ drop e root" by auto
    then have "length root - offset = length (entry_der (k, v)) + (length root - e)" "e = offset + length (entry_der (k, v))"
      using decode_entry_sound [OF e(1) "1.prems"(2)] by (metis length_append length_drop)+
    then have "e \<le> length root" using True by simp
    with "1.IH" [OF True e(1) refl refl] e(2) obtain es where
      "values' = dict_put values (KStr k) v @ dict_of_entries es" "order' = (field_order @ [k]) @ map fst es"
      "list_all entry_ok es" "drop e root = concat (map entry_der es)" by blast
    with s show ?thesis by (intro exI [of _ "(k, v) # es"]) (simp add: dict_put_new)
  next
    case False
    with "1.prems" show ?thesis by (intro exI [of _ "[]"]) (simp add: decode_entries.simps [of root offset])
  qed
qed

lemma decode_entries_complete:
  assumes "offset \<le> length root" and "drop offset root = concat (map entry_der es)" and "length root < 65536"
    and "list_all (\<lambda>kv. entry_ok kv \<and> ascii_key (fst kv)) es" and "distinct (map fst es)"
    and "\<forall>k \<in> set (map fst es). \<not> dict_has values k"
  shows "decode_entries root offset values field_order = Inr (values @ dict_of_entries es, field_order @ map fst es)"
  using assms
proof (induction es arbitrary: offset "values" field_order)
  case Nil
  then show ?case by (simp add: decode_entries.simps [of root offset])
next
  case (Cons kv es)
  obtain k v where kv: "kv = (k, v)" by fastforce
  define e where "e = offset + length (entry_der (k, v))"
  have d: "drop offset root = entry_der (k, v) @ concat (map entry_der es)" using Cons.prems(2) kv by simp
  have len: "length root - offset = length (entry_der (k, v)) + length (concat (map entry_der es))"
    using arg_cong [OF d, of length] by simp
  then have lt: "offset < length root" "e \<le> length root" "length (entry_der (k, v)) < 65536"
    using Cons.prems(1,3) by (auto simp: e_def entry_der_def der_def)
  have "drop e root = concat (map entry_der es)"
    using arg_cong [OF d, of "drop (length (entry_der (k, v)))"] by (simp add: e_def add.commute)
  moreover have "decode_entry root offset values = Inr (k, v, e)"
    unfolding e_def using Cons.prems kv d lt(3) by (intro decode_entry_complete) auto
  moreover have put: "dict_put values (KStr k) v = values @ [(KStr k, v)]" using Cons.prems(6) kv by (simp add: dict_put_new)
  moreover have "\<forall>k' \<in> set (map fst es). \<not> dict_has (values @ [(KStr k, v)]) k'"
    using Cons.prems(5,6) kv by (auto simp: dict_has_append)
  ultimately show ?case
    using Cons.IH [of e "values @ [(KStr k, v)]" "field_order @ [k]"] Cons.prems(3,4,5) lt kv
    by (simp add: decode_entries.simps [of root offset])
qed


section \<open>States\<close>

text \<open>The states that can be encoded, with the bytes of their UUID, and their encoding.\<close>

definition u32 :: "int \<Rightarrow> bool" where
  "u32 n = (0 \<le> n \<and> n \<le> AKS_UINT32_MAX)"

definition keybag_ok :: "keybag_state \<Rightarrow> bytes \<Rightarrow> bool" where
  "keybag_ok s raw = (INT32_MIN \<le> ks_handle s \<and> ks_handle s \<le> INT32_MAX \<and> ks_handle s \<noteq> 0
     \<and> list_all u32 [ks_maximum_unlock_attempts s, ks_backoff s, ks_failed_attempts s, ks_generation_state s,
          ks_more_state s, ks_recovery_countdown s, ks_state s]
     \<and> 0 \<le> ks_lock_state s \<and> ks_lock_state s \<le> 0xFFFF
     \<and> length raw = 16 \<and> raw \<noteq> zero_bytes 16 \<and> uuid_text raw = Inr (ks_user_uuid s))"

definition keybag_entries :: "keybag_state \<Rightarrow> bytes \<Rightarrow> (string \<times> pyval) list" where
  "keybag_entries s raw = [(''bh'', PyInt (ks_handle s)), (''mua'', PyInt (ks_maximum_unlock_attempts s)),
     (''sb'', PyInt (ks_backoff s)), (''sfa'', PyInt (ks_failed_attempts s)), (''sgs'', PyInt (ks_generation_state s)),
     (''sls'', PyInt (ks_lock_state s)), (''sms'', PyInt (ks_more_state s)), (''srcd'', PyInt (ks_recovery_countdown s)),
     (''ss'', PyInt (ks_state s)), (''uuuid'', PyBytes raw)]"

definition keybag_der :: "keybag_state \<Rightarrow> bytes \<Rightarrow> bytes" where
  "keybag_der s raw = der 0x31 (concat (map entry_der (keybag_entries s raw)))"

lemma sort_expected_fields: "sort expected_fields = expected_fields"
  by code_simp

lemma keybag_entries_fields: "map fst (keybag_entries s raw) = expected_fields"
  by (simp add: keybag_entries_def expected_fields_def)

lemma entries_of_fields:
  assumes "map fst es = expected_fields"
  obtains a b c d e f g h i j where "es = [(''bh'', a), (''mua'', b), (''sb'', c), (''sfa'', d), (''sgs'', e), (''sls'', f),
     (''sms'', g), (''srcd'', h), (''ss'', i), (''uuuid'', j)]"
  using assms by (auto simp: expected_fields_def map_eq_Cons_conv)

lemma state_of_values_iff:
  "state_of_values (dict_of_entries [(''bh'', a), (''mua'', b), (''sb'', c), (''sfa'', d), (''sgs'', e), (''sls'', f),
     (''sms'', g), (''srcd'', h), (''ss'', i), (''uuuid'', j)]) = Inr s \<longleftrightarrow>
   a = PyInt (ks_handle s) \<and> b = PyInt (ks_maximum_unlock_attempts s) \<and> c = PyInt (ks_backoff s)
   \<and> d = PyInt (ks_failed_attempts s) \<and> e = PyInt (ks_generation_state s) \<and> f = PyInt (ks_lock_state s)
   \<and> g = PyInt (ks_more_state s) \<and> h = PyInt (ks_recovery_countdown s) \<and> i = PyInt (ks_state s)
   \<and> ks_maximum_unlock_attempts s \<le> AKS_UINT32_MAX \<and> ks_backoff s \<le> AKS_UINT32_MAX
   \<and> ks_failed_attempts s \<le> AKS_UINT32_MAX \<and> ks_generation_state s \<le> AKS_UINT32_MAX
   \<and> ks_more_state s \<le> AKS_UINT32_MAX \<and> ks_recovery_countdown s \<le> AKS_UINT32_MAX
   \<and> ks_state s \<le> AKS_UINT32_MAX \<and> ks_lock_state s \<le> 0xFFFF
   \<and> (\<exists>raw. j = PyBytes raw \<and> length raw = 16 \<and> raw \<noteq> zero_bytes 16 \<and> uuid_text raw = Inr (ks_user_uuid s))"
  by (cases s) (auto simp: state_of_values_def dict_get_def expected_fields_def Let_def res_simps py_simps bytes_type_iff
      be_uint_zero not_less)

lemma state_of_entries:
  assumes "map fst es = expected_fields" and "list_all entry_ok es"
  shows "state_of_values (dict_of_entries es) = Inr s \<longleftrightarrow> (\<exists>raw. es = keybag_entries s raw \<and> keybag_ok s raw)"
  by (rule entries_of_fields [OF assms(1)])
    (use assms(2) in \<open>auto simp: state_of_values_iff keybag_entries_def keybag_ok_def u32_def simp del: dict_of_entries_simps\<close>)

lemma keybag_entries_ok:
  "keybag_ok s raw \<Longrightarrow> list_all (\<lambda>kv. entry_ok kv \<and> ascii_key (fst kv)) (keybag_entries s raw)"
  by (simp add: keybag_entries_def keybag_ok_def u32_def AKS_UINT32_MAX_def UINT64_MAX_def ascii_key_def)

lemma int_bytes_length: "- (2 ^ (8 * n + 7)) \<le> v \<Longrightarrow> v < 2 ^ (8 * n + 7) \<Longrightarrow> length (int_bytes v) \<le> Suc n"
proof (induction n arbitrary: v)
  case (Suc n)
  have "(2::int) ^ (8 * Suc n + 7) = 256 * 2 ^ (8 * n + 7)" by (simp add: power_add)
  with Suc.prems have "- (2 ^ (8 * n + 7)) \<le> v div 256" "v div 256 < 2 ^ (8 * n + 7)" by auto
  with Suc.IH [of "v div 256"] show ?case by (simp add: int_bytes.simps [of v])
next
  case 0
  then show ?case by (simp add: int_bytes.simps [of v])
qed

lemma der_length_le: "length (der tag content) \<le> 4 + length content"
  by (simp add: der_def der_len_def)

lemma entry_der_length:
  assumes "length (value_der v) \<le> n"
  shows "length (entry_der (k, v)) \<le> 8 + length k + n"
proof -
  have "length (entry_der (k, v)) \<le> 4 + length (der 0x0C (bytes_lit k) @ value_der v)"
    unfolding entry_der_def fst_conv snd_conv by (rule der_length_le)
  also have "\<dots> \<le> 4 + (4 + length k) + n" using assms der_length_le [of "0x0C" "bytes_lit k"] by simp
  finally show ?thesis by simp
qed

lemma number_der_length: "- (2 ^ 39) \<le> i \<Longrightarrow> i < 2 ^ 39 \<Longrightarrow> length (value_der (PyInt i)) \<le> 9"
  using int_bytes_length [of 4 i] der_length_le [of "0x02" "int_bytes i"] by simp

lemma keybag_entry_length: "keybag_ok s raw \<Longrightarrow> kv \<in> set (keybag_entries s raw) \<Longrightarrow> length (entry_der kv) \<le> 40"
proof -
  assume ok: "keybag_ok s raw" and kv: "kv \<in> set (keybag_entries s raw)"
  have "length (fst kv) \<le> 5" using kv by (auto simp: keybag_entries_def)
  moreover have "length (value_der (snd kv)) \<le> 20"
  proof (cases "snd kv")
    case (PyInt i)
    with ok kv have "- (2 ^ 39) \<le> i \<and> i < 2 ^ 39"
      by (auto simp: keybag_entries_def keybag_ok_def u32_def AKS_UINT32_MAX_def INT32_MIN_def INT32_MAX_def)
    with PyInt number_der_length [of i] show ?thesis by simp
  next
    case (PyBytes bs)
    with ok kv have "length bs = 16" by (auto simp: keybag_entries_def keybag_ok_def)
    with PyBytes der_length_le [of "0x04" bs] show ?thesis by simp
  qed (use kv in \<open>auto simp: keybag_entries_def\<close>)
  ultimately show ?thesis using entry_der_length [of "snd kv" 20 "fst kv"] by simp
qed

lemma keybag_der_length: "keybag_ok s raw \<Longrightarrow> length (concat (map entry_der (keybag_entries s raw))) \<le> 400"
proof -
  assume ok: "keybag_ok s raw"
  have "length (concat (map entry_der kvs)) \<le> 40 * length kvs" if "\<forall>kv \<in> set kvs. length (entry_der kv) \<le> 40" for kvs
    using that by (induction kvs) auto
  from this [of "keybag_entries s raw"] keybag_entry_length [OF ok] show ?thesis by (simp add: keybag_entries_def)
qed

lemma keybag_ok_unique: "keybag_ok s raw \<longleftrightarrow> {r. keybag_ok s r} = {raw}"
proof
  assume "keybag_ok s raw"
  then show "{r. keybag_ok s r} = {raw}" by (auto simp: keybag_ok_def intro: uuid_text_inj)
qed auto

section \<open>The decoder\<close>

lemma decode_state_iff:
  "decode_state (PyBytes data) = Inr s \<longleftrightarrow> (\<exists>raw. keybag_ok s raw \<and> data = keybag_der s raw)"
proof
  assume "decode_state (PyBytes data) = Inr s"
  then obtain root vs order where d: "tlv data 0 0x31 = Inr (root, length data)"
    "decode_entries root 0 [] [] = Inr (vs, order)" "order = expected_fields" "state_of_values vs = Inr s"
    by (auto simp: decode_state_def res_simps py_simps bytes_type_iff sort_expected_fields)
  from decode_entries_sound [OF d(2)] d(3) obtain es where
    es: "vs = dict_of_entries es" "map fst es = expected_fields" "list_all entry_ok es" "root = concat (map entry_der es)"
    by auto
  with d(4) obtain raw where "es = keybag_entries s raw" "keybag_ok s raw" by (auto simp: state_of_entries)
  moreover from d(1) have "data = der 0x31 root" by (simp add: tlv_iff)
  ultimately show "\<exists>raw. keybag_ok s raw \<and> data = keybag_der s raw" using es(4) by (auto simp: keybag_der_def)
next
  assume "\<exists>raw. keybag_ok s raw \<and> data = keybag_der s raw"
  then obtain raw where ok: "keybag_ok s raw" and data: "data = keybag_der s raw" by blast
  define root where "root = concat (map entry_der (keybag_entries s raw))"
  have len: "length root \<le> 400" using keybag_der_length [OF ok] by (simp add: root_def)
  have fields: "map fst (keybag_entries s raw) = expected_fields" "distinct expected_fields"
    by (simp_all add: keybag_entries_fields expected_fields_def)
  have "tlv data 0 0x31 = Inr (root, length data)" using len data by (simp add: tlv_iff keybag_der_def root_def)
  moreover have "decode_entries root 0 [] [] = Inr (dict_of_entries (keybag_entries s raw), expected_fields)"
    using decode_entries_complete [of 0 root "keybag_entries s raw" "[]" "[]"] fields len keybag_entries_ok [OF ok]
    by (simp add: root_def dict_has_def)
  moreover have "set (map fst (dict_of_entries (keybag_entries s raw))) = set (map KStr expected_fields)"
    by (simp add: keybag_entries_def expected_fields_def)
  moreover have "state_of_values (dict_of_entries (keybag_entries s raw)) = Inr s"
    using ok fields keybag_entries_ok [OF ok] by (auto simp: state_of_entries list_all_iff)
  moreover have "0 < length data" "length data \<le> MAX_DER_BYTES"
    using len der_length_le [of "0x31" root] data by (simp_all add: keybag_der_def root_def MAX_DER_BYTES_def der_def)
  ultimately show "decode_state (PyBytes data) = Inr s"
    by (simp add: decode_state_def sort_expected_fields type_is_bytes_def)
qed

text \<open>
  C22: The decoder accepts exactly one byte string for each keybag state, and returns that state: the DER
  encoding with minimal lengths and integers, with the ten entries in key order, the handle a nonzero 32-bit
  number, the counters and state words in their ranges and the nonzero UUID that the state's text stands for,
  which is the only one. Every state in range has such an encoding within the size limit; no other bytes are accepted.
\<close>

theorem keybag_state_canonical:
  "decode_state data = Inr s \<longleftrightarrow> (\<exists>raw. {r. keybag_ok s r} = {raw} \<and> data = PyBytes (keybag_der s raw))"
proof (cases data)
  case (PyBytes bs)
  then show ?thesis by (simp only: decode_state_iff pyval.inject keybag_ok_unique [symmetric])
qed (simp_all add: decode_state_def type_is_bytes_def)

end
