(* ===== verification/Biolockout_Protocol.thy ===== *)
theory Biolockout_Protocol
  imports Byte_Struct
begin

text \<open>
  The command that exports the SEP's biometric lockout record, \<^verbatim>\<open>src/src/t2_biolockout_protocol.py\<close>: its
  constants, the request, the routing token of the persistence engine and the check of the reply.
\<close>

definition BIOLOCKOUT_SAVE_COMMAND :: int where "BIOLOCKOUT_SAVE_COMMAND = 0x4A"
definition BIOLOCKOUT_COMMAND_VERSION :: int where "BIOLOCKOUT_COMMAND_VERSION = 1"
definition BIOLOCKOUT_OUTPUT_CAPACITY :: nat where "BIOLOCKOUT_OUTPUT_CAPACITY = 0x1000"
definition MIN_SECURE_BLOB_LENGTH :: nat where "MIN_SECURE_BLOB_LENGTH = 16"
definition SECURE_BLOB_MAGIC :: bytes where "SECURE_BLOB_MAGIC = bytes_lit ''HRLB''"

definition PERSISTENCE_DESCRIPTOR :: "bytes res" where
  "PERSISTENCE_DESCRIPTOR = struct_pack [FRaw 4, FUInt 4, FUInt 4, FRaw 12]
     [PyBytes SECURE_BLOB_MAGIC, PyInt BIOLOCKOUT_SAVE_COMMAND, PyInt BIOLOCKOUT_COMMAND_VERSION, PyBytes (zero_bytes 12)]"

record biolockout_save_request =
  bl_command :: int
  bl_version :: int
  bl_value :: int
  bl_data :: bytes
  bl_output_capacity :: nat

definition build_biolockout_save_request :: biolockout_save_request where
  "build_biolockout_save_request = \<lparr>bl_command = BIOLOCKOUT_SAVE_COMMAND, bl_version = BIOLOCKOUT_COMMAND_VERSION,
     bl_value = 0, bl_data = [], bl_output_capacity = BIOLOCKOUT_OUTPUT_CAPACITY\<rparr>"

definition parse_biolockout_save_reply :: "pyval \<Rightarrow> pyval \<Rightarrow> bytes res" where
  "parse_biolockout_save_reply status output =
     (if \<not> type_is_int status \<or> type_is_bool status \<or> int_of status \<noteq> 0
      then Inl (Exc BioLockoutProtocolError ''bio-lockout save status is not successful'')
      else if \<not> type_is_bytes output then Inl (Exc BioLockoutProtocolError ''bio-lockout save output is not byte data'')
      else if \<not> (MIN_SECURE_BLOB_LENGTH \<le> length (bytes_of output) \<and> length (bytes_of output) \<le> BIOLOCKOUT_OUTPUT_CAPACITY)
      then Inl (Exc BioLockoutProtocolError ''bio-lockout save output length is invalid'')
      else if take (length SECURE_BLOB_MAGIC) (bytes_of output) \<noteq> SECURE_BLOB_MAGIC
      then Inl (Exc BioLockoutProtocolError ''bio-lockout save output envelope is invalid'')
      else Inr (bytes_of output))"

text \<open>The routing token is 24 bytes, as long as the descriptor of a Catacomb component.\<close>

lemma persistence_descriptor_bytes:
  "\<exists>d. PERSISTENCE_DESCRIPTOR = Inr d \<and> length d = 24 \<and> take 4 d = SECURE_BLOB_MAGIC"
  by (simp add: PERSISTENCE_DESCRIPTOR_def BIOLOCKOUT_SAVE_COMMAND_def BIOLOCKOUT_COMMAND_VERSION_def SECURE_BLOB_MAGIC_def
      py_simps bytes_type_iff)

text \<open>A reply is accepted only with status zero, and the record is the whole output: magic and body.\<close>

lemma biolockout_reply_iff:
  "parse_biolockout_save_reply status output = Inr record_bytes \<longleftrightarrow>
     status = PyInt 0 \<and> output = PyBytes record_bytes \<and> 16 \<le> length record_bytes \<and> length record_bytes \<le> 0x1000
     \<and> (\<exists>body. record_bytes = SECURE_BLOB_MAGIC @ body)"
proof -
  have "take (length SECURE_BLOB_MAGIC) bs = SECURE_BLOB_MAGIC \<longleftrightarrow> (\<exists>body. bs = SECURE_BLOB_MAGIC @ body)" for bs :: bytes
    by (metis append_eq_conv_conj append_take_drop_id)
  then show ?thesis
    by (auto simp: parse_biolockout_save_reply_def MIN_SECURE_BLOB_LENGTH_def BIOLOCKOUT_OUTPUT_CAPACITY_def res_simps py_simps
        bytes_type_iff)
qed

end
