(* ===== verification/Match_Gate.thy ===== *)
theory Match_Gate
  imports Fprint_Identity Local_Catacomb "HOL-Library.Sublist"
begin

text \<open>
  The inventory gate around a fingerprint match, \<^verbatim>\<open>src/src/t2_fprint_match_gate.py\<close>, with the selection of
  one named identity, \<^verbatim>\<open>src/src/t2_fprint_match_selection.py\<close>. A match starts only when two reads of the
  identities in the T2, per user and global, agree with each other and with the host's Catacomb file; the gate
  then says which finger a match result names. SHA-256 is the parameter \<open>H\<close>.
\<close>

section \<open>Selection of one identity\<close>

abbreviation selection_error :: "string \<Rightarrow> exc" where
  "selection_error \<equiv> Exc FprintMatchSelectionError"

record selected_identity =
  si_finger_name :: string
  si_identity_record :: bytes

text \<open>\<^verbatim>\<open>_record\<close>\<close>

definition selection_record :: "pyval \<Rightarrow> int \<Rightarrow> (string \<times> bytes) res" where
  "selection_record value expected_user_id =
     (if \<not> type_is_bytes value \<or> length (bytes_of value) \<noteq> 20
      then Inl (selection_error ''T2 identity record is malformed'')
      else and_then (struct_unpack_from [FUInt 4] (bytes_of value) 0) (\<lambda>v.
      and_then (replace_exc ValueError (selection_error ''T2 identity record UUID is malformed'')
                  (uuid_text (take 16 (drop 4 (bytes_of value))))) (\<lambda>identity_uuid.
      if int_of (v ! 0) \<noteq> expected_user_id \<or> be_uint (take 16 (drop 4 (bytes_of value))) = 0
      then Inl (selection_error ''T2 identity record has the wrong authority'')
      else Inr (identity_uuid, bytes_of value))))"

text \<open>The body of the loop that fills \<^verbatim>\<open>parsed\<close>, a \<^verbatim>\<open>dict\<close> from UUID texts to records.\<close>

definition parse_record :: "int \<Rightarrow> pyval \<Rightarrow> (string \<times> bytes) list \<Rightarrow> (string \<times> bytes) list res" where
  "parse_record expected_user_id raw parsed =
     and_then (selection_record raw expected_user_id) (\<lambda>(identity_uuid, record_bytes).
     if identity_uuid \<in> set (map fst parsed) then Inl (selection_error ''T2 identity inventory is duplicated'')
     else Inr (parsed @ [(identity_uuid, record_bytes)]))"

definition select_identity :: "catacomb_arg \<Rightarrow> pyval \<Rightarrow> pyval \<Rightarrow> selected_identity res" where
  "select_identity local_arg per_user_identity_records finger_name =
     (case local_arg of
        Inl _ \<Rightarrow> Inl (selection_error ''local Catacomb has the wrong type'')
      | Inr c \<Rightarrow>
     (if \<not> is_handle finger_name then Inl (selection_error ''fprint finger name is invalid'')
      else let identities = uc_identities c; names = map li_name identities in
      if identities = [] \<or> \<not> list_all (\<lambda>name. is_handle (PyStr name)) names \<or> \<not> distinct names
      then Inl (selection_error ''local identities do not have complete unique fprint names'')
      else let selected = filter (\<lambda>i. PyStr (li_name i) = finger_name) identities in
      if length selected \<noteq> 1 then Inl (selection_error ''requested fprint identity is not uniquely enrolled'')
      else case per_user_identity_records of
        PyTuple records \<Rightarrow>
          (if length records \<noteq> length identities
           then Inl (selection_error ''local and T2 identity inventories disagree'')
           else and_then (fold_res (parse_record (uc_expected_user_id c)) records []) (\<lambda>parsed.
           if set (map fst parsed) \<noteq> set (map (\<lambda>i. uuid_str (li_uuid i)) identities)
           then Inl (selection_error ''local and T2 identity inventories disagree'')
           else case map_of parsed (uuid_str (li_uuid (hd selected))) of
             None \<Rightarrow> Inl (Exc KeyError (uuid_str (li_uuid (hd selected))))
           | Some record_bytes \<Rightarrow> Inr \<lparr>si_finger_name = str_of finger_name, si_identity_record = record_bytes\<rparr>))
      | _ \<Rightarrow> Inl (selection_error ''local and T2 identity inventories disagree'')))"

section \<open>Inventories\<close>

abbreviation gate_error :: "string \<Rightarrow> exc" where
  "gate_error \<equiv> Exc FprintMatchGateError"

text \<open>\<^verbatim>\<open>_component_hashes\<close>: \<^verbatim>\<open>sorted\<close> cannot compare keys of different types.\<close>

definition component_hash :: "(bytes \<Rightarrow> bytes) \<Rightarrow> pykey \<times> pyval \<Rightarrow> (string \<times> string) list \<Rightarrow> (string \<times> string) list res" where
  "component_hash H item result =
     (case item of
        (KStr name, PyBytes data) \<Rightarrow>
          (if data = [] then Inl (gate_error ''local Catacomb component is invalid'')
           else Inr (result @ [(name, hexdigest (H data))]))
      | _ \<Rightarrow> Inl (gate_error ''local Catacomb component is invalid''))"

definition is_int_key :: "pykey \<Rightarrow> bool" where
  "is_int_key k = (case k of KInt _ \<Rightarrow> True | KStr _ \<Rightarrow> False)"

definition component_hashes :: "(bytes \<Rightarrow> bytes) \<Rightarrow> pyval \<Rightarrow> (string \<times> string) list res" where
  "component_hashes H components =
     (if \<not> isinstance_dict components \<or> dict_of components = []
      then Inl (gate_error ''local Catacomb component set is invalid'')
      else if list_ex (\<lambda>kv. is_int_key (fst kv)) (dict_of components) \<and> list_ex (\<lambda>kv. \<not> is_int_key (fst kv)) (dict_of components)
      then Inl (Exc TypeError ''not supported between instances'')
      else fold_res (component_hash H) (sort_key fst (dict_of components)) [])"

text \<open>\<^verbatim>\<open>_per_user_records\<close>: the loop keeps the records it has seen.\<close>

definition per_user_record :: "int \<Rightarrow> pyval \<Rightarrow> bytes list \<Rightarrow> bytes list res" where
  "per_user_record apple_user_id v seen =
     (if \<not> type_is_bytes v \<or> length (bytes_of v) \<noteq> 20
      then Inl (gate_error ''per-user identity record is malformed'')
      else and_then (struct_unpack_from [FUInt 4] (bytes_of v) 0) (\<lambda>u.
      if int_of (u ! 0) \<noteq> apple_user_id
      then Inl (gate_error ''per-user identity record belongs to another Apple user'')
      else if be_uint (take 16 (drop 4 (bytes_of v))) = 0 \<or> bytes_of v \<in> set seen
      then Inl (gate_error ''per-user identity inventory is empty-authority or duplicated'')
      else Inr (seen @ [bytes_of v])))"

definition per_user_records :: "pyval \<Rightarrow> int \<Rightarrow> bytes list res" where
  "per_user_records value apple_user_id =
     (case value of
        PyTuple records \<Rightarrow> fold_res (per_user_record apple_user_id) records []
      | _ \<Rightarrow> Inl (gate_error ''per-user identity inventory is invalid''))"

text \<open>\<^verbatim>\<open>_global_records\<close>: the loop keeps the identities it has seen and those of the user.\<close>

definition global_record :: "int \<Rightarrow> pyval \<Rightarrow> bytes list \<times> bytes list \<Rightarrow> (bytes list \<times> bytes list) res" where
  "global_record apple_user_id v state =
     (case state of (seen, configured) \<Rightarrow>
      if \<not> type_is_bytes v \<or> length (bytes_of v) \<noteq> 40
      then Inl (gate_error ''global identity record is malformed'')
      else let identity = take 20 (bytes_of v) in
      and_then (struct_unpack_from [FUInt 4] identity 0) (\<lambda>u.
      if be_uint (take 16 (drop 4 identity)) = 0 \<or> identity \<in> set seen
      then Inl (gate_error ''global identity inventory is empty-authority or duplicated'')
      else if int_of (u ! 0) = apple_user_id
      then and_then (struct_unpack_from [FUInt 4] (bytes_of v) 20) (\<lambda>g.
           if int_of (g ! 0) \<notin> {0, 1} \<or> be_uint (take 16 (drop 24 (bytes_of v))) \<noteq> 0
           then Inl (gate_error ''configured global identity is not built-in'')
           else Inr (seen @ [identity], configured @ [identity]))
      else Inr (seen @ [identity], configured)))"

definition global_records :: "pyval \<Rightarrow> int \<Rightarrow> (bytes list \<times> bytes list) res" where
  "global_records value apple_user_id =
     (case value of
        PyTuple records \<Rightarrow>
          and_then (fold_res (global_record apple_user_id) records ([], [])) (\<lambda>(seen, configured).
          Inr (map bytes_of records, configured))
      | _ \<Rightarrow> Inl (gate_error ''global identity inventory is invalid''))"

section \<open>Gates\<close>

record gate_inventory =
  gi_per_user_records :: "bytes list"
  gi_global_records :: "bytes list"
  gi_component_hashes :: "(string \<times> string) list"

record targeted_match_gate =
  tg_finger_name :: string
  tg_identity_record :: bytes
  tg_inventory :: gate_inventory

record all_match_gate =
  ag_identity_name_records :: "(bytes \<times> string) list"
  ag_inventory :: gate_inventory

record slot_match_gate =
  sg_identity_slot_records :: "(bytes \<times> nat) list"
  sg_inventory :: gate_inventory

text \<open>
  The part that \<^verbatim>\<open>prepare\<close> and \<^verbatim>\<open>prepare_slots\<close> share: both reads of both inventories, their stability and their
  agreement.
\<close>

definition stable_inventories :: "int \<Rightarrow> pyval \<Rightarrow> pyval \<Rightarrow> pyval \<Rightarrow> pyval \<Rightarrow> (bytes list \<times> bytes list) res" where
  "stable_inventories apple_user_id first_per_user first_global second_per_user second_global =
     and_then (per_user_records first_per_user apple_user_id) (\<lambda>first_user.
     and_then (per_user_records second_per_user apple_user_id) (\<lambda>second_user.
     and_then (global_records first_global apple_user_id) (\<lambda>(first_all, first_configured).
     and_then (global_records second_global apple_user_id) (\<lambda>(second_all, second_configured).
     if first_user \<noteq> second_user \<or> first_all \<noteq> second_all then Inl (gate_error ''live identity inventory is unstable'')
     else if set first_configured \<noteq> set first_user \<or> set second_configured \<noteq> set first_user
     then Inl (gate_error ''global and per-user identity inventories disagree'')
     else Inr (first_user, first_all)))))"

definition prepare ::
    "(bytes \<Rightarrow> bytes) \<Rightarrow> catacomb_arg \<Rightarrow> pyval \<Rightarrow> pyval \<Rightarrow> pyval \<Rightarrow> pyval \<Rightarrow> pyval \<Rightarrow> pyval \<Rightarrow> targeted_match_gate res" where
  "prepare H local_arg components first_per_user first_global second_per_user second_global finger_name =
     (case local_arg of
        Inl _ \<Rightarrow> Inl (gate_error ''local Catacomb has the wrong type'')
      | Inr c \<Rightarrow>
     and_then (stable_inventories (uc_expected_user_id c) first_per_user first_global second_per_user second_global)
       (\<lambda>(first_user, first_all).
     and_then (replace_exc FprintMatchSelectionError (gate_error ''named identity selection failed'')
                 (select_identity local_arg (PyTuple (map PyBytes first_user)) finger_name)) (\<lambda>selected.
     and_then (component_hashes H components) (\<lambda>hashes.
     Inr \<lparr>tg_finger_name = si_finger_name selected, tg_identity_record = si_identity_record selected,
          tg_inventory = \<lparr>gi_per_user_records = first_user, gi_global_records = first_all, gi_component_hashes = hashes\<rparr>\<rparr>))))"

text \<open>\<^verbatim>\<open>names_by_uuid[record[4:20]]\<close> for each record; a later item of a \<^verbatim>\<open>dict\<close> display replaces an earlier one.\<close>

fun name_records :: "(bytes \<times> string) list \<Rightarrow> bytes list \<Rightarrow> (bytes \<times> string) list res" where
  "name_records names [] = Inr []"
| "name_records names (r # rs) =
     (case map_of (rev names) (take 16 (drop 4 r)) of
        None \<Rightarrow> Inl (Exc KeyError [])
      | Some name \<Rightarrow> and_then (name_records names rs) (\<lambda>xs. Inr ((r, name) # xs)))"

definition prepare_all ::
    "(bytes \<Rightarrow> bytes) \<Rightarrow> catacomb_arg \<Rightarrow> pyval \<Rightarrow> pyval \<Rightarrow> pyval \<Rightarrow> pyval \<Rightarrow> pyval \<Rightarrow> all_match_gate res" where
  "prepare_all H local_arg components first_per_user first_global second_per_user second_global =
     (case local_arg of
        Inl _ \<Rightarrow> Inl (gate_error ''local Catacomb has no matchable identities'')
      | Inr c \<Rightarrow>
     (if uc_identities c = [] then Inl (gate_error ''local Catacomb has no matchable identities'')
      else and_then (prepare H local_arg components first_per_user first_global second_per_user second_global
                       (PyStr (li_name (hd (uc_identities c))))) (\<lambda>validated.
      and_then (name_records (map (\<lambda>i. (li_uuid i, li_name i)) (uc_identities c))
                  (gi_per_user_records (tg_inventory validated))) (\<lambda>records.
      Inr \<lparr>ag_identity_name_records = records, ag_inventory = tg_inventory validated\<rparr>))))"

text \<open>\<^verbatim>\<open>records_by_uuid[...]\<close> for each identity, with its slot.\<close>

fun slot_records :: "(bytes \<times> bytes) list \<Rightarrow> nat \<Rightarrow> local_identity list \<Rightarrow> (bytes \<times> nat) list res" where
  "slot_records records slot [] = Inr []"
| "slot_records records slot (i # is) =
     (case map_of (rev records) (li_uuid i) of
        None \<Rightarrow> Inl (Exc KeyError [])
      | Some r \<Rightarrow> and_then (slot_records records (Suc slot) is) (\<lambda>xs. Inr ((r, slot) # xs)))"

definition prepare_slots ::
    "(bytes \<Rightarrow> bytes) \<Rightarrow> catacomb_arg \<Rightarrow> pyval \<Rightarrow> pyval \<Rightarrow> pyval \<Rightarrow> pyval \<Rightarrow> pyval \<Rightarrow> slot_match_gate res" where
  "prepare_slots H local_arg components first_per_user first_global second_per_user second_global =
     (case local_arg of
        Inl _ \<Rightarrow> Inl (gate_error ''local Catacomb has no matchable identities'')
      | Inr c \<Rightarrow>
     (if uc_identities c = [] then Inl (gate_error ''local Catacomb has no matchable identities'')
      else and_then (stable_inventories (uc_expected_user_id c) first_per_user first_global second_per_user second_global)
        (\<lambda>(first_user, first_all).
      let records_by_uuid = map (\<lambda>r. (take 16 (drop 4 r), r)) first_user;
          ordered = sort_key li_entity (uc_identities c) in
      if card (set (map fst records_by_uuid)) \<noteq> length first_user \<or> length ordered \<noteq> length first_user
         \<or> set (map fst records_by_uuid) \<noteq> set (map li_uuid ordered)
      then Inl (gate_error ''local and live identity inventories disagree'')
      else and_then (slot_records records_by_uuid 1 ordered) (\<lambda>records.
      and_then (component_hashes H components) (\<lambda>hashes.
      Inr \<lparr>sg_identity_slot_records = records,
           sg_inventory = \<lparr>gi_per_user_records = first_user, gi_global_records = first_all, gi_component_hashes = hashes\<rparr>\<rparr>)))))"

section \<open>Match events\<close>

definition event_matches :: "(bytes \<times> 'a) list \<Rightarrow> bytes \<Rightarrow> 'a list" where
  "event_matches records data = map snd (filter (\<lambda>(r, x). sublist (take 16 (drop 4 r)) data) records)"

definition event_malformed :: "pyval \<Rightarrow> bool" where
  "event_malformed event_data = (\<not> type_is_bytes event_data \<or> length (bytes_of event_data) < 0xC70)"

definition resolve_all_match_event :: "pyval + all_match_gate \<Rightarrow> pyval \<Rightarrow> string option res" where
  "resolve_all_match_event gate event_data =
     (case gate of
        Inl _ \<Rightarrow> Inl (gate_error ''all-identities match gate has the wrong type'')
      | Inr g \<Rightarrow>
     (if event_malformed event_data then Inl (gate_error ''match-result event data is malformed'')
      else let matches = event_matches (ag_identity_name_records g) (bytes_of event_data) in
      if 1 < length matches then Inl (gate_error ''match-result identity is ambiguous'')
      else Inr (if matches = [] then None else Some (hd matches))))"

definition resolve_slot_match_event :: "pyval + slot_match_gate \<Rightarrow> pyval \<Rightarrow> nat option res" where
  "resolve_slot_match_event gate event_data =
     (case gate of
        Inl _ \<Rightarrow> Inl (gate_error ''slot match gate has the wrong type'')
      | Inr g \<Rightarrow>
     (if event_malformed event_data then Inl (gate_error ''match-result event data is malformed'')
      else let matches = event_matches (sg_identity_slot_records g) (bytes_of event_data) in
      if 1 < length matches then Inl (gate_error ''match-result identity is ambiguous'')
      else Inr (if matches = [] then None else Some (hd matches))))"

section \<open>Attestations\<close>

datatype match_gate = TargetedGate targeted_match_gate | AllGate all_match_gate | SlotGate slot_match_gate

fun gate_inventory_of :: "match_gate \<Rightarrow> gate_inventory" where
  "gate_inventory_of (TargetedGate g) = tg_inventory g"
| "gate_inventory_of (AllGate g) = ag_inventory g"
| "gate_inventory_of (SlotGate g) = sg_inventory g"

definition gate_public :: "match_gate \<Rightarrow> pydict" where
  "gate_public gate =
     (case gate of
        TargetedGate g \<Rightarrow>
          [(KStr ''schema_version'', PyInt 1), (KStr ''finger_name'', PyStr (tg_finger_name g)),
           (KStr ''single_identity_selected'', PyBool True), (KStr ''same_connection_inventory_stable'', PyBool True),
           (KStr ''local_live_reconciled'', PyBool True), (KStr ''identifiers_redacted'', PyBool True)]
      | AllGate g \<Rightarrow>
          [(KStr ''schema_version'', PyInt 1), (KStr ''identity_count'', PyInt (int (length (ag_identity_name_records g)))),
           (KStr ''complete_named_inventory'', PyBool True), (KStr ''all_identities_selected'', PyBool True),
           (KStr ''same_connection_inventory_stable'', PyBool True),
           (KStr ''local_live_reconciled'', PyBool True), (KStr ''identifiers_redacted'', PyBool True)]
      | SlotGate g \<Rightarrow>
          [(KStr ''schema_version'', PyInt 1), (KStr ''identity_count'', PyInt (int (length (sg_identity_slot_records g)))),
           (KStr ''all_identities_selected'', PyBool True), (KStr ''same_connection_inventory_stable'', PyBool True),
           (KStr ''local_live_reconciled'', PyBool True), (KStr ''slot_scope'', PyStr ''current-reconciled-list''),
           (KStr ''identifiers_redacted'', PyBool True)])"

definition attest_unchanged :: "(bytes \<Rightarrow> bytes) \<Rightarrow> pyval + match_gate \<Rightarrow> pyval \<Rightarrow> pyval \<Rightarrow> pyval \<Rightarrow> pydict res" where
  "attest_unchanged H gate components per_user global =
     (case gate of
        Inl _ \<Rightarrow> Inl (gate_error ''match gate has the wrong type'')
      | Inr g \<Rightarrow>
     and_then (component_hashes H components) (\<lambda>hashes.
     if hashes \<noteq> gi_component_hashes (gate_inventory_of g)
        \<or> \<not> py_eq per_user (PyTuple (map PyBytes (gi_per_user_records (gate_inventory_of g))))
        \<or> \<not> py_eq global (PyTuple (map PyBytes (gi_global_records (gate_inventory_of g))))
     then Inl (gate_error ''identity state changed during named match'')
     else Inr [(KStr ''schema_version'', PyInt 1), (KStr ''identity_state_unchanged'', PyBool True),
               (KStr ''local_components_unchanged'', PyBool True), (KStr ''per_user_inventory_unchanged'', PyBool True),
               (KStr ''global_inventory_unchanged'', PyBool True), (KStr ''identifiers_redacted'', PyBool True)]))"

end
