(* ===== verification/Match_Result.thy ===== *)
theory Match_Result
  imports Match_Gate
begin

text \<open>
  The verdict of a match, \<^verbatim>\<open>src/src/t2_fprint_result.py\<close>: how the result of a probe run, a \<^verbatim>\<open>dict\<close> with its
  attestations and match events, becomes \<^verbatim>\<open>verify-match\<close> or \<^verbatim>\<open>verify-no-match\<close>, and the compact record that the
  resident worker sends and its client checks. A finger that may be \<^verbatim>\<open>None\<close> is a \<open>pyval\<close>.
\<close>

section \<open>Tests\<close>

definition WORKER_TERMINAL_SCHEMA :: int where "WORKER_TERMINAL_SCHEMA = 1"
definition WORKER_TERMINAL_FIELDS :: "string list" where
  "WORKER_TERMINAL_FIELDS = [''schema_version'', ''selector'', ''verdict'', ''finger_name'']"

abbreviation runtime_error :: "string \<Rightarrow> exc" where
  "runtime_error \<equiv> Exc RuntimeError"

text \<open>\<^verbatim>\<open>d.get(k) is True\<close>, \<^verbatim>\<open>d.get(k, False) is False\<close>, and the first for a list of keys.\<close>

definition is_true :: "pydict \<Rightarrow> string \<Rightarrow> bool" where
  "is_true d k = (dict_get d k = PyBool True)"

definition is_false_default :: "pydict \<Rightarrow> string \<Rightarrow> bool" where
  "is_false_default d k = (\<not> dict_has d k \<or> dict_get d k = PyBool False)"

definition all_true :: "pydict \<Rightarrow> string list \<Rightarrow> bool" where
  "all_true d ks = list_all (is_true d) ks"

definition is_finger_name :: "pyval \<Rightarrow> bool" where
  "is_finger_name value =
     (case value of PyStr s \<Rightarrow> length s = 8 \<and> take 7 s = ''finger-'' \<and> s ! 7 \<in> set ''12345'' | _ \<Rightarrow> False)"

definition post_attestation :: "string list" where
  "post_attestation = [''identity_state_unchanged'', ''local_components_unchanged'', ''per_user_inventory_unchanged'',
     ''global_inventory_unchanged'', ''identifiers_redacted'']"

section \<open>The verdict\<close>

definition target_attested :: "pydict \<Rightarrow> pyval \<Rightarrow> bool" where
  "target_attested result target_finger =
     (let gate = dict_get result ''targeted_match_gate''; post = dict_get result ''targeted_match_post_attestation'' in
      \<not> (target_finger = PyStr ''any'' \<or> \<not> is_finger_name target_finger
        \<or> \<not> isinstance_dict gate \<or> \<not> py_eq (dict_get (dict_of gate) ''finger_name'') target_finger
        \<or> \<not> all_true (dict_of gate) [''single_identity_selected'', ''same_connection_inventory_stable'',
              ''local_live_reconciled'', ''identifiers_redacted'']
        \<or> \<not> isinstance_dict post \<or> \<not> all_true (dict_of post) post_attestation))"

record match_scan =
  ms_verdict :: "string option"
  ms_image_quality_rejected :: bool
  ms_terminal_event :: pydict
  ms_repeated_terminal :: bool

definition match_scan_init :: match_scan where
  "match_scan_init = \<lparr>ms_verdict = None, ms_image_quality_rejected = False, ms_terminal_event = [],
     ms_repeated_terminal = False\<rparr>"

definition is_match_result :: "pydict \<Rightarrow> bool" where
  "is_match_result event = (dict_get event ''event_kind'' = PyStr ''match_result'')"

definition positive_event :: "pyval \<Rightarrow> pydict \<Rightarrow> bool" where
  "positive_event target_finger event =
     (is_true event ''matched'' \<and> is_false_default event ''no_match'' \<and> is_false_default event ''no_match_image_quality''
      \<and> is_true event ''matches_enrolled_identity''
      \<and> (target_finger = PyNone \<or> is_true event ''matches_selected_identity''))"

definition negative_event :: "pydict \<Rightarrow> bool" where
  "negative_event event = (is_true event ''no_match'' \<and> dict_get event ''matched'' = PyBool False)"

definition same_identity :: "pyval \<Rightarrow> pydict \<Rightarrow> pydict \<Rightarrow> bool" where
  "same_identity target_finger terminal_event event =
     (target_finger \<noteq> PyNone
      \<or> is_true terminal_event ''matched_finger_name_present'' \<and> is_true event ''matched_finger_name_present''
        \<and> is_finger_name (dict_get event ''matched_finger_name'')
        \<and> py_eq (dict_get event ''matched_finger_name'') (dict_get terminal_event ''matched_finger_name''))"

text \<open>The end of the loop's body, for a terminal result.\<close>

definition terminal_result :: "pyval \<Rightarrow> pydict \<Rightarrow> string \<Rightarrow> match_scan \<Rightarrow> match_scan res" where
  "terminal_result target_finger event candidate s =
     (case ms_verdict s of
        None \<Rightarrow> Inr (s\<lparr>ms_verdict := Some candidate, ms_terminal_event := event\<rparr>)
      | Some verdict \<Rightarrow>
          (if candidate \<noteq> verdict \<or> \<not> is_true (ms_terminal_event s) ''host_accepted_result''
              \<or> \<not> is_true event ''host_accepted_result''
              \<or> candidate = ''verify-match'' \<and> \<not> same_identity target_finger (ms_terminal_event s) event
              \<or> candidate = ''verify-no-match'' \<and> (\<not> is_true (ms_terminal_event s) ''no_match_matcher''
                    \<or> \<not> is_true event ''no_match_matcher'')
           then Inl (runtime_error ''the T2 returned conflicting or unbound terminal results'')
           else Inr (s\<lparr>ms_repeated_terminal := True\<rparr>)))"

definition scan_event :: "pyval \<Rightarrow> pyval \<Rightarrow> match_scan \<Rightarrow> match_scan res" where
  "scan_event target_finger v s =
     (if \<not> isinstance_dict v then Inl (runtime_error ''malformed T2 match event'')
      else let event = dict_of v in
      if \<not> is_match_result event then Inr s
      else if \<not> is_true event ''result_valid''
      then Inl (runtime_error ''the T2 returned an invalid or unknown match result'')
      else if positive_event target_finger event then terminal_result target_finger event ''verify-match'' s
      else if negative_event event
      then if is_true event ''no_match_image_quality''
           then if ms_verdict s \<noteq> None then Inl (runtime_error ''the T2 returned a retry after a terminal result'')
                else Inr (s\<lparr>ms_image_quality_rejected := True\<rparr>)
           else terminal_result target_finger event ''verify-no-match'' s
      else Inl (runtime_error ''the T2 returned an unclassifiable match result''))"

definition accepted_results :: "pyval list \<Rightarrow> nat" where
  "accepted_results events =
     length (filter (\<lambda>v. is_match_result (dict_of v) \<and> is_true (dict_of v) ''host_accepted_result'') events)"

text \<open>\<^verbatim>\<open>enumerate(generations, 1)\<close>: each record is committed and carries its own number.\<close>

fun generations_numbered :: "int \<Rightarrow> pyval list \<Rightarrow> bool" where
  "generations_numbered n [] = True"
| "generations_numbered n (g # gs) =
     (isinstance_dict g \<and> is_true (dict_of g) ''linux_store_committed''
      \<and> type_is_int (dict_get (dict_of g) ''match_result_generation'')
      \<and> int_of (dict_get (dict_of g) ''match_result_generation'') = n
      \<and> generations_numbered (n + 1) gs)"

definition lockout_durable :: "pydict \<Rightarrow> pyval list \<Rightarrow> bool" where
  "lockout_durable result events =
     (let generations = dict_get result ''post_match_biolockout_generations'' in
      isinstance_list generations \<and> length (list_of generations) = accepted_results events
      \<and> generations_numbered 1 (list_of generations))"

definition match_events :: "pydict \<Rightarrow> pyval" where
  "match_events result = (if dict_has result ''match_events'' then dict_get result ''match_events'' else PyList [])"

definition verdict_from_probe_result :: "pyval \<Rightarrow> pyval \<Rightarrow> string res" where
  "verdict_from_probe_result v target_finger =
     (if \<not> isinstance_dict v then Inl (runtime_error ''malformed T2 probe result'')
      else let result = dict_of v; events = match_events result in
      if target_finger \<noteq> PyNone \<and> \<not> target_attested result target_finger
      then Inl (runtime_error ''named T2 match attestation is incomplete'')
      else if \<not> isinstance_list events then Inl (runtime_error ''malformed T2 match event list'')
      else if \<not> is_true result ''match_cleanup_valid'' then Inl (runtime_error ''the T2 match did not close cleanly'')
      else if is_true result ''match_rejected'' then Inl (runtime_error ''the T2 rejected match startup'')
      else and_then (fold_res (scan_event target_finger) (list_of events) match_scan_init) (\<lambda>s.
      if ms_repeated_terminal s \<and> \<not> lockout_durable result (list_of events)
      then Inl (runtime_error ''repeated T2 match results lack durable lockout state'')
      else case ms_verdict s of
        Some verdict \<Rightarrow> Inr verdict
      | None \<Rightarrow>
          (if ms_image_quality_rejected s
           then Inl (runtime_error ''the T2 match ended after image-quality retries without a verdict'')
           else Inl (runtime_error ''the T2 match ended without a terminal verdict''))))"

section \<open>A match of any finger\<close>

definition any_attested :: "pydict \<Rightarrow> bool" where
  "any_attested result =
     (let gate = dict_get result ''resolved_any_match_gate''; post = dict_get result ''resolved_any_match_post_attestation'';
          identity_count = dict_get (dict_of gate) ''identity_count'' in
      \<not> (\<not> isinstance_dict gate \<or> \<not> type_is_int identity_count
        \<or> \<not> (1 \<le> int_of identity_count \<and> int_of identity_count \<le> MAX_ENROLLED_IDENTITIES)
        \<or> \<not> all_true (dict_of gate) [''complete_named_inventory'', ''all_identities_selected'',
              ''same_connection_inventory_stable'', ''local_live_reconciled'', ''identifiers_redacted'']
        \<or> \<not> isinstance_dict post \<or> \<not> all_true (dict_of post) post_attestation))"

text \<open>The loop over the events of a \<^verbatim>\<open>verify-match\<close>.\<close>

fun matched_finger :: "pyval list \<Rightarrow> string res" where
  "matched_finger [] = Inl (runtime_error ''resolved-any T2 match result has no terminal identity'')"
| "matched_finger (v # vs) =
     (if \<not> isinstance_dict v \<or> \<not> is_match_result (dict_of v) then matched_finger vs
      else if \<not> is_true (dict_of v) ''matched'' then matched_finger vs
      else if \<not> is_true (dict_of v) ''matches_enrolled_identity'' \<or> \<not> is_true (dict_of v) ''matched_finger_name_present''
              \<or> \<not> is_finger_name (dict_get (dict_of v) ''matched_finger_name'')
      then Inl (runtime_error ''resolved-any T2 match result is incomplete'')
      else Inr (str_of (dict_get (dict_of v) ''matched_finger_name'')))"

definition resolved_any_finger_from_probe_result :: "pyval \<Rightarrow> string option res" where
  "resolved_any_finger_from_probe_result v =
     (if \<not> isinstance_dict v then Inl (runtime_error ''malformed T2 probe result'')
      else if \<not> any_attested (dict_of v) then Inl (runtime_error ''resolved-any T2 match attestation is incomplete'')
      else and_then (verdict_from_probe_result v PyNone) (\<lambda>verdict.
      if verdict = ''verify-no-match'' then Inr None
      else and_then (dict_item (dict_of v) ''match_events'') (\<lambda>events.
           and_then (matched_finger (list_of events)) (\<lambda>name. Inr (Some name)))))"

section \<open>The worker's record\<close>

definition option_text :: "string option \<Rightarrow> pyval" where
  "option_text x = (case x of None \<Rightarrow> PyNone | Some s \<Rightarrow> PyStr s)"

definition worker_record :: "string \<Rightarrow> string \<Rightarrow> pyval \<Rightarrow> pydict" where
  "worker_record selector verdict finger_name =
     [(KStr ''schema_version'', PyInt WORKER_TERMINAL_SCHEMA), (KStr ''selector'', PyStr selector),
      (KStr ''verdict'', PyStr verdict), (KStr ''finger_name'', finger_name)]"

definition compact_worker_result :: "pyval \<Rightarrow> pyval \<Rightarrow> bool \<Rightarrow> pydict res" where
  "compact_worker_result v target_finger resolve_any_finger =
     (if target_finger \<noteq> PyNone \<and> resolve_any_finger
      then Inl (runtime_error ''native match identity selectors conflict'')
      else if \<not> isinstance_dict v \<or> \<not> is_true (dict_of v) ''configured_identity_records_reconciled''
              \<or> \<not> is_true (dict_of v) ''bridge_os_transaction_released_after_match''
              \<or> dict_get (dict_of v) ''termination_requested'' \<noteq> PyBool False
      then Inl (runtime_error ''native T2 match authority did not reconcile'')
      else if resolve_any_finger
      then and_then (resolved_any_finger_from_probe_result v) (\<lambda>finger_name.
           Inr (worker_record ''resolve-any'' (if finger_name \<noteq> None then ''verify-match'' else ''verify-no-match'')
                  (option_text finger_name)))
      else and_then (verdict_from_probe_result v target_finger) (\<lambda>verdict.
           Inr (worker_record (if target_finger \<noteq> PyNone then ''target'' else ''all'') verdict target_finger)))"

definition validate_worker_terminal_result :: "pyval \<Rightarrow> pyval \<Rightarrow> bool \<Rightarrow> (string \<times> pyval) res" where
  "validate_worker_terminal_result v target_finger resolve_any_finger =
     (let result = dict_of v; verdict = dict_get result ''verdict'' in
     if \<not> isinstance_dict v \<or> \<not> dict_keys_are result WORKER_TERMINAL_FIELDS
        \<or> \<not> type_is_int (dict_get result ''schema_version'')
        \<or> int_of (dict_get result ''schema_version'') \<noteq> WORKER_TERMINAL_SCHEMA
     then Inl (runtime_error ''native T2 match terminal result is malformed'')
     else and_then (in_str_set verdict [''verify-match'', ''verify-no-match'']) (\<lambda>known.
     if \<not> known then Inl (runtime_error ''native T2 match terminal result is malformed'')
     else let selector = dict_get result ''selector''; finger_name = dict_get result ''finger_name'';
              valid = (if resolve_any_finger
                       then target_finger = PyNone \<and> selector = PyStr ''resolve-any''
                         \<and> (verdict = PyStr ''verify-no-match'' \<and> finger_name = PyNone
                            \<or> verdict = PyStr ''verify-match'' \<and> is_finger_name finger_name)
                       else if target_finger \<noteq> PyNone
                       then is_finger_name target_finger \<and> selector = PyStr ''target'' \<and> py_eq finger_name target_finger
                       else selector = PyStr ''all'' \<and> finger_name = PyNone) in
          if \<not> valid then Inl (runtime_error ''native T2 match terminal selector is malformed'')
          else Inr (str_of verdict, finger_name)))"

section \<open>Cancelled matches\<close>

definition validate_cancelled_probe_result :: "pyval \<Rightarrow> pyval \<Rightarrow> bool \<Rightarrow> unit res" where
  "validate_cancelled_probe_result v target_finger resolve_any_finger =
     (let result = dict_of v;
          post = dict_get result (if target_finger \<noteq> PyNone then ''targeted_match_post_attestation''
                                  else ''resolved_any_match_post_attestation'');
          events = dict_get result ''match_events'';
          generations = (if dict_has result ''post_match_biolockout_generations''
                         then dict_get result ''post_match_biolockout_generations'' else PyList []) in
     if \<not> isinstance_dict v \<or> \<not> all_true result [''termination_requested'', ''configured_identity_records_reconciled'',
          ''bridge_os_transaction_released_after_match'', ''match_cleanup_valid'', ''post_cancel_callback_quiescent'']
     then Inl (runtime_error ''cancelled match cleanup is incomplete'')
     else if (target_finger \<noteq> PyNone \<or> resolve_any_finger)
             \<and> (\<not> isinstance_dict post \<or> \<not> all_true (dict_of post) post_attestation)
     then Inl (runtime_error ''cancelled match identity attestation is incomplete'')
     else if \<not> isinstance_list events \<or> \<not> list_all isinstance_dict (list_of events)
     then Inl (runtime_error ''cancelled match events are invalid'')
     else if list_ex (\<lambda>e. is_match_result (dict_of e) \<and> \<not> is_true (dict_of e) ''result_valid'') (list_of events)
     then Inl (runtime_error ''cancelled match contains an invalid result'')
     else if \<not> isinstance_list generations \<or> length (list_of generations) \<noteq> accepted_results (list_of events)
             \<or> \<not> list_all (\<lambda>g. isinstance_dict g \<and> is_true (dict_of g) ''linux_store_committed'') (list_of generations)
     then Inl (runtime_error ''cancelled match has unpersisted lockout state'')
     else Inr ())"

end
