(* ===== verification/Match_Result_Facts.thy ===== *)
theory Match_Result_Facts
  imports Match_Result
begin

text \<open>
  Correctness of the verdict: the loop over the events computes a declarative condition on the match results,
  a match of any finger reports the one finger that all results name, and the compact record of the
  worker is accepted by its client with the same verdict.
\<close>

section \<open>Classes of results\<close>

definition event_verdict :: "pyval \<Rightarrow> pydict \<Rightarrow> string option" where
  "event_verdict target e =
     (if positive_event target e then Some ''verify-match''
      else if negative_event e \<and> \<not> is_true e ''no_match_image_quality'' then Some ''verify-no-match'' else None)"

definition retry_event :: "pyval \<Rightarrow> pydict \<Rightarrow> bool" where
  "retry_event target e = (\<not> positive_event target e \<and> negative_event e \<and> is_true e ''no_match_image_quality'')"

text \<open>A further terminal result \<open>u\<close> after the first one \<open>t\<close>.\<close>

definition repeats :: "pyval \<Rightarrow> string \<Rightarrow> pydict \<Rightarrow> pydict \<Rightarrow> bool" where
  "repeats target v t u =
     (is_true t ''host_accepted_result'' \<and> is_true u ''host_accepted_result''
      \<and> (if v = ''verify-match'' then same_identity target t u
         else is_true t ''no_match_matcher'' \<and> is_true u ''no_match_matcher''))"

lemma event_verdict_cases: "event_verdict target e = Some v \<Longrightarrow> v = ''verify-match'' \<or> v = ''verify-no-match''"
  by (auto simp: event_verdict_def split: if_splits)

section \<open>The loop\<close>

lemma map_PyDict_eq [simp]: "map PyDict xs = map PyDict ys \<longleftrightarrow> xs = ys"
  by (simp add: inj_map_eq_map inj_def)

text \<open>Only the match results matter; every event must be a \<^verbatim>\<open>dict\<close>.\<close>

lemma scan_filter:
  "fold_res (scan_event target) vs s = Inr s' \<longleftrightarrow>
     (\<exists>es. vs = map PyDict es \<and> fold_res (scan_event target) (map PyDict (filter is_match_result es)) s = Inr s')"
proof (induction vs arbitrary: s)
  case (Cons v vs)
  show ?case
  proof (cases v)
    case (PyDict e)
    have skip: "scan_event target (PyDict e) s = Inr s" if "\<not> is_match_result e"
      using that by (simp add: scan_event_def isinstance_dict_def)
    show ?thesis
    proof (cases "is_match_result e")
      case True
      with PyDict show ?thesis by (auto simp: res_simps Cons.IH Cons_eq_map_conv)
    next
      case False
      with PyDict skip show ?thesis by (auto simp: Cons.IH Cons_eq_map_conv)
    qed
  qed (auto simp: scan_event_def isinstance_dict_def)
qed simp

text \<open>One result: a retry, the first terminal result, or a repeated one.\<close>

lemma scan_result_iff:
  assumes "is_match_result e"
  shows "scan_event target (PyDict e) s = Inr s' \<longleftrightarrow> is_true e ''result_valid''
    \<and> (retry_event target e \<and> ms_verdict s = None \<and> s' = s\<lparr>ms_image_quality_rejected := True\<rparr>
       \<or> (\<exists>v. event_verdict target e = Some v \<and> terminal_result target e v s = Inr s'))"
  using assms
  by (auto simp: scan_event_def isinstance_dict_def retry_event_def event_verdict_def split: if_splits)

lemma terminal_first: "ms_verdict s = None \<Longrightarrow>
    terminal_result target e v s = Inr s' \<longleftrightarrow> s' = s\<lparr>ms_verdict := Some v, ms_terminal_event := e\<rparr>"
  by (auto simp: terminal_result_def)

lemma terminal_repeated: "ms_verdict s = Some v \<Longrightarrow> event_verdict target e = Some w \<Longrightarrow>
    terminal_result target e w s = Inr s' \<longleftrightarrow>
      w = v \<and> repeats target v (ms_terminal_event s) e \<and> s' = s\<lparr>ms_repeated_terminal := True\<rparr>"
  by (auto simp: terminal_result_def repeats_def dest: event_verdict_cases)

text \<open>After the first terminal result.\<close>

lemma scan_repeated:
  "ms_verdict s = Some v \<Longrightarrow> list_all is_match_result ts \<Longrightarrow>
     fold_res (scan_event target) (map PyDict ts) s = Inr s' \<longleftrightarrow>
       list_all (\<lambda>u. is_true u ''result_valid'' \<and> event_verdict target u = Some v \<and> repeats target v (ms_terminal_event s) u) ts
       \<and> s' = s\<lparr>ms_repeated_terminal := ms_repeated_terminal s \<or> ts \<noteq> []\<rparr>"
proof (induction ts arbitrary: s)
  case (Cons u ts)
  have step: "scan_event target (PyDict u) s = Inr x \<longleftrightarrow> is_true u ''result_valid'' \<and> event_verdict target u = Some v
      \<and> repeats target v (ms_terminal_event s) u \<and> x = s\<lparr>ms_repeated_terminal := True\<rparr>" for x
    using Cons.prems by (auto simp: scan_result_iff terminal_repeated)
  have rest: "fold_res (scan_event target) (map PyDict ts) (s\<lparr>ms_repeated_terminal := True\<rparr>) = Inr s' \<longleftrightarrow>
      list_all (\<lambda>u. is_true u ''result_valid'' \<and> event_verdict target u = Some v \<and> repeats target v (ms_terminal_event s) u) ts
      \<and> s' = s\<lparr>ms_repeated_terminal := True\<rparr>"
    using Cons.IH [of "s\<lparr>ms_repeated_terminal := True\<rparr>"] Cons.prems by simp
  show ?case using step rest by (auto simp: res_simps)
qed auto

text \<open>Before it: retries, then the first terminal result and its repetitions.\<close>

definition results_verdict :: "pyval \<Rightarrow> pydict list \<Rightarrow> string \<Rightarrow> bool \<Rightarrow> bool" where
  "results_verdict target rs v repeated =
     (\<exists>retries t ts. rs = retries @ t # ts \<and> list_all (\<lambda>e. is_true e ''result_valid'') rs
       \<and> list_all (retry_event target) retries \<and> list_all (\<lambda>e. event_verdict target e = Some v) (t # ts)
       \<and> list_all (repeats target v t) ts \<and> repeated = (ts \<noteq> []))"

lemma retry_no_verdict: "retry_event target e \<Longrightarrow> event_verdict target e = None"
  by (simp add: retry_event_def event_verdict_def)

lemma results_verdict_Cons:
  "results_verdict target (e # rs) v repeated \<longleftrightarrow> is_true e ''result_valid''
     \<and> (retry_event target e \<and> results_verdict target rs v repeated
        \<or> event_verdict target e = Some v \<and> repeated = (rs \<noteq> [])
          \<and> list_all (\<lambda>u. is_true u ''result_valid'' \<and> event_verdict target u = Some v \<and> repeats target v e u) rs)"
  (is "?L \<longleftrightarrow> ?R")
proof
  assume ?L
  then obtain retries t ts where l: "e # rs = retries @ t # ts" "list_all (\<lambda>e. is_true e ''result_valid'') (e # rs)"
    "list_all (retry_event target) retries" "list_all (\<lambda>e. event_verdict target e = Some v) (t # ts)"
    "list_all (repeats target v t) ts" "repeated = (ts \<noteq> [])" unfolding results_verdict_def by blast
  show ?R
  proof (cases retries)
    case Nil
    with l show ?thesis by (auto simp: list_all_iff)
  next
    case (Cons r retries')
    with l have "results_verdict target rs v repeated" unfolding results_verdict_def
      by (intro exI [of _ retries'] exI [of _ t] exI [of _ ts]) simp
    with l Cons show ?thesis by simp
  qed
next
  assume R: ?R
  then consider "retry_event target e" "results_verdict target rs v repeated"
    | "event_verdict target e = Some v" "repeated = (rs \<noteq> [])"
      "list_all (\<lambda>u. is_true u ''result_valid'' \<and> event_verdict target u = Some v \<and> repeats target v e u) rs" by blast
  then show ?L
  proof cases
    case 1
    then obtain retries t ts where "rs = retries @ t # ts" "list_all (\<lambda>e. is_true e ''result_valid'') rs"
      "list_all (retry_event target) retries" "list_all (\<lambda>e. event_verdict target e = Some v) (t # ts)"
      "list_all (repeats target v t) ts" "repeated = (ts \<noteq> [])" unfolding results_verdict_def by blast
    with R 1(1) show ?thesis unfolding results_verdict_def
      by (intro exI [of _ "e # retries"] exI [of _ t] exI [of _ ts]) simp
  next
    case 2
    with R show ?thesis unfolding results_verdict_def
      by (intro exI [of _ "[]"] exI [of _ e] exI [of _ rs]) (auto simp: list_all_iff)
  qed
qed

lemma scan_verdict:
  "ms_verdict s = None \<Longrightarrow> \<not> ms_repeated_terminal s \<Longrightarrow> list_all is_match_result rs \<Longrightarrow>
     (\<exists>s'. fold_res (scan_event target) (map PyDict rs) s = Inr s' \<and> ms_verdict s' = Some v \<and> ms_repeated_terminal s' = repeated)
     \<longleftrightarrow> results_verdict target rs v repeated"
proof (induction rs arbitrary: s)
  case Nil
  then show ?case by (simp add: results_verdict_def)
next
  case (Cons e rs)
  let ?retry = "s\<lparr>ms_image_quality_rejected := True\<rparr>"
  let ?ended = "\<lambda>w. s\<lparr>ms_verdict := Some w, ms_terminal_event := e\<rparr>"
  have step: "scan_event target (PyDict e) s = Inr x \<longleftrightarrow> is_true e ''result_valid''
      \<and> (retry_event target e \<and> x = ?retry \<or> (\<exists>w. event_verdict target e = Some w \<and> x = ?ended w))" for x
    using Cons.prems by (auto simp: scan_result_iff terminal_first)
  have retry: "(\<exists>s'. fold_res (scan_event target) (map PyDict rs) ?retry = Inr s' \<and> ms_verdict s' = Some v
      \<and> ms_repeated_terminal s' = repeated) \<longleftrightarrow> results_verdict target rs v repeated"
    using Cons.IH [of ?retry] Cons.prems by simp
  have ended: "(\<exists>s'. fold_res (scan_event target) (map PyDict rs) (?ended w) = Inr s' \<and> ms_verdict s' = Some v
      \<and> ms_repeated_terminal s' = repeated) \<longleftrightarrow> w = v \<and> repeated = (rs \<noteq> [])
      \<and> list_all (\<lambda>u. is_true u ''result_valid'' \<and> event_verdict target u = Some v \<and> repeats target v e u) rs" for w
    using scan_repeated [of "?ended w" w rs target] Cons.prems by auto
  have "(\<exists>s'. fold_res (scan_event target) (map PyDict (e # rs)) s = Inr s' \<and> ms_verdict s' = Some v
      \<and> ms_repeated_terminal s' = repeated) \<longleftrightarrow> is_true e ''result_valid''
      \<and> (retry_event target e \<and> (\<exists>s'. fold_res (scan_event target) (map PyDict rs) ?retry = Inr s' \<and> ms_verdict s' = Some v
            \<and> ms_repeated_terminal s' = repeated)
         \<or> (\<exists>w. event_verdict target e = Some w \<and> (\<exists>s'. fold_res (scan_event target) (map PyDict rs) (?ended w) = Inr s'
            \<and> ms_verdict s' = Some v \<and> ms_repeated_terminal s' = repeated)))"
    by (simp add: res_simps step) blast
  also have "\<dots> \<longleftrightarrow> results_verdict target (e # rs) v repeated"
    unfolding retry ended results_verdict_Cons by blast
  finally show ?case .
qed


section \<open>The verdict\<close>

lemma verdict_iff_scan:
  "verdict_from_probe_result (PyDict d) target = Inr v \<longleftrightarrow>
     (target = PyNone \<or> target_attested d target) \<and> is_true d ''match_cleanup_valid'' \<and> \<not> is_true d ''match_rejected''
     \<and> (\<exists>vs s. match_events d = PyList vs \<and> fold_res (scan_event target) vs match_scan_init = Inr s
        \<and> ms_verdict s = Some v \<and> (ms_repeated_terminal s \<longrightarrow> lockout_durable d vs))"
  by (auto simp: verdict_from_probe_result_def Let_def res_simps py_simps split: option.splits)

lemma scan_iff:
  "(\<exists>s. fold_res (scan_event target) vs match_scan_init = Inr s \<and> ms_verdict s = Some v \<and> ms_repeated_terminal s = r)
   \<longleftrightarrow> (\<exists>es. vs = map PyDict es \<and> results_verdict target (filter is_match_result es) v r)"
proof -
  have init: "ms_verdict match_scan_init = None" "\<not> ms_repeated_terminal match_scan_init" by (simp_all add: match_scan_init_def)
  have "(\<exists>s. fold_res (scan_event target) vs match_scan_init = Inr s \<and> ms_verdict s = Some v \<and> ms_repeated_terminal s = r)
    \<longleftrightarrow> (\<exists>es. vs = map PyDict es \<and> (\<exists>s. fold_res (scan_event target) (map PyDict (filter is_match_result es)) match_scan_init = Inr s
        \<and> ms_verdict s = Some v \<and> ms_repeated_terminal s = r))"
    by (subst scan_filter) blast
  then show ?thesis by (simp add: scan_verdict [OF init] list_all_iff)
qed

lemma verdict_iff:
  "verdict_from_probe_result result target = Inr v \<longleftrightarrow>
     (\<exists>d es. result = PyDict d \<and> (target = PyNone \<or> target_attested d target)
       \<and> match_events d = PyList (map PyDict es) \<and> is_true d ''match_cleanup_valid'' \<and> \<not> is_true d ''match_rejected''
       \<and> (results_verdict target (filter is_match_result es) v False
          \<or> results_verdict target (filter is_match_result es) v True \<and> lockout_durable d (map PyDict es)))"
proof (cases result)
  case (PyDict d)
  have "(\<exists>vs s. match_events d = PyList vs \<and> fold_res (scan_event target) vs match_scan_init = Inr s
        \<and> ms_verdict s = Some v \<and> (ms_repeated_terminal s \<longrightarrow> lockout_durable d vs))
    \<longleftrightarrow> (\<exists>vs. match_events d = PyList vs
        \<and> ((\<exists>s. fold_res (scan_event target) vs match_scan_init = Inr s \<and> ms_verdict s = Some v \<and> ms_repeated_terminal s = False)
           \<or> (\<exists>s. fold_res (scan_event target) vs match_scan_init = Inr s \<and> ms_verdict s = Some v \<and> ms_repeated_terminal s = True)
             \<and> lockout_durable d vs))" by blast
  also have "\<dots> \<longleftrightarrow> (\<exists>es. match_events d = PyList (map PyDict es)
        \<and> (results_verdict target (filter is_match_result es) v False
           \<or> results_verdict target (filter is_match_result es) v True \<and> lockout_durable d (map PyDict es)))"
    unfolding scan_iff by blast
  finally show ?thesis using PyDict by (simp add: verdict_iff_scan) blast
qed (simp_all add: verdict_from_probe_result_def isinstance_dict_def)

text \<open>
  C18: A verdict is given exactly when it is earned. The function returns \<open>v\<close> if and only if the result is a
  \<^verbatim>\<open>dict\<close> whose named-match attestation is complete (when a finger was named), the match was closed
  cleanly and not rejected, every event is a \<^verbatim>\<open>dict\<close>, and its match results are valid: some image-quality retries,
  then terminal results that all have the verdict \<open>v\<close>; either there is one of them, or each is accepted by the
  host and bound to the same finger as the first one, and the lockout record is stored for every one.
\<close>

theorem verdict_is_earned:
  "verdict_from_probe_result result target = Inr v \<longleftrightarrow>
     (\<exists>d es. result = PyDict d \<and> (target = PyNone \<or> target_attested d target)
       \<and> match_events d = PyList (map PyDict es) \<and> is_true d ''match_cleanup_valid'' \<and> \<not> is_true d ''match_rejected''
       \<and> (results_verdict target (filter is_match_result es) v False
          \<or> results_verdict target (filter is_match_result es) v True \<and> lockout_durable d (map PyDict es)))"
  by (rule verdict_iff)

section \<open>A match of any finger\<close>

lemma results_verdict_known: "results_verdict target rs v repeated \<Longrightarrow> v = ''verify-match'' \<or> v = ''verify-no-match''"
  by (auto simp: results_verdict_def dest: event_verdict_cases)

text \<open>Matched results of a \<^verbatim>\<open>verify-match\<close> are its terminal results, and they name one finger.\<close>

lemma retry_not_matched: "retry_event target e \<Longrightarrow> \<not> is_true e ''matched''"
  by (auto simp: retry_event_def negative_event_def is_true_def)

lemma match_verdict_matched: "event_verdict target e = Some ''verify-match'' \<Longrightarrow> is_true e ''matched''"
  by (auto simp: event_verdict_def positive_event_def split: if_splits)

lemma no_match_verdict_matched: "event_verdict target e = Some ''verify-no-match'' \<Longrightarrow> \<not> is_true e ''matched''"
  by (auto simp: event_verdict_def negative_event_def is_true_def split: if_splits)

lemma same_name: "same_identity PyNone t u \<Longrightarrow>
    is_finger_name (dict_get t ''matched_finger_name'') \<and> dict_get u ''matched_finger_name'' = dict_get t ''matched_finger_name''"
  by (auto simp: same_identity_def is_finger_name_def split: pyval.splits)

lemma finger_name_text: "is_finger_name x \<Longrightarrow> x = PyStr (str_of x)"
  by (cases x) (simp_all add: is_finger_name_def)

definition matched_result :: "pydict \<Rightarrow> bool" where
  "matched_result e = (is_match_result e \<and> is_true e ''matched'')"

definition names_finger :: "pydict \<Rightarrow> string \<Rightarrow> bool" where
  "names_finger e name = (is_true e ''matches_enrolled_identity'' \<and> is_true e ''matched_finger_name_present''
     \<and> is_finger_name (PyStr name) \<and> dict_get e ''matched_finger_name'' = PyStr name)"

lemma matched_finger_step:
  "matched_finger (map PyDict (e # es)) = Inr name \<longleftrightarrow>
     (if matched_result e then names_finger e name else matched_finger (map PyDict es) = Inr name)"
  using finger_name_text [of "dict_get e ''matched_finger_name''"]
  by (auto simp: isinstance_dict_def matched_result_def names_finger_def)

lemma matched_finger_first:
  "matched_finger (map PyDict es) = Inr name \<longleftrightarrow>
     (\<exists>us e vs. es = us @ e # vs \<and> list_all (\<lambda>u. \<not> matched_result u) us \<and> matched_result e \<and> names_finger e name)"
  (is "?F es \<longleftrightarrow> ?R es")
proof (induction es)
  case (Cons e es)
  show ?case
  proof (cases "matched_result e")
    case True
    have "?R (e # es) \<longleftrightarrow> names_finger e name"
    proof
      assume "?R (e # es)"
      then obtain us f vs where f: "e # es = us @ f # vs" "list_all (\<lambda>u. \<not> matched_result u) us" "names_finger f name" by blast
      with True have "us = []" by (cases us) auto
      with f show "names_finger e name" by simp
    next
      assume "names_finger e name"
      with True show "?R (e # es)" by (intro exI [of _ "[]"] exI [of _ e] exI [of _ es]) simp
    qed
    with True show ?thesis by (simp only: matched_finger_step if_True)
  next
    case False
    have "?R (e # es) \<longleftrightarrow> ?R es"
    proof
      assume "?R (e # es)"
      then obtain us f vs where f: "e # es = us @ f # vs" "list_all (\<lambda>u. \<not> matched_result u) us" "matched_result f"
        "names_finger f name" by blast
      with False obtain us' where "us = e # us'" by (cases us) auto
      with f show "?R es" by (intro exI [of _ us'] exI [of _ f] exI [of _ vs]) simp
    next
      assume "?R es"
      then obtain us f vs where "es = us @ f # vs" "list_all (\<lambda>u. \<not> matched_result u) us" "matched_result f"
        "names_finger f name" by blast
      with False show "?R (e # es)" by (intro exI [of _ "e # us"] exI [of _ f] exI [of _ vs]) simp
    qed
    with Cons.IH False show ?thesis by (simp only: matched_finger_step if_False)
  qed
qed simp

definition matched_results :: "pydict list \<Rightarrow> pydict set" where
  "matched_results es = {e \<in> set es. is_match_result e \<and> is_true e ''matched''}"

lemma any_finger_named:
  assumes "resolved_any_finger_from_probe_result result = Inr finger"
  shows "\<exists>d es. result = PyDict d \<and> any_attested d \<and> match_events d = PyList (map PyDict es) \<and> (case finger of
      None \<Rightarrow> verdict_from_probe_result result PyNone = Inr ''verify-no-match'' \<and> matched_results es = {}
    | Some name \<Rightarrow> verdict_from_probe_result result PyNone = Inr ''verify-match'' \<and> is_finger_name (PyStr name)
        \<and> matched_results es \<noteq> {} \<and> (\<lambda>e. dict_get e ''matched_finger_name'') ` matched_results es = {PyStr name})"
proof -
  from assms obtain d where d: "result = PyDict d" "any_attested d"
    by (cases result) (auto simp: resolved_any_finger_from_probe_result_def isinstance_dict_def split: if_splits)
  from assms d obtain v where v: "verdict_from_probe_result result PyNone = Inr v"
    "if v = ''verify-no-match'' then finger = None
     else \<exists>events name. dict_item d ''match_events'' = Inr events \<and> matched_finger (list_of events) = Inr name \<and> finger = Some name"
    by (auto simp: resolved_any_finger_from_probe_result_def isinstance_dict_def res_simps split: if_splits)
  from v(1) obtain es repeated where es: "match_events d = PyList (map PyDict es)"
    "results_verdict PyNone (filter is_match_result es) v repeated" unfolding verdict_iff d(1) by auto
  then obtain retries t ts where r: "filter is_match_result es = retries @ t # ts"
    "list_all (retry_event PyNone) retries" "list_all (\<lambda>e. event_verdict PyNone e = Some v) (t # ts)"
    "list_all (repeats PyNone v t) ts" unfolding results_verdict_def by blast
  have matched: "matched_results es = {e \<in> set (retries @ t # ts). is_true e ''matched''}"
    unfolding r(1) [symmetric] by (auto simp: matched_results_def)
  show ?thesis
  proof (cases "v = ''verify-no-match''")
    case True
    with r(2,3) have "matched_results es = {}"
      unfolding matched by (auto simp: list_all_iff dest: retry_not_matched no_match_verdict_matched)
    with True v d es(1) show ?thesis by auto
  next
    case False
    then have m: "v = ''verify-match''" using results_verdict_known [OF es(2)] by blast
    from False v(2) obtain events name where n: "dict_item d ''match_events'' = Inr events"
      "matched_finger (list_of events) = Inr name" "finger = Some name" by auto
    from n(1) es(1) have "events = PyList (map PyDict es)"
      by (auto simp: dict_item_def match_events_def dict_has_def dict_get_def split: option.splits)
    with n(2) obtain us e vs where e: "es = us @ e # vs" "list_all (\<lambda>u. \<not> matched_result u) us"
      "is_match_result e" "is_true e ''matched''" "is_finger_name (PyStr name)" "dict_get e ''matched_finger_name'' = PyStr name"
      by (auto simp: matched_finger_first matched_result_def names_finger_def)
    have terminals: "matched_results es = set (t # ts)"
      unfolding matched using r(2,3) m by (auto simp: list_all_iff dest: retry_not_matched match_verdict_matched)
    have "e \<in> matched_results es" using e(1,3,4) by (simp add: matched_results_def)
    moreover have "dict_get u ''matched_finger_name'' = dict_get t ''matched_finger_name''" if "u \<in> matched_results es" for u
      using that r(4) m unfolding terminals by (auto simp: list_all_iff repeats_def dest: same_name)
    ultimately have "(\<lambda>e. dict_get e ''matched_finger_name'') ` matched_results es = {PyStr name}"
      using e(6) by (auto simp: image_iff)
    with d es(1) v(1) m n(3) e(5) \<open>e \<in> matched_results es\<close> show ?thesis by auto
  qed
qed


text \<open>
  A match of any finger names the one finger that every matched result names. When a name is reported, the
  inventory and post-match attestations are complete, the verdict is a match, at least one result
  matched, and all of them name this finger; when none is reported, the verdict is no match and no result matched.
\<close>

theorem any_match_names_one_finger:
  assumes "resolved_any_finger_from_probe_result result = Inr finger"
  shows "\<exists>d es. result = PyDict d \<and> any_attested d \<and> match_events d = PyList (map PyDict es) \<and> (case finger of
      None \<Rightarrow> verdict_from_probe_result result PyNone = Inr ''verify-no-match'' \<and> matched_results es = {}
    | Some name \<Rightarrow> verdict_from_probe_result result PyNone = Inr ''verify-match'' \<and> is_finger_name (PyStr name)
        \<and> matched_results es \<noteq> {} \<and> (\<lambda>e. dict_get e ''matched_finger_name'') ` matched_results es = {PyStr name})"
  by (rule any_finger_named [OF assms])

section \<open>The worker's record\<close>

lemma attested_finger: "target_attested d target \<Longrightarrow> is_finger_name target"
  by (auto simp: target_attested_def Let_def)

lemma worker_record_fields:
  "dict_keys_are (worker_record selector verdict finger_name) WORKER_TERMINAL_FIELDS"
  "dict_get (worker_record selector verdict finger_name) ''schema_version'' = PyInt WORKER_TERMINAL_SCHEMA"
  "dict_get (worker_record selector verdict finger_name) ''selector'' = PyStr selector"
  "dict_get (worker_record selector verdict finger_name) ''verdict'' = PyStr verdict"
  "dict_get (worker_record selector verdict finger_name) ''finger_name'' = finger_name"
  by (auto simp: worker_record_def WORKER_TERMINAL_FIELDS_def dict_get_def dict_has_def dict_keys_are_def)

lemma validate_record:
  assumes "v = ''verify-match'' \<or> v = ''verify-no-match''"
  shows "validate_worker_terminal_result (PyDict (worker_record selector v finger)) target resolve_any =
    (if (if resolve_any
         then target = PyNone \<and> selector = ''resolve-any''
           \<and> (v = ''verify-no-match'' \<and> finger = PyNone \<or> v = ''verify-match'' \<and> is_finger_name finger)
         else if target \<noteq> PyNone then is_finger_name target \<and> selector = ''target'' \<and> py_eq finger target
         else selector = ''all'' \<and> finger = PyNone)
     then Inr (v, finger) else Inl (runtime_error ''native T2 match terminal selector is malformed''))"
proof -
  have "in_str_set (PyStr v) [''verify-match'', ''verify-no-match''] = Inr True" using assms by auto
  then show ?thesis
    unfolding validate_worker_terminal_result_def Let_def py_of_simps worker_record_fields
    by (simp add: isinstance_dict_def type_is_int_def worker_record_fields(1))
qed

text \<open>
  The worker's compact record loses nothing that its client relies on. Whenever the worker produces a record
  for a request, the client that made the same request accepts it, and what it gets is the verdict
  of the full result: for a named or unnamed match the verdict of the attested result and the requested finger,
  for a resolved match the finger that the full result names.
\<close>

theorem worker_record_accepted:
  assumes "compact_worker_result result target resolve_any = Inr r"
  shows "\<exists>v finger. validate_worker_terminal_result (PyDict r) target resolve_any = Inr (v, finger)
    \<and> (if resolve_any then target = PyNone
         \<and> resolved_any_finger_from_probe_result result = Inr (if v = ''verify-match'' then Some (str_of finger) else None)
       else finger = target \<and> verdict_from_probe_result result target = Inr v)"
proof (cases resolve_any)
  case True
  with assms have t: "target = PyNone" and "and_then (resolved_any_finger_from_probe_result result) (\<lambda>f.
      Inr (worker_record ''resolve-any'' (if f \<noteq> None then ''verify-match'' else ''verify-no-match'') (option_text f))) = Inr r"
    by (simp_all add: compact_worker_result_def split: if_splits)
  then obtain f where f: "resolved_any_finger_from_probe_result result = Inr f"
    "worker_record ''resolve-any'' (if f \<noteq> None then ''verify-match'' else ''verify-no-match'') (option_text f) = r"
    unfolding and_then_Inr_iff by blast
  have "is_finger_name (PyStr name)" if "f = Some name" for name
    using any_finger_named [OF f(1)] that by auto
  then show ?thesis
    using f(1) t True by (cases f; simp add: f(2) [symmetric] validate_record option_text_def)
next
  case False
  with assms obtain v where v: "verdict_from_probe_result result target = Inr v"
    "r = worker_record (if target \<noteq> PyNone then ''target'' else ''all'') v target"
    by (auto simp: compact_worker_result_def res_simps split: if_splits)
  have "v = ''verify-match'' \<or> v = ''verify-no-match''" "target = PyNone \<or> is_finger_name target"
    using v(1) attested_finger by (auto simp: verdict_iff dest: results_verdict_known)
  then show ?thesis using v False by (auto simp: validate_record)
qed


section \<open>Witnesses\<close>

definition sample_event :: pydict where
  "sample_event = [(KStr ''event_kind'', PyStr ''match_result''), (KStr ''result_valid'', PyBool True),
     (KStr ''matched'', PyBool True), (KStr ''matches_enrolled_identity'', PyBool True),
     (KStr ''matched_finger_name_present'', PyBool True), (KStr ''matched_finger_name'', PyStr ''finger-2'')]"

definition sample_gate :: pydict where
  "sample_gate = gate_public (AllGate \<lparr>ag_identity_name_records = [([], ''finger-2'')],
     ag_inventory = \<lparr>gi_per_user_records = [], gi_global_records = [], gi_component_hashes = []\<rparr>\<rparr>)"

definition sample_result :: pydict where
  "sample_result = [(KStr ''configured_identity_records_reconciled'', PyBool True),
     (KStr ''bridge_os_transaction_released_after_match'', PyBool True), (KStr ''termination_requested'', PyBool False),
     (KStr ''match_cleanup_valid'', PyBool True), (KStr ''match_events'', PyList [PyDict sample_event]),
     (KStr ''resolved_any_match_gate'', PyDict sample_gate),
     (KStr ''resolved_any_match_post_attestation'', PyDict (map (\<lambda>k. (KStr k, PyBool True)) post_attestation))]"

lemma sample_fields:
  "is_true sample_result ''match_cleanup_valid''" "\<not> is_true sample_result ''match_rejected''"
  "match_events sample_result = PyList (map PyDict [sample_event])" "any_attested sample_result"
  "is_match_result sample_event" "results_verdict PyNone [sample_event] ''verify-match'' False"
  subgoal by (simp add: sample_result_def is_true_def dict_get_def)
  subgoal by (simp add: sample_result_def is_true_def dict_get_def)
  subgoal by (simp add: sample_result_def match_events_def dict_get_def dict_has_def)
  subgoal by (simp add: sample_result_def any_attested_def sample_gate_def gate_public_def dict_get_def Let_def all_true_def
        is_true_def post_attestation_def MAX_ENROLLED_IDENTITIES_def isinstance_dict_def type_is_int_def)
  subgoal by (simp add: sample_event_def is_match_result_def dict_get_def)
  subgoal
    unfolding results_verdict_def
    by (intro exI [of _ "[]"] exI [of _ sample_event])
      (simp add: event_verdict_def positive_event_def is_true_def is_false_default_def dict_has_def sample_event_def dict_get_def)
  done

lemma sample_verdict: "verdict_from_probe_result (PyDict sample_result) PyNone = Inr ''verify-match''"
  unfolding verdict_iff using sample_fields by (intro exI [of _ sample_result] exI [of _ "[sample_event]"]) simp

lemma sample_resolved: "resolved_any_finger_from_probe_result (PyDict sample_result) = Inr (Some ''finger-2'')"
proof -
  have "dict_item sample_result ''match_events'' = Inr (PyList (map PyDict [sample_event]))"
    by (simp add: dict_item_def sample_result_def)
  moreover have "matched_finger (map PyDict [sample_event]) = Inr ''finger-2''"
    by (simp add: sample_event_def isinstance_dict_def is_match_result_def is_true_def is_finger_name_def dict_get_def)
  ultimately show ?thesis
    using sample_verdict sample_fields(4) by (simp add: resolved_any_finger_from_probe_result_def isinstance_dict_def)
qed

lemma any_match_names_one_finger_witness:
  "\<exists>es. match_events sample_result = PyList (map PyDict es) \<and> matched_results es \<noteq> {}
     \<and> (\<lambda>e. dict_get e ''matched_finger_name'') ` matched_results es = {PyStr ''finger-2''}"
  using any_match_names_one_finger [OF sample_resolved] by auto

lemma worker_record_accepted_witness:
  "\<exists>r. compact_worker_result (PyDict sample_result) PyNone False = Inr r
     \<and> validate_worker_terminal_result (PyDict r) PyNone False = Inr (''verify-match'', PyNone)"
proof -
  have "is_true sample_result ''configured_identity_records_reconciled''"
    "is_true sample_result ''bridge_os_transaction_released_after_match''"
    "dict_get sample_result ''termination_requested'' = PyBool False"
    by (simp_all add: sample_result_def is_true_def dict_get_def)
  then have "compact_worker_result (PyDict sample_result) PyNone False = Inr (worker_record ''all'' ''verify-match'' PyNone)"
    using sample_verdict by (simp add: compact_worker_result_def isinstance_dict_def)
  with worker_record_accepted [OF this] sample_verdict show ?thesis by auto
qed

end
