(* ===== verification/Match_Gate_Facts.thy ===== *)
theory Match_Gate_Facts
  imports Match_Gate
begin

text \<open>
  Correctness of the match gate: which inventories it accepts, that the selected identity is the one
  enrolled under the name, and that a match event is resolved to the finger whose UUID it carries.
\<close>

section \<open>Inventories\<close>

definition user_record :: "int \<Rightarrow> bytes \<Rightarrow> bool" where
  "user_record uid r = (length r = 20 \<and> le_int (take 4 r) = uid \<and> drop 4 r \<noteq> zero_bytes 16)"

lemma uuid_int_zero: "length bs = 16 \<Longrightarrow> be_uint bs = 0 \<longleftrightarrow> bs = zero_bytes 16"
  using be_uint_zero [of bs] by simp

lemma per_user_record_iff:
  "per_user_record uid v seen = Inr out \<longleftrightarrow> (\<exists>r. v = PyBytes r \<and> user_record uid r \<and> r \<notin> set seen \<and> out = seen @ [r])"
  by (auto simp: per_user_record_def user_record_def struct_unpack_from_def res_simps py_simps bytes_type_iff uuid_int_zero)

lemma per_user_fold_iff:
  "fold_res (per_user_record uid) vs seen = Inr out \<longleftrightarrow>
     (\<exists>rs. vs = map PyBytes rs \<and> out = seen @ rs \<and> list_all (user_record uid) rs \<and> distinct rs \<and> set rs \<inter> set seen = {})"
proof (induction vs arbitrary: seen)
  case (Cons v vs)
  show ?case
  proof
    assume "fold_res (per_user_record uid) (v # vs) seen = Inr out"
    then obtain r where r: "v = PyBytes r" "user_record uid r" "r \<notin> set seen"
      "fold_res (per_user_record uid) vs (seen @ [r]) = Inr out" by (auto simp: res_simps per_user_record_iff)
    from r(4) obtain rs where "vs = map PyBytes rs" "out = (seen @ [r]) @ rs" "list_all (user_record uid) rs" "distinct rs"
      "set rs \<inter> set (seen @ [r]) = {}" unfolding Cons.IH by blast
    with r show "\<exists>rs. v # vs = map PyBytes rs \<and> out = seen @ rs \<and> list_all (user_record uid) rs \<and> distinct rs
        \<and> set rs \<inter> set seen = {}" by (intro exI [of _ "r # rs"]) auto
  next
    assume "\<exists>rs. v # vs = map PyBytes rs \<and> out = seen @ rs \<and> list_all (user_record uid) rs \<and> distinct rs \<and> set rs \<inter> set seen = {}"
    then obtain r rs where rs: "v = PyBytes r" "vs = map PyBytes rs" "out = (seen @ [r]) @ rs" "user_record uid r"
      "list_all (user_record uid) rs" "r \<notin> set seen" "distinct rs" "set rs \<inter> set (seen @ [r]) = {}"
      by (auto simp: Cons_eq_map_conv)
    then have "fold_res (per_user_record uid) vs (seen @ [r]) = Inr out" unfolding Cons.IH by blast
    with rs show "fold_res (per_user_record uid) (v # vs) seen = Inr out" by (auto simp: res_simps per_user_record_iff)
  qed
qed auto

lemma per_user_records_iff:
  "per_user_records v uid = Inr rs \<longleftrightarrow> v = PyTuple (map PyBytes rs) \<and> list_all (user_record uid) rs \<and> distinct rs"
  by (cases v) (auto simp: per_user_records_def per_user_fold_iff)

text \<open>A global record is an identity, its group type and its group UUID.\<close>

definition global_ok :: "int \<Rightarrow> bytes \<Rightarrow> bool" where
  "global_ok uid g = (length g = 40 \<and> take 16 (drop 4 g) \<noteq> zero_bytes 16
     \<and> (le_int (take 4 g) = uid \<longrightarrow> le_int (take 4 (drop 20 g)) \<in> {0, 1} \<and> drop 24 g = zero_bytes 16))"

definition of_user :: "int \<Rightarrow> bytes \<Rightarrow> bool" where
  "of_user uid g = (le_int (take 4 g) = uid)"

lemma identity_parts: "take 16 (drop 4 (take 20 g)) = take 16 (drop 4 (g :: bytes))" "take 4 (take 20 g) = take 4 g"
  by (simp_all add: drop_take)

lemma global_record_bytes:
  assumes "length g = 40"
  shows "global_record uid (PyBytes g) (seen, configured) =
    (if take 16 (drop 4 g) = zero_bytes 16 \<or> take 20 g \<in> set seen
     then Inl (gate_error ''global identity inventory is empty-authority or duplicated'')
     else if of_user uid g
     then if le_int (take 4 (drop 20 g)) \<notin> {0, 1} \<or> drop 24 g \<noteq> zero_bytes 16
          then Inl (gate_error ''configured global identity is not built-in'')
          else Inr (seen @ [take 20 g], configured @ [take 20 g])
     else Inr (seen @ [take 20 g], configured))"
proof -
  have "take 16 (drop 24 g) = drop 24 g" using assms by simp
  then show ?thesis
    using assms by (simp add: global_record_def Let_def struct_unpack_from_def type_is_bytes_def identity_parts uuid_int_zero
        of_user_def)
qed

lemma global_record_iff:
  "global_record uid v (seen, configured) = Inr out \<longleftrightarrow>
     (\<exists>g. v = PyBytes g \<and> global_ok uid g \<and> take 20 g \<notin> set seen
       \<and> out = (seen @ [take 20 g], configured @ (if of_user uid g then [take 20 g] else [])))"
proof (cases "\<exists>g. v = PyBytes g \<and> length g = 40")
  case True
  then obtain g where "v = PyBytes g" "length g = 40" by blast
  then show ?thesis by (auto simp: global_record_bytes global_ok_def of_user_def)
next
  case False
  then have "\<not> type_is_bytes v \<or> length (bytes_of v) \<noteq> 40" by (auto simp: bytes_type_iff)
  with False show ?thesis by (auto simp: global_record_def global_ok_def)
qed

lemma global_fold_iff:
  "fold_res (global_record uid) vs (seen, configured) = Inr out \<longleftrightarrow>
     (\<exists>gs. vs = map PyBytes gs \<and> out = (seen @ map (take 20) gs, configured @ map (take 20) (filter (of_user uid) gs))
       \<and> list_all (global_ok uid) gs \<and> distinct (map (take 20) gs) \<and> set (map (take 20) gs) \<inter> set seen = {})"
proof (induction vs arbitrary: seen configured)
  case (Cons v vs)
  show ?case
  proof
    assume "fold_res (global_record uid) (v # vs) (seen, configured) = Inr out"
    then obtain g where g: "v = PyBytes g" "global_ok uid g" "take 20 g \<notin> set seen"
      "fold_res (global_record uid) vs (seen @ [take 20 g], configured @ (if of_user uid g then [take 20 g] else [])) = Inr out"
      by (auto simp: res_simps global_record_iff)
    from g(4) obtain gs where "vs = map PyBytes gs"
      "out = ((seen @ [take 20 g]) @ map (take 20) gs,
         (configured @ (if of_user uid g then [take 20 g] else [])) @ map (take 20) (filter (of_user uid) gs))"
      "list_all (global_ok uid) gs" "distinct (map (take 20) gs)" "set (map (take 20) gs) \<inter> set (seen @ [take 20 g]) = {}"
      unfolding Cons.IH by blast
    with g show "\<exists>gs. v # vs = map PyBytes gs
        \<and> out = (seen @ map (take 20) gs, configured @ map (take 20) (filter (of_user uid) gs))
        \<and> list_all (global_ok uid) gs \<and> distinct (map (take 20) gs) \<and> set (map (take 20) gs) \<inter> set seen = {}"
      by (intro exI [of _ "g # gs"]) auto
  next
    assume "\<exists>gs. v # vs = map PyBytes gs
        \<and> out = (seen @ map (take 20) gs, configured @ map (take 20) (filter (of_user uid) gs))
        \<and> list_all (global_ok uid) gs \<and> distinct (map (take 20) gs) \<and> set (map (take 20) gs) \<inter> set seen = {}"
    then obtain g gs where gs: "v = PyBytes g" "vs = map PyBytes gs" "global_ok uid g" "take 20 g \<notin> set seen"
      "out = ((seen @ [take 20 g]) @ map (take 20) gs,
         (configured @ (if of_user uid g then [take 20 g] else [])) @ map (take 20) (filter (of_user uid) gs))"
      "list_all (global_ok uid) gs" "distinct (map (take 20) gs)" "set (map (take 20) gs) \<inter> set (seen @ [take 20 g]) = {}"
      by (auto simp: Cons_eq_map_conv)
    then have "fold_res (global_record uid) vs (seen @ [take 20 g], configured @ (if of_user uid g then [take 20 g] else []))
        = Inr out" unfolding Cons.IH by blast
    with gs(1,3,4) show "fold_res (global_record uid) (v # vs) (seen, configured) = Inr out"
      by (auto simp: res_simps global_record_iff)
  qed
qed auto

lemma global_records_iff:
  "global_records v uid = Inr (gs, configured) \<longleftrightarrow> v = PyTuple (map PyBytes gs) \<and> list_all (global_ok uid) gs
     \<and> distinct (map (take 20) gs) \<and> configured = map (take 20) (filter (of_user uid) gs)"
  by (cases v) (auto simp: global_records_def res_simps global_fold_iff comp_def)

text \<open>The live inventories that pass both reads.\<close>

definition live_inventory :: "int \<Rightarrow> bytes list \<Rightarrow> bytes list \<Rightarrow> bool" where
  "live_inventory uid rs gs = (list_all (user_record uid) rs \<and> distinct rs \<and> list_all (global_ok uid) gs
     \<and> distinct (map (take 20) gs) \<and> set (map (take 20) (filter (of_user uid) gs)) = set rs)"

lemma stable_inventories_iff:
  "stable_inventories uid fu fg su sg = Inr (rs, gs) \<longleftrightarrow>
     fu = PyTuple (map PyBytes rs) \<and> su = fu \<and> fg = PyTuple (map PyBytes gs) \<and> sg = fg \<and> live_inventory uid rs gs"
  by (auto simp: stable_inventories_def live_inventory_def res_simps per_user_records_iff global_records_iff)


section \<open>Selection\<close>

text \<open>The record of an enrolled identity in the T2.\<close>

definition record_of :: "user_catacomb \<Rightarrow> local_identity \<Rightarrow> bytes" where
  "record_of c i = le_bytes 4 (uc_expected_user_id c) @ li_uuid i"

text \<open>Complete unique names, and live records that are exactly those of the enrolled identities.\<close>

definition names_ok :: "user_catacomb \<Rightarrow> bool" where
  "names_ok c = (distinct (map li_name (uc_identities c))
     \<and> set (map li_name (uc_identities c)) \<subseteq> the_handle ` set slots)"

definition live_agrees :: "user_catacomb \<Rightarrow> bytes list \<Rightarrow> bool" where
  "live_agrees c rs = (set rs = record_of c ` set (uc_identities c))"

lemma user_record_split: "user_record uid r \<Longrightarrow> r = le_bytes 4 uid @ drop 4 r \<and> length (drop 4 r) = 16"
  using le_bytes_le_int [of "take 4 r"] append_take_drop_id [of 4 r] by (auto simp: user_record_def)

lemma selection_record_user:
  "user_record uid r \<Longrightarrow> selection_record (PyBytes r) uid = Inr (uuid_str (drop 4 r), r)"
  by (simp add: selection_record_def user_record_def struct_unpack_from_def type_is_bytes_def uuid_text_def uuid_int_zero)

lemma parse_fold:
  "list_all (user_record uid) rs \<Longrightarrow> distinct (map (\<lambda>r. uuid_str (drop 4 r)) rs)
   \<Longrightarrow> set (map (\<lambda>r. uuid_str (drop 4 r)) rs) \<inter> set (map fst parsed) = {}
   \<Longrightarrow> fold_res (parse_record uid) (map PyBytes rs) parsed = Inr (parsed @ map (\<lambda>r. (uuid_str (drop 4 r), r)) rs)"
proof (induction rs arbitrary: parsed)
  case (Cons r rs)
  then have "parse_record uid (PyBytes r) parsed = Inr (parsed @ [(uuid_str (drop 4 r), r)])"
    by (simp add: parse_record_def selection_record_user)
  moreover have "set (map (\<lambda>r. uuid_str (drop 4 r)) rs) \<inter> set (map fst (parsed @ [(uuid_str (drop 4 r), r)])) = {}"
    using Cons.prems(2,3) by auto
  ultimately show ?case using Cons by simp
qed simp

lemma user_records_uuids:
  assumes "list_all (user_record uid) rs" and "distinct rs"
  shows "distinct (map (\<lambda>r. uuid_str (drop 4 r)) rs)" and "distinct (map (drop 4) rs)"
proof -
  have same: "r = r'" if "r \<in> set rs" "r' \<in> set rs" "drop 4 r = drop 4 r'" for r r'
    using that assms(1) user_record_split [of uid] by (metis list_all_iff)
  have same_text: "drop 4 r = drop 4 r'" if "r \<in> set rs" "r' \<in> set rs" "uuid_str (drop 4 r) = uuid_str (drop 4 r')" for r r'
    using that assms(1) user_record_split [of uid] uuid_str_inj by (metis list_all_iff)
  show "distinct (map (\<lambda>r. uuid_str (drop 4 r)) rs)" "distinct (map (drop 4) rs)"
    using assms(2) same same_text by (auto simp: distinct_map inj_on_def)
qed

lemma filter_key: "distinct (map f xs) \<Longrightarrow> x \<in> set xs \<Longrightarrow> filter (\<lambda>y. f y = f x) xs = [x]"
proof (induction xs)
  case (Cons y xs)
  show ?case
  proof (cases "x = y")
    case True
    have "filter (\<lambda>z. f z = f y) xs = []" using Cons.prems(1) by (auto simp: filter_empty_conv) (metis image_eqI)
    with True show ?thesis by simp
  next
    case False
    with Cons have "x \<in> set xs" "f y \<noteq> f x" by auto
    with Cons show ?thesis by simp
  qed
qed simp

lemma live_agrees_iff:
  assumes "catacomb_ok c" and "list_all (user_record (uc_expected_user_id c)) rs"
  shows "live_agrees c rs \<longleftrightarrow>
    set (map (\<lambda>r. uuid_str (drop 4 r)) rs) = set (map (\<lambda>i. uuid_str (li_uuid i)) (uc_identities c))"
proof -
  have len: "length (drop 4 r) = 16" "r = le_bytes 4 (uc_expected_user_id c) @ drop 4 r" if "r \<in> set rs" for r
    using that assms(2) user_record_split by (auto simp: list_all_iff)
  have len': "length (li_uuid i) = 16" if "i \<in> set (uc_identities c)" for i
    using that assms(1) by (auto simp: catacomb_ok_def list_all_iff)
  have "set (map (\<lambda>r. uuid_str (drop 4 r)) rs) = set (map (\<lambda>i. uuid_str (li_uuid i)) (uc_identities c))
      \<longleftrightarrow> drop 4 ` set rs = li_uuid ` set (uc_identities c)" 
  proof -
    have "inj_on uuid_str {bs. length bs = 16}" by (auto simp: inj_on_def uuid_str_inj)
    moreover have "drop 4 ` set rs \<subseteq> {bs. length bs = 16}" "li_uuid ` set (uc_identities c) \<subseteq> {bs. length bs = 16}"
      using len len' by auto
    ultimately have "uuid_str ` drop 4 ` set rs = uuid_str ` li_uuid ` set (uc_identities c)
        \<longleftrightarrow> drop 4 ` set rs = li_uuid ` set (uc_identities c)" by (rule inj_on_image_eq_iff)
    then show ?thesis by (simp add: image_image)
  qed
  also have "\<dots> \<longleftrightarrow> live_agrees c rs"
  proof
    assume d: "drop 4 ` set rs = li_uuid ` set (uc_identities c)"
    have "set rs = (\<lambda>u. le_bytes 4 (uc_expected_user_id c) @ u) ` drop 4 ` set rs"
      using len(2) by (force simp: image_image)
    then show "live_agrees c rs" unfolding d by (auto simp: live_agrees_def record_of_def)
  next
    assume l: "live_agrees c rs"
    then have "drop 4 ` set rs = (\<lambda>i. drop 4 (record_of c i)) ` set (uc_identities c)"
      by (simp add: live_agrees_def image_image)
    then show "drop 4 ` set rs = li_uuid ` set (uc_identities c)" by (simp add: record_of_def)
  qed
  finally show ?thesis by blast
qed

lemma select_identity_iff:
  assumes c: "catacomb_ok c" and rs: "list_all (user_record (uc_expected_user_id c)) rs" "distinct rs"
  shows "select_identity (Inr c) (PyTuple (map PyBytes rs)) fname = Inr s \<longleftrightarrow>
    names_ok c \<and> live_agrees c rs \<and> (\<exists>i \<in> set (uc_identities c). fname = PyStr (li_name i)
      \<and> s = \<lparr>si_finger_name = li_name i, si_identity_record = record_of c i\<rparr>)" (is "_ \<longleftrightarrow> ?R")
proof -
  let ?parsed = "map (\<lambda>r. (uuid_str (drop 4 r), r)) rs"
  have parse: "fold_res (parse_record (uc_expected_user_id c)) (map PyBytes rs) [] = Inr ?parsed"
    using parse_fold [OF rs(1) user_records_uuids(1) [OF rs], of "[]"] by simp
  have lookup: "map_of ?parsed (uuid_str (li_uuid i)) = Some (record_of c i)"
    if "live_agrees c rs" "i \<in> set (uc_identities c)" for i
  proof -
    have "record_of c i \<in> set rs" using that by (simp add: live_agrees_def)
    moreover have "drop 4 (record_of c i) = li_uuid i" by (simp add: record_of_def)
    moreover have "distinct (map fst ?parsed)" using user_records_uuids(1) [OF rs] by (simp add: comp_def)
    ultimately show ?thesis by (intro map_of_is_SomeI) (auto simp: image_iff intro!: bexI [of _ "record_of c i"])
  qed
  have names: "list_all (\<lambda>name. is_handle (PyStr name)) (map li_name (uc_identities c))
      \<longleftrightarrow> set (map li_name (uc_identities c)) \<subseteq> the_handle ` set slots"
    by (auto simp: list_all_iff is_handle_iff)
  have lengths: "length rs = length (uc_identities c)" if "live_agrees c rs"
  proof -
    have "inj_on (record_of c) (set (uc_identities c))" "distinct (uc_identities c)"
      using c by (auto simp: catacomb_ok_def record_of_def distinct_map inj_on_def)
    then have "card (set rs) = length (uc_identities c)"
      using that by (simp add: live_agrees_def card_image distinct_card)
    with rs(2) show ?thesis by (simp add: distinct_card)
  qed
  show ?thesis
  proof
    assume s: "select_identity (Inr c) (PyTuple (map PyBytes rs)) fname = Inr s"
    let ?sel = "filter (\<lambda>i. PyStr (li_name i) = fname) (uc_identities c)"
    from s have "names_ok c" "length ?sel = 1" "live_agrees c rs"
      and r: "map_of ?parsed (uuid_str (li_uuid (hd ?sel))) = Some (si_identity_record s)" "si_finger_name s = str_of fname"
      by (auto simp: select_identity_def Let_def parse names names_ok_def live_agrees_iff [OF c rs(1)] comp_def image_image
          split: if_splits option.splits)
    then obtain i where i: "?sel = [i]" by (cases ?sel) auto
    then have "i \<in> set ?sel" by simp
    then have "i \<in> set (uc_identities c)" "fname = PyStr (li_name i)" by auto
    with \<open>names_ok c\<close> \<open>live_agrees c rs\<close> r i lookup [of i] show ?R by (cases s) auto
  next
    assume ?R
    then obtain i where R: "names_ok c" "live_agrees c rs" "i \<in> set (uc_identities c)" "fname = PyStr (li_name i)"
      "s = \<lparr>si_finger_name = li_name i, si_identity_record = record_of c i\<rparr>" by blast
    have "filter (\<lambda>j. PyStr (li_name j) = fname) (uc_identities c) = [i]"
      using filter_key [of li_name "uc_identities c" i] R(1,3,4) by (simp add: names_ok_def)
    moreover have "is_handle fname" using R(1,3,4) by (auto simp: names_ok_def is_handle_iff)
    moreover have "uc_identities c \<noteq> []" using R(3) by auto
    moreover have "list_all (\<lambda>name. is_handle (PyStr name)) (map li_name (uc_identities c))" using R(1) names by (simp add: names_ok_def)
    moreover have "set (map fst ?parsed) = set (map (\<lambda>i. uuid_str (li_uuid i)) (uc_identities c))"
      using R(2) live_agrees_iff [OF c rs(1)] by (simp add: comp_def image_image)
    ultimately show "select_identity (Inr c) (PyTuple (map PyBytes rs)) fname = Inr s"
      using R lengths [OF R(2)] lookup [OF R(2,3)] parse by (simp add: select_identity_def Let_def names_ok_def image_image)
  qed
qed


section \<open>Gates\<close>

lemma prepare_iff:
  assumes c: "catacomb_ok c"
  shows "prepare H (Inr c) components fu fg su sg fname = Inr gate \<longleftrightarrow>
    (\<exists>rs gs hs i. fu = PyTuple (map PyBytes rs) \<and> su = fu \<and> fg = PyTuple (map PyBytes gs) \<and> sg = fg
      \<and> live_inventory (uc_expected_user_id c) rs gs \<and> live_agrees c rs \<and> names_ok c
      \<and> component_hashes H components = Inr hs \<and> i \<in> set (uc_identities c) \<and> fname = PyStr (li_name i)
      \<and> gate = \<lparr>tg_finger_name = li_name i, tg_identity_record = record_of c i,
                tg_inventory = \<lparr>gi_per_user_records = rs, gi_global_records = gs, gi_component_hashes = hs\<rparr>\<rparr>)"
proof -
  have select: "select_identity (Inr c) (PyTuple (map PyBytes rs)) fname = Inr s \<longleftrightarrow>
      names_ok c \<and> live_agrees c rs \<and> (\<exists>i \<in> set (uc_identities c). fname = PyStr (li_name i)
        \<and> s = \<lparr>si_finger_name = li_name i, si_identity_record = record_of c i\<rparr>)"
    if "live_inventory (uc_expected_user_id c) rs gs" for rs gs s
    using that by (intro select_identity_iff [OF c]) (simp_all add: live_inventory_def)
  have "prepare H (Inr c) components fu fg su sg fname = Inr gate \<longleftrightarrow>
    (\<exists>rs gs hs s. stable_inventories (uc_expected_user_id c) fu fg su sg = Inr (rs, gs)
      \<and> select_identity (Inr c) (PyTuple (map PyBytes rs)) fname = Inr s \<and> component_hashes H components = Inr hs
      \<and> gate = \<lparr>tg_finger_name = si_finger_name s, tg_identity_record = si_identity_record s,
                tg_inventory = \<lparr>gi_per_user_records = rs, gi_global_records = gs, gi_component_hashes = hs\<rparr>\<rparr>)"
    by (auto simp: prepare_def res_simps)
  also have "\<dots> \<longleftrightarrow> (\<exists>rs gs hs i. fu = PyTuple (map PyBytes rs) \<and> su = fu \<and> fg = PyTuple (map PyBytes gs) \<and> sg = fg
      \<and> live_inventory (uc_expected_user_id c) rs gs \<and> live_agrees c rs \<and> names_ok c
      \<and> component_hashes H components = Inr hs \<and> i \<in> set (uc_identities c) \<and> fname = PyStr (li_name i)
      \<and> gate = \<lparr>tg_finger_name = li_name i, tg_identity_record = record_of c i,
                tg_inventory = \<lparr>gi_per_user_records = rs, gi_global_records = gs, gi_component_hashes = hs\<rparr>\<rparr>)"
    (is "?L \<longleftrightarrow> ?R")
  proof
    assume ?L
    then obtain rs gs hs s where l: "stable_inventories (uc_expected_user_id c) fu fg su sg = Inr (rs, gs)"
      "select_identity (Inr c) (PyTuple (map PyBytes rs)) fname = Inr s" "component_hashes H components = Inr hs"
      "gate = \<lparr>tg_finger_name = si_finger_name s, tg_identity_record = si_identity_record s,
         tg_inventory = \<lparr>gi_per_user_records = rs, gi_global_records = gs, gi_component_hashes = hs\<rparr>\<rparr>" by blast
    from l(1) have "live_inventory (uc_expected_user_id c) rs gs" by (simp add: stable_inventories_iff)
    with l select show ?R by (simp only: stable_inventories_iff) force
  next
    assume ?R
    then obtain rs gs hs i where r: "fu = PyTuple (map PyBytes rs)" "su = fu" "fg = PyTuple (map PyBytes gs)" "sg = fg"
      "live_inventory (uc_expected_user_id c) rs gs" "live_agrees c rs" "names_ok c" "component_hashes H components = Inr hs"
      "i \<in> set (uc_identities c)" "fname = PyStr (li_name i)"
      "gate = \<lparr>tg_finger_name = li_name i, tg_identity_record = record_of c i,
         tg_inventory = \<lparr>gi_per_user_records = rs, gi_global_records = gs, gi_component_hashes = hs\<rparr>\<rparr>" by blast
    moreover have "select_identity (Inr c) (PyTuple (map PyBytes rs)) fname
        = Inr \<lparr>si_finger_name = li_name i, si_identity_record = record_of c i\<rparr>"
      using r(6,7,9,10) unfolding select [OF r(5)] by blast
    ultimately show ?L
      by (intro exI [of _ rs] exI [of _ gs] exI [of _ hs] exI [of _ "\<lparr>si_finger_name = li_name i, si_identity_record = record_of c i\<rparr>"])
        (simp add: stable_inventories_iff)
  qed
  finally show ?thesis .
qed

text \<open>
  C20: A match for one named finger starts only on an agreed inventory and for the identity enrolled under
  that name. The gate is prepared if and only if both reads of the per-user and of the global inventory are
  equal and well formed, the global records of the user are the per-user records and are built-in, these are
  exactly the records of the identities in the host's file, whose names are distinct handles, and the requested
  name is one of them; the gate then holds the record of that identity and what was read.
\<close>

theorem targeted_gate_exact:
  assumes "catacomb_ok c"
  shows "prepare H (Inr c) components fu fg su sg fname = Inr gate \<longleftrightarrow>
    (\<exists>rs gs hs i. fu = PyTuple (map PyBytes rs) \<and> su = fu \<and> fg = PyTuple (map PyBytes gs) \<and> sg = fg
      \<and> live_inventory (uc_expected_user_id c) rs gs \<and> live_agrees c rs \<and> names_ok c
      \<and> component_hashes H components = Inr hs \<and> i \<in> set (uc_identities c) \<and> fname = PyStr (li_name i)
      \<and> gate = \<lparr>tg_finger_name = li_name i, tg_identity_record = record_of c i,
                tg_inventory = \<lparr>gi_per_user_records = rs, gi_global_records = gs, gi_component_hashes = hs\<rparr>\<rparr>)"
  by (rule prepare_iff [OF assms])

lemma name_records_ok:
  assumes "distinct (map li_uuid ids)" and "set rs \<subseteq> (\<lambda>i. p @ li_uuid i) ` set ids" and "length p = 4"
    and "\<forall>i \<in> set ids. length (li_uuid i) = 16"
  shows "\<exists>is. set is \<subseteq> set ids \<and> rs = map (\<lambda>i. p @ li_uuid i) is
    \<and> name_records (map (\<lambda>i. (li_uuid i, li_name i)) ids) rs = Inr (map (\<lambda>i. (p @ li_uuid i, li_name i)) is)"
  using assms(2)
proof (induction rs)
  case (Cons r rs)
  then obtain i "is" where i: "i \<in> set ids" "r = p @ li_uuid i" "set is \<subseteq> set ids" "rs = map (\<lambda>i. p @ li_uuid i) is"
    "name_records (map (\<lambda>i. (li_uuid i, li_name i)) ids) rs = Inr (map (\<lambda>i. (p @ li_uuid i, li_name i)) is)" by auto
  have "distinct (map fst (rev (map (\<lambda>i. (li_uuid i, li_name i)) ids)))"
    using assms(1) by (simp add: comp_def rev_map [symmetric])
  then have "map_of (rev (map (\<lambda>i. (li_uuid i, li_name i)) ids)) (li_uuid i) = Some (li_name i)"
    using i(1) by (intro map_of_is_SomeI) auto
  moreover have "take 16 (drop 4 r) = li_uuid i" using i(1,2) assms(3,4) by simp
  ultimately show ?case using i by (intro exI [of _ "i # is"]) simp
qed simp

text \<open>What an all-identities gate holds: each enrolled identity once, with its name.\<close>

lemma prepare_all_records:
  assumes c: "catacomb_ok c" and g: "prepare_all H (Inr c) components fu fg su sg = Inr gate"
  shows "\<exists>is. set is = set (uc_identities c) \<and> distinct is
    \<and> ag_identity_name_records gate = map (\<lambda>i. (record_of c i, li_name i)) is
    \<and> gi_per_user_records (ag_inventory gate) = map (record_of c) is"
proof -
  from g obtain v where v: "prepare H (Inr c) components fu fg su sg (PyStr (li_name (hd (uc_identities c)))) = Inr v"
    "name_records (map (\<lambda>i. (li_uuid i, li_name i)) (uc_identities c)) (gi_per_user_records (tg_inventory v))
       = Inr (ag_identity_name_records gate)" "ag_inventory gate = tg_inventory v"
    by (auto simp: prepare_all_def res_simps)
  from v(1) obtain rs gs where rs: "live_inventory (uc_expected_user_id c) rs gs" "live_agrees c rs"
    "gi_per_user_records (tg_inventory v) = rs" by (auto simp: prepare_iff [OF c])
  then have "set rs \<subseteq> (\<lambda>i. le_bytes 4 (uc_expected_user_id c) @ li_uuid i) ` set (uc_identities c)" "distinct rs"
    by (auto simp: live_agrees_def record_of_def live_inventory_def)
  with c obtain "is" where i: "set is \<subseteq> set (uc_identities c)" "rs = map (record_of c) is"
    "ag_identity_name_records gate = map (\<lambda>i. (record_of c i, li_name i)) is"
    using name_records_ok [of "uc_identities c" rs "le_bytes 4 (uc_expected_user_id c)"] v(2) rs(3)
    by (auto simp: catacomb_ok_def list_all_iff record_of_def [abs_def])
  have inj: "inj_on (record_of c) (set (uc_identities c))"
    using c by (auto simp: catacomb_ok_def record_of_def distinct_map inj_on_def)
  have "record_of c ` set is = record_of c ` set (uc_identities c)" using rs(2) i(2) by (simp add: live_agrees_def)
  with inj i(1) have "set is = set (uc_identities c)" by (simp add: inj_on_image_eq_iff [of _ "set (uc_identities c)"])
  moreover have "distinct is" using \<open>distinct rs\<close> i(2) by (simp add: distinct_map)
  ultimately show ?thesis using i(2,3) v(3) rs(3) by (intro exI [of _ "is"]) simp
qed


section \<open>Match events\<close>

text \<open>The enrolled identities whose UUID occurs in the data of an event.\<close>

definition identities_in :: "user_catacomb \<Rightarrow> bytes \<Rightarrow> local_identity set" where
  "identities_in c data = {i \<in> set (uc_identities c). sublist (li_uuid i) data}"

lemma event_matches_records:
  assumes "\<forall>i \<in> set is. length (li_uuid i) = 16"
  shows "event_matches (zip (map (record_of c) is) xs) data
    = map snd (filter (\<lambda>(i, x). sublist (li_uuid i) data) (zip is xs))"
  using assms
proof (induction "is" arbitrary: xs)
  case (Cons i "is")
  then have "take 16 (drop 4 (record_of c i)) = li_uuid i" by (simp add: record_of_def)
  with Cons show ?case by (cases xs) (auto simp: event_matches_def)
qed (simp add: event_matches_def)

text \<open>At most one match in a list of identities, each paired with what the gate reports for it.\<close>

lemma single_match:
  assumes "distinct is" and "set is = set (uc_identities c)" and "length xs = length is"
    and "matches = map snd (filter (\<lambda>(i, x). sublist (li_uuid i) data) (zip is xs))" and "\<not> 1 < length matches"
  shows "matches = [] \<and> identities_in c data = {}
    \<or> (\<exists>n < length is. matches = [xs ! n] \<and> identities_in c data = {is ! n})"
proof -
  let ?hits = "filter (\<lambda>(i, x). sublist (li_uuid i) data) (zip is xs)"
  have fsts: "map fst ?hits = filter (\<lambda>i. sublist (li_uuid i) data) is" using assms(3)
    by (induction "is" xs rule: list_induct2') auto
  then have inn: "identities_in c data = set (map fst ?hits)" using assms(2) by (auto simp: identities_in_def)
  consider "?hits = []" | h where "?hits = [h]" using assms(4,5) by (cases ?hits; cases "tl ?hits") auto
  then show ?thesis
  proof cases
    case (2 h)
    then have "h \<in> set (zip is xs)" by (metis filter_is_subset list.set_intros(1) subsetD)
    then obtain n where "n < length is" "h = (is ! n, xs ! n)" by (auto simp: in_set_zip)
    with 2 inn assms(4) show ?thesis by auto
  qed (use inn assms(4) in simp)
qed

text \<open>
  C21: A match of any enrolled finger is reported under the right name. When the gate has been prepared from
  the host's file and both live inventories, a match event is resolved to a name only if the UUID of
  exactly one enrolled identity occurs in it, and then to the name of that identity; it is resolved to no name
  only if no enrolled UUID occurs.
\<close>

theorem match_names_enrolled_finger:
  assumes "catacomb_ok c" and "prepare_all H (Inr c) components fu fg su sg = Inr gate"
    and "resolve_all_match_event (Inr gate) (PyBytes data) = Inr result"
  shows "case result of
      None \<Rightarrow> identities_in c data = {}
    | Some name \<Rightarrow> \<exists>i. identities_in c data = {i} \<and> name = li_name i"
proof -
  from prepare_all_records [OF assms(1,2)] obtain "is" where i: "set is = set (uc_identities c)" "distinct is"
    "ag_identity_name_records gate = zip (map (record_of c) is) (map li_name is)"
    by (auto simp: zip_map_map zip_same_conv_map)
  have "\<forall>i \<in> set is. length (li_uuid i) = 16" using assms(1) i(1) by (simp add: catacomb_ok_def list_all_iff)
  then have "event_matches (ag_identity_name_records gate) data
      = map snd (filter (\<lambda>(i, x). sublist (li_uuid i) data) (zip is (map li_name is)))"
    unfolding i(3) by (rule event_matches_records)
  moreover have "\<not> 1 < length (event_matches (ag_identity_name_records gate) data)"
    "result = (if event_matches (ag_identity_name_records gate) data = [] then None
       else Some (hd (event_matches (ag_identity_name_records gate) data)))"
    using assms(3) by (auto simp: resolve_all_match_event_def Let_def split: if_splits)
  ultimately show ?thesis using single_match [OF i(2,1), of "map li_name is"] by fastforce
qed

text \<open>Slots: the reported number is the position of the identity in the order of entity numbers.\<close>

lemma slot_records_ok:
  assumes "distinct (map fst recs)" and "\<forall>i \<in> set is. (li_uuid i, record_of c i) \<in> set recs"
  shows "slot_records recs n is = Inr (zip (map (record_of c) is) [n..<n + length is])"
  using assms(2)
proof (induction "is" arbitrary: n)
  case (Cons i "is")
  have "distinct (map fst (rev recs))" using assms(1) by (simp add: rev_map [symmetric])
  then have "map_of (rev recs) (li_uuid i) = Some (record_of c i)" using Cons.prems by (intro map_of_is_SomeI) auto
  moreover have "[n..<n + length (i # is)] = n # [Suc n..<Suc n + length is]" by (simp add: upt_conv_Cons del: upt_Suc)
  ultimately show ?case using Cons by simp
qed simp

lemma prepare_slots_records:
  assumes c: "catacomb_ok c" and g: "prepare_slots H (Inr c) components fu fg su sg = Inr gate"
  shows "sg_identity_slot_records gate
    = zip (map (record_of c) (sort_key li_entity (uc_identities c))) [1..<1 + length (uc_identities c)]"
proof -
  let ?rec = "\<lambda>rs. map (\<lambda>r. (take 16 (drop 4 r), r)) rs"
  from g obtain rs gs where s: "live_inventory (uc_expected_user_id c) rs gs" "length (uc_identities c) = length rs"
    "set (map fst (?rec rs)) = set (map li_uuid (sort_key li_entity (uc_identities c)))"
    "slot_records (?rec rs) 1 (sort_key li_entity (uc_identities c)) = Inr (sg_identity_slot_records gate)"
    by (auto simp: prepare_slots_def stable_inventories_iff Let_def res_simps comp_def image_image)
  have rs: "take 16 (drop 4 r) = drop 4 r" "r = le_bytes 4 (uc_expected_user_id c) @ drop 4 r" if "r \<in> set rs" for r
    using that s(1) user_record_split by (auto simp: live_inventory_def list_all_iff)
  have "distinct (map (drop 4) rs)" using s(1) user_records_uuids(2) by (auto simp: live_inventory_def)
  moreover have "map fst (?rec rs) = map (drop 4) rs" using rs(1) by simp
  ultimately have "distinct (map fst (?rec rs))" by (simp only:)
  moreover have "\<forall>i \<in> set (sort_key li_entity (uc_identities c)). (li_uuid i, record_of c i) \<in> set (?rec rs)"
  proof
    fix i assume "i \<in> set (sort_key li_entity (uc_identities c))"
    then have "li_uuid i \<in> set (map fst (?rec rs))" unfolding s(3) by simp
    then obtain r where "r \<in> set rs" "li_uuid i = take 16 (drop 4 r)" by auto
    with rs [of r] show "(li_uuid i, record_of c i) \<in> set (?rec rs)" by (force simp: record_of_def)
  qed
  ultimately show ?thesis using slot_records_ok [of "?rec rs" "sort_key li_entity (uc_identities c)" c 1] s(4) by simp
qed

theorem match_names_reconciled_slot:
  assumes "catacomb_ok c" and "prepare_slots H (Inr c) components fu fg su sg = Inr gate"
    and "resolve_slot_match_event (Inr gate) (PyBytes data) = Inr result"
  shows "case result of
      None \<Rightarrow> identities_in c data = {}
    | Some slot \<Rightarrow> identities_in c data = {sort_key li_entity (uc_identities c) ! (slot - 1)}
        \<and> 1 \<le> slot \<and> slot \<le> length (uc_identities c)"
proof -
  let ?is = "sort_key li_entity (uc_identities c)"
  have i: "set ?is = set (uc_identities c)" "distinct ?is"
    using assms(1) by (auto simp: catacomb_ok_def distinct_map)
  have "\<forall>i \<in> set ?is. length (li_uuid i) = 16" using assms(1) by (simp add: catacomb_ok_def list_all_iff)
  then have em: "event_matches (sg_identity_slot_records gate) data
      = map snd (filter (\<lambda>(i, x). sublist (li_uuid i) data) (zip ?is [1..<1 + length (uc_identities c)]))"
    unfolding prepare_slots_records [OF assms(1,2)] by (rule event_matches_records)
  have r: "\<not> 1 < length (event_matches (sg_identity_slot_records gate) data)"
    "result = (if event_matches (sg_identity_slot_records gate) data = [] then None
       else Some (hd (event_matches (sg_identity_slot_records gate) data)))"
    using assms(3) by (auto simp: resolve_slot_match_event_def Let_def split: if_splits)
  have "event_matches (sg_identity_slot_records gate) data = [] \<and> identities_in c data = {}
    \<or> (\<exists>n < length ?is. event_matches (sg_identity_slot_records gate) data = [[1..<1 + length (uc_identities c)] ! n]
        \<and> identities_in c data = {?is ! n})"
    by (rule single_match [OF i(2,1) _ em r(1)]) (simp del: upt_Suc)
  then show ?thesis
  proof (elim disjE exE conjE)
    assume "event_matches (sg_identity_slot_records gate) data = []" "identities_in c data = {}"
    then show ?thesis using r(2) by simp
  next
    fix n
    assume n: "n < length ?is" "event_matches (sg_identity_slot_records gate) data = [[1..<1 + length (uc_identities c)] ! n]"
      "identities_in c data = {?is ! n}"
    have "[1..<1 + length (uc_identities c)] ! n = 1 + n" using n(1) by (simp del: upt_Suc)
    then have "result = Some (1 + n)" using r(2) unfolding n(2) by simp
    then show ?thesis using n(1,3) by simp
  qed
qed


section \<open>Witnesses\<close>

definition sample_catacomb :: user_catacomb where
  "sample_catacomb = \<lparr>uc_expected_user_id = 501, uc_identities =
     [\<lparr>li_uuid = replicate 16 7, li_user_id = 501, li_entity = 9, li_name = ''finger-2'', li_metadata = PyNone\<rparr>,
      \<lparr>li_uuid = replicate 16 8, li_user_id = 501, li_entity = 4, li_name = ''finger-1'', li_metadata = PyNone\<rparr>]\<rparr>"

definition sample_per_user :: pyval where
  "sample_per_user = PyTuple [PyBytes (le_bytes 4 501 @ replicate 16 8), PyBytes (le_bytes 4 501 @ replicate 16 7)]"

definition sample_global :: pyval where
  "sample_global = PyTuple [PyBytes (le_bytes 4 501 @ replicate 16 7 @ zero_bytes 20),
     PyBytes (le_bytes 4 502 @ replicate 16 9 @ le_bytes 4 3 @ replicate 16 1),
     PyBytes (le_bytes 4 501 @ replicate 16 8 @ le_bytes 4 1 @ zero_bytes 16)]"

definition sample_components :: pyval where
  "sample_components = PyDict [(KStr ''user'', PyBytes [1, 2])]"

lemma sample_catacomb_ok: "catacomb_ok sample_catacomb"
  by code_simp

definition sample_records :: "bytes list" where
  "sample_records = [le_bytes 4 501 @ replicate 16 8, le_bytes 4 501 @ replicate 16 7]"

definition sample_global_records :: "bytes list" where
  "sample_global_records = [le_bytes 4 501 @ replicate 16 7 @ zero_bytes 20,
     le_bytes 4 502 @ replicate 16 9 @ le_bytes 4 3 @ replicate 16 1,
     le_bytes 4 501 @ replicate 16 8 @ le_bytes 4 1 @ zero_bytes 16]"

definition sample_inventory :: gate_inventory where
  "sample_inventory = \<lparr>gi_per_user_records = sample_records, gi_global_records = sample_global_records,
     gi_component_hashes = [(''user'', ''0102'')]\<rparr>"

text \<open>Everything the targeted gate of an enrolled name needs holds of the sample.\<close>

lemma sample_facts:
  "sample_per_user = PyTuple (map PyBytes sample_records)" "sample_global = PyTuple (map PyBytes sample_global_records)"
  "live_inventory (uc_expected_user_id sample_catacomb) sample_records sample_global_records"
  "live_agrees sample_catacomb sample_records" "names_ok sample_catacomb"
  "component_hashes (\<lambda>d. d) sample_components = Inr [(''user'', ''0102'')]"
  subgoal by (simp add: sample_per_user_def sample_records_def)
  subgoal by (simp add: sample_global_def sample_global_records_def)
  subgoal by code_simp
  subgoal unfolding live_agrees_def by code_simp
  subgoal unfolding names_ok_def by code_simp
  subgoal by code_simp
  done

lemma targeted_gate_exact_witness:
  "prepare (\<lambda>d. d) (Inr sample_catacomb) sample_components sample_per_user sample_global sample_per_user sample_global
     (PyStr ''finger-1'')
   = Inr \<lparr>tg_finger_name = ''finger-1'', tg_identity_record = le_bytes 4 501 @ replicate 16 8,
          tg_inventory = sample_inventory\<rparr>"
  unfolding targeted_gate_exact [OF sample_catacomb_ok] sample_inventory_def
  by (intro exI [of _ sample_records] exI [of _ sample_global_records] exI [of _ "[(''user'', ''0102'')]"]
      exI [of _ "uc_identities sample_catacomb ! 1"])
    (simp only: sample_facts simp_thms, simp add: sample_catacomb_def record_of_def)

lemma sample_prepared_all:
  "prepare_all (\<lambda>d. d) (Inr sample_catacomb) sample_components sample_per_user sample_global sample_per_user sample_global
   = Inr \<lparr>ag_identity_name_records = [(le_bytes 4 501 @ replicate 16 8, ''finger-1''),
            (le_bytes 4 501 @ replicate 16 7, ''finger-2'')], ag_inventory = sample_inventory\<rparr>"
proof -
  have first: "prepare (\<lambda>d. d) (Inr sample_catacomb) sample_components sample_per_user sample_global sample_per_user
      sample_global (PyStr ''finger-2'')
    = Inr \<lparr>tg_finger_name = ''finger-2'', tg_identity_record = le_bytes 4 501 @ replicate 16 7,
        tg_inventory = sample_inventory\<rparr>"
    unfolding prepare_iff [OF sample_catacomb_ok] sample_inventory_def
    by (intro exI [of _ sample_records] exI [of _ sample_global_records] exI [of _ "[(''user'', ''0102'')]"]
        exI [of _ "uc_identities sample_catacomb ! 0"])
      (simp only: sample_facts simp_thms, simp add: sample_catacomb_def record_of_def)
  have names: "name_records (map (\<lambda>i. (li_uuid i, li_name i)) (uc_identities sample_catacomb)) sample_records
    = Inr [(le_bytes 4 501 @ replicate 16 8, ''finger-1''), (le_bytes 4 501 @ replicate 16 7, ''finger-2'')]"
    by code_simp
  have "li_name (hd (uc_identities sample_catacomb)) = ''finger-2''" "uc_identities sample_catacomb \<noteq> []"
    by (simp_all add: sample_catacomb_def)
  with first names show ?thesis by (simp add: prepare_all_def sample_inventory_def)
qed

lemma match_names_enrolled_finger_witness:
  "identities_in sample_catacomb (replicate 3200 0 @ replicate 16 7) = {uc_identities sample_catacomb ! 0}"
proof -
  let ?data = "replicate 3200 0 @ replicate 16 7 :: bytes"
  have "\<not> sublist (replicate 16 8) ?data" using set_mono_sublist [of "replicate 16 8" ?data] by auto
  moreover have "sublist (replicate 16 7) ?data" by (simp add: sublist_append_rightI)
  ultimately have "resolve_all_match_event (Inr \<lparr>ag_identity_name_records = [(le_bytes 4 501 @ replicate 16 8, ''finger-1''),
      (le_bytes 4 501 @ replicate 16 7, ''finger-2'')], ag_inventory = sample_inventory\<rparr>) (PyBytes ?data)
    = Inr (Some ''finger-2'')"
    by (simp add: resolve_all_match_event_def event_malformed_def type_is_bytes_def event_matches_def)
  from match_names_enrolled_finger [OF sample_catacomb_ok sample_prepared_all this] obtain i where
    i: "identities_in sample_catacomb ?data = {i}" "li_name i = ''finger-2''" by auto
  then have "i \<in> set (uc_identities sample_catacomb)" by (auto simp only: identities_in_def)
  with i(2) have "i = uc_identities sample_catacomb ! 0" by (auto simp: sample_catacomb_def)
  with i(1) show ?thesis by simp
qed

end
