(* ===== verification/Spec2Isabelle.thy ===== *)
theory Spec2Isabelle
  imports Rename_Facts Catacomb_Facts Operation_Theorems Delete_Operation_Samples Acm_Facts Aks_Facts Biolockout_Protocol
    Fprint_Identity Match_Result_Facts Match_Gate_Facts
begin

text \<open>
  \<^bold>\<open>t2touch: journaled fingerprint mutations on Apple T2 machines.\<close>

  The program enrolls, deletes and renames fingerprints that live in the Secure Enclave (SEP) of a T2
  chip. A mutation cannot be undone or repeated blindly, so every step is written to an append-only,
  hash-chained journal before it is taken, and what is in the journal alone decides how an interrupted
  mutation is continued. This development models that core: the journal, the typed histories above
  it, the byte protocols the mutations use, the operations that drive an enrollment and a deletion, and the gate and verdict
  of a match. All sources are Python files under \<^verbatim>\<open>src/src/\<close>.

  \<^bold>\<open>Parts, theories and sources.\<close>

  \<^item> \<^verbatim>\<open>T2_Prelude\<close>: Python exceptions as values of a sum type, sequencing, loops that may raise. \<^verbatim>\<open>Methods\<close>: methods that raise
    and change state, with their weakest preconditions.
    \<^verbatim>\<open>Py_Value\<close>: Python values with \<^verbatim>\<open>==\<close>, hashing, \<^verbatim>\<open>dict\<close> access, UUID and digest texts.
    \<^verbatim>\<open>Json_Codec\<close>: canonical JSON, its reader and their round trip. \<^verbatim>\<open>Line_Codec\<close>: complete lines and torn tails.
  \<^item> \<^verbatim>\<open>Mutation_Journal\<close> (\<^verbatim>\<open>t2_mutation_journal.py\<close>): record checks, baseline schema, hash chain, torn-tail repair,
    and \<^verbatim>\<open>append\<close>, \<^verbatim>\<open>create\<close>, \<^verbatim>\<open>read\<close> on a file. \<^verbatim>\<open>Journal_Facts\<close> and \<^verbatim>\<open>Journal_Theorems\<close> prove that an appended
    record is read back, that an interrupted append loses nothing, that what is read is a hash chain and that
    guarded appends win once. \<^verbatim>\<open>Journal_Recovery\<close> extends this to sequences of appends that fail anywhere.
  \<^item> \<^verbatim>\<open>Persistence_Journal\<close> (\<^verbatim>\<open>t2_enrollment_persistence_journal.py\<close>): the tracker of a Catacomb save;
    \<^verbatim>\<open>Persistence_Facts\<close> gives its invariant, with the milestones that what it remembers comes from, and the abstract save
    procedure that it follows when no milestone declared the outcome unknown.
  \<^item> \<^verbatim>\<open>Typed_Journal\<close>: the contract that the typed journals share, as locales (\<open>typed_journal\<close>: a first record, steps,
    skipped repair records; \<open>checked_append\<close>: validate, append, validate again).
    \<^verbatim>\<open>Enrollment_Journal\<close> (\<^verbatim>\<open>t2_enrollment_journal.py\<close>), \<^verbatim>\<open>Delete_Journal\<close> (\<^verbatim>\<open>t2_identity_delete_journal.py\<close>) and
    \<^verbatim>\<open>Rename_Journal\<close> (\<^verbatim>\<open>t2_identity_rename_journal.py\<close>) are the replays of the three journals, one definition per
    milestone; \<^verbatim>\<open>Enrollment_Facts\<close>, \<^verbatim>\<open>Delete_Facts\<close> and \<^verbatim>\<open>Rename_Facts\<close> interpret the locales on them and prove what
    their phases stand for, the write-ahead order, and which phases are final. The two proofs after a reboot are compared with
    the reconciliation they refer to: a deletion's proof crosses a boot after it, a recovered rename's proof need not.
  \<^item> \<^verbatim>\<open>Byte_Struct\<close>: \<^verbatim>\<open>struct.pack\<close> and \<^verbatim>\<open>struct.unpack\<close> with a locale for arrays of fixed-size records.
    \<^verbatim>\<open>Catacomb_Protocol\<close> (\<^verbatim>\<open>t2_catacomb_protocol.py\<close>) and \<^verbatim>\<open>Enrollment_Protocol\<close> (\<^verbatim>\<open>t2_enrollment_protocol.py\<close>) are the
    save commands and the enrollment requests, events and event machine; their \<^verbatim>\<open>_Facts\<close> theories show
    exact encodings, the save plan, event order and that the machine fails closed.
  \<^item> \<^verbatim>\<open>Enrollment_Operation\<close> (\<^verbatim>\<open>t2_enrollment_operation.py\<close>): the operation that composes the event machine, the
    transport and the enrollment journal. \<^verbatim>\<open>Operation_Logic\<close> holds the rules for its commands and the milestones the journal takes,
    \<^verbatim>\<open>Operation_History\<close> links its \<^verbatim>\<open>history\<close> to the replay of the file and states its invariant,
    \<^verbatim>\<open>Operation_Rules\<close>, \<^verbatim>\<open>Operation_Steps\<close>, \<^verbatim>\<open>Operation_Loop\<close> and \<^verbatim>\<open>Operation_Run\<close> are the rules of its methods, from one
    append to the whole run, and \<^verbatim>\<open>Operation_Termination\<close> is the measure of the loop. \<^verbatim>\<open>Operation_Theorems\<close> concludes
    that commands are announced, that results are durable, that errors are accounted for, that up to the first
    append that fails the operation offers only what its journal accepts, and that runs end.
  \<^item> \<^verbatim>\<open>Identity_Inventory\<close> (\<^verbatim>\<open>t2_identity_inventory.py\<close>): the join of the host's identities (\<^verbatim>\<open>Local_Catacomb\<close>, what the
    modules read of \<^verbatim>\<open>t2_catacomb_codec.py\<close>) with a live inventory, stated as the relation \<open>reconciled\<close>, and the slots.
    \<^verbatim>\<open>Delete_Operation\<close> (\<^verbatim>\<open>t2_identity_delete_bridge.py\<close>, \<^verbatim>\<open>t2_identity_delete_operation.py\<close>): the one-shot adapter
    of the delete command and the run that journals around it. \<^verbatim>\<open>Delete_Operation_Facts\<close> has the rules of its methods,
    \<^verbatim>\<open>Delete_Operation_Theorems\<close> shows that the command is announced, that a result is durable and borne out by the
    inventory that the run collected after the command, and that a sent command is never forgotten, and exhibits replies that the adapter accepts and the journal does
    not. \<^verbatim>\<open>Delete_Plan\<close> (\<^verbatim>\<open>t2_identity_delete.py\<close>) makes the plan of a deletion, and \<^verbatim>\<open>Delete_Plan_Facts\<close> composes plan, run
    and inventory: a planned deletion removes its target and nothing else, and a recovery repeats the same request.
    \<^verbatim>\<open>Delete_Operation_Samples\<close> evaluates a plan and two runs.
  \<^item> \<^verbatim>\<open>Acm_Protocol\<close> (\<^verbatim>\<open>t2_acm_protocol.py\<close>), \<^verbatim>\<open>Aks_State\<close> (\<^verbatim>\<open>t2_aks_state.py\<close>) and \<^verbatim>\<open>Biolockout_Protocol\<close>
    (\<^verbatim>\<open>t2_biolockout_protocol.py\<close>): the credential commands that authorize an enrollment, the DER decoder of the
    keybag state, and the export of the lockout record. \<^verbatim>\<open>Acm_Facts\<close> shows that the check of a command accepts
    exactly what the builders make, \<^verbatim>\<open>Aks_Facts\<close> that the decoder accepts one encoding for each state.
  \<^item> \<^verbatim>\<open>Fprint_Identity\<close> (\<^verbatim>\<open>t2_fprint_identity.py\<close>, allocation in \<^verbatim>\<open>t2_fprint_sequence.py\<close>): the five finger slots.
    \<^verbatim>\<open>Match_Gate\<close> (\<^verbatim>\<open>t2_fprint_match_gate.py\<close>, \<^verbatim>\<open>t2_fprint_match_selection.py\<close>): the inventories that must agree before a
    match, and the finger that an event names. \<^verbatim>\<open>Match_Result\<close> (\<^verbatim>\<open>t2_fprint_result.py\<close>): the verdict and the record of
    the worker. \<^verbatim>\<open>Match_Gate_Facts\<close> and \<^verbatim>\<open>Match_Result_Facts\<close> state exactly when a gate opens and a verdict is given.

  \<^bold>\<open>State and effects.\<close> A method that changes state returns its result together with the new state, also when it
  raises. Files are values of \<open>journal_fs\<close>; \<^verbatim>\<open>flock\<close> makes each journal operation one atomic step. The results of
  \<^verbatim>\<open>os.write\<close> are arguments, so short and failing writes are covered. SHA-256 is an arbitrary function;
  only where it is said is it assumed to be free of collisions or to give 32 bytes. Transports and
  callbacks are arbitrary functions on an arbitrary world.

  \<^bold>\<open>Bounds.\<close> The only loop without a bound, the event loop of the operation, is a partial function in \<open>option\<close>.
  Integers are unbounded where Python's are; the fields of the byte protocols are checked against their widths.

  \<^bold>\<open>Not modelled.\<close> Floating-point values in JSON; strings with code points above 255; \<^verbatim>\<open>fsync\<close>; redacted
  \<^verbatim>\<open>__repr__\<close> methods; the Bridge connection, the Catacomb archive codec (an argument of
  the plans), the persistence and recovery around the deletion journal, AKS provisioning, the D-Bus service with its workers, and the
  command-line programs, which are I/O around the parts above or separate subsystems.
\<close>

end
